(* ===== verification/Prelude.thy ===== *)
theory Prelude
  imports Main "HOL-Library.AList" "HOL-Library.Char_ord" "HOL-Library.List_Lexorder"
begin

text \<open>
  Shared vocabulary of the development: Go maps as association lists, the part of Go's
  \<^verbatim>\<open>strings\<close> and \<^verbatim>\<open>time\<close> packages that the sources use, wrap-around of 64-bit
  integers, and the generic lemmas on them that the component proofs rest on.

  Conventions.  A Go \<^verbatim>\<open>string\<close> or \<^verbatim>\<open>[]byte\<close> is a list of bytes (\<^typ>\<open>string\<close>).  A slice
  whose nil-ness matters is an option (\<open>None\<close> is nil).  A Go map is an association list;
  a \<^verbatim>\<open>for range\<close> over it visits the list in order, and since statements quantify over
  every list they cover every iteration order.  Time is an integer number of nanoseconds
  since the epoch and is an argument of the operation that reads the clock.  Case mapping
  and white space are those of ASCII; bytes above 127 are left alone (UTF-8 code points
  without case, such as the CJK ones, behave exactly so).
\<close>

named_theorems status_simps \<open>distinctness and classification of status strings\<close>
named_theorems op_defs \<open>definitions of the operations of a component\<close>
named_theorems inv_intros \<open>preservation of invariants\<close>

section \<open>Go maps\<close>

type_synonym 'v gomap = "(string \<times> 'v) list"

definition gm_get :: "'v gomap \<Rightarrow> string \<Rightarrow> 'v option" where
  "gm_get m k = map_of m k"

definition gm_put :: "string \<Rightarrow> 'v \<Rightarrow> 'v gomap \<Rightarrow> 'v gomap" where
  "gm_put k v m = AList.update k v m"

definition gm_del :: "string \<Rightarrow> 'v gomap \<Rightarrow> 'v gomap" where
  "gm_del k m = AList.delete k m"

text \<open>Mutation through a pointer stored in the map: the entry changes in place.\<close>

definition gm_mod :: "string \<Rightarrow> ('v \<Rightarrow> 'v) \<Rightarrow> 'v gomap \<Rightarrow> 'v gomap" where
  "gm_mod k f m = (case gm_get m k of None \<Rightarrow> m | Some v \<Rightarrow> gm_put k (f v) m)"

definition gm_keys :: "'v gomap \<Rightarrow> string list" where
  "gm_keys m = map fst m"

definition gm_wf :: "'v gomap \<Rightarrow> bool" where
  "gm_wf m \<longleftrightarrow> distinct (gm_keys m)"

text \<open>Reading an absent key of a map of slices gives the nil slice.\<close>

definition gm_slice :: "'a list gomap \<Rightarrow> string \<Rightarrow> 'a list" where
  "gm_slice m k = (case gm_get m k of None \<Rightarrow> [] | Some xs \<Rightarrow> xs)"

definition gm_append :: "string \<Rightarrow> 'a \<Rightarrow> 'a list gomap \<Rightarrow> 'a list gomap" where
  "gm_append k x m = gm_put k (gm_slice m k @ [x]) m"

section \<open>Integers of width 64 and time\<close>

definition wrap64 :: "int \<Rightarrow> int" where
  "wrap64 x = (x + 2 ^ 63) mod 2 ^ 64 - 2 ^ 63"

definition UnixMilli :: "int \<Rightarrow> int" where
  "UnixMilli ns = ns div 1000000"

section \<open>Strings\<close>

definition has_prefix :: "string \<Rightarrow> string \<Rightarrow> bool" where
  "has_prefix s p \<longleftrightarrow> take (length p) s = p"

definition has_suffix :: "string \<Rightarrow> string \<Rightarrow> bool" where
  "has_suffix s p \<longleftrightarrow> length p \<le> length s \<and> drop (length s - length p) s = p"

definition trim_prefix :: "string \<Rightarrow> string \<Rightarrow> string" where
  "trim_prefix s p = (if has_prefix s p then drop (length p) s else s)"

definition trim_suffix :: "string \<Rightarrow> string \<Rightarrow> string" where
  "trim_suffix s p = (if has_suffix s p then take (length s - length p) s else s)"

fun contains :: "string \<Rightarrow> string \<Rightarrow> bool" where
  "contains [] sub = (sub = [])"
| "contains (c # s) sub = (has_prefix (c # s) sub \<or> contains s sub)"

definition is_space :: "char \<Rightarrow> bool" where
  "is_space c \<longleftrightarrow> c \<in> {CHR 0x09, CHR 0x0A, CHR 0x0B, CHR 0x0C, CHR 0x0D, CHR '' ''}"

definition trim_right_by :: "(char \<Rightarrow> bool) \<Rightarrow> string \<Rightarrow> string" where
  "trim_right_by p s = rev (dropWhile p (rev s))"

definition trim_space :: "string \<Rightarrow> string" where
  "trim_space s = trim_right_by is_space (dropWhile is_space s)"

definition char_code :: "char \<Rightarrow> nat" where
  "char_code c = of_char c"

definition lower_char :: "char \<Rightarrow> char" where
  "lower_char c = (if 65 \<le> char_code c \<and> char_code c \<le> 90 then char_of (char_code c + 32) else c)"

definition upper_char :: "char \<Rightarrow> char" where
  "upper_char c = (if 97 \<le> char_code c \<and> char_code c \<le> 122 then char_of (char_code c - 32) else c)"

definition to_lower :: "string \<Rightarrow> string" where
  "to_lower s = map lower_char s"

definition to_upper :: "string \<Rightarrow> string" where
  "to_upper s = map upper_char s"

definition equal_fold :: "string \<Rightarrow> string \<Rightarrow> bool" where
  "equal_fold s t \<longleftrightarrow> to_lower s = to_lower t"

fun split_char :: "char \<Rightarrow> string \<Rightarrow> string list" where
  "split_char d [] = [[]]"
| "split_char d (c # s) =
     (if c = d then [] # split_char d s
      else (case split_char d s of [] \<Rightarrow> [[c]] | w # ws \<Rightarrow> (c # w) # ws))"

fun join_with :: "string \<Rightarrow> string list \<Rightarrow> string" where
  "join_with sep [] = []"
| "join_with sep [w] = w"
| "join_with sep (w # v # ws) = w @ sep @ join_with sep (v # ws)"

function replace_all :: "string \<Rightarrow> string \<Rightarrow> string \<Rightarrow> string" where
  "replace_all s old new =
     (if old = [] \<or> s = [] then s
      else if has_prefix s old then new @ replace_all (drop (length old) s) old new
      else hd s # replace_all (tl s) old new)"
  by pat_completeness auto
termination
  by (relation "measure (\<lambda>(s, old, new). length s)") auto

fun fmt_nat :: "nat \<Rightarrow> string" where
  "fmt_nat n = (if n < 10 then [char_of (48 + n)] else fmt_nat (n div 10) @ [char_of (48 + n mod 10)])"

declare replace_all.simps [simp del] fmt_nat.simps [simp del]

section \<open>Results\<close>

text \<open>A computation over a state that may fail: \<open>Inl\<close> carries the error.\<close>

type_synonym ('e, 'a) result = "'e + 'a"

fun is_ok :: "('e, 'a) result \<Rightarrow> bool" where
  "is_ok (Inl e) = False"
| "is_ok (Inr x) = True"

text \<open>\<^verbatim>\<open>v, err := f(); if err != nil { return err }\<close> and the rest of the body.\<close>

fun res_bind :: "('e, 'a) result \<Rightarrow> ('a \<Rightarrow> ('e, 'b) result) \<Rightarrow> ('e, 'b) result" where
  "res_bind (Inl e) k = Inl e"
| "res_bind (Inr x) k = k x"

section \<open>Lemmas on maps\<close>

lemma gm_get_put [simp]: "gm_get (gm_put k v m) k' = (if k' = k then Some v else gm_get m k')"
  by (simp add: gm_get_def gm_put_def update_conv')

lemma gm_get_del [simp]: "gm_get (gm_del k m) k' = (if k' = k then None else gm_get m k')"
  by (simp add: gm_get_def gm_del_def delete_conv')

lemma gm_get_mod [simp]:
  "gm_get (gm_mod k f m) k' = (if k' = k then map_option f (gm_get m k) else gm_get m k')"
  by (auto simp: gm_mod_def split: option.splits)

lemma gm_get_Nil [simp]: "gm_get [] k = None"
  by (simp add: gm_get_def)

lemma gm_get_Some_key: "gm_get m k = Some v \<Longrightarrow> k \<in> set (gm_keys m)"
  by (auto simp: gm_get_def gm_keys_def dest: map_of_SomeD intro: rev_image_eqI)

lemma gm_get_None_key: "(gm_get m k = None) = (k \<notin> set (gm_keys m))"
  by (simp add: gm_get_def gm_keys_def map_of_eq_None_iff)

lemma gm_get_Some_in: "gm_get m k = Some v \<Longrightarrow> (k, v) \<in> set m"
  by (simp add: gm_get_def map_of_SomeD)

lemma gm_in_get: "gm_wf m \<Longrightarrow> (k, v) \<in> set m \<Longrightarrow> gm_get m k = Some v"
  by (simp add: gm_get_def gm_wf_def gm_keys_def)

lemma gm_wf_Nil [simp]: "gm_wf []"
  by (simp add: gm_wf_def gm_keys_def)

lemma gm_wf_put [simp, intro]: "gm_wf m \<Longrightarrow> gm_wf (gm_put k v m)"
  by (simp add: gm_wf_def gm_keys_def gm_put_def distinct_update)

lemma gm_wf_del [simp, intro]: "gm_wf m \<Longrightarrow> gm_wf (gm_del k m)"
  by (simp add: gm_wf_def gm_keys_def gm_del_def distinct_delete)

lemma gm_wf_mod [simp, intro]: "gm_wf m \<Longrightarrow> gm_wf (gm_mod k f m)"
  by (auto simp: gm_mod_def split: option.splits)

lemma gm_keys_put: "set (gm_keys (gm_put k v m)) = insert k (set (gm_keys m))"
  by (simp add: gm_keys_def gm_put_def dom_update)

lemma gm_get_filter:
  assumes "gm_wf m"
  shows "gm_get (filter (\<lambda>(k, v). P k v) m) k =
     (case gm_get m k of None \<Rightarrow> None | Some v \<Rightarrow> if P k v then Some v else None)"
  using assms
proof (induction m)
  case (Cons x xs)
  obtain a b where x: "x = (a, b)" by (cases x)
  have "gm_get (filter (\<lambda>(k, v). P k v) xs) a = None"
    using Cons.prems by (auto simp: x gm_get_def gm_wf_def gm_keys_def map_of_eq_None_iff)
  then show ?case using Cons by (auto simp: x gm_get_def gm_wf_def gm_keys_def split: option.splits)
qed simp

lemma gm_wf_filter [intro]: "gm_wf m \<Longrightarrow> gm_wf (filter P m)"
  by (simp add: gm_wf_def gm_keys_def distinct_map_filter)

lemma gm_slice_append [simp]:
  "gm_slice (gm_append k x m) k' = (if k' = k then gm_slice m k @ [x] else gm_slice m k')"
  by (simp add: gm_slice_def gm_append_def)

lemma gm_wf_append [simp, intro]: "gm_wf m \<Longrightarrow> gm_wf (gm_append k x m)"
  by (simp add: gm_append_def)

lemma gm_slice_Nil [simp]: "gm_slice [] k = []"
  by (simp add: gm_slice_def)

section \<open>Lemmas on strings and integers\<close>

lemma wrap64_id: "- (2 ^ 63) \<le> x \<Longrightarrow> x < 2 ^ 63 \<Longrightarrow> wrap64 x = x"
  by (simp add: wrap64_def)

lemma wrap64_range: "- (2 ^ 63) \<le> wrap64 x \<and> wrap64 x < 2 ^ 63"
  unfolding wrap64_def by simp

lemma has_prefix_append [simp]: "has_prefix (p @ s) p"
  by (simp add: has_prefix_def)

lemma trim_prefix_append [simp]: "trim_prefix (p @ s) p = s"
  by (simp add: trim_prefix_def)

lemma contains_iff: "contains s sub \<longleftrightarrow> (\<exists>a b. s = a @ sub @ b)"
proof (induction s)
  case Nil
  then show ?case by simp
next
  case (Cons c s)
  have "has_prefix (c # s) sub \<longleftrightarrow> (\<exists>b. c # s = sub @ b)"
    unfolding has_prefix_def by (metis append_eq_conv_conj append_take_drop_id)
  moreover have "(\<exists>a b. c # s = a @ sub @ b) \<longleftrightarrow>
      (\<exists>b. c # s = sub @ b) \<or> (\<exists>a b. s = a @ sub @ b)"
    by (metis append_Cons append_Nil append_eq_Cons_conv)
  ultimately show ?case using Cons.IH by simp
qed

lemma trim_space_length: "length (trim_space s) \<le> length s"
  unfolding trim_space_def trim_right_by_def
  by (metis length_dropWhile_le length_rev order_trans)

section \<open>Transition systems\<close>

text \<open>The contract of a component whose operations all keep an invariant: it holds after any number of them.\<close>

locale inv_system =
  fixes step :: "'s \<Rightarrow> 's \<Rightarrow> bool"
    and good :: "'s \<Rightarrow> bool"
  assumes step_good: "good s \<Longrightarrow> step s s' \<Longrightarrow> good s'"
begin

lemma reach_good: "step\<^sup>*\<^sup>* s s' \<Longrightarrow> good s \<Longrightarrow> good s'"
  by (induction rule: rtranclp_induct) (auto intro: step_good)

end

end
