(* ===== verification/Protocol.thy ===== *)
theory Protocol
  imports Prelude
begin

text \<open>
  The wire and storage types of \<^verbatim>\<open>internal/protocol\<close> (\<^verbatim>\<open>envelope.go\<close>, \<^verbatim>\<open>rest.go\<close>,
  \<^verbatim>\<open>ws.go\<close>): one record per struct, field names prefixed by the struct's initials, and the
  status and message-type constants.  Statuses stay strings, as in the source: a daemon may
  send any string in \<^verbatim>\<open>query_response\<close> and the hub stores it.
\<close>

section \<open>Constants\<close>

definition Version1 :: string where "Version1 = ''v1''"

definition TypeDaemonHello :: string where "TypeDaemonHello = ''daemon_hello''"
definition TypeHubAck :: string where "TypeHubAck = ''hub_ack''"
definition TypeHeartbeatPing :: string where "TypeHeartbeatPing = ''heartbeat_ping''"
definition TypeHeartbeatPong :: string where "TypeHeartbeatPong = ''heartbeat_pong''"
definition TypeQueryRequest :: string where "TypeQueryRequest = ''query_request''"
definition TypeQueryResponse :: string where "TypeQueryResponse = ''query_response''"
definition TypeQueryCancel :: string where "TypeQueryCancel = ''query_cancel''"

definition ErrCodeUnauthorized :: string where "ErrCodeUnauthorized = ''UNAUTHORIZED''"
definition ErrCodeForbidden :: string where "ErrCodeForbidden = ''FORBIDDEN''"
definition ErrCodeInvalidArgument :: string where "ErrCodeInvalidArgument = ''INVALID_ARGUMENT''"
definition ErrCodeAmbiguousTarget :: string where "ErrCodeAmbiguousTarget = ''AMBIGUOUS_TARGET''"
definition ErrCodeNotFound :: string where "ErrCodeNotFound = ''NOT_FOUND''"
definition ErrCodeRateLimited :: string where "ErrCodeRateLimited = ''RATE_LIMITED''"
definition ErrCodeInternalError :: string where "ErrCodeInternalError = ''INTERNAL_ERROR''"

definition QueryStatusPending :: string where "QueryStatusPending = ''pending''"
definition QueryStatusDispatched :: string where "QueryStatusDispatched = ''dispatched''"
definition QueryStatusQueued :: string where "QueryStatusQueued = ''queued''"
definition QueryStatusSuccess :: string where "QueryStatusSuccess = ''success''"
definition QueryStatusCompleted :: string where "QueryStatusCompleted = ''completed''"
definition QueryStatusRefused :: string where "QueryStatusRefused = ''refused''"
definition QueryStatusError :: string where "QueryStatusError = ''error''"
definition QueryStatusTimeout :: string where "QueryStatusTimeout = ''timeout''"
definition QueryStatusExpired :: string where "QueryStatusExpired = ''expired''"

lemmas status_defs =
  QueryStatusPending_def QueryStatusDispatched_def QueryStatusQueued_def QueryStatusSuccess_def
  QueryStatusCompleted_def QueryStatusRefused_def QueryStatusError_def QueryStatusTimeout_def
  QueryStatusExpired_def

section \<open>Records\<close>

record TokenUsage =
  PromptTokens :: int
  CompletionTokens :: int
  TotalTokens :: int

definition zeroUsage :: TokenUsage where
  "zeroUsage = \<lparr>PromptTokens = 0, CompletionTokens = 0, TotalTokens = 0\<rparr>"

record MemberInfo =
  m_id :: string
  m_name :: string
  m_aliases :: "string list"
  m_online :: bool
  m_last_seen_at :: int
  m_machine_name :: string
  m_workspaces :: "string list option"
  m_has_feishu_bot :: bool

record CandidateMember =
  c_id :: string
  c_name :: string
  c_matched_alias :: string

record InviteCreateRequest =
  ic_target_name :: string
  ic_aliases :: "string list"
  ic_expires_in_hours :: int

record InviteCreateResponse =
  icr_code :: string
  icr_expires_at :: int
  icr_target_name :: string

record PairRequest =
  pr_invite_code :: string
  pr_machine_name :: string
  pr_client_version :: string

record PairResponse =
  pp_member_id :: string
  pp_member_name :: string
  pp_token :: string
  pp_hub_url :: string

record MemberUpdateRequest =
  mu_name :: string
  mu_aliases :: "string list"

record QuerySubmitRequest =
  qs_target :: string
  qs_query :: string
  qs_target_workspace :: string
  qs_timeout_seconds :: int
  qs_ttl_seconds :: int
  qs_idempotency_key :: string
  qs_wait :: bool

record FeishuContext =
  fc_message_id :: string
  fc_chat_id :: string
  fc_app_id :: string

record QueryDetailResponse =
  q_query_id :: string
  q_status :: string
  q_asker_id :: string
  q_asker_name :: string
  q_target_member_id :: string
  q_target_member_name :: string
  q_target_workspace :: string
  q_query :: string
  q_answer :: string
  q_tools_used :: "string list option"
  q_duration_ms :: int
  q_token_usage :: TokenUsage
  q_queue_position :: nat
  q_ttl_expires_at :: int
  q_created_at :: int
  q_completed_at :: int
  q_error_message :: string
  q_feishu_context :: "FeishuContext option"
  q_origin :: string

record AuditLogEntry =
  al_query_id :: string
  al_timestamp :: int
  al_asker_id :: string
  al_asker_name :: string
  al_asker_type :: string
  al_target_member_id :: string
  al_target_member_name :: string
  al_query :: string
  al_status :: string
  al_answer :: string
  al_tools_used :: "string list option"
  al_duration_ms :: int

record FeishuBindingRequest =
  fb_app_id :: string
  fb_app_secret :: string
  fb_base_url :: string

record WorkspaceInfo =
  wi_id :: string
  wi_name :: string
  wi_root_path :: string
  wi_has_privacy_prompt :: bool

record DaemonHelloPayload =
  dh_session_id :: string
  dh_member_id :: string
  dh_client_version :: string
  dh_machine_name :: string
  dh_os :: string
  dh_arch :: string
  dh_max_concurrency :: int
  dh_workspaces :: "WorkspaceInfo list"

record HubAckPayload =
  ha_authenticated :: bool
  ha_session_id :: string
  ha_heartbeat_interval_sec :: int
  ha_pending_queries_count :: nat

record QueryRequestPayload =
  qr_query_id :: string
  qr_asker_id :: string
  qr_asker_name :: string
  qr_asker_type :: string
  qr_query :: string
  qr_target_workspace :: string
  qr_timeout_seconds :: int
  qr_created_at :: int

record QueryResponsePayload =
  rp_query_id :: string
  rp_status :: string
  rp_answer :: string
  rp_tools_used :: "string list option"
  rp_duration_ms :: int
  rp_token_usage :: TokenUsage
  rp_error_message :: string

section \<open>Classification of statuses\<close>

text \<open>The store's test for a query still waiting for its daemon.\<close>

definition is_waiting :: "string \<Rightarrow> bool" where
  "is_waiting st \<longleftrightarrow> st = QueryStatusQueued \<or> st = QueryStatusDispatched"

text \<open>The statuses for which the store records a completion time.\<close>

definition is_terminal :: "string \<Rightarrow> bool" where
  "is_terminal st \<longleftrightarrow> st = QueryStatusCompleted \<or> st = QueryStatusError \<or> st = QueryStatusTimeout
     \<or> st = QueryStatusRefused \<or> st = QueryStatusExpired"

lemma status_distinct [simp, status_simps]:
  "QueryStatusQueued \<noteq> QueryStatusDispatched" "QueryStatusDispatched \<noteq> QueryStatusQueued"
  "QueryStatusQueued \<noteq> QueryStatusExpired" "QueryStatusExpired \<noteq> QueryStatusQueued"
  "QueryStatusDispatched \<noteq> QueryStatusExpired" "QueryStatusExpired \<noteq> QueryStatusDispatched"
  "QueryStatusCompleted \<noteq> QueryStatusQueued" "QueryStatusCompleted \<noteq> QueryStatusDispatched"
  "QueryStatusQueued \<noteq> QueryStatusCompleted" "QueryStatusDispatched \<noteq> QueryStatusCompleted"
  "QueryStatusCompleted \<noteq> QueryStatusExpired" "QueryStatusExpired \<noteq> QueryStatusCompleted"
  "QueryStatusDispatched \<noteq> QueryStatusSuccess" "QueryStatusQueued \<noteq> QueryStatusSuccess"
  "QueryStatusExpired \<noteq> QueryStatusSuccess" "QueryStatusQueued \<noteq> []" "QueryStatusDispatched \<noteq> []"
  by (simp_all add: status_defs)

lemma is_waiting_simps [simp, status_simps]:
  "is_waiting QueryStatusQueued" "is_waiting QueryStatusDispatched"
  "\<not> is_waiting QueryStatusExpired" "\<not> is_waiting QueryStatusCompleted"
  "\<not> is_waiting QueryStatusError" "\<not> is_waiting QueryStatusTimeout" "\<not> is_waiting QueryStatusRefused"
  by (simp_all add: is_waiting_def status_defs)

lemma is_terminal_simps [simp, status_simps]:
  "is_terminal QueryStatusExpired" "is_terminal QueryStatusCompleted"
  "\<not> is_terminal QueryStatusQueued" "\<not> is_terminal QueryStatusDispatched"
  by (simp_all add: is_terminal_def status_defs)

lemma waiting_not_terminal: "is_waiting st \<Longrightarrow> \<not> is_terminal st"
  by (auto simp: is_waiting_def)

end
