(* ===== verification/Store.thy ===== *)
theory Store
  imports Protocol "HOL-Library.Product_Lexorder"
begin

text \<open>
  The hub's persistence layer, \<^verbatim>\<open>internal/store/store.go\<close>: the in-memory indexes, the
  append-only event log, the operations that change both, and replay.

  The record \<open>jsonlStore\<close> holds the indexes, whether \<^verbatim>\<open>events.jsonl\<close> is open, and the
  decoded events on disk.  The field \<open>faults\<close> is the environment's schedule of write
  failures: each append consumes its head and fails when it is \<open>True\<close>, so that every
  \<^verbatim>\<open>if err := appendEventLocked(...); err != nil\<close> branch is reachable; an exhausted
  schedule never fails.  An event is stored as what \<^verbatim>\<open>json.Unmarshal\<close> gives back for what
  \<^verbatim>\<open>json.Marshal\<close> wrote: fields with \<^verbatim>\<open>omitempty\<close> lose an empty slice.

  Hashing, sealing, base64 and the JSON text of a binding are functions of the record
  \<open>crypto\<close>, an argument of the operations that use them.  Random bytes and the clock are
  arguments too.
\<close>

section \<open>State\<close>

datatype store_error =
  ErrNotFound | ErrAmbiguousMatch | ErrInvalidInvite | ErrConflict
| ErrClosed | ErrIO | ErrRand | ErrCrypto | ErrPanic

record storedInvite =
  inv_code_hash :: string
  inv_target_name :: string
  inv_aliases :: "string list"
  inv_expires_at :: int
  inv_consumed :: bool

record idempotencyRecord =
  idem_query_id :: string
  idem_expires_at :: int

record query_update =
  u_id :: string
  u_status :: string
  u_answer :: string
  u_tools_used :: "string list option"
  u_duration_ms :: int
  u_token_usage :: TokenUsage
  u_completed_at :: int
  u_error_msg :: string

datatype event_data =
  InviteCreated storedInvite
| InviteConsumed string
| MemberCreated MemberInfo
| MemberTokenIndexed string string
| MemberUpdated string string "string list"
| MemberPresence string bool string "string list option" int
| FeishuBindingSaved string FeishuBindingRequest string
| FeishuBindingDeleted string
| QueryCreated QueryDetailResponse
| QueryUpdated query_update
| IdempotencyIndexed string string int
| OtherEvent string

record StoredEvent =
  ev_timestamp :: int
  ev_data :: event_data

record jsonlStore =
  file_open :: bool
  events_disk :: "StoredEvent list"
  faults :: "bool list"
  masterKey :: string
  salt :: string
  membersByID :: "MemberInfo gomap"
  membersByTokenHash :: "string gomap"
  invitesByCodeHash :: "storedInvite gomap"
  queriesByID :: "QueryDetailResponse gomap"
  feishuBindings :: "FeishuBindingRequest gomap"
  inboundAudit :: "string list gomap"
  outboundAudit :: "string list gomap"
  idempotencyKeys :: "idempotencyRecord gomap"

record crypto =
  sha256_hex :: "string \<Rightarrow> string"
  hmac_hex :: "string \<Rightarrow> string \<Rightarrow> string"
  gcm_seal :: "string \<Rightarrow> string \<Rightarrow> string \<Rightarrow> string"
  gcm_open :: "string \<Rightarrow> string \<Rightarrow> string \<Rightarrow> string option"
  b64_encode :: "string \<Rightarrow> string"
  b64_decode :: "string \<Rightarrow> string option"
  binding_json :: "FeishuBindingRequest \<Rightarrow> string"
  binding_of_json :: "string \<Rightarrow> FeishuBindingRequest"

definition zeroBinding :: FeishuBindingRequest where
  "zeroBinding = \<lparr>fb_app_id = [], fb_app_secret = [], fb_base_url = []\<rparr>"

section \<open>Tokens and random identifiers\<close>

definition HashToken :: "crypto \<Rightarrow> string \<Rightarrow> string" where
  "HashToken cr token = sha256_hex cr (trim_space token)"

definition HashTokenWithSalt :: "crypto \<Rightarrow> string \<Rightarrow> string \<Rightarrow> string" where
  "HashTokenWithSalt cr token slt = hmac_hex cr slt (trim_space token)"

definition hex_digit :: "nat \<Rightarrow> char" where
  "hex_digit d = (if d < 10 then char_of (48 + d) else char_of (87 + d))"

definition hex_encode :: "string \<Rightarrow> string" where
  "hex_encode bs = concat (map (\<lambda>b. [hex_digit (char_code b div 16), hex_digit (char_code b mod 16)]) bs)"

text \<open>The argument is what \<^verbatim>\<open>rand.Read\<close> filled the buffer with, \<open>None\<close> for its error.\<close>

definition RandomHex :: "string option \<Rightarrow> string option" where
  "RandomHex rnd = map_option hex_encode rnd"

section \<open>Appending to the log\<close>

definition appendEventLocked :: "int \<Rightarrow> event_data \<Rightarrow> jsonlStore \<Rightarrow> store_error option \<times> jsonlStore" where
  "appendEventLocked now d s =
     (if \<not> file_open s then (Some ErrClosed, s)
      else case faults s of
        [] \<Rightarrow> (None, s\<lparr>events_disk := events_disk s @ [\<lparr>ev_timestamp = UnixMilli now, ev_data = d\<rparr>]\<rparr>)
      | f # fs \<Rightarrow>
          (if f then (Some ErrIO, s\<lparr>faults := fs\<rparr>)
           else (None, s\<lparr>events_disk := events_disk s @ [\<lparr>ev_timestamp = UnixMilli now, ev_data = d\<rparr>],
                         faults := fs\<rparr>)))"

text \<open>\<^verbatim>\<open>if err := s.appendEventLocked(...); err != nil { return err }\<close> and the rest of the body.\<close>

definition logged ::
  "int \<Rightarrow> event_data \<Rightarrow> (jsonlStore \<Rightarrow> (store_error, 'a) result \<times> jsonlStore) \<Rightarrow> jsonlStore
     \<Rightarrow> (store_error, 'a) result \<times> jsonlStore" where
  "logged now d k s = (case appendEventLocked now d s of
       (Some e, s') \<Rightarrow> (Inl e, s')
     | (None, s') \<Rightarrow> k s')"

text \<open>\<^verbatim>\<open>_ = s.appendEventLocked(...)\<close>: the error is dropped.\<close>

definition log_ignore :: "int \<Rightarrow> event_data \<Rightarrow> jsonlStore \<Rightarrow> jsonlStore" where
  "log_ignore now d s = snd (appendEventLocked now d s)"

text \<open>What a member or a query looks like after a JSON round trip (\<^verbatim>\<open>omitempty\<close> slices).\<close>

definition omit_empty :: "'a list option \<Rightarrow> 'a list option" where
  "omit_empty xs = (if xs = Some [] then None else xs)"

definition json_member :: "MemberInfo \<Rightarrow> MemberInfo" where
  "json_member m = m\<lparr>m_workspaces := omit_empty (m_workspaces m)\<rparr>"

definition json_query :: "QueryDetailResponse \<Rightarrow> QueryDetailResponse" where
  "json_query q = q\<lparr>q_tools_used := omit_empty (q_tools_used q)\<rparr>"

definition Close :: "jsonlStore \<Rightarrow> jsonlStore" where
  "Close s = s\<lparr>file_open := False\<rparr>"

section \<open>Credentials at rest\<close>

definition aes_key_ok :: "string \<Rightarrow> bool" where
  "aes_key_ok k \<longleftrightarrow> length k \<in> {16, 24, 32}"

definition nonceSize :: nat where "nonceSize = 12"

definition encryptCredentials ::
  "crypto \<Rightarrow> string option \<Rightarrow> jsonlStore \<Rightarrow> string \<Rightarrow> (store_error, string) result" where
  "encryptCredentials cr rnd s plain =
     (if \<not> aes_key_ok (masterKey s) then Inl ErrCrypto
      else case rnd of
        None \<Rightarrow> Inl ErrRand
      | Some nonce \<Rightarrow> Inr (b64_encode cr (nonce @ gcm_seal cr (masterKey s) nonce plain)))"

definition decryptCredentials :: "crypto \<Rightarrow> jsonlStore \<Rightarrow> string \<Rightarrow> (store_error, string) result" where
  "decryptCredentials cr s encoded =
     (case b64_decode cr encoded of
        None \<Rightarrow> Inl ErrCrypto
      | Some d \<Rightarrow>
          if \<not> aes_key_ok (masterKey s) then Inl ErrCrypto
          else if length d < nonceSize then Inl ErrCrypto
          else (case gcm_open cr (masterKey s) (take nonceSize d) (drop nonceSize d) of
                  None \<Rightarrow> Inl ErrCrypto
                | Some p \<Rightarrow> Inr p))"

section \<open>Replay\<close>

definition apply_update :: "query_update \<Rightarrow> QueryDetailResponse \<Rightarrow> QueryDetailResponse" where
  "apply_update p q = q\<lparr>
     q_status := u_status p,
     q_answer := (if u_answer p \<noteq> [] then u_answer p else q_answer q),
     q_tools_used := (case u_tools_used p of None \<Rightarrow> q_tools_used q | Some ts \<Rightarrow> Some ts),
     q_duration_ms := (if u_duration_ms p > 0 then u_duration_ms p else q_duration_ms q),
     q_token_usage := u_token_usage p,
     q_completed_at := (if u_completed_at p > 0 then u_completed_at p else q_completed_at q),
     q_error_message := (if u_error_msg p \<noteq> [] then u_error_msg p else q_error_message q)\<rparr>"

definition apply_presence ::
  "bool \<Rightarrow> string \<Rightarrow> string list option \<Rightarrow> int \<Rightarrow> MemberInfo \<Rightarrow> MemberInfo" where
  "apply_presence onl mach ws seen m = m\<lparr>
     m_online := onl,
     m_machine_name := (if mach \<noteq> [] then mach else m_machine_name m),
     m_workspaces := (case ws of None \<Rightarrow> m_workspaces m | Some w \<Rightarrow> Some w),
     m_last_seen_at := seen\<rparr>"

definition apply_profile :: "string \<Rightarrow> string list \<Rightarrow> MemberInfo \<Rightarrow> MemberInfo" where
  "apply_profile nm als m = m\<lparr>m_name := (if nm \<noteq> [] then nm else m_name m), m_aliases := als\<rparr>"

definition index_query :: "QueryDetailResponse \<Rightarrow> jsonlStore \<Rightarrow> jsonlStore" where
  "index_query q s = s\<lparr>
     inboundAudit := gm_append (q_target_member_id q) (q_query_id q) (inboundAudit s),
     outboundAudit := gm_append (q_asker_id q) (q_query_id q) (outboundAudit s)\<rparr>"

fun applyEvent :: "crypto \<Rightarrow> event_data \<Rightarrow> jsonlStore \<Rightarrow> jsonlStore" where
  "applyEvent cr (InviteCreated iv) s =
     s\<lparr>invitesByCodeHash := gm_put (inv_code_hash iv) iv (invitesByCodeHash s)\<rparr>"
| "applyEvent cr (InviteConsumed ch) s =
     s\<lparr>invitesByCodeHash := gm_mod ch (\<lambda>i. i\<lparr>inv_consumed := True\<rparr>) (invitesByCodeHash s)\<rparr>"
| "applyEvent cr (MemberCreated m) s = s\<lparr>membersByID := gm_put (m_id m) m (membersByID s)\<rparr>"
| "applyEvent cr (MemberTokenIndexed th mid) s =
     s\<lparr>membersByTokenHash := gm_put th mid (membersByTokenHash s)\<rparr>"
| "applyEvent cr (MemberUpdated mid nm als) s =
     s\<lparr>membersByID := gm_mod mid (apply_profile nm als) (membersByID s)\<rparr>"
| "applyEvent cr (MemberPresence mid onl mach ws seen) s =
     s\<lparr>membersByID := gm_mod mid (apply_presence onl mach ws seen) (membersByID s)\<rparr>"
| "applyEvent cr (FeishuBindingSaved mid plainb ct) s =
     (let b = (if ct \<noteq> [] then (case decryptCredentials cr s ct of
                  Inl _ \<Rightarrow> zeroBinding | Inr p \<Rightarrow> binding_of_json cr p) else plainb)
      in s\<lparr>feishuBindings := gm_put mid b (feishuBindings s),
           membersByID := gm_mod mid (\<lambda>m. m\<lparr>m_has_feishu_bot := True\<rparr>) (membersByID s)\<rparr>)"
| "applyEvent cr (FeishuBindingDeleted mid) s =
     s\<lparr>feishuBindings := gm_del mid (feishuBindings s),
       membersByID := gm_mod mid (\<lambda>m. m\<lparr>m_has_feishu_bot := False\<rparr>) (membersByID s)\<rparr>"
| "applyEvent cr (QueryCreated q) s =
     (let s1 = (case gm_get (queriesByID s) (q_query_id q) of
                  None \<Rightarrow> index_query q s | Some _ \<Rightarrow> s)
      in s1\<lparr>queriesByID := gm_put (q_query_id q) q (queriesByID s1)\<rparr>)"
| "applyEvent cr (QueryUpdated p) s =
     s\<lparr>queriesByID := gm_mod (u_id p) (apply_update p) (queriesByID s)\<rparr>"
| "applyEvent cr (IdempotencyIndexed k qid ex) s =
     s\<lparr>idempotencyKeys := gm_put k \<lparr>idem_query_id = qid, idem_expires_at = ex\<rparr> (idempotencyKeys s)\<rparr>"
| "applyEvent cr (OtherEvent _) s = s"

text \<open>\<^verbatim>\<open>NewJSONLStore\<close>: key and salt from disk or freshly generated, empty indexes, replay.\<close>

definition loadMasterKey :: "string option \<Rightarrow> string \<Rightarrow> string" where
  "loadMasterKey onDisk fresh =
     (case onDisk of Some k \<Rightarrow> if length k \<noteq> 32 then fresh else k | None \<Rightarrow> fresh)"

definition loadSalt :: "string option \<Rightarrow> string \<Rightarrow> string" where
  "loadSalt onDisk fresh =
     (case onDisk of Some k \<Rightarrow> if length k < 16 then fresh else k | None \<Rightarrow> fresh)"

definition emptyStore :: "string \<Rightarrow> string \<Rightarrow> jsonlStore" where
  "emptyStore key slt = \<lparr>file_open = True, events_disk = [], faults = [], masterKey = key, salt = slt,
     membersByID = [], membersByTokenHash = [], invitesByCodeHash = [], queriesByID = [],
     feishuBindings = [], inboundAudit = [], outboundAudit = [], idempotencyKeys = []\<rparr>"

definition replayAll :: "crypto \<Rightarrow> StoredEvent list \<Rightarrow> jsonlStore \<Rightarrow> jsonlStore" where
  "replayAll cr evs s = foldl (\<lambda>st ev. applyEvent cr (ev_data ev) st) s evs"

definition NewJSONLStore ::
  "crypto \<Rightarrow> string option \<Rightarrow> string \<Rightarrow> string option \<Rightarrow> string \<Rightarrow> StoredEvent list \<Rightarrow> jsonlStore" where
  "NewJSONLStore cr keyFile freshKey saltFile freshSalt evs =
     (replayAll cr evs (emptyStore (loadMasterKey keyFile freshKey) (loadSalt saltFile freshSalt)))
       \<lparr>events_disk := evs\<rparr>"

section \<open>Invites and pairing\<close>

definition hourNs :: int where "hourNs = 3600000000000"

definition CreateInvite ::
  "crypto \<Rightarrow> int \<Rightarrow> string option \<Rightarrow> InviteCreateRequest \<Rightarrow> jsonlStore
     \<Rightarrow> (store_error, InviteCreateResponse) result \<times> jsonlStore" where
  "CreateInvite cr now rnd req s =
     (case RandomHex rnd of
        None \<Rightarrow> (Inl ErrRand, s)
      | Some codeRaw \<Rightarrow>
          let code = ''INV-'' @ to_upper (take 8 codeRaw) @ ''-'' @ to_upper (drop 8 codeRaw);
              codeHash = HashTokenWithSalt cr code (salt s);
              hours = (if ic_expires_in_hours req \<le> 0 then 48 else ic_expires_in_hours req);
              expiresAt = UnixMilli (now + wrap64 (hours * hourNs));
              iv = \<lparr>inv_code_hash = codeHash, inv_target_name = ic_target_name req,
                     inv_aliases = ic_aliases req, inv_expires_at = expiresAt, inv_consumed = False\<rparr>
          in logged now (InviteCreated iv)
               (\<lambda>s1. (Inr \<lparr>icr_code = code, icr_expires_at = expiresAt, icr_target_name = ic_target_name req\<rparr>,
                      s1\<lparr>invitesByCodeHash := gm_put codeHash iv (invitesByCodeHash s1)\<rparr>)) s)"

text \<open>The invite a code names, by its salted hash and then by the legacy unsalted one.\<close>

definition find_invite :: "crypto \<Rightarrow> string \<Rightarrow> jsonlStore \<Rightarrow> (string \<times> storedInvite) option" where
  "find_invite cr code s =
     (let codeHash = HashTokenWithSalt cr code (salt s); legacyHash = HashToken cr code in
      case gm_get (invitesByCodeHash s) codeHash of
        Some iv \<Rightarrow> Some (codeHash, iv)
      | None \<Rightarrow> (case gm_get (invitesByCodeHash s) legacyHash of
                   Some iv \<Rightarrow> Some (legacyHash, iv)
                 | None \<Rightarrow> None))"

definition ConsumeInvite ::
  "crypto \<Rightarrow> int \<Rightarrow> int \<Rightarrow> string option \<Rightarrow> string option \<Rightarrow> PairRequest \<Rightarrow> jsonlStore
     \<Rightarrow> (store_error, PairResponse) result \<times> jsonlStore" where
  "ConsumeInvite cr now now2 rndId rndTok req s =
     (case find_invite cr (trim_space (pr_invite_code req)) s of
        None \<Rightarrow> (Inl ErrInvalidInvite, s)
      | Some (codeHash, iv) \<Rightarrow>
          if inv_consumed iv \<or> UnixMilli now > inv_expires_at iv then (Inl ErrInvalidInvite, s)
          else (case (RandomHex rndId, RandomHex rndTok) of
            (None, _) \<Rightarrow> (Inl ErrRand, s)
          | (Some _, None) \<Rightarrow> (Inl ErrRand, s)
          | (Some idRaw, Some tokRaw) \<Rightarrow>
              let memberID = ''mem_'' @ idRaw; token = ''ti_mem_'' @ tokRaw;
                  tokenHash = HashToken cr token;
                  m = \<lparr>m_id = memberID, m_name = inv_target_name iv, m_aliases = inv_aliases iv,
                       m_online = False, m_last_seen_at = UnixMilli now2,
                       m_machine_name = pr_machine_name req, m_workspaces = None,
                       m_has_feishu_bot = False\<rparr>
              in logged now (InviteConsumed codeHash) (\<lambda>s1.
                 logged now2 (MemberCreated (json_member m)) (\<lambda>s2.
                 logged now2 (MemberTokenIndexed tokenHash memberID) (\<lambda>s3.
                   (Inr \<lparr>pp_member_id = memberID, pp_member_name = inv_target_name iv,
                         pp_token = token, pp_hub_url = []\<rparr>,
                    s3\<lparr>membersByTokenHash := gm_put tokenHash memberID (membersByTokenHash s3)\<rparr>))
                   (s2\<lparr>membersByID := gm_put memberID m (membersByID s2)\<rparr>))
                   (s1\<lparr>invitesByCodeHash := gm_mod codeHash (\<lambda>i. i\<lparr>inv_consumed := True\<rparr>)
                        (invitesByCodeHash s1)\<rparr>)) s))"

section \<open>Members\<close>

definition GetMember :: "string \<Rightarrow> jsonlStore \<Rightarrow> (store_error, MemberInfo) result" where
  "GetMember mid s = (case gm_get (membersByID s) mid of None \<Rightarrow> Inl ErrNotFound | Some m \<Rightarrow> Inr m)"

definition GetMemberByToken :: "crypto \<Rightarrow> string \<Rightarrow> jsonlStore \<Rightarrow> (store_error, MemberInfo) result" where
  "GetMemberByToken cr token s =
     (case gm_get (membersByTokenHash s) (HashToken cr token) of
        None \<Rightarrow> Inl ErrNotFound
      | Some mid \<Rightarrow> GetMember mid s)"

fun dedup_from :: "string list \<Rightarrow> CandidateMember list \<Rightarrow> CandidateMember list" where
  "dedup_from seen [] = []"
| "dedup_from seen (c # cs) =
     (if c_id c \<in> set seen then dedup_from seen cs else c # dedup_from (c_id c # seen) cs)"

definition deduplicateCandidates :: "CandidateMember list \<Rightarrow> CandidateMember list" where
  "deduplicateCandidates cs = dedup_from [] cs"

definition cand_name :: "MemberInfo \<Rightarrow> CandidateMember" where
  "cand_name m = \<lparr>c_id = m_id m, c_name = m_name m, c_matched_alias = []\<rparr>"

definition cand_alias :: "MemberInfo \<Rightarrow> string \<Rightarrow> CandidateMember" where
  "cand_alias m al = \<lparr>c_id = m_id m, c_name = m_name m, c_matched_alias = al\<rparr>"

definition exact_candidates :: "string \<Rightarrow> MemberInfo \<Rightarrow> CandidateMember list" where
  "exact_candidates trimmed m =
     (if equal_fold (m_name m) trimmed then [cand_name m]
      else map (cand_alias m) (filter (\<lambda>al. equal_fold al trimmed) (m_aliases m)))"

definition sub_candidates :: "string \<Rightarrow> MemberInfo \<Rightarrow> CandidateMember list" where
  "sub_candidates lowerTarget m =
     (if contains (to_lower (m_name m)) lowerTarget then [cand_name m]
      else map (cand_alias m)
             (filter (\<lambda>al. length al \<ge> 2 \<and> contains (to_lower al) lowerTarget) (m_aliases m)))"

definition reverse_candidates :: "string \<Rightarrow> MemberInfo \<Rightarrow> CandidateMember list" where
  "reverse_candidates lowerTarget m =
     (if contains lowerTarget (to_lower (m_name m)) then [cand_name m]
      else (case filter (\<lambda>al. length al \<ge> 2 \<and> contains lowerTarget (to_lower al)) (m_aliases m) of
              [] \<Rightarrow> [] | al # _ \<Rightarrow> [cand_alias m al]))"

text \<open>One phase: a unique candidate resolves, several are ambiguous, none goes on.\<close>

definition resolve_phase ::
  "jsonlStore \<Rightarrow> CandidateMember list \<Rightarrow> (store_error \<times> CandidateMember list, MemberInfo) result
     \<Rightarrow> (store_error \<times> CandidateMember list, MemberInfo) result" where
  "resolve_phase s cands next =
     (case deduplicateCandidates cands of
        [] \<Rightarrow> next
      | [c] \<Rightarrow> (case gm_get (membersByID s) (c_id c) of
                  None \<Rightarrow> Inl (ErrPanic, []) | Some m \<Rightarrow> Inr m)
      | cs \<Rightarrow> Inl (ErrAmbiguousMatch, cs))"

definition ResolveTargetMember ::
  "string \<Rightarrow> jsonlStore \<Rightarrow> (store_error \<times> CandidateMember list, MemberInfo) result" where
  "ResolveTargetMember target s =
     (let trimmed = trim_space target; members = map snd (membersByID s);
          lowerTarget = to_lower trimmed in
      if trimmed = [] then Inl (ErrNotFound, [])
      else case gm_get (membersByID s) trimmed of
        Some m \<Rightarrow> Inr m
      | None \<Rightarrow>
          resolve_phase s (concat (map (exact_candidates trimmed) members))
            (resolve_phase s (concat (map (sub_candidates lowerTarget) members))
              (resolve_phase s (concat (map (reverse_candidates lowerTarget) members))
                (Inl (ErrNotFound, [])))))"

definition ListMembers :: "jsonlStore \<Rightarrow> MemberInfo list" where
  "ListMembers s = map snd (membersByID s)"

definition UpdateMember ::
  "int \<Rightarrow> string \<Rightarrow> MemberUpdateRequest \<Rightarrow> jsonlStore \<Rightarrow> (store_error, MemberInfo) result \<times> jsonlStore" where
  "UpdateMember now mid req s =
     (case gm_get (membersByID s) mid of
        None \<Rightarrow> (Inl ErrNotFound, s)
      | Some m \<Rightarrow>
          logged now (MemberUpdated mid (mu_name req) (mu_aliases req))
            (\<lambda>s1. (Inr (apply_profile (mu_name req) (mu_aliases req) m),
                   s1\<lparr>membersByID := gm_mod mid (apply_profile (mu_name req) (mu_aliases req))
                        (membersByID s1)\<rparr>)) s)"

definition SetMemberOnline ::
  "int \<Rightarrow> string \<Rightarrow> bool \<Rightarrow> string \<Rightarrow> string list option \<Rightarrow> jsonlStore
     \<Rightarrow> (store_error, unit) result \<times> jsonlStore" where
  "SetMemberOnline now mid onl mach ws s =
     (case gm_get (membersByID s) mid of
        None \<Rightarrow> (Inl ErrNotFound, s)
      | Some m \<Rightarrow>
          logged now (MemberPresence mid onl mach ws (UnixMilli now))
            (\<lambda>s1. (Inr (), s1\<lparr>membersByID :=
               gm_mod mid (apply_presence onl mach ws (UnixMilli now)) (membersByID s1)\<rparr>)) s)"

section \<open>Feishu bindings\<close>

definition SaveFeishuBinding ::
  "crypto \<Rightarrow> int \<Rightarrow> string option \<Rightarrow> string \<Rightarrow> FeishuBindingRequest \<Rightarrow> jsonlStore
     \<Rightarrow> (store_error, unit) result \<times> jsonlStore" where
  "SaveFeishuBinding cr now rnd mid req s =
     (case encryptCredentials cr rnd s (binding_json cr req) of
        Inl e \<Rightarrow> (Inl e, s)
      | Inr cipherText \<Rightarrow>
          logged now (FeishuBindingSaved mid zeroBinding cipherText)
            (\<lambda>s1. (Inr (), s1\<lparr>feishuBindings := gm_put mid req (feishuBindings s1),
               membersByID := gm_mod mid (\<lambda>m. m\<lparr>m_has_feishu_bot := True\<rparr>) (membersByID s1)\<rparr>)) s)"

definition GetFeishuBinding :: "string \<Rightarrow> jsonlStore \<Rightarrow> (store_error, FeishuBindingRequest) result" where
  "GetFeishuBinding mid s =
     (case gm_get (feishuBindings s) mid of None \<Rightarrow> Inl ErrNotFound | Some b \<Rightarrow> Inr b)"

definition ListFeishuBindings :: "jsonlStore \<Rightarrow> FeishuBindingRequest gomap" where
  "ListFeishuBindings s = feishuBindings s"

definition DeleteFeishuBinding :: "int \<Rightarrow> string \<Rightarrow> jsonlStore \<Rightarrow> (store_error, unit) result \<times> jsonlStore" where
  "DeleteFeishuBinding now mid s =
     logged now (FeishuBindingDeleted mid)
       (\<lambda>s1. (Inr (), s1\<lparr>feishuBindings := gm_del mid (feishuBindings s1),
          membersByID := gm_mod mid (\<lambda>m. m\<lparr>m_has_feishu_bot := False\<rparr>) (membersByID s1)\<rparr>)) s"

section \<open>Queries\<close>

definition ttl_passed :: "int \<Rightarrow> QueryDetailResponse \<Rightarrow> bool" where
  "ttl_passed nowMs q \<longleftrightarrow> q_ttl_expires_at q > 0 \<and> nowMs > q_ttl_expires_at q"

fun queue_pos :: "jsonlStore \<Rightarrow> int \<Rightarrow> string \<Rightarrow> nat \<Rightarrow> string list \<Rightarrow> nat" where
  "queue_pos s nowMs qid pos [] = 0"
| "queue_pos s nowMs qid pos (x # xs) =
     (case gm_get (queriesByID s) x of
        None \<Rightarrow> queue_pos s nowMs qid pos xs
      | Some q \<Rightarrow>
          if is_waiting (q_status q) \<and> \<not> ttl_passed nowMs q
          then (if x = qid then Suc pos else queue_pos s nowMs qid (Suc pos) xs)
          else queue_pos s nowMs qid pos xs)"

definition calculateQueuePositionLocked :: "int \<Rightarrow> string \<Rightarrow> string \<Rightarrow> jsonlStore \<Rightarrow> nat" where
  "calculateQueuePositionLocked now qid target s =
     queue_pos s (UnixMilli now) qid 0 (gm_slice (inboundAudit s) target)"

text \<open>\<^verbatim>\<open>CreateQuery\<close> completes the caller's record in place; the completed record is returned.\<close>

definition complete_new_query :: "int \<Rightarrow> QueryDetailResponse \<Rightarrow> jsonlStore \<Rightarrow> QueryDetailResponse" where
  "complete_new_query now q s =
     (let q1 = (if q_created_at q = 0 then q\<lparr>q_created_at := UnixMilli now\<rparr> else q);
          q2 = (if q_status q1 = [] then q1\<lparr>q_status := QueryStatusQueued\<rparr> else q1)
      in if q_status q2 = QueryStatusQueued
         then q2\<lparr>q_queue_position :=
                calculateQueuePositionLocked now (q_query_id q2) (q_target_member_id q2) s + 1\<rparr>
         else q2)"

definition CreateQuery ::
  "int \<Rightarrow> QueryDetailResponse \<Rightarrow> jsonlStore \<Rightarrow> (store_error, QueryDetailResponse) result \<times> jsonlStore" where
  "CreateQuery now q0 s =
     (let q = complete_new_query now q0 s in
      logged now (QueryCreated (json_query q))
        (\<lambda>s1. (Inr q, index_query q (s1\<lparr>queriesByID := gm_put (q_query_id q) q (queriesByID s1)\<rparr>))) s)"

definition expiryText :: string where "expiryText = ''query expired in offline queue''"

definition mark_expired :: "int \<Rightarrow> QueryDetailResponse \<Rightarrow> QueryDetailResponse" where
  "mark_expired nowMs q = q\<lparr>q_status := QueryStatusExpired, q_error_message := expiryText,
     q_completed_at := nowMs, q_queue_position := 0\<rparr>"

definition expiry_update :: "int \<Rightarrow> string \<Rightarrow> query_update" where
  "expiry_update nowMs qid = \<lparr>u_id = qid, u_status = QueryStatusExpired, u_answer = [],
     u_tools_used = None, u_duration_ms = 0, u_token_usage = zeroUsage, u_completed_at = nowMs,
     u_error_msg = expiryText\<rparr>"

definition requeue_update :: "string \<Rightarrow> query_update" where
  "requeue_update qid = \<lparr>u_id = qid, u_status = QueryStatusQueued, u_answer = [],
     u_tools_used = None, u_duration_ms = 0, u_token_usage = zeroUsage, u_completed_at = 0,
     u_error_msg = []\<rparr>"

text \<open>The expiry block that \<^verbatim>\<open>GetQuery\<close>, \<^verbatim>\<open>RequeueInFlightQueries\<close>, \<^verbatim>\<open>SweepExpiredQueries\<close> and
  \<^verbatim>\<open>GetQueuedQueriesForMember\<close> share: mutate the record, append the update, drop its error.\<close>

definition expire_in_place :: "int \<Rightarrow> string \<Rightarrow> QueryDetailResponse \<Rightarrow> jsonlStore \<Rightarrow> jsonlStore" where
  "expire_in_place now k q s =
     log_ignore now (QueryUpdated (expiry_update (UnixMilli now) (q_query_id q)))
       (s\<lparr>queriesByID := gm_mod k (mark_expired (UnixMilli now)) (queriesByID s)\<rparr>)"

definition GetQuery ::
  "int \<Rightarrow> string \<Rightarrow> jsonlStore \<Rightarrow> (store_error, QueryDetailResponse) result \<times> jsonlStore" where
  "GetQuery now qid s =
     (case gm_get (queriesByID s) qid of
        None \<Rightarrow> (Inl ErrNotFound, s)
      | Some q \<Rightarrow>
          let s1 = (if is_waiting (q_status q) \<and> ttl_passed (UnixMilli now) q
                    then expire_in_place now qid q s else s)
          in (case gm_get (queriesByID s1) qid of
                None \<Rightarrow> (Inl ErrPanic, s1)
              | Some q1 \<Rightarrow>
                  let pos = (if is_waiting (q_status q1)
                             then calculateQueuePositionLocked now (q_query_id q1) (q_target_member_id q1) s1
                             else 0);
                      q2 = q1\<lparr>q_queue_position := pos\<rparr>
                  in (Inr q2, s1\<lparr>queriesByID := gm_put qid q2 (queriesByID s1)\<rparr>)))"

definition GetQueuePosition :: "int \<Rightarrow> string \<Rightarrow> jsonlStore \<Rightarrow> (store_error, nat) result" where
  "GetQueuePosition now qid s =
     (case gm_get (queriesByID s) qid of
        None \<Rightarrow> Inl ErrNotFound
      | Some q \<Rightarrow>
          if \<not> is_waiting (q_status q) then Inr 0
          else Inr (calculateQueuePositionLocked now qid (q_target_member_id q) s))"

definition live_update :: "query_update \<Rightarrow> QueryDetailResponse \<Rightarrow> QueryDetailResponse" where
  "live_update p q =
     (let q1 = q\<lparr>
        q_status := u_status p,
        q_answer := (if u_answer p \<noteq> [] then u_answer p else q_answer q),
        q_tools_used := (case u_tools_used p of None \<Rightarrow> q_tools_used q | Some ts \<Rightarrow> Some ts),
        q_duration_ms := (if u_duration_ms p > 0 then u_duration_ms p else q_duration_ms q),
        q_token_usage := u_token_usage p\<rparr>;
          q2 = (if is_terminal (u_status p)
                then q1\<lparr>q_completed_at := u_completed_at p, q_queue_position := 0\<rparr> else q1)
      in if u_error_msg p \<noteq> [] then q2\<lparr>q_error_message := u_error_msg p\<rparr> else q2)"

definition UpdateQueryStatus ::
  "int \<Rightarrow> string \<Rightarrow> string \<Rightarrow> string \<Rightarrow> string list option \<Rightarrow> int \<Rightarrow> TokenUsage \<Rightarrow> string \<Rightarrow> jsonlStore
     \<Rightarrow> (store_error, unit) result \<times> jsonlStore" where
  "UpdateQueryStatus now qid status answer tools durationMS tokens errMsg s =
     (case gm_get (queriesByID s) qid of
        None \<Rightarrow> (Inl ErrNotFound, s)
      | Some q \<Rightarrow>
          let st = (if status = QueryStatusSuccess then QueryStatusCompleted else status);
              p = \<lparr>u_id = qid, u_status = st, u_answer = answer, u_tools_used = tools,
                   u_duration_ms = durationMS, u_token_usage = tokens,
                   u_completed_at = UnixMilli now, u_error_msg = errMsg\<rparr>
          in logged now (QueryUpdated p)
               (\<lambda>s1. (Inr (), s1\<lparr>queriesByID := gm_mod qid (live_update p) (queriesByID s1)\<rparr>)) s)"

fun requeue_loop :: "int \<Rightarrow> string list \<Rightarrow> string list \<Rightarrow> jsonlStore \<Rightarrow> string list \<times> jsonlStore" where
  "requeue_loop now [] acc s = (acc, s)"
| "requeue_loop now (k # ks) acc s =
     (case gm_get (queriesByID s) k of
        None \<Rightarrow> requeue_loop now ks acc s
      | Some q \<Rightarrow>
          if q_status q = QueryStatusDispatched then
            (if ttl_passed (UnixMilli now) q then requeue_loop now ks acc (expire_in_place now k q s)
             else requeue_loop now ks (acc @ [q_query_id q])
                    (log_ignore now (QueryUpdated (requeue_update (q_query_id q)))
                       (s\<lparr>queriesByID := gm_mod k (\<lambda>q. q\<lparr>q_status := QueryStatusQueued\<rparr>)
                            (queriesByID s)\<rparr>)))
          else requeue_loop now ks acc s)"

definition RequeueInFlightQueries :: "int \<Rightarrow> string \<Rightarrow> jsonlStore \<Rightarrow> string list \<times> jsonlStore" where
  "RequeueInFlightQueries now mid s = requeue_loop now (gm_slice (inboundAudit s) mid) [] s"

fun sweep_loop :: "int \<Rightarrow> string list \<Rightarrow> nat \<Rightarrow> jsonlStore \<Rightarrow> nat \<times> jsonlStore" where
  "sweep_loop now [] cnt s = (cnt, s)"
| "sweep_loop now (k # ks) cnt s =
     (case gm_get (queriesByID s) k of
        None \<Rightarrow> sweep_loop now ks cnt s
      | Some q \<Rightarrow>
          if is_waiting (q_status q) \<and> ttl_passed (UnixMilli now) q
          then sweep_loop now ks (Suc cnt) (expire_in_place now k q s)
          else sweep_loop now ks cnt s)"

definition SweepExpiredQueries :: "int \<Rightarrow> jsonlStore \<Rightarrow> nat \<times> jsonlStore" where
  "SweepExpiredQueries now s = sweep_loop now (gm_keys (queriesByID s)) 0 s"

fun queued_loop ::
  "int \<Rightarrow> string list \<Rightarrow> QueryDetailResponse list \<Rightarrow> jsonlStore \<Rightarrow> QueryDetailResponse list \<times> jsonlStore" where
  "queued_loop now [] acc s = (acc, s)"
| "queued_loop now (k # ks) acc s =
     (case gm_get (queriesByID s) k of
        None \<Rightarrow> queued_loop now ks acc s
      | Some q \<Rightarrow>
          if is_waiting (q_status q) then
            (if ttl_passed (UnixMilli now) q then queued_loop now ks acc (expire_in_place now k q s)
             else queued_loop now ks (acc @ [q]) s)
          else queued_loop now ks acc s)"

definition number_queue :: "QueryDetailResponse list \<Rightarrow> QueryDetailResponse list" where
  "number_queue qs = map (\<lambda>(i, q). q\<lparr>q_queue_position := i + 1\<rparr>) (zip [0..<length qs] qs)"

definition GetQueuedQueriesForMember ::
  "int \<Rightarrow> string \<Rightarrow> jsonlStore \<Rightarrow> QueryDetailResponse list \<times> jsonlStore" where
  "GetQueuedQueriesForMember now mid s =
     (let (qs, s') = queued_loop now (gm_slice (inboundAudit s) mid) [] s in (number_queue qs, s'))"

section \<open>Idempotency keys\<close>

definition SaveIdempotencyKey ::
  "int \<Rightarrow> string \<Rightarrow> string \<Rightarrow> int \<Rightarrow> jsonlStore \<Rightarrow> (store_error, unit) result \<times> jsonlStore" where
  "SaveIdempotencyKey now key qid expiresAt0 s =
     (let expiresAt = (if expiresAt0 \<le> 0 then UnixMilli (now + hourNs) else expiresAt0) in
      logged now (IdempotencyIndexed key qid expiresAt)
        (\<lambda>s1. (Inr (), s1\<lparr>idempotencyKeys :=
           gm_put key \<lparr>idem_query_id = qid, idem_expires_at = expiresAt\<rparr> (idempotencyKeys s1)\<rparr>)) s)"

definition GetQueryByIdempotencyKey ::
  "int \<Rightarrow> string \<Rightarrow> jsonlStore \<Rightarrow> (store_error, QueryDetailResponse) result" where
  "GetQueryByIdempotencyKey now key s =
     (case gm_get (idempotencyKeys s) key of
        None \<Rightarrow> Inl ErrNotFound
      | Some rec \<Rightarrow>
          if UnixMilli now > idem_expires_at rec then Inl ErrNotFound
          else (case gm_get (queriesByID s) (idem_query_id rec) of
                  None \<Rightarrow> Inl ErrNotFound | Some q \<Rightarrow> Inr q))"

section \<open>Audit trails\<close>

text \<open>\<^verbatim>\<open>ordered[offset:end]\<close> with the clamping before it; \<open>None\<close> is Go's slice-bounds panic.
  The sum \<^verbatim>\<open>offset + limit\<close> is a 64-bit addition.\<close>

definition audit_page :: "int \<Rightarrow> int \<Rightarrow> string list \<Rightarrow> string list option" where
  "audit_page limit offset0 qids =
     (let total = int (length qids);
          offset1 = (if offset0 < 0 then 0 else offset0);
          offset = (if offset1 > total then total else offset1);
          end0 = wrap64 (offset + limit);
          end1 = (if limit \<le> 0 \<or> end0 > total then total else end0)
      in if end1 < offset then None
         else Some (take (nat (end1 - offset)) (drop (nat offset) (rev qids))))"

definition asker_type :: "QueryDetailResponse \<Rightarrow> string" where
  "asker_type q = (if q_origin q \<noteq> [] then q_origin q else ''member'')"

definition audit_answer :: "QueryDetailResponse \<Rightarrow> string" where
  "audit_answer q = (if q_answer q = [] \<and> q_error_message q \<noteq> []
     then ''['' @ q_status q @ ''] '' @ q_error_message q else q_answer q)"

definition audit_entry :: "QueryDetailResponse \<Rightarrow> AuditLogEntry" where
  "audit_entry q = \<lparr>al_query_id = q_query_id q, al_timestamp = q_created_at q,
     al_asker_id = q_asker_id q, al_asker_name = q_asker_name q, al_asker_type = asker_type q,
     al_target_member_id = q_target_member_id q, al_target_member_name = q_target_member_name q,
     al_query = q_query q, al_status = q_status q, al_answer = audit_answer q,
     al_tools_used = q_tools_used q, al_duration_ms = q_duration_ms q\<rparr>"

record AuditLogEntryDetailed = AuditLogEntry +
  ald_error_message :: string
  ald_token_usage :: TokenUsage

definition audit_entry_detailed :: "QueryDetailResponse \<Rightarrow> AuditLogEntryDetailed" where
  "audit_entry_detailed q =
     AuditLogEntry.extend ((audit_entry q)\<lparr>al_answer := q_answer q\<rparr>)
       (AuditLogEntryDetailed.fields (q_error_message q) (q_token_usage q))"

definition audit_lookup :: "jsonlStore \<Rightarrow> string list \<Rightarrow> QueryDetailResponse list" where
  "audit_lookup s qids = List.map_filter (gm_get (queriesByID s)) qids"

definition GetInboundAudit ::
  "string \<Rightarrow> int \<Rightarrow> int \<Rightarrow> jsonlStore \<Rightarrow> (nat \<times> AuditLogEntry list) option" where
  "GetInboundAudit mid limit offset s =
     (let qids = gm_slice (inboundAudit s) mid in
      map_option (\<lambda>sel. (length qids, map audit_entry (audit_lookup s sel))) (audit_page limit offset qids))"

definition GetOutboundAudit ::
  "string \<Rightarrow> int \<Rightarrow> int \<Rightarrow> jsonlStore \<Rightarrow> (nat \<times> AuditLogEntry list) option" where
  "GetOutboundAudit mid limit offset s =
     (let qids = gm_slice (outboundAudit s) mid in
      map_option (\<lambda>sel. (length qids, map audit_entry (audit_lookup s sel))) (audit_page limit offset qids))"

definition GetInboundAuditDetailed ::
  "string \<Rightarrow> int \<Rightarrow> int \<Rightarrow> jsonlStore \<Rightarrow> (nat \<times> AuditLogEntryDetailed list) option" where
  "GetInboundAuditDetailed mid limit offset s =
     (let qids = gm_slice (inboundAudit s) mid in
      map_option (\<lambda>sel. (length qids, map audit_entry_detailed (audit_lookup s sel)))
        (audit_page limit offset qids))"

definition GetOutboundAuditDetailed ::
  "string \<Rightarrow> int \<Rightarrow> int \<Rightarrow> jsonlStore \<Rightarrow> (nat \<times> AuditLogEntryDetailed list) option" where
  "GetOutboundAuditDetailed mid limit offset s =
     (let qids = gm_slice (outboundAudit s) mid in
      map_option (\<lambda>sel. (length qids, map audit_entry_detailed (audit_lookup s sel)))
        (audit_page limit offset qids))"

section \<open>Compaction\<close>

text \<open>How the file operations of a compaction turn out: every write to the temporary file
  succeeds or one of them fails, then the rename, then the reopening.\<close>

datatype compact_io = CompactOk | TmpFails | RenameFails | ReopenFails

definition sorted_map :: "'v gomap \<Rightarrow> (string \<times> 'v) list" where
  "sorted_map m = sort_key fst m"

definition snapshot_bindings ::
  "crypto \<Rightarrow> (string \<Rightarrow> string option) \<Rightarrow> jsonlStore \<Rightarrow> event_data list" where
  "snapshot_bindings cr nonces s =
     concat (map (\<lambda>(mid, b). case encryptCredentials cr (nonces mid) s (binding_json cr b) of
                    Inl _ \<Rightarrow> [] | Inr ct \<Rightarrow> [FeishuBindingSaved mid zeroBinding ct])
            (sorted_map (feishuBindings s)))"

definition snapshot_queries :: "jsonlStore \<Rightarrow> event_data list" where
  "snapshot_queries s =
     map (\<lambda>q. QueryCreated (json_query q))
       (sort_key (\<lambda>q. (q_created_at q, q_query_id q)) (map snd (queriesByID s)))"

definition snapshot :: "crypto \<Rightarrow> int \<Rightarrow> (string \<Rightarrow> string option) \<Rightarrow> jsonlStore \<Rightarrow> event_data list" where
  "snapshot cr now nonces s =
     map (\<lambda>(mid, m). MemberCreated (json_member m)) (sorted_map (membersByID s))
     @ map (\<lambda>(th, mid). MemberTokenIndexed th mid) (sorted_map (membersByTokenHash s))
     @ map (\<lambda>(ch, iv). InviteCreated iv)
         (filter (\<lambda>(ch, iv). \<not> inv_consumed iv \<and> inv_expires_at iv > UnixMilli now)
           (sorted_map (invitesByCodeHash s)))
     @ snapshot_bindings cr nonces s
     @ snapshot_queries s
     @ map (\<lambda>(k, rec). IdempotencyIndexed k (idem_query_id rec) (idem_expires_at rec))
         (filter (\<lambda>(k, rec). UnixMilli now \<le> idem_expires_at rec) (sorted_map (idempotencyKeys s)))"

definition Compact ::
  "crypto \<Rightarrow> compact_io \<Rightarrow> int \<Rightarrow> (string \<Rightarrow> string option) \<Rightarrow> jsonlStore
     \<Rightarrow> (store_error, unit) result \<times> jsonlStore" where
  "Compact cr io now nonces s =
     (if \<not> file_open s then (Inl ErrClosed, s)
      else
        let evs = map (\<lambda>d. \<lparr>ev_timestamp = UnixMilli now, ev_data = d\<rparr>) (snapshot cr now nonces s) in
        case io of
          TmpFails \<Rightarrow> (Inl ErrIO, s)
        | RenameFails \<Rightarrow> (Inl ErrIO, s\<lparr>file_open := False\<rparr>)
        | ReopenFails \<Rightarrow> (Inl ErrIO, s\<lparr>file_open := False, events_disk := evs\<rparr>)
        | CompactOk \<Rightarrow> (Inr (), s\<lparr>events_disk := evs\<rparr>))"

end
