(* ===== verification/Event_Sourcing.thy ===== *)
theory Event_Sourcing
  imports Store
begin

text \<open>
  Replay against live state.  The hub keeps its indexes in memory and rebuilds them on
  start-up from \<^verbatim>\<open>events.jsonl\<close>.  The locale \<open>event_log\<close> is the contract between the two:
  applying an event respects an abstraction (a view) of the state.  It is interpreted on
  \<open>applyEvent\<close> with the view \<open>store_view\<close>, and every operation of the store is shown to
  extend the log by events whose replay has the effect the operation had in memory.

  The view leaves out what the log does not carry: the cached queue position; the
  completion time of a query that is not in a terminal status (the log records one for
  every status update, the memory only for terminal ones); the token usage of a queued or
  expired query (expiry and requeueing log a zero usage); the difference between a nil and an
  empty \<^verbatim>\<open>ToolsUsed\<close>.
\<close>

section \<open>The contract\<close>

locale event_log =
  fixes appl :: "'e \<Rightarrow> 's \<Rightarrow> 's"
    and view :: "'s \<Rightarrow> 'v"
    and ok :: "'e \<Rightarrow> bool"
  assumes appl_cong: "ok e \<Longrightarrow> view s = view t \<Longrightarrow> view (appl e s) = view (appl e t)"
begin

lemma replay_cong:
  "\<forall>e \<in> set es. ok e \<Longrightarrow> view s = view t \<Longrightarrow>
     view (foldl (\<lambda>st e. appl e st) s es) = view (foldl (\<lambda>st e. appl e st) t es)"
proof (induction es arbitrary: s t)
  case Nil
  then show ?case by simp
next
  case (Cons e es)
  from Cons.prems have "view (appl e s) = view (appl e t)"
    by (intro appl_cong) simp_all
  with Cons.prems(1) have "view (foldl (\<lambda>st e. appl e st) (appl e s) es)
      = view (foldl (\<lambda>st e. appl e st) (appl e t) es)"
    by (intro Cons.IH) simp_all
  then show ?case by simp
qed

lemma replay_snoc:
  assumes "view (foldl (\<lambda>st e. appl e st) s0 es) = view s" and "ok e" and "view s' = view (appl e s)"
  shows "view (foldl (\<lambda>st e. appl e st) s0 (es @ [e])) = view s'"
proof -
  have "view (appl e (foldl (\<lambda>st e. appl e st) s0 es)) = view (appl e s)"
    using assms(2,1) by (rule appl_cong)
  then show ?thesis using assms(3) by simp
qed

end

section \<open>The view of a store\<close>

definition core :: "QueryDetailResponse \<Rightarrow> QueryDetailResponse" where
  "core q = q\<lparr>q_queue_position := 0,
     q_tools_used := omit_empty (q_tools_used q),
     q_completed_at := (if is_terminal (q_status q) then q_completed_at q else 0),
     q_token_usage := (if q_status q \<in> {QueryStatusQueued, QueryStatusExpired}
        then zeroUsage else q_token_usage q)\<rparr>"

record store_view =
  v_key :: string
  v_members :: "string \<Rightarrow> MemberInfo option"
  v_tokens :: "string \<Rightarrow> string option"
  v_invites :: "string \<Rightarrow> storedInvite option"
  v_queries :: "string \<Rightarrow> QueryDetailResponse option"
  v_bindings :: "string \<Rightarrow> FeishuBindingRequest option"
  v_inbound :: "string \<Rightarrow> string list"
  v_outbound :: "string \<Rightarrow> string list"
  v_idem :: "string \<Rightarrow> idempotencyRecord option"

definition view_of :: "jsonlStore \<Rightarrow> store_view" where
  "view_of s = \<lparr>v_key = masterKey s,
     v_members = gm_get (membersByID s),
     v_tokens = gm_get (membersByTokenHash s),
     v_invites = gm_get (invitesByCodeHash s),
     v_queries = (\<lambda>k. map_option core (gm_get (queriesByID s) k)),
     v_bindings = gm_get (feishuBindings s),
     v_inbound = gm_slice (inboundAudit s),
     v_outbound = gm_slice (outboundAudit s),
     v_idem = gm_get (idempotencyKeys s)\<rparr>"

text \<open>A terminal status is never logged without a completion time.\<close>

fun event_ok :: "event_data \<Rightarrow> bool" where
  "event_ok (QueryUpdated p) = (is_terminal (u_status p) \<longrightarrow> u_completed_at p > 0)"
| "event_ok _ = True"

definition restarted :: "crypto \<Rightarrow> jsonlStore \<Rightarrow> jsonlStore" where
  "restarted cr s = replayAll cr (events_disk s) (emptyStore (masterKey s) (salt s))"

definition coherent :: "crypto \<Rightarrow> jsonlStore \<Rightarrow> bool" where
  "coherent cr s \<longleftrightarrow> view_of (restarted cr s) = view_of s
     \<and> (\<forall>ev \<in> set (events_disk s). event_ok (ev_data ev))"

text \<open>Map keys agree with the identifiers inside the records.\<close>

definition keys_ok :: "jsonlStore \<Rightarrow> bool" where
  "keys_ok s \<longleftrightarrow> (\<forall>k m. gm_get (membersByID s) k = Some m \<longrightarrow> m_id m = k)
     \<and> (\<forall>k q. gm_get (queriesByID s) k = Some q \<longrightarrow> q_query_id q = k)
     \<and> (\<forall>k i. gm_get (invitesByCodeHash s) k = Some i \<longrightarrow> inv_code_hash i = k)"

definition writable :: "jsonlStore \<Rightarrow> bool" where
  "writable s \<longleftrightarrow> file_open s \<and> True \<notin> set (faults s)"

text \<open>What the operations rely on in the packages outside the repository: sealing with a
  12-byte nonce can be undone, base64 and the JSON of a binding can be read back, and the
  base64 text of a non-empty string is not empty.\<close>

definition crypto_ok :: "crypto \<Rightarrow> bool" where
  "crypto_ok cr \<longleftrightarrow>
     (\<forall>k n p. length n = nonceSize \<longrightarrow> gcm_open cr k n (gcm_seal cr k n p) = Some p)
     \<and> (\<forall>x. b64_decode cr (b64_encode cr x) = Some x)
     \<and> (\<forall>x. x \<noteq> [] \<longrightarrow> b64_encode cr x \<noteq> [])
     \<and> (\<forall>b. binding_of_json cr (binding_json cr b) = b)"

definition nonce_ok :: "string option \<Rightarrow> bool" where
  "nonce_ok rnd \<longleftrightarrow> (\<forall>n. rnd = Some n \<longrightarrow> length n = nonceSize)"

section \<open>Operations as steps\<close>

inductive store_step :: "crypto \<Rightarrow> jsonlStore \<Rightarrow> jsonlStore \<Rightarrow> bool" for cr where
  st_invite: "CreateInvite cr now rnd req s = (r1, s') \<Longrightarrow> store_step cr s s'"
| st_pair: "ConsumeInvite cr now now2 rndId rndTok preq s = (r2, s') \<Longrightarrow> store_step cr s s'"
| st_member: "UpdateMember now mid mreq s = (r3, s') \<Longrightarrow> store_step cr s s'"
| st_presence: "SetMemberOnline now mid onl mach ws s = (r4, s') \<Longrightarrow> store_step cr s s'"
| st_bind: "nonce_ok rnd \<Longrightarrow> SaveFeishuBinding cr now rnd mid b s = (r5, s') \<Longrightarrow> store_step cr s s'"
| st_unbind: "DeleteFeishuBinding now mid s = (r6, s') \<Longrightarrow> store_step cr s s'"
| st_create: "gm_get (queriesByID s) (q_query_id q) = None \<Longrightarrow> CreateQuery now q s = (r7, s')
     \<Longrightarrow> store_step cr s s'"
| st_get: "writable s \<Longrightarrow> UnixMilli now > 0 \<Longrightarrow> GetQuery now qid s = (r8, s') \<Longrightarrow> store_step cr s s'"
| st_update: "UnixMilli now > 0
     \<Longrightarrow> UpdateQueryStatus now qid st ans tools dur tok err s = (r9, s') \<Longrightarrow> store_step cr s s'"
| st_requeue: "writable s \<Longrightarrow> UnixMilli now > 0 \<Longrightarrow> RequeueInFlightQueries now mid s = (r10, s')
     \<Longrightarrow> store_step cr s s'"
| st_sweep: "writable s \<Longrightarrow> UnixMilli now > 0 \<Longrightarrow> SweepExpiredQueries now s = (r11, s')
     \<Longrightarrow> store_step cr s s'"
| st_queued: "writable s \<Longrightarrow> UnixMilli now > 0 \<Longrightarrow> GetQueuedQueriesForMember now mid s = (r12, s')
     \<Longrightarrow> store_step cr s s'"
| st_idem: "SaveIdempotencyKey now key qid ex s = (r13, s') \<Longrightarrow> store_step cr s s'"
| st_close: "store_step cr s (Close s)"

inductive store_reach :: "crypto \<Rightarrow> jsonlStore \<Rightarrow> jsonlStore \<Rightarrow> bool" for cr s0 where
  reach_start: "store_reach cr s0 s0"
| reach_step: "store_reach cr s0 s \<Longrightarrow> store_step cr s s' \<Longrightarrow> store_reach cr s0 s'"

section \<open>Queries: the view and updates\<close>

lemma core_simps [simp]:
  "core (q\<lparr>q_queue_position := n\<rparr>) = core q"
  "core (json_query q) = core q"
  "q_status (core q) = q_status q"
  "q_query_id (core q) = q_query_id q"
  "q_target_member_id (core q) = q_target_member_id q"
  by (simp_all add: core_def json_query_def omit_empty_def)

lemma core_apply_update_cong:
  assumes "is_terminal (u_status p) \<longrightarrow> u_completed_at p > 0" and "core q = core r"
  shows "core (apply_update p q) = core (apply_update p r)"
  using assms
  by (cases q, cases r) (auto simp: core_def apply_update_def split: option.splits)

lemma core_live_update:
  assumes "is_terminal (u_status p) \<longrightarrow> u_completed_at p > 0"
  shows "core (live_update p q) = core (apply_update p q)"
  using assms by (cases q) (auto simp: core_def live_update_def apply_update_def Let_def)

lemma core_mark_expired:
  assumes "nowMs > 0"
  shows "core (mark_expired nowMs q) = core (apply_update (expiry_update nowMs k) q)"
  using assms
  by (cases q) (simp add: core_def mark_expired_def apply_update_def expiry_update_def expiryText_def)

lemma core_requeue:
  "core (q\<lparr>q_status := QueryStatusQueued\<rparr>) = core (apply_update (requeue_update k) q)"
  by (cases q) (simp add: core_def apply_update_def requeue_update_def)

section \<open>Events respect the view\<close>

lemma view_eqD:
  assumes "view_of s = view_of t"
  shows "masterKey s = masterKey t" "gm_get (membersByID s) = gm_get (membersByID t)"
    "gm_get (membersByTokenHash s) = gm_get (membersByTokenHash t)"
    "gm_get (invitesByCodeHash s) = gm_get (invitesByCodeHash t)"
    "map_option core (gm_get (queriesByID s) k) = map_option core (gm_get (queriesByID t) k)"
    "gm_get (feishuBindings s) = gm_get (feishuBindings t)"
    "gm_slice (inboundAudit s) = gm_slice (inboundAudit t)"
    "gm_slice (outboundAudit s) = gm_slice (outboundAudit t)"
    "gm_get (idempotencyKeys s) = gm_get (idempotencyKeys t)"
  using assms by (simp_all add: view_of_def fun_eq_iff)

lemma view_eqI:
  assumes "masterKey s = masterKey t" "\<And>k. gm_get (membersByID s) k = gm_get (membersByID t) k"
    "\<And>k. gm_get (membersByTokenHash s) k = gm_get (membersByTokenHash t) k"
    "\<And>k. gm_get (invitesByCodeHash s) k = gm_get (invitesByCodeHash t) k"
    "\<And>k. map_option core (gm_get (queriesByID s) k) = map_option core (gm_get (queriesByID t) k)"
    "\<And>k. gm_get (feishuBindings s) k = gm_get (feishuBindings t) k"
    "\<And>k. gm_slice (inboundAudit s) k = gm_slice (inboundAudit t) k"
    "\<And>k. gm_slice (outboundAudit s) k = gm_slice (outboundAudit t) k"
    "\<And>k. gm_get (idempotencyKeys s) k = gm_get (idempotencyKeys t) k"
  shows "view_of s = view_of t"
  using assms by (simp add: view_of_def fun_eq_iff)

lemma decrypt_key_only: "masterKey s = masterKey t \<Longrightarrow> decryptCredentials cr s ct = decryptCredentials cr t ct"
  by (simp add: decryptCredentials_def split: option.split)

lemma queries_same_None:
  "map_option core (gm_get m k) = map_option core (gm_get m' k) \<Longrightarrow> (gm_get m k = None) = (gm_get m' k = None)"
  by (metis map_option_is_None)

lemma applyEvent_view_cong:
  assumes ok: "event_ok e" and v: "view_of s = view_of t"
  shows "view_of (applyEvent cr e s) = view_of (applyEvent cr e t)"
proof (cases e)
  case (QueryCreated q)
  have "(gm_get (queriesByID s) (q_query_id q) = None) = (gm_get (queriesByID t) (q_query_id q) = None)"
    using view_eqD(5) [OF v] by (rule queries_same_None)
  with QueryCreated v show ?thesis
    by (auto intro!: view_eqI simp: view_eqD [OF v] index_query_def Let_def split: option.splits)
next
  case (QueryUpdated p)
  have "map_option core (map_option (apply_update p) (gm_get (queriesByID s) (u_id p)))
      = map_option core (map_option (apply_update p) (gm_get (queriesByID t) (u_id p)))"
    using view_eqD(5) [OF v, of "u_id p"] ok QueryUpdated
    by (cases "gm_get (queriesByID s) (u_id p)"; cases "gm_get (queriesByID t) (u_id p)")
       (auto intro: core_apply_update_cong)
  with QueryUpdated v show ?thesis
    by (auto intro!: view_eqI simp: view_eqD [OF v])
next
  case (FeishuBindingSaved mid b ct)
  with v show ?thesis
    by (auto intro!: view_eqI simp: view_eqD [OF v] Let_def decrypt_key_only [OF view_eqD(1) [OF v]])
qed (auto intro!: view_eqI simp: view_eqD [OF v])

interpretation store_log: event_log "applyEvent cr" view_of event_ok for cr
  by unfold_locales (rule applyEvent_view_cong)

section \<open>Coherence is kept by appending and by unlogged changes\<close>

lemma replayAll_conv:
  "replayAll cr evs s = foldl (\<lambda>st e. applyEvent cr e st) s (map ev_data evs)"
  by (simp add: replayAll_def foldl_map)

lemma coherent_snoc:
  assumes c: "coherent cr s"
    and log: "events_disk s' = events_disk s @ [ev]" "masterKey s' = masterKey s" "salt s' = salt s"
    and ok: "event_ok (ev_data ev)"
    and eff: "view_of s' = view_of (applyEvent cr (ev_data ev) s)"
  shows "coherent cr s'"
proof -
  have "view_of (foldl (\<lambda>st e. applyEvent cr e st) (emptyStore (masterKey s) (salt s))
           (map ev_data (events_disk s) @ [ev_data ev])) = view_of s'"
    using c ok eff
    by (intro store_log.replay_snoc [where s = s]) (simp_all add: coherent_def restarted_def replayAll_conv)
  with c ok log show ?thesis
    by (auto simp: coherent_def restarted_def replayAll_conv)
qed

lemma coherent_same:
  assumes "coherent cr s" and "events_disk s' = events_disk s" "masterKey s' = masterKey s"
    "salt s' = salt s" "view_of s' = view_of s"
  shows "coherent cr s'"
  using assms by (simp add: coherent_def restarted_def)

lemma append_cases:
  obtains (closed) "appendEventLocked now d s = (Some ErrClosed, s)"
  | (fault) fs where "appendEventLocked now d s = (Some ErrIO, s\<lparr>faults := fs\<rparr>)"
  | (written) fs where "appendEventLocked now d s =
      (None, s\<lparr>events_disk := events_disk s @ [\<lparr>ev_timestamp = UnixMilli now, ev_data = d\<rparr>], faults := fs\<rparr>)"
      and "fs = [] \<or> fs = tl (faults s)"
proof (cases "file_open s")
  case False
  then show ?thesis using closed by (simp add: appendEventLocked_def)
next
  case True
  show ?thesis
  proof (cases "faults s")
    case Nil
    with True have "appendEventLocked now d s =
      (None, s\<lparr>events_disk := events_disk s @ [\<lparr>ev_timestamp = UnixMilli now, ev_data = d\<rparr>], faults := []\<rparr>)"
      by (simp add: appendEventLocked_def)
    then show ?thesis using written by blast
  next
    case (Cons f fs)
    with True show ?thesis
      by (cases f) (auto simp: appendEventLocked_def intro: fault written)
  qed
qed

lemma coherent_faults [simp]: "coherent cr (s\<lparr>faults := fs\<rparr>) = coherent cr s"
  by (simp add: coherent_def restarted_def view_of_def)

lemma keys_ok_faults [simp]: "keys_ok (s\<lparr>faults := fs\<rparr>) = keys_ok s"
  by (simp add: keys_ok_def)

lemma view_log_fields [simp]:
  "view_of (s\<lparr>events_disk := evs, faults := fs\<rparr>) = view_of s"
  "view_of (s\<lparr>faults := fs\<rparr>) = view_of s"
  by (simp_all add: view_of_def)

end
