(* ===== verification/Store_Coherence.thy ===== *)
theory Store_Coherence
  imports Event_Sourcing
begin

text \<open>
  Every operation of the store keeps the log and the indexes coherent: one lemma per
  operation, then the property over all reachable states, in which \<^verbatim>\<open>NewJSONLStore\<close> on the
  events of a running hub gives back the state the hub had.
\<close>

definition sinv :: "crypto \<Rightarrow> jsonlStore \<Rightarrow> bool" where
  "sinv cr s \<longleftrightarrow> coherent cr s \<and> keys_ok s"

lemma sinv_snoc:
  assumes "sinv cr s" and "events_disk s' = events_disk s @ [ev]" "masterKey s' = masterKey s"
    "salt s' = salt s" and "event_ok (ev_data ev)"
    and "view_of s' = view_of (applyEvent cr (ev_data ev) s)" and "keys_ok s'"
  shows "sinv cr s'"
  using assms by (auto simp: sinv_def intro: coherent_snoc)

lemma sinv_same:
  assumes "sinv cr s" and "events_disk s' = events_disk s" "masterKey s' = masterKey s"
    "salt s' = salt s" "view_of s' = view_of s" "keys_ok s'"
  shows "sinv cr s'"
  using assms by (auto simp: sinv_def intro: coherent_same)

lemma sinv_faults [simp]: "sinv cr (s\<lparr>faults := fs\<rparr>) = sinv cr s"
  by (simp add: sinv_def)

abbreviation with_event :: "jsonlStore \<Rightarrow> int \<Rightarrow> event_data \<Rightarrow> bool list \<Rightarrow> jsonlStore" where
  "with_event s now d fs \<equiv>
     s\<lparr>events_disk := events_disk s @ [\<lparr>ev_timestamp = UnixMilli now, ev_data = d\<rparr>], faults := fs\<rparr>"

lemma logged_sinv:
  assumes s: "sinv cr s" and r: "logged now d k s = (r, s')"
    and k: "\<And>fs. k (with_event s now d fs) = (r, s') \<Longrightarrow> sinv cr s'"
  shows "sinv cr s'"
proof (cases rule: append_cases [of now d s])
  case closed
  with s r show ?thesis by (simp add: logged_def)
next
  case (fault fs)
  with s r show ?thesis by (auto simp: logged_def)
next
  case (written fs)
  with r have "k (with_event s now d fs) = (r, s')" by (simp add: logged_def)
  then show ?thesis by (rule k)
qed

text \<open>The shape of most operations: append one event, then a change that never fails.\<close>

lemma logged_event_sinv:
  assumes s: "sinv cr s" and r: "logged now d (\<lambda>s1. (f s1, g s1)) s = (r, s')"
    and ok: "event_ok d"
    and frame: "\<And>s1. events_disk (g s1) = events_disk s1" "\<And>s1. masterKey (g s1) = masterKey s1"
      "\<And>s1. salt (g s1) = salt s1"
    and eff: "\<And>fs. view_of (g (with_event s now d fs)) = view_of (applyEvent cr d s)"
    and keys: "\<And>fs. keys_ok (g (with_event s now d fs))"
  shows "sinv cr s'"
proof (rule logged_sinv [OF s r])
  fix fs
  assume "(f (with_event s now d fs), g (with_event s now d fs)) = (r, s')"
  then have s': "s' = g (with_event s now d fs)" by simp
  show "sinv cr s'"
    by (rule sinv_snoc [OF s, where ev = "\<lparr>ev_timestamp = UnixMilli now, ev_data = d\<rparr>"])
       (simp_all add: s' frame ok eff keys)
qed

text \<open>The same with the rest of a longer body after the change.\<close>

lemma logged_then_sinv:
  assumes s: "sinv cr s" and r: "logged now d (\<lambda>s1. k (g s1)) s = (r, s')"
    and rest: "\<And>fs. sinv cr (g (with_event s now d fs)) \<Longrightarrow> k (g (with_event s now d fs)) = (r, s')
      \<Longrightarrow> sinv cr s'"
    and ok: "event_ok d"
    and frame: "\<And>s1. events_disk (g s1) = events_disk s1" "\<And>s1. masterKey (g s1) = masterKey s1"
      "\<And>s1. salt (g s1) = salt s1"
    and eff: "\<And>fs. view_of (g (with_event s now d fs)) = view_of (applyEvent cr d s)"
    and keys: "\<And>fs. keys_ok (g (with_event s now d fs))"
  shows "sinv cr s'"
proof (rule logged_sinv [OF s r])
  fix fs
  assume k: "k (g (with_event s now d fs)) = (r, s')"
  have "sinv cr (g (with_event s now d fs))"
    by (rule sinv_snoc [OF s, where ev = "\<lparr>ev_timestamp = UnixMilli now, ev_data = d\<rparr>"])
       (simp_all add: frame ok eff keys)
  then show "sinv cr s'" using k by (rule rest)
qed

lemma keys_okD:
  assumes "keys_ok s"
  shows "gm_get (membersByID s) k = Some m \<Longrightarrow> m_id m = k"
    and "gm_get (queriesByID s) k = Some q \<Longrightarrow> q_query_id q = k"
    and "gm_get (invitesByCodeHash s) k = Some i \<Longrightarrow> inv_code_hash i = k"
  using assms by (auto simp: keys_ok_def)

lemma sinv_keys: "sinv cr s \<Longrightarrow> keys_ok s"
  by (simp add: sinv_def)

section \<open>Invites, members, bindings\<close>

lemma apply_id_simps [simp]:
  "m_id (apply_profile nm als m) = m_id m"
  "m_id (apply_presence onl mach ws seen m) = m_id m"
  "q_query_id (apply_update p q) = q_query_id q"
  "q_query_id (live_update p q) = q_query_id q"
  "q_query_id (mark_expired n q) = q_query_id q"
  by (simp_all add: apply_profile_def apply_presence_def apply_update_def live_update_def
      mark_expired_def Let_def)

lemma CreateInvite_sinv:
  assumes s: "sinv cr s" and r: "CreateInvite cr now rnd req s = (r, s')"
  shows "sinv cr s'"
proof (cases "RandomHex rnd")
  case None
  with s r show ?thesis by (simp add: CreateInvite_def)
next
  case (Some raw)
  show ?thesis
    by (rule logged_event_sinv [OF s r [unfolded CreateInvite_def Some option.case Let_def]])
       (use sinv_keys [OF s] in \<open>auto intro!: view_eqI simp: keys_ok_def split: if_splits\<close>)
qed

lemma ConsumeInvite_sinv:
  assumes s: "sinv cr s" and r: "ConsumeInvite cr now now2 rndId rndTok req s = (r, s')"
  shows "sinv cr s'"
proof (cases "find_invite cr (trim_space (pr_invite_code req)) s")
  case None
  with s r show ?thesis by (simp add: ConsumeInvite_def)
next
  case (Some p)
  obtain ch iv where p: "p = (ch, iv)" by (cases p)
  show ?thesis
  proof (cases "inv_consumed iv \<or> UnixMilli now > inv_expires_at iv \<or> RandomHex rndId = None
      \<or> RandomHex rndTok = None")
    case True
    with s r Some p show ?thesis
      by (auto simp: ConsumeInvite_def split: if_splits option.splits)
  next
    case False
    then obtain idRaw tokRaw where rnd: "RandomHex rndId = Some idRaw" "RandomHex rndTok = Some tokRaw"
      by auto
    have v: "\<not> (inv_consumed iv \<or> UnixMilli now > inv_expires_at iv)" using False by simp
    define m where "m = \<lparr>m_id = ''mem_'' @ idRaw, m_name = inv_target_name iv, m_aliases = inv_aliases iv,
      m_online = False, m_last_seen_at = UnixMilli now2, m_machine_name = pr_machine_name req,
      m_workspaces = None, m_has_feishu_bot = False\<rparr>"
    have m: "json_member m = m" "m_id m = ''mem_'' @ idRaw"
      by (simp_all add: m_def json_member_def omit_empty_def)
    define th where "th = HashToken cr (''ti_mem_'' @ tokRaw)"
    define used where "used t = t\<lparr>invitesByCodeHash := gm_mod ch (\<lambda>i. i\<lparr>inv_consumed := True\<rparr>)
      (invitesByCodeHash t)\<rparr>" for t :: jsonlStore
    define joined where "joined t = t\<lparr>membersByID := gm_put (m_id m) m (membersByID t)\<rparr>" for t :: jsonlStore
    note r' = r [unfolded ConsumeInvite_def Some p rnd option.case prod.case Let_def if_not_P [OF v],
        folded m_def th_def used_def, unfolded m, folded m(2) joined_def]
    show ?thesis
    proof (rule logged_then_sinv [where g = used, OF s r'])
      fix fs
      let ?t = "used (with_event s now (InviteConsumed ch) fs)"
      assume t: "sinv cr ?t" and r2: "logged now2 (MemberCreated m) (\<lambda>s2. logged now2
         (MemberTokenIndexed th (m_id m)) (\<lambda>s3. (Inr \<lparr>pp_member_id = m_id m, pp_member_name = inv_target_name iv,
            pp_token = ''ti_mem_'' @ tokRaw, pp_hub_url = []\<rparr>, s3\<lparr>membersByTokenHash :=
            gm_put th (m_id m) (membersByTokenHash s3)\<rparr>)) (joined s2)) ?t = (r, s')"
      show "sinv cr s'"
      proof (rule logged_then_sinv [where g = joined, OF t r2])
        fix fs'
        let ?u = "joined (with_event ?t now2 (MemberCreated m) fs')"
        assume u: "sinv cr ?u" and r3: "logged now2 (MemberTokenIndexed th (m_id m)) (\<lambda>s3.
           (Inr \<lparr>pp_member_id = m_id m, pp_member_name = inv_target_name iv,
            pp_token = ''ti_mem_'' @ tokRaw, pp_hub_url = []\<rparr>, s3\<lparr>membersByTokenHash :=
            gm_put th (m_id m) (membersByTokenHash s3)\<rparr>)) ?u = (r, s')"
        show "sinv cr s'"
          by (rule logged_event_sinv [OF u r3])
             (use sinv_keys [OF u] in \<open>auto intro!: view_eqI simp: keys_ok_def split: if_splits\<close>)
      qed (use sinv_keys [OF t] in \<open>auto intro!: view_eqI simp: keys_ok_def joined_def split: if_splits\<close>)
    qed (use sinv_keys [OF s] in \<open>auto intro!: view_eqI simp: keys_ok_def used_def split: if_splits\<close>)
  qed
qed

lemma UpdateMember_sinv:
  assumes s: "sinv cr s" and r: "UpdateMember now mid req s = (r, s')"
  shows "sinv cr s'"
proof (cases "gm_get (membersByID s) mid")
  case None
  with s r show ?thesis by (simp add: UpdateMember_def)
next
  case (Some m)
  show ?thesis
    by (rule logged_event_sinv [OF s r [unfolded UpdateMember_def Some option.case]])
       (use sinv_keys [OF s] in \<open>auto intro!: view_eqI simp: keys_ok_def split: if_splits\<close>)
qed

lemma SetMemberOnline_sinv:
  assumes s: "sinv cr s" and r: "SetMemberOnline now mid onl mach ws s = (r, s')"
  shows "sinv cr s'"
proof (cases "gm_get (membersByID s) mid")
  case None
  with s r show ?thesis by (simp add: SetMemberOnline_def)
next
  case (Some m)
  show ?thesis
    by (rule logged_event_sinv [OF s r [unfolded SetMemberOnline_def Some option.case]])
       (use sinv_keys [OF s] in \<open>auto intro!: view_eqI simp: keys_ok_def split: if_splits\<close>)
qed

lemma encrypt_decrypt:
  assumes "crypto_ok cr" and "nonce_ok rnd" and "encryptCredentials cr rnd s p = Inr ct"
  shows "decryptCredentials cr s ct = Inr p" and "ct \<noteq> []"
proof -
  from assms(3) obtain n where k: "aes_key_ok (masterKey s)" and rnd: "rnd = Some n"
    and ct: "ct = b64_encode cr (n @ gcm_seal cr (masterKey s) n p)"
    by (auto simp: encryptCredentials_def split: if_splits option.splits)
  have n: "length n = nonceSize" using assms(2) rnd by (simp add: nonce_ok_def)
  then have "n \<noteq> []" by (auto simp: nonceSize_def)
  then show "ct \<noteq> []" using assms(1) ct by (simp add: crypto_ok_def)
  show "decryptCredentials cr s ct = Inr p"
    using assms(1) k n ct by (simp add: decryptCredentials_def crypto_ok_def)
qed

lemma SaveFeishuBinding_sinv:
  assumes cr: "crypto_ok cr" and n: "nonce_ok rnd" and s: "sinv cr s"
    and r: "SaveFeishuBinding cr now rnd mid b s = (r, s')"
  shows "sinv cr s'"
proof (cases "encryptCredentials cr rnd s (binding_json cr b)")
  case (Inl e)
  with s r show ?thesis by (simp add: SaveFeishuBinding_def)
next
  case (Inr ct)
  note ed = encrypt_decrypt [OF cr n Inr]
  have "binding_of_json cr (binding_json cr b) = b" using cr by (simp add: crypto_ok_def)
  with ed have ev: "view_of (s\<lparr>feishuBindings := gm_put mid b (feishuBindings s),
       membersByID := gm_mod mid (\<lambda>m. m\<lparr>m_has_feishu_bot := True\<rparr>) (membersByID s)\<rparr>)
     = view_of (applyEvent cr (FeishuBindingSaved mid zeroBinding ct) s)"
    by simp
  show ?thesis
    by (rule logged_event_sinv [OF s r [unfolded SaveFeishuBinding_def Inr sum.case]])
       (use sinv_keys [OF s] ev [symmetric] in \<open>auto intro!: view_eqI simp: keys_ok_def view_of_def split: if_splits\<close>)
qed

lemma DeleteFeishuBinding_sinv:
  assumes s: "sinv cr s" and r: "DeleteFeishuBinding now mid s = (r, s')"
  shows "sinv cr s'"
  by (rule logged_event_sinv [OF s r [unfolded DeleteFeishuBinding_def]])
     (use sinv_keys [OF s] in \<open>auto intro!: view_eqI simp: keys_ok_def split: if_splits\<close>)

lemma SaveIdempotencyKey_sinv:
  assumes s: "sinv cr s" and r: "SaveIdempotencyKey now key qid ex s = (r, s')"
  shows "sinv cr s'"
  by (rule logged_event_sinv [OF s r [unfolded SaveIdempotencyKey_def Let_def]])
     (use sinv_keys [OF s] in \<open>auto intro!: view_eqI simp: keys_ok_def split: if_splits\<close>)

section \<open>Queries\<close>

lemma keys_ok_log [simp]:
  "keys_ok (s\<lparr>queriesByID := qs, events_disk := evs, faults := fs\<rparr>) = keys_ok (s\<lparr>queriesByID := qs\<rparr>)"
  "keys_ok (s\<lparr>queriesByID := qs, events_disk := evs\<rparr>) = keys_ok (s\<lparr>queriesByID := qs\<rparr>)"
  by (simp_all add: keys_ok_def)

lemma log_ignore_writable:
  assumes "writable s"
  obtains fs where "log_ignore now d s = with_event s now d fs" and "writable (log_ignore now d s)"
proof (cases "faults s")
  case Nil
  with assms that [of "[]"] show ?thesis
    by (simp add: writable_def log_ignore_def appendEventLocked_def)
next
  case (Cons f fs)
  with assms that [of fs] show ?thesis
    by (auto simp: writable_def log_ignore_def appendEventLocked_def)
qed

text \<open>A change of one query in memory whose update event is appended right after it.\<close>

lemma change_then_log:
  assumes s: "sinv cr s" and w: "writable s" and q: "gm_get (queriesByID s) k = Some q"
    and eff: "core (f q) = core (apply_update p q)" and id: "q_query_id (f q) = q_query_id q"
    and p: "u_id p = k" and ok: "event_ok (QueryUpdated p)"
  shows "sinv cr (log_ignore now (QueryUpdated p) (s\<lparr>queriesByID := gm_mod k f (queriesByID s)\<rparr>))"
    and "writable (log_ignore now (QueryUpdated p) (s\<lparr>queriesByID := gm_mod k f (queriesByID s)\<rparr>))"
proof -
  let ?t = "s\<lparr>queriesByID := gm_mod k f (queriesByID s)\<rparr>"
  have "writable ?t" using w by (simp add: writable_def)
  then obtain fs where fs: "log_ignore now (QueryUpdated p) ?t = with_event ?t now (QueryUpdated p) fs"
    and w': "writable (log_ignore now (QueryUpdated p) ?t)"
    by (rule log_ignore_writable)
  show "writable (log_ignore now (QueryUpdated p) ?t)" by (fact w')
  have keys: "keys_ok ?t" using sinv_keys [OF s] q id by (auto simp: keys_ok_def split: if_splits)
  show "sinv cr (log_ignore now (QueryUpdated p) ?t)"
    unfolding fs
    by (rule sinv_snoc [OF s, where ev = "\<lparr>ev_timestamp = UnixMilli now, ev_data = QueryUpdated p\<rparr>"])
       (use keys q eff p ok in \<open>auto intro!: view_eqI\<close>)
qed

lemma expire_in_place_sinv:
  assumes "sinv cr s" and "writable s" and "UnixMilli now > 0" and "gm_get (queriesByID s) k = Some q"
  shows "sinv cr (expire_in_place now k q s)" and "writable (expire_in_place now k q s)"
proof -
  have k: "q_query_id q = k" using assms by (auto simp: sinv_def dest: keys_okD)
  note c = change_then_log [OF assms(1,2,4), where f = "mark_expired (UnixMilli now)"
      and p = "expiry_update (UnixMilli now) k" and now = now]
  show "sinv cr (expire_in_place now k q s)" and "writable (expire_in_place now k q s)"
    unfolding expire_in_place_def k
    by (rule c; (rule core_mark_expired [OF assms(3)] | use assms(3) in \<open>simp add: expiry_update_def\<close>))+
qed

lemma requeue_sinv:
  assumes "sinv cr s" and "writable s" and "gm_get (queriesByID s) k = Some q"
  shows "sinv cr (log_ignore now (QueryUpdated (requeue_update (q_query_id q)))
       (s\<lparr>queriesByID := gm_mod k (\<lambda>q. q\<lparr>q_status := QueryStatusQueued\<rparr>) (queriesByID s)\<rparr>))"
    and "writable (log_ignore now (QueryUpdated (requeue_update (q_query_id q)))
       (s\<lparr>queriesByID := gm_mod k (\<lambda>q. q\<lparr>q_status := QueryStatusQueued\<rparr>) (queriesByID s)\<rparr>))"
proof -
  have k: "q_query_id q = k" using assms by (auto simp: sinv_def dest: keys_okD)
  note c = change_then_log [OF assms, where f = "\<lambda>q. q\<lparr>q_status := QueryStatusQueued\<rparr>"
      and p = "requeue_update k" and now = now]
  have "core (q\<lparr>q_status := QueryStatusQueued\<rparr>) = core (apply_update (requeue_update k) q)"
    by (rule core_requeue)
  then show "sinv cr (log_ignore now (QueryUpdated (requeue_update (q_query_id q)))
       (s\<lparr>queriesByID := gm_mod k (\<lambda>q. q\<lparr>q_status := QueryStatusQueued\<rparr>) (queriesByID s)\<rparr>))"
    and "writable (log_ignore now (QueryUpdated (requeue_update (q_query_id q)))
       (s\<lparr>queriesByID := gm_mod k (\<lambda>q. q\<lparr>q_status := QueryStatusQueued\<rparr>) (queriesByID s)\<rparr>))"
    unfolding k by (rule c; simp add: requeue_update_def)+
qed

lemma requeue_loop_sinv:
  "sinv cr s \<Longrightarrow> writable s \<Longrightarrow> UnixMilli now > 0 \<Longrightarrow> requeue_loop now ks acc s = (r, s')
     \<Longrightarrow> sinv cr s' \<and> writable s'"
  by (induction now ks acc s rule: requeue_loop.induct)
     (auto split: option.splits if_splits simp: expire_in_place_sinv requeue_sinv)

lemma sweep_loop_sinv:
  "sinv cr s \<Longrightarrow> writable s \<Longrightarrow> UnixMilli now > 0 \<Longrightarrow> sweep_loop now ks n s = (r, s')
     \<Longrightarrow> sinv cr s' \<and> writable s'"
  by (induction now ks n s rule: sweep_loop.induct)
     (auto split: option.splits if_splits simp: expire_in_place_sinv)

lemma queued_loop_sinv:
  "sinv cr s \<Longrightarrow> writable s \<Longrightarrow> UnixMilli now > 0 \<Longrightarrow> queued_loop now ks acc s = (r, s')
     \<Longrightarrow> sinv cr s' \<and> writable s'"
  by (induction now ks acc s rule: queued_loop.induct)
     (auto split: option.splits if_splits simp: expire_in_place_sinv)

lemma position_cache_sinv:
  assumes "sinv cr s" and "gm_get (queriesByID s) k = Some q"
  shows "sinv cr (s\<lparr>queriesByID := gm_put k (q\<lparr>q_queue_position := n\<rparr>) (queriesByID s)\<rparr>)"
  by (rule sinv_same [OF assms(1)])
     (use assms in \<open>auto intro!: view_eqI simp: sinv_def keys_ok_def split: if_splits\<close>)

lemma GetQuery_sinv:
  assumes s: "sinv cr s" "writable s" "UnixMilli now > 0" and r: "GetQuery now qid s = (r, s')"
  shows "sinv cr s'"
proof (cases "gm_get (queriesByID s) qid")
  case None
  with s r show ?thesis by (simp add: GetQuery_def)
next
  case (Some q)
  define s1 where "s1 = (if is_waiting (q_status q) \<and> ttl_passed (UnixMilli now) q
    then expire_in_place now qid q s else s)"
  have "sinv cr s1" using s Some by (simp add: s1_def expire_in_place_sinv)
  with r Some show ?thesis
    by (auto simp: GetQuery_def Let_def s1_def [symmetric] position_cache_sinv split: option.splits)
qed

lemma UpdateQueryStatus_sinv:
  assumes s: "sinv cr s" and now: "UnixMilli now > 0"
    and r: "UpdateQueryStatus now qid st ans tools dur tok err s = (r, s')"
  shows "sinv cr s'"
proof (cases "gm_get (queriesByID s) qid")
  case None
  with s r show ?thesis by (simp add: UpdateQueryStatus_def)
next
  case (Some q)
  show ?thesis
    by (rule logged_event_sinv [OF s r [unfolded UpdateQueryStatus_def Some option.case Let_def]])
       (use sinv_keys [OF s] Some now in
          \<open>auto intro!: view_eqI core_live_update simp: keys_ok_def split: if_splits\<close>)
qed

lemma complete_new_query_fields [simp]:
  "q_query_id (complete_new_query now q s) = q_query_id q"
  "q_target_member_id (complete_new_query now q s) = q_target_member_id q"
  "q_asker_id (complete_new_query now q s) = q_asker_id q"
  by (simp_all add: complete_new_query_def Let_def)

lemma json_query_fields [simp]:
  "q_query_id (json_query q) = q_query_id q" "q_target_member_id (json_query q) = q_target_member_id q"
  "q_asker_id (json_query q) = q_asker_id q"
  by (simp_all add: json_query_def)

lemma CreateQuery_sinv:
  assumes s: "sinv cr s" and fresh: "gm_get (queriesByID s) (q_query_id q) = None"
    and r: "CreateQuery now q s = (r, s')"
  shows "sinv cr s'"
  by (rule logged_event_sinv [OF s r [unfolded CreateQuery_def Let_def]])
     (use sinv_keys [OF s] fresh in
        \<open>auto intro!: view_eqI simp: keys_ok_def index_query_def split: if_splits\<close>)

section \<open>All reachable states\<close>

lemma store_step_sinv:
  assumes "crypto_ok cr" and "store_step cr s s'" and "sinv cr s"
  shows "sinv cr s'"
  using assms(2,3,1)
proof (induction rule: store_step.induct)
  case (st_requeue s now mid r s')
  then show ?case by (auto simp: RequeueInFlightQueries_def dest: requeue_loop_sinv)
next
  case (st_sweep s now r s')
  then show ?case by (auto simp: SweepExpiredQueries_def dest: sweep_loop_sinv)
next
  case (st_queued s now mid r s')
  then show ?case
    by (auto simp: GetQueuedQueriesForMember_def dest: queued_loop_sinv split: prod.splits)
next
  case (st_close s)
  then show ?case by (auto simp: Close_def sinv_def coherent_def restarted_def keys_ok_def view_of_def)
qed (blast intro: CreateInvite_sinv ConsumeInvite_sinv UpdateMember_sinv SetMemberOnline_sinv
      SaveFeishuBinding_sinv DeleteFeishuBinding_sinv CreateQuery_sinv GetQuery_sinv
      UpdateQueryStatus_sinv SaveIdempotencyKey_sinv)+

lemma store_reach_sinv:
  assumes "store_reach cr s0 s" and "crypto_ok cr" and "sinv cr s0"
  shows "sinv cr s"
  using assms by (induction rule: store_reach.induct) (blast intro: store_step_sinv)+

lemma emptyStore_sinv: "sinv cr (emptyStore key slt)"
  by (simp add: sinv_def coherent_def restarted_def replayAll_def emptyStore_def keys_ok_def)

end
