(* ===== verification/Store_Restart.thy ===== *)
theory Store_Restart
  imports Store_Coherence
begin

text \<open>
  The property that makes the event log worth having: a hub that restarts finds the state it
  had.  First that no operation changes the key or the salt, that replay keeps map keys
  and record identifiers in agreement, and that what \<^verbatim>\<open>NewJSONLStore\<close> returns is coherent.
\<close>

section \<open>Keys and salt are constant\<close>

definition same_secrets :: "jsonlStore \<Rightarrow> jsonlStore \<Rightarrow> bool" where
  "same_secrets s t \<longleftrightarrow> masterKey t = masterKey s \<and> salt t = salt s"

lemma same_secrets_refl [simp]: "same_secrets s s"
  by (simp add: same_secrets_def)

lemma same_secrets_trans: "same_secrets s t \<Longrightarrow> same_secrets t u \<Longrightarrow> same_secrets s u"
  by (simp add: same_secrets_def)

lemma same_secrets_eq:
  "masterKey t = masterKey s \<Longrightarrow> salt t = salt s \<Longrightarrow> same_secrets s t"
  by (simp add: same_secrets_def)

lemma logged_secrets:
  assumes r: "logged now d k s = (r, s')"
    and k: "\<And>fs. k (with_event s now d fs) = (r, s') \<Longrightarrow> same_secrets s s'"
  shows "same_secrets s s'"
proof (cases rule: append_cases [of now d s])
  case closed
  with r show ?thesis by (simp add: logged_def)
next
  case (fault fs)
  with r show ?thesis by (auto simp: logged_def same_secrets_def)
next
  case (written fs)
  with r have "k (with_event s now d fs) = (r, s')" by (simp add: logged_def)
  then show ?thesis by (rule k)
qed

lemma log_ignore_frame [simp]:
  "masterKey (log_ignore now d s) = masterKey s" "salt (log_ignore now d s) = salt s"
  "queriesByID (log_ignore now d s) = queriesByID s" "inboundAudit (log_ignore now d s) = inboundAudit s"
  "membersByID (log_ignore now d s) = membersByID s"
  by (simp_all add: log_ignore_def appendEventLocked_def split: list.split)

lemma expire_in_place_frame [simp]:
  "masterKey (expire_in_place now k q s) = masterKey s" "salt (expire_in_place now k q s) = salt s"
  "queriesByID (expire_in_place now k q s) = gm_mod k (mark_expired (UnixMilli now)) (queriesByID s)"
  "inboundAudit (expire_in_place now k q s) = inboundAudit s"
  by (simp_all add: expire_in_place_def)

lemma loop_secrets:
  "requeue_loop now ks acc s = (r, s') \<Longrightarrow> same_secrets s s'"
  "sweep_loop now ks n s = (r2, s') \<Longrightarrow> same_secrets s s'"
  "queued_loop now ks qacc s = (r3, s') \<Longrightarrow> same_secrets s s'"
proof -
  show "requeue_loop now ks acc s = (r, s') \<Longrightarrow> same_secrets s s'"
    by (induction now ks acc s rule: requeue_loop.induct)
       (auto simp: same_secrets_def split: option.splits if_splits)
  show "sweep_loop now ks n s = (r2, s') \<Longrightarrow> same_secrets s s'"
    by (induction now ks n s rule: sweep_loop.induct)
       (auto simp: same_secrets_def split: option.splits if_splits)
  show "queued_loop now ks qacc s = (r3, s') \<Longrightarrow> same_secrets s s'"
    by (induction now ks qacc s rule: queued_loop.induct)
       (auto simp: same_secrets_def split: option.splits if_splits)
qed

lemma ConsumeInvite_secrets:
  assumes "ConsumeInvite cr now now2 rndId rndTok req s = (r, s')"
  shows "same_secrets s s'"
  using assms
  by (auto simp: ConsumeInvite_def Let_def logged_def appendEventLocked_def same_secrets_def
      split: option.splits if_splits prod.splits list.splits)

lemma store_step_secrets: "store_step cr s s' \<Longrightarrow> same_secrets s s'"
proof (induction rule: store_step.induct)
  case (st_invite now rnd req s r1 s')
  then show ?case
    by (auto simp: CreateInvite_def Let_def split: option.splits elim!: logged_secrets
        intro: same_secrets_eq)
next
  case (st_create s q now r7 s')
  then show ?case
    by (auto simp: CreateQuery_def Let_def index_query_def elim!: logged_secrets intro: same_secrets_eq)
next
  case (st_get s now qid r8 s')
  then show ?case by (auto simp: GetQuery_def Let_def same_secrets_def split: option.splits if_splits)
qed (auto simp: UpdateMember_def SetMemberOnline_def SaveFeishuBinding_def
      DeleteFeishuBinding_def UpdateQueryStatus_def SaveIdempotencyKey_def Let_def Close_def
      RequeueInFlightQueries_def SweepExpiredQueries_def GetQueuedQueriesForMember_def
      split: option.splits sum.splits prod.splits
      elim!: logged_secrets intro: same_secrets_eq ConsumeInvite_secrets dest: loop_secrets)

lemma store_reach_secrets: "store_reach cr s0 s \<Longrightarrow> same_secrets s0 s"
  by (induction rule: store_reach.induct) (auto intro: same_secrets_trans store_step_secrets)

section \<open>A freshly opened store is coherent\<close>

lemma applyEvent_keys_ok: "keys_ok s \<Longrightarrow> keys_ok (applyEvent cr e s)"
  by (cases e) (auto simp: keys_ok_def index_query_def Let_def split: option.splits if_splits)

lemma applyEvent_secrets: "same_secrets s (applyEvent cr e s)"
  by (cases e) (auto simp: same_secrets_def index_query_def Let_def split: option.splits)

lemma replayAll_keys_ok: "keys_ok s \<Longrightarrow> keys_ok (replayAll cr evs s)"
  unfolding replayAll_def by (induction evs arbitrary: s) (simp_all add: applyEvent_keys_ok)

lemma replayAll_secrets: "same_secrets s (replayAll cr evs s)"
  unfolding replayAll_def
  by (induction evs arbitrary: s) (auto intro: same_secrets_trans applyEvent_secrets)

lemma NewJSONLStore_secrets [simp]:
  "masterKey (NewJSONLStore cr kf fk sf fsl evs) = loadMasterKey kf fk"
  "salt (NewJSONLStore cr kf fk sf fsl evs) = loadSalt sf fsl"
  using replayAll_secrets [of "emptyStore (loadMasterKey kf fk) (loadSalt sf fsl)" cr evs]
  by (simp_all add: NewJSONLStore_def same_secrets_def emptyStore_def)

lemma NewJSONLStore_events [simp]: "events_disk (NewJSONLStore cr kf fk sf fsl evs) = evs"
  by (simp add: NewJSONLStore_def)

lemma view_events_disk [simp]: "view_of (s\<lparr>events_disk := evs\<rparr>) = view_of s"
  by (simp add: view_of_def)

lemma keys_ok_events_disk [simp]: "keys_ok (s\<lparr>events_disk := evs\<rparr>) = keys_ok s"
  by (simp add: keys_ok_def)

lemma NewJSONLStore_view:
  "view_of (NewJSONLStore cr kf fk sf fsl evs)
     = view_of (replayAll cr evs (emptyStore (loadMasterKey kf fk) (loadSalt sf fsl)))"
  by (simp add: NewJSONLStore_def)

lemma NewJSONLStore_sinv:
  assumes "\<forall>ev \<in> set evs. event_ok (ev_data ev)"
  shows "sinv cr (NewJSONLStore cr kf fk sf fsl evs)"
proof -
  have "keys_ok (emptyStore (loadMasterKey kf fk) (loadSalt sf fsl))"
    by (simp add: keys_ok_def emptyStore_def)
  then have "keys_ok (NewJSONLStore cr kf fk sf fsl evs)"
    by (simp add: NewJSONLStore_def replayAll_keys_ok)
  then show ?thesis using assms
    by (simp add: sinv_def coherent_def restarted_def NewJSONLStore_view)
qed

lemma loadMasterKey_length: "length fk = 32 \<Longrightarrow> length (loadMasterKey kf fk) = 32"
  by (simp add: loadMasterKey_def split: option.split)

lemma loadSalt_length: "16 \<le> length fsl \<Longrightarrow> 16 \<le> length (loadSalt sf fsl)"
  by (simp add: loadSalt_def split: option.split)

lemma load_again [simp]:
  "length key = 32 \<Longrightarrow> loadMasterKey (Some key) fk = key"
  "16 \<le> length slt \<Longrightarrow> loadSalt (Some slt) fsl = slt"
  by (simp_all add: loadMasterKey_def loadSalt_def)

section \<open>Restart\<close>


text \<open>An instance of the cryptographic record that satisfies \<open>crypto_ok\<close>: nothing is hidden, every
  string is its own hash, a binding is written as its three fields, each byte marked and each field closed.\<close>

fun mark_string :: "string \<Rightarrow> string" where
  "mark_string [] = ''.''"
| "mark_string (c # cs) = CHR ''x'' # c # mark_string cs"

fun unmark_string :: "string \<Rightarrow> string \<times> string" where
  "unmark_string (x # c # cs) = (if x = CHR ''x'' then (let (s, r) = unmark_string cs in (c # s, r)) else ([], c # cs))"
| "unmark_string _ = ([], [])"

lemma unmark_mark: "unmark_string (mark_string s @ r) = (s, r)"
  by (induction s) (cases r; simp)+

definition plain_crypto :: crypto where
  "plain_crypto = \<lparr>sha256_hex = (\<lambda>x. x), hmac_hex = (\<lambda>k x. k @ x), gcm_seal = (\<lambda>k n p. p),
     gcm_open = (\<lambda>k n c. Some c), b64_encode = (\<lambda>x. x), b64_decode = Some,
     binding_json = (\<lambda>b. mark_string (fb_app_id b) @ mark_string (fb_app_secret b) @ mark_string (fb_base_url b)),
     binding_of_json = (\<lambda>t. let (a, r1) = unmark_string t; (b, r2) = unmark_string r1; (c, r3) = unmark_string r2
        in \<lparr>fb_app_id = a, fb_app_secret = b, fb_base_url = c\<rparr>)\<rparr>"

lemma unmark_mark_end: "unmark_string (mark_string s) = (s, [])"
  using unmark_mark [of s "[]"] by simp

lemma plain_crypto_ok: "crypto_ok plain_crypto"
  by (simp add: crypto_ok_def plain_crypto_def unmark_mark unmark_mark_end)

definition demo_key :: string where "demo_key = replicate 32 CHR ''k''"
definition demo_salt :: string where "demo_salt = replicate 16 CHR ''s''"

definition demo_start :: jsonlStore where
  "demo_start = NewJSONLStore plain_crypto None demo_key None demo_salt []"

definition demo_invited :: jsonlStore where
  "demo_invited = snd (CreateInvite plain_crypto 5000000 (Some ''12345678'')
     \<lparr>ic_target_name = ''Ann'', ic_aliases = [], ic_expires_in_hours = 0\<rparr> demo_start)"

lemma demo_start_eq: "demo_start = emptyStore demo_key demo_salt"
  by (simp add: demo_start_def NewJSONLStore_def replayAll_def loadMasterKey_def loadSalt_def emptyStore_def)

lemma demo_reach: "store_reach plain_crypto demo_start demo_invited"
  unfolding demo_invited_def
  by (rule reach_step [OF reach_start], rule st_invite, rule prod.collapse [symmetric])


end
