(* ===== verification/Store_Properties.thy ===== *)
theory Store_Properties
  imports Store_Restart
begin

text \<open>
  What the single operations of the store promise: an invite pairs one member, the token
  that pairing hands out authenticates that member, queue positions are positions in the
  member's FIFO, a sweep leaves no overdue query, a failed append changes no index.
\<close>

section \<open>Failed appends\<close>

lemma logged_error_view:
  assumes r: "logged now d k s = (Inl e, s')"
    and k: "\<And>fs e s2. k (with_event s now d fs) \<noteq> (Inl e, s2)"
  shows "view_of s' = view_of s" and "e \<in> {ErrClosed, ErrIO}"
proof -
  have "view_of s' = view_of s \<and> e \<in> {ErrClosed, ErrIO}"
    by (cases rule: append_cases [of now d s]) (use r k in \<open>auto simp: logged_def\<close>)
  then show "view_of s' = view_of s" and "e \<in> {ErrClosed, ErrIO}" by simp_all
qed



section \<open>Invites and tokens\<close>

definition spent :: "crypto \<Rightarrow> string \<Rightarrow> jsonlStore \<Rightarrow> bool" where
  "spent cr code s \<longleftrightarrow> (\<exists>ch iv. find_invite cr code s = Some (ch, iv) \<and> inv_consumed iv)"

lemma ConsumeInvite_spent:
  assumes "spent cr (trim_space (pr_invite_code req)) s"
  shows "ConsumeInvite cr now now2 ri rt req s = (Inl ErrInvalidInvite, s)"
  using assms by (auto simp: spent_def ConsumeInvite_def)

lemma find_invite_consume:
  assumes "find_invite cr code s = Some (ch, iv)"
    and "invitesByCodeHash t = gm_mod ch (\<lambda>i. i\<lparr>inv_consumed := True\<rparr>) (invitesByCodeHash s)"
    and "salt t = salt s"
  shows "find_invite cr code t = Some (ch, iv\<lparr>inv_consumed := True\<rparr>)"
  using assms by (auto simp: find_invite_def Let_def split: option.splits if_splits)

lemma logged_ok:
  assumes "logged now d k s = (Inr x, s')"
  shows "\<exists>fs. k (with_event s now d fs) = (Inr x, s')"
  by (cases rule: append_cases [of now d s]) (use assms in \<open>auto simp: logged_def\<close>)

text \<open>Everything a successful pairing did.\<close>

lemma ConsumeInvite_success:
  assumes "ConsumeInvite cr now now2 ri rt req s = (Inr p, s')"
  obtains ch iv m where "find_invite cr (trim_space (pr_invite_code req)) s = Some (ch, iv)"
    "\<not> inv_consumed iv" "UnixMilli now \<le> inv_expires_at iv"
    "invitesByCodeHash s' = gm_mod ch (\<lambda>i. i\<lparr>inv_consumed := True\<rparr>) (invitesByCodeHash s)"
    "membersByID s' = gm_put (pp_member_id p) m (membersByID s)"
    "membersByTokenHash s' = gm_put (HashToken cr (pp_token p)) (pp_member_id p) (membersByTokenHash s)"
    "salt s' = salt s" "m_id m = pp_member_id p" "m_name m = inv_target_name iv"
    "m_aliases m = inv_aliases iv" "\<not> m_online m" "\<not> m_has_feishu_bot m"
proof -
  from assms obtain ch iv where f: "find_invite cr (trim_space (pr_invite_code req)) s = Some (ch, iv)"
    by (auto simp: ConsumeInvite_def split: option.splits)
  have v: "\<not> inv_consumed iv" "UnixMilli now \<le> inv_expires_at iv"
    using assms f by (auto simp: ConsumeInvite_def split: if_splits)
  from assms f v obtain a b where "RandomHex ri = Some a" "RandomHex rt = Some b"
    by (cases "RandomHex ri"; cases "RandomHex rt") (simp_all add: ConsumeInvite_def)
  note r = assms [unfolded ConsumeInvite_def f this option.case prod.case Let_def]
  show ?thesis
    by (rule that [OF f v]) (use r v in \<open>auto dest!: logged_ok\<close>)
qed

lemma ConsumeInvite_ok_spent:
  assumes "ConsumeInvite cr now now2 ri rt req s = (r, s')" and "is_ok r"
  shows "spent cr (trim_space (pr_invite_code req)) s'"
proof -
  from assms obtain p where "ConsumeInvite cr now now2 ri rt req s = (Inr p, s')" by (cases r) auto
  then show ?thesis
    by (rule ConsumeInvite_success) (auto simp: spent_def dest: find_invite_consume)
qed

record pair_attempt =
  pa_now :: int
  pa_now2 :: int
  pa_rnd_id :: "string option"
  pa_rnd_tok :: "string option"
  pa_req :: PairRequest

text \<open>Pairing requests served one after the other, as the store's mutex serialises them.\<close>

fun run_attempts ::
  "crypto \<Rightarrow> pair_attempt list \<Rightarrow> jsonlStore \<Rightarrow> (store_error, PairResponse) result list" where
  "run_attempts cr [] s = []"
| "run_attempts cr (a # as) s =
     (let (r, s') = ConsumeInvite cr (pa_now a) (pa_now2 a) (pa_rnd_id a) (pa_rnd_tok a) (pa_req a) s
      in r # run_attempts cr as s')"

lemma run_attempts_spent:
  assumes "\<forall>a \<in> set as. trim_space (pr_invite_code (pa_req a)) = code" and "spent cr code s"
  shows "\<forall>r \<in> set (run_attempts cr as s). r = Inl ErrInvalidInvite"
  using assms by (induction as) (auto simp: ConsumeInvite_spent)

text \<open>An invite code pairs at most one member: of any sequence of pairing requests with the
  same code, whatever their times, random bytes and append failures in between, at most one succeeds.\<close>

theorem invite_single_use:
  assumes "\<forall>a \<in> set as. trim_space (pr_invite_code (pa_req a)) = code"
  shows "length (filter is_ok (run_attempts cr as s)) \<le> 1"
  using assms
proof (induction as arbitrary: s)
  case Nil
  then show ?case by simp
next
  case (Cons a as)
  obtain r s' where r: "ConsumeInvite cr (pa_now a) (pa_now2 a) (pa_rnd_id a) (pa_rnd_tok a) (pa_req a) s = (r, s')"
    by fastforce
  show ?case
  proof (cases "is_ok r")
    case False
    with Cons r show ?thesis by simp
  next
    case True
    have "spent cr code s'" using ConsumeInvite_ok_spent [OF r True] Cons.prems by simp
    with Cons.prems have "\<forall>r \<in> set (run_attempts cr as s'). r = Inl ErrInvalidInvite"
      by (intro run_attempts_spent) simp_all
    then have "filter is_ok (run_attempts cr as s') = []"
      by (auto simp: filter_empty_conv)
    with r show ?thesis by simp
  qed
qed

definition demo_attempt :: pair_attempt where
  "demo_attempt = \<lparr>pa_now = 6000000, pa_now2 = 6000000, pa_rnd_id = Some ''a'', pa_rnd_tok = Some ''b'',
     pa_req = \<lparr>pr_invite_code = ''INV-31323334-35363738 '', pr_machine_name = ''box'', pr_client_version = []\<rparr>\<rparr>"

lemmas demo_eval = demo_start_def demo_invited_def demo_attempt_def
  demo_key_def demo_salt_def plain_crypto_def

lemma demo_attempts_eval:
  "map is_ok (run_attempts plain_crypto [demo_attempt, demo_attempt] demo_invited) = [True, False]"
  by code_simp

theorem invite_single_use_witness:
  "map is_ok (run_attempts plain_crypto [demo_attempt, demo_attempt] demo_invited) = [True, False] \<and>
   length (filter is_ok (run_attempts plain_crypto [demo_attempt, demo_attempt] demo_invited)) \<le> 1"
  using demo_attempts_eval
    invite_single_use [of "[demo_attempt, demo_attempt]" "trim_space (pr_invite_code (pa_req demo_attempt))"
      plain_crypto demo_invited]
  by simp

text \<open>What pairing promises: on success the invite was neither consumed nor overdue, and the
  token handed out (with any surrounding white space) authenticates exactly the new member, who has
  the name and aliases of the invite, is offline and has no bot.\<close>

theorem pairing_authenticates:
  assumes "ConsumeInvite cr now now2 ri rt req s = (Inr p, s')"
    and "trim_space tok = trim_space (pp_token p)"
  shows "\<exists>ch iv m. find_invite cr (trim_space (pr_invite_code req)) s = Some (ch, iv)
     \<and> \<not> inv_consumed iv \<and> UnixMilli now \<le> inv_expires_at iv
     \<and> GetMemberByToken cr tok s' = Inr m \<and> GetMember (pp_member_id p) s' = Inr m
     \<and> m_id m = pp_member_id p \<and> m_name m = inv_target_name iv \<and> m_aliases m = inv_aliases iv
     \<and> \<not> m_online m \<and> \<not> m_has_feishu_bot m"
  using assms(1)
proof (rule ConsumeInvite_success)
qed (use assms(2) in \<open>auto simp: GetMemberByToken_def GetMember_def HashToken_def\<close>)

definition demo_paired :: "(store_error, PairResponse) result \<times> jsonlStore" where
  "demo_paired = ConsumeInvite plain_crypto 6000000 6000000 (Some ''a'') (Some ''b'') (pa_req demo_attempt) demo_invited"

lemma demo_paired_eval:
  "fst demo_paired = Inr \<lparr>pp_member_id = ''mem_61'', pp_member_name = ''Ann'', pp_token = ''ti_mem_62'', pp_hub_url = []\<rparr>"
  by code_simp

theorem pairing_authenticates_witness:
  "\<exists>m. GetMemberByToken plain_crypto '' ti_mem_62 '' (snd demo_paired) = Inr m \<and> m_id m = ''mem_61''"
proof -
  have "ConsumeInvite plain_crypto 6000000 6000000 (Some ''a'') (Some ''b'') (pa_req demo_attempt) demo_invited
     = (Inr \<lparr>pp_member_id = ''mem_61'', pp_member_name = ''Ann'', pp_token = ''ti_mem_62'', pp_hub_url = []\<rparr>,
        snd demo_paired)"
    using demo_paired_eval by (metis demo_paired_def prod.collapse)
  from pairing_authenticates [OF this, of "'' ti_mem_62 ''"] show ?thesis
    by (auto simp: trim_space_def trim_right_by_def is_space_def)
qed

text \<open>A pairing request whose second append fails reports an error and still burns the invite:
  the code is spent, on disk too, and there is no member.\<close>

theorem pairing_failure_burns_invite:
  assumes "find_invite cr (trim_space (pr_invite_code req)) s = Some (ch, iv)"
    and "\<not> inv_consumed iv" and "UnixMilli now \<le> inv_expires_at iv"
    and "file_open s" and "faults s = False # True # fs"
  shows "\<exists>s'. ConsumeInvite cr now now2 (Some ri) (Some rt) req s = (Inl ErrIO, s')
     \<and> spent cr (trim_space (pr_invite_code req)) s' \<and> membersByID s' = membersByID s
     \<and> membersByTokenHash s' = membersByTokenHash s
     \<and> ConsumeInvite cr now now2 (Some ri) (Some rt) req s' = (Inl ErrInvalidInvite, s')"
proof -
  let ?c = "trim_space (pr_invite_code req)"
  define s' where "s' = snd (ConsumeInvite cr now now2 (Some ri) (Some rt) req s)"
  have r: "ConsumeInvite cr now now2 (Some ri) (Some rt) req s = (Inl ErrIO, s')
      \<and> invitesByCodeHash s' = gm_mod ch (\<lambda>i. i\<lparr>inv_consumed := True\<rparr>) (invitesByCodeHash s)
      \<and> salt s' = salt s \<and> membersByID s' = membersByID s \<and> membersByTokenHash s' = membersByTokenHash s"
    using assms by (simp add: s'_def ConsumeInvite_def RandomHex_def logged_def appendEventLocked_def Let_def)
  then have "spent cr ?c s'"
    using find_invite_consume [OF assms(1), of s'] by (simp add: spent_def)
  with r show ?thesis by (auto simp: ConsumeInvite_spent)
qed

definition demo_faulty :: jsonlStore where
  "demo_faulty = demo_invited\<lparr>faults := [False, True]\<rparr>"

lemma demo_faulty_facts:
  "find_invite plain_crypto (trim_space (pr_invite_code (pa_req demo_attempt))) demo_faulty =
     Some (demo_salt @ ''INV-31323334-35363738'', \<lparr>inv_code_hash = demo_salt @ ''INV-31323334-35363738'',
        inv_target_name = ''Ann'', inv_aliases = [], inv_expires_at = 172800005, inv_consumed = False\<rparr>)"
  "file_open demo_faulty" "faults demo_faulty = [False, True]"
  by code_simp+

theorem pairing_failure_burns_invite_witness:
  "\<exists>s'. ConsumeInvite plain_crypto 6000000 6000000 (Some ''a'') (Some ''b'') (pa_req demo_attempt) demo_faulty
      = (Inl ErrIO, s') \<and> spent plain_crypto (trim_space (pr_invite_code (pa_req demo_attempt))) s'"
  using pairing_failure_burns_invite [OF demo_faulty_facts(1), of 6000000 "[]" 6000000 "''a''" "''b''"]
    demo_faulty_facts(2,3)
  by (auto simp: UnixMilli_def)

section \<open>The FIFO of a member\<close>

text \<open>The specification: the identifiers of a member's queries that still wait and are not overdue,
  in arrival order.\<close>

definition live_query :: "jsonlStore \<Rightarrow> int \<Rightarrow> string \<Rightarrow> QueryDetailResponse option" where
  "live_query s nowMs k = (case gm_get (queriesByID s) k of
       None \<Rightarrow> None
     | Some q \<Rightarrow> if is_waiting (q_status q) \<and> \<not> ttl_passed nowMs q then Some q else None)"

definition in_line :: "jsonlStore \<Rightarrow> int \<Rightarrow> string \<Rightarrow> bool" where
  "in_line s nowMs k \<longleftrightarrow> live_query s nowMs k \<noteq> None"

definition waiting_line :: "jsonlStore \<Rightarrow> int \<Rightarrow> string \<Rightarrow> string list" where
  "waiting_line s nowMs mid = filter (in_line s nowMs) (gm_slice (inboundAudit s) mid)"

fun position_in :: "string \<Rightarrow> string list \<Rightarrow> nat" where
  "position_in k [] = 0"
| "position_in k (x # xs) = (if x = k then 1 else (case position_in k xs of 0 \<Rightarrow> 0 | Suc n \<Rightarrow> Suc (Suc n)))"

lemma position_in_0: "position_in k xs = 0 \<longleftrightarrow> k \<notin> set xs"
  by (induction xs) (auto split: nat.splits)

lemma position_in_nth: "distinct xs \<Longrightarrow> i < length xs \<Longrightarrow> position_in (xs ! i) xs = Suc i"
proof (induction xs arbitrary: i)
  case (Cons x xs)
  then show ?case by (cases i) auto
qed simp

lemma queue_pos_spec:
  "queue_pos s nowMs k n xs =
     (case position_in k (filter (in_line s nowMs) xs) of 0 \<Rightarrow> 0 | Suc i \<Rightarrow> n + Suc i)"
  by (induction s nowMs k n xs rule: queue_pos.induct)
     (auto simp: in_line_def live_query_def split: option.splits nat.splits)

lemma calculateQueuePosition_spec:
  "calculateQueuePositionLocked now k mid s = position_in k (waiting_line s (UnixMilli now) mid)"
  by (simp add: calculateQueuePositionLocked_def queue_pos_spec waiting_line_def split: nat.split)

lemma live_query_expire:
  assumes "gm_get (queriesByID s) k = Some q" and "ttl_passed (UnixMilli now) q"
  shows "live_query (expire_in_place now k q s) (UnixMilli now) = live_query s (UnixMilli now)"
  using assms by (auto simp: live_query_def fun_eq_iff mark_expired_def)

lemma queued_loop_fst:
  "fst (queued_loop now ks acc s) = acc @ List.map_filter (live_query s (UnixMilli now)) ks"
proof (induction now ks acc s rule: queued_loop.induct)
  case (2 now k ks acc s)
  then show ?case
    by (cases "gm_get (queriesByID s) k")
       (auto simp: List.map_filter_simps live_query_expire live_query_def [of s _ k])
qed (simp add: List.map_filter_simps)

lemma live_query_id: "keys_ok s \<Longrightarrow> live_query s n k = Some q \<Longrightarrow> q_query_id q = k"
  by (auto simp: live_query_def dest: keys_okD split: option.splits if_splits)

lemma map_filter_ids:
  "keys_ok s \<Longrightarrow> map q_query_id (List.map_filter (live_query s n) ks) = filter (in_line s n) ks"
  by (induction ks) (auto simp: List.map_filter_simps in_line_def live_query_id split: option.splits)

lemma number_queue_simps [simp]:
  "map q_query_id (number_queue qs) = map q_query_id qs"
  "map q_queue_position (number_queue qs) = [1..<Suc (length qs)]"
  "length (number_queue qs) = length qs"
proof -
  show len: "length (number_queue qs) = length qs" by (simp add: number_queue_def)
  have n: "number_queue qs ! i = (qs ! i)\<lparr>q_queue_position := i + 1\<rparr>" if "i < length qs" for i
    using that by (simp add: number_queue_def)
  show "map q_query_id (number_queue qs) = map q_query_id qs"
    by (rule nth_equalityI) (simp_all add: len n)
  show "map q_queue_position (number_queue qs) = [1..<Suc (length qs)]"
    by (rule nth_equalityI) (simp_all add: len n del: upt_Suc)
qed

definition demo_query :: "string \<Rightarrow> int \<Rightarrow> QueryDetailResponse" where
  "demo_query k ttl = \<lparr>q_query_id = k, q_status = [], q_asker_id = ''mem_1'', q_asker_name = [],
     q_target_member_id = ''mem_2'', q_target_member_name = [], q_target_workspace = [], q_query = ''why?'',
     q_answer = [], q_tools_used = None, q_duration_ms = 0, q_token_usage = zeroUsage, q_queue_position = 0,
     q_ttl_expires_at = ttl, q_created_at = 0, q_completed_at = 0, q_error_message = [],
     q_feishu_context = None, q_origin = []\<rparr>"

definition demo_two :: jsonlStore where
  "demo_two = snd (CreateQuery 2000000 (demo_query ''b'' 0) (snd (CreateQuery 1000000 (demo_query ''a'' 5) demo_start)))"

text \<open>Queue positions are positions in the FIFO: the position a query's owner is shown is its
  rank (from 1) among the member's waiting and not overdue queries in arrival order, and 0 exactly when
  it is not in that line.\<close>

theorem queue_position_is_rank:
  assumes "distinct (gm_slice (inboundAudit s) mid)"
  shows "(calculateQueuePositionLocked now k mid s = 0 \<longleftrightarrow> k \<notin> set (waiting_line s (UnixMilli now) mid))
    \<and> (\<forall>i < length (waiting_line s (UnixMilli now) mid).
         calculateQueuePositionLocked now (waiting_line s (UnixMilli now) mid ! i) mid s = Suc i)"
  using assms
  by (auto simp: calculateQueuePosition_spec position_in_0 waiting_line_def intro!: position_in_nth)

lemma demo_two_eval:
  "gm_slice (inboundAudit demo_two) ''mem_2'' = [''a'', ''b'']"
  "waiting_line demo_two 3 ''mem_2'' = [''a'', ''b'']" "UnixMilli 3000000 = 3"
  by code_simp+

theorem queue_position_is_rank_witness:
  "calculateQueuePositionLocked 3000000 ''b'' ''mem_2'' demo_two = 2"
  using queue_position_is_rank [of demo_two "''mem_2''" 3000000 "''b''"] demo_two_eval by auto

text \<open>What the hub hands to a reconnecting daemon: exactly the waiting and not overdue queries
  of the member, in arrival order, numbered 1, 2, ...; overdue ones are expired on the way.\<close>

theorem queued_for_member_fifo:
  assumes "keys_ok s" and "GetQueuedQueriesForMember now mid s = (qs, s')"
  shows "map q_query_id qs = waiting_line s (UnixMilli now) mid
    \<and> map q_queue_position qs = [1..<Suc (length qs)]"
proof -
  obtain qs0 where l: "queued_loop now (gm_slice (inboundAudit s) mid) [] s = (qs0, s')"
    and qs: "qs = number_queue qs0"
    using assms(2) by (auto simp: GetQueuedQueriesForMember_def split: prod.splits)
  have "qs0 = List.map_filter (live_query s (UnixMilli now)) (gm_slice (inboundAudit s) mid)"
    using queued_loop_fst [of now "gm_slice (inboundAudit s) mid" "[]" s] l by simp
  then show ?thesis using assms(1) by (simp add: qs waiting_line_def map_filter_ids)
qed

lemma demo_query_id [simp]: "q_query_id (demo_query k ttl) = k"
  by (simp add: demo_query_def)

lemma demo_two_keys: "keys_ok demo_two"
proof -
  have a: "sinv plain_crypto (snd (CreateQuery 1000000 (demo_query ''a'' 5) demo_start))"
    by (rule CreateQuery_sinv [of _ demo_start, OF _ _ prod.collapse [symmetric]])
       (simp_all add: demo_start_eq emptyStore_sinv, simp add: emptyStore_def)
  have b: "gm_get (queriesByID (snd (CreateQuery 1000000 (demo_query ''a'' 5) demo_start))) ''b'' = None"
    by code_simp
  have "sinv plain_crypto demo_two" unfolding demo_two_def
    by (rule CreateQuery_sinv [OF a _ prod.collapse [symmetric]]) (simp add: b)
  then show ?thesis by (rule sinv_keys)
qed

theorem queued_for_member_fifo_witness:
  "map q_query_id (fst (GetQueuedQueriesForMember 3000000 ''mem_2'' demo_two)) = [''a'', ''b'']"
  using queued_for_member_fifo [OF demo_two_keys prod.collapse [symmetric], of 3000000 "''mem_2''"]
    demo_two_eval by simp

text \<open>The position stored with a new query is always 1, however long the line is: the
  position is computed before the query is in the index, where it counts as absent.\<close>

theorem new_query_position_is_one:
  assumes "k = q_query_id q" and "k \<notin> set (gm_slice (inboundAudit s) (q_target_member_id q))"
    and "q_status q \<in> {[], QueryStatusQueued}" and "CreateQuery now q s = (Inr q', s')"
  shows "q_queue_position q' = 1"
proof -
  have "calculateQueuePositionLocked now k (q_target_member_id q) s = 0"
    using assms(2) by (simp add: calculateQueuePosition_spec position_in_0 waiting_line_def)
  moreover have "q' = complete_new_query now q s"
    using assms(4) by (auto simp: CreateQuery_def Let_def logged_def split: prod.splits option.splits)
  ultimately show ?thesis using assms(1,3) by (auto simp: complete_new_query_def Let_def)
qed

definition third_query :: "(store_error, QueryDetailResponse) result \<times> jsonlStore" where
  "third_query = CreateQuery 3000000 (demo_query ''c'' 0) demo_two"

theorem new_query_position_is_one_witness:
  "(\<exists>q' s'. third_query = (Inr q', s') \<and> q_queue_position q' = 1) \<and>
   calculateQueuePositionLocked 3000000 ''c'' ''mem_2'' (snd third_query) = 3"
proof
  have "is_ok (fst third_query)" by code_simp
  then obtain q' s' where t: "third_query = (Inr q', s')"
    by (metis is_ok.elims(2) prod.collapse)
  have "q_queue_position q' = 1"
    by (rule new_query_position_is_one [OF refl _ _ t [unfolded third_query_def]])
       (simp_all add: demo_query_def demo_two_eval)
  with t show "\<exists>q' s'. third_query = (Inr q', s') \<and> q_queue_position q' = 1" by blast
  show "calculateQueuePositionLocked 3000000 ''c'' ''mem_2'' (snd third_query) = 3" by code_simp
qed

section \<open>Sweeping\<close>

definition overdue :: "int \<Rightarrow> QueryDetailResponse \<Rightarrow> bool" where
  "overdue nowMs q \<longleftrightarrow> is_waiting (q_status q) \<and> ttl_passed nowMs q"

lemma mark_expired_not_overdue [simp]: "\<not> overdue n (mark_expired m q)"
  by (simp add: overdue_def mark_expired_def)

lemma sweep_loop_effect:
  assumes "sweep_loop now ks n s = (c, s')"
  shows "gm_get (queriesByID s') k = map_option (\<lambda>q. if k \<in> set ks \<and> overdue (UnixMilli now) q
     then mark_expired (UnixMilli now) q else q) (gm_get (queriesByID s) k)"
  using assms
proof (induction now ks n s rule: sweep_loop.induct)
  case (2 now x ks cnt s)
  then show ?case
    by (cases "gm_get (queriesByID s) x"; cases "gm_get (queriesByID s) k")
       (auto simp: overdue_def mark_expired_def split: if_splits)
qed (auto simp: option.map_ident)

lemma sweep_loop_count:
  assumes "sweep_loop now ks n s = (c, s')" and "distinct ks"
  shows "c = n + length (filter (\<lambda>k. case gm_get (queriesByID s) k of None \<Rightarrow> False
     | Some q \<Rightarrow> overdue (UnixMilli now) q) ks)"
  using assms
proof (induction now ks n s rule: sweep_loop.induct)
  case (2 now x ks cnt s)
  have other: "filter (\<lambda>k. case gm_get (queriesByID (expire_in_place now x q s)) k of None \<Rightarrow> False
     | Some q \<Rightarrow> overdue (UnixMilli now) q) ks = filter (\<lambda>k. case gm_get (queriesByID s) k of None \<Rightarrow> False
     | Some q \<Rightarrow> overdue (UnixMilli now) q) ks" for q
    using 2(5) by (intro filter_cong) auto
  show ?case
    using 2 other by (cases "gm_get (queriesByID s) x") (auto simp: overdue_def split: if_splits)
qed simp

text \<open>One sweep is complete and touches nothing else: afterwards no waiting query is overdue,
  every query that was overdue is expired with the sweep's time, all others are unchanged, and the number
  returned is the number expired.\<close>

theorem sweep_complete:
  assumes "gm_wf (queriesByID s)" and "SweepExpiredQueries now s = (c, s')"
  shows "gm_get (queriesByID s') k = map_option (\<lambda>q. if overdue (UnixMilli now) q
       then mark_expired (UnixMilli now) q else q) (gm_get (queriesByID s) k)
    \<and> (\<forall>k q. gm_get (queriesByID s') k = Some q \<longrightarrow> \<not> overdue (UnixMilli now) q)
    \<and> c = length (filter (\<lambda>(k, q). overdue (UnixMilli now) q) (queriesByID s))"
proof -
  let ?t = "UnixMilli now"
  have l: "sweep_loop now (gm_keys (queriesByID s)) 0 s = (c, s')"
    using assms(2) by (simp add: SweepExpiredQueries_def)
  have eff: "gm_get (queriesByID s') k = map_option (\<lambda>q. if overdue ?t q then mark_expired ?t q else q)
      (gm_get (queriesByID s) k)" for k
    using sweep_loop_effect [OF l, of k]
    by (cases "gm_get (queriesByID s) k") (auto dest: gm_get_Some_key)
  have none: "\<not> overdue ?t q" if "gm_get (queriesByID s') k = Some q" for k q
    using that eff [of k] by (auto split: if_splits) (metis mark_expired_not_overdue)
  have len: "length (filter (\<lambda>k. case gm_get (queriesByID s) k of None \<Rightarrow> False
      | Some q \<Rightarrow> overdue ?t q) (gm_keys (queriesByID s)))
    = length (filter (\<lambda>(k, q). overdue ?t q) (queriesByID s))"
    unfolding gm_keys_def filter_map length_map
    by (rule arg_cong [where f = length], rule filter_cong)
       (use assms(1) in \<open>auto simp: gm_in_get\<close>)
  have "c = length (filter (\<lambda>(k, q). overdue ?t q) (queriesByID s))"
    using sweep_loop_count [OF l] assms(1) len by (simp add: gm_wf_def)
  with eff [of k] none show ?thesis by blast
qed

theorem sweep_complete_witness:
  "fst (SweepExpiredQueries 9000000 demo_two) = 1 \<and>
   \<not> overdue 9 (the (gm_get (queriesByID (snd (SweepExpiredQueries 9000000 demo_two))) ''a''))"
proof -
  have "gm_wf (queriesByID demo_two)" by code_simp
  note w = sweep_complete [OF this prod.collapse [symmetric], of 9000000 "''a''", THEN conjunct2, THEN conjunct1]
  have "fst (SweepExpiredQueries 9000000 demo_two) = 1" by code_simp
  moreover obtain q where q: "gm_get (queriesByID (snd (SweepExpiredQueries 9000000 demo_two))) ''a'' = Some q"
  proof -
    have "gm_get (queriesByID (snd (SweepExpiredQueries 9000000 demo_two))) ''a'' \<noteq> None" by code_simp
    then show ?thesis using that by blast
  qed
  moreover have "UnixMilli 9000000 = 9" by (simp add: UnixMilli_def)
  ultimately show ?thesis using w [rule_format, OF q] by simp
qed

end
