(* ===== verification/Store_Lookup.thy ===== *)
theory Store_Lookup
  imports Store_Properties "HOL-Library.Multiset"
begin

text \<open>
  Name resolution and audit paging.  \<^verbatim>\<open>ResolveTargetMember\<close> ranges over a Go map, whose
  iteration order is random: the specification below shows that a phase depends on the set of matching
  members only.
\<close>

section \<open>Resolution\<close>

definition members_ok :: "jsonlStore \<Rightarrow> bool" where
  "members_ok s \<longleftrightarrow> keys_ok s \<and> gm_wf (membersByID s)"

lemma members_ok_ids: "members_ok s \<Longrightarrow> distinct (map m_id (ListMembers s))"
proof -
  assume ok: "members_ok s"
  have "map m_id (ListMembers s) = map fst (membersByID s)"
    using ok by (auto simp: ListMembers_def members_ok_def dest!: gm_in_get intro!: keys_okD(1))
  then show ?thesis using ok by (simp add: members_ok_def gm_wf_def gm_keys_def)
qed

lemma members_ok_get: "members_ok s \<Longrightarrow> m \<in> set (ListMembers s) \<Longrightarrow> gm_get (membersByID s) (m_id m) = Some m"
proof -
  assume ok: "members_ok s" and m: "m \<in> set (ListMembers s)"
  then obtain k where "(k, m) \<in> set (membersByID s)" by (auto simp: ListMembers_def)
  with ok have g: "gm_get (membersByID s) k = Some m" by (simp add: members_ok_def gm_in_get)
  with ok have "m_id m = k" by (auto simp: members_ok_def dest: keys_okD)
  with g show ?thesis by simp
qed

lemma dedup_block:
  assumes "\<forall>c \<in> set cs. c_id c = i"
  shows "dedup_from seen (cs @ rest) = (if i \<in> set seen \<or> cs = [] then dedup_from seen rest
     else hd cs # dedup_from (i # seen) rest)"
  using assms
proof (induction cs arbitrary: seen)
  case (Cons c cs)
  have IH: "dedup_from sn (cs @ rest) = (if i \<in> set sn \<or> cs = [] then dedup_from sn rest
     else hd cs # dedup_from (i # sn) rest)" for sn
    using Cons.prems by (intro Cons.IH) simp
  have "c_id c = i" using Cons.prems by simp
  then show ?case by (cases "i \<in> set seen") (simp_all add: IH)
qed simp

lemma dedup_concat:
  assumes "\<And>m c. m \<in> set ms \<Longrightarrow> c \<in> set (f m) \<Longrightarrow> c_id c = m_id m" and "distinct (map m_id ms)"
    and "\<forall>m \<in> set ms. m_id m \<notin> set seen"
  shows "dedup_from seen (concat (map f ms)) = map (\<lambda>m. hd (f m)) (filter (\<lambda>m. f m \<noteq> []) ms)"
  using assms
proof (induction ms arbitrary: seen)
  case (Cons m ms)
  have "dedup_from (m_id m # seen) (concat (map f ms)) = map (\<lambda>m. hd (f m)) (filter (\<lambda>m. f m \<noteq> []) ms)"
    "dedup_from seen (concat (map f ms)) = map (\<lambda>m. hd (f m)) (filter (\<lambda>m. f m \<noteq> []) ms)"
    using Cons.prems by (auto intro!: Cons.IH) (metis image_eqI)
  moreover have "\<forall>c \<in> set (f m). c_id c = m_id m" using Cons.prems(1) by simp
  ultimately show ?case
    using Cons.prems(3) dedup_block [of "f m" "m_id m" seen "concat (map f ms)"] by simp
qed simp

lemma candidates_id:
  "c \<in> set (exact_candidates x m) \<Longrightarrow> c_id c = m_id m"
  "c \<in> set (sub_candidates x m) \<Longrightarrow> c_id c = m_id m"
  "c \<in> set (reverse_candidates x m) \<Longrightarrow> c_id c = m_id m"
  by (auto simp: exact_candidates_def sub_candidates_def reverse_candidates_def cand_name_def cand_alias_def
      split: if_splits list.splits)

text \<open>The specification of a phase: by the members that match.\<close>

definition phase_spec ::
  "(MemberInfo \<Rightarrow> CandidateMember list) \<Rightarrow> MemberInfo list
     \<Rightarrow> (store_error \<times> CandidateMember list, MemberInfo) result
     \<Rightarrow> (store_error \<times> CandidateMember list, MemberInfo) result" where
  "phase_spec f ms nxt = (case filter (\<lambda>m. f m \<noteq> []) ms of
       [] \<Rightarrow> nxt | [m] \<Rightarrow> Inr m | ms' \<Rightarrow> Inl (ErrAmbiguousMatch, map (\<lambda>m. hd (f m)) ms'))"

definition resolve_spec ::
  "string \<Rightarrow> MemberInfo list \<Rightarrow> (store_error \<times> CandidateMember list, MemberInfo) result" where
  "resolve_spec target ms =
     (let trimmed = trim_space target; lowerTarget = to_lower trimmed in
      if trimmed = [] then Inl (ErrNotFound, [])
      else phase_spec (\<lambda>m. if m_id m = trimmed then [cand_name m] else []) ms
          (phase_spec (exact_candidates trimmed) ms
            (phase_spec (sub_candidates lowerTarget) ms
              (phase_spec (reverse_candidates lowerTarget) ms (Inl (ErrNotFound, []))))))"

lemma resolve_phase_spec:
  assumes ok: "members_ok s" and id: "\<And>m c. c \<in> set (f m) \<Longrightarrow> c_id c = m_id m"
  shows "resolve_phase s (concat (map f (ListMembers s))) nxt = phase_spec f (ListMembers s) nxt"
proof -
  let ?ms = "filter (\<lambda>m. f m \<noteq> []) (ListMembers s)"
  have d: "deduplicateCandidates (concat (map f (ListMembers s))) = map (\<lambda>m. hd (f m)) ?ms"
    unfolding deduplicateCandidates_def
    by (rule dedup_concat) (simp_all add: id members_ok_ids [OF ok])
  have g: "gm_get (membersByID s) (c_id (hd (f m))) = Some m" if "m \<in> set ?ms" for m
    using that members_ok_get [OF ok, of m] id [of "hd (f m)" m] by auto
  show ?thesis
    unfolding resolve_phase_def phase_spec_def d
    by (cases ?ms rule: remdups_adj.cases) (simp_all add: g)
qed

lemma filter_by_id:
  assumes "distinct (map m_id ms)"
  shows "filter (\<lambda>m. m_id m = k) ms = (case map_of (map (\<lambda>m. (m_id m, m)) ms) k of None \<Rightarrow> [] | Some m \<Rightarrow> [m])"
  using assms
proof (induction ms)
  case (Cons m ms)
  then show ?case by (auto simp: filter_empty_conv split: option.splits dest!: map_of_SomeD)
qed simp

lemma get_by_id:
  assumes "members_ok s"
  shows "gm_get (membersByID s) k = map_of (map (\<lambda>m. (m_id m, m)) (ListMembers s)) k"
proof -
  have "map (\<lambda>m. (m_id m, m)) (ListMembers s) = membersByID s"
    using assms by (auto simp: ListMembers_def members_ok_def comp_def keys_okD(1) gm_in_get intro!: map_idI)
  then show ?thesis by (simp add: gm_get_def)
qed

lemma ResolveTargetMember_spec:
  assumes "members_ok s"
  shows "ResolveTargetMember target s = resolve_spec target (ListMembers s)"
proof -
  let ?k = "trim_space target"
  have "phase_spec (\<lambda>m. if m_id m = ?k then [cand_name m] else []) (ListMembers s) nxt
      = (case gm_get (membersByID s) ?k of Some m \<Rightarrow> Inr m | None \<Rightarrow> nxt)" for nxt
    using filter_by_id [OF members_ok_ids [OF assms], of ?k]
    by (simp add: phase_spec_def get_by_id [OF assms] split: option.split)
  then show ?thesis
    unfolding ResolveTargetMember_def resolve_spec_def Let_def ListMembers_def [symmetric]
    by (simp add: resolve_phase_spec [OF assms candidates_id(1)] resolve_phase_spec [OF assms candidates_id(2)]
        resolve_phase_spec [OF assms candidates_id(3)] split: option.split)
qed

text \<open>Two outcomes that differ in the order of the candidates only.\<close>

fun same_outcome ::
  "(store_error \<times> CandidateMember list, MemberInfo) result
     \<Rightarrow> (store_error \<times> CandidateMember list, MemberInfo) result \<Rightarrow> bool" where
  "same_outcome (Inr m) (Inr m') = (m = m')"
| "same_outcome (Inl (e, cs)) (Inl (e', cs')) = (e = e' \<and> mset cs = mset cs')"
| "same_outcome _ _ = False"

lemma phase_spec_order:
  assumes "mset ms = mset ms'" and "same_outcome nxt nxt'"
  shows "same_outcome (phase_spec f ms nxt) (phase_spec f ms' nxt')"
proof -
  let ?a = "filter (\<lambda>m. f m \<noteq> []) ms" and ?b = "filter (\<lambda>m. f m \<noteq> []) ms'"
  have m: "mset ?a = mset ?b" using assms(1) by simp
  then have l: "length ?a = length ?b" by (metis size_mset)
  have c: "mset (map (\<lambda>m. hd (f m)) ?a) = mset (map (\<lambda>m. hd (f m)) ?b)"
    unfolding mset_map m by (rule refl)
  show ?thesis
  proof (cases ?a rule: remdups_adj.cases)
    case 1
    with l assms(2) show ?thesis by (simp add: phase_spec_def)
  next
    case (2 m)
    with m have "mset ?b = {#m#}" by simp
    then have "?b = [m]" by (metis mset_single_iff)
    with 2 show ?thesis by (simp add: phase_spec_def)
  next
    case (3 x y zs)
    with l obtain x' y' zs' where "?b = x' # y' # zs'"
      by (cases ?b rule: remdups_adj.cases) simp_all
    with 3 c show ?thesis unfolding phase_spec_def by simp
  qed
qed

text \<open>Resolution does not depend on the order in which Go happens to range over the member
  map: for two orders of the same members the outcome is the same member, or the same error with the same
  candidates.\<close>

theorem resolve_order_independent:
  assumes "members_ok s" and "members_ok t" and "mset (ListMembers s) = mset (ListMembers t)"
  shows "same_outcome (ResolveTargetMember target s) (ResolveTargetMember target t)"
  unfolding ResolveTargetMember_spec [OF assms(1)] ResolveTargetMember_spec [OF assms(2)] resolve_spec_def Let_def
  by (simp add: phase_spec_order [OF assms(3)])

lemma phase_spec_sound:
  "phase_spec f ms nxt = r \<Longrightarrow> r = nxt \<or> (\<exists>m \<in> set ms. r = Inr m)
     \<or> (\<exists>ms'. r = Inl (ErrAmbiguousMatch, map (\<lambda>m. hd (f m)) ms') \<and> 2 \<le> length ms'
          \<and> ms' = filter (\<lambda>m. f m \<noteq> []) ms)"
proof -
  assume r: "phase_spec f ms nxt = r"
  let ?a = "filter (\<lambda>m. f m \<noteq> []) ms"
  show ?thesis
  proof (cases ?a rule: remdups_adj.cases)
    case (2 m)
    then have "m \<in> set ms" by (metis filter_is_subset list.set_intros(1) subsetD)
    with 2 r show ?thesis by (auto simp: phase_spec_def)
  next
    case (3 x y zs)
    then have "2 \<le> length ?a" by simp
    moreover have "r = Inl (ErrAmbiguousMatch, map (\<lambda>m. hd (f m)) ?a)"
      using 3 r unfolding phase_spec_def by simp
    ultimately show ?thesis by blast
  qed (use r in \<open>simp add: phase_spec_def\<close>)
qed

lemma ambiguous_ids:
  assumes "members_ok s" and "\<And>m c. c \<in> set (f m) \<Longrightarrow> c_id c = m_id m"
    and "ms' = filter (\<lambda>m. f m \<noteq> []) (ListMembers s)"
  shows "distinct (map c_id (map (\<lambda>m. hd (f m)) ms')) \<and> set (map c_id (map (\<lambda>m. hd (f m)) ms')) \<subseteq> m_id ` set (ListMembers s)"
proof -
  have e: "map c_id (map (\<lambda>m. hd (f m)) ms') = map m_id ms'"
    using assms(2,3) by auto
  have "distinct (map m_id ms')"
    using members_ok_ids [OF assms(1)] assms(3) by (simp add: distinct_map_filter)
  then show ?thesis unfolding e using assms(3) by auto
qed

text \<open>Resolution is sound: it never dereferences a missing member; a result is a member of the
  team; an identifier resolves to its own member whatever the names are; \<^verbatim>\<open>ErrAmbiguousMatch\<close> comes with at least two
  candidates, all different members.\<close>

theorem resolve_sound:
  assumes "members_ok s" and "ResolveTargetMember target s = r"
  shows "(\<forall>m. r = Inr m \<longrightarrow> m \<in> set (ListMembers s))
    \<and> (\<forall>e cs. r = Inl (e, cs) \<longrightarrow> (e = ErrNotFound \<and> cs = []) \<or>
         (e = ErrAmbiguousMatch \<and> 2 \<le> length cs \<and> distinct (map c_id cs)
            \<and> set (map c_id cs) \<subseteq> m_id ` set (ListMembers s)))
    \<and> (\<forall>m. gm_get (membersByID s) (trim_space target) = Some m \<and> trim_space target \<noteq> [] \<longrightarrow> r = Inr m)"
proof -
  define good where "good r \<longleftrightarrow> (\<forall>m. r = Inr m \<longrightarrow> m \<in> set (ListMembers s))
    \<and> (\<forall>e cs. r = Inl (e, cs) \<longrightarrow> (e = ErrNotFound \<and> cs = []) \<or>
         (e = ErrAmbiguousMatch \<and> 2 \<le> length cs \<and> distinct (map c_id cs)
            \<and> set (map c_id cs) \<subseteq> m_id ` set (ListMembers s)))"
    for r :: "(store_error \<times> CandidateMember list, MemberInfo) result"
  have phase: "good (phase_spec f (ListMembers s) nxt)"
    if "good nxt" and "\<And>m c. c \<in> set (f m) \<Longrightarrow> c_id c = m_id m" for f nxt
    using phase_spec_sound [of f "ListMembers s" nxt, OF refl] that(1) ambiguous_ids [OF assms(1) that(2)]
    unfolding good_def by fastforce
  have nf: "good (Inl (ErrNotFound, []))" by (simp add: good_def)
  have id: "c_id c = m_id m" if "c \<in> set (if m_id m = trim_space target then [cand_name m] else [])" for c m
    using that by (simp add: cand_name_def split: if_splits)
  let ?l = "to_lower (trim_space target)"
  note fuzzy = phase [where f = "sub_candidates ?l", OF phase [where f = "reverse_candidates ?l",
        OF nf candidates_id(3)] candidates_id(2)]
  note all = phase [where f = "\<lambda>m. if m_id m = trim_space target then [cand_name m] else []",
      OF phase [where f = "exact_candidates (trim_space target)", OF fuzzy candidates_id(1)] id]
  have "good r"
    using nf all assms(2)
    unfolding ResolveTargetMember_spec [OF assms(1)] resolve_spec_def Let_def by (simp split: if_splits)
  moreover have "r = Inr m" if "gm_get (membersByID s) (trim_space target) = Some m" "trim_space target \<noteq> []" for m
    using assms(2) that by (simp add: ResolveTargetMember_def)
  ultimately show ?thesis unfolding good_def by blast
qed

definition demo_team :: jsonlStore where
  "demo_team = snd (let s1 = snd (CreateInvite plain_crypto 5000000 (Some ''12345679'')
       \<lparr>ic_target_name = ''Anna'', ic_aliases = [''boss''], ic_expires_in_hours = 1\<rparr> (snd demo_paired))
     in ConsumeInvite plain_crypto 6000000 6000000 (Some ''c'') (Some ''d'')
          \<lparr>pr_invite_code = ''INV-31323334-35363739'', pr_machine_name = ''box'', pr_client_version = []\<rparr> s1)"

lemma demo_team_members: "map (\<lambda>m. (m_id m, m_name m)) (ListMembers demo_team) = [(''mem_61'', ''Ann''), (''mem_63'', ''Anna'')]"
  by code_simp

lemma demo_team_ok: "members_ok demo_team"
proof -
  have a: "sinv plain_crypto (snd demo_paired)"
    unfolding demo_paired_def
    by (rule ConsumeInvite_sinv [OF _ prod.collapse [symmetric]])
       (rule store_reach_sinv [OF demo_reach plain_crypto_ok], simp add: demo_start_eq emptyStore_sinv)
  have "sinv plain_crypto demo_team"
    unfolding demo_team_def Let_def
    by (rule ConsumeInvite_sinv [OF _ prod.collapse [symmetric]])
       (rule CreateInvite_sinv [OF a prod.collapse [symmetric]])
  moreover have "gm_wf (membersByID demo_team)" by code_simp
  ultimately show ?thesis by (simp add: members_ok_def sinv_keys)
qed

lemma demo_team_rev_ok: "members_ok (demo_team\<lparr>membersByID := rev (membersByID demo_team)\<rparr>)"
proof -
  have "map_of (rev (membersByID demo_team)) = map_of (membersByID demo_team)"
    using demo_team_ok
    by (intro map_of_inject_set [THEN iffD2]) (simp_all add: members_ok_def gm_wf_def gm_keys_def rev_map [symmetric])
  with demo_team_ok show ?thesis
    by (auto simp: members_ok_def keys_ok_def gm_get_def gm_wf_def gm_keys_def rev_map [symmetric])
qed

theorem resolve_order_independent_witness:
  "same_outcome (ResolveTargetMember ''an'' demo_team)
     (ResolveTargetMember ''an'' (demo_team\<lparr>membersByID := rev (membersByID demo_team)\<rparr>))"
  by (rule resolve_order_independent [OF demo_team_ok demo_team_rev_ok])
     (simp add: ListMembers_def rev_map [symmetric])

theorem resolve_sound_witness:
  "\<exists>m. ResolveTargetMember ''ann'' demo_team = Inr m \<and> m \<in> set (ListMembers demo_team)"
proof -
  have "is_ok (ResolveTargetMember ''ann'' demo_team)" by code_simp
  then obtain m where "ResolveTargetMember ''ann'' demo_team = Inr m" by (metis is_ok.elims(2))
  with resolve_sound [OF demo_team_ok this] show ?thesis by blast
qed

section \<open>Audit paging\<close>

text \<open>Slices on a 64-bit machine have fewer than \<open>2^62\<close> strings.\<close>

definition page_args :: "int \<Rightarrow> string list \<Rightarrow> bool" where
  "page_args limit qids \<longleftrightarrow> \<bar>limit\<bar> < 2 ^ 62 \<and> int (length qids) < 2 ^ 62"

lemma audit_page_eq:
  assumes "page_args limit qids" and "0 \<le> offset"
  shows "audit_page limit offset qids = Some (if limit \<le> 0 then drop (nat offset) (rev qids)
     else take (nat limit) (drop (nat offset) (rev qids)))"
proof -
  let ?t = "int (length qids)"
  define off where "off = (if offset > ?t then ?t else offset)"
  have w: "wrap64 (off + limit) = off + limit"
    using assms by (intro wrap64_id) (auto simp: page_args_def off_def)
  have d: "drop (nat off) (rev qids) = drop (nat offset) (rev qids)"
    by (auto simp: off_def)
  have off: "0 \<le> off" "off \<le> ?t" using assms(2) by (auto simp: off_def)
  have page: "audit_page limit offset qids =
      (let e = (if limit \<le> 0 \<or> off + limit > ?t then ?t else off + limit)
       in if e < off then None else Some (take (nat (e - off)) (drop (nat off) (rev qids))))"
    by (cases "?t < offset") (use assms(2) w in \<open>simp_all add: audit_page_def Let_def off_def\<close>)
  show ?thesis
    unfolding page d [symmetric] Let_def using off by auto
qed

text \<open>Audit pages are the newest-first trail cut into pieces: a page is the \<^verbatim>\<open>limit\<close> entries after
  \<^verbatim>\<open>offset\<close> of the reversed log (all of them for a limit of 0 or less), a negative offset counts as 0, and
  following pages of one size laid side by side give the trail back without gap or overlap.\<close>

theorem audit_pages_tile:
  assumes "page_args limit qids" and "0 < limit"
  shows "audit_page limit off qids = Some (take (nat limit) (drop (nat off) (rev qids)))
    \<and> audit_page (- limit) off qids = Some (drop (nat off) (rev qids))
    \<and> concat (map (\<lambda>i. the (audit_page limit (int i * limit) qids)) [0..<n]) = take (n * nat limit) (rev qids)"
proof (intro conjI)
  have neg: "audit_page l off qids = audit_page l (if off < 0 then 0 else off) qids" for l
    by (simp add: audit_page_def)
  show "audit_page limit off qids = Some (take (nat limit) (drop (nat off) (rev qids)))"
    using assms by (subst neg) (auto simp: audit_page_eq)
  show "audit_page (- limit) off qids = Some (drop (nat off) (rev qids))"
    using assms by (subst neg) (auto simp: audit_page_eq page_args_def)
  show "concat (map (\<lambda>i. the (audit_page limit (int i * limit) qids)) [0..<n]) = take (n * nat limit) (rev qids)"
  proof (induction n)
    case (Suc n)
    have "nat (int n * limit) = n * nat limit" using assms(2) by (simp add: nat_mult_distrib)
    then show ?case
      using Suc assms by (simp add: audit_page_eq take_add [symmetric] add.commute [of "nat limit"])
  qed simp
qed

theorem audit_pages_tile_witness:
  "audit_page 2 1 [''a'', ''b'', ''c'', ''d''] = Some [''c'', ''b'']"
  using audit_pages_tile [of 2 "[''a'', ''b'', ''c'', ''d'']" 1 0] by (simp add: page_args_def numeral_2_eq_2)

text \<open>The sum of offset and limit is not guarded: with the largest limit the query string can
  carry and any positive offset into a non-empty trail the upper bound of the slice wraps around and the slice
  expression panics.\<close>

theorem audit_page_overflow_panics:
  assumes "0 < off" and "qids \<noteq> []" and "int (length qids) < 2 ^ 62"
  shows "audit_page (2 ^ 63 - 1) off qids = None"
proof -
  define o1 where "o1 = (if off > int (length qids) then int (length qids) else off)"
  have o1: "0 < o1" "o1 < 2 ^ 62" using assms by (auto simp: o1_def)
  have "wrap64 (o1 + (2 ^ 63 - 1)) = o1 + (2 ^ 63 - 1) - 2 ^ 64"
  proof -
    have "o1 + (2 ^ 63 - 1) + 2 ^ 63 = (o1 - 1) + 2 ^ 64" by simp
    moreover have "((o1 - 1) + 2 ^ 64) mod 2 ^ 64 = o1 - 1"
      unfolding mod_add_self2 using o1 by (intro mod_pos_pos_trivial) simp_all
    ultimately show ?thesis unfolding wrap64_def by simp
  qed
  with o1 assms show ?thesis
    by (auto simp: audit_page_def Let_def o1_def [symmetric])
qed

theorem audit_page_overflow_panics_witness:
  "audit_page (2 ^ 63 - 1) 1 [''q1'', ''q2''] = None"
  by (rule audit_page_overflow_panics) simp_all

section \<open>Life time of an invite\<close>

text \<open>An invite lives for the hours asked for (48 when none are given) as long as the duration fits
  64 bits, that is up to 2562047 hours; for the next 2562047 hours the product wraps and the invite is created
  already expired.\<close>

theorem invite_lifetime:
  assumes "CreateInvite cr now rnd req s = (Inr resp, s')"
  shows "(ic_expires_in_hours req \<le> 0 \<longrightarrow> icr_expires_at resp = UnixMilli (now + 48 * hourNs))
    \<and> (0 < ic_expires_in_hours req \<and> ic_expires_in_hours req \<le> 2562047 \<longrightarrow>
         icr_expires_at resp = UnixMilli (now + ic_expires_in_hours req * hourNs))
    \<and> (2562047 < ic_expires_in_hours req \<and> ic_expires_in_hours req \<le> 2 * 2562047 \<longrightarrow>
         icr_expires_at resp < UnixMilli now)"
proof -
  define h where "h = (if ic_expires_in_hours req \<le> 0 then 48 else ic_expires_in_hours req)"
  have e: "icr_expires_at resp = UnixMilli (now + wrap64 (h * hourNs))"
    using assms by (auto simp: CreateInvite_def Let_def logged_def h_def split: option.splits prod.splits)
  have fits: "wrap64 (x * hourNs) = x * hourNs" if "0 < x" "x \<le> 2562047" for x
    using that by (intro wrap64_id) (auto simp: hourNs_def)
  have wraps: "wrap64 (x * hourNs) \<le> -1000000" if "2562047 < x" "x \<le> 2 * 2562047" for x
  proof -
    have "wrap64 (x * hourNs) = x * hourNs - 2 ^ 64"
      using that unfolding wrap64_def hourNs_def
      by (subst mod_pos_geq) (auto simp: mod_pos_pos_trivial)
    then show ?thesis using that by (simp add: hourNs_def)
  qed
  have "UnixMilli (now + d) < UnixMilli now" if "d \<le> -1000000" for d
    using that unfolding UnixMilli_def by linarith
  then show ?thesis using e fits [of h] wraps [of h] unfolding h_def by auto
qed

definition demo_long :: "(store_error, InviteCreateResponse) result \<times> jsonlStore" where
  "demo_long = CreateInvite plain_crypto 5000000 (Some ''12345678'')
     \<lparr>ic_target_name = ''Ann'', ic_aliases = [], ic_expires_in_hours = 3000000\<rparr> demo_start"

theorem invite_lifetime_witness:
  "\<exists>resp. fst demo_long = Inr resp \<and> icr_expires_at resp < UnixMilli 5000000"
proof -
  have "is_ok (fst demo_long)" by code_simp
  then obtain resp where r: "demo_long = (Inr resp, snd demo_long)"
    by (metis is_ok.elims(2) prod.collapse)
  from invite_lifetime [OF r [unfolded demo_long_def]] have "icr_expires_at resp < UnixMilli 5000000" by simp
  with r show ?thesis by (metis fst_conv)
qed

end
