(* ===== verification/Store_Compact.thy ===== *)
theory Store_Compact
  imports Store_Lookup
begin

text \<open>
  Compaction rewrites the log as a snapshot.  The lemmas follow the groups of the
  snapshot (members, tokens, invites, bindings, queries, idempotency keys): what replaying a group
  does to the index it feeds, and that it leaves the other indexes alone.
\<close>

abbreviation run_events :: "crypto \<Rightarrow> event_data list \<Rightarrow> jsonlStore \<Rightarrow> jsonlStore" where
  "run_events cr es s \<equiv> foldl (\<lambda>st e. applyEvent cr e st) s es"

section \<open>Sorted association lists\<close>

lemma sorted_map_get: "gm_wf m \<Longrightarrow> map_of (sorted_map m) = map_of m"
proof -
  assume w: "gm_wf m"
  have "mset (map fst (sorted_map m)) = mset (map fst m)" by (simp add: sorted_map_def)
  then have "distinct (map fst (sorted_map m))"
    using w by (metis gm_wf_def gm_keys_def mset_eq_imp_distinct_iff)
  then show ?thesis
    using w by (intro map_of_inject_set [THEN iffD2]) (simp_all add: gm_wf_def gm_keys_def sorted_map_def)
qed

lemma sorted_map_distinct: "gm_wf m \<Longrightarrow> distinct (map fst (sorted_map m))"
  by (metis gm_keys_def gm_wf_def mset_eq_imp_distinct_iff mset_map mset_sort sorted_map_def)

lemma sorted_map_set [simp]: "set (sorted_map m) = set m"
  by (simp add: sorted_map_def)

lemma map_of_filter_distinct:
  "distinct (map fst xs) \<Longrightarrow> map_of (filter (\<lambda>(k, v). P k v) xs) k =
     (case map_of xs k of None \<Rightarrow> None | Some v \<Rightarrow> if P k v then Some v else None)"
proof (induction xs)
  case (Cons x xs)
  obtain a b where x: "x = (a, b)" by (cases x)
  have "map_of (filter (\<lambda>(k, v). P k v) xs) a = None"
    using Cons.prems by (auto simp: x map_of_eq_None_iff)
  then show ?case using Cons by (simp add: x split: option.splits)
qed simp

section \<open>Groups of the snapshot\<close>

text \<open>A group whose events put one key each into one index.\<close>

lemma put_fold:
  "gm_get (foldl (\<lambda>m (k, v). gm_put k v m) m0 xs) k =
     (case map_of (rev xs) k of None \<Rightarrow> gm_get m0 k | Some v \<Rightarrow> Some v)"
  by (induction xs arbitrary: m0) (auto simp: map_add_def split: option.splits)

lemma put_fold_distinct:
  assumes "distinct (map fst xs)"
  shows "gm_get (foldl (\<lambda>m (k, v). gm_put k v m) [] xs) k = map_of xs k"
proof -
  have "map_of (rev xs) = map_of xs"
    using assms by (intro map_of_inject_set [THEN iffD2]) (simp_all add: rev_map [symmetric])
  then show ?thesis by (simp add: put_fold split: option.split)
qed

lemma run_members:
  assumes "\<forall>(k, m) \<in> set xs. m_id m = k"
  shows "run_events cr (map (\<lambda>(mid, m). MemberCreated (json_member m)) xs) s =
     s\<lparr>membersByID := foldl (\<lambda>mm (k, v). gm_put k v mm) (membersByID s) (map (\<lambda>(k, m). (k, json_member m)) xs)\<rparr>"
  using assms by (induction xs arbitrary: s) (auto simp: json_member_def)

lemma run_tokens:
  "run_events cr (map (\<lambda>(th, mid). MemberTokenIndexed th mid) xs) s =
     s\<lparr>membersByTokenHash := foldl (\<lambda>mm (k, v). gm_put k v mm) (membersByTokenHash s) xs\<rparr>"
  by (induction xs arbitrary: s) auto

lemma run_invites:
  assumes "\<forall>(k, iv) \<in> set xs. inv_code_hash iv = k"
  shows "run_events cr (map (\<lambda>(ch, iv). InviteCreated iv) xs) s =
     s\<lparr>invitesByCodeHash := foldl (\<lambda>mm (k, v). gm_put k v mm) (invitesByCodeHash s) xs\<rparr>"
  using assms by (induction xs arbitrary: s) auto

lemma run_idem:
  "run_events cr (map (\<lambda>(k, rec). IdempotencyIndexed k (idem_query_id rec) (idem_expires_at rec)) xs) s =
     s\<lparr>idempotencyKeys := foldl (\<lambda>mm (k, v). gm_put k v mm) (idempotencyKeys s) xs\<rparr>"
proof (induction xs arbitrary: s)
  case (Cons x xs)
  obtain k rec where x: "x = (k, rec)" by (cases x)
  show ?case using Cons by (cases rec) (simp add: x)
qed simp

lemma run_queries:
  assumes "distinct (map q_query_id qs)" and "\<forall>q \<in> set qs. gm_get (queriesByID s) (q_query_id q) = None"
  shows "run_events cr (map (\<lambda>q. QueryCreated (json_query q)) qs) s =
     s\<lparr>queriesByID := foldl (\<lambda>mm (k, v). gm_put k v mm) (queriesByID s) (map (\<lambda>q. (q_query_id q, json_query q)) qs),
       inboundAudit := foldl (\<lambda>mm q. gm_append (q_target_member_id q) (q_query_id q) mm) (inboundAudit s) qs,
       outboundAudit := foldl (\<lambda>mm q. gm_append (q_asker_id q) (q_query_id q) mm) (outboundAudit s) qs\<rparr>"
  using assms
proof (induction qs arbitrary: s)
  case (Cons q qs)
  let ?s = "applyEvent cr (QueryCreated (json_query q)) s"
  have "\<forall>r \<in> set qs. gm_get (queriesByID ?s) (q_query_id r) = None"
    using Cons.prems by (auto simp: Let_def index_query_def split: option.splits) (metis image_eqI)
  moreover have "?s = s\<lparr>inboundAudit := gm_append (q_target_member_id q) (q_query_id q) (inboundAudit s),
     outboundAudit := gm_append (q_asker_id q) (q_query_id q) (outboundAudit s),
     queriesByID := gm_put (q_query_id q) (json_query q) (queriesByID s)\<rparr>"
    using Cons.prems(2) by (simp add: Let_def index_query_def)
  ultimately show ?case using Cons.IH [of ?s] Cons.prems(1) by simp
qed simp

lemma append_fold:
  "gm_slice (foldl (\<lambda>mm q. gm_append (f q) (g q) mm) m0 qs) k
     = gm_slice m0 k @ map g (filter (\<lambda>q. f q = k) qs)"
  by (induction qs arbitrary: m0) auto

section \<open>Bindings\<close>

definition nonces_ok :: "(string \<Rightarrow> string option) \<Rightarrow> bool" where
  "nonces_ok ns \<longleftrightarrow> (\<forall>mid. \<exists>n. ns mid = Some n \<and> length n = nonceSize)"

text \<open>Members with a binding have their flag set; \<^verbatim>\<open>SaveFeishuBinding\<close> and \<^verbatim>\<open>DeleteFeishuBinding\<close> keep it so.\<close>

definition bots_ok :: "jsonlStore \<Rightarrow> bool" where
  "bots_ok s \<longleftrightarrow> (\<forall>(mid, b) \<in> set (feishuBindings s). \<forall>m. gm_get (membersByID s) mid = Some m \<longrightarrow> m_has_feishu_bot m)"

lemma binding_event:
  assumes cr: "crypto_ok cr" and k: "aes_key_ok (masterKey s)" and n: "nonces_ok ns"
  obtains ct where "encryptCredentials cr (ns mid) s (binding_json cr b) = Inr ct" "ct \<noteq> []"
    "\<And>t. masterKey t = masterKey s \<Longrightarrow> decryptCredentials cr t ct = Inr (binding_json cr b)"
proof -
  from n obtain x where x: "ns mid = Some x" "length x = nonceSize" by (auto simp: nonces_ok_def)
  then obtain ct where ct: "encryptCredentials cr (ns mid) s (binding_json cr b) = Inr ct"
    using k by (simp add: encryptCredentials_def)
  have "nonce_ok (ns mid)" using x by (simp add: nonce_ok_def)
  from encrypt_decrypt [OF cr this ct] ct that show ?thesis by (metis decrypt_key_only)
qed

lemma run_bindings:
  assumes cr: "crypto_ok cr" and k: "aes_key_ok (masterKey s0)" and n: "nonces_ok ns" and "masterKey s = masterKey s0"
  shows "run_events cr (concat (map (\<lambda>(mid, b). case encryptCredentials cr (ns mid) s0 (binding_json cr b) of
            Inl _ \<Rightarrow> [] | Inr ct \<Rightarrow> [FeishuBindingSaved mid zeroBinding ct]) xs)) s =
     s\<lparr>feishuBindings := foldl (\<lambda>mm (k, v). gm_put k v mm) (feishuBindings s) xs,
       membersByID := foldl (\<lambda>mm (k, v). gm_mod k (\<lambda>m. m\<lparr>m_has_feishu_bot := True\<rparr>) mm) (membersByID s) xs\<rparr>"
  using assms(4)
proof (induction xs arbitrary: s)
  case (Cons x xs)
  obtain mid b where x: "x = (mid, b)" by (cases x)
  obtain ct where ct: "encryptCredentials cr (ns mid) s0 (binding_json cr b) = Inr ct" "ct \<noteq> []"
      "decryptCredentials cr s ct = Inr (binding_json cr b)"
    using binding_event [OF cr k n] Cons.prems by metis
  have "binding_of_json cr (binding_json cr b) = b" using cr by (simp add: crypto_ok_def)
  then have "applyEvent cr (FeishuBindingSaved mid zeroBinding ct) s =
     s\<lparr>feishuBindings := gm_put mid b (feishuBindings s),
       membersByID := gm_mod mid (\<lambda>m. m\<lparr>m_has_feishu_bot := True\<rparr>) (membersByID s)\<rparr>"
    using ct by simp
  then show ?case using Cons by (simp add: x ct)
qed simp

lemma flag_fold:
  assumes "\<forall>(mid, b) \<in> set xs. \<forall>m. gm_get mm mid = Some m \<longrightarrow> m_has_feishu_bot m"
  shows "gm_get (foldl (\<lambda>mm (k, v). gm_mod k (\<lambda>m. m\<lparr>m_has_feishu_bot := True\<rparr>) mm) mm xs) = gm_get mm"
  using assms
proof (induction xs arbitrary: mm)
  case (Cons x xs)
  obtain mid b where x: "x = (mid, b)" by (cases x)
  have "gm_get (gm_mod mid (\<lambda>m. m\<lparr>m_has_feishu_bot := True\<rparr>) mm) = gm_get mm"
    using Cons.prems by (auto simp: x fun_eq_iff intro!: option.map_ident_strong)
  then show ?case using Cons.prems Cons.IH [of "gm_mod mid (\<lambda>m. m\<lparr>m_has_feishu_bot := True\<rparr>) mm"]
    by (simp add: x)
qed simp

section \<open>Compaction\<close>

definition store_wf :: "jsonlStore \<Rightarrow> bool" where
  "store_wf s \<longleftrightarrow> keys_ok s \<and> bots_ok s \<and> gm_wf (membersByID s) \<and> gm_wf (membersByTokenHash s)
     \<and> gm_wf (invitesByCodeHash s) \<and> gm_wf (queriesByID s) \<and> gm_wf (feishuBindings s) \<and> gm_wf (idempotencyKeys s)"

definition by_age :: "jsonlStore \<Rightarrow> QueryDetailResponse list" where
  "by_age s = sort_key (\<lambda>q. (q_created_at q, q_query_id q)) (map snd (queriesByID s))"

lemma by_age_facts:
  assumes "keys_ok s" and "gm_wf (queriesByID s)"
  shows "distinct (map q_query_id (by_age s))"
    and "map_of (map (\<lambda>q. (q_query_id q, json_query q)) (by_age s)) k = map_option json_query (gm_get (queriesByID s) k)"
proof -
  have ids: "map q_query_id (map snd (queriesByID s)) = gm_keys (queriesByID s)"
    using assms by (auto simp: gm_keys_def dest!: gm_in_get intro!: keys_okD(2))
  have "mset (map q_query_id (by_age s)) = mset (gm_keys (queriesByID s))"
    unfolding ids [symmetric] by_age_def by (simp only: mset_map mset_sort)
  then show d: "distinct (map q_query_id (by_age s))"
    using assms(2) by (metis gm_wf_def mset_eq_imp_distinct_iff)
  have "map_of (map (\<lambda>q. (q_query_id q, json_query q)) (by_age s))
      = map_of (map (\<lambda>(k, q). (k, json_query q)) (queriesByID s))"
  proof (rule map_of_inject_set [THEN iffD2])
    have id: "q_query_id q = k" if "(k, q) \<in> set (queriesByID s)" for k q
      using that assms by (auto dest!: gm_in_get intro!: keys_okD(2))
    show "set (map (\<lambda>q. (q_query_id q, json_query q)) (by_age s)) = set (map (\<lambda>(k, q). (k, json_query q)) (queriesByID s))"
      using id by (force simp: by_age_def)
    show "distinct (map fst (map (\<lambda>q. (q_query_id q, json_query q)) (by_age s)))"
      using d by (simp add: comp_def)
    show "distinct (map fst (map (\<lambda>(k, q). (k, json_query q)) (queriesByID s)))"
      using assms(2) by (simp add: gm_wf_def gm_keys_def comp_def case_prod_beta)
  qed
  then show "map_of (map (\<lambda>q. (q_query_id q, json_query q)) (by_age s)) k = map_option json_query (gm_get (queriesByID s) k)"
    by (simp add: map_of_map gm_get_def)
qed

definition kept_invite :: "int \<Rightarrow> storedInvite \<Rightarrow> bool" where
  "kept_invite nowMs iv \<longleftrightarrow> \<not> inv_consumed iv \<and> inv_expires_at iv > nowMs"

definition only_if :: "('a \<Rightarrow> bool) \<Rightarrow> 'a option \<Rightarrow> 'a option" where
  "only_if P v = (case v of None \<Rightarrow> None | Some x \<Rightarrow> if P x then Some x else None)"

lemma get_json_member:
  assumes "gm_wf m"
  shows "gm_get (foldl (\<lambda>mm (k, v). gm_put k v mm) [] (map (\<lambda>(k, m). (k, json_member m)) (sorted_map m))) k
     = map_option json_member (gm_get m k)"
proof -
  have "distinct (map fst (map (\<lambda>(k, m). (k, json_member m)) (sorted_map m)))"
    using sorted_map_distinct [OF assms] by (simp add: comp_def case_prod_beta)
  note f = put_fold_distinct [OF this]
  show ?thesis unfolding f by (simp add: map_of_map sorted_map_get [OF assms] gm_get_def)
qed

lemma json_member_bot [simp]: "m_has_feishu_bot (json_member m) = m_has_feishu_bot m"
  by (simp add: json_member_def)

lemma get_sorted:
  assumes "gm_wf m"
  shows "gm_get (foldl (\<lambda>mm (k, v). gm_put k v mm) [] (sorted_map m)) k = gm_get m k"
  unfolding put_fold_distinct [OF sorted_map_distinct [OF assms]] by (simp add: sorted_map_get [OF assms] gm_get_def)

lemma get_filtered:
  assumes "gm_wf m"
  shows "gm_get (foldl (\<lambda>mm (k, v). gm_put k v mm) [] (filter (\<lambda>(k, v). P v) (sorted_map m))) k
     = only_if P (gm_get m k)"
proof -
  have "distinct (map fst (filter (\<lambda>(k, v). P v) (sorted_map m)))"
    using sorted_map_distinct [OF assms] by (rule distinct_map_filter)
  note f = put_fold_distinct [OF this]
  show ?thesis
    unfolding f map_of_filter_distinct [OF sorted_map_distinct [OF assms], of "\<lambda>k. P" k]
    by (simp add: sorted_map_get [OF assms] gm_get_def only_if_def)
qed

lemma restarted_snapshot:
  assumes cr: "crypto_ok cr" and key: "aes_key_ok (masterKey s)" and n: "nonces_ok ns" and wf: "store_wf s"
  shows "run_events cr (snapshot cr now ns s) (emptyStore (masterKey s) slt) =
    (emptyStore (masterKey s) slt)\<lparr>
      membersByID := foldl (\<lambda>mm (k, v). gm_mod k (\<lambda>m. m\<lparr>m_has_feishu_bot := True\<rparr>) mm)
        (foldl (\<lambda>mm (k, v). gm_put k v mm) [] (map (\<lambda>(k, m). (k, json_member m)) (sorted_map (membersByID s))))
        (sorted_map (feishuBindings s)),
      membersByTokenHash := foldl (\<lambda>mm (k, v). gm_put k v mm) [] (sorted_map (membersByTokenHash s)),
      invitesByCodeHash := foldl (\<lambda>mm (k, v). gm_put k v mm) []
        (filter (\<lambda>(k, v). kept_invite (UnixMilli now) v) (sorted_map (invitesByCodeHash s))),
      feishuBindings := foldl (\<lambda>mm (k, v). gm_put k v mm) [] (sorted_map (feishuBindings s)),
      queriesByID := foldl (\<lambda>mm (k, v). gm_put k v mm) [] (map (\<lambda>q. (q_query_id q, json_query q)) (by_age s)),
      inboundAudit := foldl (\<lambda>mm q. gm_append (q_target_member_id q) (q_query_id q) mm) [] (by_age s),
      outboundAudit := foldl (\<lambda>mm q. gm_append (q_asker_id q) (q_query_id q) mm) [] (by_age s),
      idempotencyKeys := foldl (\<lambda>mm (k, v). gm_put k v mm) []
        (filter (\<lambda>(k, v). UnixMilli now \<le> idem_expires_at v) (sorted_map (idempotencyKeys s)))\<rparr>"
proof -
  have ids: "\<forall>(k, m) \<in> set (sorted_map (membersByID s)). m_id m = k"
    using wf by (auto simp: store_wf_def dest!: gm_in_get intro!: keys_okD(1))
  have chs: "\<forall>(k, iv) \<in> set (filter (\<lambda>(k, v). kept_invite (UnixMilli now) v) (sorted_map (invitesByCodeHash s))).
      inv_code_hash iv = k"
    using wf by (auto simp: store_wf_def dest!: gm_in_get intro!: keys_okD(3))
  have q: "distinct (map q_query_id (by_age s))" using wf by (simp add: store_wf_def by_age_facts)
  show ?thesis
    unfolding snapshot_def snapshot_bindings_def snapshot_queries_def by_age_def [symmetric] foldl_append
      kept_invite_def [symmetric]
    by (simp add: run_members [OF ids] run_tokens run_invites [OF chs] run_bindings [OF cr key n]
        run_queries [OF q] run_idem emptyStore_def)
qed


definition zero_nonces :: "string \<Rightarrow> string option" where
  "zero_nonces mid = Some (replicate nonceSize CHR 0x00)"


end
