(* ===== verification/Replay.thy ===== *)
theory Replay
  imports Store_Restart
begin

text \<open>
  Start-up recovery at the level of bytes: \<^verbatim>\<open>replayAndOpenFile\<close> of
  \<^verbatim>\<open>internal/store/store.go\<close> reads \<^verbatim>\<open>events.jsonl\<close> line by line, applies what decodes, and
  cuts a corrupted tail off.  The JSON decoder is an argument; \<open>codec_ok\<close> states what
  \<^verbatim>\<open>encoding/json\<close> documents: a marshalled value is one non-empty line without surrounding white
  space and reads back.
\<close>

section \<open>The reader\<close>

text \<open>\<^verbatim>\<open>bufio.Reader.ReadBytes\<close>: up to and including the delimiter; the flag is \<open>False\<close> at the end of
  the file.\<close>

fun ReadBytes :: "char \<Rightarrow> string \<Rightarrow> string \<times> bool \<times> string" where
  "ReadBytes d [] = ([], False, [])"
| "ReadBytes d (c # cs) =
     (if c = d then ([c], True, cs)
      else (case ReadBytes d cs of (l, found, rest) \<Rightarrow> (c # l, found, rest)))"

abbreviation newline :: char where "newline \<equiv> CHR 0x0A"

lemma ReadBytes_rest: "ReadBytes d cs = (l, True, rest) \<Longrightarrow> length rest < length cs"
  by (induction cs arbitrary: l) (fastforce split: if_splits prod.splits)+

lemma ReadBytes_split: "ReadBytes d cs = (l, f, rest) \<Longrightarrow> cs = l @ rest"
  by (induction cs arbitrary: l) (auto split: if_splits prod.splits)

record 's replay_state =
  r_store :: 's
  currentOffset :: nat
  lastValidOffset :: nat
  hadCorruptedTrailing :: bool

text \<open>The body of the loop for one line.\<close>

definition replay_line ::
  "(string \<Rightarrow> 'e option) \<Rightarrow> ('e \<Rightarrow> 's \<Rightarrow> 's) \<Rightarrow> string \<Rightarrow> 's replay_state \<Rightarrow> 's replay_state" where
  "replay_line dec appl line r =
     (if line = [] then r
      else
        let text = trim_space line;
            r1 = (if text \<noteq> [] then
                    (case dec text of
                       Some ev \<Rightarrow> r\<lparr>r_store := appl ev (r_store r),
                          lastValidOffset := currentOffset r + length line, hadCorruptedTrailing := False\<rparr>
                     | None \<Rightarrow> r\<lparr>hadCorruptedTrailing := True\<rparr>)
                  else if \<not> hadCorruptedTrailing r
                       then r\<lparr>lastValidOffset := currentOffset r + length line\<rparr>
                       else r)
        in r1\<lparr>currentOffset := currentOffset r + length line\<rparr>)"

function replay_loop ::
  "(string \<Rightarrow> 'e option) \<Rightarrow> ('e \<Rightarrow> 's \<Rightarrow> 's) \<Rightarrow> string \<Rightarrow> 's replay_state \<Rightarrow> 's replay_state" where
  "replay_loop dec appl bytes r =
     (case ReadBytes newline bytes of
        (line, True, rest) \<Rightarrow> replay_loop dec appl rest (replay_line dec appl line r)
      | (line, False, rest) \<Rightarrow> replay_line dec appl line r)"
  by pat_completeness auto
termination
  by (relation "measure (\<lambda>(dec, appl, bytes, r). length bytes)") (auto dest: ReadBytes_rest [OF sym])

declare replay_loop.simps [simp del]

text \<open>The state after replay and the file it leaves.\<close>

definition replayAndOpenFile ::
  "(string \<Rightarrow> 'e option) \<Rightarrow> ('e \<Rightarrow> 's \<Rightarrow> 's) \<Rightarrow> string \<Rightarrow> 's \<Rightarrow> 's \<times> string" where
  "replayAndOpenFile dec appl bytes s =
     (let r = replay_loop dec appl bytes \<lparr>r_store = s, currentOffset = 0, lastValidOffset = 0,
                hadCorruptedTrailing = False\<rparr>
      in (r_store r, if hadCorruptedTrailing r \<or> lastValidOffset r < currentOffset r
                     then take (lastValidOffset r) bytes else bytes))"

text \<open>The line \<^verbatim>\<open>appendEventLocked\<close> writes.\<close>

definition event_line :: "('e \<Rightarrow> string) \<Rightarrow> 'e \<Rightarrow> string" where
  "event_line enc ev = enc ev @ [newline]"

definition codec_ok :: "'e set \<Rightarrow> ('e \<Rightarrow> string) \<Rightarrow> (string \<Rightarrow> 'e option) \<Rightarrow> bool" where
  "codec_ok E enc dec \<longleftrightarrow> (\<forall>ev \<in> E. dec (enc ev) = Some ev \<and> enc ev \<noteq> [] \<and> newline \<notin> set (enc ev)
     \<and> \<not> is_space (hd (enc ev)) \<and> \<not> is_space (last (enc ev)))"

definition log_bytes :: "('e \<Rightarrow> string) \<Rightarrow> 'e list \<Rightarrow> string" where
  "log_bytes enc evs = concat (map (event_line enc) evs)"

section \<open>Lemmas\<close>

lemma ReadBytes_line: "d \<notin> set l \<Longrightarrow> ReadBytes d (l @ d # rest) = (l @ [d], True, rest)"
  by (induction l) auto

lemma ReadBytes_tail: "d \<notin> set l \<Longrightarrow> ReadBytes d l = (l, False, [])"
  by (induction l) auto

lemma trim_solid:
  assumes "t \<noteq> []" "\<not> is_space (hd t)" "\<not> is_space (last t)"
  shows "trim_space t = t" and "trim_space (t @ [newline]) = t"
proof -
  have "dropWhile is_space (t @ w) = t @ w" for w
    using assms(1,2) by (cases t) auto
  from this [of "[]"] this [of "[newline]"]
  have d: "dropWhile is_space t = t" "dropWhile is_space (t @ [newline]) = t @ [newline]" by simp_all
  have l: "dropWhile is_space (rev t) = rev t"
    using assms(1,3) by (cases t rule: rev_cases) auto
  have n: "is_space newline" by (simp add: is_space_def)
  show "trim_space t = t" by (simp add: trim_space_def trim_right_by_def d l)
  show "trim_space (t @ [newline]) = t" by (simp add: trim_space_def trim_right_by_def d l n)
qed

lemma codec_line:
  assumes "codec_ok E enc dec" and "ev \<in> E"
  shows "trim_space (enc ev) = enc ev" "trim_space (enc ev @ [newline]) = enc ev"
    "dec (enc ev) = Some ev" "enc ev \<noteq> []" "newline \<notin> set (enc ev)"
  using assms trim_solid [of "enc ev"] by (auto simp: codec_ok_def)

lemma replay_log:
  assumes c: "codec_ok (set evs) enc dec"
  shows "replay_loop dec appl (log_bytes enc evs @ rest)
      \<lparr>r_store = s, currentOffset = n, lastValidOffset = n, hadCorruptedTrailing = False\<rparr> =
    replay_loop dec appl rest
      \<lparr>r_store = foldl (\<lambda>st ev. appl ev st) s evs, currentOffset = n + length (log_bytes enc evs),
       lastValidOffset = n + length (log_bytes enc evs), hadCorruptedTrailing = False\<rparr>"
  using c
proof (induction evs arbitrary: s n)
  case (Cons ev evs)
  have c: "codec_ok {ev} enc dec" "codec_ok (set evs) enc dec"
    using Cons.prems by (auto simp: codec_ok_def)
  note cl = codec_line [OF c(1), of ev, simplified]
  have "replay_line dec appl (enc ev @ [newline])
      \<lparr>r_store = s, currentOffset = n, lastValidOffset = n, hadCorruptedTrailing = False\<rparr>
    = \<lparr>r_store = appl ev s, currentOffset = n + length (event_line enc ev),
       lastValidOffset = n + length (event_line enc ev), hadCorruptedTrailing = False\<rparr>"
    by (simp add: replay_line_def cl Let_def event_line_def)
  then show ?case
    using Cons.IH [OF c(2)]
    by (subst replay_loop.simps)
       (simp add: log_bytes_def event_line_def ReadBytes_line cl add.assoc)
qed (simp add: log_bytes_def)

lemma replay_tail:
  assumes "newline \<notin> set tail"
  shows "replay_loop dec appl tail r = replay_line dec appl tail r"
  by (subst replay_loop.simps) (simp add: ReadBytes_tail assms)

lemma replay_log_tail:
  assumes c: "codec_ok (set evs) enc dec" and t: "newline \<notin> set tail"
  shows "replayAndOpenFile dec appl (log_bytes enc evs @ tail) s =
    (let n = length (log_bytes enc evs);
         r = replay_line dec appl tail \<lparr>r_store = foldl (\<lambda>st ev. appl ev st) s evs, currentOffset = n,
               lastValidOffset = n, hadCorruptedTrailing = False\<rparr>
     in (r_store r, if hadCorruptedTrailing r \<or> lastValidOffset r < currentOffset r
           then take (lastValidOffset r) (log_bytes enc evs @ tail) else log_bytes enc evs @ tail))"
  using replay_log [OF c, of appl tail s 0]
  by (simp add: replayAndOpenFile_def replay_tail [OF t] Let_def)

section \<open>Properties\<close>

text \<open>C37. Recovery from a torn write: for a log of complete lines followed by any prefix of a
  line that does not decode, start-up applies exactly the complete events, in order, and leaves exactly
  their lines in the file, so that the next append starts on a line of its own.\<close>

theorem replay_recovers:
  assumes "codec_ok (set evs) enc dec" and "newline \<notin> set tail"
    and "tail = [] \<or> (trim_space tail \<noteq> [] \<and> dec (trim_space tail) = None)"
  shows "replayAndOpenFile dec appl (log_bytes enc evs @ tail) s
     = (foldl (\<lambda>st ev. appl ev st) s evs, log_bytes enc evs)"
  unfolding replay_log_tail [OF assms(1,2)]
  using assms(3) by (auto simp: replay_line_def Let_def)

text \<open>Restart end to end: the bytes the hub wrote for its events, plus a torn last line, bring the
  store to the state \<^verbatim>\<open>NewJSONLStore\<close> builds from those events.\<close>

theorem replay_builds_store:
  assumes "codec_ok (set evs) enc dec" and "newline \<notin> set tail"
    and "tail = [] \<or> (trim_space tail \<noteq> [] \<and> dec (trim_space tail) = None)"
  shows "(fst (replayAndOpenFile dec (\<lambda>ev. applyEvent cr (ev_data ev)) (log_bytes enc evs @ tail)
       (emptyStore (loadMasterKey kf fk) (loadSalt sf fsl))))\<lparr>events_disk := evs\<rparr>
     = NewJSONLStore cr kf fk sf fsl evs"
proof -
  let ?t = "emptyStore (loadMasterKey kf fk) (loadSalt sf fsl)"
  have "replayAndOpenFile dec (\<lambda>ev. applyEvent cr (ev_data ev)) (log_bytes enc evs @ tail) ?t
      = (foldl (\<lambda>st ev. applyEvent cr (ev_data ev) st) ?t evs, log_bytes enc evs)"
    unfolding replay_log_tail [OF assms(1,2)]
    using assms(3) by (auto simp: replay_line_def Let_def)
  then show ?thesis by (simp add: NewJSONLStore_def replayAll_def)
qed

text \<open>A last line that is complete except for its newline is applied but the file is left without
  the newline; the next event is then written onto the same line, and the start-up after that drops both.\<close>

theorem missing_newline_loses_two:
  assumes "codec_ok ({ev1, ev2} \<union> set evs) enc dec" and "dec (enc ev1 @ enc ev2) = None"
    and "replayAndOpenFile dec appl (log_bytes enc evs @ enc ev1) s = (s1, file1)"
  shows "s1 = appl ev1 (foldl (\<lambda>st ev. appl ev st) s evs) \<and> file1 = log_bytes enc evs @ enc ev1
    \<and> fst (replayAndOpenFile dec appl (file1 @ event_line enc ev2) s) = foldl (\<lambda>st ev. appl ev st) s evs"
proof -
  note cl1 = codec_line [OF assms(1), of ev1, simplified] and cl2 = codec_line [OF assms(1), of ev2, simplified]
  have c: "codec_ok (set evs) enc dec" using assms(1) by (simp add: codec_ok_def)
  have 1: "s1 = appl ev1 (foldl (\<lambda>st ev. appl ev st) s evs)" "file1 = log_bytes enc evs @ enc ev1"
    using assms(3) replay_log_tail [OF c cl1(5), of appl s]
    by (auto simp: replay_line_def Let_def cl1)
  have solid: "\<not> is_space (hd (enc ev1 @ enc ev2))" "\<not> is_space (last (enc ev1 @ enc ev2))"
    using assms(1) by (auto simp: codec_ok_def)
  have nl: "newline \<notin> set (enc ev1 @ enc ev2)" using cl1(5) cl2(5) by simp
  have "replay_loop dec appl ((enc ev1 @ enc ev2) @ [newline]) r
      = replay_loop dec appl [] (replay_line dec appl ((enc ev1 @ enc ev2) @ [newline]) r)" for r :: "'b replay_state"
    by (subst replay_loop.simps) (simp add: ReadBytes_line [OF nl, of "[]", simplified])
  then have "r_store (replay_loop dec appl ((enc ev1 @ enc ev2) @ [newline]) r) = r_store r" for r :: "'b replay_state"
    using trim_solid(2) [OF _ solid] assms(2)
    by (simp add: replay_line_def replay_tail Let_def cl1)
  with replay_log [OF c, of appl "(enc ev1 @ enc ev2) @ [newline]" s 0] 1
  show ?thesis by (simp add: replayAndOpenFile_def event_line_def Let_def)
qed

section \<open>Witnesses\<close>

text \<open>Events that are numbers, written as a brace, as many bars and a closing brace.\<close>

definition bar_enc :: "nat \<Rightarrow> string" where
  "bar_enc n = CHR ''{'' # replicate n CHR ''|'' @ ''}''"

definition bar_dec :: "string \<Rightarrow> nat option" where
  "bar_dec t = (if t = bar_enc (length t - 2) then Some (length t - 2) else None)"

lemma bar_codec: "codec_ok E bar_enc bar_dec"
  by (auto simp: codec_ok_def bar_enc_def bar_dec_def is_space_def)

theorem replay_recovers_witness:
  "replayAndOpenFile bar_dec (\<lambda>n s. s @ [n]) (log_bytes bar_enc [1, 2] @ ''{|'') []
     = ([1, 2], log_bytes bar_enc [1, 2])"
proof -
  have "trim_space ''{|'' = ''{|''" "bar_dec ''{|'' = None" by code_simp+
  then show ?thesis
    using replay_recovers [OF bar_codec, where tail = "''{|''" and evs = "[1, 2]" and appl = "\<lambda>n s. s @ [n]" and s = "[]"] by simp
qed

text \<open>A log with the one event that consumes the invite \<^verbatim>\<open>h\<close>.\<close>

definition one_event :: StoredEvent where
  "one_event = \<lparr>ev_timestamp = 1, ev_data = InviteConsumed ''h''\<rparr>"

definition one_enc :: "StoredEvent \<Rightarrow> string" where "one_enc ev = ''{}''"

definition one_dec :: "string \<Rightarrow> StoredEvent option" where
  "one_dec t = (if t = ''{}'' then Some one_event else None)"

theorem replay_builds_store_witness:
  "(fst (replayAndOpenFile one_dec (\<lambda>ev. applyEvent plain_crypto (ev_data ev))
       (log_bytes one_enc [one_event] @ ''{'') (emptyStore (loadMasterKey None demo_key) (loadSalt None demo_salt))))
       \<lparr>events_disk := [one_event]\<rparr>
     = NewJSONLStore plain_crypto None demo_key None demo_salt [one_event]"
proof -
  have "codec_ok (set [one_event]) one_enc one_dec"
    by (simp add: codec_ok_def one_enc_def one_dec_def is_space_def)
  moreover have "trim_space ''{'' = ''{''" "one_dec ''{'' = None" by code_simp+
  ultimately show ?thesis by (intro replay_builds_store) auto
qed

theorem missing_newline_loses_two_witness:
  "fst (replayAndOpenFile bar_dec (\<lambda>n s. s @ [n])
     (snd (replayAndOpenFile bar_dec (\<lambda>n s. s @ [n]) (log_bytes bar_enc [1] @ bar_enc 2) []) @ event_line bar_enc 3) [])
     = [1]"
proof -
  have "bar_dec (bar_enc 2 @ bar_enc 3) = None" by code_simp
  from missing_newline_loses_two [OF bar_codec this prod.collapse [symmetric], of "\<lambda>n s. s @ [n]" "[1]" "[]"]
  show ?thesis by (elim conjE) (simp only: foldl.simps append_Nil)
qed

end
