(* ===== verification/Codec.thy ===== *)
theory Codec
  imports Prelude "HOL-Library.Word"
begin

text \<open>
  The PBBP2 frame codec of \<^verbatim>\<open>internal/feishu/codec.go\<close>: protobuf varints, headers and frames,
  over bytes and 64-bit words.  The decoding loops work on an offset into the buffer, as in the
  source; a loop that does not end has the value \<open>None\<close>, and \<open>Panic\<close> is a slice expression out
  of range.
\<close>

unbundle bit_operations_syntax

type_synonym byte = "8 word"
type_synonym bytes = "8 word list"

datatype codec_error = errTruncated | errBadWire | errOverflow | Panic

record Header =
  hKey :: bytes
  hValue :: bytes

record Frame =
  SeqID :: "64 word"
  LogID :: "64 word"
  Service :: "32 word"
  Method :: "32 word"
  Headers :: "Header list"
  PayloadEncoding :: bytes
  PayloadType :: bytes
  Payload :: "bytes option"
  LogIDNew :: bytes

definition zeroHeader :: Header where
  "zeroHeader = \<lparr>hKey = [], hValue = []\<rparr>"

definition zeroFrame :: Frame where
  "zeroFrame = \<lparr>SeqID = 0, LogID = 0, Service = 0, Method = 0, Headers = [], PayloadEncoding = [],
     PayloadType = [], Payload = None, LogIDNew = []\<rparr>"

section \<open>Headers of a frame\<close>

fun find_header :: "bytes \<Rightarrow> Header list \<Rightarrow> bytes option" where
  "find_header key [] = None"
| "find_header key (h # hs) = (if hKey h = key then Some (hValue h) else find_header key hs)"

definition GetHeader :: "Frame \<Rightarrow> bytes \<Rightarrow> bytes option" where
  "GetHeader f key = find_header key (Headers f)"

definition HeaderValue :: "Frame \<Rightarrow> bytes \<Rightarrow> bytes" where
  "HeaderValue f key = (case GetHeader f key of None \<Rightarrow> [] | Some v \<Rightarrow> v)"

fun set_header :: "bytes \<Rightarrow> bytes \<Rightarrow> Header list \<Rightarrow> Header list" where
  "set_header key val [] = [\<lparr>hKey = key, hValue = val\<rparr>]"
| "set_header key val (h # hs) =
     (if hKey h = key then h\<lparr>hValue := val\<rparr> # hs else h # set_header key val hs)"

definition SetHeader :: "bytes \<Rightarrow> bytes \<Rightarrow> Frame \<Rightarrow> Frame" where
  "SetHeader key val f = f\<lparr>Headers := set_header key val (Headers f)\<rparr>"

section \<open>Varints\<close>

definition wireVarint :: "64 word" where "wireVarint = 0"
definition wireFixed64 :: "64 word" where "wireFixed64 = 1"
definition wireBytes :: "64 word" where "wireBytes = 2"
definition wireFixed32 :: "64 word" where "wireFixed32 = 5"

function encodeVarint :: "64 word \<Rightarrow> bytes" where
  "encodeVarint v =
     (if v \<ge> 0x80 then ((ucast v :: byte) OR 0x80) # encodeVarint (drop_bit 7 v) else [ucast v])"
  by pat_completeness auto
termination
proof (relation "measure unat")
  fix v :: "64 word"
  assume "0x80 \<le> v"
  then have "unat v \<ge> 128" by (simp add: word_le_nat_alt)
  then have "unat v div 2 ^ 7 < unat v" by simp
  then show "(drop_bit 7 v, v) \<in> measure unat"
    by (simp only: in_measure unat_drop_bit_eq) (simp add: drop_bit_eq_div)
qed simp

declare encodeVarint.simps [simp del]

fun varint_loop :: "nat \<Rightarrow> nat \<Rightarrow> 64 word \<Rightarrow> bytes \<Rightarrow> (codec_error, 64 word \<times> nat) result" where
  "varint_loop i shift val [] = Inl errTruncated"
| "varint_loop i shift val (b # bs) =
     (if i \<ge> 10 then Inl errOverflow
      else
        let val' = val OR push_bit shift (ucast (b AND 0x7f)) in
        if b AND 0x80 = 0 then Inr (val', i + 1) else varint_loop (Suc i) (shift + 7) val' bs)"

definition decodeVarint :: "bytes \<Rightarrow> (codec_error, 64 word \<times> nat) result" where
  "decodeVarint data = varint_loop 0 0 0 data"

section \<open>Marshalling\<close>

definition len64 :: "bytes \<Rightarrow> 64 word" where "len64 bs = of_nat (length bs)"

definition bytes_field :: "byte \<Rightarrow> bytes \<Rightarrow> bytes" where
  "bytes_field tag bs = tag # encodeVarint (len64 bs) @ bs"

definition marshalAppend :: "Header \<Rightarrow> bytes \<Rightarrow> bytes" where
  "marshalAppend h dst = dst @ bytes_field 0x0a (hKey h) @ bytes_field 0x12 (hValue h)"

definition Marshal :: "Frame \<Rightarrow> bytes" where
  "Marshal f =
     0x08 # encodeVarint (SeqID f)
     @ 0x10 # encodeVarint (LogID f)
     @ 0x18 # encodeVarint (ucast (Service f))
     @ 0x20 # encodeVarint (ucast (Method f))
     @ concat (map (\<lambda>h. bytes_field 0x2a (marshalAppend h [])) (Headers f))
     @ bytes_field 0x32 (PayloadEncoding f)
     @ bytes_field 0x3a (PayloadType f)
     @ (case Payload f of None \<Rightarrow> [] | Some p \<Rightarrow> bytes_field 0x42 p)
     @ bytes_field 0x4a (LogIDNew f)"

section \<open>Unmarshalling\<close>

definition varint_at :: "bytes \<Rightarrow> nat \<Rightarrow> (codec_error, 64 word \<times> nat) result" where
  "varint_at data off = res_bind (decodeVarint (drop off data)) (\<lambda>(v, n). Inr (v, off + n))"

text \<open>The length, the check \<^verbatim>\<open>uint64(len(data)-offset) < strLen\<close> and the slice.\<close>

definition bytes_at :: "bytes \<Rightarrow> nat \<Rightarrow> (codec_error, bytes \<times> nat) result" where
  "bytes_at data off = res_bind (varint_at data off) (\<lambda>(strLen, off1).
     if (of_nat (length data - off1) :: 64 word) < strLen then Inl errTruncated
     else Inr (take (unat strLen) (drop off1 data), off1 + unat strLen))"

definition skipField :: "64 word \<Rightarrow> bytes \<Rightarrow> (codec_error, int) result" where
  "skipField wireType data =
     (if wireType = wireVarint then res_bind (decodeVarint data) (\<lambda>(_, n). Inr (int n))
      else if wireType = wireFixed64 then (if length data < 8 then Inl errTruncated else Inr 8)
      else if wireType = wireBytes then
        res_bind (decodeVarint data) (\<lambda>(l, n).
          let total = wrap64 (int n + sint l) in
          if int (length data) < total then Inl errTruncated else Inr total)
      else if wireType = wireFixed32 then (if length data < 4 then Inl errTruncated else Inr 4)
      else Inl errBadWire)"

definition want :: "64 word \<Rightarrow> 64 word \<Rightarrow> (codec_error, 'a) result \<Rightarrow> (codec_error, 'a) result" where
  "want wireType wire k = (if wireType \<noteq> wire then Inl errBadWire else k)"

text \<open>One iteration of \<^verbatim>\<open>Header.unmarshal\<close>: the header and the next offset.\<close>

definition header_step :: "bytes \<Rightarrow> nat \<Rightarrow> Header \<Rightarrow> (codec_error, Header \<times> int) result" where
  "header_step data off h = res_bind (varint_at data off) (\<lambda>(tag, off1).
     let fieldNum = drop_bit 3 tag; wireType = tag AND 7 in
     if fieldNum = 1 then
       want wireType wireBytes (res_bind (bytes_at data off1) (\<lambda>(s, off2). Inr (h\<lparr>hKey := s\<rparr>, int off2)))
     else if fieldNum = 2 then
       want wireType wireBytes (res_bind (bytes_at data off1) (\<lambda>(s, off2). Inr (h\<lparr>hValue := s\<rparr>, int off2)))
     else res_bind (skipField wireType (drop off1 data)) (\<lambda>skip. Inr (h, int off1 + skip)))"

partial_function (option) header_loop :: "bytes \<Rightarrow> int \<Rightarrow> Header \<Rightarrow> (codec_error, Header) result option" where
  "header_loop data off h =
     (if off < int (length data) then
        (if off < 0 then Some (Inl Panic)
         else (case header_step data (nat off) h of
                 Inl e \<Rightarrow> Some (Inl e)
               | Inr r \<Rightarrow> header_loop data (snd r) (fst r)))
      else Some (Inr h))"

definition unmarshalHeader :: "bytes \<Rightarrow> (codec_error, Header) result option" where
  "unmarshalHeader data = header_loop data 0 zeroHeader"

text \<open>One iteration of \<^verbatim>\<open>Frame.Unmarshal\<close>; the header of case 5 has its own loop.\<close>

definition frame_step :: "bytes \<Rightarrow> nat \<Rightarrow> Frame \<Rightarrow> (codec_error, Frame \<times> int) result option" where
  "frame_step data off f = (case varint_at data off of
     Inl e \<Rightarrow> Some (Inl e)
   | Inr (tag, off1) \<Rightarrow>
     let fieldNum = drop_bit 3 tag; wireType = tag AND 7;
         varint = (\<lambda>upd. Some (want wireType wireVarint
            (res_bind (varint_at data off1) (\<lambda>(v, off2). Inr (upd v, int off2)))));
         str = (\<lambda>upd. Some (want wireType wireBytes
            (res_bind (bytes_at data off1) (\<lambda>(s, off2). Inr (upd s, int off2)))))
     in
     if fieldNum = 1 then varint (\<lambda>v. f\<lparr>SeqID := v\<rparr>)
     else if fieldNum = 2 then varint (\<lambda>v. f\<lparr>LogID := v\<rparr>)
     else if fieldNum = 3 then varint (\<lambda>v. f\<lparr>Service := ucast v\<rparr>)
     else if fieldNum = 4 then varint (\<lambda>v. f\<lparr>Method := ucast v\<rparr>)
     else if fieldNum = 5 then
       (if wireType \<noteq> wireBytes then Some (Inl errBadWire)
        else (case bytes_at data off1 of
                Inl e \<Rightarrow> Some (Inl e)
              | Inr (hb, off2) \<Rightarrow> (case unmarshalHeader hb of
                    None \<Rightarrow> None
                  | Some (Inl e) \<Rightarrow> Some (Inl e)
                  | Some (Inr h) \<Rightarrow> Some (Inr (f\<lparr>Headers := Headers f @ [h]\<rparr>, int off2)))))
     else if fieldNum = 6 then str (\<lambda>s. f\<lparr>PayloadEncoding := s\<rparr>)
     else if fieldNum = 7 then str (\<lambda>s. f\<lparr>PayloadType := s\<rparr>)
     else if fieldNum = 8 then str (\<lambda>s. f\<lparr>Payload := Some s\<rparr>)
     else if fieldNum = 9 then str (\<lambda>s. f\<lparr>LogIDNew := s\<rparr>)
     else Some (res_bind (skipField wireType (drop off1 data)) (\<lambda>skip. Inr (f, int off1 + skip))))"

partial_function (option) frame_loop :: "bytes \<Rightarrow> int \<Rightarrow> Frame \<Rightarrow> (codec_error, Frame) result option" where
  "frame_loop data off f =
     (if off < int (length data) then
        (if off < 0 then Some (Inl Panic)
         else Option.bind (frame_step data (nat off) f) (\<lambda>r. case r of
                 Inl e \<Rightarrow> Some (Inl e)
               | Inr r \<Rightarrow> frame_loop data (snd r) (fst r)))
      else Some (Inr f))"

definition Unmarshal :: "bytes \<Rightarrow> (codec_error, Frame) result option" where
  "Unmarshal data = frame_loop data 0 zeroFrame"

definition bytes_of :: "string \<Rightarrow> bytes" where
  "bytes_of s = map (\<lambda>c. of_nat (char_code c)) s"

definition NewPingFrame :: "32 word \<Rightarrow> Frame" where
  "NewPingFrame service = zeroFrame\<lparr>Service := service, Method := 0,
     Headers := [\<lparr>hKey = bytes_of ''type'', hValue = bytes_of ''ping''\<rparr>]\<rparr>"

end
