(* ===== verification/Codec_Properties.thy ===== *)
theory Codec_Properties
  imports Codec
begin

text \<open>
  Round trips of the frame codec.  The locale \<open>prefix_codec\<close> is what a decoder of a
  self-delimiting encoding promises its caller, who passes it the rest of the buffer; it is
  interpreted on varints and on length-prefixed bytes, and the loops of \<^verbatim>\<open>Header.unmarshal\<close> and
  \<^verbatim>\<open>Frame.Unmarshal\<close> are stepped field by field with its laws.
\<close>

section \<open>Self-delimiting encodings\<close>

locale prefix_codec =
  fixes enc :: "'a \<Rightarrow> bytes"
    and dec :: "bytes \<Rightarrow> (codec_error, 'a \<times> nat) result"
    and fits :: "'a \<Rightarrow> bytes \<Rightarrow> bool"
  assumes dec_enc: "fits x rest \<Longrightarrow> dec (enc x @ rest) = Inr (x, length (enc x))"
begin

lemma dec_at: "fits x rest \<Longrightarrow> dec (drop (length pre) (pre @ enc x @ rest)) = Inr (x, length (enc x))"
  by (simp add: dec_enc)

lemma enc_prefix_free:
  assumes "fits x r" "fits y s" and "enc x @ r = enc y @ s"
  shows "x = y \<and> r = s"
proof -
  have "Inr (x, length (enc x)) = (Inr (y, length (enc y)) :: (codec_error, 'a \<times> nat) result)"
    using dec_enc [OF assms(1)] dec_enc [OF assms(2)] assms(3) by simp
  with assms(3) show ?thesis by simp
qed

end

section \<open>Varints\<close>

lemma bit_masks [simp]: "bit (0x80 :: int) n \<longleftrightarrow> n = 7" "bit (0x7f :: int) n \<longleftrightarrow> n < 7"
proof -
  have e: "(0x80 :: int) = 2 ^ 7" "(0x7f :: int) = mask 7" by (simp_all add: mask_eq_exp_minus_1)
  show "bit (0x80 :: int) n \<longleftrightarrow> n = 7" unfolding e by (simp only: bit_exp_iff) auto
  show "bit (0x7f :: int) n \<longleftrightarrow> n < 7" unfolding e by (simp only: bit_mask_iff) simp
qed

lemma low_bits: "ucast (((ucast v :: byte) OR 0x80) AND 0x7f) = v AND 0x7f" for v :: "64 word"
  by (rule bit_word_eqI) (auto simp: bit_and_iff bit_or_iff bit_ucast_iff)

lemma high_bit: "((ucast v :: byte) OR 0x80) AND 0x80 \<noteq> 0" for v :: "64 word"
proof
  assume "((ucast v :: byte) OR 0x80) AND 0x80 = 0"
  then have "\<not> bit (((ucast v :: byte) OR 0x80) AND 0x80) 7" by simp
  then show False by (simp add: bit_and_iff bit_or_iff)
qed

lemma small_value:
  fixes v :: "64 word"
  assumes "v < 0x80"
  shows "ucast ((ucast v :: byte) AND 0x7f) = v" "(ucast v :: byte) AND 0x80 = 0"
proof -
  have "take_bit 7 v = v"
    using assms by (simp add: word_less_nat_alt take_bit_eq_mod word_unat_eq_iff unat_mod)
  then have b: "n < 7" if "bit v n" for n using that by (metis bit_take_bit_iff)
  show "ucast ((ucast v :: byte) AND 0x7f) = v"
    by (rule bit_word_eqI) (auto simp: bit_and_iff bit_ucast_iff dest: b)
  show "(ucast v :: byte) AND 0x80 = 0"
    by (rule bit_word_eqI) (auto simp: bit_and_iff bit_ucast_iff dest: b)
qed

lemma split_7: "push_bit s (v AND 0x7f) OR push_bit (s + 7) (drop_bit 7 v) = push_bit s v" for v :: "64 word"
proof (rule bit_word_eqI)
  fix n
  assume n: "n < LENGTH(64)"
  show "bit (push_bit s (v AND 0x7f) OR push_bit (s + 7) (drop_bit 7 v)) n = bit (push_bit s v) n"
  proof (cases "s + 7 \<le> n")
    case True
    then have "7 + (n - (s + 7)) = n - s" by simp
    with True n show ?thesis by (auto simp: bit_or_iff bit_and_iff bit_push_bit_iff bit_drop_bit_eq)
  next
    case False
    with n show ?thesis by (auto simp: bit_or_iff bit_and_iff bit_push_bit_iff bit_drop_bit_eq)
  qed
qed

lemma encodeVarint_ne [simp]: "encodeVarint v \<noteq> []"
  by (subst encodeVarint.simps) simp

lemma encodeVarint_length: "unat v < 2 ^ (7 * Suc n) \<Longrightarrow> length (encodeVarint v) \<le> Suc n"
proof (induction n arbitrary: v)
  case 0
  then show ?case by (subst encodeVarint.simps) (simp add: word_le_nat_alt)
next
  case (Suc n)
  have "unat (drop_bit 7 v) = unat v div 2 ^ 7"
    by (simp only: unat_drop_bit_eq) (simp add: drop_bit_eq_div)
  also have "\<dots> < 2 ^ (7 * Suc n)"
    using Suc.prems by (simp add: less_mult_imp_div_less power_add mult.commute)
  finally show ?case using Suc.IH by (subst encodeVarint.simps) simp
qed

lemma encodeVarint_length10: "length (encodeVarint v) \<le> 10"
proof -
  have "unat v < 2 ^ 64" using unsigned_less [of v] by simp
  also have "\<dots> < 2 ^ (7 * Suc 9)" by simp
  finally show ?thesis using encodeVarint_length [of v 9] by simp
qed

lemma varint_loop_encode:
  "i + length (encodeVarint v) \<le> 10 \<Longrightarrow>
     varint_loop i s val (encodeVarint v @ rest) = Inr (val OR push_bit s v, i + length (encodeVarint v))"
proof (induction v arbitrary: i s val rule: encodeVarint.induct)
  case (1 v)
  show ?case
  proof (cases "v \<ge> 0x80")
    case True
    have e: "encodeVarint v = ((ucast v :: byte) OR 0x80) # encodeVarint (drop_bit 7 v)"
      using True by (subst encodeVarint.simps) simp
    have "(val OR push_bit s (v AND 0x7f)) OR push_bit (s + 7) (drop_bit 7 v) = val OR push_bit s v"
      by (simp only: or.assoc split_7)
    with True "1.IH" [of "Suc i" "s + 7" "val OR push_bit s (v AND 0x7f)"] "1.prems"
    show ?thesis by (simp add: e high_bit low_bits Let_def del: push_bit_and)
  next
    case False
    then have v: "v < 0x80" by simp
    have e: "encodeVarint v = [ucast v]" using False by (subst encodeVarint.simps) simp
    show ?thesis using "1.prems" by (simp add: e small_value [OF v] Let_def)
  qed
qed

lemma decode_encode: "decodeVarint (encodeVarint v @ rest) = Inr (v, length (encodeVarint v))"
  using varint_loop_encode [of 0 v 0 0 rest] encodeVarint_length10 [of v] by (simp add: decodeVarint_def)

interpretation varint: prefix_codec encodeVarint decodeVarint "\<lambda>_ _. True"
  by unfold_locales (simp add: decode_encode)

text \<open>Varints: for every 64-bit value the encoder writes at most the 10 bytes its buffer has, and the decoder,
  given those bytes and anything after them, returns the value and consumes exactly them; in particular no encoding is a
  prefix of another.\<close>

theorem varint_roundtrip:
  "1 \<le> length (encodeVarint v) \<and> length (encodeVarint v) \<le> 10
   \<and> decodeVarint (encodeVarint v @ rest) = Inr (v, length (encodeVarint v))
   \<and> (encodeVarint v @ rest = encodeVarint w @ rest' \<longrightarrow> v = w \<and> rest = rest')"
  using encodeVarint_length10 [of v] varint.dec_enc [of v rest] varint.enc_prefix_free [where x = v and y = w and r = rest and s = rest']
  by (cases "encodeVarint v") auto

theorem varint_roundtrip_witness: "decodeVarint (encodeVarint 300 @ [7]) = Inr (300, 2)"
proof -
  have "encodeVarint 300 = [0xac, 2]" by code_simp
  with varint_roundtrip [of 300 "[7]" 300 "[7]"] show ?thesis by simp
qed

section \<open>Length-prefixed bytes\<close>

text \<open>Go slices are shorter than \<open>2^63\<close>.\<close>

definition slice_ok :: "bytes \<Rightarrow> bool" where
  "slice_ok bs \<longleftrightarrow> length bs < 2 ^ 63"

lemma len64_unat [simp]: "length bs < 2 ^ 63 \<Longrightarrow> unat (len64 bs) = length bs"
  by (simp add: len64_def unat_of_nat)

lemma varint_at_pre: "varint_at (pre @ encodeVarint v @ rest) (length pre) = Inr (v, length pre + length (encodeVarint v))"
  by (simp add: varint_at_def decode_encode)

lemma bytes_at_pre:
  assumes "slice_ok (pre @ encodeVarint (len64 s) @ s @ post)"
  shows "bytes_at (pre @ encodeVarint (len64 s) @ s @ post) (length pre)
     = Inr (s, length pre + length (encodeVarint (len64 s)) + length s)"
proof -
  have l: "length s < 2 ^ 63" "length s + length post < 2 ^ 63"
    using assms by (simp_all add: slice_ok_def)
  have u: "unat (of_nat n :: 64 word) = n" if "n < 2 ^ 63" for n
    using that by (simp add: unat_of_nat)
  have "\<not> (of_nat (length s + length post) :: 64 word) < len64 s"
    by (simp add: word_less_nat_alt u [OF l(2)] len64_unat [OF l(1)] del: of_nat_add)
  then show ?thesis using l by (simp add: bytes_at_def varint_at_pre add.assoc del: of_nat_add)
qed

interpretation lp: prefix_codec "\<lambda>s. encodeVarint (len64 s) @ s" "\<lambda>data. bytes_at data 0"
  "\<lambda>s rest. slice_ok (encodeVarint (len64 s) @ s @ rest)"
  by unfold_locales (use bytes_at_pre [of "[]"] in simp)

section \<open>Tags\<close>

lemma tag_simps:
  "decodeVarint (0x08 # bs) = Inr (0x08, 1)" "decodeVarint (0x10 # bs) = Inr (0x10, 1)"
  "decodeVarint (0x18 # bs) = Inr (0x18, 1)" "decodeVarint (0x20 # bs) = Inr (0x20, 1)"
  "decodeVarint (0x2a # bs) = Inr (0x2a, 1)" "decodeVarint (0x32 # bs) = Inr (0x32, 1)"
  "decodeVarint (0x3a # bs) = Inr (0x3a, 1)" "decodeVarint (0x42 # bs) = Inr (0x42, 1)"
  "decodeVarint (0x4a # bs) = Inr (0x4a, 1)" "decodeVarint (0x0a # bs) = Inr (0x0a, 1)"
  "decodeVarint (0x12 # bs) = Inr (0x12, 1)"
  by (simp_all add: decodeVarint_def)

lemma tag_fields:
  "drop_bit 3 (0x08 :: 64 word) = 1" "drop_bit 3 (0x10 :: 64 word) = 2" "drop_bit 3 (0x18 :: 64 word) = 3"
  "drop_bit 3 (0x20 :: 64 word) = 4" "drop_bit 3 (0x2a :: 64 word) = 5" "drop_bit 3 (0x32 :: 64 word) = 6"
  "drop_bit 3 (0x3a :: 64 word) = 7" "drop_bit 3 (0x42 :: 64 word) = 8" "drop_bit 3 (0x4a :: 64 word) = 9"
  "drop_bit 3 (0x0a :: 64 word) = 1" "drop_bit 3 (0x12 :: 64 word) = 2"
  by code_simp+

lemma tag_wires:
  "(0x08 :: 64 word) AND 7 = 0" "(0x10 :: 64 word) AND 7 = 0" "(0x18 :: 64 word) AND 7 = 0"
  "(0x20 :: 64 word) AND 7 = 0" "(0x2a :: 64 word) AND 7 = 2" "(0x32 :: 64 word) AND 7 = 2"
  "(0x3a :: 64 word) AND 7 = 2" "(0x42 :: 64 word) AND 7 = 2" "(0x4a :: 64 word) AND 7 = 2"
  "(0x0a :: 64 word) AND 7 = 2" "(0x12 :: 64 word) AND 7 = 2"
  by code_simp+

lemmas tag_evals = tag_simps tag_fields tag_wires wireBytes_def wireVarint_def

lemma after_tag_varint:
  "varint_at (pre @ tg # encodeVarint v @ rest) (Suc (length pre)) = Inr (v, Suc (length pre) + length (encodeVarint v))"
  using varint_at_pre [of "pre @ [tg]" v rest] by simp

lemma after_tag_bytes:
  assumes "slice_ok (pre @ tg # encodeVarint (len64 s) @ s @ post)"
  shows "bytes_at (pre @ tg # encodeVarint (len64 s) @ s @ post) (Suc (length pre))
     = Inr (s, Suc (length pre) + length (encodeVarint (len64 s)) + length s)"
  using bytes_at_pre [of "pre @ [tg]" s post] assms by simp

section \<open>Loops over an offset\<close>

text \<open>Both decoders run a step at an offset until the offset leaves the buffer.\<close>

locale offset_loop =
  fixes loop :: "bytes \<Rightarrow> int \<Rightarrow> 'x \<Rightarrow> (codec_error, 'x) result option"
    and step :: "bytes \<Rightarrow> nat \<Rightarrow> 'x \<Rightarrow> (codec_error, 'x \<times> int) result option"
  assumes unroll: "loop data off x =
     (if off < int (length data) then
        (if off < 0 then Some (Inl Panic)
         else (case step data (nat off) x of
                 None \<Rightarrow> None
               | Some (Inl e) \<Rightarrow> Some (Inl e)
               | Some (Inr r) \<Rightarrow> loop data (snd r) (fst r)))
      else Some (Inr x))"
begin

lemma loop_next:
  assumes "off < length data" and "step data off x = Some (Inr (x', off'))"
  shows "loop data (int off) x = loop data off' x'"
  using assms by (subst unroll) simp

lemma loop_end: "loop data (int (length data)) x = Some (Inr x)"
  by (subst unroll) simp

text \<open>A loop whose steps return without panic and move forward returns without panic.\<close>

lemma loop_returns:
  assumes fwd: "\<And>off x. off < length data \<Longrightarrow> \<exists>r. step data off x = Some r \<and> r \<noteq> Inl Panic
      \<and> (\<forall>x' off'. r = Inr (x', off') \<longrightarrow> int off < off')"
    and "0 \<le> off"
  shows "\<exists>r. loop data off x = Some r \<and> r \<noteq> Inl Panic"
  using assms(2)
proof (induction "nat (int (length data) - off)" arbitrary: off x rule: less_induct)
  case less
  show ?case
  proof (cases "off < int (length data)")
    case False
    then show ?thesis by (subst unroll) simp
  next
    case True
    with less.prems obtain r where r: "step data (nat off) x = Some r" "r \<noteq> Inl Panic"
      "\<forall>x' off'. r = Inr (x', off') \<longrightarrow> off < off'"
      using fwd [of "nat off" x] by (auto simp: nat_less_iff)
    show ?thesis
    proof (cases r)
      case (Inl e)
      with True less.prems r show ?thesis by (subst unroll) simp
    next
      case (Inr p)
      obtain x' off' where p: "p = (x', off')" by (cases p)
      with Inr r(3) have "off < off'" by simp
      with True less.prems less.hyps [of off' x'] have "\<exists>r. loop data off' x' = Some r \<and> r \<noteq> Inl Panic" by simp
      moreover have "loop data off x = loop data off' x'"
        using True less.prems r(1) Inr p by (subst unroll) simp
      ultimately show ?thesis by simp
    qed
  qed
qed

end

interpretation hloop: offset_loop header_loop "\<lambda>data off h. Some (header_step data off h)"
  by unfold_locales (subst header_loop.simps, simp split: sum.split)

interpretation floop: offset_loop frame_loop frame_step
  by unfold_locales (subst frame_loop.simps, auto split: sum.split option.split)

section \<open>Headers\<close>

lemma header_step_key:
  assumes "slice_ok (pre @ bytes_field 0x0a k @ post)"
  shows "header_step (pre @ bytes_field 0x0a k @ post) (length pre) h
     = Inr (h\<lparr>hKey := k\<rparr>, int (length (pre @ bytes_field 0x0a k)))"
  using assms
  by (simp add: after_tag_bytes header_step_def varint_at_def bytes_field_def tag_evals want_def)

lemma header_step_value:
  assumes "slice_ok (pre @ bytes_field 0x12 v @ post)"
  shows "header_step (pre @ bytes_field 0x12 v @ post) (length pre) h
     = Inr (h\<lparr>hValue := v\<rparr>, int (length (pre @ bytes_field 0x12 v)))"
  using assms
  by (simp add: after_tag_bytes header_step_def varint_at_def bytes_field_def tag_evals want_def)

lemma bytes_field_ne [simp]: "bytes_field tg s \<noteq> []"
  by (simp add: bytes_field_def)

lemma header_roundtrip:
  assumes "slice_ok (marshalAppend h [])"
  shows "unmarshalHeader (marshalAppend h []) = Some (Inr h)"
proof -
  let ?a = "bytes_field 0x0a (hKey h)" and ?b = "bytes_field 0x12 (hValue h)"
  have m: "marshalAppend h [] = ?a @ ?b" by (simp add: marshalAppend_def)
  have ok: "slice_ok (?a @ ?b)" using assms by (simp add: m)
  have pos: "0 < length ?a" "0 < length ?b" by simp_all
  have 1: "header_loop (?a @ ?b) 0 zeroHeader = header_loop (?a @ ?b) (int (length ?a)) (zeroHeader\<lparr>hKey := hKey h\<rparr>)"
    using hloop.loop_next [of 0 "?a @ ?b" zeroHeader] header_step_key [of "[]" "hKey h" ?b zeroHeader] ok pos
    by simp
  have 2: "header_loop (?a @ ?b) (int (length ?a)) g = header_loop (?a @ ?b) (int (length (?a @ ?b))) (g\<lparr>hValue := hValue h\<rparr>)" for g
    using header_step_value [of ?a "hValue h" "[]" g] ok pos
    by (intro hloop.loop_next) simp_all
  show ?thesis unfolding unmarshalHeader_def m 1 2
    by (subst header_loop.simps) (simp add: zeroHeader_def)
qed

section \<open>Frames\<close>

text \<open>The field \<open>fld\<close> takes the loop from the frame \<open>f\<close> to the frame \<open>f'\<close>, wherever it stands in a buffer.\<close>

definition reads :: "bytes \<Rightarrow> Frame \<Rightarrow> Frame \<Rightarrow> bool" where
  "reads fld f f' \<longleftrightarrow> fld \<noteq> [] \<and> (\<forall>pre post. slice_ok (pre @ fld @ post) \<longrightarrow>
     frame_step (pre @ fld @ post) (length pre) f = Some (Inr (f', int (length (pre @ fld)))))"

inductive reads_seq :: "bytes \<Rightarrow> Frame \<Rightarrow> Frame \<Rightarrow> bool" where
  reads_nil: "reads_seq [] f f"
| reads_cons: "reads fld f f' \<Longrightarrow> reads_seq rest f' f'' \<Longrightarrow> reads_seq (fld @ rest) f f''"

lemma reads_seq_append: "reads_seq a f g \<Longrightarrow> reads_seq b g h \<Longrightarrow> reads_seq (a @ b) f h"
  by (induction rule: reads_seq.induct) (auto intro: reads_cons)

lemma reads_one: "reads fld f f' \<Longrightarrow> reads_seq fld f f'"
  using reads_cons [OF _ reads_nil] by fastforce

lemma reads_loop:
  "reads_seq bs f f' \<Longrightarrow> slice_ok (pre @ bs) \<Longrightarrow> frame_loop (pre @ bs) (int (length pre)) f = Some (Inr f')"
proof (induction arbitrary: pre rule: reads_seq.induct)
  case (reads_nil f)
  then show ?case by (subst frame_loop.simps) simp
next
  case (reads_cons fld f f' rest f'')
  have "fld \<noteq> []" and st: "frame_step (pre @ fld @ rest) (length pre) f = Some (Inr (f', int (length (pre @ fld))))"
    using reads_cons by (auto simp: reads_def)
  then have "frame_loop (pre @ fld @ rest) (int (length pre)) f = frame_loop (pre @ fld @ rest) (int (length (pre @ fld))) f'"
    by (intro floop.loop_next) auto
  with reads_cons.IH [of "pre @ fld"] reads_cons.prems show ?case by simp
qed

lemma reads_varint:
  "reads (0x08 # encodeVarint v) f (f\<lparr>SeqID := v\<rparr>)"
  "reads (0x10 # encodeVarint v) f (f\<lparr>LogID := v\<rparr>)"
  "reads (0x18 # encodeVarint v) f (f\<lparr>Service := ucast v\<rparr>)"
  "reads (0x20 # encodeVarint v) f (f\<lparr>Method := ucast v\<rparr>)"
  by (simp_all add: reads_def frame_step_def varint_at_def [of _ "length _"] tag_evals want_def after_tag_varint)

lemma reads_bytes:
  "reads (bytes_field 0x32 s) f (f\<lparr>PayloadEncoding := s\<rparr>)"
  "reads (bytes_field 0x3a s) f (f\<lparr>PayloadType := s\<rparr>)"
  "reads (bytes_field 0x42 s) f (f\<lparr>Payload := Some s\<rparr>)"
  "reads (bytes_field 0x4a s) f (f\<lparr>LogIDNew := s\<rparr>)"
  by (simp_all add: reads_def bytes_field_def frame_step_def varint_at_def tag_evals want_def after_tag_bytes)

lemma reads_header:
  assumes "slice_ok (marshalAppend h [])"
  shows "reads (bytes_field 0x2a (marshalAppend h [])) f (f\<lparr>Headers := Headers f @ [h]\<rparr>)"
  by (simp add: reads_def bytes_field_def frame_step_def varint_at_def tag_evals after_tag_bytes
      header_roundtrip [OF assms])

lemma reads_headers:
  assumes "\<forall>h \<in> set hs. slice_ok (marshalAppend h [])"
  shows "reads_seq (concat (map (\<lambda>h. bytes_field 0x2a (marshalAppend h [])) hs)) f (f\<lparr>Headers := Headers f @ hs\<rparr>)"
  using assms
proof (induction hs arbitrary: f)
  case (Cons h hs)
  have "reads (bytes_field 0x2a (marshalAppend h [])) f (f\<lparr>Headers := Headers f @ [h]\<rparr>)"
    using Cons.prems by (simp add: reads_header)
  moreover have "reads_seq (concat (map (\<lambda>h. bytes_field 0x2a (marshalAppend h [])) hs))
      (f\<lparr>Headers := Headers f @ [h]\<rparr>) (f\<lparr>Headers := Headers f @ h # hs\<rparr>)"
    using Cons.IH [of "f\<lparr>Headers := Headers f @ [h]\<rparr>"] Cons.prems by simp
  ultimately show ?case by (simp add: reads_cons)
qed (simp add: reads_nil)

lemma marshal_reads:
  assumes "slice_ok (Marshal f)"
  shows "reads_seq (Marshal f) zeroFrame f"
proof -
  define f1 where "f1 = zeroFrame\<lparr>SeqID := SeqID f, LogID := LogID f, Service := Service f, Method := Method f\<rparr>"
  define f2 where "f2 = f1\<lparr>Headers := Headers f\<rparr>"
  define f3 where "f3 = f2\<lparr>PayloadEncoding := PayloadEncoding f, PayloadType := PayloadType f\<rparr>"
  define f4 where "f4 = f3\<lparr>Payload := Payload f\<rparr>"
  have i32: "ucast (ucast x :: 64 word) = x" for x :: "32 word"
    by (rule bit_word_eqI) (simp add: bit_ucast_iff)
  have f1: "f1 = zeroFrame\<lparr>SeqID := SeqID f, LogID := LogID f, Service := ucast (ucast (Service f) :: 64 word),
      Method := ucast (ucast (Method f) :: 64 word)\<rparr>"
    by (simp add: f1_def i32)
  have a: "reads_seq ((0x08 # encodeVarint (SeqID f)) @ (0x10 # encodeVarint (LogID f))
      @ (0x18 # encodeVarint (ucast (Service f))) @ (0x20 # encodeVarint (ucast (Method f)))) zeroFrame f1"
    unfolding f1
    by (rule reads_cons [OF reads_varint(1) reads_cons [OF reads_varint(2) reads_cons [OF reads_varint(3) reads_one [OF reads_varint(4)]]]])
  have "length (marshalAppend h []) \<le> length (Marshal f)" if "h \<in> set (Headers f)" for h
    using that by (auto simp: Marshal_def bytes_field_def dest!: split_list)
  then have hs: "\<forall>h \<in> set (Headers f). slice_ok (marshalAppend h [])"
    using assms by (force simp: slice_ok_def)
  have b: "reads_seq (concat (map (\<lambda>h. bytes_field 0x2a (marshalAppend h [])) (Headers f))) f1 f2"
    using reads_headers [OF hs, of f1] by (simp add: f2_def f1_def zeroFrame_def)
  have c: "reads_seq (bytes_field 0x32 (PayloadEncoding f) @ bytes_field 0x3a (PayloadType f)) f2 f3"
    unfolding f3_def by (rule reads_cons [OF reads_bytes(1) reads_one [OF reads_bytes(2)]])
  have d: "reads_seq (case Payload f of None \<Rightarrow> [] | Some p \<Rightarrow> bytes_field 0x42 p) f3 f4"
  proof (cases "Payload f")
    case None
    then have "f4 = f3" by (simp add: f4_def f3_def f2_def f1_def zeroFrame_def)
    with None show ?thesis by (simp add: reads_nil)
  next
    case (Some p)
    then show ?thesis using reads_one [OF reads_bytes(3), of p f3] by (simp add: f4_def)
  qed
  have "f4\<lparr>LogIDNew := LogIDNew f\<rparr> = f"
    by (cases f) (simp add: f4_def f3_def f2_def f1_def zeroFrame_def)
  then have e: "reads_seq (bytes_field 0x4a (LogIDNew f)) f4 f"
    using reads_one [OF reads_bytes(4), of "LogIDNew f" f4] by simp
  show ?thesis
    using reads_seq_append [OF a reads_seq_append [OF b reads_seq_append [OF c reads_seq_append [OF d e]]]]
    by (simp add: Marshal_def)
qed

text \<open>C38. Frames round-trip: every frame whose encoding fits a Go slice is decoded, by a run of the loop that
  ends, to exactly the frame that was encoded: all 64 bits of the two ids, negative service and method numbers, the
  headers in order, and the difference between a missing and an empty payload.\<close>

theorem frame_roundtrip:
  assumes "slice_ok (Marshal f)"
  shows "Unmarshal (Marshal f) = Some (Inr f)"
  using reads_loop [OF marshal_reads [OF assms], of "[]"] assms by (simp add: Unmarshal_def)

lemma ping_marshal:
  "Marshal (NewPingFrame (-1)) = [0x08, 0, 0x10, 0, 0x18, 0xff, 0xff, 0xff, 0xff, 0x0f, 0x20, 0,
     0x2a, 12, 0x0a, 4, 0x74, 0x79, 0x70, 0x65, 0x12, 4, 0x70, 0x69, 0x6e, 0x67, 0x32, 0, 0x3a, 0, 0x4a, 0]"
  by code_simp

theorem frame_roundtrip_witness:
  "Unmarshal [0x08, 0, 0x10, 0, 0x18, 0xff, 0xff, 0xff, 0xff, 0x0f, 0x20, 0,
     0x2a, 12, 0x0a, 4, 0x74, 0x79, 0x70, 0x65, 0x12, 4, 0x70, 0x69, 0x6e, 0x67, 0x32, 0, 0x3a, 0, 0x4a, 0]
   = Some (Inr (NewPingFrame (-1)))"
  using frame_roundtrip [of "NewPingFrame (-1)"] by (simp add: ping_marshal slice_ok_def)

section \<open>Arbitrary input\<close>

lemma varint_loop_pos: "varint_loop i s val bs = Inr (v, n) \<Longrightarrow> i < n \<and> n \<le> i + length bs"
  by (induction i s val bs rule: varint_loop.induct) (fastforce simp: Let_def split: if_splits)+

lemma varint_at_fwd: "varint_at data off = Inr (v, off1) \<Longrightarrow> off < off1"
  using varint_loop_pos
  by (cases "decodeVarint (drop off data)") (fastforce simp: varint_at_def decodeVarint_def)+

lemma bytes_at_fwd: "bytes_at data off = Inr (s, off1) \<Longrightarrow> off < off1"
  by (cases "varint_at data off") (auto simp: bytes_at_def dest!: varint_at_fwd split: if_splits)

lemma varint_loop_no_panic: "varint_loop i s val bs \<noteq> Inl Panic"
  by (induction i s val bs rule: varint_loop.induct) (auto simp: Let_def)

lemma no_panic [simp]:
  "decodeVarint bs \<noteq> Inl Panic" "varint_at data off \<noteq> Inl Panic" "bytes_at data off \<noteq> Inl Panic"
  "skipField wt bs \<noteq> Inl Panic"
proof -
  show d: "decodeVarint bs \<noteq> Inl Panic" for bs by (simp add: decodeVarint_def varint_loop_no_panic)
  show v: "varint_at data off \<noteq> Inl Panic" for data off
    using d [of "drop off data"] by (cases "decodeVarint (drop off data)") (auto simp: varint_at_def)
  show "bytes_at data off \<noteq> Inl Panic"
    using v [of data off] by (cases "varint_at data off") (auto simp: bytes_at_def split: if_splits)
  show "skipField wt bs \<noteq> Inl Panic"
    using d [of bs] by (cases "decodeVarint bs") (auto simp: skipField_def Let_def split: if_splits)
qed

text \<open>Every field the decoder skips, in the buffer or in a slice of it, has a length that is not negative as
  a Go \<^verbatim>\<open>int\<close>.\<close>

definition skips_forward :: "bytes \<Rightarrow> bool" where
  "skips_forward data \<longleftrightarrow> (\<forall>off len wt tot. skipField wt (take len (drop off data)) = Inr tot \<longrightarrow> 0 \<le> tot)"

lemma skips_forwardD: "skips_forward data \<Longrightarrow> skipField wt (drop off data) = Inr tot \<Longrightarrow> 0 \<le> tot"
  unfolding skips_forward_def by (metis take_all_iff le_refl)

lemma skips_forward_slice: "skips_forward data \<Longrightarrow> skips_forward (take len (drop off data))"
  unfolding skips_forward_def by (metis drop_take drop_drop take_take)

lemma header_step_fwd:
  assumes "skips_forward data"
  shows "header_step data off h \<noteq> Inl Panic" and "header_step data off h = Inr (h', off') \<Longrightarrow> int off < off'"
proof -
  show "header_step data off h \<noteq> Inl Panic"
    using no_panic(2) [of data off] no_panic(3) [of data] no_panic(4)
    by (cases "varint_at data off")
       (auto simp: header_step_def Let_def want_def split: prod.splits elim!: res_bind.elims)
  show "header_step data off h = Inr (h', off') \<Longrightarrow> int off < off'"
    by (cases "varint_at data off")
       (auto simp: header_step_def Let_def want_def split: if_splits elim!: res_bind.elims
          dest!: varint_at_fwd bytes_at_fwd skips_forwardD [OF assms])
qed

lemma unmarshalHeader_returns:
  assumes "skips_forward data"
  shows "\<exists>r. unmarshalHeader data = Some r \<and> r \<noteq> Inl Panic"
  unfolding unmarshalHeader_def
  by (rule hloop.loop_returns) (use header_step_fwd [OF assms] in auto)

lemma bytes_at_slice:
  assumes "bytes_at data off = Inr (s, off1)"
  obtains len o1 where "s = take len (drop o1 data)"
  using assms by (cases "varint_at data off") (auto simp: bytes_at_def split: if_splits)

text \<open>The step ends well: it returns, does not panic, and moves the offset forward.\<close>

definition forward :: "nat \<Rightarrow> (codec_error, 'x \<times> int) result option \<Rightarrow> bool" where
  "forward off m \<longleftrightarrow> (\<exists>r. m = Some r \<and> r \<noteq> Inl Panic \<and> (\<forall>x' off'. r = Inr (x', off') \<longrightarrow> int off < off'))"

lemma forward_want:
  assumes "\<And>v off2. m = Inr (v, off2) \<Longrightarrow> off < off2" and "m \<noteq> Inl Panic"
  shows "forward off (Some (want wt w (res_bind m (\<lambda>(v, off2). Inr (upd v, int off2)))))"
  using assms by (cases m) (auto simp: want_def forward_def)

lemma forward_skip:
  assumes "skips_forward data" and "off < off1"
  shows "forward off (Some (res_bind (skipField wt (drop off1 data)) (\<lambda>skip. Inr (f, int off1 + skip))))"
  using assms(2) no_panic(4) [of wt "drop off1 data"]
  by (cases "skipField wt (drop off1 data)") (auto simp: forward_def dest!: skips_forwardD [OF assms(1)])

lemma frame_step_fwd:
  assumes ok: "skips_forward data"
  shows "forward off (frame_step data off f)"
proof (cases "varint_at data off")
  case (Inl e)
  then show ?thesis using no_panic(2) [of data off] by (simp add: frame_step_def forward_def)
next
  case (Inr p)
  obtain tag off1 where p: "p = (tag, off1)" by (cases p)
  with Inr have t: "varint_at data off = Inr (tag, off1)" by simp
  note lt = varint_at_fwd [OF t]
  have v: "off < off2" if "varint_at data off1 = Inr (v, off2)" for v off2
    using lt varint_at_fwd [OF that] by simp
  have b: "off < off2" if "bytes_at data off1 = Inr (v, off2)" for v off2
    using lt bytes_at_fwd [OF that] by simp
  note simple = forward_want [OF v no_panic(2)] forward_want [OF b no_panic(3)] forward_skip [OF ok lt]
  show ?thesis
  proof (cases "drop_bit 3 tag = 5")
    case False
    then show ?thesis by (simp add: frame_step_def t Let_def simple)
  next
    case True
    show ?thesis
    proof (cases "bytes_at data off1")
      case (Inl e)
      then show ?thesis using True no_panic(3) [of data off1] by (simp add: frame_step_def t Let_def forward_def)
    next
      case (Inr q)
      obtain hb off2 where q: "bytes_at data off1 = Inr (hb, off2)" using Inr by (cases q) simp
      then have "skips_forward hb"
        using bytes_at_slice [OF q] skips_forward_slice [OF ok] by metis
      with unmarshalHeader_returns obtain r where "unmarshalHeader hb = Some r" "r \<noteq> Inl Panic" by blast
      then show ?thesis using True b [OF q] q
        by (cases r) (simp_all add: frame_step_def t Let_def forward_def)
    qed
  qed
qed


lemma short_skips: "skipField wt [] = Inr tot \<Longrightarrow> 0 \<le> tot"
  by (simp add: skipField_def decodeVarint_def split: if_splits)

lemma byte8_skips: "skipField wt [8] = Inr tot \<Longrightarrow> 0 \<le> tot"
  by (auto simp: skipField_def decodeVarint_def wrap64_def split: if_splits)


text \<open>The buffer that hangs: field 10, length-delimited, with the length -11.\<close>

definition hang_bytes :: bytes where
  "hang_bytes = [0x52, 0xf5, 0xff, 0xff, 0xff, 0xff, 0xff, 0xff, 0xff, 0xff, 0x01]"

lemma hang_step: "frame_step hang_bytes 0 zeroFrame = Some (Inr (zeroFrame, 0))"
  by code_simp

lemma hang_loop: "frame_loop hang_bytes 0 zeroFrame = None"
proof -
  have "frame_loop hang_bytes 0 zeroFrame = Some y \<Longrightarrow> False" for y
  proof -
    have "hang_bytes = hang_bytes \<and> (0::int) = 0 \<and> zeroFrame = zeroFrame \<longrightarrow> False"
      if "frame_loop hang_bytes 0 zeroFrame = Some y"
    proof (rule frame_loop.raw_induct [where P = "\<lambda>d off f y. d = hang_bytes \<and> off = 0 \<and> f = zeroFrame \<longrightarrow> False",
          OF _ that])
      fix loop :: "bytes \<Rightarrow> int \<Rightarrow> Frame \<Rightarrow> (codec_error, Frame) result option"
        and d :: bytes and off :: int and f :: Frame and y
      assume IH: "\<And>d off f y. loop d off f = Some y \<Longrightarrow> d = hang_bytes \<and> off = 0 \<and> f = zeroFrame \<longrightarrow> False"
        and r: "(if off < int (length d) then (if off < 0 then Some (Inl Panic)
           else Option.bind (frame_step d (nat off) f) (\<lambda>r. case r of Inl e \<Rightarrow> Some (Inl e)
             | Inr r \<Rightarrow> loop d (snd r) (fst r))) else Some (Inr f)) = Some y"
      show "d = hang_bytes \<and> off = 0 \<and> f = zeroFrame \<longrightarrow> False"
      proof
        assume e: "d = hang_bytes \<and> off = 0 \<and> f = zeroFrame"
        have "0 < length hang_bytes" by (simp add: hang_bytes_def)
        with r e have "loop hang_bytes 0 zeroFrame = Some y" by (simp add: hang_step)
        with IH show False by blast
      qed
    qed
    then show "frame_loop hang_bytes 0 zeroFrame = Some y \<Longrightarrow> False" by simp
  qed
  then show ?thesis by (cases "frame_loop hang_bytes 0 zeroFrame") auto
qed

text \<open>\<^verbatim>\<open>skipField\<close> adds the length as a signed \<^verbatim>\<open>int\<close>: on this 11-byte message, an unknown field with length
  \<open>2^64 - 11\<close>, the offset goes back to 0 and the loop of \<^verbatim>\<open>Unmarshal\<close> never ends.\<close>

theorem unmarshal_can_hang: "Unmarshal hang_bytes = None"
  unfolding Unmarshal_def by (rule hang_loop)

section \<open>Reading and setting headers\<close>

lemma find_set_header: "find_header k (set_header k' v hs) = (if k = k' then Some v else find_header k hs)"
  by (induction hs) auto

text \<open>Headers behave as a map: after \<^verbatim>\<open>SetHeader\<close> the key reads as the new value, every other key as before, no
  other field of the frame changes, and setting the same key again does not add a second entry.\<close>

lemma set_header_get:
  "HeaderValue (SetHeader k v f) k' = (if k' = k then v else HeaderValue f k')
   \<and> length (Headers (SetHeader k w (SetHeader k v f))) = length (Headers (SetHeader k v f))
   \<and> (SetHeader k v f)\<lparr>Headers := Headers f\<rparr> = f"
proof -
  have "length (set_header k w (set_header k v hs)) = length (set_header k v hs)" for hs
    by (induction hs) auto
  then show ?thesis by (simp add: HeaderValue_def GetHeader_def SetHeader_def find_set_header)
qed

end
