(* ===== verification/Fragment.thy ===== *)
theory Fragment
  imports Codec
begin

text \<open>
  \<^verbatim>\<open>internal/feishu/fragment.go\<close>: reassembly of messages that arrive in several data frames.  Payloads and
  parts are options because nil and empty slices differ here (a nil part is one that has not arrived).
  Times are nanoseconds.
\<close>

record fragmentEntry =
  parts :: "bytes option list"
  received :: nat
  fe_sum :: int
  fe_expiresAt :: int

record FragmentReassembler =
  fr_entries :: "fragmentEntry gomap"
  fr_ttl :: int

definition NewFragmentReassembler :: "int \<Rightarrow> FragmentReassembler" where
  "NewFragmentReassembler ttl = \<lparr>fr_entries = [], fr_ttl = (if ttl \<le> 0 then 5000000000 else ttl)\<rparr>"

definition sweepLocked :: "int \<Rightarrow> FragmentReassembler \<Rightarrow> FragmentReassembler" where
  "sweepLocked now r = r\<lparr>fr_entries := filter (\<lambda>(k, e). \<not> now > fe_expiresAt e) (fr_entries r)\<rparr>"

definition content :: "bytes option \<Rightarrow> bytes" where
  "content p = (case p of None \<Rightarrow> [] | Some b \<Rightarrow> b)"

definition combine :: "bytes option list \<Rightarrow> bytes" where
  "combine ps = concat (map content ps)"

definition store_part :: "nat \<Rightarrow> bytes option \<Rightarrow> fragmentEntry \<Rightarrow> fragmentEntry" where
  "store_part seq payload e =
     (if parts e ! seq = None
      then e\<lparr>parts := (parts e)[seq := Some (content payload)], received := received e + 1\<rparr> else e)"

definition AddFragment ::
  "int \<Rightarrow> string \<Rightarrow> int \<Rightarrow> int \<Rightarrow> bytes option \<Rightarrow> FragmentReassembler \<Rightarrow> bytes option \<times> FragmentReassembler" where
  "AddFragment now msgID sm seq payload r =
     (if sm \<le> 1 then (payload, r)
      else if sm > 1024 then (None, r)
      else if seq < 0 \<or> seq \<ge> sm then (None, r)
      else
        let r1 = sweepLocked now r;
            entry = (case gm_get (fr_entries r1) msgID of
                None \<Rightarrow> Some \<lparr>parts = replicate (nat sm) None, received = 0, fe_sum = sm,
                             fe_expiresAt = now + fr_ttl r1\<rparr>
              | Some e \<Rightarrow> if fe_sum e \<noteq> sm \<or> nat seq \<ge> length (parts e) then None
                          else Some (e\<lparr>fe_expiresAt := now + fr_ttl r1\<rparr>))
        in case entry of
             None \<Rightarrow> (None, r1)
           | Some e \<Rightarrow>
               let e1 = store_part (nat seq) payload e in
               if int (received e1) = fe_sum e1
               then (Some (combine (parts e1)), r1\<lparr>fr_entries := gm_del msgID (fr_entries r1)\<rparr>)
               else (None, r1\<lparr>fr_entries := gm_put msgID e1 (fr_entries r1)\<rparr>))"

section \<open>The invariant\<close>

definition arrived :: "bytes option list \<Rightarrow> nat" where
  "arrived ps = length (filter (\<lambda>p. p \<noteq> None) ps)"

definition entry_ok :: "fragmentEntry \<Rightarrow> bool" where
  "entry_ok e \<longleftrightarrow> int (length (parts e)) = fe_sum e \<and> 1 < fe_sum e \<and> fe_sum e \<le> 1024
     \<and> received e = arrived (parts e) \<and> int (received e) < fe_sum e"

definition frag_ok :: "FragmentReassembler \<Rightarrow> bool" where
  "frag_ok r \<longleftrightarrow> gm_wf (fr_entries r) \<and> (\<forall>k e. gm_get (fr_entries r) k = Some e \<longrightarrow> entry_ok e)"

lemma arrived_set: "i < length ps \<Longrightarrow> ps ! i = None \<Longrightarrow> arrived (ps[i := Some b]) = Suc (arrived ps)"
proof (induction ps arbitrary: i)
  case (Cons p ps)
  then show ?case by (cases i) (auto simp: arrived_def)
qed simp

lemma arrived_all: "arrived ps = length ps \<longleftrightarrow> None \<notin> set ps"
proof (induction ps)
  case (Cons p ps)
  have "length (filter (\<lambda>p. p \<noteq> None) ps) \<noteq> Suc (length ps)"
    by (metis Suc_n_not_le_n length_filter_le)
  with Cons show ?case by (auto simp: arrived_def)
qed (simp add: arrived_def)

lemma arrived_le: "arrived ps \<le> length ps"
  by (simp add: arrived_def)

lemma store_part_ok:
  assumes "i < length (parts e)" "received e = arrived (parts e)"
  shows "received (store_part i p e) = arrived (parts (store_part i p e))"
    "length (parts (store_part i p e)) = length (parts e)" "fe_sum (store_part i p e) = fe_sum e"
    "fe_expiresAt (store_part i p e) = fe_expiresAt e"
  using assms by (simp_all add: store_part_def arrived_set)

lemma sweep_get:
  "gm_wf (fr_entries r) \<Longrightarrow> gm_get (fr_entries (sweepLocked now r)) k = (case gm_get (fr_entries r) k of
     None \<Rightarrow> None | Some e \<Rightarrow> if now > fe_expiresAt e then None else Some e)"
  by (simp add: sweepLocked_def gm_get_filter split: option.split)

lemma sweep_ok: "frag_ok r \<Longrightarrow> frag_ok (sweepLocked now r)"
  by (auto simp: frag_ok_def sweep_get split: option.splits if_splits)
     (auto simp: sweepLocked_def)

text \<open>The entry a fragment is stored in.\<close>

definition entry_for :: "int \<Rightarrow> string \<Rightarrow> int \<Rightarrow> FragmentReassembler \<Rightarrow> fragmentEntry" where
  "entry_for now msgID sm r = (case gm_get (fr_entries (sweepLocked now r)) msgID of
      None \<Rightarrow> \<lparr>parts = replicate (nat sm) None, received = 0, fe_sum = sm, fe_expiresAt = now + fr_ttl r\<rparr>
    | Some e \<Rightarrow> e\<lparr>fe_expiresAt := now + fr_ttl r\<rparr>)"

lemma entry_for_ok:
  assumes "frag_ok r" and "1 < sm" and "sm \<le> 1024"
    and "fe_sum (entry_for now msgID sm r) = sm"
  shows "entry_ok (entry_for now msgID sm r)"
proof (cases "gm_get (fr_entries (sweepLocked now r)) msgID")
  case None
  then show ?thesis using assms by (simp add: entry_for_def entry_ok_def arrived_def)
next
  case (Some e)
  with sweep_ok [OF assms(1), of now] have "entry_ok e" by (auto simp: frag_ok_def)
  with Some show ?thesis by (simp add: entry_for_def entry_ok_def)
qed

lemma AddFragment_eq:
  assumes "frag_ok r" and "1 < sm" and "sm \<le> 1024" and "0 \<le> seq" and "seq < sm"
    and "fe_sum (entry_for now msgID sm r) = sm"
  shows "AddFragment now msgID sm seq payload r =
    (let e1 = store_part (nat seq) payload (entry_for now msgID sm r); r1 = sweepLocked now r in
     if None \<notin> set (parts e1) then (Some (combine (parts e1)), r1\<lparr>fr_entries := gm_del msgID (fr_entries r1)\<rparr>)
     else (None, r1\<lparr>fr_entries := gm_put msgID e1 (fr_entries r1)\<rparr>))"
proof -
  let ?e = "entry_for now msgID sm r"
  have ok: "entry_ok ?e" by (rule entry_for_ok [OF assms(1-3,6)])
  then have i: "nat seq < length (parts ?e)" "received ?e = arrived (parts ?e)" "int (length (parts ?e)) = sm"
    using assms(4-6) by (auto simp: entry_ok_def)
  note sp = store_part_ok [OF i(1,2), of payload]
  have full: "int (received (store_part (nat seq) payload ?e)) = fe_sum (store_part (nat seq) payload ?e)
      \<longleftrightarrow> None \<notin> set (parts (store_part (nat seq) payload ?e))"
    using sp i(3) assms(6) arrived_all [of "parts (store_part (nat seq) payload ?e)"] by auto
  have ttl: "fr_ttl (sweepLocked now r) = fr_ttl r" by (simp add: sweepLocked_def)
  show ?thesis
  proof (cases "gm_get (fr_entries (sweepLocked now r)) msgID")
    case None
    then have e: "?e = \<lparr>parts = replicate (nat sm) None, received = 0, fe_sum = sm, fe_expiresAt = now + fr_ttl r\<rparr>"
      by (simp add: entry_for_def)
    show ?thesis using assms(2-5) full None
      by (simp add: AddFragment_def Let_def ttl flip: e)
  next
    case (Some e0)
    then have e: "?e = e0\<lparr>fe_expiresAt := now + fr_ttl r\<rparr>" by (simp add: entry_for_def)
    have "fe_sum e0 = sm" "nat seq < length (parts e0)" using i(1) assms(6) by (simp_all add: e)
    then show ?thesis using assms(2-5) full Some
      by (simp add: AddFragment_def Let_def ttl flip: e)
  qed
qed

lemma fragment_step:
  assumes "frag_ok r" and "AddFragment now msgID sm seq payload r = (out, r')"
  shows "frag_ok r'"
proof (cases "sm \<le> 1 \<or> sm > 1024 \<or> seq < 0 \<or> seq \<ge> sm")
  case True
  with assms show ?thesis by (auto simp: AddFragment_def split: if_splits)
next
  case False
  note sw = sweep_ok [OF assms(1), of now]
  show ?thesis
  proof (cases "fe_sum (entry_for now msgID sm r) = sm")
    case ne: False
    then obtain e where e: "gm_get (fr_entries (sweepLocked now r)) msgID = Some e" "fe_sum e \<noteq> sm"
      by (auto simp: entry_for_def split: option.splits)
    with assms(2) False have "r' = sweepLocked now r" by (simp add: AddFragment_def Let_def)
    with sw show ?thesis by simp
  next
    case True
    let ?e = "entry_for now msgID sm r"
    let ?e1 = "store_part (nat seq) payload ?e"
    have ok: "entry_ok ?e" using False True by (intro entry_for_ok [OF assms(1)]) auto
    then have i: "nat seq < length (parts ?e)" "received ?e = arrived (parts ?e)"
      using False True by (auto simp: entry_ok_def)
    note sp = store_part_ok [OF i, of payload]
    have r: "(out, r') = (let r1 = sweepLocked now r in
       if None \<notin> set (parts ?e1) then (Some (combine (parts ?e1)), r1\<lparr>fr_entries := gm_del msgID (fr_entries r1)\<rparr>)
       else (None, r1\<lparr>fr_entries := gm_put msgID ?e1 (fr_entries r1)\<rparr>))"
      using AddFragment_eq [of r sm seq now msgID payload] assms False True by (simp add: Let_def)
    have "entry_ok ?e1" if "None \<in> set (parts ?e1)"
    proof -
      have "arrived (parts ?e1) \<noteq> length (parts ?e1)" using that arrived_all by blast
      with arrived_le [of "parts ?e1"] have "arrived (parts ?e1) < length (parts ?e1)" by simp
      with ok sp show ?thesis by (simp add: entry_ok_def)
    qed
    with r sw show ?thesis by (auto simp: frag_ok_def Let_def split: if_splits)
  qed
qed

text \<open>The reassembler stays consistent: every entry has between 2 and 1024 slots, counts exactly the parts that have
  arrived, and is never complete (a complete one has been handed out and deleted), whatever fragments arrive.\<close>

theorem fragment_invariant:
  assumes "frag_ok r" and "AddFragment now msgID sm seq payload r = (out, r')"
  shows "frag_ok r'"
  using assms by (rule fragment_step)

theorem fragment_invariant_witness:
  "frag_ok (snd (AddFragment 7 ''m'' 3 1 (Some [1]) (NewFragmentReassembler 0)))"
  by (rule fragment_invariant [OF _ prod.collapse [symmetric]]) (simp add: frag_ok_def NewFragmentReassembler_def)

section \<open>Reassembly\<close>

text \<open>The fragments of one message, delivered one after the other with their times.\<close>

fun deliver ::
  "string \<Rightarrow> nat \<Rightarrow> (nat \<Rightarrow> bytes) \<Rightarrow> (int \<times> nat) list \<Rightarrow> FragmentReassembler
     \<Rightarrow> bytes option list \<times> FragmentReassembler" where
  "deliver msgID n f [] r = ([], r)"
| "deliver msgID n f ((t, i) # ds) r =
     (let (o1, r1) = AddFragment t msgID (int n) (int i) (Some (f i)) r; (os, r2) = deliver msgID n f ds r1
      in (o1 # os, r2))"

fun in_time :: "int \<Rightarrow> (int \<times> nat) list \<Rightarrow> bool" where
  "in_time ttl ((t, i) # (t', j) # ds) = (t' \<le> t + ttl \<and> in_time ttl ((t', j) # ds))"
| "in_time ttl _ = True"

definition shape :: "nat \<Rightarrow> (nat \<Rightarrow> bytes) \<Rightarrow> nat set \<Rightarrow> bytes option list" where
  "shape n f D = map (\<lambda>i. if i \<in> D then Some (f i) else None) [0..<n]"

lemma shape_nth: "i < n \<Longrightarrow> shape n f D ! i = (if i \<in> D then Some (f i) else None)"
  by (simp add: shape_def)

lemma shape_update: "i < n \<Longrightarrow> (shape n f D)[i := Some (f i)] = shape n f (insert i D)"
  by (rule nth_equalityI) (auto simp: shape_def nth_list_update)

lemma shape_full: "None \<notin> set (shape n f D) \<longleftrightarrow> {0..<n} \<subseteq> D"
  by (auto simp: shape_def)

lemma shape_combine: "{0..<n} \<subseteq> D \<Longrightarrow> combine (shape n f D) = concat (map f [0..<n])"
  unfolding combine_def shape_def map_map by (rule arg_cong [where f = concat]) (auto simp: content_def)

text \<open>At time \<open>t\<close> the parts \<open>D\<close> of the message are held, and nothing else is.\<close>

definition holds_parts ::
  "int \<Rightarrow> string \<Rightarrow> nat \<Rightarrow> (nat \<Rightarrow> bytes) \<Rightarrow> nat set \<Rightarrow> FragmentReassembler \<Rightarrow> bool" where
  "holds_parts t msgID n f D r \<longleftrightarrow> frag_ok r \<and> fe_sum (entry_for t msgID (int n) r) = int n
     \<and> parts (entry_for t msgID (int n) r) = shape n f D"

lemma store_part_shape:
  assumes "parts e = shape n f D" and "i < n"
  shows "parts (store_part i (Some (f i)) e) = shape n f (insert i D)"
  using assms by (auto simp: store_part_def shape_nth shape_update content_def insert_absorb)

lemma deliver_step:
  assumes h: "holds_parts t msgID n f D r" and n: "1 < n" "n \<le> 1024" and i: "i < n"
    and r: "AddFragment t msgID (int n) (int i) (Some (f i)) r = (out, r')"
  shows "{0..<n} \<subseteq> insert i D \<Longrightarrow> out = Some (concat (map f [0..<n])) \<and> gm_get (fr_entries r') msgID = None"
    and "\<not> {0..<n} \<subseteq> insert i D \<Longrightarrow> out = None \<and> (\<forall>t'. t' \<le> t + fr_ttl r \<longrightarrow> holds_parts t' msgID n f (insert i D) r')"
    and "fr_ttl r' = fr_ttl r"
proof -
  let ?e = "entry_for t msgID (int n) r"
  let ?e1 = "store_part i (Some (f i)) ?e"
  have ok: "frag_ok r" and s: "fe_sum ?e = int n" and p: "parts ?e = shape n f D"
    using h by (simp_all add: holds_parts_def)
  have p1: "parts ?e1 = shape n f (insert i D)" using p i by (rule store_part_shape)
  have eq: "(out, r') = (let r1 = sweepLocked t r in
     if {0..<n} \<subseteq> insert i D
     then (Some (combine (parts ?e1)), r1\<lparr>fr_entries := gm_del msgID (fr_entries r1)\<rparr>)
     else (None, r1\<lparr>fr_entries := gm_put msgID ?e1 (fr_entries r1)\<rparr>))"
    using AddFragment_eq [OF ok, of "int n" "int i" t msgID "Some (f i)"] n i s r
    by (simp add: Let_def p1 shape_full)
  show "fr_ttl r' = fr_ttl r" using eq by (auto simp: Let_def sweepLocked_def split: if_splits)
  show "{0..<n} \<subseteq> insert i D \<Longrightarrow> out = Some (concat (map f [0..<n])) \<and> gm_get (fr_entries r') msgID = None"
    using eq by (simp add: Let_def p1 shape_combine)
  assume inc: "\<not> {0..<n} \<subseteq> insert i D"
  have ok': "frag_ok r'" using fragment_step [OF ok r] .
  have e1: "fe_sum ?e1 = int n" "fe_expiresAt ?e1 = t + fr_ttl r"
  proof -
    have "fe_expiresAt ?e = t + fr_ttl r" by (simp add: entry_for_def split: option.split)
    then show "fe_sum ?e1 = int n" "fe_expiresAt ?e1 = t + fr_ttl r"
      using s by (simp_all add: store_part_def)
  qed
  have "gm_get (fr_entries r') msgID = Some ?e1" using eq inc by (simp add: Let_def)
  then have "gm_get (fr_entries (sweepLocked t' r')) msgID = Some ?e1" if "t' \<le> t + fr_ttl r" for t'
    using that ok' e1 by (simp add: sweep_get frag_ok_def)
  then show "out = None \<and> (\<forall>t'. t' \<le> t + fr_ttl r \<longrightarrow> holds_parts t' msgID n f (insert i D) r')"
    using eq inc ok' e1 p1 by (auto simp: Let_def holds_parts_def entry_for_def)
qed

lemma deliver_all:
  assumes "holds_parts (fst (hd ds)) msgID n f D r" and "1 < n" "n \<le> 1024" and "ds \<noteq> []"
    and "\<forall>(t, i) \<in> set ds. i < n" and "in_time (fr_ttl r) ds"
    and "D \<union> snd ` set ds = {0..<n}" and "snd (last ds) \<notin> D \<union> snd ` set (butlast ds)"
    and "deliver msgID n f ds r = (os, r')"
  shows "os = replicate (length ds - 1) None @ [Some (concat (map f [0..<n]))] \<and> gm_get (fr_entries r') msgID = None"
  using assms
proof (induction ds arbitrary: D r os)
  case (Cons d ds)
  obtain t i where d: "d = (t, i)" by (cases d)
  obtain o1 r1 where a: "AddFragment t msgID (int n) (int i) (Some (f i)) r = (o1, r1)" by fastforce
  obtain os1 where rest: "deliver msgID n f ds r1 = (os1, r')" and os: "os = o1 # os1"
    using Cons.prems(9) a by (auto simp: d Let_def split: prod.splits)
  have i: "i < n" using Cons.prems(5) by (simp add: d)
  have h: "holds_parts t msgID n f D r" using Cons.prems(1) by (simp add: d)
  note st = deliver_step [OF h Cons.prems(2,3) i a]
  show ?case
  proof (cases ds)
    case Nil
    then have "{0..<n} \<subseteq> insert i D" using Cons.prems(7) by (auto simp: d)
    with st(1) rest os Nil show ?thesis by simp
  next
    case (Cons d2 ds2)
    obtain t2 j where d2: "d2 = (t2, j)" by (cases d2)
    have l: "snd (last ds) \<notin> insert i D \<union> snd ` set (butlast ds)"
      using Cons.prems(8) Cons by (auto simp: d)
    have "snd (last ds) \<in> snd ` set ds" using Cons by simp
    then have "snd (last ds) < n" using Cons.prems(7) by auto
    with l have inc: "\<not> {0..<n} \<subseteq> insert i D" by (meson Un_iff atLeastLessThan_iff le0 subsetD)
    have "t2 \<le> t + fr_ttl r" "in_time (fr_ttl r) ds" using Cons.prems(6) Cons by (simp_all add: d d2)
    then have "os1 = replicate (length ds - 1) None @ [Some (concat (map f [0..<n]))] \<and> gm_get (fr_entries r') msgID = None"
      using Cons.IH [of "insert i D" r1 os1] st(2,3) inc Cons.prems(2,3,5,7) l rest Cons
      by (auto simp: d d2)
    then show ?thesis using os st(2) inc Cons by simp
  qed
qed simp

text \<open>C40. Fragments reassemble: deliver the parts of a message of 2 to 1024 fragments in any order, with any repetitions,
  each within the time limit of the one before.  Nothing comes out until the last missing part arrives; then exactly the payloads in
  sequence order come out, and the message is forgotten.\<close>

theorem fragments_reassemble:
  assumes "frag_ok r" and "gm_get (fr_entries r) msgID = None" and "1 < n" and "n \<le> 1024" and "ds \<noteq> []"
    and "snd ` set ds = {0..<n}" and "in_time (fr_ttl r) ds" and "snd (last ds) \<notin> snd ` set (butlast ds)"
    and "deliver msgID n f ds r = (os, r')"
  shows "os = replicate (length ds - 1) None @ [Some (concat (map f [0..<n]))] \<and> gm_get (fr_entries r') msgID = None"
proof (rule deliver_all [of ds msgID n f "{}" r])
  have "gm_get (fr_entries (sweepLocked t r)) msgID = None" for t
    using assms(1,2) by (simp add: sweep_get frag_ok_def)
  then show "holds_parts (fst (hd ds)) msgID n f {} r"
    using assms(1) by (simp add: holds_parts_def entry_for_def shape_def map_replicate_const)
  show "\<forall>(t, i) \<in> set ds. i < n" using assms(6) by force
qed (use assms in auto)

theorem fragments_reassemble_witness:
  "fst (deliver ''m'' 2 (\<lambda>i. [of_nat i, 9]) [(0, 1), (3, 1), (5, 0)] (NewFragmentReassembler 0))
     = [None, None, Some [0, 9, 1, 9]]"
proof -
  let ?r = "NewFragmentReassembler 0" and ?ds = "[(0, 1), (3, 1), (5, 0)] :: (int \<times> nat) list"
  have h: "frag_ok ?r" "gm_get (fr_entries ?r) ''m'' = None" "snd ` set ?ds = {0..<2}"
    "in_time (fr_ttl ?r) ?ds" "snd (last ?ds) \<notin> snd ` set (butlast ?ds)"
    by (auto simp: frag_ok_def NewFragmentReassembler_def)
  have "fst (deliver ''m'' 2 (\<lambda>i. [of_nat i, 9]) ?ds ?r)
      = replicate (length ?ds - 1) None @ [Some (concat (map (\<lambda>i. [of_nat i, 9]) [0..<2]))]"
    by (rule fragments_reassemble [OF h(1,2) _ _ _ h(3,4,5) prod.collapse [symmetric], THEN conjunct1]) simp_all
  also have "\<dots> = [None, None, Some [0, 9, 1, 9]]" by (simp add: upt_rec numeral_2_eq_2)
  finally show ?thesis .
qed

end
