(* ===== verification/Dedupe.thy ===== *)
theory Dedupe
  imports Prelude
begin

text \<open>
  \<^verbatim>\<open>internal/feishu/dedupe.go\<close>: the cache of event and message ids that keeps a bot from answering
  the same event twice.  Times are milliseconds; the eviction of an arbitrary half deletes from the front of
  the association list, and the list stands for any order Go may range in.
\<close>

record Deduplicator =
  seen :: "int gomap"
  dd_ttl :: int
  maxSize :: int

definition minuteNs :: int where "minuteNs = 60000000000"

definition NewDeduplicator :: "int \<Rightarrow> int \<Rightarrow> Deduplicator" where
  "NewDeduplicator ttl mx = \<lparr>seen = [], dd_ttl = (if ttl \<le> 0 then 30 * minuteNs else ttl),
     maxSize = (if mx \<le> 0 then 10000 else mx)\<rparr>"

definition cleanupExpiredLocked :: "int \<Rightarrow> Deduplicator \<Rightarrow> Deduplicator" where
  "cleanupExpiredLocked now d = d\<lparr>seen := filter (\<lambda>(k, ex). \<not> now \<ge> ex) (seen d)\<rparr>"

text \<open>\<^verbatim>\<open>for k := range d.seen { delete; count++; if count >= limit { break } }\<close>\<close>

fun evict :: "int \<Rightarrow> int \<Rightarrow> int gomap \<Rightarrow> int gomap" where
  "evict cnt limit [] = []"
| "evict cnt limit (e # es) = (if cnt + 1 \<ge> limit then es else evict (cnt + 1) limit es)"

definition ttl_millis :: "Deduplicator \<Rightarrow> int" where
  "ttl_millis d = (let ms = dd_ttl d div 1000000 in if ms \<le> 0 then 1 else ms)"

definition make_room :: "int \<Rightarrow> Deduplicator \<Rightarrow> Deduplicator" where
  "make_room now d =
     (if int (length (seen d)) \<ge> maxSize d then
        let d1 = cleanupExpiredLocked now d in
        if int (length (seen d1)) \<ge> maxSize d1
        then d1\<lparr>seen := evict 0 (maxSize d1 div 2) (seen d1)\<rparr> else d1
      else d)"

definition CheckAndRecord :: "int \<Rightarrow> string \<Rightarrow> Deduplicator \<Rightarrow> bool \<times> Deduplicator" where
  "CheckAndRecord now key d =
     (if key = [] then (False, d)
      else if (case gm_get (seen d) key of None \<Rightarrow> False | Some ex \<Rightarrow> now < ex) then (True, d)
      else let d1 = d\<lparr>seen := gm_del key (seen d)\<rparr>; d2 = make_room now d1
           in (False, d2\<lparr>seen := gm_put key (now + ttl_millis d2) (seen d2)\<rparr>))"

definition Clear :: "Deduplicator \<Rightarrow> Deduplicator" where
  "Clear d = d\<lparr>seen := []\<rparr>"

definition Size :: "Deduplicator \<Rightarrow> nat" where
  "Size d = length (seen d)"

section \<open>Lemmas\<close>

definition dd_ok :: "Deduplicator \<Rightarrow> bool" where
  "dd_ok d \<longleftrightarrow> gm_wf (seen d) \<and> 0 < maxSize d \<and> int (length (seen d)) \<le> maxSize d"

lemma gm_put_length: "length (gm_put k v m) = (if gm_get m k = None then Suc (length m) else length m)"
  by (induction m) (auto simp: gm_put_def gm_get_def)

lemma gm_del_length_le: "length (gm_del k m) \<le> length m"
  by (simp add: gm_del_def length_delete_le)

lemma evict_length: "es \<noteq> [] \<Longrightarrow> length (evict c l es) < length es"
proof (induction c l es rule: evict.induct)
  case (2 c l e es)
  then show ?case by (cases es) auto
qed simp

lemma evict_wf: "gm_wf es \<Longrightarrow> gm_wf (evict c l es)"
  by (induction c l es rule: evict.induct) (auto simp: gm_wf_def gm_keys_def)

lemma filter_wf: "gm_wf m \<Longrightarrow> gm_wf (filter P m)"
  by (simp add: gm_wf_def gm_keys_def distinct_map_filter)

lemma make_room_facts:
  assumes "gm_wf (seen d)" and "0 < maxSize d"
  shows "gm_wf (seen (make_room now d))" "maxSize (make_room now d) = maxSize d" "dd_ttl (make_room now d) = dd_ttl d"
    "int (length (seen d)) \<le> maxSize d \<Longrightarrow> int (length (seen (make_room now d))) < maxSize d"
proof -
  show "gm_wf (seen (make_room now d))"
    using assms by (auto simp: make_room_def Let_def cleanupExpiredLocked_def filter_wf evict_wf)
  show "maxSize (make_room now d) = maxSize d" "dd_ttl (make_room now d) = dd_ttl d"
    by (simp_all add: make_room_def Let_def cleanupExpiredLocked_def)
  assume le: "int (length (seen d)) \<le> maxSize d"
  let ?f = "filter (\<lambda>(k, ex). \<not> now \<ge> ex) (seen d)"
  have f: "int (length ?f) \<le> maxSize d" using le by (meson length_filter_le of_nat_mono order_trans)
  have "length (evict 0 (maxSize d div 2) ?f) < length (seen d)" if "seen d \<noteq> []"
    using that less_le_trans [OF evict_length [of ?f 0 "maxSize d div 2"] length_filter_le]
    by (cases "?f = []") auto
  then show "int (length (seen (make_room now d))) < maxSize d"
    using le f assms(2) by (auto simp: make_room_def Let_def cleanupExpiredLocked_def)
qed

lemma CheckAndRecord_ok:
  assumes ok: "dd_ok d" and r: "CheckAndRecord now key d = (dup, d')"
  shows "dd_ok d'"
proof -
  define d1 where "d1 = d\<lparr>seen := gm_del key (seen d)\<rparr>"
  have d1: "gm_wf (seen d1)" "0 < maxSize d1" "int (length (seen d1)) \<le> maxSize d1"
    using ok gm_del_length_le [of key "seen d"] by (auto simp: d1_def dd_ok_def)
  note mr = make_room_facts [OF d1(1,2), of now]
  show ?thesis
  proof (cases "dup \<or> key = []")
    case True
    with r ok show ?thesis by (auto simp: CheckAndRecord_def Let_def split: if_splits)
  next
    case False
    with r have d': "d' = (make_room now d1)\<lparr>seen := gm_put key (now + ttl_millis (make_room now d1)) (seen (make_room now d1))\<rparr>"
      by (auto simp: CheckAndRecord_def Let_def d1_def split: if_splits)
    show ?thesis
      unfolding dd_ok_def d'
      using mr(1,2,4) d1 by (auto simp: gm_put_length)
  qed
qed

text \<open>A sequence of checks, in the order the mutex admits them.\<close>

fun run_checks :: "(int \<times> string) list \<Rightarrow> Deduplicator \<Rightarrow> bool list \<times> Deduplicator" where
  "run_checks [] d = ([], d)"
| "run_checks ((t, k) # cs) d =
     (let (b, d1) = CheckAndRecord t k d; (bs, d2) = run_checks cs d1 in (b # bs, d2))"

lemma run_checks_ok: "dd_ok d \<Longrightarrow> run_checks cs d = (bs, d') \<Longrightarrow> dd_ok d'"
  by (induction cs arbitrary: d bs) (auto simp: Let_def split: prod.splits, metis CheckAndRecord_ok)

text \<open>The cache is bounded: starting from a new deduplicator, after any sequence of checks at any times the number
  of remembered ids is at most the capacity, evictions included.\<close>

lemma dedupe_bounded:
  "int (Size (snd (run_checks cs (NewDeduplicator ttl mx)))) \<le> (if mx \<le> 0 then 10000 else mx)"
proof -
  have "maxSize (snd (CheckAndRecord t k d)) = maxSize d" for t k d
    by (auto simp: CheckAndRecord_def Let_def make_room_def cleanupExpiredLocked_def split: option.splits)
  then have m: "maxSize (snd (run_checks cs d)) = maxSize d" for d
    by (induction cs arbitrary: d) (auto simp: Let_def split_beta)
  have "dd_ok (NewDeduplicator ttl mx)" by (simp add: dd_ok_def NewDeduplicator_def)
  then have "dd_ok (snd (run_checks cs (NewDeduplicator ttl mx)))"
    by (rule run_checks_ok [OF _ prod.collapse [symmetric]])
  then show ?thesis by (simp add: dd_ok_def Size_def m NewDeduplicator_def)
qed

section \<open>Duplicates are caught\<close>

lemma remembered_step:
  assumes "gm_wf (seen d)" and "gm_get (seen d) k = Some ex" and "t < ex" and "int (length (seen d)) < maxSize d"
    and "CheckAndRecord t k' d = (b, d')"
  shows "gm_get (seen d') k = Some ex" and "k' = k \<Longrightarrow> k \<noteq> [] \<Longrightarrow> b"
    and "gm_wf (seen d')" and "length (seen d') \<le> Suc (length (seen d))" and "maxSize d' = maxSize d"
proof -
  have "length (gm_del k' (seen d)) \<le> length (seen d)" by (rule gm_del_length_le)
  then have nr: "make_room t (d\<lparr>seen := gm_del k' (seen d)\<rparr>) = d\<lparr>seen := gm_del k' (seen d)\<rparr>"
    using assms(4) by (simp add: make_room_def)
  show "gm_get (seen d') k = Some ex" "gm_wf (seen d')" "maxSize d' = maxSize d"
    using assms by (auto simp: CheckAndRecord_def Let_def nr split: if_splits option.splits)
  show "k' = k \<Longrightarrow> k \<noteq> [] \<Longrightarrow> b"
    using assms by (auto simp: CheckAndRecord_def split: if_splits)
  show "length (seen d') \<le> Suc (length (seen d))"
    using assms(5) gm_del_length_le [of k' "seen d"]
    by (auto simp: CheckAndRecord_def Let_def nr gm_put_length split: if_splits option.splits)
qed

lemma remembered_run:
  assumes "gm_wf (seen d)" and "gm_get (seen d) k = Some ex" and "k \<noteq> []" and "\<forall>(t, k') \<in> set cs. t < ex"
    and "int (length (seen d) + length cs) \<le> maxSize d" and "run_checks cs d = (bs, d')"
  shows "\<forall>i < length cs. snd (cs ! i) = k \<longrightarrow> bs ! i"
  using assms
proof (induction cs arbitrary: d bs)
  case (Cons c cs)
  obtain t k' where c: "c = (t, k')" by (cases c)
  obtain b d1 where s: "CheckAndRecord t k' d = (b, d1)" by fastforce
  obtain bs1 where r: "run_checks cs d1 = (bs1, d')" and bs: "bs = b # bs1"
    using Cons.prems(6) s by (auto simp: c Let_def split: prod.splits)
  have t: "t < ex" and room: "int (length (seen d)) < maxSize d" using Cons.prems(4,5) by (auto simp: c)
  note st = remembered_step [OF Cons.prems(1,2) t room s]
  have "\<forall>i < length cs. snd (cs ! i) = k \<longrightarrow> bs1 ! i"
    by (rule Cons.IH [OF st(3,1) Cons.prems(3) _ _ r]) (use Cons.prems(4,5) st(4,5) in auto)
  then show ?case using st(2) Cons.prems(3) by (auto simp: bs c less_Suc_eq_0_disj)
qed simp

text \<open>A recorded id is reported as a duplicate on every further check within its life time, whatever other ids are
  checked in between, as long as they do not fill the cache.\<close>

theorem dedupe_catches:
  assumes "gm_wf (seen d)" and "k \<noteq> []" and "CheckAndRecord t0 k d = (b0, d0)"
    and "\<forall>(t, k') \<in> set cs. t0 \<le> t \<and> t < t0 + ttl_millis d" and "int (length (seen d) + Suc (length cs)) \<le> maxSize d"
    and "\<not> b0" and "run_checks cs d0 = (bs, d')" and "i < length cs" and "snd (cs ! i) = k"
  shows "bs ! i"
proof -
  have "length (gm_del k (seen d)) \<le> length (seen d)" by (rule gm_del_length_le)
  then have nr: "make_room t0 (d\<lparr>seen := gm_del k (seen d)\<rparr>) = d\<lparr>seen := gm_del k (seen d)\<rparr>"
    using assms(5) by (simp add: make_room_def)
  have d0: "d0 = d\<lparr>seen := gm_put k (t0 + ttl_millis d) (gm_del k (seen d))\<rparr>"
    using assms(2,3,6) by (auto simp: CheckAndRecord_def Let_def nr ttl_millis_def split: if_splits)
  have "\<forall>i < length cs. snd (cs ! i) = k \<longrightarrow> bs ! i"
    by (rule remembered_run [of d0 k "t0 + ttl_millis d", OF _ _ assms(2) _ _ assms(7)])
       (use assms(1,4,5) gm_del_length_le [of k "seen d"] in \<open>auto simp: d0 gm_put_length\<close>)
  then show ?thesis using assms(8,9) by blast
qed

theorem dedupe_catches_witness:
  "fst (run_checks [(5, ''a''), (6, ''e1'')] (snd (CheckAndRecord 1 ''e1'' (NewDeduplicator 0 0)))) ! 1"
proof (rule dedupe_catches [where d = "NewDeduplicator 0 0" and k = "''e1''" and ?t0.0 = 1])
  show "run_checks [(5, ''a''), (6, ''e1'')] (snd (CheckAndRecord 1 ''e1'' (NewDeduplicator 0 0))) =
    (fst (run_checks [(5, ''a''), (6, ''e1'')] (snd (CheckAndRecord 1 ''e1'' (NewDeduplicator 0 0)))),
     snd (run_checks [(5, ''a''), (6, ''e1'')] (snd (CheckAndRecord 1 ''e1'' (NewDeduplicator 0 0)))))" by simp
  show "CheckAndRecord 1 ''e1'' (NewDeduplicator 0 0) = (False, snd (CheckAndRecord 1 ''e1'' (NewDeduplicator 0 0)))"
    by (simp add: CheckAndRecord_def NewDeduplicator_def Let_def)
qed (simp_all add: NewDeduplicator_def ttl_millis_def minuteNs_def)

end
