(* ===== verification/RateLimit.thy ===== *)
theory RateLimit
  imports Prelude Complex_Main
begin

text \<open>
  The per-key token bucket of \<^verbatim>\<open>internal/hub/ratelimit.go\<close>.  Token counts, \<^verbatim>\<open>float64\<close> in the
  source, are rationals here: the rounding of floating point is not modelled.  The clock is the
  argument \<open>now\<close>, in nanoseconds.
\<close>

record tokenBucket =
  tokens :: rat
  lastRefill :: int

record rateLimiter =
  qpm :: int
  burst :: int
  buckets :: "tokenBucket gomap"

definition newRateLimiter :: "int \<Rightarrow> int \<Rightarrow> rateLimiter" where
  "newRateLimiter q b = \<lparr>qpm = (if q \<le> 0 then 30 else q), burst = (if b \<le> 0 then 10 else b), buckets = []\<rparr>"

definition Seconds :: "int \<Rightarrow> rat" where
  "Seconds ns = of_int ns / 1000000000"

definition refill :: "int \<Rightarrow> rateLimiter \<Rightarrow> tokenBucket \<Rightarrow> rat" where
  "refill now rl b =
     (let fillRate = of_int (qpm rl) / 60; t = tokens b + Seconds (now - lastRefill b) * fillRate
      in if t > of_int (burst rl) then of_int (burst rl) else t)"

definition Allow :: "int \<Rightarrow> string \<Rightarrow> rateLimiter \<Rightarrow> bool \<times> rateLimiter" where
  "Allow now key rl =
     (case gm_get (buckets rl) key of
        None \<Rightarrow> (True, rl\<lparr>buckets := gm_put key \<lparr>tokens = of_int (burst rl) - 1, lastRefill = now\<rparr> (buckets rl)\<rparr>)
      | Some b \<Rightarrow>
          let t = refill now rl b in
          if t \<ge> 1 then (True, rl\<lparr>buckets := gm_put key \<lparr>tokens = t - 1, lastRefill = now\<rparr> (buckets rl)\<rparr>)
          else (False, rl\<lparr>buckets := gm_put key \<lparr>tokens = t, lastRefill = now\<rparr> (buckets rl)\<rparr>))"

section \<open>Lemmas\<close>

lemma Allow_frame:
  assumes "Allow now key rl = (ok, rl')"
  shows "qpm rl' = qpm rl" "burst rl' = burst rl" "k \<noteq> key \<Longrightarrow> gm_get (buckets rl') k = gm_get (buckets rl) k"
  using assms by (auto simp: Allow_def Let_def split: option.splits if_splits)

text \<open>A run of requests with one key: the number allowed and the limiter after it.\<close>

fun run_allow :: "int list \<Rightarrow> string \<Rightarrow> rateLimiter \<Rightarrow> nat \<times> rateLimiter" where
  "run_allow [] key rl = (0, rl)"
| "run_allow (t # ts) key rl =
     (let (ok, rl1) = Allow t key rl; (n, rl2) = run_allow ts key rl1
      in ((if ok then Suc n else n), rl2))"

definition rate :: "rateLimiter \<Rightarrow> rat" where
  "rate rl = of_int (qpm rl) / 60"

lemma Seconds_diff: "Seconds (a - b) + Seconds (b - c) = Seconds (a - c)"
  by (simp add: Seconds_def field_simps)

lemma Seconds_nonneg: "0 \<le> t \<Longrightarrow> 0 \<le> Seconds t"
  by (simp add: Seconds_def)

lemma refill_bounds:
  assumes "0 \<le> tokens b" and "0 \<le> qpm rl" and "0 \<le> burst rl" and "lastRefill b \<le> now"
  shows "0 \<le> refill now rl b" "refill now rl b \<le> of_int (burst rl)"
    "refill now rl b \<le> tokens b + Seconds (now - lastRefill b) * rate rl"
  using assms Seconds_nonneg [of "now - lastRefill b"]
  by (auto simp: refill_def rate_def Let_def intro!: add_nonneg_nonneg mult_nonneg_nonneg)

lemma run_allow_bound:
  assumes "gm_get (buckets rl) key = Some b" and "0 \<le> tokens b" and "0 \<le> qpm rl" and "0 \<le> burst rl"
    and "sorted (lastRefill b # ts)" and "run_allow ts key rl = (n, rl')"
  shows "of_nat n \<le> tokens b + Seconds (last (lastRefill b # ts) - lastRefill b) * rate rl"
  using assms
proof (induction ts arbitrary: rl b n)
  case Nil
  then show ?case by (simp add: Seconds_def)
next
  case (Cons t ts)
  obtain ok rl1 where a: "Allow t key rl = (ok, rl1)" by fastforce
  obtain n1 where n1: "run_allow ts key rl1 = (n1, rl')" and n: "n = (if ok then Suc n1 else n1)"
    using Cons.prems(6) a by (auto simp: Let_def split: prod.splits)
  note rb = refill_bounds [OF Cons.prems(2-4), of t]
  define b1 where "b1 = \<lparr>tokens = (if ok then refill t rl b - 1 else refill t rl b), lastRefill = t\<rparr>"
  have b1: "gm_get (buckets rl1) key = Some b1" and ok: "ok \<longleftrightarrow> refill t rl b \<ge> 1"
    using a Cons.prems(1) by (auto simp: Allow_def b1_def Let_def split: if_splits)
  have fr: "qpm rl1 = qpm rl" "burst rl1 = burst rl" "rate rl1 = rate rl"
    using Allow_frame [OF a] by (simp_all add: rate_def)
  have t: "lastRefill b \<le> t" using Cons.prems(5) by simp
  have "of_nat n1 \<le> tokens b1 + Seconds (last (lastRefill b1 # ts) - lastRefill b1) * rate rl1"
    using Cons.IH [OF b1 _ _ _ _ n1] ok rb(1) [OF t] fr Cons.prems(3-5) by (auto simp: b1_def)
  then have "of_nat n1 \<le> tokens b1 + Seconds (last (t # ts) - t) * rate rl"
    by (simp add: fr b1_def)
  moreover have "Seconds (last (t # ts) - lastRefill b) * rate rl
      = Seconds (last (t # ts) - t) * rate rl + Seconds (t - lastRefill b) * rate rl"
    by (simp add: Seconds_diff flip: distrib_right)
  ultimately show ?case using rb(3) [OF t] by (simp add: n b1_def split: if_splits)
qed

text \<open>The rate limit holds: of the requests one key makes at non-decreasing times, at most the burst plus the
  refill rate times the elapsed seconds are allowed, whatever the other keys do.\<close>

theorem rate_limit_bound:
  assumes "gm_get (buckets rl) key = None" and "0 < qpm rl" and "0 < burst rl"
    and "sorted (t # ts)" and "run_allow (t # ts) key rl = (n, rl')"
  shows "of_nat n \<le> of_int (burst rl) + Seconds (last (t # ts) - t) * rate rl"
proof -
  define rl1 where "rl1 = rl\<lparr>buckets := gm_put key \<lparr>tokens = of_int (burst rl) - 1, lastRefill = t\<rparr> (buckets rl)\<rparr>"
  have a: "Allow t key rl = (True, rl1)" using assms(1) by (simp add: Allow_def rl1_def)
  obtain n1 where n1: "run_allow ts key rl1 = (n1, rl')" "n = Suc n1"
    using assms(5) a by (auto simp: Let_def split: prod.splits)
  have "of_nat n1 \<le> (of_int (burst rl) - 1) + Seconds (last (t # ts) - t) * rate rl1"
    using run_allow_bound [of rl1 key "\<lparr>tokens = of_int (burst rl) - 1, lastRefill = t\<rparr>" ts n1 rl']
      assms(2-4) n1(1) by (simp add: rl1_def)
  then show ?thesis by (simp add: n1(2) rl1_def rate_def)
qed

theorem rate_limit_bound_witness:
  "of_nat (fst (run_allow [0, 0, 0, 0] ''k'' (newRateLimiter 60 2))) \<le> (2 :: rat)
   \<and> fst (run_allow [0, 0, 0, 0] ''k'' (newRateLimiter 60 2)) = 2"
proof
  show "fst (run_allow [0, 0, 0, 0] ''k'' (newRateLimiter 60 2)) = 2" by code_simp
  show "of_nat (fst (run_allow [0, 0, 0, 0] ''k'' (newRateLimiter 60 2))) \<le> (2 :: rat)"
    using rate_limit_bound [OF _ _ _ _ prod.collapse [symmetric], of "newRateLimiter 60 2" "''k''" 0 "[0, 0, 0]"]
    by (simp add: newRateLimiter_def Seconds_def)
qed

text \<open>Buckets are independent and refill: a request changes no other key's bucket, and a key that has been quiet for
  a minute divided by the rate is always allowed again.\<close>

theorem rate_limit_recovers:
  assumes "gm_get (buckets rl) key = Some b" and "0 \<le> tokens b" and "0 < qpm rl" and "0 < burst rl"
    and "Seconds (now - lastRefill b) * rate rl \<ge> 1" and "Allow now key rl = (ok, rl')"
  shows "ok \<and> (k \<noteq> key \<longrightarrow> gm_get (buckets rl') k = gm_get (buckets rl) k)"
proof -
  have "refill now rl b \<ge> 1"
    using assms(2,4,5) by (auto simp: refill_def rate_def Let_def)
  then have ok using assms(1,6) by (auto simp: Allow_def Let_def split: if_splits)
  then show ?thesis using Allow_frame(3) [OF assms(6)] by simp
qed

definition drained :: rateLimiter where
  "drained = \<lparr>qpm = 60, burst = 2, buckets = [(''k'', \<lparr>tokens = 0, lastRefill = 0\<rparr>)]\<rparr>"

theorem rate_limit_recovers_witness: "fst (Allow 1000000000 ''k'' drained)"
  using rate_limit_recovers [of drained "''k''" "\<lparr>tokens = 0, lastRefill = 0\<rparr>" 1000000000, OF _ _ _ _ _ prod.collapse [symmetric]]
  by (simp add: drained_def gm_get_def Seconds_def rate_def)

end
