(* ===== verification/Hub.thy ===== *)
theory Hub
  imports Store RateLimit
begin

text \<open>
  The coordination server, \<^verbatim>\<open>internal/hub/hub.go\<close>: daemon sessions, dispatch and the offline
  queue, waiters, and the REST handlers.

  \<open>HubServer\<close> is the state the handlers share.  Session objects are pointers in the source and
  are shared by three maps and the goroutine of their connection, so they live in a heap
  (\<open>sess_heap\<close>) and the maps hold their identifiers.  What a handler does to the outside is
  recorded in order: \<open>outbox\<close> (frames written to daemons), \<open>chan_buf\<close> (the one-slot channels of the
  waiting requests), \<open>feishu_done\<close> (queries handed to the Feishu reply handler).  A handler is atomic
  here except where it blocks: a request that waits returns \<open>Parked\<close>, and one definition per arm of
  its \<^verbatim>\<open>select\<close> continues it.  The clock is read once per handler.  Request bodies arrive decoded; \<open>None\<close> is a body that
  is not JSON of the expected shape.
\<close>

section \<open>State\<close>

record hub_config =
  AdminToken :: string
  HeartbeatIntervalSec :: int
  DefaultQueryTTLSec :: int
  MaxQueryTTLSec :: int
  MaxProbeTimeoutSec :: int
  PublicURL :: string

record daemonSession =
  ds_sessionID :: string
  ds_memberID :: string
  ds_machineName :: string
  ds_workspaces :: "WorkspaceInfo list"
  ds_maxConcurrency :: int
  ds_closed :: bool
  ds_lastSeen :: int

record hub_idempotencyRecord =
  hi_queryID :: string
  hi_expiresAt :: int

datatype out_frame =
  HubAck HubAckPayload
| HeartbeatPong int
| QueryRequest QueryRequestPayload
| QueryCancel string string

record HubServer =
  hcfg :: hub_config
  hstore :: jsonlStore
  hlimiter :: rateLimiter
  hstopped :: bool
  sess_heap :: "daemonSession gomap"
  daemonConns :: "string gomap"
  memberSessions :: "string list gomap"
  sessionsByID :: "string list"
  queryWaiters :: "nat list gomap"
  queryTimeouts :: "int gomap"
  idempotencyCache :: "hub_idempotencyRecord gomap"
  feishuClients :: "FeishuBindingRequest gomap"
  outbox :: "(string \<times> out_frame) list"
  chan_buf :: "(nat \<times> QueryDetailResponse) list"
  feishu_done :: "QueryDetailResponse list"

definition DefaultMaxConcurrency :: int where "DefaultMaxConcurrency = 2"

definition secondNs :: int where "secondNs = 1000000000"

text \<open>Responses: the HTTP status and what is encoded in the body.\<close>

datatype http_body =
  ErrorBody string "CandidateMember list"
| QueryBody QueryDetailResponse
| PairBody PairResponse
| InviteBody InviteCreateResponse
| MemberBody MemberInfo
| MembersBody "MemberInfo list"
| AuditBody nat "AuditLogEntry list"
| BindingBody bool string string
| NoBody

datatype http_response = Response nat http_body | PanicResponse

definition jsonError :: "nat \<Rightarrow> string \<Rightarrow> http_response" where
  "jsonError status code = Response status (ErrorBody code [])"

definition with_store ::
  "(jsonlStore \<Rightarrow> 'a \<times> jsonlStore) \<Rightarrow> HubServer \<Rightarrow> 'a \<times> HubServer" where
  "with_store f h = (let (x, s) = f (hstore h) in (x, h\<lparr>hstore := s\<rparr>))"

section \<open>Waiters and timeouts\<close>

definition removeWaiter :: "string \<Rightarrow> nat \<Rightarrow> HubServer \<Rightarrow> nat \<times> HubServer" where
  "removeWaiter qid ch h =
     (let remaining = filter (\<lambda>c. c \<noteq> ch) (gm_slice (queryWaiters h) qid)
      in (length remaining,
          h\<lparr>queryWaiters := (if remaining = [] then gm_del qid (queryWaiters h)
                             else gm_put qid remaining (queryWaiters h))\<rparr>))"

definition addWaiter :: "string \<Rightarrow> nat \<Rightarrow> HubServer \<Rightarrow> HubServer" where
  "addWaiter qid ch h = h\<lparr>queryWaiters := gm_append qid ch (queryWaiters h)\<rparr>"

definition clampTimeout :: "hub_config \<Rightarrow> int \<Rightarrow> int" where
  "clampTimeout c t0 =
     (let t = (if t0 \<le> 0 then 60 else t0)
      in if MaxProbeTimeoutSec c > 0 \<and> t > MaxProbeTimeoutSec c then MaxProbeTimeoutSec c else t)"

definition getQueryTimeout :: "string \<Rightarrow> HubServer \<Rightarrow> int" where
  "getQueryTimeout qid h =
     clampTimeout (hcfg h) (case gm_get (queryTimeouts h) qid of None \<Rightarrow> 0 | Some t \<Rightarrow> t)"

definition setQueryTimeout :: "string \<Rightarrow> int \<Rightarrow> HubServer \<Rightarrow> HubServer" where
  "setQueryTimeout qid t h = h\<lparr>queryTimeouts := gm_put qid (clampTimeout (hcfg h) t) (queryTimeouts h)\<rparr>"

text \<open>A send on a one-slot channel that does not block.\<close>

definition chan_send :: "QueryDetailResponse \<Rightarrow> nat \<Rightarrow> HubServer \<Rightarrow> HubServer" where
  "chan_send q ch h = (if ch \<in> set (map fst (chan_buf h)) then h else h\<lparr>chan_buf := chan_buf h @ [(ch, q)]\<rparr>)"

definition notifyWaiters :: "int \<Rightarrow> string \<Rightarrow> HubServer \<Rightarrow> HubServer" where
  "notifyWaiters now qid h =
     (let waiters = gm_slice (queryWaiters h) qid;
          h1 = h\<lparr>queryWaiters := gm_del qid (queryWaiters h), queryTimeouts := gm_del qid (queryTimeouts h)\<rparr>
      in if waiters = [] then h1
         else (case with_store (GetQuery now qid) h1 of
                 (Inl _, h2) \<Rightarrow> h2
               | (Inr q, h2) \<Rightarrow> foldl (\<lambda>st ch. chan_send q ch st) h2 waiters))"

section \<open>Authentication\<close>

definition bearer :: string where "bearer = ''Bearer ''"

definition authenticateMember :: "crypto \<Rightarrow> string \<Rightarrow> HubServer \<Rightarrow> (store_error, MemberInfo) result" where
  "authenticateMember cr auth h =
     (if \<not> has_prefix auth bearer then Inl ErrNotFound
      else GetMemberByToken cr (trim_prefix auth bearer) (hstore h))"

definition authenticateAdmin :: "string \<Rightarrow> HubServer \<Rightarrow> bool" where
  "authenticateAdmin auth h \<longleftrightarrow> has_prefix auth bearer \<and> trim_prefix auth bearer = AdminToken (hcfg h)"

section \<open>Sessions\<close>

definition sessions_of :: "string \<Rightarrow> HubServer \<Rightarrow> daemonSession list" where
  "sessions_of mid h = List.map_filter (gm_get (sess_heap h)) (gm_slice (memberSessions h) mid)"

definition serves_workspace :: "string \<Rightarrow> daemonSession \<Rightarrow> bool" where
  "serves_workspace w sess \<longleftrightarrow>
     (\<exists>ws \<in> set (ds_workspaces sess). wi_name ws = w \<or> wi_id ws = w \<or> wi_root_path ws = w)"

fun newest :: "daemonSession list \<Rightarrow> daemonSession option \<Rightarrow> daemonSession option" where
  "newest [] best = best"
| "newest (x # xs) best =
     newest xs (case best of None \<Rightarrow> Some x
                | Some b \<Rightarrow> if ds_lastSeen x > ds_lastSeen b then Some x else Some b)"

definition selectSessionForQuery :: "string \<Rightarrow> string \<Rightarrow> HubServer \<Rightarrow> daemonSession option" where
  "selectSessionForQuery mid w h =
     (let sessions = sessions_of mid h in
      if sessions = [] then None
      else case (if w \<noteq> [] then find (serves_workspace w) sessions else None) of
        Some s \<Rightarrow> Some s
      | None \<Rightarrow> newest sessions None)"

text \<open>\<^verbatim>\<open>sendEnvelope\<close> checks \<^verbatim>\<open>closed\<close> under the session's lock; a write error is dropped.\<close>

definition sendEnvelope :: "string \<Rightarrow> out_frame \<Rightarrow> HubServer \<Rightarrow> HubServer" where
  "sendEnvelope sid fr h =
     (case gm_get (sess_heap h) sid of
        None \<Rightarrow> h
      | Some s \<Rightarrow> if ds_closed s then h else h\<lparr>outbox := outbox h @ [(sid, fr)]\<rparr>)"

definition cancelDispatchedQuery :: "int \<Rightarrow> string \<Rightarrow> string \<Rightarrow> string \<Rightarrow> string \<Rightarrow> HubServer \<Rightarrow> HubServer" where
  "cancelDispatchedQuery now qid targetMemberID targetWorkspace reason h =
     (case with_store (GetQuery now qid) h of
        (Inl _, h1) \<Rightarrow> h1
      | (Inr q, h1) \<Rightarrow>
          if q_status q \<noteq> QueryStatusDispatched then h1
          else
            let targetID = (if targetMemberID = [] then q_target_member_id q else targetMemberID);
                ws = (if targetWorkspace = [] then q_target_workspace q else targetWorkspace)
            in case selectSessionForQuery targetID ws h1 of
                 None \<Rightarrow> h1
               | Some sess \<Rightarrow> sendEnvelope (ds_sessionID sess) (QueryCancel qid reason) h1)"

text \<open>A session is closed and leaves the maps.\<close>

definition drop_session :: "string \<Rightarrow> string \<Rightarrow> HubServer \<Rightarrow> HubServer" where
  "drop_session mid sid h = h\<lparr>
     sess_heap := gm_mod sid (\<lambda>s. s\<lparr>ds_closed := True\<rparr>) (sess_heap h),
     memberSessions := gm_put mid (removeAll sid (gm_slice (memberSessions h) mid)) (memberSessions h),
     sessionsByID := removeAll sid (sessionsByID h)\<rparr>"

fun supersede :: "string \<Rightarrow> string \<Rightarrow> string list \<Rightarrow> HubServer \<Rightarrow> HubServer" where
  "supersede mid machine [] h = h"
| "supersede mid machine (sid # sids) h =
     supersede mid machine sids
       (case gm_get (sess_heap h) sid of
          None \<Rightarrow> h
        | Some s \<Rightarrow> if ds_machineName s = machine then drop_session mid sid h else h)"

definition online_update :: "int \<Rightarrow> string \<Rightarrow> bool \<Rightarrow> string \<Rightarrow> string list option \<Rightarrow> HubServer \<Rightarrow> HubServer" where
  "online_update now mid onl mach ws h = snd (with_store (SetMemberOnline now mid onl mach ws) h)"

text \<open>\<^verbatim>\<open>handleWebSocket\<close> up to its read loop: authentication, the websocket handshake (\<open>rejected\<close> is the status the
  library answers when it refuses), takeover of the same machine's previous session, registration.  The session identifier is returned.\<close>

definition ws_connect ::
  "crypto \<Rightarrow> int \<Rightarrow> string option \<Rightarrow> string \<Rightarrow> string \<Rightarrow> nat option \<Rightarrow> HubServer
     \<Rightarrow> (http_response, string) result \<times> HubServer" where
  "ws_connect cr now rnd authHeader machineHeader rejected h =
     (let token = trim_prefix authHeader bearer in
      if token = [] then (Inl (jsonError 401 ErrCodeUnauthorized), h)
      else case GetMemberByToken cr token (hstore h) of
        Inl _ \<Rightarrow> (Inl (jsonError 401 ErrCodeUnauthorized), h)
      | Inr mem \<Rightarrow>
          case rejected of Some st \<Rightarrow> (Inl (Response st NoBody), h)
          | None \<Rightarrow>
            let sessionID = ''sess_'' @ (case RandomHex rnd of None \<Rightarrow> [] | Some x \<Rightarrow> x);
                machineName = (if machineHeader = [] then ''default'' else machineHeader);
                sess = \<lparr>ds_sessionID = sessionID, ds_memberID = m_id mem, ds_machineName = machineName,
                        ds_workspaces = [], ds_maxConcurrency = DefaultMaxConcurrency, ds_closed = False,
                        ds_lastSeen = now\<rparr>;
                h1 = supersede (m_id mem) machineName (gm_slice (memberSessions h) (m_id mem)) h;
                h2 = h1\<lparr>sess_heap := gm_put sessionID sess (sess_heap h1),
                        memberSessions := gm_put (m_id mem)
                          (removeAll sessionID (gm_slice (memberSessions h1) (m_id mem)) @ [sessionID]) (memberSessions h1),
                        sessionsByID := sessionID # removeAll sessionID (sessionsByID h1),
                        daemonConns := gm_put (m_id mem) sessionID (daemonConns h1)\<rparr>
            in (Inr sessionID, online_update now (m_id mem) True machineName None h2))"

definition reconcileInFlightQueries :: "int \<Rightarrow> string \<Rightarrow> HubServer \<Rightarrow> HubServer" where
  "reconcileInFlightQueries now mid h = snd (with_store (RequeueInFlightQueries now mid) h)"

text \<open>The deferred function of \<^verbatim>\<open>handleWebSocket\<close>.\<close>

definition ws_disconnect :: "int \<Rightarrow> string \<Rightarrow> string \<Rightarrow> HubServer \<Rightarrow> HubServer" where
  "ws_disconnect now mid sid h =
     (let h1 = h\<lparr>sess_heap := gm_mod sid (\<lambda>s. s\<lparr>ds_closed := True\<rparr>) (sess_heap h)\<rparr>;
          h2 = (case gm_get (memberSessions h1) mid of
                  None \<Rightarrow> h1
                | Some sids \<Rightarrow>
                    (case removeAll sid sids of
                       [] \<Rightarrow> h1\<lparr>memberSessions := gm_del mid (memberSessions h1),
                              daemonConns := gm_del mid (daemonConns h1)\<rparr>
                     | rem # rest \<Rightarrow> h1\<lparr>memberSessions := gm_put mid (rem # rest) (memberSessions h1),
                              daemonConns := gm_put mid rem (daemonConns h1)\<rparr>));
          h3 = h2\<lparr>sessionsByID := removeAll sid (sessionsByID h2)\<rparr>
      in if gm_slice (memberSessions h3) mid = []
         then online_update now mid False [] None (reconcileInFlightQueries now mid h3)
         else h3)"

section \<open>Frames from daemons\<close>

text \<open>An envelope after JSON decoding: a known type with its payload, a known type whose payload does not decode, or
  another type.\<close>

datatype in_frame =
  DaemonHello DaemonHelloPayload
| HeartbeatPing
| QueryResponse QueryResponsePayload
| BadPayload
| OtherType string

definition heartbeatInterval :: "HubServer \<Rightarrow> int" where
  "heartbeatInterval h = (if HeartbeatIntervalSec (hcfg h) \<le> 0 then 20 else HeartbeatIntervalSec (hcfg h))"

definition mark_dispatched :: "int \<Rightarrow> string \<Rightarrow> HubServer \<Rightarrow> HubServer" where
  "mark_dispatched now qid h =
     snd (with_store (UpdateQueryStatus now qid QueryStatusDispatched [] None 0 zeroUsage []) h)"

definition drain_request :: "QueryDetailResponse \<Rightarrow> HubServer \<Rightarrow> QueryRequestPayload" where
  "drain_request q h = \<lparr>qr_query_id = q_query_id q, qr_asker_id = q_asker_id q, qr_asker_name = q_asker_name q,
     qr_asker_type = (if q_origin q = [] then ''member'' else q_origin q), qr_query = q_query q,
     qr_target_workspace = q_target_workspace q, qr_timeout_seconds = getQueryTimeout (q_query_id q) h,
     qr_created_at = q_created_at q\<rparr>"

fun drain_loop :: "int \<Rightarrow> string \<Rightarrow> int \<Rightarrow> int \<Rightarrow> QueryDetailResponse list \<Rightarrow> HubServer \<Rightarrow> HubServer" where
  "drain_loop now sid limit cnt [] h = h"
| "drain_loop now sid limit cnt (q # qs) h =
     (if cnt \<ge> limit then h
      else if ttl_passed (UnixMilli now) q then drain_loop now sid limit cnt qs h
      else drain_loop now sid limit (cnt + 1) qs
             (mark_dispatched now (q_query_id q) (sendEnvelope sid (QueryRequest (drain_request q h)) h)))"

definition drainOfflineQueue :: "int \<Rightarrow> string \<Rightarrow> HubServer \<Rightarrow> HubServer" where
  "drainOfflineQueue now sid h =
     (case gm_get (sess_heap h) sid of
        None \<Rightarrow> h
      | Some sess \<Rightarrow>
          let h1 = snd (with_store (SweepExpiredQueries now) h);
              (queued, h2) = with_store (GetQueuedQueriesForMember now (ds_memberID sess)) h1;
              limit = (if ds_maxConcurrency sess \<le> 0 then DefaultMaxConcurrency else ds_maxConcurrency sess)
          in if queued = [] then h2 else drain_loop now sid limit 0 queued h2)"

definition handle_hello :: "int \<Rightarrow> string \<Rightarrow> DaemonHelloPayload \<Rightarrow> HubServer \<Rightarrow> HubServer" where
  "handle_hello now sid hello h =
     (case gm_get (sess_heap h) sid of
        None \<Rightarrow> h
      | Some sess0 \<Rightarrow>
          let sess = sess0\<lparr>
                ds_maxConcurrency := (if dh_max_concurrency hello > 0 then dh_max_concurrency hello else ds_maxConcurrency sess0),
                ds_machineName := (if dh_machine_name hello \<noteq> [] then dh_machine_name hello else ds_machineName sess0),
                ds_workspaces := dh_workspaces hello\<rparr>;
              h1 = h\<lparr>sess_heap := gm_put sid sess (sess_heap h)\<rparr>;
              wsNames = (if dh_workspaces hello = [] then None else Some (map wi_name (dh_workspaces hello)));
              h2 = online_update now (ds_memberID sess) True (ds_machineName sess) wsNames h1;
              (queued, h3) = with_store (GetQueuedQueriesForMember now (ds_memberID sess)) h2;
              ack = \<lparr>ha_authenticated = True, ha_session_id = sid, ha_heartbeat_interval_sec = heartbeatInterval h3,
                     ha_pending_queries_count = length queued\<rparr>
          in drainOfflineQueue now sid (sendEnvelope sid (HubAck ack) h3))"

definition from_feishu :: "QueryDetailResponse \<Rightarrow> bool" where
  "from_feishu q \<longleftrightarrow> (case q_feishu_context q of None \<Rightarrow> False | Some c \<Rightarrow> fc_message_id c \<noteq> [])"

definition handle_response :: "int \<Rightarrow> string \<Rightarrow> QueryResponsePayload \<Rightarrow> HubServer \<Rightarrow> HubServer" where
  "handle_response now sid resp h =
     (case gm_get (sess_heap h) sid of
        None \<Rightarrow> h
      | Some sess \<Rightarrow>
          (case with_store (GetQuery now (rp_query_id resp)) h of
             (Inl _, h1) \<Rightarrow> h1
           | (Inr existingQ, h1) \<Rightarrow>
               if q_target_member_id existingQ \<noteq> ds_memberID sess then h1
               else
                 let status = (if rp_status resp = ''success'' \<or> rp_status resp = [] then QueryStatusCompleted
                               else rp_status resp);
                     h2 = snd (with_store (UpdateQueryStatus now (rp_query_id resp) status (rp_answer resp)
                            (rp_tools_used resp) (rp_duration_ms resp) (rp_token_usage resp) (rp_error_message resp)) h1);
                     h3 = notifyWaiters now (rp_query_id resp) h2
                 in if from_feishu existingQ
                    then (case with_store (GetQuery now (rp_query_id resp)) h3 of
                            (Inl _, h4) \<Rightarrow> h4
                          | (Inr updatedQ, h4) \<Rightarrow> h4\<lparr>feishu_done := feishu_done h4 @ [updatedQ]\<rparr>)
                    else h3))"

fun handleDaemonEnvelope :: "int \<Rightarrow> string \<Rightarrow> in_frame \<Rightarrow> HubServer \<Rightarrow> HubServer" where
  "handleDaemonEnvelope now sid (DaemonHello hello) h = handle_hello now sid hello h"
| "handleDaemonEnvelope now sid HeartbeatPing h = sendEnvelope sid (HeartbeatPong (UnixMilli now)) h"
| "handleDaemonEnvelope now sid (QueryResponse resp) h = handle_response now sid resp h"
| "handleDaemonEnvelope now sid BadPayload h = h"
| "handleDaemonEnvelope now sid (OtherType ty) h = h"

text \<open>One turn of the read loop; the flag says whether the loop goes on.  \<open>None\<close> is a frame that is not an envelope.\<close>

definition ws_frame :: "int \<Rightarrow> string \<Rightarrow> (string \<times> in_frame) option \<Rightarrow> HubServer \<Rightarrow> bool \<times> HubServer" where
  "ws_frame now sid env h =
     (let h1 = h\<lparr>sess_heap := gm_mod sid (\<lambda>s. s\<lparr>ds_lastSeen := now\<rparr>) (sess_heap h)\<rparr> in
      case env of
        None \<Rightarrow> (True, h1)
      | Some (version, fr) \<Rightarrow>
          if version \<noteq> Version1 then (False, h1) else (True, handleDaemonEnvelope now sid fr h1))"

section \<open>Background sweep and shutdown\<close>

fun sweep_notify :: "int \<Rightarrow> string list \<Rightarrow> HubServer \<Rightarrow> HubServer" where
  "sweep_notify now [] h = h"
| "sweep_notify now (qid # qids) h =
     sweep_notify now qids
       (case with_store (GetQuery now qid) h of
          (Inl _, h1) \<Rightarrow> h1
        | (Inr q, h1) \<Rightarrow>
            if q_status q = QueryStatusExpired then
              let h2 = notifyWaiters now qid h1 in
              if from_feishu q then h2\<lparr>feishu_done := feishu_done h2 @ [q]\<rparr> else h2
            else h1)"

definition sweep_tick :: "int \<Rightarrow> HubServer \<Rightarrow> HubServer" where
  "sweep_tick now h =
     (let (n, h1) = with_store (SweepExpiredQueries now) h
      in if n > 0 then sweep_notify now (gm_keys (queryWaiters h1)) h1 else h1)"

definition StopHub :: "HubServer \<Rightarrow> HubServer" where
  "StopHub h = h\<lparr>hstopped := True, feishuClients := [],
     sess_heap := map (\<lambda>(k, s). (k, if k \<in> set (sessionsByID h) then s\<lparr>ds_closed := True\<rparr> else s)) (sess_heap h),
     sessionsByID := [], memberSessions := [], daemonConns := []\<rparr>"

section \<open>Submitting a query\<close>

datatype outcome =
  Answered http_response
| Parked string nat QueryDetailResponse string string

definition queryTTL :: "hub_config \<Rightarrow> int \<Rightarrow> int" where
  "queryTTL c ttl0 =
     (let ttl1 = (if ttl0 \<le> 0 then (if DefaultQueryTTLSec c \<le> 0 then 86400 else DefaultQueryTTLSec c) else ttl0)
      in if MaxQueryTTLSec c > 0 \<and> ttl1 > MaxQueryTTLSec c then MaxQueryTTLSec c else ttl1)"

definition ttl_deadline :: "int \<Rightarrow> int \<Rightarrow> int" where
  "ttl_deadline now ttlSec = UnixMilli (now + wrap64 (ttlSec * secondNs))"

definition query_id_of :: "string option \<Rightarrow> string" where
  "query_id_of rnd = ''q_'' @ (case RandomHex rnd of None \<Rightarrow> [] | Some x \<Rightarrow> x)"

text \<open>The query an idempotency key of an earlier submission names: the in-memory cache first, then the store.\<close>

definition idempotent_hit :: "int \<Rightarrow> string \<Rightarrow> HubServer \<Rightarrow> QueryDetailResponse option \<times> HubServer" where
  "idempotent_hit now key h =
     (let (r1, h1) = (case gm_get (idempotencyCache h) key of
            None \<Rightarrow> (None, h)
          | Some rec \<Rightarrow>
              if now < hi_expiresAt rec
              then (case with_store (GetQuery now (hi_queryID rec)) h of
                      (Inl _, h') \<Rightarrow> (None, h') | (Inr q, h') \<Rightarrow> (Some q, h'))
              else (None, h))
      in case r1 of
           Some q \<Rightarrow> (Some q, h1)
         | None \<Rightarrow> (case GetQueryByIdempotencyKey now key (hstore h1) of
                      Inl _ \<Rightarrow> (None, h1) | Inr q \<Rightarrow> (Some q, h1)))"

definition new_query ::
  "int \<Rightarrow> string \<Rightarrow> MemberInfo \<Rightarrow> MemberInfo \<Rightarrow> QuerySubmitRequest \<Rightarrow> int \<Rightarrow> QueryDetailResponse" where
  "new_query now qid asker target req deadline = \<lparr>q_query_id = qid, q_status = QueryStatusQueued,
     q_asker_id = m_id asker, q_asker_name = m_name asker, q_target_member_id = m_id target,
     q_target_member_name = m_name target, q_target_workspace = qs_target_workspace req, q_query = qs_query req,
     q_answer = [], q_tools_used = None, q_duration_ms = 0, q_token_usage = zeroUsage, q_queue_position = 0,
     q_ttl_expires_at = deadline, q_created_at = UnixMilli now, q_completed_at = 0, q_error_message = [],
     q_feishu_context = None, q_origin = ''cli''\<rparr>"

definition submit_request :: "QueryDetailResponse \<Rightarrow> int \<Rightarrow> QueryRequestPayload" where
  "submit_request q timeoutSec = \<lparr>qr_query_id = q_query_id q, qr_asker_id = q_asker_id q,
     qr_asker_name = q_asker_name q, qr_asker_type = ''member'', qr_query = q_query q,
     qr_target_workspace = q_target_workspace q, qr_timeout_seconds = timeoutSec, qr_created_at = q_created_at q\<rparr>"

text \<open>Remembering the idempotency key of a new query, in memory and in the store.\<close>

definition remember_key :: "int \<Rightarrow> string \<Rightarrow> string \<Rightarrow> int \<Rightarrow> HubServer \<Rightarrow> HubServer" where
  "remember_key now key qid deadline h =
     (if key = [] then h
      else snd (with_store (SaveIdempotencyKey now key qid deadline)
             (h\<lparr>idempotencyCache := gm_put key \<lparr>hi_queryID = qid, hi_expiresAt = now + hourNs\<rparr> (idempotencyCache h)\<rparr>)))"

text \<open>The frame goes out before the status is recorded; \<open>submit_send\<close> and \<open>mark_dispatched\<close> are the two halves.\<close>

definition submit_send :: "daemonSession \<Rightarrow> QueryDetailResponse \<Rightarrow> int \<Rightarrow> HubServer \<Rightarrow> HubServer" where
  "submit_send sess q timeoutSec h = sendEnvelope (ds_sessionID sess) (QueryRequest (submit_request q timeoutSec)) h"

definition submit_created ::
  "int \<Rightarrow> nat \<Rightarrow> bool \<Rightarrow> MemberInfo \<Rightarrow> QuerySubmitRequest \<Rightarrow> QueryDetailResponse \<Rightarrow> HubServer
     \<Rightarrow> outcome \<times> HubServer" where
  "submit_created now ch urlWait target req q h0 =
     (let timeoutSec = clampTimeout (hcfg h0) (qs_timeout_seconds req);
          h1 = setQueryTimeout (q_query_id q) timeoutSec h0;
          h2 = remember_key now (qs_idempotency_key req) (q_query_id q) (q_ttl_expires_at q) h1;
          sess = selectSessionForQuery (m_id target) (qs_target_workspace req) h2;
          shouldWait = (qs_wait req \<or> urlWait);
          h3 = (if shouldWait then addWaiter (q_query_id q) ch h2 else h2);
          (q', h4) = (case sess of
              Some s \<Rightarrow> (q\<lparr>q_status := QueryStatusDispatched\<rparr>,
                         mark_dispatched now (q_query_id q) (submit_send s q timeoutSec h3))
            | None \<Rightarrow> (q\<lparr>q_queue_position := (case GetQueuePosition now (q_query_id q) (hstore h3) of
                                Inl _ \<Rightarrow> 0 | Inr p \<Rightarrow> p)\<rparr>, h3))
      in if shouldWait then (Parked (q_query_id q) ch q' (m_id target) (qs_target_workspace req), h4)
         else (Answered (Response 202 (QueryBody q')), h4))"

definition submit_resolved ::
  "crypto \<Rightarrow> int \<Rightarrow> string option \<Rightarrow> nat \<Rightarrow> bool \<Rightarrow> MemberInfo \<Rightarrow> QuerySubmitRequest \<Rightarrow> HubServer
     \<Rightarrow> outcome \<times> HubServer" where
  "submit_resolved cr now rnd ch urlWait asker req h =
     (case ResolveTargetMember (qs_target req) (hstore h) of
        Inl (e, cands) \<Rightarrow>
          if e = ErrPanic then (Answered PanicResponse, h)
          else if e = ErrAmbiguousMatch then (Answered (Response 400 (ErrorBody ErrCodeAmbiguousTarget cands)), h)
          else (Answered (jsonError 404 ErrCodeNotFound), h)
      | Inr target \<Rightarrow>
          let deadline = ttl_deadline now (queryTTL (hcfg h) (qs_ttl_seconds req));
              q0 = new_query now (query_id_of rnd) asker target req deadline
          in case with_store (CreateQuery now q0) h of
               (Inl _, h1) \<Rightarrow> (Answered (jsonError 500 ErrCodeInternalError), h1)
             | (Inr q, h1) \<Rightarrow> submit_created now ch urlWait target req q h1)"

definition handleQuerySubmit ::
  "crypto \<Rightarrow> int \<Rightarrow> string option \<Rightarrow> nat \<Rightarrow> bool \<Rightarrow> string \<Rightarrow> QuerySubmitRequest option \<Rightarrow> HubServer
     \<Rightarrow> outcome \<times> HubServer" where
  "handleQuerySubmit cr now rnd ch urlWait auth body h =
     (case authenticateMember cr auth h of
        Inl _ \<Rightarrow> (Answered (jsonError 401 ErrCodeUnauthorized), h)
      | Inr asker \<Rightarrow>
          let (ok, rl) = Allow now (m_id asker) (hlimiter h); h1 = h\<lparr>hlimiter := rl\<rparr> in
          if \<not> ok then (Answered (jsonError 429 ErrCodeRateLimited), h1)
          else case body of
            None \<Rightarrow> (Answered (jsonError 400 ErrCodeInvalidArgument), h1)
          | Some req \<Rightarrow>
              (case (if qs_idempotency_key req \<noteq> [] then idempotent_hit now (qs_idempotency_key req) h1 else (None, h1)) of
                 (Some q, h2) \<Rightarrow> (Answered (Response 200 (QueryBody q)), h2)
               | (None, h2) \<Rightarrow> submit_resolved cr now rnd ch urlWait asker req h2))"

text \<open>The arms of the \<^verbatim>\<open>select\<close> of a parked submission: the channel has a result; the time is over or the server stops; the asker
  hangs up.\<close>

definition submit_finished :: "nat \<Rightarrow> HubServer \<Rightarrow> http_response option" where
  "submit_finished ch h = map_option (\<lambda>q. Response 200 (QueryBody q)) (map_of (chan_buf h) ch)"

definition submit_timeout :: "string \<Rightarrow> nat \<Rightarrow> QueryDetailResponse \<Rightarrow> HubServer \<Rightarrow> http_response \<times> HubServer" where
  "submit_timeout qid ch q h = (Response 202 (QueryBody q), snd (removeWaiter qid ch h))"

definition submit_hangup :: "int \<Rightarrow> string \<Rightarrow> nat \<Rightarrow> string \<Rightarrow> string \<Rightarrow> HubServer \<Rightarrow> HubServer" where
  "submit_hangup now qid ch target ws h =
     (let (remaining, h1) = removeWaiter qid ch h
      in if remaining = 0 then cancelDispatchedQuery now qid target ws ''asker_cancelled'' h1 else h1)"

section \<open>Reading a query\<close>

definition detail_authorized :: "crypto \<Rightarrow> string \<Rightarrow> QueryDetailResponse \<Rightarrow> HubServer \<Rightarrow> http_response option" where
  "detail_authorized cr auth q h =
     (if authenticateAdmin auth h then None
      else case authenticateMember cr auth h of
        Inl _ \<Rightarrow> Some (jsonError 401 ErrCodeUnauthorized)
      | Inr caller \<Rightarrow>
          if m_id caller \<noteq> q_asker_id q \<and> m_id caller \<noteq> q_target_member_id q
          then Some (jsonError 403 ErrCodeForbidden) else None)"

definition handleQueryDetail ::
  "crypto \<Rightarrow> int \<Rightarrow> nat \<Rightarrow> bool \<Rightarrow> string \<Rightarrow> string \<Rightarrow> HubServer \<Rightarrow> outcome \<times> HubServer" where
  "handleQueryDetail cr now ch wait auth path h =
     (let queryID = trim_space (trim_prefix path ''/api/v1/queries/'') in
      if queryID = [] then (Answered (jsonError 400 ErrCodeInvalidArgument), h)
      else case with_store (GetQuery now queryID) h of
        (Inl _, h1) \<Rightarrow> (Answered (jsonError 404 ErrCodeNotFound), h1)
      | (Inr q, h1) \<Rightarrow>
          (case detail_authorized cr auth q h1 of
             Some r \<Rightarrow> (Answered r, h1)
           | None \<Rightarrow>
               if wait \<and> (q_status q = QueryStatusQueued \<or> q_status q = QueryStatusDispatched \<or> q_status q = QueryStatusPending)
               then (Parked queryID ch q [] [], addWaiter queryID ch h1)
               else (Answered (Response 200 (QueryBody q)), h1)))"

definition detail_latest :: "int \<Rightarrow> string \<Rightarrow> nat \<Rightarrow> QueryDetailResponse \<Rightarrow> HubServer \<Rightarrow> http_response \<times> HubServer" where
  "detail_latest now qid ch q h =
     (case with_store (GetQuery now qid) (snd (removeWaiter qid ch h)) of
        (Inl _, h1) \<Rightarrow> (Response 200 (QueryBody q), h1)
      | (Inr latest, h1) \<Rightarrow> (Response 200 (QueryBody latest), h1))"

definition detail_hangup :: "string \<Rightarrow> nat \<Rightarrow> HubServer \<Rightarrow> HubServer" where
  "detail_hangup qid ch h = snd (removeWaiter qid ch h)"

section \<open>Queries from Feishu\<close>

record AskerInfo =
  ai_open_id :: string
  ai_user_id :: string
  ai_union_id :: string
  ai_chat_id :: string
  ai_chat_type :: string

definition DisplayName :: "AskerInfo \<Rightarrow> string" where
  "DisplayName a = (if ai_open_id a \<noteq> [] then ''Feishu user ('' @ ai_open_id a @ '')''
     else if ai_user_id a \<noteq> [] then ''Feishu user ('' @ ai_user_id a @ '')'' else ''Feishu user'')"

record DispatchResult =
  dr_query_id :: string
  dr_status :: string
  dr_target_member_name :: string
  dr_queue_position :: nat

definition feishu_query ::
  "int \<Rightarrow> string \<Rightarrow> AskerInfo \<Rightarrow> MemberInfo \<Rightarrow> string \<Rightarrow> FeishuContext \<Rightarrow> int \<Rightarrow> QueryDetailResponse" where
  "feishu_query now qid asker target queryText fctx deadline = \<lparr>q_query_id = qid, q_status = QueryStatusQueued,
     q_asker_id = ai_open_id asker, q_asker_name = DisplayName asker, q_target_member_id = m_id target,
     q_target_member_name = m_name target, q_target_workspace = [], q_query = queryText, q_answer = [],
     q_tools_used = None, q_duration_ms = 0, q_token_usage = zeroUsage, q_queue_position = 0,
     q_ttl_expires_at = deadline, q_created_at = UnixMilli now, q_completed_at = 0, q_error_message = [],
     q_feishu_context = Some fctx, q_origin = ''feishu''\<rparr>"

definition dispatchFeishuQuery ::
  "int \<Rightarrow> string option \<Rightarrow> string \<Rightarrow> AskerInfo \<Rightarrow> string \<Rightarrow> FeishuContext \<Rightarrow> HubServer
     \<Rightarrow> (store_error, DispatchResult) result \<times> HubServer" where
  "dispatchFeishuQuery now rnd targetMemberID asker queryText fctx h =
     (case GetMember targetMemberID (hstore h) of
        Inl e \<Rightarrow> (Inl e, h)
      | Inr target \<Rightarrow>
          let ttlSec = (if DefaultQueryTTLSec (hcfg h) \<le> 0 then 86400 else DefaultQueryTTLSec (hcfg h));
              q0 = feishu_query now (query_id_of rnd) asker target queryText fctx (ttl_deadline now ttlSec)
          in case with_store (CreateQuery now q0) h of
               (Inl e, h1) \<Rightarrow> (Inl e, h1)
             | (Inr q, h1) \<Rightarrow>
                 let h2 = setQueryTimeout (q_query_id q) 60 h1;
                     (st, h3) = (case selectSessionForQuery (m_id target) [] h2 of
                        None \<Rightarrow> (q_status q, h2)
                      | Some sess \<Rightarrow>
                          (QueryStatusDispatched,
                           mark_dispatched now (q_query_id q) (sendEnvelope (ds_sessionID sess)
                             (QueryRequest ((submit_request q 60)\<lparr>qr_asker_type := ''feishu''\<rparr>)) h2)))
                 in (Inr \<lparr>dr_query_id = q_query_id q, dr_status = st, dr_target_member_name = m_name target,
                          dr_queue_position = (case GetQueuePosition now (q_query_id q) (hstore h3) of
                             Inl _ \<Rightarrow> 0 | Inr p \<Rightarrow> p)\<rparr>, h3))"

section \<open>Pairing, members, audit\<close>

definition publicURL :: "bool \<Rightarrow> string \<Rightarrow> HubServer \<Rightarrow> string" where
  "publicURL tls host h =
     (if PublicURL (hcfg h) \<noteq> [] then trim_right_by (\<lambda>c. c = CHR ''/'') (PublicURL (hcfg h))
      else (if tls then ''https'' else ''http'') @ ''://'' @ host)"

definition handleAuthPair ::
  "crypto \<Rightarrow> int \<Rightarrow> int \<Rightarrow> string option \<Rightarrow> string option \<Rightarrow> bool \<Rightarrow> string \<Rightarrow> PairRequest option \<Rightarrow> HubServer
     \<Rightarrow> http_response \<times> HubServer" where
  "handleAuthPair cr now now2 rndId rndTok tls host body h =
     (case body of
        None \<Rightarrow> (jsonError 400 ErrCodeInvalidArgument, h)
      | Some req \<Rightarrow>
          (case with_store (ConsumeInvite cr now now2 rndId rndTok req) h of
             (Inl _, h1) \<Rightarrow> (jsonError 400 ErrCodeInvalidArgument, h1)
           | (Inr resp, h1) \<Rightarrow> (Response 200 (PairBody (resp\<lparr>pp_hub_url := publicURL tls host h1\<rparr>)), h1)))"

definition handleAdminInvites ::
  "crypto \<Rightarrow> int \<Rightarrow> string option \<Rightarrow> string \<Rightarrow> InviteCreateRequest option \<Rightarrow> HubServer \<Rightarrow> http_response \<times> HubServer" where
  "handleAdminInvites cr now rnd auth body h =
     (if \<not> authenticateAdmin auth h then (jsonError 401 ErrCodeUnauthorized, h)
      else case body of
        None \<Rightarrow> (jsonError 400 ErrCodeInvalidArgument, h)
      | Some req \<Rightarrow>
          (case with_store (CreateInvite cr now rnd req) h of
             (Inl _, h1) \<Rightarrow> (jsonError 500 ErrCodeInternalError, h1)
           | (Inr resp, h1) \<Rightarrow> (Response 201 (InviteBody resp), h1)))"

definition any_auth :: "crypto \<Rightarrow> string \<Rightarrow> HubServer \<Rightarrow> bool" where
  "any_auth cr auth h \<longleftrightarrow> authenticateAdmin auth h \<or> is_ok (authenticateMember cr auth h)"

definition handleMembersList :: "crypto \<Rightarrow> string \<Rightarrow> HubServer \<Rightarrow> http_response" where
  "handleMembersList cr auth h =
     (if \<not> any_auth cr auth h then jsonError 401 ErrCodeUnauthorized
      else Response 200 (MembersBody (ListMembers (hstore h))))"

definition handleMemberMe :: "crypto \<Rightarrow> string \<Rightarrow> HubServer \<Rightarrow> http_response" where
  "handleMemberMe cr auth h = (case authenticateMember cr auth h of
     Inl _ \<Rightarrow> jsonError 401 ErrCodeUnauthorized | Inr mem \<Rightarrow> Response 200 (MemberBody mem))"

definition handleMemberMeUpdate ::
  "crypto \<Rightarrow> int \<Rightarrow> string \<Rightarrow> MemberUpdateRequest option \<Rightarrow> HubServer \<Rightarrow> http_response \<times> HubServer" where
  "handleMemberMeUpdate cr now auth body h = (case authenticateMember cr auth h of
     Inl _ \<Rightarrow> (jsonError 401 ErrCodeUnauthorized, h)
   | Inr mem \<Rightarrow>
       (case body of
          None \<Rightarrow> (jsonError 400 ErrCodeInvalidArgument, h)
        | Some req \<Rightarrow>
            (case with_store (UpdateMember now (m_id mem) req) h of
               (Inl _, h1) \<Rightarrow> (jsonError 500 ErrCodeInternalError, h1)
             | (Inr m, h1) \<Rightarrow> (Response 200 (MemberBody m), h1))))"

definition handleMemberGet :: "crypto \<Rightarrow> string \<Rightarrow> string \<Rightarrow> HubServer \<Rightarrow> http_response" where
  "handleMemberGet cr auth path h =
     (if \<not> any_auth cr auth h then jsonError 401 ErrCodeUnauthorized
      else
        let mid = trim_space (trim_prefix path ''/api/v1/members/'') in
        if mid = [] then jsonError 400 ErrCodeInvalidArgument
        else (case GetMember mid (hstore h) of
                Inl _ \<Rightarrow> jsonError 404 ErrCodeNotFound | Inr m \<Rightarrow> Response 200 (MemberBody m)))"

text \<open>\<^verbatim>\<open>limit\<close> and \<^verbatim>\<open>offset\<close> are what \<^verbatim>\<open>strconv.Atoi\<close> made of the query string: 0 for text that is no number, the largest
  or smallest integer for one that is out of range.\<close>

definition audit_response :: "(nat \<times> AuditLogEntry list) option \<Rightarrow> http_response" where
  "audit_response r = (case r of None \<Rightarrow> PanicResponse | Some (n, es) \<Rightarrow> Response 200 (AuditBody n es))"

definition handleAuditInbound :: "crypto \<Rightarrow> string \<Rightarrow> int \<Rightarrow> int \<Rightarrow> HubServer \<Rightarrow> http_response" where
  "handleAuditInbound cr auth limit offset h = (case authenticateMember cr auth h of
     Inl _ \<Rightarrow> jsonError 401 ErrCodeUnauthorized
   | Inr mem \<Rightarrow> audit_response
       (GetInboundAudit (m_id mem) (if limit \<le> 0 then 50 else limit) offset (hstore h)))"

definition handleAuditOutbound :: "crypto \<Rightarrow> string \<Rightarrow> int \<Rightarrow> int \<Rightarrow> HubServer \<Rightarrow> http_response" where
  "handleAuditOutbound cr auth limit offset h = (case authenticateMember cr auth h of
     Inl _ \<Rightarrow> jsonError 401 ErrCodeUnauthorized
   | Inr mem \<Rightarrow> audit_response
       (GetOutboundAudit (m_id mem) (if limit \<le> 0 then 50 else limit) offset (hstore h)))"

section \<open>Feishu bindings\<close>

text \<open>What \<^verbatim>\<open>net/url\<close> and \<^verbatim>\<open>net\<close> say of a URL: scheme, host name and, for a literal address, its class.\<close>

record ip_class =
  ip_link_local_unicast :: bool
  ip_link_local_multicast :: bool
  ip_loopback :: bool

record parsed_url =
  pu_scheme :: string
  pu_host :: string
  pu_ip :: "ip_class option"

definition validateFeishuBaseURL :: "parsed_url option \<Rightarrow> bool" where
  "validateFeishuBaseURL u = (case u of
     None \<Rightarrow> False
   | Some p \<Rightarrow>
       if pu_scheme p \<noteq> ''https'' \<and> pu_scheme p \<noteq> ''http'' then False
       else if pu_host p = [] then False
       else if (case pu_ip p of None \<Rightarrow> False
                | Some ip \<Rightarrow> ip_link_local_unicast ip \<or> ip_link_local_multicast ip \<or> has_prefix (pu_host p) ''169.254.'')
       then False
       else if equal_fold (pu_host p) ''metadata.google.internal'' \<or> equal_fold (pu_host p) ''instance-data'' then False
       else if pu_scheme p = ''http'' then
         pu_host p = ''localhost'' \<or> (case pu_ip p of None \<Rightarrow> False | Some ip \<Rightarrow> ip_loopback ip)
       else True)"

definition handleFeishuBindingGet :: "crypto \<Rightarrow> (string \<Rightarrow> string) \<Rightarrow> string \<Rightarrow> HubServer \<Rightarrow> http_response" where
  "handleFeishuBindingGet cr live auth h = (case authenticateMember cr auth h of
     Inl _ \<Rightarrow> jsonError 401 ErrCodeUnauthorized
   | Inr mem \<Rightarrow> (case GetFeishuBinding (m_id mem) (hstore h) of
       Inl _ \<Rightarrow> jsonError 404 ErrCodeNotFound
     | Inr b \<Rightarrow> Response 200 (BindingBody (fb_app_id b \<noteq> []) (fb_app_id b)
         (case gm_get (feishuClients h) (m_id mem) of None \<Rightarrow> ''disconnected'' | Some _ \<Rightarrow> live (m_id mem)))))"

definition handleFeishuBindingSave ::
  "crypto \<Rightarrow> int \<Rightarrow> string option \<Rightarrow> (string \<Rightarrow> parsed_url option) \<Rightarrow> (string \<Rightarrow> string) \<Rightarrow> string
     \<Rightarrow> FeishuBindingRequest option \<Rightarrow> HubServer \<Rightarrow> http_response \<times> HubServer" where
  "handleFeishuBindingSave cr now rnd parse live auth body h = (case authenticateMember cr auth h of
     Inl _ \<Rightarrow> (jsonError 401 ErrCodeUnauthorized, h)
   | Inr mem \<Rightarrow> (case body of
       None \<Rightarrow> (jsonError 400 ErrCodeInvalidArgument, h)
     | Some req \<Rightarrow>
         if fb_app_id req = [] \<or> fb_app_secret req = [] then (jsonError 400 ErrCodeInvalidArgument, h)
         else if fb_base_url req \<noteq> [] \<and> \<not> validateFeishuBaseURL (parse (fb_base_url req))
         then (jsonError 400 ErrCodeInvalidArgument, h)
         else (case with_store (SaveFeishuBinding cr now rnd (m_id mem) req) h of
                 (Inl _, h1) \<Rightarrow> (jsonError 500 ErrCodeInternalError, h1)
               | (Inr _, h1) \<Rightarrow>
                   (Response 200 (BindingBody True (fb_app_id req) (live (m_id mem))),
                    h1\<lparr>feishuClients := gm_put (m_id mem) req (gm_del (m_id mem) (feishuClients h1))\<rparr>))))"

definition handleFeishuBindingDelete :: "crypto \<Rightarrow> int \<Rightarrow> string \<Rightarrow> HubServer \<Rightarrow> http_response \<times> HubServer" where
  "handleFeishuBindingDelete cr now auth h = (case authenticateMember cr auth h of
     Inl _ \<Rightarrow> (jsonError 401 ErrCodeUnauthorized, h)
   | Inr mem \<Rightarrow> (case with_store (DeleteFeishuBinding now (m_id mem)) h of
       (Inl _, h1) \<Rightarrow> (jsonError 500 ErrCodeInternalError, h1)
     | (Inr _, h1) \<Rightarrow> (Response 204 NoBody, h1\<lparr>feishuClients := gm_del (m_id mem) (feishuClients h1)\<rparr>)))"

definition startFeishuClientLocked :: "string \<Rightarrow> FeishuBindingRequest \<Rightarrow> HubServer \<Rightarrow> HubServer" where
  "startFeishuClientLocked mid b h =
     (let h1 = h\<lparr>feishuClients := gm_del mid (feishuClients h)\<rparr>
      in if fb_app_id b = [] \<or> fb_app_secret b = [] then h1
         else h1\<lparr>feishuClients := gm_put mid b (feishuClients h1)\<rparr>)"

definition startFeishuClients :: "HubServer \<Rightarrow> HubServer" where
  "startFeishuClients h = foldl (\<lambda>st (mid, b). startFeishuClientLocked mid b st) h (ListFeishuBindings (hstore h))"

text \<open>\<^verbatim>\<open>NewServer\<close>: the admin token from the configuration, from \<^verbatim>\<open>admin.token\<close>, or freshly drawn; the limits of the
  plural section before those of the legacy one.\<close>

definition initAdminToken :: "string \<Rightarrow> string option \<Rightarrow> string option \<Rightarrow> bool \<Rightarrow> string option" where
  "initAdminToken configured tokenFile rnd writeOk =
     (let fresh = (case RandomHex rnd of None \<Rightarrow> None
                   | Some t \<Rightarrow> if writeOk then Some (''ti_adm_'' @ t) else None)
      in if configured \<noteq> [] then Some configured
         else case tokenFile of
           Some d \<Rightarrow> (if trim_space d \<noteq> [] then Some (trim_space d) else fresh)
         | None \<Rightarrow> fresh)"

definition NewServer ::
  "hub_config \<Rightarrow> (int \<times> int) \<Rightarrow> (int \<times> int) \<Rightarrow> string option \<Rightarrow> string option \<Rightarrow> bool \<Rightarrow> jsonlStore \<Rightarrow> HubServer option" where
  "NewServer c limits legacy tokenFile rnd writeOk st =
     (case initAdminToken (AdminToken c) tokenFile rnd writeOk of
        None \<Rightarrow> None
      | Some tok \<Rightarrow>
          let q = (if fst limits \<le> 0 \<and> fst legacy > 0 then fst legacy else fst limits);
              b = (if snd limits \<le> 0 \<and> snd legacy > 0 then snd legacy else snd limits)
          in Some \<lparr>hcfg = c\<lparr>AdminToken := tok\<rparr>, hstore = st, hlimiter = newRateLimiter q b, hstopped = False,
               sess_heap = [], daemonConns = [], memberSessions = [], sessionsByID = [], queryWaiters = [],
               queryTimeouts = [], idempotencyCache = [], feishuClients = [], outbox = [], chan_buf = [],
               feishu_done = []\<rparr>)"

end
