(* ===== verification/Hub_Sessions.thy ===== *)
theory Hub_Sessions
  imports Hub Store_Properties
begin

text \<open>
  The session registry of the hub.  Three maps and the connections share session objects; the
  invariant says they agree, and every handler, in any interleaving, keeps it.  What the
  dispatcher relies on follows: the session it selects is open and belongs to the target member.
\<close>

section \<open>The registry\<close>

definition reg :: "HubServer \<Rightarrow> daemonSession gomap \<times> string gomap \<times> string list gomap \<times> string list" where
  "reg h = (sess_heap h, daemonConns h, memberSessions h, sessionsByID h)"

definition registered :: "HubServer \<Rightarrow> string \<Rightarrow> string list" where
  "registered h mid = gm_slice (memberSessions h) mid"

definition reg_ok :: "HubServer \<Rightarrow> bool" where
  "reg_ok h \<longleftrightarrow>
     (\<forall>mid. distinct (registered h mid)) \<and>
     (\<forall>mid sid. sid \<in> set (registered h mid) \<longrightarrow>
        (\<exists>s. gm_get (sess_heap h) sid = Some s \<and> ds_memberID s = mid \<and> \<not> ds_closed s)) \<and>
     (\<forall>sid s. gm_get (sess_heap h) sid = Some s \<longrightarrow> ds_sessionID s = sid) \<and>
     (\<forall>sid. sid \<in> set (sessionsByID h) \<longleftrightarrow> (\<exists>mid. sid \<in> set (registered h mid))) \<and>
     (\<forall>mid sid. gm_get (daemonConns h) mid = Some sid \<longrightarrow> sid \<in> set (registered h mid)) \<and>
     (\<forall>mid. registered h mid \<noteq> [] \<longrightarrow> gm_get (daemonConns h) mid \<noteq> None)"

lemma reg_okD:
  assumes "reg_ok h"
  shows "distinct (registered h mid)"
    and "sid \<in> set (registered h mid) \<Longrightarrow> \<exists>s. gm_get (sess_heap h) sid = Some s \<and> ds_memberID s = mid \<and> \<not> ds_closed s"
    and "gm_get (sess_heap h) sid = Some s \<Longrightarrow> ds_sessionID s = sid"
    and "sid \<in> set (sessionsByID h) \<longleftrightarrow> (\<exists>mid. sid \<in> set (registered h mid))"
    and "gm_get (daemonConns h) mid = Some sid \<Longrightarrow> sid \<in> set (registered h mid)"
    and "registered h mid \<noteq> [] \<Longrightarrow> gm_get (daemonConns h) mid \<noteq> None"
  using assms unfolding reg_ok_def by blast+

lemma reg_okI:
  assumes "\<And>mid. distinct (registered h mid)"
    and "\<And>mid sid. sid \<in> set (registered h mid) \<Longrightarrow>
      \<exists>s. gm_get (sess_heap h) sid = Some s \<and> ds_memberID s = mid \<and> \<not> ds_closed s"
    and "\<And>sid s. gm_get (sess_heap h) sid = Some s \<Longrightarrow> ds_sessionID s = sid"
    and "\<And>sid. sid \<in> set (sessionsByID h) \<longleftrightarrow> (\<exists>mid. sid \<in> set (registered h mid))"
    and "\<And>mid sid. gm_get (daemonConns h) mid = Some sid \<Longrightarrow> sid \<in> set (registered h mid)"
    and "\<And>mid. registered h mid \<noteq> [] \<Longrightarrow> gm_get (daemonConns h) mid \<noteq> None"
  shows "reg_ok h"
  using assms unfolding reg_ok_def by blast

lemma reg_ok_cong: "reg h = reg h' \<Longrightarrow> reg_ok h = reg_ok h'"
  by (simp add: reg_def reg_ok_def registered_def)

section \<open>Handlers that do not touch the registry\<close>

lemma reg_simps [simp]:
  "reg (h\<lparr>hstore := s\<rparr>) = reg h" "reg (h\<lparr>queryWaiters := w\<rparr>) = reg h" "reg (h\<lparr>queryTimeouts := t\<rparr>) = reg h"
  "reg (h\<lparr>queryWaiters := w, queryTimeouts := t\<rparr>) = reg h" "reg (h\<lparr>outbox := ob\<rparr>) = reg h"
  "reg (h\<lparr>chan_buf := cb\<rparr>) = reg h" "reg (h\<lparr>feishu_done := fd\<rparr>) = reg h" "reg (h\<lparr>hlimiter := rl\<rparr>) = reg h"
  "reg (h\<lparr>idempotencyCache := ic\<rparr>) = reg h" "reg (h\<lparr>feishuClients := fc\<rparr>) = reg h"
  by (simp_all add: reg_def)

lemma reg_with_store: "with_store f h = (x, h') \<Longrightarrow> reg h' = reg h"
  by (auto simp: with_store_def Let_def split: prod.splits)

lemma reg_snd_with_store [simp]: "reg (snd (with_store f h)) = reg h"
  by (simp add: with_store_def Let_def split: prod.split)

lemma reg_send [simp]: "reg (sendEnvelope sid fr h) = reg h"
  by (simp add: sendEnvelope_def split: option.split)

lemma reg_chan_fold [simp]: "reg (foldl (\<lambda>st ch. chan_send q ch st) h chs) = reg h"
  by (induction chs arbitrary: h) (simp_all add: chan_send_def)

lemma reg_notify [simp]: "reg (notifyWaiters now qid h) = reg h"
  by (auto simp: notifyWaiters_def Let_def dest!: reg_with_store split: prod.splits sum.splits)

lemma reg_waiters [simp]: "reg (snd (removeWaiter qid ch h)) = reg h" "reg (addWaiter qid ch h) = reg h"
  by (simp_all add: removeWaiter_def addWaiter_def Let_def)

lemma reg_mark [simp]: "reg (mark_dispatched now qid h) = reg h" "reg (setQueryTimeout qid t h) = reg h"
    "reg (remember_key now key qid d h) = reg h" "reg (online_update now mid onl mach ws h) = reg h"
    "reg (reconcileInFlightQueries now mid h) = reg h"
  by (simp_all add: mark_dispatched_def setQueryTimeout_def remember_key_def online_update_def reconcileInFlightQueries_def)

lemma reg_drain_loop [simp]: "reg (drain_loop now sid limit n qs h) = reg h"
  by (induction now sid limit n qs h rule: drain_loop.induct) auto

lemma reg_drain [simp]: "reg (drainOfflineQueue now sid h) = reg h"
  by (auto simp: drainOfflineQueue_def Let_def dest!: reg_with_store split: option.split prod.splits)

lemma reg_cancel [simp]: "reg (cancelDispatchedQuery now qid tgt ws why h) = reg h"
  by (auto simp: cancelDispatchedQuery_def Let_def dest!: reg_with_store split: prod.splits sum.splits option.splits)

lemma reg_response [simp]: "reg (handle_response now sid resp h) = reg h"
  by (auto simp: handle_response_def Let_def dest!: reg_with_store split: prod.splits sum.splits option.splits if_splits)

lemma reg_sweep_notify [simp]: "reg (sweep_notify now qids h) = reg h"
  by (induction now qids h rule: sweep_notify.induct)
     (auto simp: Let_def dest!: reg_with_store split: prod.splits sum.splits)

lemma reg_tick [simp]: "reg (sweep_tick now h) = reg h"
  by (auto simp: sweep_tick_def Let_def dest!: reg_with_store split: prod.splits)

lemma reg_idempotent: "idempotent_hit now key h = (r, h') \<Longrightarrow> reg h' = reg h"
  by (auto simp: idempotent_hit_def Let_def dest!: reg_with_store split: prod.splits sum.splits option.splits if_splits)

lemma reg_created: "submit_created now ch w tgt req q h = (r, h') \<Longrightarrow> reg h' = reg h"
  by (auto simp: submit_created_def submit_send_def Let_def split: prod.splits option.splits if_splits)

lemma reg_resolved: "submit_resolved cr now rnd ch w asker req h = (r, h') \<Longrightarrow> reg h' = reg h"
  by (auto simp: submit_resolved_def Let_def dest!: reg_created dest: reg_with_store
      split: prod.splits sum.splits if_splits)

lemma reg_submit: "handleQuerySubmit cr now rnd ch w auth body h = (r, h') \<Longrightarrow> reg h' = reg h"
  by (auto simp: handleQuerySubmit_def Let_def dest!: reg_resolved dest: reg_idempotent
      split: prod.splits sum.splits option.splits if_splits)

lemma reg_detail: "handleQueryDetail cr now ch w auth path h = (r, h') \<Longrightarrow> reg h' = reg h"
  by (auto simp: handleQueryDetail_def Let_def dest: reg_with_store split: prod.splits sum.splits option.splits if_splits)

lemma reg_feishu: "dispatchFeishuQuery now rnd tgt asker txt fctx h = (r, h') \<Longrightarrow> reg h' = reg h"
  by (auto simp: dispatchFeishuQuery_def Let_def dest: reg_with_store split: prod.splits sum.splits option.splits)

section \<open>Operations on the registry\<close>

text \<open>A change of a session object that keeps its identity and its state.\<close>

lemma reg_ok_heap:
  assumes "reg_ok h" and "gm_get (sess_heap h) sid = Some s"
    and "ds_sessionID s' = ds_sessionID s" "ds_memberID s' = ds_memberID s" "ds_closed s' = ds_closed s"
  shows "reg_ok (h\<lparr>sess_heap := gm_put sid s' (sess_heap h)\<rparr>)"
proof -
  let ?h = "h\<lparr>sess_heap := gm_put sid s' (sess_heap h)\<rparr>"
  have r: "registered ?h mid = registered h mid" for mid by (simp add: registered_def)
  show ?thesis
  proof (rule reg_okI)
    fix mid sd
    assume "sd \<in> set (registered ?h mid)"
    then obtain s0 where "gm_get (sess_heap h) sd = Some s0" "ds_memberID s0 = mid" "\<not> ds_closed s0"
      using reg_okD(2) [OF assms(1)] r by metis
    with assms show "\<exists>s. gm_get (sess_heap ?h) sd = Some s \<and> ds_memberID s = mid \<and> \<not> ds_closed s"
      by (cases "sd = sid") auto
  next
    show "gm_get (sess_heap ?h) sd = Some s0 \<Longrightarrow> ds_sessionID s0 = sd" for sd s0
      using reg_okD(3) [OF assms(1)] assms(2,3) by (auto split: if_splits)
  qed (use reg_okD [OF assms(1)] in \<open>simp_all add: r\<close>)
qed

lemma reg_ok_hello:
  assumes "reg_ok h"
  shows "reg_ok (handle_hello now sid hello h)"
proof (cases "gm_get (sess_heap h) sid")
  case None
  with assms show ?thesis by (simp add: handle_hello_def)
next
  case (Some s)
  let ?s = "s\<lparr>ds_maxConcurrency := (if dh_max_concurrency hello > 0 then dh_max_concurrency hello else ds_maxConcurrency s),
     ds_machineName := (if dh_machine_name hello \<noteq> [] then dh_machine_name hello else ds_machineName s),
     ds_workspaces := dh_workspaces hello\<rparr>"
  have "reg (handle_hello now sid hello h) = reg (h\<lparr>sess_heap := gm_put sid ?s (sess_heap h)\<rparr>)"
    by (simp add: handle_hello_def Some Let_def split_beta)
  moreover have "reg_ok (h\<lparr>sess_heap := gm_put sid ?s (sess_heap h)\<rparr>)"
    by (rule reg_ok_heap [OF assms Some]) simp_all
  ultimately show ?thesis by (metis reg_ok_cong)
qed

lemma reg_ok_frame:
  assumes "reg_ok h" and "ws_frame now sid env h = (b, h')"
  shows "reg_ok h'"
proof -
  let ?h = "h\<lparr>sess_heap := gm_mod sid (\<lambda>s. s\<lparr>ds_lastSeen := now\<rparr>) (sess_heap h)\<rparr>"
  have ok: "reg_ok ?h"
  proof (cases "gm_get (sess_heap h) sid")
    case None
    then show ?thesis using assms(1) by (simp add: gm_mod_def)
  next
    case (Some s)
    then show ?thesis using reg_ok_heap [OF assms(1) Some, of "s\<lparr>ds_lastSeen := now\<rparr>"] by (simp add: gm_mod_def)
  qed
  have same: "reg_ok h''" if "reg h'' = reg ?h" for h'' using ok reg_ok_cong [OF that] by blast
  have "reg_ok (handleDaemonEnvelope now sid fr ?h)" for fr
  proof (cases fr)
    case (DaemonHello hello)
    then show ?thesis using reg_ok_hello [OF ok] by simp
  next
    case HeartbeatPing
    show ?thesis unfolding HeartbeatPing handleDaemonEnvelope.simps by (rule same) (rule reg_send)
  next
    case (QueryResponse resp)
    show ?thesis unfolding QueryResponse handleDaemonEnvelope.simps by (rule same) (rule reg_response)
  qed (use ok in simp_all)
  with ok assms(2) show ?thesis
    by (auto simp: ws_frame_def Let_def split: option.splits if_splits)
qed

text \<open>The invariant without the clauses on \<^verbatim>\<open>daemonConns\<close> of one member, which is stale while sessions are replaced.\<close>

definition reg_ok_but :: "string \<Rightarrow> HubServer \<Rightarrow> bool" where
  "reg_ok_but m h \<longleftrightarrow>
     (\<forall>mid. distinct (registered h mid)) \<and>
     (\<forall>mid sid. sid \<in> set (registered h mid) \<longrightarrow>
        (\<exists>s. gm_get (sess_heap h) sid = Some s \<and> ds_memberID s = mid \<and> \<not> ds_closed s)) \<and>
     (\<forall>sid s. gm_get (sess_heap h) sid = Some s \<longrightarrow> ds_sessionID s = sid) \<and>
     (\<forall>sid. sid \<in> set (sessionsByID h) \<longleftrightarrow> (\<exists>mid. sid \<in> set (registered h mid))) \<and>
     (\<forall>mid sid. mid \<noteq> m \<longrightarrow> gm_get (daemonConns h) mid = Some sid \<longrightarrow> sid \<in> set (registered h mid)) \<and>
     (\<forall>mid. mid \<noteq> m \<longrightarrow> registered h mid \<noteq> [] \<longrightarrow> gm_get (daemonConns h) mid \<noteq> None)"

lemma reg_ok_weaken: "reg_ok h \<Longrightarrow> reg_ok_but m h"
  unfolding reg_ok_def reg_ok_but_def by blast

lemma gm_slice_put [simp]: "gm_slice (gm_put k xs m) k' = (if k' = k then xs else gm_slice m k')"
  by (simp add: gm_slice_def)

lemma gm_slice_del [simp]: "gm_slice (gm_del k m) k' = (if k' = k then [] else gm_slice m k')"
  by (simp add: gm_slice_def)

lemma reg_ok_butD:
  assumes "reg_ok_but m h"
  shows "distinct (registered h mid)"
    and "sid \<in> set (registered h mid) \<Longrightarrow> \<exists>s. gm_get (sess_heap h) sid = Some s \<and> ds_memberID s = mid \<and> \<not> ds_closed s"
    and "gm_get (sess_heap h) sid = Some s \<Longrightarrow> ds_sessionID s = sid"
    and "sid \<in> set (sessionsByID h) \<longleftrightarrow> (\<exists>mid. sid \<in> set (registered h mid))"
    and "mid \<noteq> m \<Longrightarrow> gm_get (daemonConns h) mid = Some sid \<Longrightarrow> sid \<in> set (registered h mid)"
    and "mid \<noteq> m \<Longrightarrow> registered h mid \<noteq> [] \<Longrightarrow> gm_get (daemonConns h) mid \<noteq> None"
  using assms unfolding reg_ok_but_def by blast+

lemma drop_session_others:
  "gm_get (sess_heap (drop_session m sid h)) k = map_option (\<lambda>s. if k = sid then s\<lparr>ds_closed := True\<rparr> else s) (gm_get (sess_heap h) k)"
  by (auto simp: drop_session_def option.map_ident)

lemma drop_session_frame:
  "sessionsByID (drop_session m sid h) = removeAll sid (sessionsByID h)" "daemonConns (drop_session m sid h) = daemonConns h"
  by (simp_all add: drop_session_def)

lemma drop_session_ok:
  assumes ok: "reg_ok_but m h" and s: "gm_get (sess_heap h) sid = Some s" "ds_memberID s = m"
  shows "reg_ok_but m (drop_session m sid h)"
proof -
  let ?h = "drop_session m sid h"
  have own: "sid \<notin> set (registered h mid)" if "mid \<noteq> m" for mid
    using that reg_ok_butD(2) [OF ok, of sid mid] s by auto
  have slice: "registered ?h mid = (if mid = m then removeAll sid (registered h m) else registered h mid)" for mid
    by (simp add: drop_session_def registered_def)
  show ?thesis
    unfolding reg_ok_but_def
  proof (intro conjI allI impI)
    fix mid sd
    show "distinct (registered ?h mid)" using reg_ok_butD(1) [OF ok] by (simp add: slice distinct_removeAll)
    show "\<exists>s. gm_get (sess_heap ?h) sd = Some s \<and> ds_memberID s = mid \<and> \<not> ds_closed s" if "sd \<in> set (registered ?h mid)"
      using that reg_ok_butD(2) [OF ok, of sd mid] own [of mid] by (auto simp: slice drop_session_others split: if_splits)
    show "ds_sessionID s' = sd" if "gm_get (sess_heap ?h) sd = Some s'" for s'
      using that reg_ok_butD(3) [OF ok] by (auto simp: drop_session_others split: if_splits)
    show "sd \<in> set (sessionsByID ?h) \<longleftrightarrow> (\<exists>mid. sd \<in> set (registered ?h mid))"
      using reg_ok_butD(4) [OF ok, of sd] own
      by (auto simp: slice drop_session_frame split: if_splits) metis
    show "sd \<in> set (registered ?h mid)" if "mid \<noteq> m" "gm_get (daemonConns ?h) mid = Some sd"
      using that reg_ok_butD(5) [OF ok, of mid sd] by (simp add: slice drop_session_frame)
    show "gm_get (daemonConns ?h) mid \<noteq> None" if "mid \<noteq> m" "registered ?h mid \<noteq> []"
      using that reg_ok_butD(6) [OF ok, of mid] by (simp add: slice drop_session_frame)
  qed
qed

lemma supersede_ok:
  assumes "reg_ok_but m h" and "\<forall>sid \<in> set sids. \<forall>s. gm_get (sess_heap h) sid = Some s \<longrightarrow> ds_memberID s = m"
  shows "reg_ok_but m (supersede m mach sids h)"
  using assms
proof (induction m mach sids h rule: supersede.induct)
  case (2 m mach sid sids h)
  show ?case
  proof (cases "\<exists>s. gm_get (sess_heap h) sid = Some s \<and> ds_machineName s = mach")
    case True
    then obtain s where s: "gm_get (sess_heap h) sid = Some s" "ds_machineName s = mach" by blast
    have "ds_memberID s = m" using 2(3) s(1) by simp
    then have "reg_ok_but m (drop_session m sid h)" using drop_session_ok [OF 2(2) s(1)] by simp
    moreover have "\<forall>sd \<in> set sids. \<forall>s. gm_get (sess_heap (drop_session m sid h)) sd = Some s \<longrightarrow> ds_memberID s = m"
    proof (intro ballI allI impI)
      fix sd s'
      assume sd: "sd \<in> set sids" and "gm_get (sess_heap (drop_session m sid h)) sd = Some s'"
      then obtain s0 where "gm_get (sess_heap h) sd = Some s0" "ds_memberID s' = ds_memberID s0"
        by (auto simp: drop_session_others split: if_splits)
      with sd 2(3) show "ds_memberID s' = m" by simp
    qed
    ultimately show ?thesis using 2(1) s by simp
  next
    case False
    then show ?thesis using 2 by (auto split: option.splits)
  qed
qed simp

lemma supersede_heap:
  "gm_get (sess_heap (supersede m mach sids h)) k = None \<longleftrightarrow> gm_get (sess_heap h) k = None"
  by (induction m mach sids h rule: supersede.induct)
     (auto simp: drop_session_others split: option.splits)

lemma reg_ok_connect:
  assumes ok: "reg_ok h" and c: "ws_connect cr now rnd auth mach rej h = (Inr sid, h')"
    and fresh: "gm_get (sess_heap h) sid = None"
  shows "reg_ok h'"
proof -
  from c obtain mem where mem: "GetMemberByToken cr (trim_prefix auth bearer) (hstore h) = Inr mem" and rej: "rej = None"
    by (auto simp: ws_connect_def Let_def split: if_splits sum.splits option.splits)
  let ?m = "m_id mem"
  define mname where "mname = (if mach = [] then ''default'' else mach)"
  define h1 where "h1 = supersede ?m mname (gm_slice (memberSessions h) ?m) h"
  define s where "s = \<lparr>ds_sessionID = sid, ds_memberID = ?m, ds_machineName = mname, ds_workspaces = [],
     ds_maxConcurrency = DefaultMaxConcurrency, ds_closed = False, ds_lastSeen = now\<rparr>"
  define h2 where "h2 = h1\<lparr>sess_heap := gm_put sid s (sess_heap h1),
     memberSessions := gm_put ?m (removeAll sid (gm_slice (memberSessions h1) ?m) @ [sid]) (memberSessions h1),
     sessionsByID := sid # removeAll sid (sessionsByID h1), daemonConns := gm_put ?m sid (daemonConns h1)\<rparr>"
  have "h' = online_update now ?m True mname None h2"
    using c mem rej
    by (auto simp: ws_connect_def Let_def mname_def h1_def s_def h2_def split: if_splits)
  then have r: "reg h' = reg h2" by simp
  have own: "\<forall>sd \<in> set (gm_slice (memberSessions h) ?m). \<forall>s. gm_get (sess_heap h) sd = Some s \<longrightarrow> ds_memberID s = ?m"
    using reg_okD(2) [OF ok] unfolding registered_def by (metis option.inject)
  have b: "reg_ok_but ?m h1" unfolding h1_def by (rule supersede_ok [OF reg_ok_weaken [OF ok] own])
  have f1: "gm_get (sess_heap h1) sid = None" using fresh by (simp add: h1_def supersede_heap)
  then have notin: "sid \<notin> set (gm_slice (memberSessions h1) mid)" for mid
    using b unfolding reg_ok_but_def registered_def by (metis option.discI)
  have slice: "registered h2 mid = (if mid = ?m then registered h1 ?m @ [sid] else registered h1 mid)" for mid
    using notin [of ?m] by (simp add: h2_def registered_def)
  have byid: "sessionsByID h2 = sid # removeAll sid (sessionsByID h1)" by (simp add: h2_def)
  have conns: "gm_get (daemonConns h2) mid = (if mid = ?m then Some sid else gm_get (daemonConns h1) mid)" for mid
    by (simp add: h2_def)
  have "reg_ok h2"
  proof (rule reg_okI)
    fix mid sd
    show "distinct (registered h2 mid)"
      using reg_ok_butD(1) [OF b] notin [of ?m] by (simp add: slice registered_def [of h1])
    show "\<exists>s. gm_get (sess_heap h2) sd = Some s \<and> ds_memberID s = mid \<and> \<not> ds_closed s" if "sd \<in> set (registered h2 mid)"
    proof (cases "sd = sid")
      case True
      then have "mid = ?m" using that notin [of mid] by (auto simp: slice registered_def [of h1] split: if_splits)
      with True show ?thesis by (simp add: h2_def s_def)
    next
      case False
      then have "sd \<in> set (registered h1 mid)" using that by (auto simp: slice split: if_splits)
      with b False show ?thesis by (simp add: h2_def reg_ok_but_def)
    qed
    show "ds_sessionID s' = sd" if "gm_get (sess_heap h2) sd = Some s'" for s'
      using that b by (auto simp: h2_def s_def reg_ok_but_def split: if_splits)
    show "sd \<in> set (sessionsByID h2) \<longleftrightarrow> (\<exists>mid. sd \<in> set (registered h2 mid))"
      using reg_ok_butD(4) [OF b, of sd] by (auto simp: slice byid split: if_splits) metis
    show "sd \<in> set (registered h2 mid)" if "gm_get (daemonConns h2) mid = Some sd"
      using that reg_ok_butD(5) [OF b] by (auto simp: slice conns split: if_splits)
    show "gm_get (daemonConns h2) mid \<noteq> None" if "registered h2 mid \<noteq> []"
      using that reg_ok_butD(6) [OF b] by (auto simp: slice conns split: if_splits)
  qed
  with r show ?thesis by (metis reg_ok_cong)
qed

lemma reg_ok_disconnect:
  assumes ok: "reg_ok h" and s: "gm_get (sess_heap h) sid = Some s"
  shows "reg_ok (ws_disconnect now (ds_memberID s) sid h)"
proof -
  let ?m = "ds_memberID s"
  define h1 where "h1 = h\<lparr>sess_heap := gm_mod sid (\<lambda>s. s\<lparr>ds_closed := True\<rparr>) (sess_heap h)\<rparr>"
  define h2 where "h2 = (case gm_get (memberSessions h1) ?m of None \<Rightarrow> h1
     | Some sids \<Rightarrow> (case removeAll sid sids of
          [] \<Rightarrow> h1\<lparr>memberSessions := gm_del ?m (memberSessions h1), daemonConns := gm_del ?m (daemonConns h1)\<rparr>
        | rem # rest \<Rightarrow> h1\<lparr>memberSessions := gm_put ?m (rem # rest) (memberSessions h1),
                          daemonConns := gm_put ?m rem (daemonConns h1)\<rparr>))"
  define h3 where "h3 = h2\<lparr>sessionsByID := removeAll sid (sessionsByID h2)\<rparr>"
  have r: "reg (ws_disconnect now ?m sid h) = reg h3"
    unfolding ws_disconnect_def Let_def h1_def [symmetric] h2_def [symmetric] h3_def [symmetric] by simp
  have slice: "registered h3 mid = (if mid = ?m then removeAll sid (registered h ?m) else registered h mid)" for mid
    by (auto simp: h3_def h2_def h1_def registered_def gm_slice_def split: option.splits list.splits)
  have other: "sid \<notin> set (registered h mid)" if "mid \<noteq> ?m" for mid
    using that ok s unfolding reg_ok_def by (metis option.inject)
  have heap: "gm_get (sess_heap h3) k = (if k = sid then Some (s\<lparr>ds_closed := True\<rparr>) else gm_get (sess_heap h) k)" for k
    using s by (auto simp: h3_def h2_def h1_def split: option.splits list.splits)
  have byid: "sessionsByID h3 = removeAll sid (sessionsByID h)"
    by (auto simp: h3_def h2_def h1_def split: option.splits list.splits)
  have conns: "gm_get (daemonConns h3) mid = (if mid = ?m \<and> gm_get (memberSessions h) ?m \<noteq> None
      then (case removeAll sid (registered h ?m) of [] \<Rightarrow> None | r # _ \<Rightarrow> Some r) else gm_get (daemonConns h) mid)" for mid
    by (auto simp: h3_def h2_def h1_def registered_def gm_slice_def split: option.splits list.splits)
  have none: "registered h ?m = []" if "gm_get (memberSessions h) ?m = None"
    using that by (simp add: registered_def gm_slice_def)
  have "reg_ok h3"
  proof (rule reg_okI)
    fix mid sd
    show "distinct (registered h3 mid)" using reg_okD(1) [OF ok] by (simp add: slice distinct_removeAll)
    show "\<exists>s. gm_get (sess_heap h3) sd = Some s \<and> ds_memberID s = mid \<and> \<not> ds_closed s" if "sd \<in> set (registered h3 mid)"
      using that reg_okD(2) [OF ok, of sd mid] other [of mid] by (auto simp: slice heap split: if_splits)
    show "ds_sessionID s' = sd" if "gm_get (sess_heap h3) sd = Some s'" for s'
      using that reg_okD(3) [OF ok] s by (auto simp: heap split: if_splits)
    show "sd \<in> set (sessionsByID h3) \<longleftrightarrow> (\<exists>mid. sd \<in> set (registered h3 mid))"
      using reg_okD(4) [OF ok, of sd] other by (auto simp: byid slice split: if_splits) metis
    show "sd \<in> set (registered h3 mid)" if c: "gm_get (daemonConns h3) mid = Some sd"
    proof (cases "mid = ?m \<and> gm_get (memberSessions h) ?m \<noteq> None")
      case True
      then obtain xs where "removeAll sid (registered h ?m) = sd # xs"
        using c by (auto simp: conns split: list.splits)
      then have "sd \<in> set (removeAll sid (registered h ?m))" by simp
      with True show ?thesis by (simp add: slice)
    next
      case False
      then have "gm_get (daemonConns h) mid = Some sd" using c unfolding conns by (simp only: if_False)
      then have "sd \<in> set (registered h mid)" by (rule reg_okD(5) [OF ok])
      moreover have "mid \<noteq> ?m" using False none calculation by auto
      ultimately show ?thesis by (simp add: slice)
    qed
    show "gm_get (daemonConns h3) mid \<noteq> None" if "registered h3 mid \<noteq> []"
      using that reg_okD(6) [OF ok, of mid] none by (auto simp: conns slice split: if_splits list.splits)
  qed
  with r show ?thesis by (metis reg_ok_cong)
qed

lemma gm_get_map: "gm_get (map (\<lambda>(k, s). (k, f k s)) m) k = map_option (f k) (gm_get m k)"
  by (induction m) (auto simp: gm_get_def)

lemma reg_ok_stop: "reg_ok h \<Longrightarrow> reg_ok (StopHub h)"
proof -
  assume ok: "reg_ok h"
  have "ds_sessionID s = sid" if "gm_get (sess_heap (StopHub h)) sid = Some s" for sid s
    using that reg_okD(3) [OF ok] by (auto simp: StopHub_def gm_get_map split: if_splits)
  then show ?thesis by (auto simp: reg_ok_def registered_def) (simp_all add: StopHub_def)
qed

section \<open>Any interleaving of handlers\<close>

text \<open>A connection gets an identifier not used before (16 random bytes); it disconnects as the member it authenticated as.  All
  other handlers may run at any time, between any two frames.\<close>

inductive hub_step :: "crypto \<Rightarrow> HubServer \<Rightarrow> HubServer \<Rightarrow> bool" for cr where
  hs_connect: "ws_connect cr now rnd auth mach rej h = (Inr sid, h') \<Longrightarrow> gm_get (sess_heap h) sid = None \<Longrightarrow> hub_step cr h h'"
| hs_refused: "ws_connect cr now rnd auth mach rej h = (Inl resp, h') \<Longrightarrow> hub_step cr h h'"
| hs_frame: "ws_frame now sid env h = (goon, h') \<Longrightarrow> hub_step cr h h'"
| hs_disconnect: "gm_get (sess_heap h) sid = Some s \<Longrightarrow> hub_step cr h (ws_disconnect now (ds_memberID s) sid h)"
| hs_submit: "handleQuerySubmit cr now rnd ch w auth body h = (r, h') \<Longrightarrow> hub_step cr h h'"
| hs_submit_timeout: "hub_step cr h (snd (submit_timeout qid ch q h))"
| hs_submit_hangup: "hub_step cr h (submit_hangup now qid ch tgt ws h)"
| hs_detail: "handleQueryDetail cr now ch w auth path h = (r2, h') \<Longrightarrow> hub_step cr h h'"
| hs_detail_latest: "hub_step cr h (snd (detail_latest now qid ch q h))"
| hs_detail_hangup: "hub_step cr h (detail_hangup qid ch h)"
| hs_feishu: "dispatchFeishuQuery now rnd tgt asker txt fctx h = (r3, h') \<Longrightarrow> hub_step cr h h'"
| hs_tick: "hub_step cr h (sweep_tick now h)"
| hs_pair: "hub_step cr h (snd (handleAuthPair cr now now2 ri rt tls host pbody h))"
| hs_invite: "hub_step cr h (snd (handleAdminInvites cr now rnd auth ibody h))"
| hs_update: "hub_step cr h (snd (handleMemberMeUpdate cr now auth ubody h))"
| hs_bind: "hub_step cr h (snd (handleFeishuBindingSave cr now rnd parse live auth bbody h))"
| hs_unbind: "hub_step cr h (snd (handleFeishuBindingDelete cr now auth h))"
| hs_stop: "hub_step cr h (StopHub h)"

lemma reg_rest [simp]:
  "reg (snd (submit_timeout qid ch q h)) = reg h" "reg (submit_hangup now qid ch tgt ws h) = reg h"
  "reg (snd (detail_latest now qid ch q h)) = reg h" "reg (detail_hangup qid ch h) = reg h"
  "reg (snd (handleAuthPair cr now now2 ri rt tls host pbody h)) = reg h"
  "reg (snd (handleAdminInvites cr now rnd auth ibody h)) = reg h"
  "reg (snd (handleMemberMeUpdate cr now auth ubody h)) = reg h"
  "reg (snd (handleFeishuBindingSave cr now rnd2 parse live auth bbody h)) = reg h"
  "reg (snd (handleFeishuBindingDelete cr now auth h)) = reg h"
proof -
  have w: "reg (snd (removeWaiter qid ch h)) = reg h" by simp
  show "reg (snd (submit_timeout qid ch q h)) = reg h" "reg (detail_hangup qid ch h) = reg h"
    by (simp_all add: submit_timeout_def detail_hangup_def)
  show "reg (submit_hangup now qid ch tgt ws h) = reg h"
    using w by (simp add: submit_hangup_def split_beta Let_def)
  show "reg (snd (detail_latest now qid ch q h)) = reg h"
    using w by (auto simp: detail_latest_def split: prod.splits sum.splits dest!: reg_with_store)
qed (auto simp: handleAuthPair_def handleAdminInvites_def handleMemberMeUpdate_def handleFeishuBindingSave_def
      handleFeishuBindingDelete_def dest: reg_with_store split: option.split sum.splits prod.splits)

lemma hub_step_reg_ok: "hub_step cr h h' \<Longrightarrow> reg_ok h \<Longrightarrow> reg_ok h'"
proof (induction rule: hub_step.induct)
  case (hs_connect now rnd auth mach rej h sid h')
  then show ?case using reg_ok_connect by blast
next
  case (hs_refused now rnd auth mach rej h resp h')
  then have "h' = h" by (auto simp: ws_connect_def Let_def split: if_splits sum.splits option.splits)
  with hs_refused show ?case by simp
next
  case (hs_frame now sid env h goon h')
  then show ?case using reg_ok_frame by blast
next
  case (hs_disconnect h sid s now)
  then show ?case by (simp add: reg_ok_disconnect)
next
  case (hs_stop h)
  then show ?case by (rule reg_ok_stop)
qed (metis reg_ok_cong reg_rest reg_submit reg_detail reg_feishu reg_tick)+

interpretation hub_sys: inv_system "hub_step cr" reg_ok for cr
  by unfold_locales (blast intro: hub_step_reg_ok)

lemma NewServer_reg_ok: "NewServer c limits legacy tf rnd ok st = Some h \<Longrightarrow> reg_ok h"
  by (auto simp: NewServer_def Let_def reg_ok_def registered_def split: option.splits)

section \<open>Routing\<close>

lemma newest_in: "newest xs best = Some s \<Longrightarrow> s \<in> set xs \<or> best = Some s"
  by (induction xs best rule: newest.induct) (auto split: option.splits if_splits)

lemma newest_some: "xs \<noteq> [] \<or> best \<noteq> None \<Longrightarrow> \<exists>s. newest xs best = Some s"
  by (induction xs best rule: newest.induct) (auto split: option.splits)

lemma newest_max:
  "newest xs best = Some s \<Longrightarrow> (\<forall>x \<in> set xs. ds_lastSeen x \<le> ds_lastSeen s) \<and> (\<forall>b. best = Some b \<longrightarrow> ds_lastSeen b \<le> ds_lastSeen s)"
  by (induction xs best rule: newest.induct) (fastforce split: option.splits if_splits)+

lemma sessions_of_set:
  "s \<in> set (sessions_of mid h) \<longleftrightarrow> (\<exists>sid \<in> set (registered h mid). gm_get (sess_heap h) sid = Some s)"
  by (force simp: sessions_of_def registered_def List.map_filter_def)

lemma sessions_of_empty: "reg_ok h \<Longrightarrow> sessions_of mid h = [] \<longleftrightarrow> registered h mid = []"
  using reg_okD(2) [of h] sessions_of_set [of _ mid h]
  by (metis list.set_intros(1) list.set_cases empty_iff empty_set neq_Nil_conv)

lemma select_in: "selectSessionForQuery mid w h = Some s \<Longrightarrow> s \<in> set (sessions_of mid h)"
  by (auto simp: selectSessionForQuery_def Let_def find_Some_iff dest!: newest_in split: if_splits option.splits)

lemma session_facts:
  assumes "reg_ok h" and "s \<in> set (sessions_of mid h)"
  shows "ds_memberID s = mid" "\<not> ds_closed s" "ds_sessionID s \<in> set (registered h mid)"
    "gm_get (sess_heap h) (ds_sessionID s) = Some s"
  using assms(2) reg_okD(2,3) [OF assms(1)] by (fastforce simp: sessions_of_set)+

lemmas selected_facts = session_facts [OF _ select_in]

lemma select_reg: "reg h' = reg h \<Longrightarrow> selectSessionForQuery mid w h' = selectSessionForQuery mid w h"
  by (simp add: reg_def selectSessionForQuery_def sessions_of_def)

text \<open>C2. Routing is right in every reachable state of the hub, whatever connections, frames, requests and sweeps have been
  interleaved: a session is found exactly when the member has one registered; it is open, belongs to that member, serves the
  workspace asked for if any session of the member does, and is otherwise one seen last.\<close>

theorem routing_correct:
  assumes "NewServer c limits legacy tf rnd ok st = Some h0" and "(hub_step cr)\<^sup>*\<^sup>* h0 h"
  shows "(selectSessionForQuery mid w h = None \<longleftrightarrow> registered h mid = []) \<and>
    (\<forall>s. selectSessionForQuery mid w h = Some s \<longrightarrow>
       ds_memberID s = mid \<and> \<not> ds_closed s \<and> ds_sessionID s \<in> set (registered h mid)
       \<and> ds_sessionID s \<in> set (sessionsByID h)
       \<and> (w \<noteq> [] \<and> (\<exists>x \<in> set (sessions_of mid h). serves_workspace w x) \<longrightarrow> serves_workspace w s)
       \<and> (\<not> serves_workspace w s \<or> w = [] \<longrightarrow> (\<forall>x \<in> set (sessions_of mid h). ds_lastSeen x \<le> ds_lastSeen s)))"
proof -
  have ok: "reg_ok h" using hub_sys.reach_good [OF assms(2) NewServer_reg_ok [OF assms(1)]] .
  let ?ss = "sessions_of mid h"
  have none: "selectSessionForQuery mid w h = None \<longleftrightarrow> registered h mid = []"
    using sessions_of_empty [OF ok, of mid] newest_some [of ?ss None]
    by (auto simp: selectSessionForQuery_def Let_def split: option.splits)
  have ws: "serves_workspace w s" if "selectSessionForQuery mid w h = Some s" "w \<noteq> []" "x \<in> set ?ss" "serves_workspace w x" for s x
    using that by (auto simp: selectSessionForQuery_def Let_def find_Some_iff find_None_iff split: if_splits option.splits)
  have mx: "\<forall>x \<in> set ?ss. ds_lastSeen x \<le> ds_lastSeen s"
    if "selectSessionForQuery mid w h = Some s" "\<not> serves_workspace w s \<or> w = []" for s
    using that by (auto simp: selectSessionForQuery_def Let_def find_Some_iff dest!: newest_max split: if_splits option.splits)
  show ?thesis
  proof (intro conjI allI impI)
    fix s
    assume a: "selectSessionForQuery mid w h = Some s"
    note f = selected_facts [OF ok a]
    show "ds_memberID s = mid" "\<not> ds_closed s" "ds_sessionID s \<in> set (registered h mid)" using f by simp_all
    show "ds_sessionID s \<in> set (sessionsByID h)" using f reg_okD(4) [OF ok] by blast
    show "serves_workspace w s" if "w \<noteq> [] \<and> (\<exists>x \<in> set ?ss. serves_workspace w x)"
      using that ws [OF a] by blast
    show "\<forall>x \<in> set ?ss. ds_lastSeen x \<le> ds_lastSeen s" if "\<not> serves_workspace w s \<or> w = []"
      using that mx [OF a] by blast
  qed (rule none)
qed

section \<open>A hub with one daemon\<close>

definition demo_config :: hub_config where
  "demo_config = \<lparr>AdminToken = ''root'', HeartbeatIntervalSec = 0, DefaultQueryTTLSec = 0, MaxQueryTTLSec = 0,
     MaxProbeTimeoutSec = 30, PublicURL = []\<rparr>"

definition demo_hub :: HubServer where
  "demo_hub = (case NewServer demo_config (0, 0) (0, 0) None None True (snd demo_paired) of Some h \<Rightarrow> h)"

lemma demo_hub_new: "NewServer demo_config (0, 0) (0, 0) None None True (snd demo_paired) = Some demo_hub"
  by (simp add: demo_hub_def NewServer_def initAdminToken_def demo_config_def Let_def)

definition demo_connect :: "(http_response, string) result \<times> HubServer" where
  "demo_connect = ws_connect plain_crypto 7000000 (Some ''s'') ''Bearer ti_mem_62'' ''box'' None demo_hub"

definition demo_live :: HubServer where "demo_live = snd demo_connect"

lemma demo_connect_eval: "demo_connect = (Inr ''sess_73'', demo_live)"
proof -
  have "fst demo_connect = Inr ''sess_73''" by code_simp
  then show ?thesis by (metis demo_live_def prod.collapse)
qed

lemma demo_live_reach: "(hub_step plain_crypto)\<^sup>*\<^sup>* demo_hub demo_live"
proof -
  have "gm_get (sess_heap demo_hub) ''sess_73'' = None" by (simp add: demo_hub_def NewServer_def initAdminToken_def demo_config_def Let_def)
  with demo_connect_eval have "hub_step plain_crypto demo_hub demo_live"
    unfolding demo_connect_def by (rule hs_connect)
  then show ?thesis by blast
qed

theorem routing_correct_witness:
  "\<exists>s. selectSessionForQuery ''mem_61'' [] demo_live = Some s \<and> ds_memberID s = ''mem_61'' \<and> \<not> ds_closed s"
proof -
  have "registered demo_live ''mem_61'' = [''sess_73'']" by code_simp
  then have "registered demo_live ''mem_61'' \<noteq> []" by simp
  with routing_correct [OF demo_hub_new demo_live_reach, of "''mem_61''" "[]"] show ?thesis
    by (metis option.exhaust)
qed

end
