(* ===== verification/Hub_Properties.thy ===== *)
theory Hub_Properties
  imports Hub_Sessions Store_Lookup
begin

text \<open>
  What the hub's handlers guarantee to askers and daemons: authentication and privacy, dispatch,
  delivery of answers to waiting requests, draining of the offline queue, requeueing on
  disconnect; and where the order of two writes matters.
\<close>

section \<open>Lemmas on the store as the hub uses it\<close>

lemma with_store_simps [simp]:
  "fst (with_store f h) = fst (f (hstore h))" "hstore (snd (with_store f h)) = snd (f (hstore h))"
  "outbox (snd (with_store f h)) = outbox h" "chan_buf (snd (with_store f h)) = chan_buf h"
  "queryWaiters (snd (with_store f h)) = queryWaiters h" "sess_heap (snd (with_store f h)) = sess_heap h"
  "hcfg (snd (with_store f h)) = hcfg h" "memberSessions (snd (with_store f h)) = memberSessions h"
  by (simp_all add: with_store_def split_beta Let_def)

lemma with_store_eq: "with_store f h = (fst (f (hstore h)), h\<lparr>hstore := snd (f (hstore h))\<rparr>)"
  by (simp add: with_store_def split_beta Let_def)

lemma logged_writable:
  assumes "writable s"
  obtains fs where "logged now d k s = k (with_event s now d fs)" and "writable (with_event s now d fs)"
proof (cases "faults s")
  case Nil
  then have "s\<lparr>events_disk := evs\<rparr> = s\<lparr>events_disk := evs, faults := []\<rparr>" for evs by (cases s) simp
  with Nil assms that [of "[]"] show ?thesis by (simp add: writable_def logged_def appendEventLocked_def)
next
  case (Cons f fs)
  with assms that [of fs] show ?thesis by (auto simp: writable_def logged_def appendEventLocked_def)
qed

lemma UpdateQueryStatus_writable:
  assumes "writable s" and "gm_get (queriesByID s) qid = Some q"
  obtains s' where "UpdateQueryStatus now qid st ans tools dur tok err s = (Inr (), s')" and "writable s'"
    and "queriesByID s' = gm_mod qid (live_update \<lparr>u_id = qid, u_status = (if st = QueryStatusSuccess then QueryStatusCompleted else st),
       u_answer = ans, u_tools_used = tools, u_duration_ms = dur, u_token_usage = tok, u_completed_at = UnixMilli now,
       u_error_msg = err\<rparr>) (queriesByID s)"
    and "inboundAudit s' = inboundAudit s" "membersByID s' = membersByID s"
proof -
  let ?p = "\<lparr>u_id = qid, u_status = (if st = QueryStatusSuccess then QueryStatusCompleted else st),
       u_answer = ans, u_tools_used = tools, u_duration_ms = dur, u_token_usage = tok, u_completed_at = UnixMilli now,
       u_error_msg = err\<rparr>"
  let ?k = "\<lambda>s1. (Inr (), s1\<lparr>queriesByID := gm_mod qid (live_update ?p) (queriesByID s1)\<rparr>) :: (store_error, unit) result \<times> jsonlStore"
  obtain fs where l: "logged now (QueryUpdated ?p) ?k s = ?k (with_event s now (QueryUpdated ?p) fs)"
    and w: "writable (with_event s now (QueryUpdated ?p) fs)"
    by (rule logged_writable [OF assms(1), of now "QueryUpdated ?p" ?k])
  show ?thesis
    by (rule that [of "(with_event s now (QueryUpdated ?p) fs)\<lparr>queriesByID := gm_mod qid (live_update ?p) (queriesByID s)\<rparr>"])
       (use assms(2) l w in \<open>simp_all add: UpdateQueryStatus_def Let_def writable_def\<close>)
qed

lemma live_update_fields [simp]:
  "q_status (live_update p q) = u_status p" "q_answer (live_update p q) = (if u_answer p \<noteq> [] then u_answer p else q_answer q)"
  "q_target_member_id (live_update p q) = q_target_member_id q" "q_asker_id (live_update p q) = q_asker_id q"
  "q_ttl_expires_at (live_update p q) = q_ttl_expires_at q" "q_feishu_context (live_update p q) = q_feishu_context q"
  by (simp_all add: live_update_def Let_def)

lemma GetQuery_known:
  assumes "gm_get (queriesByID s) qid = Some q"
  obtains q' s' where "GetQuery now qid s = (Inr q', s')" "q_target_member_id q' = q_target_member_id q"
    "q_asker_id q' = q_asker_id q" "q_answer q' = q_answer q" "q_feishu_context q' = q_feishu_context q"
    "q_status q' = (if is_waiting (q_status q) \<and> ttl_passed (UnixMilli now) q then QueryStatusExpired else q_status q)"
    "gm_get (queriesByID s') qid = Some q'"
    "\<And>k. k \<noteq> qid \<Longrightarrow> gm_get (queriesByID s') k = gm_get (queriesByID s) k"
    "inboundAudit s' = inboundAudit s" "membersByID s' = membersByID s"
    "writable s \<Longrightarrow> writable s'"
proof -
  define s1 where "s1 = (if is_waiting (q_status q) \<and> ttl_passed (UnixMilli now) q then expire_in_place now qid q s else s)"
  define q1 where "q1 = (if is_waiting (q_status q) \<and> ttl_passed (UnixMilli now) q then mark_expired (UnixMilli now) q else q)"
  have g: "gm_get (queriesByID s1) qid = Some q1" using assms by (simp add: s1_def q1_def)
  have w: "writable s \<Longrightarrow> writable s1"
  proof -
    assume "writable s"
    then have "writable (s\<lparr>queriesByID := gm_mod qid (mark_expired (UnixMilli now)) (queriesByID s)\<rparr>)" by (simp add: writable_def)
    then have "writable (expire_in_place now qid q s)"
      unfolding expire_in_place_def by (rule log_ignore_writable)
    with \<open>writable s\<close> show "writable s1" by (simp add: s1_def)
  qed
  have frame: "inboundAudit s1 = inboundAudit s" "membersByID s1 = membersByID s"
    by (simp_all add: s1_def) (simp add: expire_in_place_def)
  show ?thesis
    by (rule that [of "q1\<lparr>q_queue_position := (if is_waiting (q_status q1)
            then calculateQueuePositionLocked now (q_query_id q1) (q_target_member_id q1) s1 else 0)\<rparr>"
          "s1\<lparr>queriesByID := gm_put qid (q1\<lparr>q_queue_position := (if is_waiting (q_status q1)
            then calculateQueuePositionLocked now (q_query_id q1) (q_target_member_id q1) s1 else 0)\<rparr>) (queriesByID s1)\<rparr>"])
       (use assms g w frame in \<open>simp_all add: GetQuery_def Let_def s1_def [symmetric], simp_all add: q1_def mark_expired_def s1_def writable_def\<close>)
qed

lemma GetQuery_members [simp]:
  "GetMember mid (snd (GetQuery now qid s)) = GetMember mid s" "membersByTokenHash (snd (GetQuery now qid s)) = membersByTokenHash s"
  by (simp_all add: GetQuery_def Let_def expire_in_place_def log_ignore_def appendEventLocked_def GetMember_def
      split: option.split list.split)

section \<open>A hub with two members\<close>

definition team_member :: "string \<Rightarrow> string \<Rightarrow> MemberInfo" where
  "team_member i n = \<lparr>m_id = i, m_name = n, m_aliases = [], m_online = True, m_last_seen_at = 0, m_machine_name = [],
     m_workspaces = None, m_has_feishu_bot = False\<rparr>"

definition team_session :: "string \<Rightarrow> string \<Rightarrow> daemonSession" where
  "team_session sid mid = \<lparr>ds_sessionID = sid, ds_memberID = mid, ds_machineName = ''box'', ds_workspaces = [],
     ds_maxConcurrency = 2, ds_closed = False, ds_lastSeen = 0\<rparr>"

definition team_store :: jsonlStore where
  "team_store = (emptyStore [] [])\<lparr>membersByID := [(''A'', team_member ''A'' ''Ann''), (''B'', team_member ''B'' ''Bob'')],
     membersByTokenHash := [(''ta'', ''A''), (''tb'', ''B'')]\<rparr>"

text \<open>Both members are connected.\<close>

definition team_live :: HubServer where
  "team_live = \<lparr>hcfg = demo_config, hstore = team_store, hlimiter = newRateLimiter 0 0, hstopped = False,
     sess_heap = [(''sa'', team_session ''sa'' ''A''), (''sb'', team_session ''sb'' ''B'')],
     daemonConns = [(''A'', ''sa''), (''B'', ''sb'')], memberSessions = [(''A'', [''sa'']), (''B'', [''sb''])],
     sessionsByID = [''sa'', ''sb''], queryWaiters = [], queryTimeouts = [], idempotencyCache = [], feishuClients = [],
     outbox = [], chan_buf = [], feishu_done = []\<rparr>"

text \<open>Ann has asked Bob and waits.\<close>

definition team_query :: QueryDetailResponse where
  "team_query = (demo_query ''q'' 0)\<lparr>q_status := QueryStatusQueued, q_asker_id := ''A'', q_target_member_id := ''B''\<rparr>"

definition team_asked :: HubServer where
  "team_asked = team_live\<lparr>queryWaiters := [(''q'', [0])],
     hstore := team_store\<lparr>queriesByID := [(''q'', team_query)], inboundAudit := [(''B'', [''q''])], outboundAudit := [(''A'', [''q''])]\<rparr>\<rparr>"

lemma team_asked_simps [simp]:
  "gm_get (queriesByID (hstore team_asked)) ''q'' = Some team_query" "gm_get (sess_heap team_asked) ''sa'' = Some (team_session ''sa'' ''A'')"
  "gm_get (sess_heap team_asked) ''sb'' = Some (team_session ''sb'' ''B'')" "chan_buf team_asked = []"
  "gm_slice (queryWaiters team_asked) ''q'' = [0]" "writable (hstore team_asked)" "outbox team_asked = []"
  by (simp_all add: team_asked_def team_live_def team_store_def gm_get_def gm_slice_def writable_def emptyStore_def)

lemma team_simps [simp]:
  "q_target_member_id team_query = ''B''" "q_asker_id team_query = ''A''" "q_status team_query = QueryStatusQueued"
  "q_answer team_query = []" "q_query_id team_query = ''q''"
  "ds_memberID (team_session sid mid) = mid" "ds_sessionID (team_session sid mid) = sid" "\<not> ds_closed (team_session sid mid)"
  by (simp_all add: team_query_def team_session_def demo_query_def)

section \<open>Answers come only from the target\<close>

text \<open>C4. A daemon cannot answer for somebody else: a \<^verbatim>\<open>query_response\<close> whose session belongs to another member than
  the query's target reaches no waiting request, no Feishu chat and no daemon, and leaves every stored query's answer
  alone; the only effect is the one every read has, an overdue query becomes expired.\<close>

theorem spoofed_response_ignored:
  assumes "gm_get (sess_heap h) sid = Some sess"
    and "gm_get (queriesByID (hstore h)) (rp_query_id resp) = Some q"
    and "q_target_member_id q \<noteq> ds_memberID sess"
  shows "handle_response now sid resp h = h\<lparr>hstore := snd (GetQuery now (rp_query_id resp) (hstore h))\<rparr>
    \<and> (\<forall>k q. gm_get (queriesByID (hstore h)) k = Some q \<longrightarrow>
         (\<exists>q'. gm_get (queriesByID (hstore (handle_response now sid resp h))) k = Some q' \<and> q_answer q' = q_answer q
            \<and> q_status q' = (if k = rp_query_id resp \<and> overdue (UnixMilli now) q then QueryStatusExpired else q_status q)))"
proof -
  obtain q1 s1 where g: "GetQuery now (rp_query_id resp) (hstore h) = (Inr q1, s1)"
    and q1: "q_target_member_id q1 = q_target_member_id q" "q_answer q1 = q_answer q"
      "q_status q1 = (if is_waiting (q_status q) \<and> ttl_passed (UnixMilli now) q then QueryStatusExpired else q_status q)"
    and s1: "gm_get (queriesByID s1) (rp_query_id resp) = Some q1"
      "\<And>k. k \<noteq> rp_query_id resp \<Longrightarrow> gm_get (queriesByID s1) k = gm_get (queriesByID (hstore h)) k"
    by (rule GetQuery_known [OF assms(2), of now]) blast
  have r: "handle_response now sid resp h = h\<lparr>hstore := s1\<rparr>"
    using assms(1,3) g q1(1) by (simp add: handle_response_def with_store_eq)
  show ?thesis
  proof (intro conjI allI impI)
    fix k q0
    assume k: "gm_get (queriesByID (hstore h)) k = Some q0"
    show "\<exists>q'. gm_get (queriesByID (hstore (handle_response now sid resp h))) k = Some q' \<and> q_answer q' = q_answer q0
        \<and> q_status q' = (if k = rp_query_id resp \<and> overdue (UnixMilli now) q0 then QueryStatusExpired else q_status q0)"
    proof (cases "k = rp_query_id resp")
      case True
      then have "q0 = q" using k assms(2) by simp
      with True s1(1) q1 show ?thesis by (auto simp: r overdue_def)
    next
      case False
      with k s1(2) [OF False] show ?thesis by (simp add: r)
    qed
  qed (simp add: r g)
qed

definition team_answer :: QueryResponsePayload where
  "team_answer = \<lparr>rp_query_id = ''q'', rp_status = ''success'', rp_answer = ''because'', rp_tools_used = None,
     rp_duration_ms = 5, rp_token_usage = zeroUsage, rp_error_message = []\<rparr>"

lemma team_answer_id [simp]: "rp_query_id team_answer = ''q''"
  by (simp add: team_answer_def)

theorem spoofed_response_ignored_witness:
  "chan_buf (handle_response 9000000 ''sa'' team_answer team_asked) = []"
  using spoofed_response_ignored [of team_asked "''sa''" "team_session ''sa'' ''A''" team_answer team_query 9000000] by simp

section \<open>Who may read a query\<close>

definition may_read :: "crypto \<Rightarrow> string \<Rightarrow> QueryDetailResponse \<Rightarrow> HubServer \<Rightarrow> bool" where
  "may_read cr auth q h \<longleftrightarrow> authenticateAdmin auth h \<or>
     (case authenticateMember cr auth h of Inl _ \<Rightarrow> False
      | Inr caller \<Rightarrow> m_id caller = q_asker_id q \<or> m_id caller = q_target_member_id q)"

fun released :: "outcome \<Rightarrow> QueryDetailResponse option" where
  "released (Answered (Response st (QueryBody q))) = Some q"
| "released (Parked qid ch q tgt ws) = Some q"
| "released r = None"

text \<open>C5. A query is shown to its asker, its target and the administrator, and to nobody else: for a stored query,
  \<^verbatim>\<open>GET /api/v1/queries/{id}\<close> answers with the query, or lets the caller wait for it, exactly when the caller is one of
  them; everybody else gets 401 or 403 without any part of the query and is not registered as a waiter.\<close>

theorem detail_privacy:
  assumes "qid = trim_space (trim_prefix path ''/api/v1/queries/'')" and "qid \<noteq> []"
    and "gm_get (queriesByID (hstore h)) qid = Some q"
    and "handleQueryDetail cr now ch wait auth path h = (r, h')"
  shows "if may_read cr auth q h
    then \<exists>q'. released r = Some q' \<and> q_answer q' = q_answer q \<and> q_asker_id q' = q_asker_id q
    else (r = Answered (jsonError 401 ErrCodeUnauthorized) \<or> r = Answered (jsonError 403 ErrCodeForbidden))
      \<and> queryWaiters h' = queryWaiters h"
proof -
  obtain q1 s1 where g: "GetQuery now qid (hstore h) = (Inr q1, s1)"
    and q1: "q_target_member_id q1 = q_target_member_id q" "q_answer q1 = q_answer q" "q_asker_id q1 = q_asker_id q"
    and s1: "membersByID s1 = membersByID (hstore h)" "s1 = snd (GetQuery now qid (hstore h))"
    by (rule GetQuery_known [OF assms(3), of now]) auto
  have auth: "authenticateMember cr auth (h\<lparr>hstore := s1\<rparr>) = authenticateMember cr auth h"
    "authenticateAdmin auth (h\<lparr>hstore := s1\<rparr>) = authenticateAdmin auth h"
    by (simp_all add: s1(2) authenticateMember_def authenticateAdmin_def GetMemberByToken_def split: option.split)
  show ?thesis
    using assms(1,2,4) [symmetric]
    by (auto simp: handleQueryDetail_def with_store_eq Let_def g detail_authorized_def auth may_read_def q1 addWaiter_def
        jsonError_def split: if_splits sum.splits)
qed

theorem detail_privacy_witness:
  "(\<exists>q'. released (fst (handleQueryDetail plain_crypto 9000000 1 False ''Bearer tb'' ''/api/v1/queries/q'' team_asked)) = Some q')
   \<and> (\<exists>st c. fst (handleQueryDetail plain_crypto 9000000 1 False ''Bearer tc'' ''/api/v1/queries/q'' team_asked) = Answered (jsonError st c))"
proof -
  have id: "''q'' = trim_space (trim_prefix ''/api/v1/queries/q'' ''/api/v1/queries/'')" by code_simp
  note w = detail_privacy [where cr = plain_crypto and now = 9000000 and ch = 1 and wait = False and qid = "''q''"
      and h = team_asked and q = team_query, OF id _ _ prod.collapse [symmetric]]
  have "may_read plain_crypto ''Bearer tb'' team_query team_asked" "\<not> may_read plain_crypto ''Bearer tc'' team_query team_asked"
    by code_simp+
  with w [of "''Bearer tb''"] w [of "''Bearer tc''"] show ?thesis by auto
qed

section \<open>Answers reach the requests that wait\<close>

lemma chan_fold_gets:
  assumes "ch \<in> set chs" and "ch \<notin> set (map fst (chan_buf h))"
  shows "map_of (chan_buf (foldl (\<lambda>st c. chan_send q c st) h chs)) ch = Some q"
proof -
  have kept: "map_of (chan_buf (foldl (\<lambda>st c. chan_send q c st) h chs)) ch = Some q"
    if "map_of (chan_buf h) ch = Some q" for h chs
    using that by (induction chs arbitrary: h) (auto simp: chan_send_def map_add_def)
  show ?thesis
    using assms
  proof (induction chs arbitrary: h)
    case (Cons c chs)
    show ?case
    proof (cases "c = ch")
      case True
      then have "map_of (chan_buf (chan_send q c h)) ch = Some q"
        using Cons.prems(2) by (simp add: chan_send_def map_add_Some_iff map_of_eq_None_iff)
      then show ?thesis using kept by simp
    next
      case False
      with Cons.prems have "ch \<in> set chs" "ch \<notin> set (map fst (chan_buf (chan_send q c h)))"
        by (auto simp: chan_send_def)
      then show ?thesis using Cons.IH by simp
    qed
  qed simp
qed

lemma chan_fold_frame [simp]:
  "queryWaiters (foldl (\<lambda>st c. chan_send q c st) h chs) = queryWaiters h"
  "hstore (foldl (\<lambda>st c. chan_send q c st) h chs) = hstore h" "outbox (foldl (\<lambda>st c. chan_send q c st) h chs) = outbox h"
  by (induction chs arbitrary: h) (simp_all add: chan_send_def)

text \<open>The status a response leaves behind.\<close>

definition final_status :: "QueryResponsePayload \<Rightarrow> string" where
  "final_status resp = (if rp_status resp = ''success'' \<or> rp_status resp = [] then QueryStatusCompleted else rp_status resp)"

lemma final_status_norm [simp]:
  "(if final_status resp = QueryStatusSuccess then QueryStatusCompleted else final_status resp) = final_status resp"
  by (simp add: final_status_def QueryStatusSuccess_def QueryStatusCompleted_def)

lemma notify_delivers:
  assumes "gm_get (queriesByID (hstore h)) qid = Some q" and "\<not> is_waiting (q_status q)"
  obtains h' q' where "notifyWaiters now qid h = h'" "gm_slice (queryWaiters h') qid = []"
    "gm_get (queriesByID (hstore h')) qid = Some q'" "q_status q' = q_status q" "q_answer q' = q_answer q"
    "q_target_member_id q' = q_target_member_id q"
    "writable (hstore h) \<Longrightarrow> writable (hstore h')"
    "\<And>ch. ch \<in> set (gm_slice (queryWaiters h) qid) \<Longrightarrow> ch \<notin> set (map fst (chan_buf h)) \<Longrightarrow>
       map_of (chan_buf h') ch = Some q'"
proof (cases "gm_slice (queryWaiters h) qid = []")
  case True
  then show ?thesis
    by (intro that [of "notifyWaiters now qid h" q]) (use assms in \<open>simp_all add: notifyWaiters_def Let_def\<close>)
next
  case False
  let ?h1 = "h\<lparr>queryWaiters := gm_del qid (queryWaiters h), queryTimeouts := gm_del qid (queryTimeouts h)\<rparr>"
  obtain q' s' where g: "GetQuery now qid (hstore h) = (Inr q', s')"
    and q': "q_status q' = q_status q" "q_answer q' = q_answer q" "q_target_member_id q' = q_target_member_id q"
    and s': "gm_get (queriesByID s') qid = Some q'" "writable (hstore h) \<Longrightarrow> writable s'"
    using GetQuery_known [OF assms(1), of now] assms(2) by (metis (no_types, lifting))
  have n: "notifyWaiters now qid h = foldl (\<lambda>st c. chan_send q' c st) (?h1\<lparr>hstore := s'\<rparr>) (gm_slice (queryWaiters h) qid)"
    using False g by (simp add: notifyWaiters_def Let_def with_store_eq)
  show ?thesis
    by (rule that [of "notifyWaiters now qid h" q']) (use q' s' in \<open>simp_all add: n chan_fold_gets\<close>)
qed

lemma response_effect:
  assumes "gm_get (sess_heap h) sid = Some sess" and "gm_get (queriesByID (hstore h)) (rp_query_id resp) = Some q"
    and "q_target_member_id q = ds_memberID sess" and "writable (hstore h)" and "\<not> is_waiting (final_status resp)"
  obtains h' q' where "handle_response now sid resp h = h'" "gm_slice (queryWaiters h') (rp_query_id resp) = []"
    "gm_get (queriesByID (hstore h')) (rp_query_id resp) = Some q'" "q_status q' = final_status resp"
    "q_answer q' = (if rp_answer resp \<noteq> [] then rp_answer resp else q_answer q)" "writable (hstore h')"
    "\<And>ch. ch \<in> set (gm_slice (queryWaiters h) (rp_query_id resp)) \<Longrightarrow> ch \<notin> set (map fst (chan_buf h)) \<Longrightarrow>
       \<exists>qc. map_of (chan_buf h') ch = Some qc \<and> q_status qc = final_status resp \<and> q_answer qc = q_answer q'"
proof -
  let ?id = "rp_query_id resp"
  obtain q1 s1 where g: "GetQuery now ?id (hstore h) = (Inr q1, s1)" "q_target_member_id q1 = q_target_member_id q"
      "q_answer q1 = q_answer q" "gm_get (queriesByID s1) ?id = Some q1" "writable s1"
    using GetQuery_known [OF assms(2), of now] assms(4) by metis
  obtain s2 where u: "UpdateQueryStatus now ?id (final_status resp) (rp_answer resp) (rp_tools_used resp) (rp_duration_ms resp)
       (rp_token_usage resp) (rp_error_message resp) s1 = (Inr (), s2)" "writable s2"
    and s2: "queriesByID s2 = gm_mod ?id (live_update \<lparr>u_id = ?id, u_status = final_status resp, u_answer = rp_answer resp,
       u_tools_used = rp_tools_used resp, u_duration_ms = rp_duration_ms resp, u_token_usage = rp_token_usage resp,
       u_completed_at = UnixMilli now, u_error_msg = rp_error_message resp\<rparr>) (queriesByID s1)"
    by (rule UpdateQueryStatus_writable [OF g(5,4), of now "final_status resp" "rp_answer resp" "rp_tools_used resp"
          "rp_duration_ms resp" "rp_token_usage resp" "rp_error_message resp"]) simp
  define h2 where "h2 = h\<lparr>hstore := s2\<rparr>"
  obtain q2 where q2: "gm_get (queriesByID (hstore h2)) ?id = Some q2" "q_status q2 = final_status resp"
      "q_answer q2 = (if rp_answer resp \<noteq> [] then rp_answer resp else q_answer q)"
    using g(3,4) s2 by (simp add: h2_def)
  obtain h3 q3 where n: "notifyWaiters now ?id h2 = h3" "gm_slice (queryWaiters h3) ?id = []"
      "gm_get (queriesByID (hstore h3)) ?id = Some q3" "q_status q3 = q_status q2" "q_answer q3 = q_answer q2"
      "writable (hstore h2) \<Longrightarrow> writable (hstore h3)"
      "\<And>ch. ch \<in> set (gm_slice (queryWaiters h2) ?id) \<Longrightarrow> ch \<notin> set (map fst (chan_buf h2)) \<Longrightarrow>
         map_of (chan_buf h3) ch = Some q3"
    by (rule notify_delivers [OF q2(1), of now]) (use assms(5) q2(2) in simp_all)
  have r: "handle_response now sid resp h = (if from_feishu q1
      then (case with_store (GetQuery now ?id) h3 of (Inl _, h4) \<Rightarrow> h4
            | (Inr updatedQ, h4) \<Rightarrow> h4\<lparr>feishu_done := feishu_done h4 @ [updatedQ]\<rparr>) else h3)"
    using assms(1,3) g(1,2) u(1) n(1) by (simp add: handle_response_def with_store_eq Let_def final_status_def h2_def)
  obtain q4 s4 where g4: "GetQuery now ?id (hstore h3) = (Inr q4, s4)" "q_answer q4 = q_answer q3" "q_status q4 = q_status q3"
      "gm_get (queriesByID s4) ?id = Some q4" "writable (hstore h3) \<Longrightarrow> writable s4"
    using GetQuery_known [OF n(3), of now] assms(5) n(4) q2(2) by (metis (no_types, lifting))
  show ?thesis
  proof (cases "from_feishu q1")
    case True
    show ?thesis
      by (rule that [of "handle_response now sid resp h" q4])
         (use True r n g4 q2 u(2) in \<open>auto simp: with_store_eq h2_def\<close>)
  next
    case False
    show ?thesis
      by (rule that [of "handle_response now sid resp h" q3])
         (use False r n q2 u(2) in \<open>auto simp: h2_def\<close>)
  qed
qed

text \<open>C3. The target's answer is recorded and reaches everybody who waits: when a daemon of the target member responds with
  a final status, the stored query has that status (\<^verbatim>\<open>success\<close> becomes \<^verbatim>\<open>completed\<close>) and the answer, each request parked on
  the query finds its result in its channel and is answered 200 with it, and no waiter is left behind.\<close>

theorem response_reaches_waiters:
  assumes "gm_get (sess_heap h) sid = Some sess" and "gm_get (queriesByID (hstore h)) (rp_query_id resp) = Some q"
    and "q_target_member_id q = ds_memberID sess" and "writable (hstore h)" and "\<not> is_waiting (final_status resp)"
    and "ch \<in> set (gm_slice (queryWaiters h) (rp_query_id resp))" and "ch \<notin> set (map fst (chan_buf h))"
    and "rp_answer resp \<noteq> []"
  shows "(\<exists>q'. gm_get (queriesByID (hstore (handle_response now sid resp h))) (rp_query_id resp) = Some q'
       \<and> q_status q' = final_status resp \<and> q_answer q' = rp_answer resp)
    \<and> (\<exists>q'. submit_finished ch (handle_response now sid resp h) = Some (Response 200 (QueryBody q'))
         \<and> q_status q' = final_status resp \<and> q_answer q' = rp_answer resp)
    \<and> gm_slice (queryWaiters (handle_response now sid resp h)) (rp_query_id resp) = []"
proof -
  obtain h' q' where e: "handle_response now sid resp h = h'" "gm_slice (queryWaiters h') (rp_query_id resp) = []"
    "gm_get (queriesByID (hstore h')) (rp_query_id resp) = Some q'" "q_status q' = final_status resp"
    "q_answer q' = (if rp_answer resp \<noteq> [] then rp_answer resp else q_answer q)" "writable (hstore h')"
    "\<And>ch. ch \<in> set (gm_slice (queryWaiters h) (rp_query_id resp)) \<Longrightarrow> ch \<notin> set (map fst (chan_buf h)) \<Longrightarrow>
       \<exists>qc. map_of (chan_buf h') ch = Some qc \<and> q_status qc = final_status resp \<and> q_answer qc = q_answer q'"
    by (rule response_effect [OF assms(1-5), of now]) blast
  obtain qc where "map_of (chan_buf h') ch = Some qc" "q_status qc = final_status resp" "q_answer qc = q_answer q'"
    using e(7) [OF assms(6,7)] by blast
  with e assms(8) show ?thesis by (simp add: submit_finished_def)
qed

lemma team_answer_simps [simp]:
  "final_status team_answer = QueryStatusCompleted" "rp_answer team_answer = ''because''"
  by (simp_all add: team_answer_def final_status_def)

theorem response_reaches_waiters_witness:
  "\<exists>q'. submit_finished 0 (handle_response 9000000 ''sb'' team_answer team_asked) = Some (Response 200 (QueryBody q'))
     \<and> q_answer q' = ''because''"
  using response_reaches_waiters [of team_asked "''sb''" "team_session ''sb'' ''B''" team_answer team_query 0 9000000] by auto

section \<open>An order the handlers do not enforce\<close>

text \<open>The submitting handler writes the frame first and records \<^verbatim>\<open>dispatched\<close> afterwards, and no status change looks at the
  status it replaces.  When the daemon's answer is handled between the two, the answered query goes back from its final
  status to \<^verbatim>\<open>dispatched\<close>, where it counts as in flight: it is back in the target's line and, if the daemon
  disconnects, is queued again.\<close>

theorem late_mark_reopens_query:
  assumes "gm_get (sess_heap h) sid = Some sess" and "gm_get (queriesByID (hstore h)) (rp_query_id resp) = Some q"
    and "q_target_member_id q = ds_memberID sess" and "writable (hstore h)" and "\<not> is_waiting (final_status resp)"
    and "h1 = submit_send s q tsec h" and "h2 = handle_response now sid resp h1"
    and "h3 = mark_dispatched now (rp_query_id resp) h2"
  shows "map_option q_status (gm_get (queriesByID (hstore h2)) (rp_query_id resp)) = Some (final_status resp)
    \<and> map_option q_status (gm_get (queriesByID (hstore h3)) (rp_query_id resp)) = Some QueryStatusDispatched"
proof -
  have h1: "gm_get (sess_heap h1) sid = Some sess" "hstore h1 = hstore h"
    using assms(1,6) by (simp_all add: submit_send_def sendEnvelope_def split: option.split)
  obtain h' q' where e: "handle_response now sid resp h1 = h'" "gm_get (queriesByID (hstore h')) (rp_query_id resp) = Some q'"
    "q_status q' = final_status resp" "writable (hstore h')"
    by (rule response_effect [OF h1(1), of resp q now]) (use assms(2-5) h1(2) in simp_all)
  obtain s3 where u: "UpdateQueryStatus now (rp_query_id resp) QueryStatusDispatched [] None 0 zeroUsage [] (hstore h') = (Inr (), s3)"
    "gm_get (queriesByID s3) (rp_query_id resp) = map_option (live_update \<lparr>u_id = rp_query_id resp, u_status = QueryStatusDispatched,
       u_answer = [], u_tools_used = None, u_duration_ms = 0, u_token_usage = zeroUsage, u_completed_at = UnixMilli now,
       u_error_msg = []\<rparr>) (Some q')"
    by (rule UpdateQueryStatus_writable [OF e(4,2), of now QueryStatusDispatched "[]" None 0 zeroUsage "[]"]) (use e(2) in simp)
  show ?thesis using e u assms(7,8) by (simp add: mark_dispatched_def with_store_eq)
qed

theorem late_mark_reopens_query_witness:
  "map_option q_status (gm_get (queriesByID (hstore (mark_dispatched 9000000 ''q'' (handle_response 9000000 ''sb'' team_answer
     (submit_send (team_session ''sb'' ''B'') team_query 30 team_asked))))) ''q'') = Some QueryStatusDispatched"
  using late_mark_reopens_query [of team_asked "''sb''" "team_session ''sb'' ''B''" team_answer team_query, OF _ _ _ _ _ refl refl refl]
  by simp

end
