(* ===== verification/Hub_Dispatch.thy ===== *)
theory Hub_Dispatch
  imports Hub_Properties
begin

text \<open>
  The way of a query through the hub: submission and dispatch, retries under an idempotency key,
  the drain of the offline queue when a daemon says hello, and requeueing when the last daemon of a
  member goes away.
\<close>

section \<open>Writing operations of the store, as the handlers see them\<close>

lemma CreateQuery_writable:
  assumes "writable s"
  obtains s' where "CreateQuery now q s = (Inr (complete_new_query now q s), s')" "writable s'"
    "queriesByID s' = gm_put (q_query_id q) (complete_new_query now q s) (queriesByID s)"
    "membersByID s' = membersByID s" "membersByTokenHash s' = membersByTokenHash s" "idempotencyKeys s' = idempotencyKeys s"
proof -
  let ?q = "complete_new_query now q s"
  let ?k = "\<lambda>s1. (Inr ?q, index_query ?q (s1\<lparr>queriesByID := gm_put (q_query_id ?q) ?q (queriesByID s1)\<rparr>))
     :: (store_error, QueryDetailResponse) result \<times> jsonlStore"
  obtain fs where l: "logged now (QueryCreated (json_query ?q)) ?k s = ?k (with_event s now (QueryCreated (json_query ?q)) fs)"
    and w: "writable (with_event s now (QueryCreated (json_query ?q)) fs)"
    by (rule logged_writable [OF assms, of now "QueryCreated (json_query ?q)" ?k])
  show ?thesis
    by (rule that [of "snd (?k (with_event s now (QueryCreated (json_query ?q)) fs))"])
       (use l w in \<open>simp_all add: CreateQuery_def Let_def index_query_def writable_def\<close>)
qed

lemma SaveIdempotencyKey_writable:
  assumes "writable s"
  obtains s' where "SaveIdempotencyKey now key qid ex s = (Inr (), s')" "writable s'" "queriesByID s' = queriesByID s"
    "membersByID s' = membersByID s" "membersByTokenHash s' = membersByTokenHash s"
proof -
  let ?e = "if ex \<le> 0 then UnixMilli (now + hourNs) else ex"
  let ?k = "\<lambda>s1. (Inr (), s1\<lparr>idempotencyKeys := gm_put key \<lparr>idem_query_id = qid, idem_expires_at = ?e\<rparr> (idempotencyKeys s1)\<rparr>)
     :: (store_error, unit) result \<times> jsonlStore"
  obtain fs where l: "logged now (IdempotencyIndexed key qid ?e) ?k s = ?k (with_event s now (IdempotencyIndexed key qid ?e) fs)"
    and w: "writable (with_event s now (IdempotencyIndexed key qid ?e) fs)"
    by (rule logged_writable [OF assms, of now "IdempotencyIndexed key qid ?e" ?k])
  show ?thesis
    by (rule that [of "snd (?k (with_event s now (IdempotencyIndexed key qid ?e) fs))"])
       (use l w in \<open>simp_all add: SaveIdempotencyKey_def Let_def writable_def\<close>)
qed

lemma mark_dispatched_effect:
  assumes "writable (hstore h)" and "gm_get (queriesByID (hstore h)) qid = Some q"
  obtains h' where "mark_dispatched now qid h = h'" "writable (hstore h')"
    "\<And>k. gm_get (queriesByID (hstore h')) k = (if k = qid then Some (live_update \<lparr>u_id = qid, u_status = QueryStatusDispatched,
       u_answer = [], u_tools_used = None, u_duration_ms = 0, u_token_usage = zeroUsage, u_completed_at = UnixMilli now,
       u_error_msg = []\<rparr> q) else gm_get (queriesByID (hstore h)) k)"
    "outbox h' = outbox h" "queryWaiters h' = queryWaiters h" "inboundAudit (hstore h') = inboundAudit (hstore h)"
    "sess_heap h' = sess_heap h" "hcfg h' = hcfg h" "idempotencyCache h' = idempotencyCache h"
proof -
  obtain s' where u: "UpdateQueryStatus now qid QueryStatusDispatched [] None 0 zeroUsage [] (hstore h) = (Inr (), s')" "writable s'"
    and s': "queriesByID s' = gm_mod qid (live_update \<lparr>u_id = qid, u_status = QueryStatusDispatched,
       u_answer = [], u_tools_used = None, u_duration_ms = 0, u_token_usage = zeroUsage, u_completed_at = UnixMilli now,
       u_error_msg = []\<rparr>) (queriesByID (hstore h))" "inboundAudit s' = inboundAudit (hstore h)"
    by (rule UpdateQueryStatus_writable [OF assms, of now QueryStatusDispatched "[]" None 0 zeroUsage "[]"]) simp
  show ?thesis
    by (rule that [of "mark_dispatched now qid h"])
       (use u s' assms(2) in \<open>simp_all add: mark_dispatched_def with_store_eq\<close>)
qed

lemma live_update_more [simp]:
  "q_query (live_update p q) = q_query q" "q_query_id (live_update p q) = q_query_id q"
  by (simp_all add: live_update_def Let_def)

lemma send_to_open:
  "gm_get (sess_heap h) sid = Some s \<Longrightarrow> \<not> ds_closed s \<Longrightarrow> sendEnvelope sid fr h = h\<lparr>outbox := outbox h @ [(sid, fr)]\<rparr>"
  by (simp add: sendEnvelope_def)

section \<open>Submission\<close>

lemma complete_new_query_kept [simp]:
  "q_status q = QueryStatusQueued \<Longrightarrow> q_status (complete_new_query now q s) = QueryStatusQueued"
  "q_query (complete_new_query now q s) = q_query q" "q_asker_id (complete_new_query now q s) = q_asker_id q"
  "q_target_member_id (complete_new_query now q s) = q_target_member_id q"
  by (simp_all add: complete_new_query_def Let_def)

lemma remember_key_effect:
  assumes "writable (hstore h)"
  obtains h' where "remember_key now key qid ex h = h'" "writable (hstore h')" "queriesByID (hstore h') = queriesByID (hstore h)"
    "outbox h' = outbox h" "queryWaiters h' = queryWaiters h" "reg h' = reg h" "hcfg h' = hcfg h" "hlimiter h' = hlimiter h"
    "membersByID (hstore h') = membersByID (hstore h)" "membersByTokenHash (hstore h') = membersByTokenHash (hstore h)"
    "idempotencyCache h' = (if key = [] then idempotencyCache h
       else gm_put key \<lparr>hi_queryID = qid, hi_expiresAt = now + hourNs\<rparr> (idempotencyCache h))"
proof (cases "key = []")
  case True
  then show ?thesis by (intro that [of h]) (use assms in \<open>simp_all add: remember_key_def\<close>)
next
  case False
  obtain s' where s: "SaveIdempotencyKey now key qid ex (hstore h) = (Inr (), s')" "writable s'"
      "queriesByID s' = queriesByID (hstore h)" "membersByID s' = membersByID (hstore h)"
      "membersByTokenHash s' = membersByTokenHash (hstore h)"
    using SaveIdempotencyKey_writable [OF assms] by metis
  show ?thesis
    by (rule that [of "remember_key now key qid ex h"]) (use False s in \<open>simp_all add: remember_key_def with_store_eq\<close>)
qed

text \<open>What the second half of a submission leaves behind for the session it has selected.\<close>

definition routed ::
  "QueryDetailResponse \<Rightarrow> int \<Rightarrow> daemonSession option \<Rightarrow> (string \<times> out_frame) list \<Rightarrow> (string \<times> out_frame) list \<Rightarrow> string \<Rightarrow> bool" where
  "routed q tsec sess ob ob' st \<longleftrightarrow> (case sess of
     None \<Rightarrow> ob' = ob \<and> st = QueryStatusQueued
   | Some s \<Rightarrow> ob' = ob @ [(ds_sessionID s, QueryRequest (submit_request q tsec))] \<and> st = QueryStatusDispatched)"

lemma submit_created_effect:
  assumes "writable (hstore h)" and "gm_get (queriesByID (hstore h)) (q_query_id q) = Some q"
    and "q_status q = QueryStatusQueued" and "reg_ok h"
  obtains r h' q' qr where "submit_created now ch w tgt req q h = (r, h')"
    "gm_get (queriesByID (hstore h')) (q_query_id q) = Some q'" "q_asker_id q' = q_asker_id q"
    "q_target_member_id q' = q_target_member_id q" "q_query q' = q_query q"
    "routed q (clampTimeout (hcfg h) (qs_timeout_seconds req))
       (selectSessionForQuery (m_id tgt) (qs_target_workspace req) h) (outbox h) (outbox h') (q_status q')"
    "if qs_wait req \<or> w
     then r = Parked (q_query_id q) ch qr (m_id tgt) (qs_target_workspace req) \<and> ch \<in> set (gm_slice (queryWaiters h') (q_query_id q))
     else r = Answered (Response 202 (QueryBody qr))" "q_status qr = q_status q'" "q_query_id qr = q_query_id q"
    "idempotencyCache h' = (if qs_idempotency_key req = [] then idempotencyCache h
       else gm_put (qs_idempotency_key req) \<lparr>hi_queryID = q_query_id q, hi_expiresAt = now + hourNs\<rparr> (idempotencyCache h))"
proof -
  let ?id = "q_query_id q" and ?t = "clampTimeout (hcfg h) (qs_timeout_seconds req)"
  let ?sess = "selectSessionForQuery (m_id tgt) (qs_target_workspace req) h"
  define h1 where "h1 = setQueryTimeout ?id ?t h"
  have h1: "writable (hstore h1)" "hstore h1 = hstore h" "outbox h1 = outbox h" "reg h1 = reg h" "idempotencyCache h1 = idempotencyCache h"
    using assms(1) by (simp_all add: h1_def setQueryTimeout_def)
  obtain h2 where k: "remember_key now (qs_idempotency_key req) ?id (q_ttl_expires_at q) h1 = h2"
    and h2: "writable (hstore h2)" "queriesByID (hstore h2) = queriesByID (hstore h)" "outbox h2 = outbox h" "reg h2 = reg h"
      "idempotencyCache h2 = (if qs_idempotency_key req = [] then idempotencyCache h
         else gm_put (qs_idempotency_key req) \<lparr>hi_queryID = q_query_id q, hi_expiresAt = now + hourNs\<rparr> (idempotencyCache h))"
    using remember_key_effect [OF h1(1), of now "qs_idempotency_key req" ?id "q_ttl_expires_at q"] h1
    by (metis (no_types, lifting))
  define h3 where "h3 = (if qs_wait req \<or> w then addWaiter ?id ch h2 else h2)"
  have h3: "writable (hstore h3)" "gm_get (queriesByID (hstore h3)) ?id = Some q" "outbox h3 = outbox h" "reg h3 = reg h"
      "qs_wait req \<or> w \<Longrightarrow> ch \<in> set (gm_slice (queryWaiters h3) ?id)" "idempotencyCache h3 = idempotencyCache h2"
    using h2 assms(2) by (simp_all add: h3_def addWaiter_def gm_append_def)
  have sel: "selectSessionForQuery (m_id tgt) (qs_target_workspace req) h2 = ?sess" by (rule select_reg [OF h2(4)])
  show ?thesis
  proof (cases ?sess)
    case None
    define qr where "qr = q\<lparr>q_queue_position := (case GetQueuePosition now ?id (hstore h3) of Inl _ \<Rightarrow> 0 | Inr p \<Rightarrow> p)\<rparr>"
    have "submit_created now ch w tgt req q h
        = (if qs_wait req \<or> w then Parked ?id ch qr (m_id tgt) (qs_target_workspace req) else Answered (Response 202 (QueryBody qr)), h3)"
      by (simp add: submit_created_def Let_def k [unfolded h1_def] sel None qr_def h3_def)
    then show ?thesis
      by (rule that [of _ h3 q qr]) (use None h3 h2 assms(3) in \<open>simp_all add: routed_def qr_def\<close>)
  next
    case (Some s)
    have s: "gm_get (sess_heap h3) (ds_sessionID s) = Some s" "\<not> ds_closed s"
      using selected_facts [OF assms(4) Some] h3(4) by (simp_all add: reg_def)
    have sent: "submit_send s q ?t h3 = h3\<lparr>outbox := outbox h @ [(ds_sessionID s, QueryRequest (submit_request q ?t))]\<rparr>"
      using send_to_open [OF s] h3(3) by (simp add: submit_send_def)
    obtain h4 where m: "mark_dispatched now ?id (submit_send s q ?t h3) = h4"
      and h4: "gm_get (queriesByID (hstore h4)) ?id = Some (live_update \<lparr>u_id = ?id, u_status = QueryStatusDispatched,
       u_answer = [], u_tools_used = None, u_duration_ms = 0, u_token_usage = zeroUsage, u_completed_at = UnixMilli now,
       u_error_msg = []\<rparr> q)" "outbox h4 = outbox (submit_send s q ?t h3)" "queryWaiters h4 = queryWaiters h3" "idempotencyCache h4 = idempotencyCache h3"
      by (rule mark_dispatched_effect [of "submit_send s q ?t h3" ?id q now]) (use h3 sent in simp_all)
    let ?qr = "q\<lparr>q_status := QueryStatusDispatched\<rparr>"
    have "submit_created now ch w tgt req q h
        = (if qs_wait req \<or> w then Parked ?id ch ?qr (m_id tgt) (qs_target_workspace req) else Answered (Response 202 (QueryBody ?qr)), h4)"
      using m by (auto simp: submit_created_def Let_def k [unfolded h1_def] sel Some h3_def)
    then show ?thesis
      by (rule that [OF _ h4(1), of _ ?qr]) (use Some h3 h4 h2 sent in \<open>simp_all add: routed_def\<close>)
  qed
qed

lemma idempotent_miss:
  assumes "gm_get (idempotencyCache h) key = None" and "gm_get (idempotencyKeys (hstore h)) key = None"
  shows "idempotent_hit now key h = (None, h)"
  using assms by (simp add: idempotent_hit_def GetQueryByIdempotencyKey_def)

lemma submit_effect:
  assumes "authenticateMember cr auth h = Inr asker" and "Allow now (m_id asker) (hlimiter h) = (True, rl)"
    and "ResolveTargetMember (qs_target req) (hstore h) = Inr target"
    and "gm_get (idempotencyCache h) (qs_idempotency_key req) = None"
    and "gm_get (idempotencyKeys (hstore h)) (qs_idempotency_key req) = None"
    and "writable (hstore h)" and "reg_ok h"
  obtains r h' q q' qr where "handleQuerySubmit cr now rnd ch w auth (Some req) h = (r, h')"
    "q_query_id q = query_id_of rnd" "q_asker_id q = m_id asker" "q_query q = qs_query req"
    "gm_get (queriesByID (hstore h')) (query_id_of rnd) = Some q'" "q_asker_id q' = m_id asker"
    "q_target_member_id q' = m_id target" "q_query q' = qs_query req"
    "routed q (clampTimeout (hcfg h) (qs_timeout_seconds req))
       (selectSessionForQuery (m_id target) (qs_target_workspace req) h) (outbox h) (outbox h') (q_status q')"
    "if qs_wait req \<or> w
     then r = Parked (query_id_of rnd) ch qr (m_id target) (qs_target_workspace req) \<and> ch \<in> set (gm_slice (queryWaiters h') (query_id_of rnd))
     else r = Answered (Response 202 (QueryBody qr))" "q_status qr = q_status q'" "q_query_id qr = query_id_of rnd"
    "idempotencyCache h' = (if qs_idempotency_key req = [] then idempotencyCache h
       else gm_put (qs_idempotency_key req) \<lparr>hi_queryID = query_id_of rnd, hi_expiresAt = now + hourNs\<rparr> (idempotencyCache h))"
proof -
  define h1 where "h1 = h\<lparr>hlimiter := rl\<rparr>"
  define q0 where "q0 = new_query now (query_id_of rnd) asker target req (ttl_deadline now (queryTTL (hcfg h) (qs_ttl_seconds req)))"
  define q where "q = complete_new_query now q0 (hstore h)"
  obtain s2 where c: "CreateQuery now q0 (hstore h) = (Inr q, s2)" "writable s2" "queriesByID s2 = gm_put (q_query_id q0) q (queriesByID (hstore h))"
    unfolding q_def by (rule CreateQuery_writable [OF assms(6), of now q0])
  have q0: "q_query_id q0 = query_id_of rnd" "q_status q0 = QueryStatusQueued" "q_asker_id q0 = m_id asker"
      "q_target_member_id q0 = m_id target" "q_query q0 = qs_query req"
    by (simp_all add: q0_def new_query_def)
  then have q: "q_query_id q = query_id_of rnd" "q_status q = QueryStatusQueued" "q_asker_id q = m_id asker"
      "q_target_member_id q = m_id target" "q_query q = qs_query req"
    by (simp_all add: q_def)
  define h2 where "h2 = h1\<lparr>hstore := s2\<rparr>"
  have h2: "writable (hstore h2)" "gm_get (queriesByID (hstore h2)) (q_query_id q) = Some q" "reg h2 = reg h" "outbox h2 = outbox h"
      "hcfg h2 = hcfg h" "idempotencyCache h2 = idempotencyCache h"
    using c q q0 by (simp_all add: h2_def h1_def)
  have miss: "idempotent_hit now (qs_idempotency_key req) (h\<lparr>hlimiter := rl\<rparr>) = (None, h\<lparr>hlimiter := rl\<rparr>)"
    using assms(4,5) by (intro idempotent_miss) simp_all
  have sub: "handleQuerySubmit cr now rnd ch w auth (Some req) h = submit_created now ch w target req q h2"
    using assms(1,2,3) miss c(1)
    by (simp add: handleQuerySubmit_def submit_resolved_def Let_def h1_def h2_def with_store_eq q0_def)
  have "reg_ok h2" using assms(7) reg_ok_cong [OF h2(3)] by blast
  then show ?thesis
  proof (rule submit_created_effect [OF h2(1,2) q(2), of now ch w target req, unfolded q h2(4-6) select_reg [OF h2(3)]], goal_cases)
    case (1 r h' q' qr)
    show ?case by (rule that [OF _ q(1,3,5) 1(2-10)]) (simp add: sub 1(1))
  qed
qed

text \<open>C6. Submission and dispatch.  A member's request that is within the rate limit, resolves to a target and carries no
  known idempotency key is stored under the fresh identifier with the asker, the target and the text.  If the target has a
  session, exactly one frame is written, to the session selected for the workspace, with the query and the clamped
  timeout, and the stored query is dispatched; otherwise no frame is written and it is queued.  A caller who waits is
  registered as a waiter; any other is answered 202 with the status that is stored.\<close>

theorem submit_dispatches:
  assumes "authenticateMember cr auth h = Inr asker" and "Allow now (m_id asker) (hlimiter h) = (True, rl)"
    and "ResolveTargetMember (qs_target req) (hstore h) = Inr target"
    and "gm_get (idempotencyCache h) (qs_idempotency_key req) = None"
    and "gm_get (idempotencyKeys (hstore h)) (qs_idempotency_key req) = None"
    and "writable (hstore h)" and "reg_ok h"
    and "handleQuerySubmit cr now rnd ch w auth (Some req) h = (r, h')"
  shows "\<exists>q qr. gm_get (queriesByID (hstore h')) (query_id_of rnd) = Some q \<and> q_asker_id q = m_id asker
     \<and> q_target_member_id q = m_id target \<and> q_query q = qs_query req
     \<and> (case selectSessionForQuery (m_id target) (qs_target_workspace req) h of
          None \<Rightarrow> outbox h' = outbox h \<and> q_status q = QueryStatusQueued
        | Some s \<Rightarrow> q_status q = QueryStatusDispatched \<and> (\<exists>fr. outbox h' = outbox h @ [(ds_sessionID s, QueryRequest fr)]
            \<and> qr_query_id fr = query_id_of rnd \<and> qr_query fr = qs_query req \<and> qr_asker_id fr = m_id asker
            \<and> qr_timeout_seconds fr = clampTimeout (hcfg h) (qs_timeout_seconds req)))
     \<and> (if qs_wait req \<or> w
        then r = Parked (query_id_of rnd) ch qr (m_id target) (qs_target_workspace req)
          \<and> ch \<in> set (gm_slice (queryWaiters h') (query_id_of rnd))
        else r = Answered (Response 202 (QueryBody qr)) \<and> q_query_id qr = query_id_of rnd \<and> q_status qr = q_status q)"
proof -
  show ?thesis
    by (rule submit_effect [OF assms(1-7), of rnd ch w])
       (use assms(8) in \<open>auto simp: routed_def submit_request_def split: option.splits\<close>)
qed

lemma team_reg_ok: "reg_ok team_live"
proof -
  have mem: "registered team_live mid = (if mid = ''A'' then [''sa''] else if mid = ''B'' then [''sb''] else [])" for mid
    by (simp add: registered_def team_live_def gm_slice_def gm_get_def)
  have heap: "gm_get (sess_heap team_live) sid = (if sid = ''sa'' then Some (team_session ''sa'' ''A'')
      else if sid = ''sb'' then Some (team_session ''sb'' ''B'') else None)" for sid
    by (simp add: team_live_def gm_get_def)
  have byid: "sessionsByID team_live = [''sa'', ''sb'']"
    by (simp add: team_live_def)
  have conns: "gm_get (daemonConns team_live) mid = (if mid = ''A'' then Some ''sa'' else if mid = ''B'' then Some ''sb'' else None)" for mid
    by (simp add: team_live_def gm_get_def)
  show ?thesis
  proof (rule reg_okI)
    show "distinct (registered team_live mid)" "registered team_live mid \<noteq> [] \<Longrightarrow> gm_get (daemonConns team_live) mid \<noteq> None"
      "gm_get (daemonConns team_live) mid = Some sid \<Longrightarrow> sid \<in> set (registered team_live mid)" for mid sid
      by (simp_all add: mem conns split: if_splits)
    show "\<exists>s. gm_get (sess_heap team_live) sid = Some s \<and> ds_memberID s = mid \<and> \<not> ds_closed s"
      if "sid \<in> set (registered team_live mid)" for mid sid
      using that by (simp add: mem heap split: if_splits)
    show "ds_sessionID s = sid" if "gm_get (sess_heap team_live) sid = Some s" for sid s
      using that by (simp add: heap split: if_splits) (metis team_simps(7))+
    show "sid \<in> set (sessionsByID team_live) \<longleftrightarrow> (\<exists>mid. sid \<in> set (registered team_live mid))" for sid
    proof
      show "sid \<in> set (sessionsByID team_live) \<Longrightarrow> \<exists>mid. sid \<in> set (registered team_live mid)"
        by (auto simp: byid mem intro: exI [of _ "''A''"] exI [of _ "''B''"])
      show "\<exists>mid. sid \<in> set (registered team_live mid) \<Longrightarrow> sid \<in> set (sessionsByID team_live)"
        by (auto simp: byid mem split: if_splits)
    qed
  qed
qed

definition team_ask :: "bool \<Rightarrow> QuerySubmitRequest" where
  "team_ask w = \<lparr>qs_target = ''Bob'', qs_query = ''why?'', qs_target_workspace = [], qs_timeout_seconds = 0,
     qs_ttl_seconds = 0, qs_idempotency_key = ''k1'', qs_wait = w\<rparr>"

lemma team_ask_simps [simp]:
  "qs_target (team_ask w) = ''Bob''" "qs_idempotency_key (team_ask w) = ''k1''" "qs_target_workspace (team_ask w) = []"
  "qs_query (team_ask w) = ''why?''"
  by (simp_all add: team_ask_def)

lemma team_auth:
  "authenticateMember plain_crypto ''Bearer ta'' team_live = Inr (team_member ''A'' ''Ann'')"
  "authenticateMember plain_crypto ''Bearer tb'' team_live = Inr (team_member ''B'' ''Bob'')"
  by code_simp+

lemma team_resolve: "ResolveTargetMember ''Bob'' (hstore team_live) = Inr (team_member ''B'' ''Bob'')"
  by code_simp

lemma team_allowed: "Allow 8000000 ''A'' (hlimiter team_live) = (True, snd (Allow 8000000 ''A'' (hlimiter team_live)))"
  by (simp add: team_live_def Allow_def newRateLimiter_def gm_get_def Let_def)

lemma team_select: "selectSessionForQuery ''B'' [] team_live = Some (team_session ''sb'' ''B'')"
  by code_simp

lemma team_query_id: "query_id_of (Some ''q'') = ''q_71''"
  by code_simp

lemma team_live_simps:
  "gm_get (idempotencyCache team_live) k = None" "gm_get (idempotencyKeys (hstore team_live)) k = None" "writable (hstore team_live)"
  by (simp_all add: team_live_def team_store_def emptyStore_def writable_def gm_get_def)

lemma team_member_id [simp]: "m_id (team_member i n) = i"
  by (simp add: team_member_def)

theorem submit_dispatches_witness:
  "\<exists>q. gm_get (queriesByID (hstore (snd (handleQuerySubmit plain_crypto 8000000 (Some ''q'') 0 False ''Bearer ta''
       (Some (team_ask True)) team_live)))) ''q_71'' = Some q \<and> q_status q = QueryStatusDispatched"
  using submit_dispatches [where req = "team_ask True" and rnd = "Some ''q''", OF team_auth(1) _ _ team_live_simps team_reg_ok
      prod.collapse [symmetric], of 8000000 "snd (Allow 8000000 ''A'' (hlimiter team_live))" "team_member ''B'' ''Bob''" 0 False]
    team_allowed team_resolve team_select team_query_id by auto

section \<open>Retries\<close>

lemma GetQuery_same:
  assumes "gm_get (queriesByID s) qid = Some q"
  obtains q' s' where "GetQuery now qid s = (Inr q', s')" "q_query q' = q_query q" "q_asker_id q' = q_asker_id q"
    "q_query_id q' = q_query_id q" "\<And>k. gm_get (queriesByID s') k = None \<longleftrightarrow> gm_get (queriesByID s) k = None"
  by (rule that [of "projr (fst (GetQuery now qid s))" "snd (GetQuery now qid s)"])
     (use assms in \<open>auto simp: GetQuery_def Let_def mark_expired_def\<close>)


definition team_first :: "outcome \<times> HubServer" where
  "team_first = handleQuerySubmit plain_crypto 8000000 (Some ''q'') 0 False ''Bearer ta'' (Some (team_ask True)) team_live"

lemma team_first_facts:
  "authenticateMember plain_crypto ''Bearer tb'' (snd team_first) = Inr (team_member ''B'' ''Bob'')"
  "fst (Allow 9000000 ''B'' (hlimiter (snd team_first)))"
  by code_simp+


section \<open>The offline queue\<close>

fun frame_query :: "out_frame \<Rightarrow> string option" where
  "frame_query (QueryRequest r) = Some (qr_query_id r)"
| "frame_query _ = None"

lemma drain_loop_effect:
  assumes "\<forall>q \<in> set qs. \<not> ttl_passed (UnixMilli now) q \<and> gm_get (queriesByID (hstore h)) (q_query_id q) \<noteq> None"
    and "writable (hstore h)" and "gm_get (sess_heap h) sid = Some s" and "\<not> ds_closed s"
  shows "\<exists>frs. outbox (drain_loop now sid limit cnt qs h) = outbox h @ frs
      \<and> map (\<lambda>(t, f). (t, frame_query f)) frs = map (\<lambda>q. (sid, Some (q_query_id q))) (take (nat (limit - cnt)) qs)
      \<and> (\<forall>k. map_option q_status (gm_get (queriesByID (hstore (drain_loop now sid limit cnt qs h))) k)
           = (if k \<in> q_query_id ` set (take (nat (limit - cnt)) qs) then Some QueryStatusDispatched
              else map_option q_status (gm_get (queriesByID (hstore h)) k)))"
  using assms
proof (induction qs arbitrary: cnt h)
  case (Cons q qs)
  show ?case
  proof (cases "cnt \<ge> limit")
    case False
    define fr where "fr = QueryRequest (drain_request q h)"
    define h1 where "h1 = sendEnvelope sid fr h"
    have h1: "h1 = h\<lparr>outbox := outbox h @ [(sid, fr)]\<rparr>"
      unfolding h1_def by (rule send_to_open [OF Cons.prems(3,4)])
    obtain q0 where q0: "gm_get (queriesByID (hstore h1)) (q_query_id q) = Some q0"
      using Cons.prems(1) by (auto simp: h1)
    have w1: "writable (hstore h1)" using Cons.prems(2) by (simp add: h1)
    obtain h2 where m: "mark_dispatched now (q_query_id q) h1 = h2" and h2: "writable (hstore h2)" "outbox h2 = outbox h1" "sess_heap h2 = sess_heap h1"
      "\<And>k. gm_get (queriesByID (hstore h2)) k = (if k = q_query_id q then Some (live_update \<lparr>u_id = q_query_id q, u_status = QueryStatusDispatched,
       u_answer = [], u_tools_used = None, u_duration_ms = 0, u_token_usage = zeroUsage, u_completed_at = UnixMilli now,
       u_error_msg = []\<rparr> q0) else gm_get (queriesByID (hstore h1)) k)"
      using mark_dispatched_effect [OF w1 q0, of now] by metis
    have ih: "\<exists>frs. outbox (drain_loop now sid limit (cnt + 1) qs h2) = outbox h2 @ frs
      \<and> map (\<lambda>(t, f). (t, frame_query f)) frs = map (\<lambda>q. (sid, Some (q_query_id q))) (take (nat (limit - (cnt + 1))) qs)
      \<and> (\<forall>k. map_option q_status (gm_get (queriesByID (hstore (drain_loop now sid limit (cnt + 1) qs h2))) k)
           = (if k \<in> q_query_id ` set (take (nat (limit - (cnt + 1))) qs) then Some QueryStatusDispatched
              else map_option q_status (gm_get (queriesByID (hstore h2)) k)))"
      by (rule Cons.IH) (use Cons.prems h2 h1 in auto)
    have n: "nat (limit - cnt) = Suc (nat (limit - (cnt + 1)))" using False by simp
    have d: "drain_loop now sid limit cnt (q # qs) h = drain_loop now sid limit (cnt + 1) qs h2"
      using False Cons.prems(1) m by (simp add: h1_def fr_def)
    obtain frs where f: "outbox (drain_loop now sid limit (cnt + 1) qs h2) = outbox h2 @ frs"
        "map (\<lambda>(t, f). (t, frame_query f)) frs = map (\<lambda>q. (sid, Some (q_query_id q))) (take (nat (limit - (cnt + 1))) qs)"
        "\<And>k. map_option q_status (gm_get (queriesByID (hstore (drain_loop now sid limit (cnt + 1) qs h2))) k)
           = (if k \<in> q_query_id ` set (take (nat (limit - (cnt + 1))) qs) then Some QueryStatusDispatched
              else map_option q_status (gm_get (queriesByID (hstore h2)) k))"
      using ih by blast
    show ?thesis
      unfolding d n
      by (rule exI [of _ "(sid, fr) # frs"])
         (use f h2 in \<open>auto simp: h1 fr_def drain_request_def\<close>)
  qed simp
qed simp

lemma expire_keys_writable:
  assumes "gm_get (queriesByID s) k = Some q"
  shows "keys_ok s \<Longrightarrow> keys_ok (expire_in_place now k q s)" and "writable s \<Longrightarrow> writable (expire_in_place now k q s)"
proof -
  show "keys_ok (expire_in_place now k q s)" if "keys_ok s"
    using that assms by (auto simp: keys_ok_def expire_in_place_def log_ignore_def appendEventLocked_def mark_expired_def split: list.splits)
  show "writable (expire_in_place now k q s)" if "writable s"
  proof -
    have "writable (s\<lparr>queriesByID := gm_mod k (mark_expired (UnixMilli now)) (queriesByID s)\<rparr>)"
      using that by (simp add: writable_def)
    then show ?thesis unfolding expire_in_place_def by (rule log_ignore_writable)
  qed
qed

lemma sweep_frame:
  assumes "sweep_loop now ks n s = (c, s')"
  shows "inboundAudit s' = inboundAudit s" "keys_ok s \<Longrightarrow> keys_ok s'" "writable s \<Longrightarrow> writable s'"
  using assms
  by (induction now ks n s rule: sweep_loop.induct) (auto simp: expire_keys_writable split: option.splits if_splits)

lemma queued_loop_nothing_overdue:
  assumes "\<forall>k q. gm_get (queriesByID s) k = Some q \<longrightarrow> \<not> overdue (UnixMilli now) q"
  shows "snd (queued_loop now ks acc s) = s"
  using assms
  by (induction now ks acc s rule: queued_loop.induct) (auto simp: overdue_def split: option.splits)

lemma sweep_state:
  assumes "SweepExpiredQueries now s = (c, s')"
  shows "live_query s' (UnixMilli now) = live_query s (UnixMilli now)"
    and "\<forall>k q. gm_get (queriesByID s') k = Some q \<longrightarrow> \<not> overdue (UnixMilli now) q"
    and "map_option q_query_id (gm_get (queriesByID s') k) = map_option q_query_id (gm_get (queriesByID s) k)"
proof -
  have l: "sweep_loop now (gm_keys (queriesByID s)) 0 s = (c, s')"
    using assms by (simp add: SweepExpiredQueries_def)
  have e: "gm_get (queriesByID s') k = map_option (\<lambda>q. if overdue (UnixMilli now) q then mark_expired (UnixMilli now) q else q)
      (gm_get (queriesByID s) k)" for k
    using sweep_loop_effect [OF l, of k] by (cases "gm_get (queriesByID s) k") (auto dest: gm_get_Some_key)
  show "live_query s' (UnixMilli now) = live_query s (UnixMilli now)"
    by (rule ext) (auto simp: live_query_def e overdue_def mark_expired_def split: option.split)
  show "\<forall>k q. gm_get (queriesByID s') k = Some q \<longrightarrow> \<not> overdue (UnixMilli now) q"
  proof (intro allI impI)
    fix k q
    assume "gm_get (queriesByID s') k = Some q"
    then show "\<not> overdue (UnixMilli now) q"
      unfolding e by (cases "gm_get (queriesByID s) k") (use mark_expired_not_overdue in \<open>auto split: if_splits\<close>)
  qed
  show "map_option q_query_id (gm_get (queriesByID s') k) = map_option q_query_id (gm_get (queriesByID s) k)"
    unfolding e by (cases "gm_get (queriesByID s) k") (auto simp: mark_expired_def)
qed

lemma queued_members:
  assumes "keys_ok s" and "q \<in> set (fst (GetQueuedQueriesForMember now mid s))"
  shows "\<not> ttl_passed (UnixMilli now) q" and "gm_get (queriesByID s) (q_query_id q) \<noteq> None"
proof -
  obtain i q0 where q: "q = q0\<lparr>q_queue_position := i\<rparr>"
    and q0: "q0 \<in> set (List.map_filter (live_query s (UnixMilli now)) (gm_slice (inboundAudit s) mid))"
    using assms(2) queued_loop_fst [of now "gm_slice (inboundAudit s) mid" "[]" s]
    by (auto simp: GetQueuedQueriesForMember_def number_queue_def split_beta dest: set_zip_rightD)
  then obtain k where k: "live_query s (UnixMilli now) k = Some q0" by (auto simp: List.map_filter_def)
  then have "q_query_id q0 = k" by (rule live_query_id [OF assms(1)])
  with k q show "\<not> ttl_passed (UnixMilli now) q" "gm_get (queriesByID s) (q_query_id q) \<noteq> None"
    by (auto simp: live_query_def ttl_passed_def split: option.splits if_splits)
qed



section \<open>Disconnection\<close>

definition requeued :: "int \<Rightarrow> QueryDetailResponse \<Rightarrow> QueryDetailResponse" where
  "requeued nowMs q = (if q_status q \<noteq> QueryStatusDispatched then q
     else if ttl_passed nowMs q then mark_expired nowMs q else q\<lparr>q_status := QueryStatusQueued\<rparr>)"

lemma requeued_simps:
  "q_status q \<noteq> QueryStatusDispatched \<Longrightarrow> requeued n q = q"
  "q_status q = QueryStatusDispatched \<Longrightarrow> ttl_passed n q \<Longrightarrow> requeued n q = mark_expired n q"
  "q_status q = QueryStatusDispatched \<Longrightarrow> \<not> ttl_passed n q \<Longrightarrow> requeued n q = q\<lparr>q_status := QueryStatusQueued\<rparr>"
  "requeued n (mark_expired m q) = mark_expired m q" "requeued n (q\<lparr>q_status := QueryStatusQueued\<rparr>) = q\<lparr>q_status := QueryStatusQueued\<rparr>"
  by (simp_all add: requeued_def mark_expired_def)

lemma requeue_loop_effect:
  assumes "requeue_loop now ks acc s = (r, s')"
  shows "gm_get (queriesByID s') k = map_option (\<lambda>q. if k \<in> set ks then requeued (UnixMilli now) q else q) (gm_get (queriesByID s) k)"
    and "membersByID s' = membersByID s" and "writable s \<Longrightarrow> writable s'"
proof -
  have rq: "writable s \<Longrightarrow> writable (log_ignore n d (s\<lparr>queriesByID := m\<rparr>))" for n s d m
  proof -
    assume "writable s"
    then have "writable (s\<lparr>queriesByID := m\<rparr>)" by (simp add: writable_def)
    then show ?thesis by (rule log_ignore_writable)
  qed
  have ex: "membersByID (expire_in_place n k q s) = membersByID s" for n k q s by (simp add: expire_in_place_def)
  show "membersByID s' = membersByID s" "writable s \<Longrightarrow> writable s'"
    using assms by (induction now ks acc s rule: requeue_loop.induct)
      (auto simp: expire_keys_writable rq ex split: option.splits if_splits)
  show "gm_get (queriesByID s') k = map_option (\<lambda>q. if k \<in> set ks then requeued (UnixMilli now) q else q) (gm_get (queriesByID s) k)"
    using assms
  proof (induction now ks acc s rule: requeue_loop.induct)
    case (2 now x ks acc s)
    show ?case
    proof (cases "gm_get (queriesByID s) x")
      case None
      with 2 show ?thesis by (cases "gm_get (queriesByID s) k") auto
    next
      case (Some q)
      consider "q_status q \<noteq> QueryStatusDispatched" | "q_status q = QueryStatusDispatched" "ttl_passed (UnixMilli now) q"
        | "q_status q = QueryStatusDispatched" "\<not> ttl_passed (UnixMilli now) q" by blast
      then show ?thesis
      proof cases
        case 1
        with Some 2 show ?thesis by (cases "k = x") (simp_all add: requeued_simps)
      next
        case _: 2
        with Some 2 show ?thesis by (cases "k = x") (simp_all add: requeued_simps)
      next
        case 3
        with Some 2 show ?thesis by (cases "k = x") (simp_all add: requeued_simps)
      qed
    qed
  qed (simp add: option.map_ident)
qed

text \<open>C9. No question is lost with its daemon.  When a connection of a member ends and it was the last, every query dispatched to
  the member is back in the queue (expired if its time is over), all other queries are as before, and the member has
  no session and is shown offline.  As long as another connection of the member is open, no query changes.\<close>

theorem disconnect_requeues:
  assumes "ws_disconnect now mid sid h = h'"
  shows "if set (registered h mid) \<subseteq> {sid}
    then registered h' mid = [] \<and>
      (\<forall>k. gm_get (queriesByID (hstore h')) k = map_option (\<lambda>q. if k \<in> set (gm_slice (inboundAudit (hstore h)) mid)
         then requeued (UnixMilli now) q else q) (gm_get (queriesByID (hstore h)) k)) \<and>
      (writable (hstore h) \<longrightarrow> map_option m_online (gm_get (membersByID (hstore h')) mid)
         = map_option (\<lambda>_. False) (gm_get (membersByID (hstore h)) mid))
    else hstore h' = hstore h \<and> set (registered h' mid) = set (registered h mid) - {sid}"
proof -
  define h3 where "h3 = (let h1 = h\<lparr>sess_heap := gm_mod sid (\<lambda>s. s\<lparr>ds_closed := True\<rparr>) (sess_heap h)\<rparr>;
      h2 = (case gm_get (memberSessions h1) mid of None \<Rightarrow> h1
        | Some sids \<Rightarrow> (case removeAll sid sids of
             [] \<Rightarrow> h1\<lparr>memberSessions := gm_del mid (memberSessions h1), daemonConns := gm_del mid (daemonConns h1)\<rparr>
           | rem # rest \<Rightarrow> h1\<lparr>memberSessions := gm_put mid (rem # rest) (memberSessions h1),
                daemonConns := gm_put mid rem (daemonConns h1)\<rparr>))
      in h2\<lparr>sessionsByID := removeAll sid (sessionsByID h2)\<rparr>)"
  have h3: "hstore h3 = hstore h" "gm_slice (memberSessions h3) mid = removeAll sid (registered h mid)"
    by (auto simp: h3_def Let_def registered_def gm_slice_def split: option.split list.split)
  have h': "h' = (if gm_slice (memberSessions h3) mid = []
      then online_update now mid False [] None (reconcileInFlightQueries now mid h3) else h3)"
    unfolding assms [symmetric] ws_disconnect_def h3_def Let_def by (rule refl)
  have last: "removeAll sid (registered h mid) = [] \<longleftrightarrow> set (registered h mid) \<subseteq> {sid}"
    by (auto simp: removeAll_filter_not_eq filter_empty_conv)
  obtain r s1 where r: "RequeueInFlightQueries now mid (hstore h) = (r, s1)" by fastforce
  note e = requeue_loop_effect [OF r [unfolded RequeueInFlightQueries_def]]
  define s2 where "s2 = snd (SetMemberOnline now mid False [] None s1)"
  have q2: "queriesByID s2 = queriesByID s1"
    by (auto simp: s2_def SetMemberOnline_def logged_def appendEventLocked_def Let_def split: option.splits list.splits)
  have m2: "map_option m_online (gm_get (membersByID s2) mid) = map_option (\<lambda>_. False) (gm_get (membersByID s1) mid)" if "writable s1"
    using that by (auto simp: s2_def SetMemberOnline_def logged_def appendEventLocked_def Let_def writable_def
        apply_presence_def split: option.splits list.splits)
  show ?thesis
  proof (cases "set (registered h mid) \<subseteq> {sid}")
    case True
    then have "h' = h3\<lparr>hstore := s2\<rparr>"
      using h' h3 last r by (simp add: online_update_def reconcileInFlightQueries_def with_store_eq s2_def)
    with True h3 last e q2 m2 show ?thesis by (simp add: registered_def)
  next
    case False
    with h' h3 last show ?thesis by (auto simp: registered_def)
  qed
qed

theorem disconnect_requeues_witness:
  "map_option q_status (gm_get (queriesByID (hstore (ws_disconnect 9000000 ''B'' ''sb'' (drainOfflineQueue 9000000 ''sb'' team_asked)))) ''q'')
     = Some QueryStatusQueued"
proof -
  let ?h = "drainOfflineQueue 9000000 ''sb'' team_asked"
  have "registered ?h ''B'' = [''sb'']" "gm_slice (inboundAudit (hstore ?h)) ''B'' = [''q'']"
    "map_option (\<lambda>q. (q_status q, ttl_passed (UnixMilli 9000000) q)) (gm_get (queriesByID (hstore ?h)) ''q'') = Some (QueryStatusDispatched, False)"
    by code_simp+
  then show ?thesis using disconnect_requeues [of 9000000 "''B''" "''sb''" ?h, OF refl] by (auto simp: requeued_def)
qed

end
