(* ===== verification/Paths.thy ===== *)
theory Paths
  imports Prelude
begin

text \<open>
  What the program uses of Go's \<^verbatim>\<open>path/filepath\<close> on a Unix system: \<^verbatim>\<open>Clean\<close>, \<^verbatim>\<open>Join\<close>, \<^verbatim>\<open>Dir\<close>, \<^verbatim>\<open>Base\<close>, \<^verbatim>\<open>IsAbs\<close>,
  \<^verbatim>\<open>Rel\<close>, and \<^verbatim>\<open>Match\<close> for patterns made of literals and \<^verbatim>\<open>*\<close>.  A clean path is determined by whether it is rooted and by its
  list of components; the lemmas move between the two views.
\<close>

section \<open>Definitions\<close>

abbreviation slash :: char where "slash \<equiv> CHR ''/''"

definition IsAbs :: "string \<Rightarrow> bool" where
  "IsAbs p \<longleftrightarrow> p \<noteq> [] \<and> hd p = slash"

text \<open>The components that remain, read from left to right; the accumulator is the result so far, reversed.\<close>

fun clean_comps :: "bool \<Rightarrow> string list \<Rightarrow> string list \<Rightarrow> string list" where
  "clean_comps rt acc [] = rev acc"
| "clean_comps rt acc (c # cs) =
     (if c = [] \<or> c = ''.'' then clean_comps rt acc cs
      else if c = ''..'' then
        (case acc of
           [] \<Rightarrow> clean_comps rt (if rt then [] else [''..'']) cs
         | a # as \<Rightarrow> if a = ''..'' then clean_comps rt (''..'' # acc) cs else clean_comps rt as cs)
      else clean_comps rt (c # acc) cs)"

definition path_comps :: "string \<Rightarrow> string list" where
  "path_comps p = clean_comps (IsAbs p) [] (split_char slash p)"

definition mk_path :: "bool \<Rightarrow> string list \<Rightarrow> string" where
  "mk_path rt cs = (if rt then slash # join_with [slash] cs else if cs = [] then ''.'' else join_with [slash] cs)"

definition Clean :: "string \<Rightarrow> string" where
  "Clean p = mk_path (IsAbs p) (path_comps p)"

definition Join2 :: "string \<Rightarrow> string \<Rightarrow> string" where
  "Join2 a b = (if a \<noteq> [] then Clean (a @ [slash] @ b) else if b \<noteq> [] then Clean b else [])"

text \<open>Everything up to and including the last slash.\<close>

definition dir_part :: "string \<Rightarrow> string" where
  "dir_part p = rev (dropWhile (\<lambda>c. c \<noteq> slash) (rev p))"

definition Dir :: "string \<Rightarrow> string" where
  "Dir p = Clean (dir_part p)"

definition Base :: "string \<Rightarrow> string" where
  "Base p =
     (if p = [] then ''.''
      else let q = trim_right_by (\<lambda>c. c = slash) p
           in if q = [] then [slash] else rev (takeWhile (\<lambda>c. c \<noteq> slash) (rev q)))"

fun strip_common :: "string list \<Rightarrow> string list \<Rightarrow> string list \<times> string list" where
  "strip_common (b # bs) (t # ts) = (if b = t then strip_common bs ts else (b # bs, t # ts))"
| "strip_common bs ts = (bs, ts)"

text \<open>\<open>None\<close> is the error of \<^verbatim>\<open>Rel\<close>.\<close>

definition Rel :: "string \<Rightarrow> string \<Rightarrow> string option" where
  "Rel base targ =
     (let b = Clean base; t = Clean targ in
      if t = b then Some ''.''
      else if IsAbs b \<noteq> IsAbs t then None
      else let (bs, ts) = strip_common (path_comps b) (if t = ''.'' then [''.''] else path_comps t) in
           if bs \<noteq> [] \<and> hd bs = ''..'' then None
           else Some (join_with [slash] (replicate (length bs) ''..'' @ ts)))"

fun Match :: "string \<Rightarrow> string \<Rightarrow> bool" where
  "Match [] s = (s = [])"
| "Match (p # ps) [] = (p = CHR ''*'' \<and> Match ps [])"
| "Match (p # ps) (c # cs) =
     (if p = CHR ''*'' then Match ps (c # cs) \<or> (c \<noteq> slash \<and> Match (p # ps) cs)
      else c = p \<and> Match ps cs)"

section \<open>Splitting and joining\<close>

lemma split_char_ne [simp]: "split_char d s \<noteq> []"
  by (induction s) (auto split: list.splits)

lemma split_char_free: "w \<in> set (split_char d s) \<Longrightarrow> d \<notin> set w"
proof (induction s arbitrary: w)
  case (Cons c s)
  then show ?case by (cases "split_char d s") (auto split: if_splits)
qed simp

lemma split_char_append: "split_char d (xs @ d # ys) = split_char d xs @ split_char d ys"
proof (induction xs)
  case (Cons c xs)
  then show ?case by (cases "split_char d xs") auto
qed simp

lemma split_char_single: "d \<notin> set w \<Longrightarrow> split_char d w = [w]"
  by (induction w) auto

lemma split_join:
  "cs \<noteq> [] \<Longrightarrow> \<forall>c \<in> set cs. d \<notin> set c \<Longrightarrow> split_char d (join_with [d] cs) = cs"
  by (induction "[d]" cs rule: join_with.induct) (simp_all add: split_char_single split_char_append)

lemma join_split: "join_with [d] (split_char d s) = s"
proof (induction s)
  case (Cons c s)
  obtain w ws where s: "split_char d s = w # ws" by (cases "split_char d s") auto
  then show ?case using Cons by (cases ws) auto
qed simp

lemma join_append:
  "xs \<noteq> [] \<Longrightarrow> ys \<noteq> [] \<Longrightarrow> join_with sep (xs @ ys) = join_with sep xs @ sep @ join_with sep ys"
proof (induction sep xs rule: join_with.induct)
  case (2 sep w)
  then show ?case by (cases ys) auto
qed auto

section \<open>Clean paths\<close>

definition comp_ok :: "string \<Rightarrow> bool" where
  "comp_ok c \<longleftrightarrow> c \<noteq> [] \<and> c \<noteq> ''.'' \<and> slash \<notin> set c"

definition comps_ok :: "bool \<Rightarrow> string list \<Rightarrow> bool" where
  "comps_ok rt cs \<longleftrightarrow> (\<forall>c \<in> set cs. comp_ok c) \<and>
     (\<exists>n ds. cs = replicate n ''..'' @ ds \<and> ''..'' \<notin> set ds \<and> (rt \<longrightarrow> n = 0))"

lemma comps_ok_Nil [simp]: "comps_ok rt []"
  by (simp add: comps_ok_def)

lemma comps_ok_rooted: "comps_ok True cs \<longleftrightarrow> (\<forall>c \<in> set cs. comp_ok c) \<and> ''..'' \<notin> set cs"
  by (auto simp: comps_ok_def)

lemma comps_ok_butlast:
  assumes "comps_ok rt cs"
  shows "comps_ok rt (butlast cs)"
proof -
  obtain n ds where c: "cs = replicate n ''..'' @ ds" "''..'' \<notin> set ds" "rt \<longrightarrow> n = 0" "\<forall>c \<in> set cs. comp_ok c"
    using assms unfolding comps_ok_def by blast
  have "butlast (replicate n ''..'') = replicate (n - 1) ''..''"
    by (rule nth_equalityI) (simp_all add: nth_butlast)
  then have "butlast cs = (if ds = [] then replicate (n - 1) ''..'' @ [] else replicate n ''..'' @ butlast ds)"
    by (simp add: c(1) butlast_append)
  moreover have "''..'' \<notin> set (butlast ds)" using c(2) by (meson in_set_butlastD)
  ultimately show ?thesis
    using c(3,4) unfolding comps_ok_def by (metis diff_0_eq_0 empty_iff in_set_butlastD list.set(1))
qed

lemma comps_ok_snoc:
  assumes "comps_ok rt cs" and "comp_ok c" and "c \<noteq> ''..''"
  shows "comps_ok rt (cs @ [c])"
proof -
  obtain n ds where d: "cs = replicate n ''..'' @ ds" "''..'' \<notin> set ds" "rt \<longrightarrow> n = 0" "\<forall>c \<in> set cs. comp_ok c"
    using assms(1) unfolding comps_ok_def by blast
  show ?thesis
    unfolding comps_ok_def by (intro conjI exI [of _ n] exI [of _ "ds @ [c]"]) (use d assms(2,3) in auto)
qed

lemma clean_comps_ok:
  assumes "comps_ok rt (rev acc)" and "\<forall>c \<in> set cs. slash \<notin> set c"
  shows "comps_ok rt (clean_comps rt acc cs)"
  using assms
proof (induction rt acc cs rule: clean_comps.induct)
  case (2 rt acc c cs)
  have dots: "comp_ok ''..''" by (simp add: comp_ok_def)
  consider (skip) "c = [] \<or> c = ''.''" | (up) "c = ''..''" | (name) "c \<noteq> []" "c \<noteq> ''.''" "c \<noteq> ''..''" by blast
  then show ?case
  proof cases
    case skip
    with 2 show ?thesis by auto
  next
    case name
    have "comps_ok rt (rev (c # acc))"
      using comps_ok_snoc [OF 2(6)] name 2(7) by (simp add: comp_ok_def)
    with 2 name show ?thesis by auto
  next
    case up
    show ?thesis
    proof (cases acc)
      case Nil
      have "comps_ok False [''..'']" using dots unfolding comps_ok_def by (intro conjI exI [of _ 1] exI [of _ "[]"]) auto
      with 2 up Nil show ?thesis by (cases rt) auto
    next
      case (Cons a as)
      then have drop: "comps_ok rt (rev as)" using comps_ok_butlast [OF 2(6)] by simp
      have keep: "comps_ok rt (rev (''..'' # acc))" if "a = ''..''"
      proof -
        obtain n ds where d: "rev acc = replicate n ''..'' @ ds" "''..'' \<notin> set ds" "rt \<longrightarrow> n = 0"
          using 2(6) unfolding comps_ok_def by blast
        have "ds = []"
          using d(1,2) Cons that by (metis append_is_Nil_conv last_appendR last_in_set last_rev list.sel(1) rev_is_Nil_conv list.distinct(1))
        with d Cons that have "rev (''..'' # acc) = replicate (Suc n) ''..'' @ []" "\<not> rt"
          by (auto simp: replicate_append_same)
        then show ?thesis using 2(6) dots unfolding comps_ok_def
          by (metis empty_iff list.set(1) set_ConsD set_rev)
      qed
      show ?thesis using 2 up Cons drop keep by (cases "a = ''..''") auto
    qed
  qed
qed simp

lemma path_comps_ok: "comps_ok (IsAbs p) (path_comps p)"
  unfolding path_comps_def by (rule clean_comps_ok) (auto dest: split_char_free)

lemma IsAbs_mk_path [simp]:
  assumes "comps_ok rt cs"
  shows "IsAbs (mk_path rt cs) = rt"
proof (cases cs)
  case (Cons c cs')
  then have "comp_ok c" using assms by (simp add: comps_ok_def)
  then obtain x xs where "c = x # xs" "x \<noteq> slash" by (cases c) (auto simp: comp_ok_def)
  then show ?thesis by (cases cs') (auto simp: mk_path_def IsAbs_def Cons)
qed (simp add: mk_path_def IsAbs_def)

text \<open>Reading a list of clean components again changes nothing.\<close>

lemma clean_comps_id:
  assumes "comps_ok rt cs"
  shows "clean_comps rt [] cs = cs"
proof -
  obtain n ds where d: "cs = replicate n ''..'' @ ds" "''..'' \<notin> set ds" "rt \<longrightarrow> n = 0" "\<forall>c \<in> set cs. comp_ok c"
    using assms unfolding comps_ok_def by blast
  have names: "clean_comps rt acc ds = rev acc @ ds" if "\<forall>c \<in> set ds. comp_ok c" "''..'' \<notin> set ds" for acc ds
    using that by (induction ds arbitrary: acc) (auto simp: comp_ok_def)
  have dots: "\<not> rt \<Longrightarrow> clean_comps rt (replicate m ''..'') (replicate n ''..'' @ ds) = clean_comps rt (replicate (m + n) ''..'') ds" for m
  proof (induction n arbitrary: m)
    case (Suc n)
    then show ?case using Suc.IH [of "Suc m"] by (cases m) simp_all
  qed simp
  show ?thesis
  proof (cases rt)
    case True
    then show ?thesis using d names [of ds "[]"] by simp
  next
    case False
    then show ?thesis using d dots [of 0] names [of ds "replicate n ''..''"] by (simp add: rev_replicate)
  qed
qed

lemma split_mk_path:
  assumes "comps_ok rt cs"
  shows "clean_comps rt [] (split_char slash (mk_path rt cs)) = cs"
proof (cases "cs = []")
  case True
  then show ?thesis by (simp add: mk_path_def)
next
  case False
  have "\<forall>c \<in> set cs. slash \<notin> set c" using assms by (simp add: comps_ok_def comp_ok_def)
  then have "split_char slash (mk_path rt cs) = (if rt then [[]] else []) @ cs"
    using False split_join [OF False, of slash] by (simp add: mk_path_def)
  then show ?thesis using clean_comps_id [OF assms] by (cases rt) simp_all
qed

lemma path_comps_mk_path [simp]: "comps_ok rt cs \<Longrightarrow> path_comps (mk_path rt cs) = cs"
  by (simp add: path_comps_def split_mk_path)

lemma Clean_mk_path [simp]: "comps_ok rt cs \<Longrightarrow> Clean (mk_path rt cs) = mk_path rt cs"
  by (simp add: Clean_def)

lemma Clean_simps [simp]:
  "Clean (Clean p) = Clean p" "path_comps (Clean p) = path_comps p" "IsAbs (Clean p) = IsAbs p"
  using path_comps_ok [of p] by (simp_all add: Clean_def)

lemma Clean_eq_iff: "Clean p = Clean q \<longleftrightarrow> IsAbs p = IsAbs q \<and> path_comps p = path_comps q"
proof
  assume "Clean p = Clean q"
  then have "IsAbs (Clean p) = IsAbs (Clean q)" "path_comps (Clean p) = path_comps (Clean q)" by simp_all
  then show "IsAbs p = IsAbs q \<and> path_comps p = path_comps q" by simp
qed (simp add: Clean_def)

lemma Clean_ne [simp]: "Clean p \<noteq> []"
proof (cases "path_comps p")
  case (Cons c cs)
  then have "c \<noteq> []" using path_comps_ok [of p] by (simp add: comps_ok_def comp_ok_def)
  then show ?thesis by (cases cs) (simp_all add: Clean_def mk_path_def Cons)
qed (simp add: Clean_def mk_path_def)

section \<open>Parent directories\<close>

lemma dir_part_app: "slash \<notin> set w \<Longrightarrow> dir_part (xs @ slash # w) = xs @ [slash]"
  by (simp add: dir_part_def dropWhile_append3 dropWhile_append)

lemma dir_part_none: "slash \<notin> set w \<Longrightarrow> dir_part w = []"
  by (auto simp: dir_part_def dropWhile_eq_Nil_conv)

lemma clean_comps_snoc_empty: "clean_comps rt acc (cs @ [[]]) = clean_comps rt acc cs"
  by (induction rt acc cs rule: clean_comps.induct) (auto split: list.splits)

text \<open>The directory of a clean path has all components but the last.\<close>

lemma path_comps_Dir:
  assumes "comps_ok rt cs"
  shows "path_comps (Dir (mk_path rt cs)) = butlast cs \<and> IsAbs (Dir (mk_path rt cs)) = rt"
proof (cases cs rule: rev_cases)
  case Nil
  then show ?thesis
    by (cases rt) (simp_all add: mk_path_def Dir_def dir_part_def, simp_all add: IsAbs_def path_comps_def)
next
  case (snoc bs c)
  have c: "slash \<notin> set c" using assms snoc by (simp add: comps_ok_def comp_ok_def)
  have bs: "comps_ok rt bs" using comps_ok_butlast [OF assms] snoc by simp
  show ?thesis
  proof (cases "bs = []")
    case True
    then have "dir_part (mk_path rt cs) = (if rt then [slash] else [])"
      using c snoc dir_part_app [of c "[]"] by (simp add: mk_path_def dir_part_none)
    then show ?thesis using True snoc by (cases rt) (simp_all add: Dir_def, simp_all add: path_comps_def IsAbs_def)
  next
    case False
    then have m: "mk_path rt cs = mk_path rt bs @ slash # c"
      using snoc by (simp add: mk_path_def join_append)
    have d: "dir_part (mk_path rt cs) = mk_path rt bs @ [slash]"
      unfolding m by (rule dir_part_app [OF c])
    have ne: "mk_path rt bs \<noteq> []" using Clean_ne [of "mk_path rt bs"] Clean_mk_path [OF bs] by metis
    then have a: "IsAbs (mk_path rt bs @ [slash]) = rt" using IsAbs_mk_path [OF bs] by (simp add: IsAbs_def)
    have "split_char slash (mk_path rt bs @ [slash]) = split_char slash (mk_path rt bs) @ [[]]"
      using split_char_append [of slash "mk_path rt bs" "[]"] by simp
    then have "path_comps (mk_path rt bs @ [slash]) = bs"
      using a split_mk_path [OF bs] by (simp add: path_comps_def clean_comps_snoc_empty)
    then show ?thesis using a d snoc by (simp add: Dir_def)
  qed
qed

lemma Dir_Clean: "path_comps (Dir (Clean p)) = butlast (path_comps p)" "IsAbs (Dir (Clean p)) = IsAbs p"
  using path_comps_Dir [OF path_comps_ok [of p]] by (simp_all add: Clean_def)

section \<open>Last components, relative paths, joining\<close>

lemma Base_mk_path:
  assumes "comps_ok rt cs" and "cs \<noteq> []"
  shows "Base (mk_path rt cs) = last cs"
proof (cases cs rule: rev_cases)
  case (snoc bs c)
  have c: "c \<noteq> []" "slash \<notin> set c" using assms(1) snoc by (simp_all add: comps_ok_def comp_ok_def)
  then have last: "last c \<noteq> slash" by (metis last_in_set)
  obtain pre where m: "mk_path rt cs = pre @ c" "pre = [] \<or> last pre = slash"
  proof (cases "bs = []")
    case True
    then show ?thesis using that [of "if rt then [slash] else []"] snoc by (simp add: mk_path_def)
  next
    case False
    then show ?thesis using that [of "mk_path rt bs @ [slash]"] snoc by (simp add: mk_path_def join_append)
  qed
  have t: "trim_right_by (\<lambda>x. x = slash) (pre @ c) = pre @ c"
    using c(1) last by (cases c rule: rev_cases) (simp_all add: trim_right_by_def)
  have w: "takeWhile (\<lambda>x. x \<noteq> slash) (rev (pre @ c)) = rev c"
  proof (cases "pre = []")
    case True
    then show ?thesis using c(2) by (auto simp: takeWhile_eq_all_conv)
  next
    case False
    then obtain ps where "pre = ps @ [slash]" using m(2) by (metis append_butlast_last_id)
    then show ?thesis using c(2) by (subst rev_append, subst takeWhile_append2) auto
  qed
  show ?thesis unfolding Base_def m(1) Let_def t w using c(1) snoc by simp
qed (use assms in simp)

lemma Base_Clean: "path_comps p \<noteq> [] \<Longrightarrow> Base (Clean p) = last (path_comps p)"
  using Base_mk_path [OF path_comps_ok [of p]] by (simp add: Clean_def)

lemma strip_common_spec:
  "strip_common bs ts = (bs', ts') \<Longrightarrow> \<exists>cm. bs = cm @ bs' \<and> ts = cm @ ts'"
proof (induction bs ts rule: strip_common.induct)
  case (1 b bs t ts)
  then show ?case by (auto split: if_splits intro: exI [of _ "b # _"])
qed auto

lemma strip_common_prefix: "strip_common bs (bs @ ts) = ([], ts)"
  by (induction bs) (cases ts; simp)+

lemma join_dots: "bs \<noteq> [] \<Longrightarrow> has_prefix (join_with [slash] (replicate (length bs) ''..'' @ ts)) ''..''"
  by (cases bs; cases "replicate (length bs - 1) ''..'' @ ts") (auto simp: has_prefix_def split: list.splits)

text \<open>A relative path that does not start with two dots leads downwards.\<close>

lemma Rel_inside:
  assumes "Rel base targ = Some rel" and "\<not> has_prefix rel ''..''" and "IsAbs base"
  shows "IsAbs targ \<and> (\<exists>rest. path_comps targ = path_comps base @ rest \<and> rel = (if rest = [] then ''.'' else join_with [slash] rest))"
proof (cases "Clean targ = Clean base")
  case True
  then show ?thesis using assms(1,3) by (simp add: Rel_def Let_def Clean_eq_iff)
next
  case False
  have abs: "IsAbs targ" using assms(1,3) False by (auto simp: Rel_def Let_def split: if_splits prod.splits)
  have nd: "Clean targ \<noteq> ''.''" using abs Clean_simps(3) [of targ] by (auto simp: IsAbs_def)
  obtain bs ts where s: "strip_common (path_comps base) (path_comps targ) = (bs, ts)" by fastforce
  have rel: "rel = join_with [slash] (replicate (length bs) ''..'' @ ts)"
    using assms(1,3) False abs nd s by (auto simp: Rel_def Let_def split: if_splits)
  with assms(2) join_dots have "bs = []" by blast
  moreover obtain cm where "path_comps base = cm @ bs" "path_comps targ = cm @ ts" using strip_common_spec [OF s] by blast
  moreover have "ts \<noteq> []" using calculation False abs assms(3) by (auto simp: Clean_eq_iff)
  ultimately show ?thesis using abs rel by auto
qed

lemma Rel_below:
  assumes "IsAbs base" "IsAbs targ" and "path_comps targ = path_comps base @ rest"
  shows "Rel base targ = Some (if rest = [] then ''.'' else join_with [slash] rest)"
proof -
  have "Clean targ \<noteq> ''.''" using assms(2) Clean_simps(3) [of targ] by (auto simp: IsAbs_def)
  moreover have "Clean targ = Clean base \<longleftrightarrow> rest = []" using assms by (simp add: Clean_eq_iff)
  ultimately show ?thesis using assms by (simp add: Rel_def Let_def strip_common_prefix)
qed

lemma Join2_abs: "IsAbs a \<Longrightarrow> IsAbs (Join2 a b)"
  by (simp add: Join2_def) (simp add: IsAbs_def)

end
