(* ===== verification/Sandbox.thy ===== *)
theory Sandbox
  imports Paths
begin

text \<open>
  \<^verbatim>\<open>internal/probe/tools/tool.go\<close>: the deny list, the check that a path a tool is asked for lies in the workspace after all
  symbolic links have been resolved, and truncation of output; on a Unix system, where paths have no volume.
  The operating system enters as the record \<open>fs_ops\<close>: the working directory, whether a path exists (\<^verbatim>\<open>os.Lstat\<close>) and where its
  links lead (\<^verbatim>\<open>filepath.EvalSymlinks\<close>, \<open>None\<close> for its error).
\<close>

section \<open>The deny list\<close>

definition HardDenylistGlobs :: "string list" where
  "HardDenylistGlobs = [
     ''*.pem'', ''*.key'', ''*.crt'', ''*.pfx'', ''*.p12'',
     ''id_rsa*'', ''id_ed25519*'', ''*.pub'',
     ''.env'', ''.env.*'', ''*secret*'', ''*credential*'', ''*token*'', ''*password*'',
     ''.git/config'', ''*aws/credentials*'', ''*aws/config*'', ''*.ssh/*'', ''*.gnupg/*'', ''*gcloud/*'']"

definition restricted_dir :: "string \<Rightarrow> bool" where
  "restricted_dir clean \<longleftrightarrow>
     contains clean ''/.git/'' \<or> has_prefix clean ''.git/'' \<or>
     contains clean ''/.ssh/'' \<or> has_prefix clean ''.ssh/'' \<or>
     contains clean ''/.aws/'' \<or> has_prefix clean ''.aws/'' \<or>
     contains clean ''/.gnupg/'' \<or> has_prefix clean ''.gnupg/'' \<or>
     contains clean ''/.config/gcloud/'' \<or> has_prefix clean ''.config/gcloud/'' \<or>
     contains clean ''aws/credentials'' \<or> contains clean ''aws/config''"

definition keyword_glob :: "string \<Rightarrow> bool" where
  "keyword_glob p \<longleftrightarrow> contains p ''secret'' \<or> contains p ''credential'' \<or> contains p ''token'' \<or> contains p ''password'' \<or>
     contains p ''.env'' \<or> contains p ''aws'' \<or> contains p ''ssh'' \<or> contains p ''gnupg'' \<or> contains p ''gcloud''"

definition glob_hits :: "string \<Rightarrow> string \<Rightarrow> string \<Rightarrow> bool" where
  "glob_hits base clean pattern \<longleftrightarrow>
     (let p = to_lower pattern in
      Match p base \<or> Match p clean \<or>
      (contains clean (trim_prefix (trim_suffix p ''*'') ''*'') \<and> keyword_glob p))"

definition IsFileDenylisted :: "string \<Rightarrow> bool" where
  "IsFileDenylisted relOrAbsPath =
     (let clean = to_lower (Clean relOrAbsPath); base = to_lower (Base clean) in
      if clean = ''.git/config'' \<or> has_suffix clean ''/.git/config'' then True
      else if restricted_dir clean then True
      else list_ex (glob_hits base clean) HardDenylistGlobs)"

section \<open>The workspace check\<close>

record fs_ops =
  getwd :: "string option"
  lstat_ok :: "string \<Rightarrow> bool"
  eval_symlinks :: "string \<Rightarrow> string option"

datatype sandbox_error = InvalidRoot | ErrSandboxViolation | ErrDenylistedFile

definition Abs :: "fs_ops \<Rightarrow> string \<Rightarrow> string option" where
  "Abs fs p = (if IsAbs p then Some (Clean p) else map_option (\<lambda>wd. Join2 wd p) (getwd fs))"

definition normalizeVolume :: "string \<Rightarrow> string" where
  "normalizeVolume path = trim_prefix path [CHR 0x5C, CHR 0x5C, CHR ''?'', CHR 0x5C]"

lemma Dir_Clean_fix: "path_comps p = [] \<Longrightarrow> Dir (Clean p) = Clean p"
proof -
  assume "path_comps p = []"
  then have "Clean (Dir (Clean p)) = Clean p" by (simp add: Clean_eq_iff Dir_Clean)
  then show ?thesis by (simp add: Dir_def)
qed

function resolvePhysicalPath :: "fs_ops \<Rightarrow> string \<Rightarrow> string option" where
  "resolvePhysicalPath fs target =
     (let clean = Clean target in
      if lstat_ok fs clean then eval_symlinks fs clean
      else
        let dir = Dir clean; base = Base clean in
        if dir = clean \<or> dir = ''.'' \<or> dir = [slash] then Some clean
        else (case resolvePhysicalPath fs dir of
                None \<Rightarrow> Some clean
              | Some resolvedDir \<Rightarrow> Some (Join2 resolvedDir base)))"
  by pat_completeness auto
termination
proof (relation "measure (\<lambda>(fs, target). length (path_comps target))", goal_cases)
  case (2 fs target clean dir base)
  then have "path_comps target \<noteq> []" using Dir_Clean_fix by blast
  with 2 show ?case by (simp add: Dir_Clean)
qed simp

declare resolvePhysicalPath.simps [simp del]

definition sandbox_root :: "fs_ops \<Rightarrow> string \<Rightarrow> string" where
  "sandbox_root fs absRoot = normalizeVolume (case eval_symlinks fs absRoot of None \<Rightarrow> absRoot | Some r \<Rightarrow> r)"

definition sandbox_target :: "string \<Rightarrow> string \<Rightarrow> string" where
  "sandbox_target absRoot p = Clean (if IsAbs p then p else Join2 absRoot p)"

definition ValidateSandboxPath :: "fs_ops \<Rightarrow> string \<Rightarrow> string \<Rightarrow> (sandbox_error, string) result" where
  "ValidateSandboxPath fs workspaceRoot relOrAbsPath =
     (case Abs fs (Clean workspaceRoot) of
        None \<Rightarrow> Inl InvalidRoot
      | Some absRoot \<Rightarrow>
          let canonicalRoot = sandbox_root fs absRoot;
              cleanTarget = sandbox_target absRoot relOrAbsPath;
              canonicalTarget = normalizeVolume
                (case resolvePhysicalPath fs cleanTarget of None \<Rightarrow> cleanTarget | Some t \<Rightarrow> t)
          in (case Rel canonicalRoot canonicalTarget of
                None \<Rightarrow> Inl ErrSandboxViolation
              | Some rel \<Rightarrow>
                  if has_prefix rel ''..'' \<or> rel = ''..'' then Inl ErrSandboxViolation
                  else if IsFileDenylisted cleanTarget \<or> IsFileDenylisted canonicalTarget \<or> IsFileDenylisted rel
                  then Inl ErrDenylistedFile
                  else Inr canonicalTarget))"

definition TruncateOutput :: "string \<Rightarrow> nat \<Rightarrow> string" where
  "TruncateOutput s maxBytes =
     (if length s \<le> maxBytes then s else take maxBytes s @ CHR 0x0A # ''[truncated by TalkIntent]'')"

definition MaxFileReadBytes :: nat where "MaxFileReadBytes = 65536"

definition MaxToolOutputBytes :: nat where "MaxToolOutputBytes = 65536"

section \<open>Confinement\<close>

text \<open>What the check relies on in the operating system: the working directory is an absolute path, and links of an absolute
  path lead to an absolute path.\<close>

definition fs_ok :: "fs_ops \<Rightarrow> bool" where
  "fs_ok fs \<longleftrightarrow> (\<forall>w. getwd fs = Some w \<longrightarrow> IsAbs w) \<and> (\<forall>p q. IsAbs p \<longrightarrow> eval_symlinks fs p = Some q \<longrightarrow> IsAbs q)"

lemma Abs_IsAbs: "fs_ok fs \<Longrightarrow> Abs fs p = Some a \<Longrightarrow> IsAbs a"
  by (auto simp: Abs_def fs_ok_def Join2_abs split: if_splits)

lemma normalizeVolume_abs [simp]: "IsAbs p \<Longrightarrow> normalizeVolume p = p"
  by (cases p) (auto simp: normalizeVolume_def trim_prefix_def has_prefix_def IsAbs_def)

lemma resolve_abs:
  assumes "fs_ok fs" and "IsAbs p" and "resolvePhysicalPath fs p = Some q"
  shows "IsAbs q"
  using assms
proof (induction fs p arbitrary: q rule: resolvePhysicalPath.induct)
  case (1 fs target)
  show ?case
  proof (cases "lstat_ok fs (Clean target)")
    case True
    with 1 show ?thesis by (simp add: resolvePhysicalPath.simps [of fs target] fs_ok_def) (metis Clean_simps(3))
  next
    case False
    show ?thesis
    proof (cases "Dir (Clean target) = Clean target \<or> Dir (Clean target) = ''.'' \<or> Dir (Clean target) = [slash]")
      case True
      with False 1 show ?thesis by (auto simp: resolvePhysicalPath.simps [of fs target])
    next
      case stop: False
      have "IsAbs rd" if "resolvePhysicalPath fs (Dir (Clean target)) = Some rd" for rd
        using 1(1) [OF refl False refl refl stop] 1(2,3) that by (simp add: Dir_Clean)
      with False stop 1 show ?thesis
        by (auto simp: resolvePhysicalPath.simps [of fs target] Let_def Join2_abs split: option.splits)
    qed
  qed
qed

text \<open>The file the operating system would open for a path: where its links lead, if it exists.\<close>

definition physical :: "fs_ops \<Rightarrow> string \<Rightarrow> string \<Rightarrow> bool" where
  "physical fs p q \<longleftrightarrow> (lstat_ok fs p \<longrightarrow> (\<forall>r. eval_symlinks fs p = Some r \<longrightarrow> q = r))"

text \<open>C10. The sandbox holds.  A path that \<^verbatim>\<open>ValidateSandboxPath\<close> accepts is, with all links resolved, the workspace root or
  below it, component by component; it is the file the requested path really leads to; and neither the path as
  requested nor the resolved path is on the deny list.  Whatever leads outside is refused, by \<^verbatim>\<open>..\<close>, by an absolute
  path or by a link.\<close>

theorem sandbox_confines:
  assumes "fs_ok fs" and "ValidateSandboxPath fs root p = Inr c"
  shows "\<exists>absRoot rest. Abs fs (Clean root) = Some absRoot
    \<and> path_comps c = path_comps (sandbox_root fs absRoot) @ rest \<and> ''..'' \<notin> set rest \<and> IsAbs c
    \<and> physical fs (sandbox_target absRoot p) c
    \<and> \<not> IsFileDenylisted (sandbox_target absRoot p) \<and> \<not> IsFileDenylisted c"
proof -
  obtain absRoot where a: "Abs fs (Clean root) = Some absRoot"
    using assms(2) by (auto simp: ValidateSandboxPath_def split: option.splits)
  let ?t = "sandbox_target absRoot p" and ?r = "sandbox_root fs absRoot"
  have abs: "IsAbs absRoot" by (rule Abs_IsAbs [OF assms(1) a])
  then have r: "IsAbs ?r" using assms(1) by (auto simp: sandbox_root_def fs_ok_def split: option.split)
  have t: "IsAbs ?t" using abs by (simp add: sandbox_target_def Join2_abs)
  define ct where "ct = normalizeVolume (case resolvePhysicalPath fs ?t of None \<Rightarrow> ?t | Some x \<Rightarrow> x)"
  have ct: "ct = (case resolvePhysicalPath fs ?t of None \<Rightarrow> ?t | Some x \<Rightarrow> x)" "IsAbs ct"
    using t resolve_abs [OF assms(1) t] by (auto simp: ct_def split: option.splits)
  obtain rel where rel: "Rel ?r ct = Some rel" "\<not> has_prefix rel ''..''" "c = ct" "\<not> IsFileDenylisted ?t" "\<not> IsFileDenylisted ct"
    using assms(2) a by (auto simp: ValidateSandboxPath_def Let_def ct_def split: option.splits if_splits)
  obtain rest where rest: "path_comps ct = path_comps ?r @ rest" using Rel_inside [OF rel(1,2) r] by blast
  have "''..'' \<notin> set rest" using path_comps_ok [of ct] ct(2) rest by (auto simp: comps_ok_rooted)
  moreover have "physical fs ?t ct"
    using resolvePhysicalPath.simps [of fs ?t] by (auto simp: physical_def ct(1) sandbox_target_def Let_def split: option.splits if_splits)
  ultimately show ?thesis using a ct(2) rest rel by blast
qed

text \<open>A file system in which \<^verbatim>\<open>/w/out\<close> is a link to \<^verbatim>\<open>/etc\<close>.\<close>

definition link_fs :: fs_ops where
  "link_fs = \<lparr>getwd = Some ''/'', lstat_ok = (\<lambda>p. p \<in> {''/w'', ''/w/a'', ''/w/out''}),
     eval_symlinks = (\<lambda>p. Some (if p = ''/w/out'' then ''/etc'' else Clean p))\<rparr>"

lemma link_fs_ok: "fs_ok link_fs"
  by (simp add: fs_ok_def link_fs_def) (simp add: IsAbs_def)

theorem sandbox_confines_witness:
  "ValidateSandboxPath link_fs ''/w'' ''a'' = Inr ''/w/a'' \<and> IsAbs ''/w/a''
   \<and> ValidateSandboxPath link_fs ''/w'' ''out/passwd'' = Inl ErrSandboxViolation"
proof -
  have "ValidateSandboxPath link_fs ''/w'' ''a'' = Inr ''/w/a''"
    "ValidateSandboxPath link_fs ''/w'' ''out/passwd'' = Inl ErrSandboxViolation" by code_simp+
  with sandbox_confines [OF link_fs_ok this(1)] show ?thesis by blast
qed

section \<open>What the deny list covers\<close>

lemma lower_char_fix:
  assumes "(of_char d :: nat) < 65"
  shows "lower_char c = d \<longleftrightarrow> c = d"
proof (cases "65 \<le> (of_char c :: nat) \<and> (of_char c :: nat) \<le> 90")
  case True
  then have "(of_char (lower_char c) :: nat) = of_char c + 32" by (simp add: lower_char_def char_code_def)
  with True assms show ?thesis by auto
next
  case False
  then show ?thesis by (auto simp: lower_char_def char_code_def)
qed

lemma lower_fixed: "lower_char c = slash \<longleftrightarrow> c = slash" "lower_char c = CHR ''.'' \<longleftrightarrow> c = CHR ''.''"
  by (simp_all add: lower_char_fix)

lemma to_lower_dots: "to_lower c = ''.'' \<longleftrightarrow> c = ''.''" "to_lower c = ''..'' \<longleftrightarrow> c = ''..''" "to_lower c = [] \<longleftrightarrow> c = []"
  by (auto simp: to_lower_def map_eq_Cons_conv lower_fixed)

lemma split_lower: "split_char slash (to_lower s) = map to_lower (split_char slash s)"
proof (induction s)
  case (Cons c s)
  then show ?case by (cases "split_char slash s") (auto simp: to_lower_def lower_fixed)
qed (simp add: to_lower_def)

lemma clean_comps_lower: "clean_comps rt (map to_lower acc) (map to_lower cs) = map to_lower (clean_comps rt acc cs)"
proof (induction rt acc cs rule: clean_comps.induct)
  case (2 rt acc c cs)
  have d: "to_lower ''..'' = ''..''" by (simp add: to_lower_dots)
  show ?case using 2 d by (cases acc; cases rt) (auto simp: to_lower_dots d)
qed (simp add: rev_map)

lemma IsAbs_lower: "IsAbs (to_lower p) = IsAbs p"
  by (cases p) (auto simp: IsAbs_def to_lower_def lower_fixed)

lemma path_comps_lower: "path_comps (to_lower p) = map to_lower (path_comps p)"
  using clean_comps_lower [of "IsAbs p" "[]"] by (simp add: path_comps_def IsAbs_lower split_lower)

lemma join_lower: "to_lower (join_with [slash] cs) = join_with [slash] (map to_lower cs)"
  by (induction "[slash]" cs rule: join_with.induct) (auto simp: to_lower_def lower_fixed)

lemma Clean_lower: "to_lower (Clean p) = mk_path (IsAbs p) (map to_lower (path_comps p))"
proof -
  have "to_lower ''.'' = ''.''" "lower_char slash = slash" by (simp_all add: to_lower_dots lower_fixed)
  then show ?thesis by (simp add: Clean_def mk_path_def join_lower [symmetric]) (simp add: to_lower_def)
qed

lemma contains_app: "contains s sub \<Longrightarrow> contains (a @ s @ b) sub"
  by (auto simp: contains_iff) (metis append.assoc)

text \<open>A directory component followed by another shows between slashes, or at the front of a relative path.\<close>

lemma dir_component_seen:
  assumes "cs = pre @ d # x # post"
  shows "contains (mk_path rt cs) (slash # d @ [slash]) \<or> has_prefix (mk_path rt cs) (d @ [slash])"
proof -
  let ?tail = "join_with [slash] (x # post)"
  have j: "join_with [slash] (d # x # post) = d @ slash # ?tail" by simp
  show ?thesis
  proof (cases "pre = []")
    case True
    have "contains (slash # d @ slash # ?tail) (slash # d @ [slash])"
      unfolding contains_iff by (rule exI [of _ "[]"], rule exI [of _ ?tail]) simp
    moreover have "has_prefix (d @ slash # ?tail) (d @ [slash])" by (simp add: has_prefix_def)
    ultimately show ?thesis using True assms j by (cases rt) (simp_all add: mk_path_def)
  next
    case False
    then have "join_with [slash] cs = join_with [slash] pre @ slash # d @ slash # ?tail"
      using assms j by (simp add: join_append)
    then have "mk_path rt cs = ((if rt then [slash] else []) @ join_with [slash] pre) @ (slash # d @ [slash]) @ ?tail"
      using assms by (simp add: mk_path_def)
    then show ?thesis unfolding contains_iff by blast
  qed
qed

lemma keyword_denied:
  assumes "k \<in> {''secret'', ''credential'', ''token'', ''password'', ''.env''}" and "contains (to_lower (Clean p)) k"
  shows "IsFileDenylisted p"
proof -
  have "\<exists>g \<in> set HardDenylistGlobs. trim_prefix (trim_suffix (to_lower g) ''*'') ''*'' = k \<and> keyword_glob (to_lower g)"
  proof -
    have "trim_prefix (trim_suffix (to_lower ''*secret*'') ''*'') ''*'' = ''secret'' \<and> keyword_glob (to_lower ''*secret*'')"
      "trim_prefix (trim_suffix (to_lower ''*credential*'') ''*'') ''*'' = ''credential'' \<and> keyword_glob (to_lower ''*credential*'')"
      "trim_prefix (trim_suffix (to_lower ''*token*'') ''*'') ''*'' = ''token'' \<and> keyword_glob (to_lower ''*token*'')"
      "trim_prefix (trim_suffix (to_lower ''*password*'') ''*'') ''*'' = ''password'' \<and> keyword_glob (to_lower ''*password*'')"
      "trim_prefix (trim_suffix (to_lower ''.env'') ''*'') ''*'' = ''.env'' \<and> keyword_glob (to_lower ''.env'')"
      by code_simp+
    moreover have "set HardDenylistGlobs \<supseteq> {''*secret*'', ''*credential*'', ''*token*'', ''*password*'', ''.env''}"
      by (simp add: HardDenylistGlobs_def)
    ultimately show ?thesis using assms(1) by blast
  qed
  then obtain g where "g \<in> set HardDenylistGlobs" "trim_prefix (trim_suffix (to_lower g) ''*'') ''*'' = k" "keyword_glob (to_lower g)"
    by blast
  with assms(2) show ?thesis by (auto simp: IsFileDenylisted_def Let_def list_ex_iff glob_hits_def)
qed

text \<open>The deny list covers whole trees, whatever the case of the letters: everything below a directory named \<^verbatim>\<open>.git\<close>,
  \<^verbatim>\<open>.ssh\<close>, \<^verbatim>\<open>.aws\<close> or \<^verbatim>\<open>.gnupg\<close>, however the path is written, and every path one of whose components contains
  \<^verbatim>\<open>secret\<close>, \<^verbatim>\<open>credential\<close>, \<^verbatim>\<open>token\<close>, \<^verbatim>\<open>password\<close> or \<^verbatim>\<open>.env\<close>.\<close>

theorem denylist_covers:
  assumes "path_comps p = pre @ d # post"
    and "to_lower d \<in> {''.git'', ''.ssh'', ''.aws'', ''.gnupg''} \<and> post \<noteq> []
      \<or> (\<exists>k \<in> {''secret'', ''credential'', ''token'', ''password'', ''.env''}. contains (to_lower d) k)"
  shows "IsFileDenylisted p"
  using assms(2)
proof
  assume a: "to_lower d \<in> {''.git'', ''.ssh'', ''.aws'', ''.gnupg''} \<and> post \<noteq> []"
  then obtain x post' where "post = x # post'" by (cases post) auto
  then have "map to_lower (path_comps p) = map to_lower pre @ to_lower d # to_lower x # map to_lower post'" using assms(1) by simp
  from dir_component_seen [OF this, of "IsAbs p"] have "restricted_dir (to_lower (Clean p))"
    using a unfolding Clean_lower restricted_dir_def by auto
  then show ?thesis by (simp add: IsFileDenylisted_def Let_def)
next
  assume "\<exists>k \<in> {''secret'', ''credential'', ''token'', ''password'', ''.env''}. contains (to_lower d) k"
  then obtain k where k: "k \<in> {''secret'', ''credential'', ''token'', ''password'', ''.env''}" "contains (to_lower d) k" by blast
  have "\<exists>a b. join_with [slash] (map to_lower (pre @ d # post)) = a @ to_lower d @ b"
  proof -
    obtain b where b: "join_with [slash] (to_lower d # map to_lower post) = to_lower d @ b" by (cases post) auto
    show ?thesis
    proof (cases "pre = []")
      case True
      then show ?thesis using b by (intro exI [of _ "[]"] exI [of _ b]) simp
    next
      case False
      then show ?thesis
        using b by (intro exI [of _ "join_with [slash] (map to_lower pre) @ [slash]"] exI [of _ b]) (simp add: join_append)
    qed
  qed
  then obtain a b where "join_with [slash] (map to_lower (path_comps p)) = a @ to_lower d @ b" using assms(1) by auto
  then have "to_lower (Clean p) = ((if IsAbs p then [slash] else []) @ a) @ to_lower d @ b"
    using assms(1) by (simp add: Clean_lower mk_path_def)
  with contains_app [OF k(2)] have "contains (to_lower (Clean p)) k" by metis
  with k(1) show ?thesis by (rule keyword_denied)
qed

theorem denylist_covers_witness: "IsFileDenylisted ''/home/u/x/../.SSH//id''"
proof -
  have "path_comps ''/home/u/x/../.SSH//id'' = [''home'', ''u''] @ ''.SSH'' # [''id'']" "to_lower ''.SSH'' = ''.ssh''" by code_simp+
  with denylist_covers [OF this(1)] show ?thesis by simp
qed

end
