(* ===== verification/Diff_Filter.thy ===== *)
theory Diff_Filter
  imports Sandbox
begin

text \<open>
  The redaction of \<^verbatim>\<open>git diff\<close> output in \<^verbatim>\<open>internal/probe/tools/builtin.go\<close>: paths are read from the header lines of a diff, and
  a chunk that mentions a file of the deny list keeps only its first line.
\<close>

section \<open>Paths in a diff\<close>

text \<open>\<^verbatim>\<open>strconv.Unquote\<close> of a double-quoted string: \<open>None\<close> is its error.\<close>

definition hex_val :: "char \<Rightarrow> nat option" where
  "hex_val c = (let n = char_code c in
     if 48 \<le> n \<and> n \<le> 57 then Some (n - 48)
     else if 97 \<le> n \<and> n \<le> 102 then Some (n - 87)
     else if 65 \<le> n \<and> n \<le> 70 then Some (n - 55) else None)"

definition oct_val :: "char \<Rightarrow> nat option" where
  "oct_val c = (let n = char_code c in if 48 \<le> n \<and> n \<le> 55 then Some (n - 48) else None)"

fun digits_val :: "(char \<Rightarrow> nat option) \<Rightarrow> nat \<Rightarrow> nat \<Rightarrow> nat \<Rightarrow> string \<Rightarrow> (nat \<times> string) option" where
  "digits_val dv b 0 acc s = Some (acc, s)"
| "digits_val dv b (Suc n) acc [] = None"
| "digits_val dv b (Suc n) acc (c # s) =
     (case dv c of None \<Rightarrow> None | Some d \<Rightarrow> digits_val dv b n (acc * b + d) s)"

definition utf8 :: "nat \<Rightarrow> string option" where
  "utf8 r =
     (if r < 0x80 then Some [char_of r]
      else if r < 0x800 then Some [char_of (0xC0 + r div 64), char_of (0x80 + r mod 64)]
      else if 0xD800 \<le> r \<and> r < 0xE000 then None
      else if r < 0x10000 then Some [char_of (0xE0 + r div 4096), char_of (0x80 + r div 64 mod 64), char_of (0x80 + r mod 64)]
      else if r \<le> 0x10FFFF then Some [char_of (0xF0 + r div 262144), char_of (0x80 + r div 4096 mod 64),
        char_of (0x80 + r div 64 mod 64), char_of (0x80 + r mod 64)]
      else None)"

definition byte_esc :: "(nat \<times> string) option \<Rightarrow> (string \<times> string) option" where
  "byte_esc r = (case r of None \<Rightarrow> None | Some (v, rest) \<Rightarrow> if v > 255 then None else Some ([char_of v], rest))"

definition rune_esc :: "(nat \<times> string) option \<Rightarrow> (string \<times> string) option" where
  "rune_esc r = (case r of None \<Rightarrow> None | Some (v, rest) \<Rightarrow> map_option (\<lambda>bs. (bs, rest)) (utf8 v))"

text \<open>One escape sequence after its backslash: the bytes it stands for and the rest.\<close>

definition unescape :: "string \<Rightarrow> (string \<times> string) option" where
  "unescape s = (case s of
     [] \<Rightarrow> None
   | c # rest \<Rightarrow>
       if c = CHR ''a'' then Some ([CHR 0x07], rest)
       else if c = CHR ''b'' then Some ([CHR 0x08], rest)
       else if c = CHR ''f'' then Some ([CHR 0x0C], rest)
       else if c = CHR ''n'' then Some ([CHR 0x0A], rest)
       else if c = CHR ''r'' then Some ([CHR 0x0D], rest)
       else if c = CHR ''t'' then Some ([CHR 0x09], rest)
       else if c = CHR ''v'' then Some ([CHR 0x0B], rest)
       else if c = CHR 0x5C \<or> c = CHR 0x22 then Some ([c], rest)
       else if c = CHR ''x'' then byte_esc (digits_val hex_val 16 2 0 rest)
       else if c = CHR ''u'' then rune_esc (digits_val hex_val 16 4 0 rest)
       else if c = CHR ''U'' then rune_esc (digits_val hex_val 16 8 0 rest)
       else if oct_val c \<noteq> None then byte_esc (digits_val oct_val 8 3 0 (c # rest))
       else None)"

lemma digits_val_length: "digits_val dv b n acc s = Some (v, r) \<Longrightarrow> length r + n = length s"
  by (induction dv b n acc s rule: digits_val.induct) (auto split: option.splits)

lemma unescape_shorter: "unescape s = Some (bs, rest) \<Longrightarrow> length rest < length s"
  by (auto simp: unescape_def byte_esc_def rune_esc_def dest!: digits_val_length split: list.splits if_splits option.splits)

function unquote_body :: "string \<Rightarrow> string option" where
  "unquote_body [] = None"
| "unquote_body (c # s) =
     (if c = CHR 0x22 then (if s = [] then Some [] else None)
      else if c = CHR 0x0A then None
      else if c = CHR 0x5C then
        (case unescape s of None \<Rightarrow> None | Some (bs, rest) \<Rightarrow> map_option (\<lambda>t. bs @ t) (unquote_body rest))
      else map_option (\<lambda>t. c # t) (unquote_body s))"
  by pat_completeness auto
termination
  by (relation "measure length") (auto dest: unescape_shorter)

definition Unquote :: "string \<Rightarrow> string option" where
  "Unquote s = (case s of c # rest \<Rightarrow> if c = CHR 0x22 then unquote_body rest else None | [] \<Rightarrow> None)"

definition trim_both :: "(char \<Rightarrow> bool) \<Rightarrow> string \<Rightarrow> string" where
  "trim_both p s = trim_right_by p (dropWhile p s)"

fun strip_first_prefix :: "string list \<Rightarrow> string \<Rightarrow> string" where
  "strip_first_prefix [] s = s"
| "strip_first_prefix (p # ps) s = (if has_prefix s p then trim_prefix s p else strip_first_prefix ps s)"

definition cleanGitDiffPath :: "string \<Rightarrow> string" where
  "cleanGitDiffPath raw0 =
     (let raw = trim_space raw0; quote = [CHR 0x22] in
      if raw = [] \<or> raw = ''/dev/null'' then []
      else
        let raw1 = (if has_prefix raw quote \<and> has_suffix raw quote \<and> length raw \<ge> 2
                    then (case Unquote raw of Some u \<Rightarrow> u | None \<Rightarrow> trim_both (\<lambda>c. c = CHR 0x22) raw) else raw)
        in Clean (strip_first_prefix [''a/'', ''b/'', ''i/'', ''w/'', ''c/''] raw1))"

definition isDiffPathSensitive :: "string \<Rightarrow> bool" where
  "isDiffPathSensitive raw0 =
     (let raw = trim_space raw0 in
      if raw = [] \<or> raw = ''/dev/null'' then False
      else if IsFileDenylisted raw then True
      else let cleaned = cleanGitDiffPath raw in cleaned \<noteq> [] \<and> IsFileDenylisted cleaned)"

text \<open>The byte loop of \<^verbatim>\<open>tokenizeGitLine\<close>: whether it is inside quotes, the token being built, the tokens so far.\<close>

fun token_loop :: "bool \<Rightarrow> string \<Rightarrow> string list \<Rightarrow> string \<Rightarrow> string list" where
  "token_loop q cur toks [] = (if cur \<noteq> [] then toks @ [cur] else toks)"
| "token_loop q cur toks (ch # s) =
     (if ch = CHR 0x5C \<and> q \<and> s \<noteq> [] then token_loop q (cur @ [ch, hd s]) toks (tl s)
      else if ch = CHR 0x22 then token_loop (\<not> q) (cur @ [ch]) toks s
      else if (ch = CHR '' '' \<or> ch = CHR 0x09) \<and> \<not> q
      then token_loop q [] (if cur \<noteq> [] then toks @ [cur] else toks) s
      else token_loop q (cur @ [ch]) toks s)"

definition tokenizeGitLine :: "string \<Rightarrow> string list" where
  "tokenizeGitLine s = token_loop False [] [] (trim_space s)"

definition extractDiffGitPaths :: "string \<Rightarrow> string list" where
  "extractDiffGitPaths line = take 2 (tokenizeGitLine (trim_prefix line ''diff --git ''))"

text \<open>\<^verbatim>\<open>strings.Fields\<close>.\<close>

fun fields_loop :: "string \<Rightarrow> string \<Rightarrow> string list" where
  "fields_loop cur [] = (if cur \<noteq> [] then [cur] else [])"
| "fields_loop cur (c # s) =
     (if is_space c then (if cur \<noteq> [] then [cur] else []) @ fields_loop [] s else fields_loop (cur @ [c]) s)"

definition Fields :: "string \<Rightarrow> string list" where
  "Fields s = fields_loop [] s"

definition up_to_tab :: "string \<Rightarrow> string" where
  "up_to_tab p = takeWhile (\<lambda>c. c \<noteq> CHR 0x09 \<and> c \<noteq> CHR 0x0D) p"

definition checkDiffLineSensitive :: "string \<Rightarrow> bool" where
  "checkDiffLineSensitive line =
     (let trimmed = trim_space line; after = trim_prefix trimmed in
      if trimmed = [] then False
      else if has_prefix trimmed ''diff --git '' then list_ex isDiffPathSensitive (extractDiffGitPaths trimmed)
      else if has_prefix trimmed ''diff --cc '' then isDiffPathSensitive (after ''diff --cc '')
      else if has_prefix trimmed ''diff --combined '' then isDiffPathSensitive (after ''diff --combined '')
      else if has_prefix trimmed ''Submodule '' then
        (case Fields (after ''Submodule '') of [] \<Rightarrow> False | f # _ \<Rightarrow> isDiffPathSensitive f)
      else if has_prefix trimmed ''rename from '' then isDiffPathSensitive (after ''rename from '')
      else if has_prefix trimmed ''rename to '' then isDiffPathSensitive (after ''rename to '')
      else if has_prefix trimmed ''copy from '' then isDiffPathSensitive (after ''copy from '')
      else if has_prefix trimmed ''copy to '' then isDiffPathSensitive (after ''copy to '')
      else if has_prefix trimmed ''--- '' then isDiffPathSensitive (up_to_tab (after ''--- ''))
      else if has_prefix trimmed ''+++ '' then isDiffPathSensitive (up_to_tab (after ''+++ ''))
      else if has_prefix trimmed ''Binary files '' \<and> has_suffix trimmed '' differ'' then
        (case tokenizeGitLine (trim_suffix (after ''Binary files '') '' differ'') of
           t0 # t1 # t2 # _ \<Rightarrow> t1 = ''and'' \<and> (isDiffPathSensitive t0 \<or> isDiffPathSensitive t2)
         | _ \<Rightarrow> False)
      else False)"

section \<open>Redaction\<close>

record diffFileChunk =
  firstLine :: string
  otherLines :: "string list"
  isSensitive :: bool

definition isChunkStart :: "string \<Rightarrow> bool" where
  "isChunkStart line \<longleftrightarrow> has_prefix line ''diff --git '' \<or> has_prefix line ''diff --cc ''
     \<or> has_prefix line ''diff --combined '' \<or> has_prefix line ''Submodule ''"

definition new_chunk :: "string \<Rightarrow> diffFileChunk" where
  "new_chunk line = \<lparr>firstLine = line, otherLines = [], isSensitive = checkDiffLineSensitive line\<rparr>"

text \<open>The chunk list of the loop; its last element is \<^verbatim>\<open>current\<close>.\<close>

fun chunk_loop :: "diffFileChunk list \<Rightarrow> string list \<Rightarrow> diffFileChunk list" where
  "chunk_loop chunks [] = chunks"
| "chunk_loop chunks (line # lines) =
     (if isChunkStart line \<or> chunks = [] then chunk_loop (chunks @ [new_chunk line]) lines
      else
        let cur = last chunks;
            cur1 = cur\<lparr>otherLines := otherLines cur @ [line]\<rparr>;
            cur2 = (if \<not> isSensitive cur1 \<and> checkDiffLineSensitive line then cur1\<lparr>isSensitive := True\<rparr> else cur1)
        in chunk_loop (butlast chunks @ [cur2]) lines)"

definition redaction :: string where
  "redaction = ''[diff contents redacted: sensitive file in privacy denylist]''"

definition chunk_output :: "diffFileChunk \<Rightarrow> string list" where
  "chunk_output ch = firstLine ch # (if isSensitive ch then [redaction] else otherLines ch)"

definition filterDiffOutput :: "string \<Rightarrow> string" where
  "filterDiffOutput diff =
     join_with [CHR 0x0A] (concat (map chunk_output (chunk_loop [] (split_char (CHR 0x0A) diff))))"

section \<open>What is shown and what is not\<close>

text \<open>The reference: cut the lines at every line that starts a chunk, then redact each group on its own.\<close>

function diff_groups :: "string list \<Rightarrow> string list list" where
  "diff_groups [] = []"
| "diff_groups (l # ls) = (l # takeWhile (\<lambda>x. \<not> isChunkStart x) ls) # diff_groups (dropWhile (\<lambda>x. \<not> isChunkStart x) ls)"
  by pat_completeness auto
termination
  by (relation "measure length") (auto simp: le_imp_less_Suc length_dropWhile_le)

definition redact_group :: "string list \<Rightarrow> string list" where
  "redact_group g = (if list_ex checkDiffLineSensitive g then [hd g, redaction] else g)"

definition chunk_of :: "string list \<Rightarrow> diffFileChunk" where
  "chunk_of g = \<lparr>firstLine = hd g, otherLines = tl g, isSensitive = list_ex checkDiffLineSensitive g\<rparr>"

lemma chunk_of_output: "g \<noteq> [] \<Longrightarrow> chunk_output (chunk_of g) = redact_group g"
  by (simp add: chunk_output_def chunk_of_def redact_group_def)

lemma chunk_of_new: "new_chunk l = chunk_of [l]"
  by (simp add: new_chunk_def chunk_of_def)

lemma chunk_loop_groups:
  "g \<noteq> [] \<Longrightarrow> chunk_loop (pre @ [chunk_of g]) ls
     = pre @ chunk_of (g @ takeWhile (\<lambda>x. \<not> isChunkStart x) ls) # map chunk_of (diff_groups (dropWhile (\<lambda>x. \<not> isChunkStart x) ls))"
proof (induction ls arbitrary: pre g)
  case (Cons l ls)
  show ?case
  proof (cases "isChunkStart l")
    case True
    then show ?thesis using Cons.IH [of "[l]" "pre @ [chunk_of g]"] by (simp add: chunk_of_new)
  next
    case False
    have "chunk_loop (pre @ [chunk_of g]) (l # ls) = chunk_loop (pre @ [chunk_of (g @ [l])]) ls"
      using False Cons.prems by (auto simp: chunk_of_def Let_def)
    then show ?thesis using False Cons.IH [of "g @ [l]" pre] by simp
  qed
qed simp

lemma filter_reference:
  "filterDiffOutput d = join_with [CHR 0x0A] (concat (map redact_group (diff_groups (split_char (CHR 0x0A) d))))"
proof -
  have "chunk_loop [] ls = map chunk_of (diff_groups ls)" for ls
    using chunk_loop_groups [of "[hd ls]" "[]" "tl ls"] by (cases ls) (simp_all add: chunk_of_new)
  moreover have "g \<in> set (diff_groups ls) \<Longrightarrow> g \<noteq> []" for g ls
    by (induction ls rule: diff_groups.induct) auto
  ultimately have "map chunk_output (chunk_loop [] ls) = map redact_group (diff_groups ls)" for ls
    by (simp add: chunk_of_output)
  then show ?thesis by (simp add: filterDiffOutput_def)
qed

lemma diff_groups_concat: "concat (diff_groups ls) = ls"
  by (induction ls rule: diff_groups.induct) (simp_all add: takeWhile_dropWhile_id)

lemma diff_groups_heads: "g \<in> set (diff_groups ls) \<Longrightarrow> g \<noteq> [] \<and> list_all (\<lambda>l. \<not> isChunkStart l) (tl g)"
proof (induction ls rule: diff_groups.induct)
  case (2 l ls)
  have "list_all (\<lambda>l. \<not> isChunkStart l) (takeWhile (\<lambda>x. \<not> isChunkStart x) ls)"
    unfolding list_all_iff by (metis set_takeWhileD)
  then show ?case using 2 by fastforce
qed simp

lemma diff_groups_parts: "g \<in> set (diff_groups ls) \<Longrightarrow> set g \<subseteq> set ls"
  using diff_groups_concat [of ls] by (metis UN_upper set_concat)


text \<open>A file of the deny list does not show its contents: for every path without white space and quotes that is on the deny
  list, the diff of that file, whatever its lines are, is reduced to its header and the notice.\<close>

theorem denied_file_redacted:
  assumes "IsFileDenylisted x" and "x \<noteq> []" and "\<forall>c \<in> set x. \<not> is_space c \<and> c \<noteq> CHR 0x22 \<and> c \<noteq> CHR 0x5C"
    and "header = ''diff --git a/'' @ x @ '' b/'' @ x" and "\<forall>l \<in> set body. \<not> isChunkStart l \<and> CHR 0x0A \<notin> set l"
  shows "filterDiffOutput (join_with [CHR 0x0A] (header # body)) = header @ CHR 0x0A # redaction"
proof -
  let ?a = "''a/'' @ x" and ?b = "''b/'' @ x"
  have plain: "\<not> is_space c \<and> c \<noteq> CHR 0x22 \<and> c \<noteq> CHR '' '' \<and> c \<noteq> CHR 0x09" if "c \<in> set ?a \<union> set ?b" for c
    using that assms(3) by (auto simp: is_space_def)
  have tok: "token_loop False cur toks (w @ rest) = token_loop False (cur @ w) toks rest"
    if "\<forall>c \<in> set w. c \<noteq> CHR 0x22 \<and> c \<noteq> CHR '' '' \<and> c \<noteq> CHR 0x09" for w cur toks rest
    using that by (induction w arbitrary: cur) auto
  have noends: "trim_space w = w" if "w \<noteq> []" "\<not> is_space (hd w)" "\<not> is_space (last w)" for w
  proof -
    have "dropWhile is_space w = w" using that(2) by (simp add: dropWhile_eq_self_iff)
    moreover have "dropWhile is_space (rev w) = rev w" using that(1,3) by (simp add: dropWhile_eq_self_iff hd_rev)
    ultimately show ?thesis by (simp add: trim_space_def trim_right_by_def)
  qed
  have lastx: "\<not> is_space (last x)" using assms(2,3) last_in_set by blast
  have h: "trim_space header = header" using assms(2) lastx by (intro noends) (auto simp: assms(4) is_space_def)
  have ab: "trim_space (?a @ '' '' @ ?b) = ?a @ '' '' @ ?b" using assms(2) lastx by (intro noends) (auto simp: is_space_def)
  have "tokenizeGitLine (?a @ '' '' @ ?b) = token_loop False ?a [] ('' '' @ ?b)"
    unfolding tokenizeGitLine_def ab using tok [of ?a "[]" "[]" "'' '' @ ?b"] plain by simp
  also have "\<dots> = token_loop False [] [?a] ?b" by simp
  also have "\<dots> = [?a, ?b]" using tok [of ?b "[]" "[?a]" "[]"] plain by simp
  finally have toks: "tokenizeGitLine (?a @ '' '' @ ?b) = [?a, ?b]" .
  have hd: "header = ''diff --git '' @ (?a @ '' '' @ ?b)" by (simp add: assms(4))
  have paths: "extractDiffGitPaths header = [?a, ?b]"
    unfolding extractDiffGitPaths_def hd trim_prefix_append toks by simp
  have sens: "isDiffPathSensitive ?a"
  proof -
    have t: "trim_space ?a = ?a" using assms(2) lastx by (intro noends) (auto simp: is_space_def)
    have "cleanGitDiffPath ?a = Clean x"
      unfolding cleanGitDiffPath_def Let_def t by (simp add: has_prefix_def trim_prefix_def)
    then show ?thesis unfolding isDiffPathSensitive_def Let_def t
      using assms(1) by (simp add: IsFileDenylisted_def)
  qed
  have "has_prefix header ''diff --git ''" unfolding hd by (rule has_prefix_append)
  then have check: "checkDiffLineSensitive header"
    unfolding checkDiffLineSensitive_def Let_def h paths using sens by (auto simp: hd)
  have nl: "\<forall>l \<in> set (header # body). CHR 0x0A \<notin> set l"
    using assms(3,5) by (auto simp: assms(4) is_space_def)
  have tw: "takeWhile (\<lambda>l. \<not> isChunkStart l) body = body" "dropWhile (\<lambda>l. \<not> isChunkStart l) body = []"
    using assms(5) by (auto simp: takeWhile_eq_all_conv dropWhile_eq_Nil_conv)
  show ?thesis
    unfolding filter_reference split_join [OF list.distinct(2) nl] using check by (simp add: tw redact_group_def)
qed


theorem denied_file_redacted_witness:
  "filterDiffOutput (join_with [CHR 0x0A] [''diff --git a/.env b/.env'', ''+KEY=1'']) = ''diff --git a/.env b/.env'' @ CHR 0x0A # redaction"
proof -
  have "IsFileDenylisted ''.env''" "\<forall>c \<in> set ''.env''. \<not> is_space c \<and> c \<noteq> CHR 0x22 \<and> c \<noteq> CHR 0x5C" "\<not> isChunkStart ''+KEY=1''" by code_simp+
  with denied_file_redacted [of "''.env''" _ "[''+KEY=1'']"] show ?thesis by simp
qed

end
