(* ===== verification/Redactor.thy ===== *)
theory Redactor
  imports Prelude
begin

text \<open>
  The redactor of \<^verbatim>\<open>internal/probe/probe.go\<close>: ten regular expressions whose matches are replaced one expression after the
  other.  The expressions are sequences of classes, bounded repetitions of a class, alternatives and word boundaries; matching
  is Go's leftmost-first search, in which a repetition prefers the longest choice that lets the rest match.  Go's case folding of
  \<^verbatim>\<open>k\<close> and \<^verbatim>\<open>s\<close> to the Kelvin sign and the long s is outside the ASCII model of case.
\<close>

section \<open>Regular expressions\<close>

datatype rx =
    Cls "char \<Rightarrow> bool"
  | Rep "char \<Rightarrow> bool" nat "nat option"
  | Alts "(char \<Rightarrow> bool) list list"
  | Bound

fun first_some :: "('a \<Rightarrow> 'b option) \<Rightarrow> 'a list \<Rightarrow> 'b option" where
  "first_some f [] = None"
| "first_some f (x # xs) = (case f x of None \<Rightarrow> first_some f xs | Some y \<Rightarrow> Some y)"

definition in_range :: "char \<Rightarrow> char \<Rightarrow> char \<Rightarrow> bool" where
  "in_range a b c \<longleftrightarrow> char_code a \<le> char_code c \<and> char_code c \<le> char_code b"

definition rx_digit :: "char \<Rightarrow> bool" where
  "rx_digit c \<longleftrightarrow> in_range (CHR ''0'') (CHR ''9'') c"

definition rx_alnum :: "char \<Rightarrow> bool" where
  "rx_alnum c \<longleftrightarrow> in_range (CHR ''a'') (CHR ''z'') c \<or> in_range (CHR ''A'') (CHR ''Z'') c \<or> rx_digit c"

definition rx_word :: "char \<Rightarrow> bool" where
  "rx_word c \<longleftrightarrow> rx_alnum c \<or> c = CHR ''_''"

definition rx_space :: "char \<Rightarrow> bool" where
  "rx_space c \<longleftrightarrow> c \<in> {CHR 0x09, CHR 0x0A, CHR 0x0C, CHR 0x0D, CHR '' ''}"

definition rx_key :: "char \<Rightarrow> bool" where
  "rx_key c \<longleftrightarrow> rx_word c \<or> c = CHR ''-''"

definition rx_dotkey :: "char \<Rightarrow> bool" where
  "rx_dotkey c \<longleftrightarrow> rx_key c \<or> c = CHR ''.''"

definition word_at :: "char option \<Rightarrow> bool" where
  "word_at p = (case p of None \<Rightarrow> False | Some c \<Rightarrow> rx_word c)"

definition head_of :: "string \<Rightarrow> char option" where
  "head_of s = (case s of [] \<Rightarrow> None | c # _ \<Rightarrow> Some c)"

definition prev_after :: "char option \<Rightarrow> string \<Rightarrow> nat \<Rightarrow> char option" where
  "prev_after p s n = (if n = 0 then p else Some (s ! (n - 1)))"

text \<open>The length of the preferred match at the front of \<open>s\<close>, where \<open>p\<close> is the character before it.\<close>

fun rx_first :: "rx list \<Rightarrow> char option \<Rightarrow> string \<Rightarrow> nat option" where
  "rx_first [] p s = Some 0"
| "rx_first (Cls c # r) p s =
     (case s of [] \<Rightarrow> None | x # xs \<Rightarrow> if c x then map_option Suc (rx_first r (Some x) xs) else None)"
| "rx_first (Rep c mn mx # r) p s =
     (let k = length (takeWhile c s); top = (case mx of None \<Rightarrow> k | Some m \<Rightarrow> min m k) in
      first_some (\<lambda>n. map_option ((+) n) (rx_first r (prev_after p s n) (drop n s))) (rev [mn ..< Suc top]))"
| "rx_first (Alts css # r) p s =
     first_some (\<lambda>cs. if length cs \<le> length s \<and> list_all2 (\<lambda>c x. c x) cs (take (length cs) s)
        then map_option ((+) (length cs)) (rx_first r (prev_after p s (length cs)) (drop (length cs) s)) else None) css"
| "rx_first (Bound # r) p s = (if word_at p \<noteq> word_at (head_of s) then rx_first r p s else None)"

text \<open>\<^verbatim>\<open>ReplaceAllString\<close> for an expression that does not match the empty string.\<close>

function replace_rx :: "rx list \<Rightarrow> string \<Rightarrow> char option \<Rightarrow> string \<Rightarrow> string" where
  "replace_rx r new p [] = []"
| "replace_rx r new p (c # s) =
     (case rx_first r p (c # s) of
        Some (Suc n) \<Rightarrow> new @ replace_rx r new (prev_after p (c # s) (Suc n)) (drop n s)
      | _ \<Rightarrow> c # replace_rx r new (Some c) s)"
  by pat_completeness auto
termination
  by (relation "measure (\<lambda>(r, new, p, s). length s)") auto

section \<open>The patterns\<close>

definition lit :: "string \<Rightarrow> rx list" where
  "lit w = map (\<lambda>c. Cls ((=) c)) w"

definition lit_ci :: "string \<Rightarrow> rx list" where
  "lit_ci w = map (\<lambda>c. Cls (\<lambda>x. lower_char x = lower_char c)) w"

definition rx_octet :: "rx" where
  "rx_octet = Rep rx_digit 1 (Some 3)"

definition ip_patterns :: "rx list list" where
  "ip_patterns =
    [Bound # lit ''10.'' @ rx_octet # lit ''.'' @ rx_octet # lit ''.'' @ [rx_octet, Bound],
     Bound # lit ''192.168.'' @ rx_octet # lit ''.'' @ [rx_octet, Bound],
     Bound # lit ''172.'' @ Alts [[(=) (CHR ''1''), in_range (CHR ''6'') (CHR ''9'')], [(=) (CHR ''2''), rx_digit],
        [(=) (CHR ''3''), in_range (CHR ''0'') (CHR ''1'')]] # lit ''.'' @ rx_octet # lit ''.'' @ [rx_octet, Bound]]"

definition key_patterns :: "rx list list" where
  "key_patterns =
    [lit_ci ''sk-proj-'' @ [Rep rx_key 20 None],
     lit_ci ''sk-'' @ [Rep rx_alnum 20 None],
     lit_ci ''ghp_'' @ [Rep rx_alnum 20 None],
     lit_ci ''github_pat_'' @ [Rep rx_word 22 None],
     lit_ci ''AKIA'' @ [Rep rx_alnum 16 (Some 16)],
     lit_ci ''bearer'' @ [Rep rx_space 1 None, Rep rx_dotkey 20 None]]"

definition jwt_pattern :: "rx list" where
  "jwt_pattern = Bound # lit ''eyJ'' @ Rep rx_key 10 None # lit ''.'' @ Rep rx_key 10 None # lit ''.'' @ [Rep rx_key 10 None, Bound]"

definition NewDefaultRedactor :: "rx list list" where
  "NewDefaultRedactor = ip_patterns @ key_patterns @ [jwt_pattern]"

definition redacted :: string where "redacted = ''[REDACTED]''"

definition redact_with :: "rx list list \<Rightarrow> string \<Rightarrow> string" where
  "redact_with ps s = foldl (\<lambda>res p. replace_rx p redacted None res) s ps"

definition Redact :: "string \<Rightarrow> string" where
  "Redact s = redact_with NewDefaultRedactor s"

definition MaxAnswerBytes :: nat where "MaxAnswerBytes = 16384"

definition TruncateAnswer :: "string \<Rightarrow> string" where
  "TruncateAnswer ans =
     (if length ans \<le> MaxAnswerBytes then ans else take MaxAnswerBytes ans @ '' [truncated by TalkIntent daemon]'')"

section \<open>What a pattern without word boundaries matches\<close>

fun rx_lang :: "rx list \<Rightarrow> string \<Rightarrow> bool" where
  "rx_lang [] w = (w = [])"
| "rx_lang (Cls c # r) w = (case w of [] \<Rightarrow> False | x # v \<Rightarrow> c x \<and> rx_lang r v)"
| "rx_lang (Rep c mn mx # r) w =
     (\<exists>u v. w = u @ v \<and> list_all c u \<and> mn \<le> length u \<and> (\<forall>m. mx = Some m \<longrightarrow> length u \<le> m) \<and> rx_lang r v)"
| "rx_lang (Alts css # r) w = (\<exists>cs \<in> set css. \<exists>u v. w = u @ v \<and> list_all2 (\<lambda>c x. c x) cs u \<and> rx_lang r v)"
| "rx_lang (Bound # r) w = rx_lang r w"

lemma first_some_None: "first_some f xs = None \<longleftrightarrow> (\<forall>x \<in> set xs. f x = None)"
  by (induction xs) (auto split: option.splits)

lemma first_some_Some: "first_some f xs = Some y \<Longrightarrow> \<exists>x \<in> set xs. f x = Some y"
  by (induction xs) (auto split: option.splits)

lemma takeWhile_all: "list_all c u \<Longrightarrow> length u \<le> length (takeWhile c (u @ v))"
  by (induction u) auto

lemma take_takeWhile_all: "n \<le> length (takeWhile c s) \<Longrightarrow> list_all c (take n s)"
  by (induction s arbitrary: n) (auto simp: list_all_iff split: if_splits; case_tac n; auto)+

text \<open>A match is a word of the language, and a pattern without boundaries finds a match whenever a word is there.\<close>

lemma rx_first_sound: "rx_first r p s = Some n \<Longrightarrow> n \<le> length s \<and> rx_lang r (take n s)"
proof (induction r p s arbitrary: n rule: rx_first.induct)
  case (2 c r p s)
  then show ?case by (cases s) (auto split: if_splits)
next
  case (3 c mn mx r p s)
  define top where "top = (case mx of None \<Rightarrow> length (takeWhile c s) | Some m \<Rightarrow> min m (length (takeWhile c s)))"
  obtain k where k: "k \<in> set (rev [mn ..< Suc top])"
      "map_option ((+) k) (rx_first r (prev_after p s k) (drop k s)) = Some n"
    using first_some_Some [OF "3.prems" [unfolded rx_first.simps Let_def, folded top_def]] by blast
  then obtain j where j: "rx_first r (prev_after p s k) (drop k s) = Some j" "n = k + j" by auto
  have kt: "mn \<le> k" "k \<le> length (takeWhile c s)" "\<forall>m. mx = Some m \<longrightarrow> k \<le> m"
    using k(1) by (auto simp: top_def split: option.splits)
  have "j \<le> length (drop k s) \<and> rx_lang r (take j (drop k s))"
    by (rule "3.IH" [OF refl refl]) (use j k(1) in \<open>simp_all add: top_def\<close>)
  moreover have "k \<le> length s" using kt(2) length_takeWhile_le order_trans by blast
  moreover have "take n s = take k s @ take j (drop k s)" by (simp add: j(2) take_add)
  moreover have "rx_lang (Rep c mn mx # r) (take k s @ take j (drop k s))" if "rx_lang r (take j (drop k s))"
    unfolding rx_lang.simps
    by (rule exI [of _ "take k s"], rule exI [of _ "take j (drop k s)"]) (use kt take_takeWhile_all [OF kt(2)] that \<open>k \<le> length s\<close> in auto)
  ultimately show ?case unfolding j(2) by (simp del: rx_lang.simps) linarith
next
  case (4 css r p s)
  obtain cs where cs: "cs \<in> set css" "length cs \<le> length s" "list_all2 (\<lambda>c x. c x) cs (take (length cs) s)"
      "map_option ((+) (length cs)) (rx_first r (prev_after p s (length cs)) (drop (length cs) s)) = Some n"
    using first_some_Some [OF "4.prems" [unfolded rx_first.simps]] by (auto split: if_splits)
  then obtain j where j: "rx_first r (prev_after p s (length cs)) (drop (length cs) s) = Some j" "n = length cs + j" by auto
  with "4.IH" cs have "j \<le> length (drop (length cs) s) \<and> rx_lang r (take j (drop (length cs) s))" by blast
  moreover have "take n s = take (length cs) s @ take j (drop (length cs) s)" by (simp add: j(2) take_add)
  ultimately show ?case using cs by (auto simp: j(2))
qed (auto split: if_splits)

fun plain_rx :: "rx \<Rightarrow> bool" where
  "plain_rx Bound = False"
| "plain_rx _ = True"

lemma rx_first_complete:
  "list_all plain_rx r \<Longrightarrow> rx_lang r w \<Longrightarrow> rx_first r p (w @ v) \<noteq> None"
proof (induction r arbitrary: p w)
  case (Cons a r)
  show ?case
  proof (cases a)
    case (Cls c)
    with Cons show ?thesis by (cases w) auto
  next
    case (Rep c mn mx)
    with Cons.prems obtain u x where u: "w = u @ x" "list_all c u" "mn \<le> length u" "\<forall>m. mx = Some m \<longrightarrow> length u \<le> m" "rx_lang r x"
      by auto
    have "length u \<in> set (rev [mn ..< Suc (case mx of None \<Rightarrow> length (takeWhile c (w @ v)) | Some m \<Rightarrow> min m (length (takeWhile c (w @ v))))])"
      using u(1,3,4) takeWhile_all [OF u(2), of "x @ v"] by (auto split: option.split)
    moreover have "rx_first r (prev_after p (w @ v) (length u)) (drop (length u) (w @ v)) \<noteq> None"
      using Cons.IH [OF _ u(5)] Cons.prems(1) by (simp add: u(1))
    ultimately show ?thesis unfolding Rep rx_first.simps Let_def first_some_None by (metis option.map_disc_iff)
  next
    case (Alts css)
    with Cons.prems obtain cs u x where u: "cs \<in> set css" "w = u @ x" "list_all2 (\<lambda>c x. c x) cs u" "rx_lang r x" by auto
    then have l: "length cs = length u" by (simp add: list_all2_lengthD)
    moreover have "rx_first r (prev_after p (w @ v) (length u)) (drop (length u) (w @ v)) \<noteq> None"
      using Cons.IH [OF _ u(4)] Cons.prems(1) by (simp add: u(2))
    ultimately show ?thesis using u unfolding Alts rx_first.simps first_some_None by force
  qed (use Cons.prems in simp)
qed simp

section \<open>Redaction leaves no key\<close>

text \<open>The shape of a key, read off the comments of the source: a known prefix in any case and a long enough tail.\<close>

definition key_shaped :: "string \<Rightarrow> bool" where
  "key_shaped w \<longleftrightarrow> (\<exists>pre tl. w = pre @ tl \<and>
     ((to_lower pre = ''sk-proj-'' \<and> list_all rx_key tl \<and> length tl \<ge> 20)
    \<or> (to_lower pre = ''sk-'' \<and> list_all rx_alnum tl \<and> length tl \<ge> 20)
    \<or> (to_lower pre = ''ghp_'' \<and> list_all rx_alnum tl \<and> length tl \<ge> 20)
    \<or> (to_lower pre = ''github_pat_'' \<and> list_all rx_word tl \<and> length tl \<ge> 22)
    \<or> (to_lower pre = ''akia'' \<and> list_all rx_alnum tl \<and> length tl = 16)
    \<or> (\<exists>b sp. pre = b @ sp \<and> to_lower b = ''bearer'' \<and> sp \<noteq> [] \<and> list_all rx_space sp \<and> list_all rx_dotkey tl \<and> length tl \<ge> 20)))"

lemma rx_lang_lit_ci: "rx_lang (lit_ci l @ r) w \<longleftrightarrow> (\<exists>u v. w = u @ v \<and> to_lower u = to_lower l \<and> rx_lang r v)"
proof (induction l arbitrary: w)
  case Nil
  then show ?case by (simp add: lit_ci_def to_lower_def)
next
  case (Cons c l)
  have "rx_lang (lit_ci (c # l) @ r) w \<longleftrightarrow> (\<exists>x v. w = x # v \<and> lower_char x = lower_char c \<and> rx_lang (lit_ci l @ r) v)"
    by (cases w) (auto simp: lit_ci_def)
  also have "\<dots> \<longleftrightarrow> (\<exists>u v. w = u @ v \<and> to_lower u = to_lower (c # l) \<and> rx_lang r v)"
    unfolding Cons.IH by (auto simp: to_lower_def map_eq_Cons_conv) (metis append_Cons)+
  finally show ?case .
qed

lemma rx_lang_tail: "rx_lang [Rep c n mx] w \<longleftrightarrow> list_all c w \<and> n \<le> length w \<and> (\<forall>m. mx = Some m \<longrightarrow> length w \<le> m)"
  by auto

lemma split_thrice:
  "(\<exists>u v. w = u @ v \<and> P u \<and> (\<exists>x y. v = x @ y \<and> Q x y)) \<longleftrightarrow> (\<exists>u v. w = u @ v \<and> (\<exists>x y. u = x @ y \<and> P x \<and> Q y v))"
  by (intro iffI; elim exE conjE) (metis append.assoc)+

lemma key_lang: "(\<exists>q \<in> set key_patterns. rx_lang q w) \<longleftrightarrow> key_shaped w"
proof -
  have l: "to_lower ''AKIA'' = ''akia''" "to_lower ''sk-proj-'' = ''sk-proj-''" "to_lower ''sk-'' = ''sk-''" "to_lower ''ghp_'' = ''ghp_''"
    "to_lower ''github_pat_'' = ''github_pat_''" "to_lower ''bearer'' = ''bearer''" by code_simp+
  have b: "rx_lang [Rep rx_space 1 None, Rep rx_dotkey 20 None] v
      \<longleftrightarrow> (\<exists>sp tl. v = sp @ tl \<and> sp \<noteq> [] \<and> list_all rx_space sp \<and> list_all rx_dotkey tl \<and> 20 \<le> length tl)" for v
    unfolding rx_lang.simps(3) [of _ _ _ "[_]"] rx_lang_tail by (simp add: Suc_le_eq) blast
  have one: "rx_lang (lit_ci l @ [Rep c n None]) w \<longleftrightarrow> (\<exists>u v. w = u @ v \<and> to_lower u = to_lower l \<and> list_all c v \<and> length v \<ge> n)" for l c n
    unfolding rx_lang_lit_ci rx_lang_tail by simp
  have akia: "rx_lang (lit_ci l @ [Rep c n (Some n)]) w \<longleftrightarrow> (\<exists>u v. w = u @ v \<and> to_lower u = to_lower l \<and> list_all c v \<and> length v = n)" for l c n
    unfolding rx_lang_lit_ci rx_lang_tail by (simp add: le_antisym) (metis le_antisym le_refl)
  have bearer: "rx_lang (lit_ci ''bearer'' @ [Rep rx_space 1 None, Rep rx_dotkey 20 None]) w \<longleftrightarrow> (\<exists>pre tl. w = pre @ tl \<and>
      (\<exists>b sp. pre = b @ sp \<and> to_lower b = ''bearer'' \<and> sp \<noteq> [] \<and> list_all rx_space sp \<and> list_all rx_dotkey tl \<and> length tl \<ge> 20))"
    unfolding rx_lang_lit_ci b l(6) by (rule split_thrice)
  show ?thesis
    unfolding key_patterns_def key_shaped_def conj_disj_distribL ex_disj_distrib list.set bex_simps(5,7) one akia bearer l
    by simp
qed

text \<open>The mark is in brackets, which no key contains: what has no brackets in the output was in the input.\<close>

definition no_bracket :: "string \<Rightarrow> bool" where
  "no_bracket w \<longleftrightarrow> CHR ''['' \<notin> set w \<and> CHR '']'' \<notin> set w"

definition infix_of :: "string \<Rightarrow> string \<Rightarrow> bool" where
  "infix_of w s \<longleftrightarrow> (\<exists>a b. s = a @ w @ b)"

text \<open>The two cases of the scan, as one rule.\<close>

lemma replace_rx_cases:
  obtains n where "rx_first r p (c # s) = Some (Suc n)"
      "replace_rx r new p (c # s) = new @ replace_rx r new (prev_after p (c # s) (Suc n)) (drop n s)"
  | "rx_first r p (c # s) = None \<or> rx_first r p (c # s) = Some 0" "replace_rx r new p (c # s) = c # replace_rx r new (Some c) s"
  by (cases "rx_first r p (c # s)"; cases "the (rx_first r p (c # s))") auto

lemma replace_prefix: "replace_rx r redacted p s = w @ b \<Longrightarrow> no_bracket w \<Longrightarrow> \<exists>v. s = w @ v"
proof (induction s arbitrary: p w)
  case (Cons c s)
  show ?case
  proof (cases w)
    case (Cons x w')
    show ?thesis
    proof (rule replace_rx_cases [of r p c s redacted])
      fix n
      assume "replace_rx r redacted p (c # s) = redacted @ replace_rx r redacted (prev_after p (c # s) (Suc n)) (drop n s)"
      then have "x = CHR ''[''" using Cons.prems(1) \<open>w = x # w'\<close> by (simp add: redacted_def)
      then show ?thesis using Cons.prems(2) \<open>w = x # w'\<close> by (simp add: no_bracket_def)
    next
      assume "replace_rx r redacted p (c # s) = c # replace_rx r redacted (Some c) s"
      then have "c = x" "replace_rx r redacted (Some c) s = w' @ b" "no_bracket w'"
        using Cons.prems \<open>w = x # w'\<close> by (auto simp: no_bracket_def)
      then show ?thesis using Cons.IH [of "Some c" w'] \<open>w = x # w'\<close> by auto
    qed
  qed simp
qed simp

lemma infix_after_mark:
  assumes "infix_of w (redacted @ s)" and "no_bracket w" and "length w > 8"
  shows "infix_of w s"
proof -
  obtain a b where ab: "redacted @ s = a @ w @ b" using assms(1) by (auto simp: infix_of_def)
  show ?thesis
  proof (cases "length a \<ge> 10")
    case True
    then have "s = drop 10 a @ w @ b" using arg_cong [OF ab, of "drop 10"] by (simp add: redacted_def)
    then show ?thesis by (auto simp: infix_of_def)
  next
    case False
    define i where "i = (if length a = 0 then 0 else 9 - length a)"
    have w: "i < length w" using False assms(3) by (cases a) (auto simp: i_def)
    have "w ! i = redacted ! (length a + i)"
      using arg_cong [OF ab, of "\<lambda>x. x ! (length a + i)"] w False
      by (auto simp: nth_append i_def redacted_def split: if_splits)
    moreover have "redacted ! (length a + i) = CHR ''['' \<or> redacted ! (length a + i) = CHR '']''"
      using False by (auto simp: i_def redacted_def)
    ultimately have "\<not> no_bracket w" using w nth_mem [of i w] by (auto simp: no_bracket_def)
    with assms(2) show ?thesis by simp
  qed
qed

lemma infix_of_Cons: "infix_of w s \<Longrightarrow> infix_of w (c # s)"
  by (auto simp: infix_of_def) (metis append_Cons)

lemma infix_of_drop: "infix_of w (drop n s) \<Longrightarrow> infix_of w s"
  by (auto simp: infix_of_def) (metis append.assoc append_take_drop_id)

lemma infix_of_ConsE:
  assumes "infix_of w (c # s)"
  shows "(\<exists>b. c # s = w @ b) \<or> infix_of w s"
  using assms by (auto simp: infix_of_def) (metis append_eq_Cons_conv)

lemma replace_infix:
  "infix_of w (replace_rx r redacted p s) \<Longrightarrow> no_bracket w \<Longrightarrow> length w > 8 \<Longrightarrow> infix_of w s"
proof (induction "length s" arbitrary: p s rule: less_induct)
  case less
  show ?case
  proof (cases s)
    case (Cons c s')
    show ?thesis
    proof (rule replace_rx_cases [of r p c s' redacted])
      fix n
      assume "replace_rx r redacted p (c # s') = redacted @ replace_rx r redacted (prev_after p (c # s') (Suc n)) (drop n s')"
      then have "infix_of w (drop n s')" using less infix_after_mark Cons by (metis drop_Suc_Cons length_drop diff_less_Suc length_Cons less_imp_diff_less not_less_eq)
      then show ?thesis using infix_of_drop infix_of_Cons Cons by blast
    next
      assume r: "replace_rx r redacted p (c # s') = c # replace_rx r redacted (Some c) s'"
      from less.prems(1) Cons r have "(\<exists>b. replace_rx r redacted p (c # s') = w @ b) \<or> infix_of w (replace_rx r redacted (Some c) s')"
        using infix_of_ConsE [of w c "replace_rx r redacted (Some c) s'"] by simp
      then show ?thesis
      proof
        assume "\<exists>b. replace_rx r redacted p (c # s') = w @ b"
        then obtain v where "c # s' = w @ v" using replace_prefix less.prems(2) by blast
        then show ?thesis unfolding Cons infix_of_def by (intro exI [of _ "[]"] exI [of _ v]) simp
      next
        assume "infix_of w (replace_rx r redacted (Some c) s')"
        then show ?thesis using less Cons infix_of_Cons by auto
      qed
    qed
  qed (use less in simp)
qed

text \<open>What a plain pattern matches is gone after its own pass.\<close>

definition markless :: "rx list \<Rightarrow> bool" where
  "markless q \<longleftrightarrow> list_all plain_rx q \<and> (\<forall>w. rx_lang q w \<longrightarrow> no_bracket w \<and> length w > 8)"

lemma replace_removes:
  "markless q \<Longrightarrow> rx_lang q w \<Longrightarrow> \<not> infix_of w (replace_rx q redacted p s)"
proof (induction "length s" arbitrary: p s rule: less_induct)
  case less
  then have w: "no_bracket w" "length w > 8" by (auto simp: markless_def)
  show ?case
  proof (cases s)
    case Nil
    then show ?thesis using w by (auto simp: infix_of_def)
  next
    case (Cons c s')
    show ?thesis
    proof (rule replace_rx_cases [of q p c s' redacted])
      fix n
      assume "replace_rx q redacted p (c # s') = redacted @ replace_rx q redacted (prev_after p (c # s') (Suc n)) (drop n s')"
      then show ?thesis using less Cons infix_after_mark w
        by (metis length_drop diff_less_Suc length_Cons less_imp_diff_less not_less_eq)
    next
      assume none: "rx_first q p (c # s') = None \<or> rx_first q p (c # s') = Some 0"
        and r: "replace_rx q redacted p (c # s') = c # replace_rx q redacted (Some c) s'"
      have "\<nexists>b. replace_rx q redacted p (c # s') = w @ b"
      proof
        assume "\<exists>b. replace_rx q redacted p (c # s') = w @ b"
        then obtain v where v: "c # s' = w @ v" using replace_prefix w(1) by blast
        have "rx_first q p (w @ v) \<noteq> None" using less.prems by (intro rx_first_complete) (auto simp: markless_def)
        with none v have "rx_lang q []" using rx_first_sound [of q p "c # s'" 0] by auto
        then show False using less.prems(1) by (auto simp: markless_def)
      qed
      then show ?thesis using infix_of_ConsE [of w c "replace_rx q redacted (Some c) s'"] less Cons r by auto
    qed
  qed
qed

lemma redact_removes:
  assumes "q \<in> set ps" and "markless q" and "rx_lang q w"
  shows "\<not> infix_of w (redact_with ps s)"
  using assms(1)
proof (induction ps arbitrary: s)
  case (Cons p ps)
  have w: "no_bracket w" "length w > 8" using assms(2,3) by (auto simp: markless_def)
  have keep: "infix_of w (redact_with ps x) \<Longrightarrow> infix_of w x" for x
    by (induction ps arbitrary: x) (auto simp: redact_with_def dest: replace_infix [OF _ w])
  show ?case
  proof (cases "q \<in> set ps")
    case True
    then show ?thesis using Cons.IH by (simp add: redact_with_def)
  next
    case False
    then have "redact_with (p # ps) s = redact_with ps (replace_rx q redacted None s)" using Cons.prems by (simp add: redact_with_def)
    then show ?thesis using keep replace_removes [OF assms(2,3)] by metis
  qed
qed simp

lemma key_chars:
  "list_all rx_alnum w \<Longrightarrow> no_bracket w" "list_all rx_word w \<Longrightarrow> no_bracket w" "list_all rx_key w \<Longrightarrow> no_bracket w"
  "list_all rx_dotkey w \<Longrightarrow> no_bracket w" "list_all rx_space w \<Longrightarrow> no_bracket w"
proof -
  have *: "list_all P w \<Longrightarrow> no_bracket w" if "\<not> P (CHR ''['')" "\<not> P (CHR '']'')" for P
    using that by (auto simp: no_bracket_def list_all_iff)
  have "\<not> rx_alnum (CHR ''['')" "\<not> rx_alnum (CHR '']'')" "\<not> rx_word (CHR ''['')" "\<not> rx_word (CHR '']'')"
    "\<not> rx_key (CHR ''['')" "\<not> rx_key (CHR '']'')" "\<not> rx_dotkey (CHR ''['')" "\<not> rx_dotkey (CHR '']'')"
    "\<not> rx_space (CHR ''['')" "\<not> rx_space (CHR '']'')" by code_simp+
  then show "list_all rx_alnum w \<Longrightarrow> no_bracket w" "list_all rx_word w \<Longrightarrow> no_bracket w" "list_all rx_key w \<Longrightarrow> no_bracket w"
    "list_all rx_dotkey w \<Longrightarrow> no_bracket w" "list_all rx_space w \<Longrightarrow> no_bracket w" using * by blast+
qed

lemma no_bracket_append [simp]: "no_bracket (u @ v) \<longleftrightarrow> no_bracket u \<and> no_bracket v"
  by (auto simp: no_bracket_def)

lemma no_bracket_lower: "no_bracket (to_lower w) \<Longrightarrow> no_bracket w"
proof -
  have "lower_char (CHR ''['') = CHR ''[''" "lower_char (CHR '']'') = CHR '']''" by code_simp+
  then show "no_bracket (to_lower w) \<Longrightarrow> no_bracket w"
    unfolding no_bracket_def to_lower_def set_map by (metis imageI)
qed

lemma key_shaped_tail:
  assumes "key_shaped w"
  shows "\<exists>u v. w = u @ v \<and> no_bracket u \<and> list_all rx_dotkey v \<and> length v \<ge> 16"
proof -
  have pre: "no_bracket u" if "to_lower u \<in> {''sk-proj-'', ''sk-'', ''ghp_'', ''github_pat_'', ''akia'', ''bearer''}" for u
    by (rule no_bracket_lower, use that in \<open>elim insertE emptyE\<close>) (simp_all add: no_bracket_def)
  have mono: "list_all rx_alnum v \<Longrightarrow> list_all rx_dotkey v" "list_all rx_word v \<Longrightarrow> list_all rx_dotkey v"
    "list_all rx_key v \<Longrightarrow> list_all rx_dotkey v" for v
    by (auto simp: list_all_iff rx_dotkey_def rx_key_def rx_word_def)
  show ?thesis
    using assms unfolding key_shaped_def
  proof (elim exE conjE disjE, goal_cases)
    case (6 u v b sp)
    then have "no_bracket b" "no_bracket sp" by (simp_all add: pre key_chars)
    with 6 show ?case by (intro exI [of _ u] exI [of _ v]) simp
  qed (use pre mono in \<open>auto simp del: no_bracket_append intro!: exI\<close>)
qed

lemma dotkey_no_space: "rx_dotkey c \<Longrightarrow> \<not> rx_space c"
  by (auto simp: rx_space_def rx_dotkey_def rx_key_def rx_word_def rx_alnum_def rx_digit_def in_range_def char_code_def)

lemma key_shaped_plain:
  assumes "key_shaped w"
  shows "no_bracket w \<and> length w > 8 \<and> \<not> rx_space (last w)"
proof -
  obtain u v where w: "w = u @ v" "no_bracket u" "list_all rx_dotkey v" "length v \<ge> 16" using key_shaped_tail [OF assms] by blast
  then have "v \<noteq> []" by auto
  with w have "\<not> rx_space (last w)" using dotkey_no_space by (auto simp: list_all_iff)
  with w show ?thesis using key_chars by simp
qed

lemma key_patterns_markless: "q \<in> set key_patterns \<Longrightarrow> markless q"
proof -
  assume q: "q \<in> set key_patterns"
  have "list_all plain_rx (lit_ci l)" for l by (simp add: lit_ci_def list_all_iff)
  then have "list_all plain_rx q" using q by (auto simp: key_patterns_def)
  moreover have "key_shaped w" if "rx_lang q w" for w using key_lang that q by blast
  ultimately show ?thesis unfolding markless_def using key_shaped_plain by blast
qed

definition key_free :: "string \<Rightarrow> bool" where
  "key_free s \<longleftrightarrow> (\<forall>w. infix_of w s \<longrightarrow> \<not> key_shaped w)"

lemma Redact_key_free [simp]: "key_free (Redact s)"
proof -
  have "\<not> infix_of w (Redact s)" if k: "key_shaped w" for w
  proof -
    obtain q where "q \<in> set key_patterns" "rx_lang q w" using key_lang k by blast
    then show ?thesis unfolding Redact_def by (intro redact_removes [of q]) (auto simp: NewDefaultRedactor_def key_patterns_markless)
  qed
  then show ?thesis by (auto simp: key_free_def)
qed

lemma infix_of_trans: "infix_of u v \<Longrightarrow> infix_of v w \<Longrightarrow> infix_of u w"
  unfolding infix_of_def by (metis append.assoc)

lemma key_free_take: "key_free s \<Longrightarrow> key_free (take n s)"
  unfolding key_free_def using infix_of_trans [of _ "take n s" s]
  by (metis append_Nil append_take_drop_id infix_of_def)

lemma infix_split:
  assumes "infix_of w (x @ c # y)" and "c \<notin> set w"
  shows "infix_of w x \<or> infix_of w y"
proof -
  obtain a b where "x @ c # y = a @ w @ b" using assms(1) by (auto simp: infix_of_def)
  then consider us where "x = a @ us" "us @ c # y = w @ b" | us where "x @ us = a" "c # y = us @ w @ b"
    by (auto simp: append_eq_append_conv2)
  then show ?thesis
  proof cases
    case 1
    then consider vs where "us = w @ vs" | vs where "us @ vs = w" "c # y = vs @ b" by (auto simp: append_eq_append_conv2)
    then show ?thesis
    proof cases
      case 1
      then show ?thesis using \<open>x = a @ us\<close> by (auto simp: infix_of_def)
    next
      case 2
      then have "vs = []" using assms(2) by (cases vs) auto
      then have "x = a @ w @ []" using 2 \<open>x = a @ us\<close> by simp
      then show ?thesis unfolding infix_of_def by blast
    qed
  next
    case 2
    then show ?thesis using assms(2) by (cases us; cases w) (auto simp: infix_of_def)
  qed
qed

lemma key_free_truncate:
  assumes "key_free s"
  shows "key_free (TruncateAnswer s)"
proof -
  let ?t = "''truncated by TalkIntent daemon''"
  have tail: "\<not> key_shaped w" if inf: "infix_of w (?t @ '']'')" for w
  proof
    assume "key_shaped w"
    then obtain u v where w: "w = u @ v" "list_all rx_dotkey v" "length v \<ge> 16" using key_shaped_tail by blast
    obtain a b where ab: "?t @ '']'' = a @ w @ b" using inf unfolding infix_of_def by blast
    define i where "i = length (a @ u)"
    have i: "i \<le> 15" using arg_cong [OF ab, of length] w by (simp add: i_def)
    have v: "v ! k = (?t @ '']'') ! (i + k)" if "k < length v" for k
      using that unfolding ab i_def w(1) by (simp add: nth_append)
    have "\<not> rx_space (v ! k)" if "k < 16" for k using that w(2,3) dotkey_no_space by (auto simp: list_all_length)
    then have no: "(?t @ '']'') ! (i + k) \<noteq> CHR '' ''" if "k < 16" for k using that v [of k] w(3) by (auto simp: rx_space_def)
    have "(?t @ '']'') ! 9 = CHR '' ''" "(?t @ '']'') ! 12 = CHR '' ''" "(?t @ '']'') ! 23 = CHR '' ''" by simp_all
    moreover have "9 - i < 16" "12 - i < 16" "\<not> i \<le> 12 \<Longrightarrow> 23 - i < 16" by simp_all
    ultimately show False using no [of "9 - i"] no [of "12 - i"] no [of "23 - i"] i by (cases "i \<le> 9"; cases "i \<le> 12") simp_all
  qed
  have "\<not> key_shaped w" if i: "infix_of w (take MaxAnswerBytes s @ '' [truncated by TalkIntent daemon]'')" for w
  proof
    assume k: "key_shaped w"
    note kp = key_shaped_plain [OF k]
    have "infix_of w (take MaxAnswerBytes s @ '' '') \<or> infix_of w (?t @ '']'')"
      using i kp infix_split [of w "take MaxAnswerBytes s @ '' ''" "CHR ''[''" "?t @ '']''"] by (auto simp: no_bracket_def)
    then have "infix_of w (take MaxAnswerBytes s @ '' '')" using tail k by blast
    then obtain a b where ab: "take MaxAnswerBytes s @ '' '' = a @ w @ b" unfolding infix_of_def by blast
    have "b \<noteq> []"
    proof
      assume "b = []"
      then have "last w = CHR '' ''" using ab kp by (metis append_Nil2 last_appendR last_snoc length_0_conv not_less_zero)
      then show False using kp by (simp add: rx_space_def)
    qed
    then obtain b' where "take MaxAnswerBytes s = a @ w @ b'" using ab by (cases b rule: rev_cases) auto
    then have "infix_of w (take MaxAnswerBytes s)" by (auto simp: infix_of_def)
    then show False using key_free_take [OF assms] k by (auto simp: key_free_def)
  qed
  then show ?thesis using assms by (simp add: TruncateAnswer_def key_free_def)
qed

definition matches_nowhere :: "string \<Rightarrow> rx list \<Rightarrow> bool" where
  "matches_nowhere s q \<longleftrightarrow> list_all (\<lambda>i. rx_first q (prev_after None s i) (drop i s) = None) [0..<length s]"

lemma replace_nothing:
  assumes "\<And>i. i < length s \<Longrightarrow> rx_first q (prev_after p s i) (drop i s) = None"
  shows "replace_rx q new p s = s"
  using assms
proof (induction s arbitrary: p)
  case (Cons c s)
  have "rx_first q p (c # s) = None" using Cons.prems [of 0] by (simp add: prev_after_def)
  moreover have "replace_rx q new (Some c) s = s"
  proof (rule Cons.IH)
    fix i
    assume "i < length s"
    then show "rx_first q (prev_after (Some c) s i) (drop i s) = None"
      using Cons.prems [of "Suc i"] by (cases i) (auto simp: prev_after_def)
  qed
  ultimately show ?case by simp
qed simp



text \<open>The order of the patterns matters: addresses are redacted before keys and only between word boundaries, so a private address
  that runs into a key is not seen, and once the key behind it is replaced the address stands free.\<close>

theorem redaction_order_exposes_address: "Redact ''10.1.2.3AKIA0123456789ABCDEF'' = ''10.1.2.3[REDACTED]''"
  by code_simp

end
