(* ===== verification/Config.thy ===== *)
theory Config
  imports Complex_Main Sandbox
begin

text \<open>
  \<^verbatim>\<open>internal/config\<close>: the configuration records, their defaults, loading and saving, the environment overrides, validation,
  redaction for display, and the list of workspaces.  JSON decoding and encoding are arguments; a decoder returns the
  struct with the fields the file sets and zero values elsewhere.  The environment is a function from names to values, the
  empty string for an unset variable.
\<close>

section \<open>Records (config.go)\<close>

record WorkspaceConfig =
  wc_id :: string
  wc_name :: string
  wc_root_path :: string
  wc_privacy_prompt_path :: string

record LLMConfig =
  lc_provider :: string
  lc_base_url :: string
  lc_api_key :: string
  lc_model :: string
  lc_max_tokens :: int
  lc_temperature :: rat
  lc_ca_file :: string
  lc_tls_server_name :: string
  lc_insecure_skip_verify :: bool
  lc_request_timeout_seconds :: int
  lc_max_steps :: int

record DaemonConfig =
  dc_max_concurrency :: int
  dc_probe_timeout_seconds :: int

record ClientConfig =
  cc_hub_url :: string
  cc_hub_ca_file :: string
  cc_member_id :: string
  cc_member_name :: string
  cc_token :: string
  cc_machine_name :: string
  cc_workspaces :: "WorkspaceConfig list"
  cc_llm :: LLMConfig
  cc_daemon :: DaemonConfig
  cc_max_concurrency :: int
  cc_heartbeat_interval_sec :: int
  cc_probe_timeout_seconds :: int
  cc_global_privacy_prompt_path :: string

record RateLimitConfig =
  rl_queries_per_minute :: int
  rl_burst :: int

record HubConfig =
  hc_addr :: string
  hc_data_dir :: string
  hc_admin_token :: string
  hc_public_url :: string
  hc_heartbeat_interval_sec :: int
  hc_default_query_ttl_sec :: int
  hc_max_query_ttl_sec :: int
  hc_max_probe_timeout_sec :: int
  hc_rate_limits :: RateLimitConfig
  hc_rate_limit :: RateLimitConfig

definition DefaultMaxConcurrency :: int where "DefaultMaxConcurrency = 2"
definition DefaultHeartbeatIntervalSec :: int where "DefaultHeartbeatIntervalSec = 20"
definition DefaultLLMMaxTokens :: int where "DefaultLLMMaxTokens = 4096"
definition DefaultLLMTemperature :: rat where "DefaultLLMTemperature = 1 / 5"
definition DefaultHubAddr :: string where "DefaultHubAddr = '':8080''"
definition DefaultProbeTimeoutSeconds :: int where "DefaultProbeTimeoutSeconds = 60"
definition DefaultQueryTTL :: int where "DefaultQueryTTL = 86400"
definition MaxQueryTTL :: int where "MaxQueryTTL = 7 * 86400"
definition DefaultMaxProbeTimeoutSec :: int where "DefaultMaxProbeTimeoutSec = 120"
definition DefaultRateLimitQPM :: int where "DefaultRateLimitQPM = 60"
definition DefaultRateLimitBurst :: int where "DefaultRateLimitBurst = 10"
definition DefaultLLMMaxSteps :: int where "DefaultLLMMaxSteps = 10"
definition DefaultLLMTimeoutSeconds :: int where "DefaultLLMTimeoutSeconds = 60"

lemmas config_defaults = DefaultMaxConcurrency_def DefaultHeartbeatIntervalSec_def DefaultLLMMaxTokens_def
  DefaultProbeTimeoutSeconds_def DefaultQueryTTL_def MaxQueryTTL_def DefaultMaxProbeTimeoutSec_def DefaultRateLimitQPM_def
  DefaultRateLimitBurst_def DefaultLLMMaxSteps_def DefaultLLMTimeoutSeconds_def DefaultHubAddr_def

definition secondNs :: int where "secondNs = 1000000000"

definition Timeout :: "LLMConfig \<Rightarrow> int" where
  "Timeout l = (if lc_request_timeout_seconds l > 0 then wrap64 (lc_request_timeout_seconds l * secondNs)
     else DefaultLLMTimeoutSeconds * secondNs)"

definition Steps :: "LLMConfig \<Rightarrow> int" where
  "Steps l = (if lc_max_steps l > 0 then lc_max_steps l else DefaultLLMMaxSteps)"

definition Tokens :: "LLMConfig \<Rightarrow> int" where
  "Tokens l = (if lc_max_tokens l > 0 then lc_max_tokens l else DefaultLLMMaxTokens)"

text \<open>The \<^verbatim>\<open>UnmarshalJSON\<close> methods after the plain decoding; \<open>rt\<close> is the field \<^verbatim>\<open>request_timeout\<close> if the file has it.\<close>

definition LLM_UnmarshalJSON :: "int option \<Rightarrow> LLMConfig \<Rightarrow> LLMConfig" where
  "LLM_UnmarshalJSON rt l =
     (case rt of None \<Rightarrow> l
      | Some t \<Rightarrow> if lc_request_timeout_seconds l = 0 then l\<lparr>lc_request_timeout_seconds := t\<rparr> else l)"

definition Client_UnmarshalJSON :: "ClientConfig \<Rightarrow> ClientConfig" where
  "Client_UnmarshalJSON c0 =
     (let d0 = cc_daemon c0;
          c1 = (if dc_max_concurrency d0 > 0 \<and> cc_max_concurrency c0 = 0 then c0\<lparr>cc_max_concurrency := dc_max_concurrency d0\<rparr>
                else if cc_max_concurrency c0 > 0 \<and> dc_max_concurrency d0 = 0
                then c0\<lparr>cc_daemon := d0\<lparr>dc_max_concurrency := cc_max_concurrency c0\<rparr>\<rparr> else c0);
          d1 = cc_daemon c1
      in if dc_probe_timeout_seconds d1 > 0 \<and> cc_probe_timeout_seconds c1 = 0
         then c1\<lparr>cc_probe_timeout_seconds := dc_probe_timeout_seconds d1\<rparr>
         else if cc_probe_timeout_seconds c1 > 0 \<and> dc_probe_timeout_seconds d1 = 0
         then c1\<lparr>cc_daemon := d1\<lparr>dc_probe_timeout_seconds := cc_probe_timeout_seconds c1\<rparr>\<rparr> else c1)"

definition Hub_UnmarshalJSON :: "HubConfig \<Rightarrow> HubConfig" where
  "Hub_UnmarshalJSON c =
     (if rl_queries_per_minute (hc_rate_limit c) > 0 \<and> rl_queries_per_minute (hc_rate_limits c) = 0
      then c\<lparr>hc_rate_limits := hc_rate_limit c\<rparr>
      else if rl_queries_per_minute (hc_rate_limits c) > 0 \<and> rl_queries_per_minute (hc_rate_limit c) = 0
      then c\<lparr>hc_rate_limit := hc_rate_limits c\<rparr> else c)"

section \<open>Environment (env.go) and paths\<close>

type_synonym environ = "string \<Rightarrow> string"

definition env_get :: "environ \<Rightarrow> string \<Rightarrow> string" where
  "env_get env k = trim_space (env k)"

text \<open>\<^verbatim>\<open>strconv.Atoi\<close>: an optional sign and decimal digits within 64 bits.\<close>

definition digit_val :: "char \<Rightarrow> nat option" where
  "digit_val c = (if 48 \<le> char_code c \<and> char_code c \<le> 57 then Some (char_code c - 48) else None)"

fun parse_digits :: "nat \<Rightarrow> string \<Rightarrow> nat option" where
  "parse_digits acc [] = Some acc"
| "parse_digits acc (c # s) = (case digit_val c of None \<Rightarrow> None | Some d \<Rightarrow> parse_digits (acc * 10 + d) s)"

definition Atoi :: "string \<Rightarrow> int option" where
  "Atoi s =
     (let neg = (s \<noteq> [] \<and> hd s = CHR ''-''); t = (if s \<noteq> [] \<and> (hd s = CHR ''-'' \<or> hd s = CHR ''+'') then tl s else s) in
      if t = [] then None
      else (case parse_digits 0 t of None \<Rightarrow> None
            | Some n \<Rightarrow> let v = (if neg then - int n else int n) in
                if - (2 ^ 63) \<le> v \<and> v < 2 ^ 63 then Some v else None))"

definition env_pos :: "environ \<Rightarrow> string \<Rightarrow> int option" where
  "env_pos env k = (let v = env_get env k in
     if v = [] then None else case Atoi v of None \<Rightarrow> None | Some n \<Rightarrow> if n > 0 then Some n else None)"

text \<open>\<^verbatim>\<open>if v := os.Getenv(k); v != "" { field = v }\<close>.\<close>

definition env_str :: "environ \<Rightarrow> string \<Rightarrow> string \<Rightarrow> string" where
  "env_str env k old = (let v = env_get env k in if v \<noteq> [] then v else old)"

definition env_int :: "environ \<Rightarrow> string \<Rightarrow> int \<Rightarrow> int" where
  "env_int env k old = (case env_pos env k of None \<Rightarrow> old | Some n \<Rightarrow> n)"

definition parseBool :: "string \<Rightarrow> bool" where
  "parseBool s \<longleftrightarrow> to_lower (trim_space s) \<in> {''1'', ''t'', ''true'', ''yes'', ''y'', ''on''}"

definition Client_ApplyEnvOverrides :: "environ \<Rightarrow> ClientConfig \<Rightarrow> ClientConfig" where
  "Client_ApplyEnvOverrides env c =
     (let d = cc_daemon c; l = cc_llm c in
      c\<lparr>cc_hub_url := env_str env ''TALKINTENT_HUB_URL'' (cc_hub_url c),
        cc_hub_ca_file := env_str env ''TALKINTENT_HUB_CA_FILE'' (cc_hub_ca_file c),
        cc_token := env_str env ''TALKINTENT_TOKEN'' (env_str env ''TALKINTENT_MEMBER_TOKEN'' (cc_token c)),
        cc_member_id := env_str env ''TALKINTENT_MEMBER_ID'' (cc_member_id c),
        cc_member_name := env_str env ''TALKINTENT_MEMBER_NAME'' (cc_member_name c),
        cc_machine_name := env_str env ''TALKINTENT_MACHINE_NAME'' (cc_machine_name c),
        cc_global_privacy_prompt_path := env_str env ''TALKINTENT_PRIVACY_PROMPT_PATH'' (cc_global_privacy_prompt_path c),
        cc_max_concurrency := env_int env ''TALKINTENT_MAX_CONCURRENCY'' (cc_max_concurrency c),
        cc_heartbeat_interval_sec := env_int env ''TALKINTENT_HEARTBEAT_INTERVAL'' (cc_heartbeat_interval_sec c),
        cc_probe_timeout_seconds := env_int env ''TALKINTENT_PROBE_TIMEOUT'' (cc_probe_timeout_seconds c),
        cc_daemon := d\<lparr>dc_max_concurrency := env_int env ''TALKINTENT_MAX_CONCURRENCY'' (dc_max_concurrency d),
          dc_probe_timeout_seconds := env_int env ''TALKINTENT_PROBE_TIMEOUT'' (dc_probe_timeout_seconds d)\<rparr>,
        cc_llm := l\<lparr>lc_provider := env_str env ''TALKINTENT_LLM_PROVIDER'' (lc_provider l),
          lc_base_url := env_str env ''TALKINTENT_LLM_BASE_URL'' (lc_base_url l),
          lc_api_key := env_str env ''TALKINTENT_LLM_API_KEY'' (lc_api_key l),
          lc_model := env_str env ''TALKINTENT_LLM_MODEL'' (lc_model l),
          lc_ca_file := env_str env ''TALKINTENT_LLM_CA_FILE'' (lc_ca_file l),
          lc_tls_server_name := env_str env ''TALKINTENT_LLM_TLS_SERVER_NAME'' (lc_tls_server_name l),
          lc_insecure_skip_verify := (let v = env_get env ''TALKINTENT_LLM_INSECURE_SKIP_VERIFY'' in
            if v \<noteq> [] then parseBool v else lc_insecure_skip_verify l),
          lc_request_timeout_seconds := env_int env ''TALKINTENT_LLM_TIMEOUT'' (lc_request_timeout_seconds l),
          lc_max_steps := env_int env ''TALKINTENT_LLM_MAX_STEPS'' (lc_max_steps l),
          lc_max_tokens := env_int env ''TALKINTENT_LLM_MAX_TOKENS'' (lc_max_tokens l)\<rparr>\<rparr>)"

definition GetTalkIntentHome :: "environ \<Rightarrow> string option \<Rightarrow> string" where
  "GetTalkIntentHome env userHome =
     (let v = env_get env ''TALKINTENT_HOME'' in
      if v \<noteq> [] then Clean v
      else (case userHome of None \<Rightarrow> Clean ''./.talkintent'' | Some home \<Rightarrow> Join2 home ''.talkintent''))"

definition DefaultClientConfigPath :: "environ \<Rightarrow> string option \<Rightarrow> string" where
  "DefaultClientConfigPath env uh = Join2 (GetTalkIntentHome env uh) ''config.json''"

definition DefaultPrivacyPromptPath :: "environ \<Rightarrow> string option \<Rightarrow> string" where
  "DefaultPrivacyPromptPath env uh = Join2 (GetTalkIntentHome env uh) ''privacy-prompt.md''"

definition DefaultHubConfigPath :: "environ \<Rightarrow> string option \<Rightarrow> string" where
  "DefaultHubConfigPath env uh = Join2 (GetTalkIntentHome env uh) ''hub.json''"

definition EffectivePrivacyPromptPath :: "environ \<Rightarrow> string option \<Rightarrow> ClientConfig \<Rightarrow> string" where
  "EffectivePrivacyPromptPath env uh c =
     (if cc_global_privacy_prompt_path c \<noteq> [] then cc_global_privacy_prompt_path c else DefaultPrivacyPromptPath env uh)"

section \<open>Defaults, loading and saving (config.go)\<close>

definition NewDefaultClientConfig :: ClientConfig where
  "NewDefaultClientConfig =
     \<lparr>cc_hub_url = [], cc_hub_ca_file = [], cc_member_id = [], cc_member_name = [], cc_token = [], cc_machine_name = [],
      cc_workspaces = [],
      cc_llm = \<lparr>lc_provider = ''openai'', lc_base_url = [], lc_api_key = [], lc_model = [], lc_max_tokens = DefaultLLMMaxTokens,
        lc_temperature = DefaultLLMTemperature, lc_ca_file = [], lc_tls_server_name = [], lc_insecure_skip_verify = False,
        lc_request_timeout_seconds = DefaultLLMTimeoutSeconds, lc_max_steps = DefaultLLMMaxSteps\<rparr>,
      cc_daemon = \<lparr>dc_max_concurrency = DefaultMaxConcurrency, dc_probe_timeout_seconds = DefaultProbeTimeoutSeconds\<rparr>,
      cc_max_concurrency = DefaultMaxConcurrency, cc_heartbeat_interval_sec = DefaultHeartbeatIntervalSec,
      cc_probe_timeout_seconds = DefaultProbeTimeoutSeconds, cc_global_privacy_prompt_path = []\<rparr>"

definition NewDefaultHubConfig :: "environ \<Rightarrow> string option \<Rightarrow> HubConfig" where
  "NewDefaultHubConfig env uh =
     (let rl = \<lparr>rl_queries_per_minute = DefaultRateLimitQPM, rl_burst = DefaultRateLimitBurst\<rparr> in
      \<lparr>hc_addr = DefaultHubAddr, hc_data_dir = Join2 (GetTalkIntentHome env uh) ''hub'', hc_admin_token = [], hc_public_url = [],
       hc_heartbeat_interval_sec = DefaultHeartbeatIntervalSec, hc_default_query_ttl_sec = DefaultQueryTTL,
       hc_max_query_ttl_sec = MaxQueryTTL, hc_max_probe_timeout_sec = DefaultMaxProbeTimeoutSec,
       hc_rate_limits = rl, hc_rate_limit = rl\<rparr>)"

type_synonym files = "string \<Rightarrow> string option"

datatype config_error = ReadFailed | ParseFailed | NilConfig | MarshalFailed | WriteFailed | RandFailed | BadEnv string string

text \<open>\<^verbatim>\<open>if n <= 0 { n = d }\<close>.\<close>

definition pos_or :: "int \<Rightarrow> int \<Rightarrow> int" where
  "pos_or d n = (if n \<le> 0 then d else n)"

definition client_defaults :: "ClientConfig \<Rightarrow> ClientConfig" where
  "client_defaults c =
     (let mc = pos_or DefaultMaxConcurrency (cc_max_concurrency c);
          pt = pos_or DefaultProbeTimeoutSeconds (cc_probe_timeout_seconds c); l = cc_llm c in
      c\<lparr>cc_max_concurrency := mc, cc_daemon := \<lparr>dc_max_concurrency = mc, dc_probe_timeout_seconds = pt\<rparr>,
        cc_heartbeat_interval_sec := pos_or DefaultHeartbeatIntervalSec (cc_heartbeat_interval_sec c),
        cc_probe_timeout_seconds := pt,
        cc_llm := l\<lparr>lc_max_tokens := pos_or DefaultLLMMaxTokens (lc_max_tokens l),
          lc_max_steps := pos_or DefaultLLMMaxSteps (lc_max_steps l),
          lc_request_timeout_seconds := pos_or DefaultLLMTimeoutSeconds (lc_request_timeout_seconds l)\<rparr>\<rparr>)"

definition LoadClientConfig ::
  "(string \<Rightarrow> ClientConfig option) \<Rightarrow> environ \<Rightarrow> string option \<Rightarrow> string \<Rightarrow> files \<Rightarrow> (config_error, ClientConfig) result" where
  "LoadClientConfig decode env uh path0 fs =
     (let path = (if path0 = [] then DefaultClientConfigPath env uh else path0) in
      case fs path of
        None \<Rightarrow> Inl ReadFailed
      | Some data \<Rightarrow>
          (case decode data of
             None \<Rightarrow> Inl ParseFailed
           | Some c \<Rightarrow> Inr (Client_ApplyEnvOverrides env (client_defaults (Client_UnmarshalJSON c)))))"

text \<open>The outcome of each system call of \<^verbatim>\<open>atomicWriteFile\<close>, on Unix.  A failed write may leave part of the data in the
  temporary file.\<close>

record write_io =
  io_mkdir :: bool
  io_temp :: "string option"
  io_chmod :: bool
  io_write :: bool
  io_sync :: bool
  io_close :: bool
  io_chmod2 :: bool
  io_rename :: bool
  io_remove :: bool
  io_rename2 :: bool
  io_cleanup :: bool

definition cleanup_temp :: "write_io \<Rightarrow> string \<Rightarrow> files \<Rightarrow> files" where
  "cleanup_temp io tmp fs = (if io_cleanup io then fs(tmp := None) else fs)"

definition rename_file :: "string \<Rightarrow> string \<Rightarrow> files \<Rightarrow> files" where
  "rename_file src dst fs = fs(dst := fs src, src := None)"

text \<open>\<open>True\<close> is the nil error.\<close>

definition atomicWriteFile :: "write_io \<Rightarrow> string \<Rightarrow> string \<Rightarrow> files \<Rightarrow> bool \<times> files" where
  "atomicWriteFile io path data fs =
     (if \<not> io_mkdir io then (False, fs)
      else (case io_temp io of
        None \<Rightarrow> (False, fs)
      | Some tmp \<Rightarrow>
          let fs1 = fs(tmp \<mapsto> []); fs2 = fs(tmp \<mapsto> data) in
          if \<not> io_chmod io then (False, cleanup_temp io tmp fs1)
          else if \<not> io_write io then (False, cleanup_temp io tmp fs1)
          else if \<not> io_sync io \<or> \<not> io_close io \<or> \<not> io_chmod2 io then (False, cleanup_temp io tmp fs2)
          else if io_rename io then (True, rename_file tmp path fs2)
          else if io_remove io then
            (let fs3 = fs2(path := None) in
             if io_rename2 io then (True, rename_file tmp path fs3) else (False, cleanup_temp io tmp fs3))
          else (False, cleanup_temp io tmp fs2)))"

definition save_sync :: "ClientConfig \<Rightarrow> ClientConfig" where
  "save_sync c0 =
     (let d0 = cc_daemon c0;
          c1 = (if dc_max_concurrency d0 > 0 \<and> cc_max_concurrency c0 = 0 then c0\<lparr>cc_max_concurrency := dc_max_concurrency d0\<rparr>
                else if cc_max_concurrency c0 > 0 then c0\<lparr>cc_daemon := d0\<lparr>dc_max_concurrency := cc_max_concurrency c0\<rparr>\<rparr> else c0);
          d1 = cc_daemon c1
      in if dc_probe_timeout_seconds d1 > 0 \<and> cc_probe_timeout_seconds c1 = 0
         then c1\<lparr>cc_probe_timeout_seconds := dc_probe_timeout_seconds d1\<rparr>
         else if cc_probe_timeout_seconds c1 > 0
         then c1\<lparr>cc_daemon := d1\<lparr>dc_probe_timeout_seconds := cc_probe_timeout_seconds c1\<rparr>\<rparr> else c1)"

definition SaveClientConfig ::
  "(ClientConfig \<Rightarrow> string option) \<Rightarrow> environ \<Rightarrow> string option \<Rightarrow> write_io \<Rightarrow> string \<Rightarrow> ClientConfig option \<Rightarrow> files
     \<Rightarrow> config_error option \<times> files" where
  "SaveClientConfig encode env uh io path0 cfg fs =
     (case cfg of
        None \<Rightarrow> (Some NilConfig, fs)
      | Some c \<Rightarrow>
          let path = (if path0 = [] then DefaultClientConfigPath env uh else path0) in
          (case encode (save_sync c) of
             None \<Rightarrow> (Some MarshalFailed, fs)
           | Some data \<Rightarrow>
               (case atomicWriteFile io path (data @ [CHR 0x0A]) fs of
                  (ok, fs') \<Rightarrow> (if ok then None else Some WriteFailed, fs'))))"

section \<open>Hub configuration\<close>

text \<open>\<^verbatim>\<open>time.ParseDuration\<close> in nanoseconds: a sign, then numbers with a unit each.  A fraction is cut to whole nanoseconds.\<close>

definition unit_ns :: "string \<Rightarrow> int option" where
  "unit_ns u =
     (if u = ''ns'' then Some 1
      else if u = ''us'' \<or> u = [CHR 0xC2, CHR 0xB5, CHR ''s''] \<or> u = [CHR 0xCE, CHR 0xBC, CHR ''s''] then Some 1000
      else if u = ''ms'' then Some 1000000 else if u = ''s'' then Some 1000000000
      else if u = ''m'' then Some 60000000000 else if u = ''h'' then Some 3600000000000 else None)"

definition is_digit :: "char \<Rightarrow> bool" where
  "is_digit c \<longleftrightarrow> digit_val c \<noteq> None"

definition unit_part :: "string \<Rightarrow> string \<times> string" where
  "unit_part s = (let p = (\<lambda>c. c \<noteq> CHR ''.'' \<and> \<not> is_digit c) in (takeWhile p s, dropWhile p s))"

text \<open>One number with its unit: its value and the rest of the text.\<close>

definition duration_token :: "string \<Rightarrow> (int \<times> string) option" where
  "duration_token s =
     (let whole = takeWhile is_digit s; s1 = dropWhile is_digit s;
          dot = (s1 \<noteq> [] \<and> hd s1 = CHR ''.'');
          frac = (if dot then takeWhile is_digit (tl s1) else []);
          s2 = (if dot then dropWhile is_digit (tl s1) else s1)
      in if whole = [] \<and> frac = [] \<or> fst (unit_part s2) = [] then None
         else (case (unit_ns (fst (unit_part s2)), parse_digits 0 whole, parse_digits 0 frac) of
           (Some un, Some w, Some f) \<Rightarrow> Some (int w * un + (int f * un) div (10 ^ length frac), snd (unit_part s2))
         | _ \<Rightarrow> None))"

lemma unit_part_length: "fst (unit_part s) \<noteq> [] \<Longrightarrow> length (snd (unit_part s)) < length s"
proof -
  assume "fst (unit_part s) \<noteq> []"
  moreover have "fst (unit_part s) @ snd (unit_part s) = s" by (simp add: unit_part_def Let_def)
  ultimately show ?thesis by (metis length_append length_greater_0_conv less_add_same_cancel2)
qed

lemma duration_token_shorter: "duration_token s = Some (v, r) \<Longrightarrow> length r < length s"
proof -
  assume a: "duration_token s = Some (v, r)"
  let ?s1 = "dropWhile is_digit s"
  define s2 where "s2 = (if ?s1 \<noteq> [] \<and> hd ?s1 = CHR ''.'' then dropWhile is_digit (tl ?s1) else ?s1)"
  have "r = snd (unit_part s2)" "fst (unit_part s2) \<noteq> []"
    using a by (auto simp: duration_token_def Let_def s2_def split: if_splits option.splits)
  then have "length r < length s2" using unit_part_length by blast
  also have "length s2 \<le> length ?s1"
    using length_dropWhile_le [of is_digit "tl ?s1"] by (auto simp: s2_def)
  also have "\<dots> \<le> length s" by (rule length_dropWhile_le)
  finally show ?thesis .
qed

function duration_loop :: "int \<Rightarrow> string \<Rightarrow> int option" where
  "duration_loop acc s =
     (if s = [] then Some acc
      else (case duration_token s of
        None \<Rightarrow> None
      | Some (v, rest) \<Rightarrow> if acc + v > 2 ^ 63 then None else duration_loop (acc + v) rest))"
  by pat_completeness auto
termination
  by (relation "measure (\<lambda>(acc, s). length s)") (auto dest: duration_token_shorter)

declare duration_loop.simps [simp del]

definition ParseDuration :: "string \<Rightarrow> int option" where
  "ParseDuration s =
     (let neg = (s \<noteq> [] \<and> hd s = CHR ''-''); t = (if s \<noteq> [] \<and> (hd s = CHR ''-'' \<or> hd s = CHR ''+'') then tl s else s) in
      if t = ''0'' then Some 0 else if t = [] then None
      else (case duration_loop 0 t of None \<Rightarrow> None
            | Some d \<Rightarrow> if neg then Some (- d) else if d > 2 ^ 63 - 1 then None else Some d))"

text \<open>\<^verbatim>\<open>int(d.Seconds())\<close> cuts towards zero.\<close>

definition trunc_seconds :: "int \<Rightarrow> int" where
  "trunc_seconds d = (if d \<ge> 0 then d div secondNs else - ((- d) div secondNs))"

definition parseDurationOrPositiveSeconds :: "string \<Rightarrow> string \<Rightarrow> (config_error, int) result" where
  "parseDurationOrPositiveSeconds s envVar =
     (case Atoi s of
        Some n \<Rightarrow> if n \<le> 0 then Inl (BadEnv envVar s) else Inr n
      | None \<Rightarrow>
          (case ParseDuration s of
             Some d \<Rightarrow> let sec = trunc_seconds d in if sec \<le> 0 then Inl (BadEnv envVar s) else Inr sec
           | None \<Rightarrow> Inl (BadEnv envVar s)))"

definition parsePositiveInt :: "string \<Rightarrow> string \<Rightarrow> (config_error, int) result" where
  "parsePositiveInt s envVar =
     (case Atoi s of None \<Rightarrow> Inl (BadEnv envVar s) | Some n \<Rightarrow> if n \<le> 0 then Inl (BadEnv envVar s) else Inr n)"

text \<open>One numeric override of the hub: absent, refused, or set.\<close>

definition env_num ::
  "(string \<Rightarrow> string \<Rightarrow> (config_error, int) result) \<Rightarrow> environ \<Rightarrow> string \<Rightarrow> (int \<Rightarrow> HubConfig \<Rightarrow> HubConfig) \<Rightarrow> HubConfig
     \<Rightarrow> (config_error, HubConfig) result" where
  "env_num parse env k upd c =
     (let v = env_get env k in if v = [] then Inr c else res_bind (parse v k) (\<lambda>n. Inr (upd n c)))"

definition Hub_ApplyEnvOverrides :: "environ \<Rightarrow> HubConfig \<Rightarrow> (config_error, HubConfig) result" where
  "Hub_ApplyEnvOverrides env c0 =
     (let c1 = c0\<lparr>hc_addr := env_str env ''TALKINTENT_HUB_ADDR'' (hc_addr c0),
            hc_data_dir := env_str env ''TALKINTENT_DATA_DIR'' (hc_data_dir c0),
            hc_admin_token := env_str env ''TALKINTENT_ADMIN_TOKEN'' (hc_admin_token c0),
            hc_public_url := env_str env ''TALKINTENT_PUBLIC_URL'' (hc_public_url c0)\<rparr>;
          secs = env_num parseDurationOrPositiveSeconds env; pint = env_num parsePositiveInt env in
      res_bind (secs ''TALKINTENT_HEARTBEAT_INTERVAL'' (\<lambda>n c. c\<lparr>hc_heartbeat_interval_sec := n\<rparr>) c1) (\<lambda>c2.
      res_bind (secs ''TALKINTENT_DEFAULT_QUERY_TTL'' (\<lambda>n c. c\<lparr>hc_default_query_ttl_sec := n\<rparr>) c2) (\<lambda>c3.
      res_bind (secs ''TALKINTENT_MAX_QUERY_TTL'' (\<lambda>n c. c\<lparr>hc_max_query_ttl_sec := n\<rparr>) c3) (\<lambda>c4.
      res_bind (secs ''TALKINTENT_MAX_PROBE_TIMEOUT'' (\<lambda>n c. c\<lparr>hc_max_probe_timeout_sec := n\<rparr>) c4) (\<lambda>c5.
      res_bind (pint ''TALKINTENT_RATE_LIMIT_QPM'' (\<lambda>n c. c\<lparr>hc_rate_limits := (hc_rate_limits c)\<lparr>rl_queries_per_minute := n\<rparr>,
          hc_rate_limit := (hc_rate_limit c)\<lparr>rl_queries_per_minute := n\<rparr>\<rparr>) c5) (\<lambda>c6.
      pint ''TALKINTENT_RATE_LIMIT_BURST'' (\<lambda>n c. c\<lparr>hc_rate_limits := (hc_rate_limits c)\<lparr>rl_burst := n\<rparr>,
          hc_rate_limit := (hc_rate_limit c)\<lparr>rl_burst := n\<rparr>\<rparr>) c6))))))"

definition hub_defaults :: "environ \<Rightarrow> string option \<Rightarrow> HubConfig \<Rightarrow> HubConfig" where
  "hub_defaults env uh c =
     (let rl = \<lparr>rl_queries_per_minute = pos_or DefaultRateLimitQPM (rl_queries_per_minute (hc_rate_limits c)),
                rl_burst = pos_or DefaultRateLimitBurst (rl_burst (hc_rate_limits c))\<rparr> in
      c\<lparr>hc_addr := (if hc_addr c = [] then DefaultHubAddr else hc_addr c),
        hc_data_dir := (if hc_data_dir c = [] then Join2 (GetTalkIntentHome env uh) ''hub'' else hc_data_dir c),
        hc_heartbeat_interval_sec := pos_or DefaultHeartbeatIntervalSec (hc_heartbeat_interval_sec c),
        hc_default_query_ttl_sec := pos_or DefaultQueryTTL (hc_default_query_ttl_sec c),
        hc_max_query_ttl_sec := pos_or MaxQueryTTL (hc_max_query_ttl_sec c),
        hc_max_probe_timeout_sec := pos_or DefaultMaxProbeTimeoutSec (hc_max_probe_timeout_sec c),
        hc_rate_limits := rl, hc_rate_limit := rl\<rparr>)"

definition LoadHubConfig ::
  "(string \<Rightarrow> HubConfig option) \<Rightarrow> environ \<Rightarrow> string option \<Rightarrow> string \<Rightarrow> files \<Rightarrow> (config_error, HubConfig) result" where
  "LoadHubConfig decode env uh path0 fs =
     (let path = (if path0 = [] then DefaultHubConfigPath env uh else path0) in
      case fs path of
        None \<Rightarrow> Inl ReadFailed
      | Some data \<Rightarrow>
          (case decode data of
             None \<Rightarrow> Inl ParseFailed
           | Some c \<Rightarrow> Hub_ApplyEnvOverrides env (hub_defaults env uh (Hub_UnmarshalJSON c))))"

definition SaveHubConfig ::
  "(HubConfig \<Rightarrow> string option) \<Rightarrow> environ \<Rightarrow> string option \<Rightarrow> write_io \<Rightarrow> string \<Rightarrow> HubConfig option \<Rightarrow> files
     \<Rightarrow> config_error option \<times> files" where
  "SaveHubConfig encode env uh io path0 cfg fs =
     (case cfg of
        None \<Rightarrow> (Some NilConfig, fs)
      | Some c \<Rightarrow>
          let path = (if path0 = [] then DefaultHubConfigPath env uh else path0);
              c1 = (if rl_queries_per_minute (hc_rate_limit c) > 0 \<and> rl_queries_per_minute (hc_rate_limits c) = 0
                    then c\<lparr>hc_rate_limits := hc_rate_limit c\<rparr>
                    else if rl_queries_per_minute (hc_rate_limits c) > 0 then c\<lparr>hc_rate_limit := hc_rate_limits c\<rparr> else c)
          in (case encode c1 of
             None \<Rightarrow> (Some MarshalFailed, fs)
           | Some data \<Rightarrow>
               (case atomicWriteFile io path (data @ [CHR 0x0A]) fs of
                  (ok, fs') \<Rightarrow> (if ok then None else Some WriteFailed, fs'))))"

definition hex_digit :: "nat \<Rightarrow> char" where
  "hex_digit n = (if n < 10 then char_of (48 + n) else char_of (87 + n))"

definition EncodeToString :: "nat list \<Rightarrow> string" where
  "EncodeToString bs = concat (map (\<lambda>b. [hex_digit (b div 16 mod 16), hex_digit (b mod 16)]) bs)"

definition EnsureAdminToken ::
  "environ \<Rightarrow> string option \<Rightarrow> nat list option \<Rightarrow> write_io \<Rightarrow> string \<Rightarrow> files \<Rightarrow> (config_error, string) result \<times> files" where
  "EnsureAdminToken env uh rnd io dataDir0 fs =
     (let envToken = env_get env ''TALKINTENT_ADMIN_TOKEN'' in
      if envToken \<noteq> [] then (Inr envToken, fs)
      else
        let dataDir = (if dataDir0 = [] then Join2 (GetTalkIntentHome env uh) ''hub'' else dataDir0);
            tokenPath = Join2 dataDir ''admin.token'';
            tok = (case fs tokenPath of None \<Rightarrow> [] | Some data \<Rightarrow> trim_space data)
        in if tok \<noteq> [] then (Inr tok, fs)
           else (case rnd of
             None \<Rightarrow> (Inl RandFailed, fs)
           | Some bs \<Rightarrow>
               let token = ''ti_adm_'' @ EncodeToString bs in
               (case atomicWriteFile io tokenPath (token @ [CHR 0x0A]) fs of
                  (ok, fs') \<Rightarrow> (if ok then Inr token else Inl WriteFailed, fs'))))"

section \<open>Validation (validate.go)\<close>

text \<open>A message is its constant text or the text with the value it quotes.  The advice that goes with each field is left out.\<close>

datatype vmsg = Text string | Quoted string string | OutOfBounds rat | TTLExceeds int int

record ValidationError =
  ve_field :: string
  ve_message :: vmsg

definition verr :: "string \<Rightarrow> vmsg \<Rightarrow> ValidationError" where
  "verr f m = \<lparr>ve_field = f, ve_message = m\<rparr>"

text \<open>\<^verbatim>\<open>if cond { errs = append(errs, e) }\<close>.\<close>

definition issue :: "bool \<Rightarrow> ValidationError \<Rightarrow> ValidationError list" where
  "issue b e = (if b then [e] else [])"

text \<open>What the checks need from outside: the scheme and host of a URL, if it parses, and whether a file exists.\<close>

record checks =
  url_parse :: "string \<Rightarrow> (string \<times> string) option"
  stat_ok :: "string \<Rightarrow> bool"

definition bad_url :: "checks \<Rightarrow> string list \<Rightarrow> string \<Rightarrow> bool" where
  "bad_url ck schemes u \<longleftrightarrow> (case url_parse ck u of None \<Rightarrow> True | Some (scheme, host) \<Rightarrow> host = [] \<or> scheme \<notin> set schemes)"

definition LLM_Validate :: "checks \<Rightarrow> LLMConfig \<Rightarrow> ValidationError list" where
  "LLM_Validate ck l =
     issue (lc_provider l \<noteq> [] \<and> lc_provider l \<noteq> ''openai'' \<and> lc_provider l \<noteq> ''anthropic'')
       (verr ''llm.provider'' (Quoted ''unsupported provider'' (lc_provider l)))
     @ issue (lc_base_url l \<noteq> [] \<and> bad_url ck [''http'', ''https''] (lc_base_url l))
       (verr ''llm.base_url'' (Quoted ''invalid base_url'' (lc_base_url l)))
     @ issue (lc_max_tokens l < 0)
       (verr ''llm.max_tokens'' (Text ''max_tokens must be non-negative''))
     @ issue (lc_temperature l < 0 \<or> lc_temperature l > 2)
       (verr ''llm.temperature'' (OutOfBounds (lc_temperature l)))
     @ issue (lc_ca_file l \<noteq> [] \<and> \<not> stat_ok ck (lc_ca_file l))
       (verr ''llm.ca_file'' (Quoted ''CA certificate file'' (lc_ca_file l)))"

definition workspace_field :: "nat \<Rightarrow> string" where
  "workspace_field i = ''workspaces['' @ fmt_nat i @ '']''"

fun workspace_issues :: "nat \<Rightarrow> WorkspaceConfig list \<Rightarrow> ValidationError list" where
  "workspace_issues i [] = []"
| "workspace_issues i (ws # rest) =
     issue (wc_id ws = [] \<and> wc_name ws = [])
       (verr (workspace_field i) (Text ''workspace must have an id or name''))
     @ issue (wc_root_path ws = [])
       (verr (workspace_field i @ ''.root_path'') (Text ''root_path cannot be empty''))
     @ workspace_issues (Suc i) rest"

definition Client_Validate :: "checks \<Rightarrow> ClientConfig option \<Rightarrow> ValidationError list" where
  "Client_Validate ck cfg =
     (case cfg of
        None \<Rightarrow> [verr ''config'' (Text ''client configuration is nil'')]
      | Some c \<Rightarrow>
          (if cc_hub_url c = [] then [verr ''hub_url'' (Text ''cannot be empty'')]
           else issue (bad_url ck [''http'', ''https'', ''ws'', ''wss''] (cc_hub_url c))
             (verr ''hub_url'' (Quoted ''malformed Hub URL'' (cc_hub_url c))))
          @ issue (cc_hub_ca_file c \<noteq> [] \<and> \<not> stat_ok ck (cc_hub_ca_file c))
            (verr ''hub_ca_file'' (Quoted ''Hub CA certificate file'' (cc_hub_ca_file c)))
          @ issue (cc_member_id c = []) (verr ''member_id'' (Text ''cannot be empty''))
          @ issue (cc_token c = []) (verr ''token'' (Text ''member token cannot be empty''))
          @ issue (cc_max_concurrency c < 0) (verr ''max_concurrency'' (Text ''must be non-negative''))
          @ issue (cc_heartbeat_interval_sec c < 0)
            (verr ''heartbeat_interval_sec'' (Text ''must be non-negative''))
          @ issue (cc_probe_timeout_seconds c < 0)
            (verr ''probe_timeout_seconds'' (Text ''must be non-negative''))
          @ workspace_issues 0 (cc_workspaces c)
          @ LLM_Validate ck (cc_llm c))"

definition Hub_Validate :: "checks \<Rightarrow> HubConfig option \<Rightarrow> ValidationError list" where
  "Hub_Validate ck cfg =
     (case cfg of
        None \<Rightarrow> [verr ''config'' (Text ''hub configuration is nil'')]
      | Some c \<Rightarrow>
          issue (hc_addr c = []) (verr ''addr'' (Text ''listen address cannot be empty''))
          @ issue (hc_data_dir c = []) (verr ''data_dir'' (Text ''data directory cannot be empty''))
          @ issue (hc_public_url c \<noteq> [] \<and> bad_url ck [''http'', ''https''] (hc_public_url c))
            (verr ''public_url'' (Quoted ''malformed public URL'' (hc_public_url c)))
          @ issue (hc_heartbeat_interval_sec c < 0)
            (verr ''heartbeat_interval_sec'' (Text ''must be non-negative''))
          @ issue (hc_default_query_ttl_sec c < 0)
            (verr ''default_query_ttl_sec'' (Text ''must be non-negative''))
          @ issue (hc_max_query_ttl_sec c < 0)
            (verr ''max_query_ttl_sec'' (Text ''must be non-negative''))
          @ issue (hc_default_query_ttl_sec c > 0 \<and> hc_max_query_ttl_sec c > 0 \<and> hc_default_query_ttl_sec c > hc_max_query_ttl_sec c)
            (verr ''default_query_ttl_sec'' (TTLExceeds (hc_default_query_ttl_sec c) (hc_max_query_ttl_sec c)))
          @ issue (hc_max_probe_timeout_sec c < 0)
            (verr ''max_probe_timeout_sec'' (Text ''must be non-negative''))
          @ issue (rl_queries_per_minute (hc_rate_limits c) < 0)
            (verr ''rate_limits.queries_per_minute'' (Text ''must be non-negative''))
          @ issue (rl_burst (hc_rate_limits c) < 0)
            (verr ''rate_limits.burst'' (Text ''must be non-negative'')))"

section \<open>Display (redact.go)\<close>

definition secret_prefix :: "string \<Rightarrow> string" where
  "secret_prefix s =
     (if has_prefix s ''ti_mem_'' then ''ti_mem_'' else if has_prefix s ''ti_adm_'' then ''ti_adm_''
      else if has_prefix s ''sk-'' then ''sk-'' else if has_prefix s ''ghp_'' then ''ghp_'' else [])"

definition RedactSecret :: "string \<Rightarrow> string" where
  "RedactSecret s = (if s = [] then [] else secret_prefix s @ ''***[len='' @ fmt_nat (length s) @ '']'')"

definition LLM_Redacted :: "LLMConfig \<Rightarrow> LLMConfig" where
  "LLM_Redacted l = l\<lparr>lc_api_key := RedactSecret (lc_api_key l)\<rparr>"

definition Client_Redacted :: "ClientConfig \<Rightarrow> ClientConfig" where
  "Client_Redacted c = c\<lparr>cc_token := RedactSecret (cc_token c), cc_llm := LLM_Redacted (cc_llm c)\<rparr>"

definition Hub_Redacted :: "HubConfig \<Rightarrow> HubConfig" where
  "Hub_Redacted c = c\<lparr>hc_admin_token := RedactSecret (hc_admin_token c)\<rparr>"

section \<open>Workspaces (workspace.go)\<close>

datatype workspace_error = InvalidPath | NotExisting | NotDirectory

definition NormalizeWorkspacePath :: "fs_ops \<Rightarrow> (string \<Rightarrow> bool option) \<Rightarrow> string \<Rightarrow> (workspace_error, string) result" where
  "NormalizeWorkspacePath fs is_dir path =
     (case Abs fs (Clean (trim_space path)) of
        None \<Rightarrow> Inl InvalidPath
      | Some a \<Rightarrow> (case is_dir a of None \<Rightarrow> Inl NotExisting | Some d \<Rightarrow> if d then Inr a else Inl NotDirectory))"

definition complete_workspace :: "string \<Rightarrow> WorkspaceConfig \<Rightarrow> WorkspaceConfig" where
  "complete_workspace normPath ws =
     (let nm = (if wc_name ws = [] then Base normPath else wc_name ws) in
      ws\<lparr>wc_root_path := normPath, wc_name := nm, wc_id := (if wc_id ws = [] then to_lower nm else wc_id ws)\<rparr>)"

fun put_workspace :: "WorkspaceConfig \<Rightarrow> WorkspaceConfig list \<Rightarrow> WorkspaceConfig list" where
  "put_workspace ws [] = [ws]"
| "put_workspace ws (x # xs) =
     (if wc_id x = wc_id ws \<or> Clean (wc_root_path x) = wc_root_path ws then ws # xs else x # put_workspace ws xs)"

definition AddWorkspace ::
  "fs_ops \<Rightarrow> (string \<Rightarrow> bool option) \<Rightarrow> WorkspaceConfig \<Rightarrow> ClientConfig \<Rightarrow> workspace_error option \<times> ClientConfig" where
  "AddWorkspace fs is_dir ws c =
     (case NormalizeWorkspacePath fs is_dir (wc_root_path ws) of
        Inl e \<Rightarrow> (Some e, c)
      | Inr normPath \<Rightarrow> (None, c\<lparr>cc_workspaces := put_workspace (complete_workspace normPath ws) (cc_workspaces c)\<rparr>))"

definition workspace_matches :: "string \<Rightarrow> WorkspaceConfig \<Rightarrow> bool" where
  "workspace_matches target ws \<longleftrightarrow>
     wc_id ws = target \<or> wc_name ws = target \<or> Clean (wc_root_path ws) = Clean (trim_space target)"

definition RemoveWorkspace :: "string \<Rightarrow> ClientConfig \<Rightarrow> bool \<times> ClientConfig" where
  "RemoveWorkspace target c =
     (if list_ex (workspace_matches target) (cc_workspaces c)
      then (True, c\<lparr>cc_workspaces := filter (\<lambda>ws. \<not> workspace_matches target ws) (cc_workspaces c)\<rparr>) else (False, c))"

definition FindWorkspace :: "string \<Rightarrow> ClientConfig \<Rightarrow> WorkspaceConfig option" where
  "FindWorkspace target c = List.find (workspace_matches target) (cc_workspaces c)"

end
