(* ===== verification/Config_Properties.thy ===== *)
theory Config_Properties
  imports Config
begin

text \<open>
  What loading, saving, the admin token, the display of secrets and the workspace list guarantee.
\<close>

section \<open>Loading\<close>

lemma pos_or_pos: "d > 0 \<Longrightarrow> pos_or d n > 0"
  by (simp add: pos_or_def)

lemma env_int_pos: "old > 0 \<Longrightarrow> env_int env k old > 0"
  by (auto simp: env_int_def env_pos_def Let_def split: option.splits if_splits)

definition client_usable :: "ClientConfig \<Rightarrow> bool" where
  "client_usable c \<longleftrightarrow> cc_max_concurrency c > 0 \<and> cc_heartbeat_interval_sec c > 0 \<and> cc_probe_timeout_seconds c > 0
     \<and> lc_max_tokens (cc_llm c) > 0 \<and> lc_max_steps (cc_llm c) > 0 \<and> lc_request_timeout_seconds (cc_llm c) > 0
     \<and> cc_daemon c = \<lparr>dc_max_concurrency = cc_max_concurrency c, dc_probe_timeout_seconds = cc_probe_timeout_seconds c\<rparr>"

definition hub_usable :: "HubConfig \<Rightarrow> bool" where
  "hub_usable c \<longleftrightarrow> hc_addr c \<noteq> [] \<and> hc_data_dir c \<noteq> [] \<and> hc_heartbeat_interval_sec c > 0 \<and> hc_default_query_ttl_sec c > 0
     \<and> hc_max_query_ttl_sec c > 0 \<and> hc_max_probe_timeout_sec c > 0 \<and> rl_queries_per_minute (hc_rate_limits c) > 0
     \<and> rl_burst (hc_rate_limits c) > 0 \<and> hc_rate_limit c = hc_rate_limits c"

lemma client_defaults_usable: "client_usable (client_defaults c)"
  by (simp add: client_usable_def client_defaults_def Let_def pos_or_pos config_defaults)

lemma client_env_usable: "client_usable c \<Longrightarrow> client_usable (Client_ApplyEnvOverrides env c)"
  by (simp add: client_usable_def Client_ApplyEnvOverrides_def Let_def env_int_pos)

lemma Join2_ne: "b \<noteq> [] \<Longrightarrow> Join2 a b \<noteq> []"
  by (simp add: Join2_def)

lemma hub_defaults_usable: "hub_usable (hub_defaults env uh c)"
  by (simp add: hub_usable_def hub_defaults_def Let_def pos_or_pos config_defaults Join2_ne)

lemma env_num_usable:
  assumes "hub_usable c" and "env_num parse env k upd c = Inr c'" and "\<And>v n. parse v k = Inr n \<Longrightarrow> n > 0"
    and "\<And>n. n > 0 \<Longrightarrow> hub_usable (upd n c)"
  shows "hub_usable c'"
  using assms by (auto simp: env_num_def Let_def split: if_splits elim!: res_bind.elims)

lemma parse_positive:
  "parseDurationOrPositiveSeconds s k = Inr n \<Longrightarrow> n > 0" "parsePositiveInt s k = Inr n \<Longrightarrow> n > 0"
  by (auto simp: parseDurationOrPositiveSeconds_def parsePositiveInt_def Let_def split: option.splits if_splits)

lemma res_bind_Inr: "res_bind r k = Inr y \<Longrightarrow> \<exists>x. r = Inr x \<and> k x = Inr y"
  by (cases r) auto

lemma hub_env_usable:
  assumes "hub_usable c" and "Hub_ApplyEnvOverrides env c = Inr c'"
  shows "hub_usable c'"
proof -
  define c1 where "c1 = c\<lparr>hc_addr := env_str env ''TALKINTENT_HUB_ADDR'' (hc_addr c),
            hc_data_dir := env_str env ''TALKINTENT_DATA_DIR'' (hc_data_dir c),
            hc_admin_token := env_str env ''TALKINTENT_ADMIN_TOKEN'' (hc_admin_token c),
            hc_public_url := env_str env ''TALKINTENT_PUBLIC_URL'' (hc_public_url c)\<rparr>"
  have c1: "hub_usable c1" using assms(1) by (simp add: c1_def hub_usable_def env_str_def Let_def)
  note step = env_num_usable [OF _ _ parse_positive(1)] env_num_usable [OF _ _ parse_positive(2)]
  obtain c2 c3 c4 c5 c6 where
    "env_num parseDurationOrPositiveSeconds env ''TALKINTENT_HEARTBEAT_INTERVAL'' (\<lambda>n c. c\<lparr>hc_heartbeat_interval_sec := n\<rparr>) c1 = Inr c2"
    "env_num parseDurationOrPositiveSeconds env ''TALKINTENT_DEFAULT_QUERY_TTL'' (\<lambda>n c. c\<lparr>hc_default_query_ttl_sec := n\<rparr>) c2 = Inr c3"
    "env_num parseDurationOrPositiveSeconds env ''TALKINTENT_MAX_QUERY_TTL'' (\<lambda>n c. c\<lparr>hc_max_query_ttl_sec := n\<rparr>) c3 = Inr c4"
    "env_num parseDurationOrPositiveSeconds env ''TALKINTENT_MAX_PROBE_TIMEOUT'' (\<lambda>n c. c\<lparr>hc_max_probe_timeout_sec := n\<rparr>) c4 = Inr c5"
    "env_num parsePositiveInt env ''TALKINTENT_RATE_LIMIT_QPM'' (\<lambda>n c. c\<lparr>hc_rate_limits := (hc_rate_limits c)\<lparr>rl_queries_per_minute := n\<rparr>,
          hc_rate_limit := (hc_rate_limit c)\<lparr>rl_queries_per_minute := n\<rparr>\<rparr>) c5 = Inr c6"
    "env_num parsePositiveInt env ''TALKINTENT_RATE_LIMIT_BURST'' (\<lambda>n c. c\<lparr>hc_rate_limits := (hc_rate_limits c)\<lparr>rl_burst := n\<rparr>,
          hc_rate_limit := (hc_rate_limit c)\<lparr>rl_burst := n\<rparr>\<rparr>) c6 = Inr c'"
    using assms(2) unfolding Hub_ApplyEnvOverrides_def Let_def c1_def [symmetric] by (blast dest: res_bind_Inr)
  note eqs = this
  have c2: "hub_usable c2" by (rule step(1) [OF c1 eqs(1)]) (use c1 in \<open>simp_all add: hub_usable_def\<close>)
  have c3: "hub_usable c3" by (rule step(1) [OF c2 eqs(2)]) (use c2 in \<open>simp_all add: hub_usable_def\<close>)
  have c4: "hub_usable c4" by (rule step(1) [OF c3 eqs(3)]) (use c3 in \<open>simp_all add: hub_usable_def\<close>)
  have c5: "hub_usable c5" by (rule step(1) [OF c4 eqs(4)]) (use c4 in \<open>simp_all add: hub_usable_def\<close>)
  have c6: "hub_usable c6" by (rule step(2) [OF c5 eqs(5)]) (use c5 in \<open>simp_all add: hub_usable_def\<close>)
  show ?thesis by (rule step(2) [OF c6 eqs(6)]) (use c6 in \<open>simp_all add: hub_usable_def\<close>)
qed

text \<open>C34. A loaded configuration is usable, whatever the file and the environment say: every limit, interval and timeout of the client
  is positive and its two copies of the daemon settings agree; the hub has an address and a data directory, positive limits and
  one rate limit.\<close>

theorem config_load_usable:
  "(LoadClientConfig decode env uh path fs = Inr c \<longrightarrow> client_usable c)
   \<and> (LoadHubConfig hdecode env uh hpath fs = Inr h \<longrightarrow> hub_usable h)"
  by (auto simp: LoadClientConfig_def LoadHubConfig_def Let_def split: option.splits
      intro: client_env_usable client_defaults_usable hub_env_usable hub_defaults_usable)

section \<open>Writing files\<close>

text \<open>Writing a configuration file replaces it whole or leaves it: on success the file holds exactly the new data; on an
  error it holds what it held before, except when the rename fails, the old file is then removed and the second rename fails too,
  in which case it is gone.  No other file changes but the temporary one.\<close>

theorem atomic_write_spec:
  assumes "atomicWriteFile io path data fs = (ok, fs')" and "io_temp io \<noteq> Some path"
  shows "(ok \<longrightarrow> fs' path = Some data)
    \<and> (\<not> ok \<longrightarrow> fs' path = (if io_mkdir io \<and> io_temp io \<noteq> None \<and> io_chmod io \<and> io_write io \<and> io_sync io \<and> io_close io \<and> io_chmod2 io
          \<and> \<not> io_rename io \<and> io_remove io \<and> \<not> io_rename2 io then None else fs path))
    \<and> (\<forall>q. q \<noteq> path \<and> io_temp io \<noteq> Some q \<longrightarrow> fs' q = fs q)"
  using assms
  by (auto simp: atomicWriteFile_def cleanup_temp_def rename_file_def Let_def split: if_splits option.splits)

definition calm_io :: write_io where
  "calm_io = \<lparr>io_mkdir = True, io_temp = Some ''/c/.t'', io_chmod = True, io_write = True, io_sync = True, io_close = True,
     io_chmod2 = True, io_rename = True, io_remove = True, io_rename2 = True, io_cleanup = True\<rparr>"

theorem atomic_write_spec_witness:
  "snd (atomicWriteFile calm_io ''/c/a'' ''x'' (\<lambda>_. None)) ''/c/a'' = Some ''x''
   \<and> snd (atomicWriteFile (calm_io\<lparr>io_rename := False, io_rename2 := False\<rparr>) ''/c/a'' ''x'' (\<lambda>_. Some ''old'')) ''/c/a'' = None"
proof -
  let ?lost = "calm_io\<lparr>io_rename := False, io_rename2 := False\<rparr>"
  have "fst (atomicWriteFile calm_io ''/c/a'' ''x'' (\<lambda>_. None))" "\<not> fst (atomicWriteFile ?lost ''/c/a'' ''x'' (\<lambda>_. Some ''old''))"
    by (simp_all add: atomicWriteFile_def calm_io_def Let_def)
  with atomic_write_spec [of calm_io "''/c/a''" "''x''" "\<lambda>_. None", OF prod.collapse [symmetric]]
    atomic_write_spec [of ?lost "''/c/a''" "''x''" "\<lambda>_. Some ''old''", OF prod.collapse [symmetric]]
  show ?thesis by (simp add: calm_io_def)
qed

text \<open>A saved client configuration is read back as it was: when the JSON decoder reads back what the encoder wrote, no environment
  variable is set and the settings are usable, loading the file just saved gives the configuration with its two copies of the daemon
  settings aligned.\<close>

theorem save_load_roundtrip:
  assumes "SaveClientConfig encode env uh io path (Some c) fs = (None, fs')" and "path \<noteq> []" and "io_temp io \<noteq> Some path"
    and "\<forall>x d. encode x = Some d \<longrightarrow> decode (d @ [CHR 0x0A]) = Some x" and "\<forall>k. trim_space (env k) = []"
    and "client_usable (save_sync c)"
  shows "LoadClientConfig decode env uh path fs' = Inr (save_sync c)"
proof -
  obtain data where d: "encode (save_sync c) = Some data" "atomicWriteFile io path (data @ [CHR 0x0A]) fs = (True, fs')"
    using assms(1,2) by (auto simp: SaveClientConfig_def Let_def split: option.splits prod.splits if_splits)
  have f: "fs' path = Some (data @ [CHR 0x0A])"
    using d(2) assms(3) by (auto simp: atomicWriteFile_def rename_file_def Let_def split: if_splits option.splits)
  have env: "env_str env k x = x" "env_int env k n = n" "env_get env k = []" for k x n
    using assms(5) by (simp_all add: env_str_def env_int_def env_pos_def env_get_def)
  have o: "Client_ApplyEnvOverrides env x = x" for x
    by (simp add: Client_ApplyEnvOverrides_def env Let_def)
  have "Client_UnmarshalJSON x = x \<and> client_defaults x = x" if "client_usable x" for x
    using that by (simp add: client_usable_def Client_UnmarshalJSON_def client_defaults_def pos_or_def Let_def)
  with assms(2,4,6) d(1) f o show ?thesis by (simp add: LoadClientConfig_def)
qed

text \<open>A toy encoding: the two files it writes name the two configurations it can read.\<close>

definition demo_hub :: HubConfig where
  "demo_hub = \<lparr>hc_addr = [], hc_data_dir = ''/d'', hc_admin_token = [], hc_public_url = [], hc_heartbeat_interval_sec = -1,
     hc_default_query_ttl_sec = 0, hc_max_query_ttl_sec = 0, hc_max_probe_timeout_sec = 0,
     hc_rate_limits = \<lparr>rl_queries_per_minute = 0, rl_burst = 0\<rparr>, hc_rate_limit = \<lparr>rl_queries_per_minute = 0, rl_burst = 0\<rparr>\<rparr>"

definition demo_encode :: "ClientConfig \<Rightarrow> string option" where
  "demo_encode c = (if c = NewDefaultClientConfig then Some ''default'' else None)"

definition demo_decode :: "string \<Rightarrow> ClientConfig option" where
  "demo_decode s = (if s = ''default'' @ [CHR 0x0A] then Some NewDefaultClientConfig else None)"

lemma default_usable: "client_usable NewDefaultClientConfig" "save_sync NewDefaultClientConfig = NewDefaultClientConfig"
  by (simp_all add: client_usable_def save_sync_def NewDefaultClientConfig_def config_defaults Let_def)

theorem save_load_roundtrip_witness:
  "LoadClientConfig demo_decode (\<lambda>_. []) None ''/c/a''
     (snd (SaveClientConfig demo_encode (\<lambda>_. []) None calm_io ''/c/a'' (Some NewDefaultClientConfig) (\<lambda>_. None)))
   = Inr NewDefaultClientConfig"
proof -
  obtain fs' where s: "SaveClientConfig demo_encode (\<lambda>_. []) None calm_io ''/c/a'' (Some NewDefaultClientConfig) (\<lambda>_. None) = (None, fs')"
    by (simp add: SaveClientConfig_def default_usable demo_encode_def atomicWriteFile_def calm_io_def Let_def)
  have "\<forall>x d. demo_encode x = Some d \<longrightarrow> demo_decode (d @ [CHR 0x0A]) = Some x"
    by (simp add: demo_encode_def demo_decode_def)
  moreover have "io_temp calm_io \<noteq> Some ''/c/a''" by (simp add: calm_io_def)
  moreover have "\<forall>k. trim_space ((\<lambda>_ :: string. []) k) = []" by (simp add: trim_space_def trim_right_by_def)
  ultimately show ?thesis using save_load_roundtrip [OF s, of demo_decode] by (simp only: s default_usable snd_conv) simp
qed

theorem config_load_usable_witness:
  "(\<exists>c. LoadClientConfig demo_decode (\<lambda>_. []) None ''/c/a'' (\<lambda>_. Some (''default'' @ [CHR 0x0A])) = Inr c \<and> client_usable c)
   \<and> (\<exists>h. LoadHubConfig (\<lambda>_. Some demo_hub) (\<lambda>_. []) None ''/h'' (\<lambda>_. Some []) = Inr h \<and> hub_usable h)"
proof -
  have e: "env_get (\<lambda>_. []) k = []" for k by (simp add: env_get_def trim_space_def trim_right_by_def)
  obtain c where c: "LoadClientConfig demo_decode (\<lambda>_. []) None ''/c/a'' (\<lambda>_. Some (''default'' @ [CHR 0x0A])) = Inr c"
    by (simp add: LoadClientConfig_def demo_decode_def)
  obtain h where h: "LoadHubConfig (\<lambda>_. Some demo_hub) (\<lambda>_. []) None ''/h'' (\<lambda>_. Some []) = Inr h"
    by (simp add: LoadHubConfig_def Hub_ApplyEnvOverrides_def env_num_def e Let_def)
  from config_load_usable [of demo_decode "\<lambda>_. []" None "''/c/a''" "\<lambda>_. Some (''default'' @ [CHR 0x0A])" c]
    config_load_usable [of _ "\<lambda>_. []" None _ "\<lambda>_. Some []" _ "\<lambda>_. Some demo_hub" "''/h''" h] c h
  show ?thesis by blast
qed

section \<open>The admin token\<close>

lemma dropWhile_space_id: "list_all (\<lambda>c. \<not> is_space c) w \<Longrightarrow> trim_space (w @ [CHR 0x0A]) = w"
proof -
  assume a: "list_all (\<lambda>c. \<not> is_space c) w"
  have sp: "is_space (CHR 0x0A)" by (simp add: is_space_def)
  have "dropWhile is_space (w @ [CHR 0x0A]) = (if w = [] then [] else w @ [CHR 0x0A])"
    using a sp by (cases w) auto
  moreover have "dropWhile is_space (rev w) = rev w" using a by (auto simp: dropWhile_eq_self_iff list_all_iff hd_rev)
  ultimately show ?thesis using sp by (simp add: trim_space_def trim_right_by_def)
qed

lemma hex_no_space: "n < 16 \<Longrightarrow> \<not> is_space (hex_digit n)"
proof -
  assume "n < 16"
  then have "n \<in> set [0..<16]" by simp
  moreover have "list_all (\<lambda>n. \<not> is_space (hex_digit n)) [0..<16]" by code_simp
  ultimately show ?thesis by (auto simp: list_all_iff)
qed

lemma token_no_space: "list_all (\<lambda>c. \<not> is_space c) (''ti_adm_'' @ EncodeToString bs)"
proof -
  have "list_all (\<lambda>c. \<not> is_space c) (EncodeToString bs)" by (auto simp: EncodeToString_def list_all_iff hex_no_space)
  moreover have "list_all (\<lambda>c. \<not> is_space c) ''ti_adm_''" by code_simp
  ultimately show ?thesis by (simp only: list_all_append)
qed

text \<open>The admin token is stable: once a call has returned a token, every later call, with whatever random bytes, returns the same
  token and writes nothing.\<close>

theorem admin_token_stable:
  assumes "EnsureAdminToken env uh rnd io dir fs = (Inr tok, fs')"
    and "io_temp io \<noteq> Some (Join2 (if dir = [] then Join2 (GetTalkIntentHome env uh) ''hub'' else dir) ''admin.token'')"
  shows "EnsureAdminToken env uh rnd' io' dir fs' = (Inr tok, fs')"
proof (cases "env_get env ''TALKINTENT_ADMIN_TOKEN'' = []")
  case True
  define path where "path = Join2 (if dir = [] then Join2 (GetTalkIntentHome env uh) ''hub'' else dir) ''admin.token''"
  define old where "old = (case fs path of None \<Rightarrow> [] | Some data \<Rightarrow> trim_space data)"
  have *: "EnsureAdminToken env uh r i dir f = (let t = (case f path of None \<Rightarrow> [] | Some data \<Rightarrow> trim_space data) in
     if t \<noteq> [] then (Inr t, f) else (case r of None \<Rightarrow> (Inl RandFailed, f)
       | Some bs \<Rightarrow> (case atomicWriteFile i path ((''ti_adm_'' @ EncodeToString bs) @ [CHR 0x0A]) f of
           (ok, f') \<Rightarrow> (if ok then Inr (''ti_adm_'' @ EncodeToString bs) else Inl WriteFailed, f'))))" for r i f
    by (simp only: EnsureAdminToken_def Let_def path_def True) simp
  show ?thesis
  proof (cases "old = []")
    case False
    then have "tok = old" "fs' = fs" using assms(1) by (auto simp: * old_def [symmetric] Let_def)
    then show ?thesis using False unfolding * Let_def by (simp add: old_def)
  next
    case True
    then obtain bs where bs: "rnd = Some bs" "tok = ''ti_adm_'' @ EncodeToString bs"
      "atomicWriteFile io path (tok @ [CHR 0x0A]) fs = (True, fs')"
      using assms(1) by (auto simp: * old_def [symmetric] Let_def split: option.splits prod.splits if_splits)
    have "fs' path = Some (tok @ [CHR 0x0A])"
      using bs(3) assms(2) [folded path_def] by (auto simp: atomicWriteFile_def rename_file_def Let_def split: if_splits option.splits)
    moreover have "trim_space (tok @ [CHR 0x0A]) = tok" "tok \<noteq> []"
      using dropWhile_space_id [OF token_no_space [of bs]] bs(2) by simp_all
    ultimately show ?thesis unfolding * by simp
  qed
next
  case False
  with assms(1) show ?thesis by (simp add: EnsureAdminToken_def Let_def)
qed

theorem admin_token_stable_witness:
  "EnsureAdminToken (\<lambda>_. []) None (Some [1]) calm_io ''/d'' (snd (EnsureAdminToken (\<lambda>_. []) None (Some [255]) calm_io ''/d'' (\<lambda>_. None)))
   = (Inr ''ti_adm_ff'', snd (EnsureAdminToken (\<lambda>_. []) None (Some [255]) calm_io ''/d'' (\<lambda>_. None)))"
proof -
  have j: "Join2 ''/d'' ''admin.token'' = ''/d/admin.token''" and t: "EncodeToString [255] = ''ff''" by code_simp+
  have e: "env_get (\<lambda>_. []) k = []" for k by (simp add: env_get_def trim_space_def trim_right_by_def)
  obtain fs' where f: "EnsureAdminToken (\<lambda>_. []) None (Some [255]) calm_io ''/d'' (\<lambda>_. None) = (Inr ''ti_adm_ff'', fs')"
    by (simp add: EnsureAdminToken_def e t atomicWriteFile_def calm_io_def Let_def)
  moreover have "io_temp calm_io \<noteq> Some (Join2 ''/d'' ''admin.token'')" unfolding j by (simp add: calm_io_def)
  ultimately show ?thesis using admin_token_stable [OF f, of "Some [1]" calm_io] by (simp only: snd_conv) simp
qed

section \<open>Display of secrets\<close>

text \<open>What is displayed of a configuration does not depend on the secrets beyond their length and known prefix: two client
  configurations that differ only in the token and the key, of the same length and prefix, are displayed alike, and so are two hub
  configurations that differ only in the admin token.\<close>

theorem secrets_not_displayed:
  assumes "length s = length s'" and "secret_prefix s = secret_prefix s'"
    and "length k = length k'" and "secret_prefix k = secret_prefix k'"
  shows "Client_Redacted (c\<lparr>cc_token := s, cc_llm := (cc_llm c)\<lparr>lc_api_key := k\<rparr>\<rparr>)
       = Client_Redacted (c\<lparr>cc_token := s', cc_llm := (cc_llm c)\<lparr>lc_api_key := k'\<rparr>\<rparr>)
    \<and> Hub_Redacted (h\<lparr>hc_admin_token := s\<rparr>) = Hub_Redacted (h\<lparr>hc_admin_token := s'\<rparr>)"
proof -
  have *: "RedactSecret x = RedactSecret y" if "length x = length y" "secret_prefix x = secret_prefix y" for x y
  proof -
    have "x = [] \<longleftrightarrow> y = []" using that(1) by (metis length_0_conv)
    then show ?thesis unfolding RedactSecret_def that by simp
  qed
  show ?thesis
    unfolding Client_Redacted_def Hub_Redacted_def LLM_Redacted_def by (simp add: * [OF assms(1,2)] * [OF assms(3,4)])
qed

theorem secrets_not_displayed_witness:
  "Hub_Redacted (demo_hub\<lparr>hc_admin_token := ''ti_adm_abcd''\<rparr>) = Hub_Redacted (demo_hub\<lparr>hc_admin_token := ''ti_adm_wxyz''\<rparr>)"
proof -
  have "secret_prefix ''ti_adm_abcd'' = secret_prefix ''ti_adm_wxyz''" by code_simp
  with secrets_not_displayed [of "''ti_adm_abcd''" "''ti_adm_wxyz''" "[]" "[]"] show ?thesis by simp
qed

section \<open>Workspaces\<close>

lemma put_workspace_in: "ws \<in> set (put_workspace ws xs)" "set (put_workspace ws xs) \<subseteq> insert ws (set xs)"
  "length (put_workspace ws xs) \<le> Suc (length xs)"
  by (induction xs) auto

text \<open>The workspace list: a workspace that was added is found by its path; after a removal nothing matches the target any more and
  exactly the entries that did not match it are left, in order; and the removal reports whether something matched.\<close>

theorem workspace_list_ops:
  "(AddWorkspace fs is_dir ws c = (None, c1) \<and> NormalizeWorkspacePath fs is_dir (wc_root_path ws) = Inr p \<and> trim_space p = p
      \<longrightarrow> FindWorkspace p c1 \<noteq> None)
   \<and> (RemoveWorkspace t c = (b, c2) \<longrightarrow> FindWorkspace t c2 = None \<and> b = (FindWorkspace t c \<noteq> None)
      \<and> c2 = c\<lparr>cc_workspaces := filter (\<lambda>w. \<not> workspace_matches t w) (cc_workspaces c)\<rparr>)"
proof (intro conjI impI, goal_cases)
  case 1
  then have "c1 = c\<lparr>cc_workspaces := put_workspace (complete_workspace p ws) (cc_workspaces c)\<rparr>" by (auto simp: AddWorkspace_def)
  moreover have "Clean p = p"
    using 1 by (auto simp: NormalizeWorkspacePath_def Abs_def Join2_def split: option.splits if_splits)
  then have "workspace_matches p (complete_workspace p ws)"
    using 1 by (simp add: workspace_matches_def complete_workspace_def Let_def)
  ultimately show ?case using put_workspace_in(1) [of "complete_workspace p ws" "cc_workspaces c"]
    by (auto simp: FindWorkspace_def find_None_iff)
next
  case 2
  then show ?case by (auto simp: RemoveWorkspace_def FindWorkspace_def find_None_iff list_ex_iff split: if_splits)
next
  case 3
  then show ?case by (auto simp: RemoveWorkspace_def FindWorkspace_def find_None_iff list_ex_iff split: if_splits)
next
  case 4
  moreover have "filter (\<lambda>w. \<not> workspace_matches t w) xs = xs" if "\<not> list_ex (workspace_matches t) xs" for xs
    using that by (induction xs) auto
  ultimately show ?case by (auto simp: RemoveWorkspace_def split: if_splits)
qed

theorem workspace_list_ops_witness:
  "let ws = \<lparr>wc_id = [], wc_name = [], wc_root_path = ''/w/'', wc_privacy_prompt_path = []\<rparr>;
       c1 = snd (AddWorkspace link_fs (\<lambda>_. Some True) ws NewDefaultClientConfig)
   in FindWorkspace ''/w'' c1 \<noteq> None \<and> FindWorkspace ''w'' (snd (RemoveWorkspace ''w'' c1)) = None"
proof -
  define ws where "ws = \<lparr>wc_id = [], wc_name = [], wc_root_path = ''/w/'', wc_privacy_prompt_path = []\<rparr>"
  define c1 where "c1 = snd (AddWorkspace link_fs (\<lambda>_. Some True) ws NewDefaultClientConfig)"
  have "trim_space ''/w'' = ''/w''" by code_simp
  moreover have n: "NormalizeWorkspacePath link_fs (\<lambda>_. Some True) (wc_root_path ws) = Inr ''/w''" unfolding ws_def by code_simp
  moreover have a: "AddWorkspace link_fs (\<lambda>_. Some True) ws NewDefaultClientConfig = (None, c1)"
    by (simp add: c1_def AddWorkspace_def n)
  ultimately have "FindWorkspace ''/w'' c1 \<noteq> None"
    using workspace_list_ops [of link_fs "\<lambda>_. Some True" ws NewDefaultClientConfig c1 "''/w''"] by blast
  moreover have "FindWorkspace ''w'' (snd (RemoveWorkspace ''w'' c1)) = None"
    using workspace_list_ops [of link_fs "\<lambda>_. None" ws c1 c1 "[]" "''w''" "fst (RemoveWorkspace ''w'' c1)" "snd (RemoveWorkspace ''w'' c1)"]
    by (metis prod.collapse)
  ultimately show ?thesis unfolding Let_def ws_def [symmetric] c1_def [symmetric] by blast
qed

text \<open>Adding a workspace can make two entries for one directory: the first entry that matches by identifier or by path is replaced, and
  a later one that matches by the other is kept.\<close>

theorem add_workspace_duplicates_path:
  "let ws = (\<lambda>i p. \<lparr>wc_id = i, wc_name = i, wc_root_path = p, wc_privacy_prompt_path = []\<rparr>);
       c = NewDefaultClientConfig\<lparr>cc_workspaces := [ws ''a'' ''/x'', ws ''b'' ''/y'']\<rparr>
   in cc_workspaces (snd (AddWorkspace link_fs (\<lambda>_. Some True) (ws ''a'' ''/y'') c)) = [ws ''a'' ''/y'', ws ''b'' ''/y'']"
  by code_simp

end
