(* ===== verification/Agent_Properties.thy ===== *)
theory Agent_Properties
  imports Agent
begin

text \<open>
  What a probe run guarantees whatever the model, the tools and the clock do: the payload is redacted and bounded, the number of
  requests is bounded, the conversation sent to the provider is well formed, and a refusal ends the run.
\<close>

section \<open>The payload\<close>

definition payload_ok :: "RunRequest \<Rightarrow> QueryResponsePayload \<Rightarrow> bool" where
  "payload_ok req r \<longleftrightarrow> rp_query_id r = rr_query_id req
     \<and> key_free (rp_answer r) \<and> key_free (rp_error_message r) \<and> length (rp_answer r) \<le> MaxAnswerBytes + 33
     \<and> ((rp_status r = QueryStatusError \<or> rp_status r = QueryStatusTimeout) \<and> rp_answer r = []
        \<or> (rp_status r = QueryStatusCompleted \<or> rp_status r = QueryStatusRefused) \<and> rp_error_message r = [])"

lemma key_free_Nil [simp]: "key_free []"
proof -
  have "\<not> key_shaped []" using key_shaped_plain [of "[]"] by auto
  then show ?thesis by (auto simp: key_free_def infix_of_def)
qed

lemma truncate_bound: "length (TruncateAnswer s) \<le> MaxAnswerBytes + 33"
  by (simp add: TruncateAnswer_def)

lemma early_error_ok: "payload_ok req (early_error env req msg)"
  by (simp add: payload_ok_def early_error_def)

lemma payload_answer_ok:
  "st = QueryStatusCompleted \<or> st = QueryStatusRefused \<Longrightarrow> payload_ok req (payload env req st (TruncateAnswer (Redact a)) [] s)"
  by (auto simp: payload_ok_def payload_def key_free_truncate truncate_bound)

lemma final_payload_ok: "payload_ok req (final_payload env req a st)"
  unfolding final_payload_def Let_def by (auto intro: payload_answer_ok)

lemma error_payload_ok: "payload_ok req (error_payload env req e st)"
  by (simp add: payload_ok_def error_payload_def payload_def)

lemma run_payload_ok: "payload_ok req (fst (Run env req))"
  unfolding Run_def Let_def
  by (auto split: sum.split prod.split loop_end.split
      intro: early_error_ok payload_answer_ok final_payload_ok error_payload_ok)


section \<open>The conversation\<close>

definition tool_msg_ok :: "ToolCall \<Rightarrow> ChatMessage \<Rightarrow> bool" where
  "tool_msg_ok tc m \<longleftrightarrow> cm_role m = ''tool'' \<and> cm_tool_call_id m = tc_id tc \<and> key_free (cm_content m)"

text \<open>A turn: what the assistant said with its tool calls, and one redacted result for each call, in order.\<close>

definition turn_ok :: "ChatMessage \<times> ChatMessage list \<Rightarrow> bool" where
  "turn_ok = (\<lambda>(a, ts). cm_role a = ''assistant'' \<and> cm_tool_calls a \<noteq> [] \<and> RefuseToolName \<notin> tc_name ` set (cm_tool_calls a)
     \<and> list_all2 tool_msg_ok (cm_tool_calls a) ts)"

definition conversation :: "string \<Rightarrow> ChatMessage list \<Rightarrow> bool" where
  "conversation q msgs \<longleftrightarrow> (\<exists>turns. msgs = user_msg q # concat (map (\<lambda>(a, ts). a # ts) turns) \<and> list_all turn_ok turns)"

lemma run_tool_facts:
  "\<exists>m. rs_messages (run_tool env dir st tc) = rs_messages st @ [m] \<and> tool_msg_ok tc m"
  "rs_requests (run_tool env dir st tc) = rs_requests st"
  by (simp_all add: run_tool_def tool_msg_ok_def tool_output_def)

lemma foldl_run_tool:
  "\<exists>ts. rs_messages (foldl (run_tool env dir) st tcs) = rs_messages st @ ts \<and> list_all2 tool_msg_ok tcs ts
     \<and> rs_requests (foldl (run_tool env dir) st tcs) = rs_requests st"
proof (induction tcs arbitrary: st)
  case (Cons tc tcs)
  let ?st = "run_tool env dir st tc"
  obtain ts where ts: "rs_messages (foldl (run_tool env dir) ?st tcs) = rs_messages ?st @ ts"
    "list_all2 tool_msg_ok tcs ts" "rs_requests (foldl (run_tool env dir) ?st tcs) = rs_requests ?st"
    using Cons.IH [of ?st] by blast
  obtain m where "rs_messages ?st = rs_messages st @ [m]" "tool_msg_ok tc m" using run_tool_facts(1) by blast
  with ts show ?case by (intro exI [of _ "m # ts"]) (simp add: run_tool_facts(2))
qed simp

lemma conversation_turn:
  assumes "conversation q msgs" and "turn_ok (a, ts)"
  shows "conversation q (msgs @ a # ts)"
proof -
  obtain turns where "msgs = user_msg q # concat (map (\<lambda>(a, ts). a # ts) turns)" "list_all turn_ok turns"
    using assms(1) by (auto simp: conversation_def)
  with assms(2) show ?thesis unfolding conversation_def by (intro exI [of _ "turns @ [(a, ts)]"]) simp
qed

text \<open>The loop case by case: how it ends, and what holds of the requests it made.  \<open>used_tools\<close> says that a response calls tools and
  does not refuse.\<close>

definition used_tools :: "(run_error, ChatResponse) result \<Rightarrow> bool" where
  "used_tools r = (case r of Inl _ \<Rightarrow> False
     | Inr resp \<Rightarrow> ch_tool_calls resp \<noteq> [] \<and> List.find (\<lambda>tc. tc_name tc = RefuseToolName) (ch_tool_calls resp) = None)"

definition req_ok :: "RunRequest \<Rightarrow> ToolDefinition list \<Rightarrow> ChatRequest \<Rightarrow> bool" where
  "req_ok req defs r \<longleftrightarrow> cr_tools r = defs \<and> conversation (rr_query req) (cr_messages r)"

fun ends_with :: "'args agent_env \<Rightarrow> provider \<Rightarrow> loop_end \<Rightarrow> nat \<Rightarrow> ChatRequest list \<Rightarrow> bool" where
  "ends_with env prov (Refused why) k new =
     (new \<noteq> [] \<and> (\<exists>resp tc. prov (k + length new - 1) (last new) = Inr resp
        \<and> List.find (\<lambda>tc. tc_name tc = RefuseToolName) (ch_tool_calls resp) = Some tc \<and> why = refuse_reason env resp tc))"
| "ends_with env prov (Answered a) k new =
     (new \<noteq> [] \<and> (\<exists>resp. prov (k + length new - 1) (last new) = Inr resp \<and> ch_tool_calls resp = [] \<and> a = ch_content resp))"
| "ends_with env prov (Failed e) k new = (new = [] \<or> prov (k + length new - 1) (last new) = Inl e
     \<or> used_tools (prov (k + length new - 1) (last new)))"
| "ends_with env prov Exhausted k new = (new = [] \<or> used_tools (prov (k + length new - 1) (last new)))"

lemma ends_with_step:
  assumes "ends_with env prov e (Suc k) new" and "used_tools (prov k r)"
  shows "ends_with env prov e k (r # new)"
  using assms by (cases e; cases "new = []") auto

lemma agent_loop_trace:
  assumes "agent_loop env prov req dir sp defs n step st = (e, st')" and "conversation (rr_query req) (rs_messages st)"
  shows "\<exists>new. rs_requests st' = rs_requests st @ new \<and> length new \<le> n \<and> list_all (req_ok req defs) new
    \<and> conversation (rr_query req) (rs_messages st')
    \<and> (\<forall>i < length new - 1. used_tools (prov (length (rs_requests st) + i) (new ! i)))
    \<and> ends_with env prov e (length (rs_requests st)) new"
  using assms
proof (induction n arbitrary: step st)
  case 0
  then show ?case by auto
next
  case (Suc n)
  show ?case
  proof (cases "av_ctx env (run_timeout req) step")
    case (Some err)
    then show ?thesis using Suc.prems by auto
  next
    case None
    let ?r = "chat_request req sp defs (rs_messages st)"
    have r: "req_ok req defs ?r" using Suc.prems(2) by (simp add: req_ok_def chat_request_def)
    show ?thesis
    proof (cases "prov (length (rs_requests st)) ?r")
      case (Inl err)
      then show ?thesis using Suc.prems None r by (intro exI [of _ "[?r]"]) (auto simp: Let_def)
    next
      case (Inr resp)
      show ?thesis
      proof (cases "used_tools (Inr resp)")
        case False
        then show ?thesis using Suc.prems None r Inr
          by (intro exI [of _ "[?r]"]) (auto simp: Let_def used_tools_def split: option.splits if_splits)
      next
        case True
        define st3 where "st3 = st\<lparr>rs_requests := rs_requests st @ [?r], rs_usage := add_usage (rs_usage st) (ch_usage resp),
          rs_messages := rs_messages st @ [assistant_msg resp]\<rparr>"
        define st4 where "st4 = foldl (run_tool env dir) st3 (ch_tool_calls resp)"
        obtain ts where ts: "rs_messages st4 = rs_messages st @ assistant_msg resp # ts" "list_all2 tool_msg_ok (ch_tool_calls resp) ts"
          "rs_requests st4 = rs_requests st @ [?r]"
          using foldl_run_tool [of env dir st3 "ch_tool_calls resp"] by (auto simp: st4_def st3_def)
        have loop: "agent_loop env prov req dir sp defs n (Suc step) st4 = (e, st')"
          using Suc.prems(1) None Inr True by (auto simp: used_tools_def st4_def st3_def Let_def split: option.splits)
        have "turn_ok (assistant_msg resp, ts)"
          using True ts(2) by (auto simp: turn_ok_def assistant_msg_def used_tools_def find_None_iff split: option.splits)
        then have "conversation (rr_query req) (rs_messages st4)" using conversation_turn [OF Suc.prems(2)] ts(1) by simp
        from Suc.IH [OF loop this] obtain new where new: "rs_requests st' = rs_requests st4 @ new" "length new \<le> n"
          "list_all (req_ok req defs) new" "conversation (rr_query req) (rs_messages st')"
          "\<forall>i < length new - 1. used_tools (prov (length (rs_requests st4) + i) (new ! i))"
          "ends_with env prov e (length (rs_requests st4)) new" by blast
        have l: "length (rs_requests st4) = Suc (length (rs_requests st))" by (simp add: ts(3))
        have "\<forall>i < length (?r # new) - 1. used_tools (prov (length (rs_requests st) + i) ((?r # new) ! i))"
        proof (intro allI impI)
          fix i
          assume "i < length (?r # new) - 1"
          then show "used_tools (prov (length (rs_requests st) + i) ((?r # new) ! i))"
            using new(5,6) True Inr l by (cases i; cases e; cases "i = length new - 1") (auto simp: last_conv_nth)
        qed
        moreover have "ends_with env prov e (length (rs_requests st)) (?r # new)"
          using ends_with_step [of env prov e "length (rs_requests st)" new ?r] new(6) l True Inr by simp
        ultimately show ?thesis using new r ts(3) by (intro exI [of _ "?r # new"]) simp
      qed
    qed
  qed
qed

lemma start_conversation: "conversation (rr_query req) (rs_messages (start_state req))"
  by (auto simp: conversation_def start_state_def intro: exI [of _ "[]"])

lemma summarize_requests:
  "rs_requests (snd (summarize prov req sp st)) = rs_requests st @ [chat_request req sp [] (rs_messages st @ [user_msg summary_prompt])]"
  by (auto simp: summarize_def Let_def split: sum.split)

text \<open>The trace of a run that gets to the model: the loop's requests, then possibly one for a summary.\<close>

lemma run_trace:
  assumes "Run env req = (r, reqs)" and "av_provider env = Inr prov" and "wc_root_path (select_workspace req) \<noteq> []"
  obtains e st new extra where "reqs = new @ extra" and "length new \<le> max_steps (rr_llm req)"
    and "list_all (req_ok req (tool_defs (av_registry env))) new"
    and "\<forall>i < length new - 1. used_tools (prov i (new ! i))" and "ends_with env prov e 0 new"
    and "conversation (rr_query req) (rs_messages st)"
    and "extra = [] \<or> (e = Exhausted \<or> e = Answered []) \<and> (\<exists>sp. extra = [chat_request req sp [] (rs_messages st @ [user_msg summary_prompt])])"
    and "\<forall>why. e = Refused why \<longrightarrow> r = payload env req QueryStatusRefused (TruncateAnswer (Redact why)) [] st"
proof -
  let ?ws = "select_workspace req"
  define sp where "sp = BuildSystemPrompt ?ws (LoadPrivacyPrompts (av_fs env) (av_default_prompt env)
    (rr_global_privacy_prompt_path req) (wc_privacy_prompt_path ?ws) (wc_root_path ?ws))"
  obtain e st where l: "agent_loop env prov req (wc_root_path ?ws) sp (tool_defs (av_registry env)) (max_steps (rr_llm req)) 0 (start_state req) = (e, st)"
    by (cases "agent_loop env prov req (wc_root_path ?ws) sp (tool_defs (av_registry env)) (max_steps (rr_llm req)) 0 (start_state req)")
  from agent_loop_trace [OF l start_conversation] obtain new where
    n: "rs_requests st = new" "length new \<le> max_steps (rr_llm req)" "list_all (req_ok req (tool_defs (av_registry env))) new"
      "conversation (rr_query req) (rs_messages st)" "\<forall>i < length new - 1. used_tools (prov i (new ! i))" "ends_with env prov e 0 new"
    by (auto simp: start_state_def)
  let ?sum = "[chat_request req sp [] (rs_messages st @ [user_msg summary_prompt])]"
  have run: "Run env req = (case e of
      Refused why \<Rightarrow> (payload env req QueryStatusRefused (TruncateAnswer (Redact why)) [] st, rs_requests st)
    | Failed err \<Rightarrow> (error_payload env req err st, rs_requests st)
    | Answered a \<Rightarrow> if a = [] then (case summarize prov req sp st of (ans, st') \<Rightarrow> (final_payload env req ans st', rs_requests st'))
        else (final_payload env req a st, rs_requests st)
    | Exhausted \<Rightarrow> (case summarize prov req sp st of (ans, st') \<Rightarrow> (final_payload env req ans st', rs_requests st')))"
    unfolding Run_def Let_def sp_def [symmetric] by (simp add: assms(2,3) l)
  have s: "rs_requests st' = new @ ?sum" if "summarize prov req sp st = (ans, st')" for ans st'
    using summarize_requests [of prov req sp st] that n(1) by simp
  show thesis
  proof (cases e)
    case (Refused why)
    then show thesis using run assms(1) n by (intro that [of new "[]" e st]) auto
  next
    case (Failed err)
    then show thesis using run assms(1) n by (intro that [of new "[]" e st]) auto
  next
    case (Answered a)
    show thesis
    proof (cases "a = []")
      case True
      then show thesis using Answered run assms(1) n s by (intro that [of new ?sum e st]) (auto split: prod.splits)
    next
      case False
      then show thesis using Answered run assms(1) n by (intro that [of new "[]" e st]) auto
    qed
  next
    case Exhausted
    then show thesis using run assms(1) n s by (intro that [of new ?sum e st]) (auto split: prod.splits)
  qed
qed

lemma no_requests:
  "av_provider env = Inl x \<Longrightarrow> snd (Run env req) = []" "wc_root_path (select_workspace req) = [] \<Longrightarrow> snd (Run env req) = []"
  by (auto simp: Run_def Let_def)

lemma run_dialogue:
  "length (snd (Run env req)) \<le> max_steps (rr_llm req) + 1
   \<and> list_all (\<lambda>r. conversation (rr_query req) (cr_messages r)) (butlast (snd (Run env req)))
   \<and> (snd (Run env req) = [] \<or> (\<exists>msgs. conversation (rr_query req) msgs
        \<and> cr_messages (last (snd (Run env req))) \<in> {msgs, msgs @ [user_msg summary_prompt]}))"
proof (cases "av_provider env")
  case (Inl x)
  then show ?thesis using no_requests(1) [of env x req] by simp
next
  case (Inr prov)
  show ?thesis
  proof (cases "wc_root_path (select_workspace req) = []")
    case True
    then show ?thesis using no_requests(2) [of req env] by simp
  next
    case False
    obtain r reqs where run: "Run env req = (r, reqs)" by (cases "Run env req")
    show ?thesis
      using run_trace [OF run Inr False]
    proof cases
      case (1 e st new extra)
      have new: "list_all (\<lambda>r. conversation (rr_query req) (cr_messages r)) new"
        using 1(3) by (auto simp: list_all_iff req_ok_def)
      show ?thesis
      proof (cases "extra = []")
        case True
        have "reqs \<noteq> [] \<Longrightarrow> last reqs \<in> set new" using 1(1) True by simp
        then show ?thesis using 1(1,2) True new run by (fastforce simp: list_all_iff dest: in_set_butlastD)
      next
        case False
        then obtain sp where "extra = [chat_request req sp [] (rs_messages st @ [user_msg summary_prompt])]" using 1(7) by blast
        then show ?thesis using 1(1,2,6) new run by (auto simp: butlast_append chat_request_def)
      qed
    qed
  qed
qed

text \<open>The dialogue with the model is bounded and well formed.  A run makes at most the configured number of steps plus one request for
  a summary; every request carries the question followed by complete turns, each an assistant message with its tool calls and one
  result per call with the identifier of that call, in order, and no result contains anything of the shape of a key.  Only the
  last request may end with the demand for a summary.\<close>

theorem agent_dialogue_ok:
  "length (snd (Run env req)) \<le> max_steps (rr_llm req) + 1
   \<and> list_all (\<lambda>r. conversation (rr_query req) (cr_messages r)) (butlast (snd (Run env req)))
   \<and> (snd (Run env req) = [] \<or> (\<exists>msgs. conversation (rr_query req) msgs
        \<and> cr_messages (last (snd (Run env req))) \<in> {msgs, msgs @ [user_msg summary_prompt]}))"
  by (rule run_dialogue)

lemma tool_defs_ne: "tool_defs r \<noteq> []"
proof -
  have "length (tool_defs r) = Suc (length (List r))" by (simp add: tool_defs_def)
  then show ?thesis by auto
qed

text \<open>A refusal wins.  As soon as a response that was asked with tools calls the refuse tool, alone or among other calls, the run ends
  with that response: its other tool calls are not executed, no further request is made, and the payload is the refusal with the
  redacted reason.\<close>

theorem refusal_wins:
  assumes "Run env req = (r, reqs)" and "av_provider env = Inr prov" and "i < length reqs" and "cr_tools (reqs ! i) \<noteq> []"
    and "prov i (reqs ! i) = Inr resp" and "List.find (\<lambda>tc. tc_name tc = RefuseToolName) (ch_tool_calls resp) = Some tc"
  shows "i = length reqs - 1 \<and> rp_status r = QueryStatusRefused \<and> rp_answer r = TruncateAnswer (Redact (refuse_reason env resp tc))"
proof -
  have ws: "wc_root_path (select_workspace req) \<noteq> []" using no_requests(2) [of req env] assms(1,3) by auto
  have nu: "\<not> used_tools (prov i (reqs ! i))" using assms(5,6) by (simp add: used_tools_def)
  show ?thesis
    using run_trace [OF assms(1,2) ws]
  proof cases
    case (1 e st new extra)
    have i: "i < length new"
    proof (rule ccontr)
      assume "\<not> i < length new"
      then have "extra \<noteq> []" "reqs ! i = hd extra" using 1(1,7) assms(3) by (auto simp: nth_append)
      then show False using 1(7) assms(4) by (auto simp: chat_request_def)
    qed
    then have ri: "reqs ! i = new ! i" using 1(1) by (simp add: nth_append)
    have il: "i = length new - 1"
    proof (rule ccontr)
      assume "i \<noteq> length new - 1"
      then have "i < length new - 1" using i by simp
      then show False using 1(4) nu ri by simp
    qed
    have ne: "new \<noteq> []" using i by auto
    have last: "prov (length new - 1) (last new) = Inr resp" using assms(5) ri il last_conv_nth [OF ne] by simp
    have e: "e = Refused (refuse_reason env resp tc)"
      using 1(5) last ne assms(6) nu ri il last_conv_nth [OF ne] by (cases e) auto
    then have "extra = []" using 1(7) by auto
    with 1(1,8) e il show ?thesis by (simp add: payload_def)
  qed
qed

definition demo_agent :: "unit agent_env" where
  "demo_agent = \<lparr>av_registry = [],
     av_provider = Inr (\<lambda>_ _. Inr \<lparr>ch_content = [], ch_tool_calls = [\<lparr>tc_id = ''1'', tc_name = ''refuse'', tc_arguments = ''x''\<rparr>], ch_usage = zeroUsage\<rparr>),
     av_ctx = (\<lambda>_ _. None), av_ctx_end = (\<lambda>_. False), av_args = (\<lambda>_. ()), av_reason = (\<lambda>_. ''ok''),
     av_fs = \<lparr>pf_read = (\<lambda>_. None), pf_stat = (\<lambda>_. False)\<rparr>, av_default_prompt = [], av_duration_ms = 5\<rparr>"

definition demo_req :: RunRequest where
  "demo_req = \<lparr>rr_query_id = ''q'', rr_query = ''how is it going'',
     rr_workspace = \<lparr>wc_id = ''w'', wc_name = ''w'', wc_root_path = ''/w'', wc_privacy_prompt_path = []\<rparr>, rr_workspaces = [],
     rr_global_privacy_prompt_path = [], rr_llm = (cc_llm NewDefaultClientConfig)\<lparr>lc_max_steps := 1\<rparr>, rr_timeout = 0\<rparr>"

theorem refusal_wins_witness:
  "length (snd (Run demo_agent demo_req)) = 1 \<and> rp_status (fst (Run demo_agent demo_req)) = QueryStatusRefused
   \<and> rp_answer (fst (Run demo_agent demo_req)) = TruncateAnswer (Redact ''ok'')"
proof -
  obtain r c where run: "Run demo_agent demo_req = (r, [c])" and tools: "cr_tools c \<noteq> []"
    by (simp add: Run_def select_workspace_def demo_agent_def demo_req_def max_steps_def Steps_def start_state_def Let_def RefuseToolName_def
        chat_request_def tool_defs_ne)
  let ?resp = "\<lparr>ch_content = [], ch_tool_calls = [\<lparr>tc_id = ''1'', tc_name = ''refuse'', tc_arguments = ''x''\<rparr>], ch_usage = zeroUsage\<rparr>"
  have p: "av_provider demo_agent = Inr (\<lambda>_ _. Inr ?resp)" by (simp add: demo_agent_def)
  have f: "List.find (\<lambda>tc. tc_name tc = RefuseToolName) (ch_tool_calls ?resp) = Some \<lparr>tc_id = ''1'', tc_name = ''refuse'', tc_arguments = ''x''\<rparr>"
    by (simp add: RefuseToolName_def)
  have "trim_space ''ok'' = ''ok''" by code_simp
  then have "refuse_reason demo_agent ?resp \<lparr>tc_id = ''1'', tc_name = ''refuse'', tc_arguments = ''x''\<rparr> = ''ok''"
    by (simp add: refuse_reason_def demo_agent_def)
  with refusal_wins [OF run p, of 0 ?resp, OF _ _ _ f] tools run show ?thesis by simp
qed

end
