(* ===== verification/Daemon.thy ===== *)
theory Daemon
  imports Agent
begin

text \<open>
  The client daemon of \<^verbatim>\<open>internal/daemon/daemon.go\<close>.  Its goroutines interleave: the serve loop of a connection and one goroutine per
  accepted query, which share the shutdown flags, the semaphore, the counters and the cancellation registry.  Every atomic piece of
  a goroutine (up to the next channel operation or lock) is a function on the record \<open>daemon\<close>, and \<open>dstep\<close> allows them in any
  order.  Frames written to a connection are recorded in order; whether the peer reads them is not modelled.
\<close>

section \<open>Configuration of a run\<close>

definition ClientVersion :: string where "ClientVersion = ''1.0.0''"

definition daemon_concurrency :: "ClientConfig \<Rightarrow> int" where
  "daemon_concurrency cfg =
     (let m = cc_max_concurrency cfg; m1 = (if m \<le> 0 then dc_max_concurrency (cc_daemon cfg) else m)
      in if m1 \<le> 0 then DefaultMaxConcurrency else m1)"

definition daemon_ws_url :: "checks \<Rightarrow> string \<Rightarrow> string option" where
  "daemon_ws_url ck hubURL0 =
     (let hubURL = (if contains hubURL0 ''://'' then hubURL0 else ''http://'' @ hubURL0) in
      case url_parse ck hubURL of
        None \<Rightarrow> None
      | Some (scheme, host) \<Rightarrow>
          Some ((if scheme = ''https'' \<or> scheme = ''wss'' then ''wss'' else ''ws'') @ ''://'' @ host @ ''/ws/daemon''))"

text \<open>\<open>is_file\<close> is \<^verbatim>\<open>os.Stat\<close> succeeding on something that is not a directory.\<close>

definition computeHasPrivacyPrompt :: "(string \<Rightarrow> bool) \<Rightarrow> WorkspaceConfig \<Rightarrow> bool" where
  "computeHasPrivacyPrompt is_file ws \<longleftrightarrow>
     wc_privacy_prompt_path ws \<noteq> [] \<and> is_file (wc_privacy_prompt_path ws)
     \<or> wc_root_path ws \<noteq> [] \<and> (is_file (Join2 (wc_root_path ws) ''.talkintent/privacy-prompt.md'')
          \<or> is_file (Join2 (wc_root_path ws) ''privacy-prompt.md''))"

definition hello_payload :: "(string \<Rightarrow> bool) \<Rightarrow> string \<Rightarrow> string \<Rightarrow> string \<Rightarrow> ClientConfig \<Rightarrow> DaemonHelloPayload" where
  "hello_payload is_file goos goarch sessionID cfg =
     \<lparr>dh_session_id = sessionID, dh_member_id = cc_member_id cfg, dh_client_version = ClientVersion,
      dh_machine_name = cc_machine_name cfg, dh_os = goos, dh_arch = goarch, dh_max_concurrency = daemon_concurrency cfg,
      dh_workspaces = map (\<lambda>ws. \<lparr>wi_id = wc_id ws, wi_name = wc_name ws, wi_root_path = wc_root_path ws,
        wi_has_privacy_prompt = computeHasPrivacyPrompt is_file ws\<rparr>) (cc_workspaces cfg)\<rparr>"

definition resolveWorkspace :: "ClientConfig \<Rightarrow> string \<Rightarrow> WorkspaceConfig option" where
  "resolveWorkspace cfg target =
     (if cc_workspaces cfg = [] then None
      else if target = [] then Some (hd (cc_workspaces cfg))
      else List.find (\<lambda>ws. wc_id ws = target \<or> equal_fold (wc_name ws) target
             \<or> wc_root_path ws \<noteq> [] \<and> (wc_root_path ws = target \<or> Clean (wc_root_path ws) = Clean target)) (cc_workspaces cfg))"

definition query_timeout_sec :: "ClientConfig \<Rightarrow> QueryRequestPayload \<Rightarrow> int" where
  "query_timeout_sec cfg req =
     (let t = qr_timeout_seconds req; t1 = (if t \<le> 0 then cc_probe_timeout_seconds cfg else t) in if t1 \<le> 0 then 60 else t1)"

section \<open>Answering one query\<close>

definition error_response :: "string \<Rightarrow> string \<Rightarrow> string \<Rightarrow> QueryResponsePayload" where
  "error_response qid status msg =
     \<lparr>rp_query_id = qid, rp_status = status, rp_answer = [], rp_tools_used = None, rp_duration_ms = 0,
      rp_token_usage = zeroUsage, rp_error_message = msg\<rparr>"

definition run_request :: "ClientConfig \<Rightarrow> QueryRequestPayload \<Rightarrow> WorkspaceConfig \<Rightarrow> RunRequest" where
  "run_request cfg req ws =
     \<lparr>rr_query_id = qr_query_id req, rr_query = qr_query req, rr_workspace = ws, rr_workspaces = cc_workspaces cfg,
      rr_global_privacy_prompt_path = cc_global_privacy_prompt_path cfg, rr_llm = cc_llm cfg,
      rr_timeout = wrap64 (query_timeout_sec cfg req * secondNs)\<rparr>"

text \<open>An agent: what \<^verbatim>\<open>Run\<close> returns.\<close>

type_synonym agent = "RunRequest \<Rightarrow> (run_error, QueryResponsePayload) result"

definition clean_result :: "QueryResponsePayload \<Rightarrow> QueryResponsePayload" where
  "clean_result res =
     (let r1 = (if rp_answer res \<noteq> [] then res\<lparr>rp_answer := TruncateAnswer (Redact (rp_answer res))\<rparr> else res);
          r2 = (if rp_error_message r1 \<noteq> [] then r1\<lparr>rp_error_message := Redact (rp_error_message r1)\<rparr> else r1)
      in if rp_status r2 = [] \<or> rp_status r2 = QueryStatusSuccess then r2\<lparr>rp_status := QueryStatusCompleted\<rparr> else r2)"

text \<open>The response of \<^verbatim>\<open>dispatchQuery\<close>; \<open>deadline\<close> says whether the query's context has passed its deadline by then.\<close>

definition dispatchQuery :: "ClientConfig \<Rightarrow> agent \<Rightarrow> bool \<Rightarrow> QueryRequestPayload \<Rightarrow> QueryResponsePayload" where
  "dispatchQuery cfg agent deadline req =
     (let qid = qr_query_id req in
      if cc_workspaces cfg = [] then error_response qid QueryStatusError ''no workspaces configured on daemon''
      else (case resolveWorkspace cfg (qr_target_workspace req) of
        None \<Rightarrow> error_response qid QueryStatusError (''target workspace '' @ Quote (qr_target_workspace req) @ '' not found on daemon'')
      | Some ws \<Rightarrow>
          if wc_root_path ws = [] then error_response qid QueryStatusError ''selected workspace has empty root path''
          else (case agent (run_request cfg req ws) of
             Inl e \<Rightarrow> error_response qid (if re_deadline e \<or> deadline then QueryStatusTimeout else QueryStatusError) (Redact (re_text e))
           | Inr res \<Rightarrow> clean_result res)))"

section \<open>State\<close>

datatype ctx_state = Live | DeadlineExceeded | Canceled

text \<open>Where the goroutine of a query stands: before registering its cancel function, at the semaphore, with a slot, with its response
  written, after giving back its slot (or giving up at the semaphore), and ended.\<close>

datatype phase = Spawned | Waiting | Running | Sent | Leaving | Gone

record probe =
  p_req :: QueryRequestPayload
  p_conn :: nat
  p_phase :: phase
  p_ctx :: ctx_state
  p_replies :: nat

datatype out = Hello DaemonHelloPayload | Ping int | Response nat QueryResponsePayload

record DaemonStatus =
  st_connected :: bool
  st_active :: nat

record daemon =
  dm_cfg :: ClientConfig
  dm_cap :: nat
  dm_stopped :: bool
  dm_draining :: bool
  dm_conn :: "nat option"
  dm_conns :: nat
  dm_sem :: nat
  dm_active :: nat
  dm_inflight :: nat
  dm_queries :: "nat gomap"
  dm_probes :: "probe list"
  dm_session :: string
  dm_interval :: int
  dm_lastPong :: int
  dm_awaiting :: bool
  dm_pingSentAt :: int
  dm_sent :: "(nat \<times> out) list"
  dm_status :: "DaemonStatus option"
  dm_pid :: bool
  dm_cleanedUp :: bool

definition NewClientDaemon :: "ClientConfig \<Rightarrow> daemon" where
  "NewClientDaemon cfg =
     \<lparr>dm_cfg = cfg, dm_cap = nat (daemon_concurrency cfg), dm_stopped = False, dm_draining = False, dm_conn = None, dm_conns = 0,
      dm_sem = 0, dm_active = 0, dm_inflight = 0, dm_queries = [], dm_probes = [], dm_session = [], dm_interval = 0, dm_lastPong = 0,
      dm_awaiting = False, dm_pingSentAt = 0, dm_sent = [], dm_status = None, dm_pid = False, dm_cleanedUp = True\<rparr>"

section \<open>Files\<close>

definition initFiles :: "daemon \<Rightarrow> daemon" where
  "initFiles d = d\<lparr>dm_cleanedUp := False, dm_pid := True, dm_status := Some \<lparr>st_connected = False, st_active = 0\<rparr>\<rparr>"

definition writeStatusFile :: "bool \<Rightarrow> daemon \<Rightarrow> daemon" where
  "writeStatusFile conn d =
     (if dm_cleanedUp d then d else d\<lparr>dm_status := Some \<lparr>st_connected = conn, st_active = dm_active d\<rparr>\<rparr>)"

definition cleanupFiles :: "daemon \<Rightarrow> daemon" where
  "cleanupFiles d =
     (if dm_cleanedUp d then d
      else d\<lparr>dm_cleanedUp := True, dm_status := Some \<lparr>st_connected = False, st_active = 0\<rparr>, dm_pid := False\<rparr>)"

section \<open>The goroutine of a query\<close>

definition tryAcquireProbe :: "daemon \<Rightarrow> (bool \<times> daemon)" where
  "tryAcquireProbe d =
     (if dm_stopped d then (False, d) else if dm_draining d then (False, d) else (True, d\<lparr>dm_inflight := dm_inflight d + 1\<rparr>))"

definition set_probe :: "nat \<Rightarrow> (probe \<Rightarrow> probe) \<Rightarrow> daemon \<Rightarrow> daemon" where
  "set_probe i f d = d\<lparr>dm_probes := (dm_probes d)[i := f (dm_probes d ! i)]\<rparr>"

definition send_frame :: "nat \<Rightarrow> out \<Rightarrow> daemon \<Rightarrow> daemon" where
  "send_frame c fr d = d\<lparr>dm_sent := dm_sent d @ [(c, fr)]\<rparr>"

definition connected_now :: "daemon \<Rightarrow> bool" where
  "connected_now d \<longleftrightarrow> dm_conn d \<noteq> None \<and> \<not> dm_draining d"

definition register_query :: "nat \<Rightarrow> daemon \<Rightarrow> daemon" where
  "register_query i d =
     set_probe i (\<lambda>p. p\<lparr>p_phase := Waiting\<rparr>) (d\<lparr>dm_queries := gm_put (qr_query_id (p_req (dm_probes d ! i))) i (dm_queries d)\<rparr>)"

definition acquire_slot :: "nat \<Rightarrow> daemon \<Rightarrow> daemon" where
  "acquire_slot i d =
     (let d1 = set_probe i (\<lambda>p. p\<lparr>p_phase := Running\<rparr>) (d\<lparr>dm_sem := dm_sem d + 1, dm_active := dm_active d + 1\<rparr>)
      in writeStatusFile (connected_now d1) d1)"

definition give_up :: "nat \<Rightarrow> daemon \<Rightarrow> daemon" where
  "give_up i d =
     (let p = dm_probes d ! i in
      if p_ctx p = DeadlineExceeded then
        set_probe i (\<lambda>p. p\<lparr>p_phase := Leaving, p_replies := p_replies p + 1\<rparr>)
          (send_frame (p_conn p) (Response i (error_response (qr_query_id (p_req p)) QueryStatusTimeout
             ''query timed out waiting in daemon queue'')) d)
      else set_probe i (\<lambda>p. p\<lparr>p_phase := Leaving\<rparr>) d)"

definition answer_query :: "agent \<Rightarrow> nat \<Rightarrow> daemon \<Rightarrow> daemon" where
  "answer_query agent i d =
     (let p = dm_probes d ! i in
      set_probe i (\<lambda>p. p\<lparr>p_phase := Sent, p_replies := p_replies p + 1\<rparr>)
        (send_frame (p_conn p) (Response i (dispatchQuery (dm_cfg d) agent (p_ctx p = DeadlineExceeded) (p_req p))) d))"

definition release_slot :: "nat \<Rightarrow> daemon \<Rightarrow> daemon" where
  "release_slot i d =
     (let d1 = d\<lparr>dm_active := dm_active d - 1\<rparr>;
          d2 = writeStatusFile (connected_now d1) d1
      in set_probe i (\<lambda>p. p\<lparr>p_phase := Leaving\<rparr>) (d2\<lparr>dm_sem := dm_sem d2 - 1\<rparr>))"

definition leave_query :: "nat \<Rightarrow> daemon \<Rightarrow> daemon" where
  "leave_query i d =
     set_probe i (\<lambda>p. p\<lparr>p_phase := Gone\<rparr>)
       (d\<lparr>dm_queries := gm_del (qr_query_id (p_req (dm_probes d ! i))) (dm_queries d), dm_inflight := dm_inflight d - 1\<rparr>)"

definition cancel_ctx :: "probe \<Rightarrow> probe" where
  "cancel_ctx p = (if p_ctx p = Live then p\<lparr>p_ctx := Canceled\<rparr> else p)"

definition expire_ctx :: "probe \<Rightarrow> probe" where
  "expire_ctx p = (if p_ctx p = Live then p\<lparr>p_ctx := DeadlineExceeded\<rparr> else p)"

section \<open>The serve loop\<close>

definition requestShutdown :: "daemon \<Rightarrow> daemon" where
  "requestShutdown d = d\<lparr>dm_stopped := True\<rparr>"

text \<open>From dialling to the loop: the connection becomes active, and unless a stop came first the hello is written.\<close>

definition begin_serve :: "int \<Rightarrow> (string \<Rightarrow> bool) \<Rightarrow> string \<Rightarrow> string \<Rightarrow> daemon \<Rightarrow> daemon" where
  "begin_serve now is_file goos goarch d =
     (let c = dm_conns d; hb = cc_heartbeat_interval_sec (dm_cfg d);
          d1 = d\<lparr>dm_conn := Some c, dm_conns := c + 1\<rparr>;
          d2 = send_frame c (Hello (hello_payload is_file goos goarch (dm_session d) (dm_cfg d))) d1;
          d3 = (writeStatusFile True d2)\<lparr>dm_draining := False,
                 dm_interval := wrap64 ((if hb \<le> 0 then DefaultHeartbeatIntervalSec else hb) * secondNs),
                 dm_lastPong := now, dm_awaiting := False, dm_pingSentAt := 0\<rparr>
      in d3)"

text \<open>Leaving the loop: the context of the connection is cancelled, and with it those of its queries.\<close>

definition end_serve :: "nat \<Rightarrow> daemon \<Rightarrow> daemon" where
  "end_serve c d =
     d\<lparr>dm_conn := (if dm_conn d = Some c then None else dm_conn d),
       dm_probes := map (\<lambda>p. if p_conn p = c then cancel_ctx p else p) (dm_probes d)\<rparr>"

definition on_stop :: "daemon \<Rightarrow> daemon" where
  "on_stop d = d\<lparr>dm_draining := True\<rparr>"

definition on_tick :: "int \<Rightarrow> nat \<Rightarrow> daemon \<Rightarrow> daemon" where
  "on_tick now c d = (send_frame c (Ping (int (dm_active d))) d)\<lparr>dm_awaiting := True, dm_pingSentAt := now\<rparr>"

text \<open>The watchdog: whether the connection is given up.  \<^verbatim>\<open>float64(interval)*2.5\<close> is exact for the intervals in use.\<close>

definition watchdog :: "int \<Rightarrow> int \<Rightarrow> daemon \<Rightarrow> bool" where
  "watchdog pongTimeout now d \<longleftrightarrow>
     dm_awaiting d \<and> now - dm_pingSentAt d > pongTimeout \<or> 2 * (now - dm_lastPong d) > 5 * dm_interval d"

definition on_pong :: "int \<Rightarrow> daemon \<Rightarrow> daemon" where
  "on_pong now d = writeStatusFile True (d\<lparr>dm_lastPong := now, dm_awaiting := False\<rparr>)"

definition on_ack :: "HubAckPayload option \<Rightarrow> daemon \<Rightarrow> daemon" where
  "on_ack ack d =
     writeStatusFile True
       (case ack of None \<Rightarrow> d
        | Some a \<Rightarrow> d\<lparr>dm_session := ha_session_id a,
            dm_interval := (if ha_heartbeat_interval_sec a > 0 then wrap64 (ha_heartbeat_interval_sec a * secondNs) else dm_interval d)\<rparr>)"

definition on_cancel :: "string \<Rightarrow> daemon \<Rightarrow> daemon" where
  "on_cancel qid d = (case gm_get (dm_queries d) qid of None \<Rightarrow> d | Some i \<Rightarrow> set_probe i cancel_ctx d)"

definition on_request :: "nat \<Rightarrow> QueryRequestPayload \<Rightarrow> daemon \<Rightarrow> daemon" where
  "on_request c req d =
     (case tryAcquireProbe d of
        (False, d1) \<Rightarrow> d1
      | (True, d1) \<Rightarrow> d1\<lparr>dm_probes := dm_probes d1 @ [\<lparr>p_req = req, p_conn = c, p_phase = Spawned, p_ctx = Live, p_replies = 0\<rparr>]\<rparr>)"

section \<open>Interleavings\<close>

definition at_phase :: "phase \<Rightarrow> nat \<Rightarrow> daemon \<Rightarrow> bool" where
  "at_phase ph i d \<longleftrightarrow> i < length (dm_probes d) \<and> p_phase (dm_probes d ! i) = ph"

inductive dstep :: "agent \<Rightarrow> daemon \<Rightarrow> daemon \<Rightarrow> bool" for agent where
  Init: "dstep agent d (initFiles d)"
| Stop: "dstep agent d (requestShutdown d)"
| Clean: "dstep agent d (cleanupFiles d)"
| Begin: "dm_conn d = None \<Longrightarrow> \<not> dm_stopped d \<Longrightarrow> dstep agent d (begin_serve now is_file goos goarch d)"
| DrainStart: "dm_stopped d \<Longrightarrow> dm_conn d = Some c \<Longrightarrow> dstep agent d (on_stop d)"
| End: "dm_conn d = Some c \<Longrightarrow> dstep agent d (end_serve c d)"
| Tick: "dm_conn d = Some c \<Longrightarrow> dstep agent d (on_tick now c d)"
| Pong: "dm_conn d = Some c \<Longrightarrow> dstep agent d (on_pong now d)"
| Ack: "dm_conn d = Some c \<Longrightarrow> dstep agent d (on_ack ack d)"
| Cancel: "dm_conn d = Some c \<Longrightarrow> dstep agent d (on_cancel qid d)"
| Request: "dm_conn d = Some c \<Longrightarrow> dstep agent d (on_request c req d)"
| Register: "at_phase Spawned i d \<Longrightarrow> dstep agent d (register_query i d)"
| Acquire: "at_phase Waiting i d \<Longrightarrow> dm_sem d < dm_cap d \<Longrightarrow> dstep agent d (acquire_slot i d)"
| GiveUp: "at_phase Waiting i d \<Longrightarrow> p_ctx (dm_probes d ! i) \<noteq> Live \<Longrightarrow> dstep agent d (give_up i d)"
| StopWaiting: "at_phase Waiting i d \<Longrightarrow> dm_stopped d \<Longrightarrow> dstep agent d (set_probe i (\<lambda>p. p\<lparr>p_phase := Leaving\<rparr>) d)"
| Answer: "at_phase Running i d \<Longrightarrow> dstep agent d (answer_query agent i d)"
| Release: "at_phase Sent i d \<Longrightarrow> dstep agent d (release_slot i d)"
| Leave: "at_phase Leaving i d \<Longrightarrow> dstep agent d (leave_query i d)"
| Expire: "i < length (dm_probes d) \<Longrightarrow> dstep agent d (set_probe i expire_ctx d)"

section \<open>Reconnecting\<close>

text \<open>\<^verbatim>\<open>computeJitter\<close> for eight random bytes read as \<open>rnd\<close>, in exact arithmetic cut towards zero.\<close>

definition computeJitter :: "nat \<Rightarrow> int \<Rightarrow> int" where
  "computeJitter rnd base =
     (if base \<le> 0 then 0
      else let num = base * (2 * int (rnd mod 1000) - 1000) in if num \<ge> 0 then num div 5000 else - ((- num) div 5000))"

text \<open>The length of the pause after a lost connection, and the backoff after it.\<close>

definition sleep_duration :: "nat \<Rightarrow> int \<Rightarrow> int" where
  "sleep_duration rnd backoff = max 10000000 (backoff + computeJitter rnd backoff)"

definition reset_backoff :: "int \<Rightarrow> int \<Rightarrow> int \<Rightarrow> int" where
  "reset_backoff initial lasted backoff = (if lasted > 15 * secondNs then initial else backoff)"

definition next_backoff :: "int \<Rightarrow> int \<Rightarrow> int" where
  "next_backoff maxBackoff backoff = (let b = wrap64 (2 * backoff) in if b > maxBackoff then maxBackoff else b)"

text \<open>The pauses of a run of attempts, each given by how long its connection lasted and the random bytes drawn after it.\<close>

fun pauses :: "int \<Rightarrow> int \<Rightarrow> int \<Rightarrow> (int \<times> nat) list \<Rightarrow> int list" where
  "pauses initial maxBackoff backoff [] = []"
| "pauses initial maxBackoff backoff ((lasted, rnd) # rest) =
     (let b = reset_backoff initial lasted backoff
      in sleep_duration rnd b # pauses initial maxBackoff (next_backoff maxBackoff b) rest)"

end
