(* ===== verification/Daemon_Properties.thy ===== *)
theory Daemon_Properties
  imports Daemon Agent_Properties
begin

text \<open>
  The daemon under every interleaving of its goroutines: the concurrency limit, one response per query, what a shutdown waits for,
  and one way a cancellation gets lost; then the answers themselves and the reconnect pauses.
\<close>

section \<open>The invariant\<close>

definition busy :: "probe \<Rightarrow> bool" where
  "busy p \<longleftrightarrow> p_phase p = Running \<or> p_phase p = Sent"

definition replies_ok :: "probe \<Rightarrow> bool" where
  "replies_ok p \<longleftrightarrow> p_replies p \<le> 1 \<and> (p_phase p \<in> {Spawned, Waiting, Running} \<longrightarrow> p_replies p = 0) \<and> (p_phase p = Sent \<longrightarrow> p_replies p = 1)"

definition frames_for :: "nat \<Rightarrow> daemon \<Rightarrow> (nat \<times> out) list" where
  "frames_for i d = filter (\<lambda>(c, fr). \<exists>r. fr = Response i r) (dm_sent d)"

text \<open>A response frame goes to the connection its query came from and carries either the answer or the notice that the query timed out
  in the queue.\<close>

definition frame_ok :: "agent \<Rightarrow> daemon \<Rightarrow> nat \<times> out \<Rightarrow> bool" where
  "frame_ok agent d = (\<lambda>(c, fr). case fr of
     Response i r \<Rightarrow> i < length (dm_probes d) \<and> c = p_conn (dm_probes d ! i)
       \<and> (let req = p_req (dm_probes d ! i) in
          r = error_response (qr_query_id req) QueryStatusTimeout ''query timed out waiting in daemon queue''
          \<or> (\<exists>dl. r = dispatchQuery (dm_cfg d) agent dl req))
   | _ \<Rightarrow> True)"

definition dinv :: "agent \<Rightarrow> daemon \<Rightarrow> bool" where
  "dinv agent d \<longleftrightarrow>
     dm_sem d = length (filter busy (dm_probes d)) \<and> dm_active d = dm_sem d \<and> dm_sem d \<le> dm_cap d
     \<and> dm_inflight d = length (filter (\<lambda>p. p_phase p \<noteq> Gone) (dm_probes d))
     \<and> list_all replies_ok (dm_probes d)
     \<and> (\<forall>i < length (dm_probes d). length (frames_for i d) = p_replies (dm_probes d ! i))
     \<and> list_all (frame_ok agent d) (dm_sent d)"

lemma filter_update:
  "i < length xs \<Longrightarrow> length (filter P (xs[i := y])) + of_bool (P (xs ! i)) = length (filter P xs) + of_bool (P y)"
proof (induction xs arbitrary: i)
  case (Cons x xs)
  then show ?case by (cases i) auto
qed simp

lemma filter_update_same: "i < length xs \<Longrightarrow> P y = P (xs ! i) \<Longrightarrow> length (filter P (xs[i := y])) = length (filter P xs)"
  using filter_update [of i xs P y] by simp

lemma list_all_update: "list_all P xs \<Longrightarrow> P y \<Longrightarrow> list_all P (xs[i := y])"
  by (cases "i < length xs") (auto simp: list_all_iff dest: set_update_subset_insert [THEN subsetD])

lemma frame_ok_mono:
  assumes "frame_ok agent d fr" and "dm_cfg d' = dm_cfg d" and "length (dm_probes d) \<le> length (dm_probes d')"
    and "\<And>i. i < length (dm_probes d) \<Longrightarrow> p_req (dm_probes d' ! i) = p_req (dm_probes d ! i) \<and> p_conn (dm_probes d' ! i) = p_conn (dm_probes d ! i)"
  shows "frame_ok agent d' fr"
  using assms by (cases fr; cases "snd fr") (auto simp: frame_ok_def Let_def)

lemma frames_for_eq: "dm_sent d' = dm_sent d \<Longrightarrow> frames_for i d' = frames_for i d"
  by (simp add: frames_for_def)

text \<open>A step that changes no goroutine and writes no response.\<close>

lemma dinv_quiet:
  assumes "dinv agent d" and "dm_probes d' = dm_probes d" and "dm_cfg d' = dm_cfg d" and "dm_cap d' = dm_cap d"
    and "dm_sem d' = dm_sem d" and "dm_active d' = dm_active d" and "dm_inflight d' = dm_inflight d"
    and "dm_sent d' = dm_sent d @ new" and "list_all (\<lambda>(c, fr). \<forall>i r. fr \<noteq> Response i r) new"
  shows "dinv agent d'"
proof -
  have "frames_for i d' = frames_for i d" for i
    using assms(8,9) by (auto simp: frames_for_def list_all_iff filter_empty_conv)
  moreover have "frame_ok agent d' = frame_ok agent d" using assms(2,3) by (auto simp: frame_ok_def fun_eq_iff)
  moreover have "list_all (frame_ok agent d) new" using assms(9) by (auto simp: list_all_iff frame_ok_def split: out.split)
  ultimately show ?thesis using assms by (simp add: dinv_def)
qed

text \<open>A step of one goroutine that writes no response: only its phase and context change.\<close>

lemma dinv_move:
  assumes "dinv agent d" and "i < length (dm_probes d)" and "dm_probes d' = (dm_probes d)[i := p']"
    and "p_req p' = p_req (dm_probes d ! i)" and "p_conn p' = p_conn (dm_probes d ! i)" and "p_replies p' = p_replies (dm_probes d ! i)"
    and "replies_ok p'" and "dm_cfg d' = dm_cfg d" and "dm_cap d' = dm_cap d" and "dm_sent d' = dm_sent d"
    and "dm_sem d' + of_bool (busy (dm_probes d ! i)) = dm_sem d + of_bool (busy p')" and "dm_active d' = dm_sem d'" and "dm_sem d' \<le> dm_cap d'"
    and "dm_inflight d' + of_bool (p_phase (dm_probes d ! i) \<noteq> Gone) = dm_inflight d + of_bool (p_phase p' \<noteq> Gone)"
  shows "dinv agent d'"
proof -
  have "length (frames_for j d') = p_replies (dm_probes d' ! j)" if "j < length (dm_probes d')" for j
    using assms(1-3,6) that frames_for_eq [OF assms(10)] by (cases "j = i") (auto simp: dinv_def)
  moreover have "list_all (frame_ok agent d') (dm_sent d')"
  proof -
    have "frame_ok agent d fr \<Longrightarrow> frame_ok agent d' fr" for fr
      by (rule frame_ok_mono) (use assms(2-5,8) in \<open>auto simp: nth_list_update\<close>)
    then show ?thesis using assms(1,10) by (auto simp: dinv_def list_all_iff)
  qed
  moreover have "dm_sem d' = length (filter busy (dm_probes d'))"
    using filter_update [OF assms(2), of busy p'] assms(1,3,11) by (simp add: dinv_def)
  moreover have "dm_inflight d' = length (filter (\<lambda>p. p_phase p \<noteq> Gone) (dm_probes d'))"
    using filter_update [OF assms(2), of "\<lambda>p. p_phase p \<noteq> Gone" p'] assms(1,3,14) by (simp add: dinv_def)
  moreover have "list_all replies_ok (dm_probes d')" using assms(1,3,7) by (simp add: dinv_def list_all_update)
  ultimately show ?thesis using assms(12,13) by (simp add: dinv_def)
qed

text \<open>A step of one goroutine that writes its response.\<close>

lemma dinv_reply:
  assumes "dinv agent d" and "i < length (dm_probes d)" and "p_replies (dm_probes d ! i) = 0"
    and "dm_probes d' = (dm_probes d)[i := p']" and "p_req p' = p_req (dm_probes d ! i)" and "p_conn p' = p_conn (dm_probes d ! i)"
    and "p_replies p' = 1" and "replies_ok p'" and "busy p' = busy (dm_probes d ! i)" and "p_phase (dm_probes d ! i) \<noteq> Gone" and "p_phase p' \<noteq> Gone"
    and "dm_cfg d' = dm_cfg d" and "dm_cap d' = dm_cap d" and "dm_sem d' = dm_sem d" and "dm_active d' = dm_active d" and "dm_inflight d' = dm_inflight d"
    and "dm_sent d' = dm_sent d @ [(p_conn (dm_probes d ! i), Response i r)]"
    and "r = error_response (qr_query_id (p_req (dm_probes d ! i))) QueryStatusTimeout ''query timed out waiting in daemon queue''
      \<or> (\<exists>dl. r = dispatchQuery (dm_cfg d) agent dl (p_req (dm_probes d ! i)))"
  shows "dinv agent d'"
proof -
  have "length (frames_for j d') = p_replies (dm_probes d' ! j)" if "j < length (dm_probes d')" for j
    using assms(1-4,7,17) that by (cases "j = i") (auto simp: dinv_def frames_for_def)
  moreover have "list_all (frame_ok agent d') (dm_sent d')"
  proof -
    have "frame_ok agent d fr \<Longrightarrow> frame_ok agent d' fr" for fr
      by (rule frame_ok_mono) (use assms(2,4-6,12) in \<open>auto simp: nth_list_update\<close>)
    moreover have "frame_ok agent d' (p_conn (dm_probes d ! i), Response i r)"
      using assms(2,4-6,12,18) by (auto simp: frame_ok_def Let_def)
    ultimately show ?thesis using assms(1,17) by (auto simp: dinv_def list_all_iff)
  qed
  moreover have "dm_sem d' = length (filter busy (dm_probes d'))"
    using filter_update_same [OF assms(2), of busy p'] assms(1,4,9,14) by (simp add: dinv_def)
  moreover have "dm_inflight d' = length (filter (\<lambda>p. p_phase p \<noteq> Gone) (dm_probes d'))"
    using filter_update_same [OF assms(2), of "\<lambda>p. p_phase p \<noteq> Gone" p'] assms(1,4,10,11,16) by (simp add: dinv_def)
  moreover have "list_all replies_ok (dm_probes d')" using assms(1,4,8) by (simp add: dinv_def list_all_update)
  ultimately show ?thesis using assms(1,13-15) by (simp add: dinv_def)
qed

lemma at_phase_facts:
  assumes "dinv agent d" and "at_phase ph i d"
  shows "i < length (dm_probes d)" and "p_phase (dm_probes d ! i) = ph" and "replies_ok (dm_probes d ! i)"
  using assms by (auto simp: at_phase_def dinv_def list_all_length)

lemma count_pos: "i < length xs \<Longrightarrow> P (xs ! i) \<Longrightarrow> 0 < length (filter P xs)"
  by (metis filter_empty_conv length_greater_0_conv nth_mem)

lemmas daemon_ops = set_probe_def send_frame_def writeStatusFile_def initFiles_def cleanupFiles_def requestShutdown_def on_stop_def
  on_tick_def on_pong_def on_ack_def begin_serve_def register_query_def acquire_slot_def release_slot_def leave_query_def Let_def

lemma ctx_same: "p_req (cancel_ctx p) = p_req p" "p_conn (cancel_ctx p) = p_conn p" "p_replies (cancel_ctx p) = p_replies p"
  "p_phase (cancel_ctx p) = p_phase p" "replies_ok (cancel_ctx p) = replies_ok p" "busy (cancel_ctx p) = busy p"
  "p_req (expire_ctx p) = p_req p" "p_conn (expire_ctx p) = p_conn p" "p_replies (expire_ctx p) = p_replies p"
  "p_phase (expire_ctx p) = p_phase p" "replies_ok (expire_ctx p) = replies_ok p" "busy (expire_ctx p) = busy p"
  by (simp_all add: cancel_ctx_def expire_ctx_def replies_ok_def busy_def)

lemma dinv_set_ctx:
  assumes "dinv agent d" and "i < length (dm_probes d)" and "f = cancel_ctx \<or> f = expire_ctx"
  shows "dinv agent (set_probe i f d)"
  by (rule dinv_move [OF assms(1,2), of _ "f (dm_probes d ! i)"])
    (use assms in \<open>auto simp: set_probe_def ctx_same dinv_def list_all_length\<close>)

lemma dinv_end_serve: "dinv agent d \<Longrightarrow> dinv agent (end_serve c d)"
proof -
  assume inv: "dinv agent d"
  let ?f = "\<lambda>p. if p_conn p = c then cancel_ctx p else p"
  let ?d = "end_serve c d"
  have pr: "dm_probes ?d = map ?f (dm_probes d)" by (simp add: end_serve_def)
  have "length (filter busy (map ?f ps)) = length (filter busy ps)"
    "length (filter (\<lambda>p. p_phase p \<noteq> Gone) (map ?f ps)) = length (filter (\<lambda>p. p_phase p \<noteq> Gone) ps)" for ps
    by (induction ps) (auto simp: ctx_same)
  moreover have "list_all replies_ok (map ?f ps) = list_all replies_ok ps" for ps
    by (induction ps) (auto simp: ctx_same)
  moreover have "frame_ok agent d fr \<Longrightarrow> frame_ok agent ?d fr" for fr
    by (rule frame_ok_mono) (auto simp: end_serve_def ctx_same)
  then have "list_all (frame_ok agent d) (dm_sent d) \<Longrightarrow> list_all (frame_ok agent ?d) (dm_sent ?d)"
    by (auto simp: list_all_iff end_serve_def)
  moreover have "p_replies (map ?f (dm_probes d) ! i) = p_replies (dm_probes d ! i)" if "i < length (dm_probes d)" for i
    using that by (simp add: ctx_same)
  moreover have "frames_for i ?d = frames_for i d" for i by (rule frames_for_eq) (simp add: end_serve_def)
  moreover have "dm_sem ?d = dm_sem d" "dm_active ?d = dm_active d" "dm_cap ?d = dm_cap d" "dm_inflight ?d = dm_inflight d"
    by (simp_all add: end_serve_def)
  ultimately show ?thesis using inv unfolding dinv_def pr by simp
qed

lemma on_request_eq:
  "on_request c req d = (if dm_stopped d \<or> dm_draining d then d
     else d\<lparr>dm_inflight := dm_inflight d + 1,
       dm_probes := dm_probes d @ [\<lparr>p_req = req, p_conn = c, p_phase = Spawned, p_ctx = Live, p_replies = 0\<rparr>]\<rparr>)"
  by (simp add: on_request_def tryAcquireProbe_def)

lemma dinv_request: "dinv agent d \<Longrightarrow> dinv agent (on_request c req d)"
proof -
  assume inv: "dinv agent d"
  let ?d = "on_request c req d"
  show ?thesis
  proof (cases "dm_stopped d \<or> dm_draining d")
    case False
    then have eq: "?d = d\<lparr>dm_inflight := dm_inflight d + 1,
       dm_probes := dm_probes d @ [\<lparr>p_req = req, p_conn = c, p_phase = Spawned, p_ctx = Live, p_replies = 0\<rparr>]\<rparr>"
      by (simp add: on_request_eq)
    have "frame_ok agent d fr \<Longrightarrow> frame_ok agent ?d fr" for fr
      by (rule frame_ok_mono) (auto simp: eq nth_append)
    then have fr: "list_all (frame_ok agent ?d) (dm_sent ?d)" using inv by (auto simp: dinv_def list_all_iff eq)
    have "frames_for (length (dm_probes d)) d = []"
      using inv by (fastforce simp: dinv_def frames_for_def filter_empty_conv list_all_iff frame_ok_def)
    then have "length (frames_for i ?d) = p_replies (dm_probes ?d ! i)" if "i < length (dm_probes ?d)" for i
      using that inv frames_for_eq [of ?d d] by (cases "i = length (dm_probes d)") (auto simp: eq nth_append dinv_def)
    then show ?thesis using inv fr by (simp add: dinv_def eq busy_def replies_ok_def)
  qed (use inv in \<open>simp add: on_request_eq\<close>)
qed

lemma dinv_give_up:
  assumes "dinv agent d" and "at_phase Waiting i d"
  shows "dinv agent (give_up i d)"
proof -
  note i = at_phase_facts [OF assms]
  let ?p = "dm_probes d ! i"
  show ?thesis
  proof (cases "p_ctx ?p = DeadlineExceeded")
    case True
    show ?thesis
      by (rule dinv_reply [OF assms(1) i(1), of _ "?p\<lparr>p_phase := Leaving, p_replies := p_replies ?p + 1\<rparr>"])
        (use i True in \<open>auto simp: give_up_def set_probe_def send_frame_def replies_ok_def busy_def Let_def\<close>)
  next
    case False
    show ?thesis
      by (rule dinv_move [OF assms(1) i(1), of _ "?p\<lparr>p_phase := Leaving\<rparr>"])
        (use assms(1) i False in \<open>auto simp: give_up_def set_probe_def replies_ok_def busy_def dinv_def Let_def\<close>)
  qed
qed

lemma dinv_answer:
  assumes "dinv agent d" and "at_phase Running i d"
  shows "dinv agent (answer_query agent i d)"
proof -
  note i = at_phase_facts [OF assms]
  let ?p = "dm_probes d ! i"
  show ?thesis
    by (rule dinv_reply [OF assms(1) i(1), of _ "?p\<lparr>p_phase := Sent, p_replies := p_replies ?p + 1\<rparr>"])
      (use i in \<open>auto simp: answer_query_def set_probe_def send_frame_def replies_ok_def busy_def Let_def\<close>)
qed

lemma dinv_step: "dstep agent d d' \<Longrightarrow> dinv agent d \<Longrightarrow> dinv agent d'"
proof (induction rule: dstep.induct)
  case (Register i d)
  note i = at_phase_facts [OF Register(2,1)]
  show ?case
    by (rule dinv_move [OF Register(2) i(1), of _ "(dm_probes d ! i)\<lparr>p_phase := Waiting\<rparr>"])
      (use Register(2) i in \<open>auto simp: daemon_ops replies_ok_def busy_def dinv_def\<close>)
next
  case (Acquire i d)
  note i = at_phase_facts [OF Acquire(3,1)]
  show ?case
    by (rule dinv_move [OF Acquire(3) i(1), of _ "(dm_probes d ! i)\<lparr>p_phase := Running\<rparr>"])
      (use Acquire(2,3) i in \<open>auto simp: daemon_ops replies_ok_def busy_def dinv_def\<close>)
next
  case (StopWaiting i d)
  note i = at_phase_facts [OF StopWaiting(3,1)]
  show ?case
    by (rule dinv_move [OF StopWaiting(3) i(1), of _ "(dm_probes d ! i)\<lparr>p_phase := Leaving\<rparr>"])
      (use StopWaiting(3) i in \<open>auto simp: daemon_ops replies_ok_def busy_def dinv_def\<close>)
next
  case (Release i d)
  note i = at_phase_facts [OF Release(2,1)]
  have "0 < length (filter busy (dm_probes d))" using count_pos [OF i(1), of busy] i(2) by (simp add: busy_def)
  then show ?case
    by (intro dinv_move [OF Release(2) i(1), of _ "(dm_probes d ! i)\<lparr>p_phase := Leaving\<rparr>"])
      (use Release(2) i in \<open>auto simp: daemon_ops replies_ok_def busy_def dinv_def\<close>)
next
  case (Leave i d)
  note i = at_phase_facts [OF Leave(2,1)]
  have "0 < length (filter (\<lambda>p. p_phase p \<noteq> Gone) (dm_probes d))" using count_pos [OF i(1), of "\<lambda>p. p_phase p \<noteq> Gone"] i(2) by simp
  then show ?case
    by (intro dinv_move [OF Leave(2) i(1), of _ "(dm_probes d ! i)\<lparr>p_phase := Gone\<rparr>"])
      (use Leave(2) i in \<open>auto simp: daemon_ops replies_ok_def busy_def dinv_def\<close>)
next
  case (Cancel d c qid)
  show ?case
  proof (cases "gm_get (dm_queries d) qid")
    case (Some i)
    show ?thesis
    proof (cases "i < length (dm_probes d)")
      case True
      then show ?thesis using Cancel Some dinv_set_ctx by (simp add: on_cancel_def)
    next
      case False
      then have "set_probe i cancel_ctx d = d" by (simp add: set_probe_def list_update_beyond)
      then show ?thesis using Cancel Some by (simp add: on_cancel_def)
    qed
  qed (use Cancel in \<open>simp add: on_cancel_def\<close>)
next
  case (Begin d now is_file goos goarch)
  show ?case
    by (rule dinv_quiet [OF Begin(3), of _ "[(dm_conns d, Hello (hello_payload is_file goos goarch (dm_session d) (dm_cfg d)))]"])
      (auto simp: daemon_ops)
next
  case (Tick d c now)
  show ?case by (rule dinv_quiet [OF Tick(2), of _ "[(c, Ping (int (dm_active d)))]"]) (auto simp: daemon_ops)
next
  case (Expire i d)
  then show ?case by (simp add: dinv_set_ctx)
qed (auto simp: dinv_end_serve dinv_request dinv_give_up dinv_answer daemon_ops intro: dinv_quiet [where new = "[]"] split: option.splits)

lemma dinv_init: "dinv agent (NewClientDaemon cfg)"
  by (simp add: dinv_def NewClientDaemon_def frames_for_def)

interpretation daemon_run: inv_system "dstep agent" "dinv agent" for agent
  by unfold_locales (rule dinv_step)

lemma step_cap: "dstep agent d d' \<Longrightarrow> dm_cap d' = dm_cap d"
  by (induction rule: dstep.induct)
    (auto simp: daemon_ops give_up_def answer_query_def on_cancel_def end_serve_def on_request_eq split: option.splits)

lemma reach_cap: "(dstep agent)\<^sup>*\<^sup>* d d' \<Longrightarrow> dm_cap d' = dm_cap d"
  by (induction rule: rtranclp_induct) (auto dest: step_cap)


text \<open>C17. Every accepted query is answered at most once, on the connection it came from, with the result of its own run or the notice that it
  timed out in the queue; and it has been answered when it gives back its slot.\<close>

theorem one_response_per_query:
  assumes "(dstep agent)\<^sup>*\<^sup>* (NewClientDaemon cfg) d" and "i < length (dm_probes d)"
  shows "length (frames_for i d) \<le> 1 \<and> (p_phase (dm_probes d ! i) = Sent \<longrightarrow> length (frames_for i d) = 1)
    \<and> list_all (\<lambda>(c, fr). c = p_conn (dm_probes d ! i) \<and> (\<exists>r. fr = Response i r
        \<and> (r = error_response (qr_query_id (p_req (dm_probes d ! i))) QueryStatusTimeout ''query timed out waiting in daemon queue''
           \<or> (\<exists>dl. r = dispatchQuery (dm_cfg d) agent dl (p_req (dm_probes d ! i)))))) (frames_for i d)"
proof -
  have inv: "dinv agent d" by (rule daemon_run.reach_good [OF assms(1) dinv_init])
  then have "length (frames_for i d) = p_replies (dm_probes d ! i)" "replies_ok (dm_probes d ! i)"
    using assms(2) by (auto simp: dinv_def list_all_length)
  moreover have "list_all (frame_ok agent d) (frames_for i d)" using inv by (auto simp: dinv_def list_all_iff frames_for_def)
  then have "list_all (\<lambda>(c, fr). c = p_conn (dm_probes d ! i) \<and> (\<exists>r. fr = Response i r
        \<and> (r = error_response (qr_query_id (p_req (dm_probes d ! i))) QueryStatusTimeout ''query timed out waiting in daemon queue''
           \<or> (\<exists>dl. r = dispatchQuery (dm_cfg d) agent dl (p_req (dm_probes d ! i)))))) (frames_for i d)"
    unfolding list_all_iff by (force simp: frames_for_def frame_ok_def Let_def)
  ultimately show ?thesis by (auto simp: replies_ok_def)
qed

section \<open>Shutdown\<close>

text \<open>What a query that holds a slot comes to: it keeps it until its response is written.\<close>

definition served :: "probe \<Rightarrow> bool" where
  "served p \<longleftrightarrow> p_phase p = Running \<or> p_replies p = 1 \<and> p_phase p \<in> {Sent, Leaving, Gone}"

lemma step_probes:
  assumes "dstep agent d d'" and "dm_stopped d"
  shows "dm_stopped d' \<and> length (dm_probes d') = length (dm_probes d)"
  using assms
  by (induction rule: dstep.induct)
    (auto simp: daemon_ops give_up_def answer_query_def on_cancel_def end_serve_def on_request_eq split: option.splits)

text \<open>What one step can do to one goroutine.\<close>

definition probe_move :: "probe \<Rightarrow> probe \<Rightarrow> bool" where
  "probe_move p p' \<longleftrightarrow>
     p_phase p' = p_phase p \<and> p_replies p' = p_replies p
     \<or> p_phase p \<in> {Spawned, Waiting}
     \<or> p_phase p = Running \<and> p_phase p' = Sent \<and> p_replies p' = p_replies p + 1
     \<or> (p_phase p = Sent \<and> p_phase p' = Leaving \<or> p_phase p = Leaving \<and> p_phase p' = Gone) \<and> p_replies p' = p_replies p"

lemma probe_move_refl [simp]: "probe_move p p"
  by (simp add: probe_move_def)

lemma probe_move_ctx [simp]: "probe_move p (cancel_ctx p)" "probe_move p (expire_ctx p)"
  by (simp_all add: probe_move_def ctx_same)

lemma set_probe_move:
  assumes "dm_probes d' = (dm_probes d)[j := p']" and "j < length (dm_probes d) \<Longrightarrow> probe_move (dm_probes d ! j) p'" and "i < length (dm_probes d)"
  shows "i < length (dm_probes d') \<and> probe_move (dm_probes d ! i) (dm_probes d' ! i)"
  using assms by (cases "i = j") auto

lemma step_move:
  assumes "dstep agent d d'" and "i < length (dm_probes d)"
  shows "i < length (dm_probes d') \<and> probe_move (dm_probes d ! i) (dm_probes d' ! i)"
  using assms
proof (induction rule: dstep.induct)
  case (Register j d)
  show ?case by (rule set_probe_move [OF _ _ Register(2), of _ j]) (use Register in \<open>auto simp: daemon_ops at_phase_def probe_move_def\<close>)
next
  case (Acquire j d)
  show ?case by (rule set_probe_move [OF _ _ Acquire(3), of _ j]) (use Acquire in \<open>auto simp: daemon_ops at_phase_def probe_move_def\<close>)
next
  case (GiveUp j d)
  show ?case
    by (cases "p_ctx (dm_probes d ! j) = DeadlineExceeded"; rule set_probe_move [OF _ _ GiveUp(3), of _ j])
      (use GiveUp in \<open>auto simp: daemon_ops give_up_def at_phase_def probe_move_def\<close>)
next
  case (StopWaiting j d)
  show ?case by (rule set_probe_move [OF _ _ StopWaiting(3), of _ j]) (use StopWaiting in \<open>auto simp: daemon_ops at_phase_def probe_move_def\<close>)
next
  case (Answer j d)
  show ?case by (rule set_probe_move [OF _ _ Answer(2), of _ j]) (use Answer in \<open>auto simp: daemon_ops answer_query_def at_phase_def probe_move_def\<close>)
next
  case (Release j d)
  show ?case by (rule set_probe_move [OF _ _ Release(2), of _ j]) (use Release in \<open>auto simp: daemon_ops at_phase_def probe_move_def\<close>)
next
  case (Leave j d)
  show ?case by (rule set_probe_move [OF _ _ Leave(2), of _ j]) (use Leave in \<open>auto simp: daemon_ops at_phase_def probe_move_def\<close>)
next
  case (Expire j d)
  show ?case by (rule set_probe_move [OF _ _ Expire(2), of _ j]) (auto simp: daemon_ops)
next
  case (Cancel d c qid)
  then show ?case
    by (cases "gm_get (dm_queries d) qid = Some i") (auto simp: on_cancel_def set_probe_def split: option.splits)
qed (auto simp: daemon_ops end_serve_def on_request_eq nth_append split: option.splits)

lemma move_served: "probe_move p p' \<Longrightarrow> replies_ok p \<Longrightarrow> served p \<Longrightarrow> served p'"
  by (auto simp: probe_move_def served_def replies_ok_def)

lemma step_served:
  assumes "dstep agent d d'" and "dinv agent d" and "i < length (dm_probes d)" and "served (dm_probes d ! i)"
  shows "i < length (dm_probes d') \<and> served (dm_probes d' ! i)"
  using step_move [OF assms(1,3)] move_served [OF _ _ assms(4)] assms(2,3) by (auto simp: dinv_def list_all_length)

lemma reach_served:
  assumes "(dstep agent)\<^sup>*\<^sup>* d d'" and "dinv agent d" and "i < length (dm_probes d)" and "served (dm_probes d ! i)"
  shows "dinv agent d' \<and> i < length (dm_probes d') \<and> served (dm_probes d' ! i)"
  using assms by (induction rule: rtranclp_induct) (auto dest: step_served dinv_step)


section \<open>A run\<close>

text \<open>One connection, the same query accepted twice, the first one answered and gone, and a stop in between.\<close>

definition demo_query :: QueryRequestPayload where
  "demo_query = \<lparr>qr_query_id = ''q'', qr_asker_id = ''a'', qr_asker_name = ''a'', qr_asker_type = ''cli'', qr_query = ''?'',
     qr_target_workspace = [], qr_timeout_seconds = 0, qr_created_at = 0\<rparr>"

definition demo_fail :: agent where
  "demo_fail req = Inl \<lparr>re_text = ''no model'', re_deadline = False\<rparr>"

definition day0 :: daemon where "day0 = begin_serve 0 (\<lambda>_. False) ''linux'' ''amd64'' (NewClientDaemon NewDefaultClientConfig)"
definition day1 :: daemon where "day1 = on_request 0 demo_query (on_request 0 demo_query day0)"
definition day2 :: daemon where "day2 = register_query 1 (register_query 0 day1)"
definition day3 :: daemon where "day3 = requestShutdown (acquire_slot 0 day2)"
definition day4 :: daemon where "day4 = leave_query 0 (release_slot 0 (answer_query demo_fail 0 (acquire_slot 0 day2)))"
definition day5 :: daemon where
  "day5 = leave_query 1 (set_probe 1 (\<lambda>p. p\<lparr>p_phase := Leaving\<rparr>) (leave_query 0 (release_slot 0 (answer_query demo_fail 0 day3))))"

lemmas days = day0_def day1_def day2_def day3_def day4_def day5_def daemon_ops on_request_eq answer_query_def NewClientDaemon_def
  demo_query_def at_phase_def daemon_concurrency_def NewDefaultClientConfig_def DefaultMaxConcurrency_def

lemma reach_day2: "(dstep agent)\<^sup>*\<^sup>* (NewClientDaemon NewDefaultClientConfig) day2"
proof -
  have c: "dm_conn day0 = Some 0" "dm_conn (on_request 0 demo_query day0) = Some 0" by (simp_all add: days)
  have "dstep agent (NewClientDaemon NewDefaultClientConfig) day0" unfolding day0_def by (rule dstep.Begin) (simp_all add: NewClientDaemon_def)
  moreover have "dstep agent day0 (on_request 0 demo_query day0)" by (rule dstep.Request [OF c(1)])
  moreover have "dstep agent (on_request 0 demo_query day0) day1" unfolding day1_def by (rule dstep.Request [OF c(2)])
  moreover have "dstep agent day1 (register_query 0 day1)" by (rule dstep.Register) (simp add: days)
  moreover have "dstep agent (register_query 0 day1) day2" unfolding day2_def by (rule dstep.Register) (simp add: days)
  ultimately show ?thesis by (meson converse_rtranclp_into_rtranclp rtranclp.rtrancl_refl)
qed

lemma reach_acquire: "dstep agent day2 (acquire_slot 0 day2)"
  by (rule dstep.Acquire) (simp_all add: days)

lemma reach_day3: "(dstep agent)\<^sup>*\<^sup>* (NewClientDaemon NewDefaultClientConfig) day3"
proof -
  have "dstep agent (acquire_slot 0 day2) day3" unfolding day3_def by (rule dstep.Stop)
  with reach_day2 reach_acquire show ?thesis by (meson rtranclp.rtrancl_into_rtrancl)
qed

lemma reach_day4: "(dstep demo_fail)\<^sup>*\<^sup>* (NewClientDaemon NewDefaultClientConfig) day4"
proof -
  let ?d = "acquire_slot 0 day2"
  have "dstep demo_fail ?d (answer_query demo_fail 0 ?d)" by (rule dstep.Answer) (simp add: days)
  moreover have "dstep demo_fail (answer_query demo_fail 0 ?d) (release_slot 0 (answer_query demo_fail 0 ?d))"
    by (rule dstep.Release) (simp add: days)
  moreover have "dstep demo_fail (release_slot 0 (answer_query demo_fail 0 ?d)) day4"
    unfolding day4_def by (rule dstep.Leave) (simp add: days)
  ultimately show ?thesis using reach_day2 reach_acquire by (meson rtranclp.rtrancl_into_rtrancl)
qed

lemma reach_day5: "(dstep demo_fail)\<^sup>*\<^sup>* day3 day5"
proof -
  let ?a = "answer_query demo_fail 0 day3"
  let ?l = "leave_query 0 (release_slot 0 ?a)"
  have "dstep demo_fail day3 ?a" by (rule dstep.Answer) (simp add: days)
  moreover have "dstep demo_fail ?a (release_slot 0 ?a)" by (rule dstep.Release) (simp add: days)
  moreover have "dstep demo_fail (release_slot 0 ?a) ?l" by (rule dstep.Leave) (simp add: days)
  moreover have "dstep demo_fail ?l (set_probe 1 (\<lambda>p. p\<lparr>p_phase := Leaving\<rparr>) ?l)" by (rule dstep.StopWaiting) (simp_all add: days)
  moreover have "dstep demo_fail (set_probe 1 (\<lambda>p. p\<lparr>p_phase := Leaving\<rparr>) ?l) day5"
    unfolding day5_def by (rule dstep.Leave) (simp add: days)
  ultimately show ?thesis by (meson converse_rtranclp_into_rtranclp rtranclp.rtrancl_refl)
qed


theorem one_response_per_query_witness: "length (frames_for 0 day4) \<le> 1 \<and> length (dm_probes day4) = 2"
proof -
  have "length (dm_probes day4) = 2" by (simp add: days)
  with one_response_per_query [OF reach_day4, of 0] show ?thesis by simp
qed


text \<open>A cancellation can get lost.  The registry of cancel functions has one entry per query identifier and a goroutine deletes the entry when
  it ends, whoever put it there: when a query that is still being worked on arrives a second time, the end of the first run removes
  the entry of the second, and a cancel request for the query then does nothing although the second run is waiting.\<close>

theorem cancel_can_get_lost:
  "(dstep demo_fail)\<^sup>*\<^sup>* (NewClientDaemon NewDefaultClientConfig) day4
   \<and> p_phase (dm_probes day4 ! 1) = Waiting \<and> p_ctx (dm_probes day4 ! 1) = Live
   \<and> qr_query_id (p_req (dm_probes day4 ! 1)) = ''q'' \<and> on_cancel ''q'' day4 = day4"
  using reach_day4 by (simp add: days on_cancel_def)

section \<open>Answers\<close>

lemma clean_result_safe:
  "key_free (rp_answer (clean_result res)) \<and> key_free (rp_error_message (clean_result res)) \<and> rp_query_id (clean_result res) = rp_query_id res
   \<and> rp_status (clean_result res) \<noteq> [] \<and> rp_status (clean_result res) \<noteq> QueryStatusSuccess"
  by (simp add: clean_result_def Let_def key_free_truncate status_defs)

lemma clean_result_status:
  "rp_status res \<in> {QueryStatusCompleted, QueryStatusRefused, QueryStatusError, QueryStatusTimeout} \<Longrightarrow> rp_status (clean_result res) = rp_status res"
  by (auto simp: clean_result_def Let_def status_defs)

lemma infix_word:
  "infix_of v s \<Longrightarrow> d \<notin> set v \<Longrightarrow> \<exists>w \<in> set (split_char d s). infix_of v w"
proof (induction "length s" arbitrary: s rule: less_induct)
  case less
  show ?case
  proof (cases "d \<in> set s")
    case False
    then show ?thesis using less by (simp add: split_char_single)
  next
    case True
    then obtain x y where s: "s = x @ d # y" by (meson split_list)
    from infix_split [OF less.prems(1) [unfolded s] less.prems(2)]
    show ?thesis using less.hyps [of x] less.hyps [of y] less.prems(2) by (auto simp: s split_char_append)
  qed
qed

text \<open>A text of short words has no room for a key.\<close>

lemma short_words_key_free:
  assumes "list_all (\<lambda>w. length w < 16) (split_char (CHR '' '') s)"
  shows "key_free s"
  unfolding key_free_def
proof (intro allI impI notI)
  fix w
  assume w: "infix_of w s" "key_shaped w"
  obtain u v where uv: "w = u @ v" "list_all rx_dotkey v" "length v \<ge> 16" using key_shaped_tail [OF w(2)] by blast
  have "infix_of v w" unfolding infix_of_def by (rule exI [of _ u], rule exI [of _ "[]"]) (simp add: uv)
  then have "infix_of v s" using w(1) infix_of_trans by blast
  moreover have "CHR '' '' \<notin> set v" using uv(2) dotkey_no_space by (force simp: list_all_iff rx_space_def)
  ultimately obtain x where "x \<in> set (split_char (CHR '' '') s)" "infix_of v x" using infix_word by blast
  then have "length v \<le> length x" "length x < 16" using assms by (auto simp: infix_of_def list_all_iff)
  with uv(3) show False by simp
qed


section \<open>Reconnect pauses\<close>

lemma jitter_bound: "0 \<le> base \<Longrightarrow> 5 * \<bar>computeJitter rnd base\<bar> \<le> base"
proof -
  assume b: "0 \<le> base"
  let ?f = "2 * int (rnd mod 1000) - 1000"
  have f: "\<bar>?f\<bar> \<le> 1000" using mod_less_divisor [of 1000 rnd] by linarith
  have n: "\<bar>base * ?f\<bar> \<le> base * 1000" using b f by (simp add: abs_mult mult_left_mono)
  have "5 * (\<bar>base * ?f\<bar> div 5000) \<le> base" using n by linarith
  moreover have "\<bar>computeJitter rnd base\<bar> \<le> \<bar>base * ?f\<bar> div 5000"
    using b by (auto simp: computeJitter_def Let_def abs_if pos_imp_zdiv_nonneg_iff)
  ultimately show ?thesis by linarith
qed

lemma next_backoff_exact: "0 < b \<Longrightarrow> b \<le> mb \<Longrightarrow> mb < 2 ^ 62 \<Longrightarrow> next_backoff mb b = min (2 * b) mb"
  by (simp add: next_backoff_def wrap64_id min_def)

lemma pauses_bounded:
  assumes "0 < initial" "initial \<le> mb" "mb < 2 ^ 62" "0 < b" "b \<le> mb"
  shows "list_all (\<lambda>p. 10000000 \<le> p \<and> p \<le> max 10000000 (mb + mb div 5)) (pauses initial mb b xs)"
  using assms
proof (induction initial mb b xs rule: pauses.induct)
  case (2 initial mb b lasted rnd rest)
  define b' where "b' = reset_backoff initial lasted b"
  have b': "0 < b'" "b' \<le> mb" using 2 by (auto simp: b'_def reset_backoff_def)
  have "5 * computeJitter rnd b' \<le> b'" using jitter_bound [of b' rnd] b' by linarith
  then have "b' + computeJitter rnd b' \<le> mb + mb div 5" using b'(2) by linarith
  moreover have "0 < next_backoff mb b'" "next_backoff mb b' \<le> mb" using next_backoff_exact [OF b'] 2 b' by auto
  ultimately show ?case using 2 by (auto simp: b'_def [symmetric] Let_def sleep_duration_def)
qed simp

lemma pauses_doubling:
  assumes "0 < initial" "initial \<le> mb" "mb < 2 ^ 62" "list_all (\<lambda>(l, _). l \<le> 15 * secondNs) xs" "k < length xs"
    and "b = min (initial * 2 ^ j) mb"
  shows "pauses initial mb b xs ! k = sleep_duration (snd (xs ! k)) (min (initial * 2 ^ (j + k)) mb)"
  using assms(4-6)
proof (induction xs arbitrary: k b j)
  case (Cons x xs)
  obtain l r where x: "x = (l, r)" by (cases x)
  have reset: "reset_backoff initial l b = b" using Cons.prems(1) by (simp add: x reset_backoff_def)
  have b: "0 < b" "b \<le> mb" using assms(1-3) Cons.prems(3) by auto
  show ?case
  proof (cases k)
    case 0
    then have "pauses initial mb b (x # xs) ! k = sleep_duration r b" by (simp add: x reset Let_def)
    then show ?thesis using 0 Cons.prems(3) by (simp add: x)
  next
    case (Suc k')
    have n: "next_backoff mb b = min (initial * 2 ^ Suc j) mb"
      using next_backoff_exact [OF b assms(3)] Cons.prems(3) assms(1,2) by (auto simp: min_def)
    have "pauses initial mb (next_backoff mb b) xs ! k' = sleep_duration (snd (xs ! k')) (min (initial * 2 ^ (Suc j + k')) mb)"
      by (rule Cons.IH) (use Cons.prems Suc n in \<open>auto simp: x\<close>)
    then show ?thesis using Suc by (simp add: x reset Let_def)
  qed
qed simp

text \<open>Reconnecting backs off exponentially and never too far.  After the k-th failure in a row of connections that did not last 15
  seconds the pause is the initial backoff doubled k times, at most the maximum, give or take a fifth and at least ten milliseconds; and
  in any history of connections every pause lies between ten milliseconds and the maximum plus a fifth.\<close>

theorem backoff_bounds:
  assumes "0 < initial" and "initial \<le> mb" and "mb < 2 ^ 62" and "list_all (\<lambda>(l, _). l \<le> 15 * secondNs) xs" and "k < length xs"
  shows "(let b = min (initial * 2 ^ k) mb; j = computeJitter (snd (xs ! k)) b
      in pauses initial mb initial xs ! k = max 10000000 (b + j) \<and> 5 * \<bar>j\<bar> \<le> b)
    \<and> list_all (\<lambda>p. 10000000 \<le> p \<and> p \<le> max 10000000 (mb + mb div 5)) (pauses initial mb initial ys)"
proof -
  have "pauses initial mb initial xs ! k = sleep_duration (snd (xs ! k)) (min (initial * 2 ^ (0 + k)) mb)"
    by (rule pauses_doubling [OF assms]) (use assms in simp)
  then show ?thesis using jitter_bound [of "min (initial * 2 ^ k) mb" "snd (xs ! k)"] pauses_bounded [of initial mb initial ys] assms
    by (simp add: sleep_duration_def Let_def)
qed

theorem backoff_bounds_witness:
  "pauses secondNs (30 * secondNs) secondNs [(0, 500), (0, 500), (0, 500)] ! 2 = 4 * secondNs"
proof -
  have "computeJitter 500 (4 * secondNs) = 0" by (simp add: computeJitter_def secondNs_def)
  with backoff_bounds [of secondNs "30 * secondNs" "[(0, 500), (0, 500), (0, 500)]" 2 "[]"]
  show ?thesis by (simp add: secondNs_def Let_def)
qed

end
