(* ===== verification/Tools.thy ===== *)
theory Tools
  imports Agent Diff_Filter
begin

text \<open>
  \<^verbatim>\<open>internal/probe/tools/builtin.go\<close>: the tools the probe agent may call.  The operating system is the record \<open>tool_env\<close>: the link
  resolution of the sandbox check, what \<^verbatim>\<open>os.Stat\<close>, opening and reading give for a path (they follow links), the tree that
  \<^verbatim>\<open>filepath.Walk\<close> finds below a path (it does not follow links), git, and the library functions that are called.  An error is its text.
\<close>

section \<open>Arguments\<close>

text \<open>A number is what the conversion to \<^verbatim>\<open>int\<close> makes of it.\<close>

datatype arg = ArgString string | ArgBool bool | ArgNumber int | ArgOther

type_synonym args = "arg gomap option"

definition arg_at :: "args \<Rightarrow> string \<Rightarrow> arg option" where
  "arg_at args key = (case args of None \<Rightarrow> None | Some m \<Rightarrow> gm_get m key)"

definition getStringArg :: "args \<Rightarrow> string \<Rightarrow> string \<Rightarrow> string" where
  "getStringArg args key d = (case arg_at args key of Some (ArgString s) \<Rightarrow> trim_space s | _ \<Rightarrow> d)"

definition getBoolArg :: "args \<Rightarrow> string \<Rightarrow> bool \<Rightarrow> bool" where
  "getBoolArg args key d = (case arg_at args key of
     Some (ArgBool b) \<Rightarrow> b
   | Some (ArgString s) \<Rightarrow> equal_fold s ''true'' \<or> s = ''1''
   | _ \<Rightarrow> d)"

definition getIntArg :: "args \<Rightarrow> string \<Rightarrow> int \<Rightarrow> int" where
  "getIntArg args key d = (case arg_at args key of
     Some (ArgNumber n) \<Rightarrow> n
   | Some (ArgString s) \<Rightarrow> (case Atoi (trim_space s) of None \<Rightarrow> d | Some n \<Rightarrow> n)
   | _ \<Rightarrow> d)"

section \<open>The operating system\<close>

record finfo =
  fi_name :: string
  fi_dir :: bool
  fi_size :: int
  fi_mtime :: int

text \<open>What a walk finds: a file or link, a directory with its entries in order, or an entry or directory it cannot read.\<close>

datatype wnode = Leaf finfo | Folder finfo "wnode list" | Failed finfo

fun node_info :: "wnode \<Rightarrow> finfo" where
  "node_info (Leaf i) = i"
| "node_info (Folder i ks) = i"
| "node_info (Failed i) = i"

record git_result =
  gr_ok :: bool
  gr_out :: string
  gr_err :: string

record tool_env =
  te_fs :: fs_ops
  te_stat :: "string \<Rightarrow> (string, finfo) result"
  te_open :: "string \<Rightarrow> string option"
  te_seek :: "string \<Rightarrow> string option"
  te_read :: "string \<Rightarrow> (string, string) result"
  te_walk :: "string \<Rightarrow> wnode"
  te_done :: "string \<Rightarrow> bool"
  te_git :: "string \<Rightarrow> string \<Rightarrow> string list \<Rightarrow> git_result"
  te_regex :: "string \<Rightarrow> (string \<Rightarrow> bool) option"
  te_time :: "int \<Rightarrow> string"
  te_abs_error :: string

definition sandbox_text :: "tool_env \<Rightarrow> sandbox_error \<Rightarrow> string" where
  "sandbox_text env e = (case e of
     InvalidRoot \<Rightarrow> ''invalid workspace root: '' @ te_abs_error env
   | ErrSandboxViolation \<Rightarrow> ''access denied: path escapes workspace root''
   | ErrDenylistedFile \<Rightarrow> ''access denied: file is in hard privacy denylist'')"

text \<open>\<^verbatim>\<open>canonical, err := ValidateSandboxPath(...); if err != nil { return "", err }\<close> and the rest of the body.\<close>

definition with_path :: "tool_env \<Rightarrow> string \<Rightarrow> string \<Rightarrow> (string \<Rightarrow> (string, string) result) \<Rightarrow> (string, string) result" where
  "with_path env wsRoot p k = (case ValidateSandboxPath (te_fs env) wsRoot p of
     Inl e \<Rightarrow> Inl (sandbox_text env e) | Inr canonical \<Rightarrow> k canonical)"

text \<open>\<^verbatim>\<open>filepath.Walk\<close> with the state of the callback passed along.  Whatever the walk cannot read is given to the callback as an error.\<close>

datatype walk_ctl = Go | SkipDir | SkipAll | Panicked

fun walk :: "(string \<Rightarrow> bool \<Rightarrow> finfo \<Rightarrow> 's \<Rightarrow> walk_ctl \<times> 's) \<Rightarrow> string \<Rightarrow> wnode \<Rightarrow> 's \<Rightarrow> walk_ctl \<times> 's"
  and walk_list :: "(string \<Rightarrow> bool \<Rightarrow> finfo \<Rightarrow> 's \<Rightarrow> walk_ctl \<times> 's) \<Rightarrow> string \<Rightarrow> wnode list \<Rightarrow> 's \<Rightarrow> walk_ctl \<times> 's" where
  "walk cb path (Leaf i) s = cb path False i s"
| "walk cb path (Failed i) s = cb path True i s"
| "walk cb path (Folder i ks) s = (case cb path False i s of (Go, s1) \<Rightarrow> walk_list cb path ks s1 | r \<Rightarrow> r)"
| "walk_list cb path [] s = (Go, s)"
| "walk_list cb path (k # ks) s = (case walk cb (Join2 path (fi_name (node_info k))) k s of
     (Go, s1) \<Rightarrow> walk_list cb path ks s1
   | (SkipDir, s1) \<Rightarrow> if fi_dir (node_info k) then walk_list cb path ks s1 else (SkipDir, s1)
   | r \<Rightarrow> r)"

definition rel_path :: "string \<Rightarrow> string \<Rightarrow> string" where
  "rel_path wsRoot path = (case Rel wsRoot path of None \<Rightarrow> [] | Some r \<Rightarrow> r)"

definition denied :: "string \<Rightarrow> string \<Rightarrow> bool" where
  "denied wsRoot path \<longleftrightarrow> IsFileDenylisted (rel_path wsRoot path) \<or> IsFileDenylisted path"

section \<open>Git\<close>

definition runGitCommand :: "tool_env \<Rightarrow> string \<Rightarrow> string \<Rightarrow> string list \<Rightarrow> git_result" where
  "runGitCommand env dir workspaceRoot gargs = te_git env dir (Dir (Clean workspaceRoot)) ([''-c'', ''core.pager=cat''] @ gargs)"

definition GitStatus :: "tool_env \<Rightarrow> string \<Rightarrow> args \<Rightarrow> (string, string) result" where
  "GitStatus env wsRoot args =
     (let relPath = getStringArg args ''path'' [];
          run = (\<lambda>dir. let g = runGitCommand env dir wsRoot [''status'', ''--short'', ''--branch'']; out = trim_space (gr_out g) in
            if \<not> gr_ok g then Inr (''(not a git repository or git error: '' @ trim_space (gr_err g) @ '')'')
            else if out = [] then Inr ''(clean working tree, nothing to commit)''
            else Inr (TruncateOutput out MaxToolOutputBytes))
      in if relPath \<noteq> [] then with_path env wsRoot relPath run else run wsRoot)"

definition valid_commit :: "string \<Rightarrow> bool" where
  "valid_commit s \<longleftrightarrow> s \<noteq> [] \<and> list_all (\<lambda>c. rx_word c \<or> c \<in> {CHR ''-'', CHR ''.'', CHR ''^'', CHR ''~''}) s"

definition GitDiff :: "tool_env \<Rightarrow> string \<Rightarrow> args \<Rightarrow> (string, string) result" where
  "GitDiff env wsRoot args =
     (let cached = getBoolArg args ''cached'' False; commit = getStringArg args ''commit'' []; relPath = getStringArg args ''path'' [];
          gitArgs = [''diff''] @ (if cached then [''--cached''] else []) @ (if commit \<noteq> [] then [commit] else []);
          run = (\<lambda>gargs. let g = runGitCommand env wsRoot wsRoot gargs; out = trim_space (gr_out g) in
            if \<not> gr_ok g then Inr (''(git diff error: '' @ trim_space (gr_err g) @ '')'')
            else if out = [] then Inr ''(no changes in diff)''
            else Inr (TruncateOutput (filterDiffOutput out) MaxToolOutputBytes))
      in if commit \<noteq> [] \<and> \<not> valid_commit commit then Inl ''invalid commit ref format''
         else if relPath \<noteq> [] then with_path env wsRoot relPath (\<lambda>_. run (gitArgs @ [''--'', relPath]))
         else run gitArgs)"

definition clamp_arg :: "int \<Rightarrow> int \<Rightarrow> int \<Rightarrow> int" where
  "clamp_arg d mx n = (let m = (if n \<le> 0 then d else n) in if m > mx then mx else m)"

definition GitLog :: "tool_env \<Rightarrow> string \<Rightarrow> args \<Rightarrow> (string, string) result" where
  "GitLog env wsRoot args =
     (let maxCount = clamp_arg 10 50 (getIntArg args ''max_count'' 10); relPath = getStringArg args ''path'' [];
          gitArgs = [''log'', ''-n'' @ fmt_nat (nat maxCount), ''--pretty=format:%h - %an (%cr): %s''];
          run = (\<lambda>gargs. let g = runGitCommand env wsRoot wsRoot gargs; out = trim_space (gr_out g) in
            if \<not> gr_ok g then Inr (''(git log error or not a git repository: '' @ trim_space (gr_err g) @ '')'')
            else if out = [] then Inr ''(no commit history)''
            else Inr (TruncateOutput out MaxToolOutputBytes))
      in if relPath \<noteq> [] then with_path env wsRoot relPath (\<lambda>_. run (gitArgs @ [''--'', relPath])) else run gitArgs)"

section \<open>Directories\<close>

definition slashes :: "string \<Rightarrow> int" where
  "slashes p = int (length (filter (\<lambda>c. c = slash) p))"

definition skip_ctl :: "finfo \<Rightarrow> walk_ctl" where
  "skip_ctl i = (if fi_dir i then SkipDir else Go)"

definition list_line :: "int \<Rightarrow> finfo \<Rightarrow> string" where
  "list_line depth i = concat (replicate (nat (depth - 1)) ''  '') @
     (if fi_dir i then ''[DIR]  '' @ fi_name i @ ''/'' else ''[FILE] '' @ fi_name i @ '' ('' @ fmt_nat (nat (fi_size i)) @ '' bytes)'') @ nl"

text \<open>\<^verbatim>\<open>strings.Repeat\<close> panics on a negative count.\<close>

definition list_cb :: "string \<Rightarrow> string \<Rightarrow> int \<Rightarrow> string \<Rightarrow> bool \<Rightarrow> finfo \<Rightarrow> string list \<Rightarrow> walk_ctl \<times> string list" where
  "list_cb wsRoot target maxDepth path err i out =
     (let depth = slashes path - slashes (Clean target) in
      if err then (Go, out)
      else if path = target then (Go, out)
      else if depth > maxDepth then (skip_ctl i, out)
      else if denied wsRoot path then (skip_ctl i, out)
      else if depth < 1 then (Panicked, out)
      else (Go, out @ [list_line depth i]))"

definition list_depth :: "args \<Rightarrow> int" where
  "list_depth args = (let n = getIntArg args ''max_depth'' 1; m = (if n < 1 then 1 else n) in if m > 3 then 3 else m)"

text \<open>\<open>None\<close> is a panic.\<close>

definition ListDir :: "tool_env \<Rightarrow> string \<Rightarrow> args \<Rightarrow> (string, string) result option" where
  "ListDir env wsRoot args =
     (let relPath = getStringArg args ''path'' ''.'' in
      case ValidateSandboxPath (te_fs env) wsRoot relPath of
        Inl e \<Rightarrow> Some (Inl (sandbox_text env e))
      | Inr target \<Rightarrow>
          (case te_stat env target of
             Inl e \<Rightarrow> Some (Inl (''path stat failed: '' @ e))
           | Inr fi \<Rightarrow>
               if \<not> fi_dir fi then Some (Inr (''[FILE] '' @ Base target @ '' ('' @ fmt_nat (nat (fi_size fi)) @ '' bytes)''))
               else (case walk (list_cb wsRoot target (list_depth args)) target (te_walk env target) [] of
                  (Panicked, _) \<Rightarrow> None
                | (_, out) \<Rightarrow> Some (Inr (TruncateOutput (''Directory contents of '' @ relPath @ '':'' @ nl @ concat out) MaxToolOutputBytes)))))"

section \<open>Files\<close>

definition read_limit :: "args \<Rightarrow> nat" where
  "read_limit args = (let n = getIntArg args ''limit'' (int MaxFileReadBytes) in
     if n \<le> 0 \<or> n > int MaxFileReadBytes then MaxFileReadBytes else nat n)"

definition ReadFile :: "tool_env \<Rightarrow> string \<Rightarrow> args \<Rightarrow> (string, string) result" where
  "ReadFile env wsRoot args =
     (let relPath = getStringArg args ''path'' [] in
      if relPath = [] then Inl ''read_file requires non-empty path parameter''
      else with_path env wsRoot relPath (\<lambda>canonical.
        case te_stat env canonical of
          Inl e \<Rightarrow> Inl (''failed to open file '' @ Quote relPath @ '': '' @ e)
        | Inr fi \<Rightarrow>
            if fi_dir fi then Inl (Quote relPath @ '' is a directory, use list_dir instead'')
            else (case te_open env canonical of
               Some e \<Rightarrow> Inl (''failed to read file '' @ Quote relPath @ '': '' @ e)
             | None \<Rightarrow>
                 let offset = getIntArg args ''offset'' 0; limit = read_limit args in
                 if offset > 0 \<and> te_seek env canonical \<noteq> None then Inl (''seek failed: '' @ the (te_seek env canonical))
                 else (case te_read env canonical of
                    Inl e \<Rightarrow> Inl (''read failed: '' @ e)
                  | Inr body \<Rightarrow>
                      let data = take limit (drop (nat offset) body);
                          truncated = (fi_size fi > wrap64 (offset + int (length data)))
                      in Inr (if truncated then data @ nl @ ''[truncated by TalkIntent]'' else data)))))"

section \<open>Searching\<close>

text \<open>\<^verbatim>\<open>bufio.Scanner\<close> on lines: without the line end, and only up to the first line that does not fit the buffer.\<close>

definition drop_cr :: "string \<Rightarrow> string" where
  "drop_cr l = (if l \<noteq> [] \<and> last l = CHR 0x0D then butlast l else l)"

definition scan_lines :: "int \<Rightarrow> string \<Rightarrow> string list" where
  "scan_lines mx s = (let ls = split_char (CHR 0x0A) s; full = (if last ls = [] then butlast ls else ls)
     in map drop_cr (takeWhile (\<lambda>l. int (length l) < mx) full))"

definition skipped_dirs :: "string list" where
  "skipped_dirs = [''.git'', ''node_modules'', ''vendor'']"

text \<open>The checks the three searching tools share; \<open>None\<close> is a file to look at.\<close>

definition walk_guard :: "string \<Rightarrow> string \<Rightarrow> finfo \<Rightarrow> walk_ctl option" where
  "walk_guard wsRoot path i =
     (if denied wsRoot path then Some (skip_ctl i)
      else if fi_dir i then Some (if fi_name i \<in> set skipped_dirs then SkipDir else Go)
      else None)"

definition match_line :: "string \<Rightarrow> nat \<Rightarrow> string \<Rightarrow> string" where
  "match_line rel n line = rel @ '':'' @ fmt_nat n @ '': '' @ trim_space line"

fun grep_lines :: "(string \<Rightarrow> bool) \<Rightarrow> string \<Rightarrow> nat \<Rightarrow> nat \<Rightarrow> string list \<Rightarrow> string list \<Rightarrow> string list" where
  "grep_lines matched rel mx n [] ms = ms"
| "grep_lines matched rel mx n (l # ls) ms =
     (if matched l then
        let ms1 = ms @ [match_line rel n l] in if length ms1 \<ge> mx then ms1 else grep_lines matched rel mx (Suc n) ls ms1
      else grep_lines matched rel mx (Suc n) ls ms)"

text \<open>The lines of a file that are looked at: none when it is large, cannot be opened, or has a zero byte in its first 512 bytes.\<close>

definition grep_source :: "tool_env \<Rightarrow> string \<Rightarrow> finfo \<Rightarrow> string list" where
  "grep_source env path i =
     (if fi_size i > 2 * 1024 * 1024 \<or> te_open env path \<noteq> None then []
      else (case te_read env path of
         Inl e \<Rightarrow> []
       | Inr body \<Rightarrow> if CHR 0x00 \<in> set (take 512 body) then [] else scan_lines 262144 body))"

definition grep_cb :: "tool_env \<Rightarrow> string \<Rightarrow> (string \<Rightarrow> bool) \<Rightarrow> nat \<Rightarrow> string \<Rightarrow> bool \<Rightarrow> finfo \<Rightarrow> string list \<Rightarrow> walk_ctl \<times> string list" where
  "grep_cb env wsRoot matched mx path err i ms =
     (if err \<or> te_done env path then (Go, ms)
      else if length ms \<ge> mx then (SkipAll, ms)
      else (case walk_guard wsRoot path i of
         Some c \<Rightarrow> (c, ms)
       | None \<Rightarrow> (Go, grep_lines matched (rel_path wsRoot path) mx 1 (grep_source env path i) ms)))"

definition grep_matcher :: "tool_env \<Rightarrow> string \<Rightarrow> string \<Rightarrow> bool" where
  "grep_matcher env pattern = (case te_regex env pattern of None \<Rightarrow> (\<lambda>line. contains line pattern) | Some m \<Rightarrow> m)"

definition GrepSearch :: "tool_env \<Rightarrow> string \<Rightarrow> args \<Rightarrow> (string, string) result" where
  "GrepSearch env wsRoot args =
     (let pattern = getStringArg args ''pattern'' []; relPath = getStringArg args ''path'' ''.'';
          mx = clamp_arg 50 200 (getIntArg args ''max_matches'' 50)
      in if pattern = [] then Inl ''grep_search requires non-empty pattern parameter''
         else with_path env wsRoot relPath (\<lambda>dir.
           let ms = snd (walk (grep_cb env wsRoot (grep_matcher env pattern) (nat mx)) dir (te_walk env dir) []) in
           if ms = [] then Inr (''No matches found for '' @ Quote pattern @ '' in '' @ relPath)
           else Inr (TruncateOutput (join_with nl ms) MaxToolOutputBytes)))"

record fileModItem =
  RelPath :: string
  ModTime :: int
  Size :: int

definition recent_cb :: "tool_env \<Rightarrow> string \<Rightarrow> string \<Rightarrow> bool \<Rightarrow> finfo \<Rightarrow> fileModItem list \<Rightarrow> walk_ctl \<times> fileModItem list" where
  "recent_cb env wsRoot path err i items =
     (if err \<or> te_done env path then (Go, items)
      else (case walk_guard wsRoot path i of
         Some c \<Rightarrow> (c, items)
       | None \<Rightarrow> (Go, items @ [\<lparr>RelPath = rel_path wsRoot path, ModTime = fi_mtime i, Size = fi_size i\<rparr>])))"

definition pad_left :: "nat \<Rightarrow> string \<Rightarrow> string" where
  "pad_left n s = replicate (n - length s) (CHR '' '') @ s"

definition recent_line :: "tool_env \<Rightarrow> fileModItem \<Rightarrow> string" where
  "recent_line env it = te_time env (ModTime it) @ ''  '' @ pad_left 8 (fmt_nat (nat (Size it))) @ '' bytes  '' @ RelPath it @ nl"

text \<open>The newest files first; files of the same time keep the order of the walk here, which \<^verbatim>\<open>sort.Slice\<close> does not promise.\<close>

definition newest_files :: "nat \<Rightarrow> fileModItem list \<Rightarrow> fileModItem list" where
  "newest_files limit items = take limit (sort_key (\<lambda>it. - ModTime it) items)"

definition RecentFiles :: "tool_env \<Rightarrow> string \<Rightarrow> args \<Rightarrow> (string, string) result" where
  "RecentFiles env wsRoot args =
     (let limit = clamp_arg 15 50 (getIntArg args ''limit'' 15); relPath = getStringArg args ''path'' ''.'' in
      with_path env wsRoot relPath (\<lambda>dir.
        let items = newest_files (nat limit) (snd (walk (recent_cb env wsRoot) dir (te_walk env dir) [])) in
        if items = [] then Inr ''(no files found)''
        else Inr (''Recently modified files:'' @ nl @ concat (map (recent_line env) items))))"

definition yaml_or_json :: "string \<Rightarrow> bool" where
  "yaml_or_json nm \<longleftrightarrow> has_suffix nm ''.json'' \<or> has_suffix nm ''.yaml'' \<or> has_suffix nm ''.yml''"

definition spec_type :: "string \<Rightarrow> string option" where
  "spec_type nm =
     (let n = to_lower nm in
      if has_suffix n ''.proto'' then Some ''Protobuf / gRPC''
      else if contains n ''openapi'' \<and> yaml_or_json n then Some ''OpenAPI''
      else if contains n ''swagger'' \<and> yaml_or_json n then Some ''Swagger''
      else if has_suffix n ''.graphql'' \<or> has_suffix n ''.gql'' then Some ''GraphQL''
      else if n \<in> {''api.yaml'', ''api.yml'', ''api.json''} then Some ''API Spec''
      else None)"

definition spec_line :: "string \<Rightarrow> string \<Rightarrow> finfo \<Rightarrow> string list" where
  "spec_line wsRoot path i = (case spec_type (fi_name i) of
     None \<Rightarrow> []
   | Some ty \<Rightarrow> [''- '' @ rel_path wsRoot path @ '' ('' @ ty @ '', '' @ fmt_nat (nat (fi_size i)) @ '' bytes)''])"

definition spec_cb :: "tool_env \<Rightarrow> string \<Rightarrow> string \<Rightarrow> bool \<Rightarrow> finfo \<Rightarrow> string list \<Rightarrow> walk_ctl \<times> string list" where
  "spec_cb env wsRoot path err i found =
     (if err \<or> te_done env path then (Go, found)
      else (case walk_guard wsRoot path i of
         Some c \<Rightarrow> (c, found)
       | None \<Rightarrow> (Go, found @ spec_line wsRoot path i)))"

definition FindAPISpecs :: "tool_env \<Rightarrow> string \<Rightarrow> args \<Rightarrow> (string, string) result" where
  "FindAPISpecs env wsRoot args =
     with_path env wsRoot (getStringArg args ''path'' ''.'') (\<lambda>dir.
       let found = snd (walk (spec_cb env wsRoot) dir (te_walk env dir) []) in
       if found = [] then Inr ''No API specification files (OpenAPI, Swagger, Protobuf, GraphQL) found in workspace.''
       else Inr (''Found '' @ fmt_nat (length found) @ '' API specification file(s):'' @ nl @ join_with nl found))"

section \<open>Listening ports\<close>

definition hex_bytes :: "string \<Rightarrow> nat list option" where
  "hex_bytes s = (if odd (length s) then None else
     those (map (\<lambda>i. case (hex_val (s ! (2 * i)), hex_val (s ! (2 * i + 1))) of
       (Some a, Some b) \<Rightarrow> Some (16 * a + b) | _ \<Rightarrow> None) [0 ..< length s div 2]))"

text \<open>The address in network order: four bytes, or sixteen stored as four little-endian words.\<close>

definition proc_ip :: "string \<Rightarrow> nat list option" where
  "proc_ip ipHex =
     (if length ipHex = 8 then map_option rev (hex_bytes ipHex)
      else if length ipHex = 32 then
        map_option (\<lambda>bs. concat (map (\<lambda>w. rev (take 4 (drop (4 * w) bs))) [0, 1, 2, 3])) (hex_bytes ipHex)
      else None)"

definition to4 :: "nat list \<Rightarrow> nat list option" where
  "to4 ip = (if length ip = 4 then Some ip
     else if length ip = 16 \<and> take 12 ip = replicate 10 0 @ [255, 255] then Some (drop 12 ip) else None)"

definition v6_loopback :: "nat list" where
  "v6_loopback = replicate 15 0 @ [1]"

definition is_local :: "nat list \<Rightarrow> bool" where
  "is_local ip = (case to4 ip of
     Some v4 \<Rightarrow> hd v4 = 127 \<or> v4 = [0, 0, 0, 0]
   | None \<Rightarrow> ip = v6_loopback \<or> ip = replicate 16 0)"

definition dotted :: "nat list \<Rightarrow> string" where
  "dotted v4 = join_with ''.'' (map fmt_nat v4)"

text \<open>Only a loopback or unspecified address is printed.\<close>

definition shown_ip :: "nat list option \<Rightarrow> string" where
  "shown_ip ipo = (case ipo of
     None \<Rightarrow> ''0.0.0.0''
   | Some ip \<Rightarrow>
       (case to4 ip of
          Some v4 \<Rightarrow> if is_local ip then dotted v4 else ''0.0.0.0''
        | None \<Rightarrow> if ip = v6_loopback then ''::1'' else ''::''))"

fun hex_number :: "nat \<Rightarrow> string \<Rightarrow> nat option" where
  "hex_number acc [] = Some acc"
| "hex_number acc (c # s) = (case hex_val c of None \<Rightarrow> None | Some d \<Rightarrow> hex_number (16 * acc + d) s)"

text \<open>\<^verbatim>\<open>strconv.ParseInt(portHex, 16, 64)\<close>\<close>

definition ParseHex :: "string \<Rightarrow> int option" where
  "ParseHex s =
     (let neg = (s \<noteq> [] \<and> hd s = CHR ''-''); t = (if s \<noteq> [] \<and> (hd s = CHR ''-'' \<or> hd s = CHR ''+'') then tl s else s) in
      if t = [] then None
      else (case hex_number 0 t of None \<Rightarrow> None
            | Some n \<Rightarrow> let v = (if neg then - int n else int n) in if - (2 ^ 63) \<le> v \<and> v < 2 ^ 63 then Some v else None))"

definition fmt_port :: "int \<Rightarrow> string" where
  "fmt_port n = (if n < 0 then CHR ''-'' # fmt_nat (nat (- n)) else fmt_nat (nat n))"

definition proc_entry :: "string \<Rightarrow> string option" where
  "proc_entry line =
     (let fields = Fields line in
      if length fields < 4 then None
      else if fields ! 3 \<noteq> ''0A'' then None
      else (case split_char (CHR '':'') (fields ! 1) of
         [ipHex, portHex] \<Rightarrow> map_option (\<lambda>port. shown_ip (proc_ip ipHex) @ '':'' @ fmt_port port) (ParseHex portHex)
       | _ \<Rightarrow> None))"

definition add_entry :: "string list \<Rightarrow> string \<Rightarrow> string list" where
  "add_entry res line = (case proc_entry line of None \<Rightarrow> res | Some e \<Rightarrow> if e \<in> set res then res else res @ [e])"

text \<open>\<open>None\<close> is a file that cannot be opened.\<close>

definition readProcNetTCP :: "string option \<Rightarrow> string list" where
  "readProcNetTCP body = (case body of None \<Rightarrow> [] | Some s \<Rightarrow> foldl add_entry [] (tl (scan_lines 65536 s)))"

end
