(* ===== verification/Tools_Properties.thy ===== *)
theory Tools_Properties
  imports Tools
begin

text \<open>
  Properties of the built-in tools: which files a search looks at, exactly; that a listing shows nothing that is on the deny list; what
  reading a file returns; that addresses of the machine are not shown; and three ways around the protection.
\<close>

section \<open>What a walk keeps\<close>

text \<open>A callback that keeps a property of its state.\<close>

locale walk_keeps =
  fixes cb :: "string \<Rightarrow> bool \<Rightarrow> finfo \<Rightarrow> 's \<Rightarrow> walk_ctl \<times> 's"
    and good :: "'s \<Rightarrow> bool"
  assumes cb_keeps: "good s \<Longrightarrow> good (snd (cb path err i s))"
begin

lemma list_good:
  assumes "\<And>k path s. k \<in> set ks \<Longrightarrow> good s \<Longrightarrow> good (snd (walk cb path k s))" and "good s"
  shows "good (snd (walk_list cb path ks s))"
  using assms
proof (induction ks arbitrary: s)
  case (Cons k ks)
  obtain c s1 where w: "walk cb (Join2 path (fi_name (node_info k))) k s = (c, s1)" by fastforce
  have g: "good s1" using Cons.prems(1) [of k s "Join2 path (fi_name (node_info k))"] Cons.prems(2) w by simp
  have "good (snd (walk_list cb path ks s1))" using Cons.prems(1) by (intro Cons.IH g) simp
  then show ?case using g by (cases c) (simp_all add: w)
qed simp

lemma walk_good: "good s \<Longrightarrow> good (snd (walk cb path t s))"
proof (induction t arbitrary: path s)
  case (Folder i ks)
  obtain c s1 where w: "cb path False i s = (c, s1)" by fastforce
  have g: "good s1" using cb_keeps [OF Folder.prems, of path False i] w by simp
  have "good (snd (walk_list cb path ks s1))" by (rule list_good) (use Folder.IH g in auto)
  then show ?case using g by (cases c) (simp_all add: w)
qed (auto simp: cb_keeps)

end

section \<open>Which files a search looks at\<close>

text \<open>The reference: every file below a node that is neither denied itself nor below a denied or skipped directory, in the order of the
  walk.\<close>

fun visible :: "string \<Rightarrow> string \<Rightarrow> wnode \<Rightarrow> (string \<times> finfo) list" where
  "visible wsRoot path (Leaf i) = (if walk_guard wsRoot path i = None then [(path, i)] else [])"
| "visible wsRoot path (Failed i) = []"
| "visible wsRoot path (Folder i ks) =
     (if walk_guard wsRoot path i = Some Go
      then concat (map (\<lambda>k. visible wsRoot (Join2 path (fi_name (node_info k))) k) ks) else [])"

text \<open>What the operating system promises: the entry of a directory says that it is one, and of a file that it is not.\<close>

fun tree_ok :: "wnode \<Rightarrow> bool" where
  "tree_ok (Leaf i) = (\<not> fi_dir i)"
| "tree_ok (Failed i) = True"
| "tree_ok (Folder i ks) = (fi_dir i \<and> list_all tree_ok ks)"

text \<open>A callback that looks at the files the guard lets through and stops when its state is full.\<close>

locale file_search =
  fixes wsRoot :: string
    and cb :: "string \<Rightarrow> bool \<Rightarrow> finfo \<Rightarrow> 's \<Rightarrow> walk_ctl \<times> 's"
    and visit :: "string \<Rightarrow> finfo \<Rightarrow> 's \<Rightarrow> 's"
    and full :: "'s \<Rightarrow> bool"
  assumes cb_err: "cb path True i s = (Go, s)"
    and cb_full: "full s \<Longrightarrow> cb path False i s = (SkipAll, s)"
    and cb_guard: "\<not> full s \<Longrightarrow> walk_guard wsRoot path i = Some c \<Longrightarrow> cb path False i s = (c, s)"
    and cb_visit: "\<not> full s \<Longrightarrow> walk_guard wsRoot path i = None \<Longrightarrow> cb path False i s = (Go, visit path i s)"
    and visit_full: "full s \<Longrightarrow> visit path i s = s"
begin

definition looked :: "(string \<times> finfo) list \<Rightarrow> 's \<Rightarrow> 's" where
  "looked fs s = foldl (\<lambda>st (p, i). visit p i st) s fs"

lemma looked_simps: "looked [] s = s" "looked ((p, i) # fs) s = looked fs (visit p i s)" "looked (fs @ gs) s = looked gs (looked fs s)"
  by (simp_all add: looked_def)

lemma looked_full: "full s \<Longrightarrow> looked fs s = s"
  by (induction fs arbitrary: s) (auto simp: looked_simps visit_full)

text \<open>The walk and the reference agree, and the walk stops early only when it is full.\<close>

definition agrees :: "wnode \<Rightarrow> bool" where
  "agrees t \<longleftrightarrow> (\<forall>path s. case walk cb path t s of (c, s') \<Rightarrow> s' = looked (visible wsRoot path t) s
     \<and> (c = Go \<or> (c = SkipDir \<and> fi_dir (node_info t)) \<or> (c = SkipAll \<and> full s')))"

lemma agrees_list:
  assumes "list_all agrees ks"
  shows "case walk_list cb path ks s of (c, s') \<Rightarrow>
     s' = looked (concat (map (\<lambda>k. visible wsRoot (Join2 path (fi_name (node_info k))) k) ks)) s \<and> (c = Go \<or> (c = SkipAll \<and> full s'))"
  using assms
proof (induction ks arbitrary: s)
  case (Cons k ks)
  let ?p = "Join2 path (fi_name (node_info k))"
  let ?rest = "concat (map (\<lambda>k. visible wsRoot (Join2 path (fi_name (node_info k))) k) ks)"
  obtain c s1 where w: "walk cb ?p k s = (c, s1)" by fastforce
  have a: "s1 = looked (visible wsRoot ?p k) s" "c = Go \<or> (c = SkipDir \<and> fi_dir (node_info k)) \<or> (c = SkipAll \<and> full s1)"
    using Cons.prems w unfolding agrees_def by (auto dest!: spec [where x = ?p] spec [where x = s])
  have ih: "case walk_list cb path ks s1 of (c, s') \<Rightarrow> s' = looked ?rest s1 \<and> (c = Go \<or> (c = SkipAll \<and> full s'))"
    using Cons.IH Cons.prems by simp
  from a(2) consider "c = Go" | "c = SkipDir" "fi_dir (node_info k)" | "c = SkipAll" "full s1" by blast
  then show ?case
  proof cases
    case 3
    then show ?thesis using looked_full [of s1 ?rest] by (simp add: w looked_simps a(1) [symmetric])
  qed (use ih in \<open>simp_all add: w looked_simps a(1) [symmetric]\<close>)
qed (simp add: looked_simps)

lemma walk_agrees: "tree_ok t \<Longrightarrow> agrees t"
proof (induction t)
  case (Leaf i)
  show ?case
    unfolding agrees_def
  proof (intro allI)
    fix path s
    consider "full s" | c where "\<not> full s" "walk_guard wsRoot path i = Some c" | "\<not> full s" "walk_guard wsRoot path i = None" by blast
    then show "case walk cb path (Leaf i) s of (c, s') \<Rightarrow> s' = looked (visible wsRoot path (Leaf i)) s
       \<and> (c = Go \<or> (c = SkipDir \<and> fi_dir (node_info (Leaf i))) \<or> (c = SkipAll \<and> full s'))"
    proof cases
      case 1
      then show ?thesis by (simp add: cb_full looked_full)
    next
      case 2
      then have "c = Go" using Leaf by (auto simp: walk_guard_def skip_ctl_def split: if_splits)
      then show ?thesis using 2 by (simp add: cb_guard looked_simps)
    next
      case 3
      then show ?thesis by (simp add: cb_visit looked_simps)
    qed
  qed
next
  case (Folder i ks)
  have kids: "list_all agrees ks" using Folder by (auto simp: list_all_iff)
  show ?case
    unfolding agrees_def
  proof (intro allI)
    fix path s
    have dir: "fi_dir i" using Folder.prems by simp
    consider "full s" | "\<not> full s" "walk_guard wsRoot path i = Some Go" | "\<not> full s" "walk_guard wsRoot path i = Some SkipDir"
      using dir by (metis walk_guard_def skip_ctl_def)
    then show "case walk cb path (Folder i ks) s of (c, s') \<Rightarrow> s' = looked (visible wsRoot path (Folder i ks)) s
       \<and> (c = Go \<or> (c = SkipDir \<and> fi_dir (node_info (Folder i ks))) \<or> (c = SkipAll \<and> full s'))"
    proof cases
      case 1
      then show ?thesis by (simp add: cb_full looked_full)
    next
      case 2
      then show ?thesis using agrees_list [OF kids, of path s] by (auto simp: cb_guard split: prod.splits)
    next
      case 3
      then show ?thesis using dir by (simp add: cb_guard looked_simps)
    qed
  qed
next
  case (Failed i)
  show ?case by (simp add: agrees_def cb_err looked_simps)
qed

lemma walk_result: "tree_ok t \<Longrightarrow> snd (walk cb path t s) = looked (visible wsRoot path t) s"
proof -
  obtain c s' where w: "walk cb path t s = (c, s')" by fastforce
  assume "tree_ok t"
  then have "agrees t" by (rule walk_agrees)
  then show ?thesis unfolding agrees_def using w by (auto dest!: spec [where x = path] spec [where x = s])
qed

end

lemma visible_shown: "(p, i) \<in> set (visible wsRoot path t) \<Longrightarrow> \<not> denied wsRoot p \<and> \<not> fi_dir i"
proof (induction t arbitrary: path)
  case (Leaf j)
  then show ?case by (auto simp: walk_guard_def split: if_splits)
next
  case (Folder j ks)
  then show ?case by (auto split: if_splits)
qed simp

definition at_rest :: "tool_env \<Rightarrow> tool_env" where
  "at_rest env = env\<lparr>te_done := (\<lambda>_. False)\<rparr>"

lemma at_rest_id: "te_done env = (\<lambda>_. False) \<Longrightarrow> at_rest env = env"
  by (simp add: at_rest_def)

text \<open>The matches of one file, numbered from 1.\<close>

definition file_matches :: "tool_env \<Rightarrow> (string \<Rightarrow> bool) \<Rightarrow> string \<Rightarrow> string \<times> finfo \<Rightarrow> string list" where
  "file_matches env matched wsRoot = (\<lambda>(p, i). map (\<lambda>(n, l). match_line (rel_path wsRoot p) n l)
     (filter (\<lambda>(n, l). matched l) (enumerate 1 (grep_source env p i))))"

lemma grep_lines_take:
  "length ms < mx \<Longrightarrow> grep_lines matched rel mx n ls ms
     = take mx (ms @ map (\<lambda>(n, l). match_line rel n l) (filter (\<lambda>(n, l). matched l) (enumerate n ls)))"
proof (induction ls arbitrary: n ms)
  case (Cons l ls)
  show ?case
  proof (cases "matched l \<and> length ms + 1 \<ge> mx")
    case True
    then have "mx = Suc (length ms)" using Cons.prems by simp
    then show ?thesis using True by (simp add: Let_def)
  next
    case False
    then show ?thesis using Cons.IH [of "ms @ [match_line rel n l]" "Suc n"] Cons.IH [of ms "Suc n"] Cons.prems by (auto simp: Let_def)
  qed
qed simp

interpretation grep: file_search wsRoot "grep_cb (at_rest env) wsRoot matched mx"
  "\<lambda>p i ms. if length ms \<ge> mx then ms else grep_lines matched (rel_path wsRoot p) mx 1 (grep_source (at_rest env) p i) ms"
  "\<lambda>ms. length ms \<ge> mx" for env wsRoot matched mx
  by unfold_locales (auto simp: grep_cb_def at_rest_def)

interpretation recent: file_search wsRoot "recent_cb (at_rest env) wsRoot"
  "\<lambda>p i items. items @ [\<lparr>RelPath = rel_path wsRoot p, ModTime = fi_mtime i, Size = fi_size i\<rparr>]" "\<lambda>_. False" for env wsRoot
  by unfold_locales (auto simp: recent_cb_def at_rest_def)

interpretation specs: file_search wsRoot "spec_cb (at_rest env) wsRoot" "\<lambda>p i found. found @ spec_line wsRoot p i" "\<lambda>_. False" for env wsRoot
  by unfold_locales (auto simp: spec_cb_def at_rest_def)

lemma take_again: "take n (take n xs @ ys) = take n (xs @ ys)"
  by (cases "length xs \<ge> n") simp_all

lemma grep_looked:
  "length ms \<le> mx \<Longrightarrow> grep.looked mx matched wsRoot env fs ms = take mx (ms @ concat (map (file_matches (at_rest env) matched wsRoot) fs))"
proof (induction fs arbitrary: ms)
  case Nil
  then show ?case by (simp add: grep.looked_simps)
next
  case (Cons f fs)
  obtain p i where f: "f = (p, i)" by (cases f)
  let ?r = "concat (map (file_matches (at_rest env) matched wsRoot) fs)"
  show ?case
  proof (cases "length ms \<ge> mx")
    case True
    then have "length ms = mx" using Cons.prems by simp
    then show ?thesis using grep.looked_full [of mx ms matched wsRoot env "f # fs"] by simp
  next
    case False
    let ?ms = "take mx (ms @ file_matches (at_rest env) matched wsRoot (p, i))"
    have "grep.looked mx matched wsRoot env ((p, i) # fs) ms = grep.looked mx matched wsRoot env fs ?ms"
      unfolding grep.looked_simps(2) using False by (simp add: grep_lines_take file_matches_def)
    also have "\<dots> = take mx (?ms @ ?r)" by (rule Cons.IH) simp
    also have "\<dots> = take mx ((ms @ file_matches (at_rest env) matched wsRoot (p, i)) @ ?r)"
      by (rule take_again)
    finally show ?thesis by (simp add: f)
  qed
qed

lemma recent_looked:
  "recent.looked wsRoot fs items = items @ map (\<lambda>(p, i). \<lparr>RelPath = rel_path wsRoot p, ModTime = fi_mtime i, Size = fi_size i\<rparr>) fs"
  by (induction fs arbitrary: items) (auto simp: recent.looked_simps)

lemma specs_looked: "specs.looked wsRoot fs found = found @ concat (map (\<lambda>(p, i). spec_line wsRoot p i) fs)"
  by (induction fs arbitrary: found) (auto simp: specs.looked_simps)


section \<open>Listings\<close>

definition list_entry_ok :: "string \<Rightarrow> int \<Rightarrow> string \<Rightarrow> bool" where
  "list_entry_ok wsRoot mx line \<longleftrightarrow> (\<exists>path i d. line = list_line d i \<and> 1 \<le> d \<and> d \<le> mx \<and> \<not> denied wsRoot path)"

interpretation listing: walk_keeps "list_cb wsRoot target mx" "list_all (list_entry_ok wsRoot mx)" for wsRoot target mx
proof
  fix s path err i
  assume "list_all (list_entry_ok wsRoot mx) s"
  moreover have "list_entry_ok wsRoot mx (list_line d i)" if "1 \<le> d" "d \<le> mx" "\<not> denied wsRoot path" for d
    unfolding list_entry_ok_def using that by blast
  ultimately show "list_all (list_entry_ok wsRoot mx) (snd (list_cb wsRoot target mx path err i s))"
    by (simp add: list_cb_def Let_def)
qed

text \<open>A listing shows only entries at depth one to the limit, at most three, whose path is not on the deny list, and it is never longer than the
  output limit and its notice.\<close>

lemma listing_filtered:
  assumes "ListDir env wsRoot args = Some (Inr out)" and "ValidateSandboxPath (te_fs env) wsRoot (getStringArg args ''path'' ''.'') = Inr target"
    and "te_stat env target = Inr fi" and "fi_dir fi"
  shows "\<exists>lines. out = TruncateOutput (''Directory contents of '' @ getStringArg args ''path'' ''.'' @ '':'' @ nl @ concat lines) MaxToolOutputBytes
    \<and> list_all (list_entry_ok wsRoot (list_depth args)) lines \<and> list_depth args \<le> 3"
proof -
  obtain c lines where w: "walk (list_cb wsRoot target (list_depth args)) target (te_walk env target) [] = (c, lines)" by fastforce
  have "list_all (list_entry_ok wsRoot (list_depth args)) lines"
    using listing.walk_good [of wsRoot "list_depth args" "[]" target target "te_walk env target"] w by simp
  moreover have "list_depth args \<le> 3" by (simp add: list_depth_def Let_def)
  moreover have "out = TruncateOutput (''Directory contents of '' @ getStringArg args ''path'' ''.'' @ '':'' @ nl @ concat lines) MaxToolOutputBytes"
    using assms w by (cases c) (simp_all add: ListDir_def Let_def)
  ultimately show ?thesis by blast
qed

section \<open>Reading\<close>

text \<open>Reading a file returns a slice of it and says when there is more.  For an accepted path of a readable file, with an offset that is not
  negative, the result is the bytes from the offset on, at most the limit and never more than 64 KB, followed by the notice exactly when the
  file goes on after them; any other path is refused with the reason of the sandbox check.\<close>

theorem read_file_slice:
  assumes "relPath = getStringArg args ''path'' []" and "relPath \<noteq> []" and "offset = getIntArg args ''offset'' 0" and "0 \<le> offset"
    and "offset + int MaxFileReadBytes < 2 ^ 63"
  shows "case ValidateSandboxPath (te_fs env) wsRoot relPath of
      Inl e \<Rightarrow> ReadFile env wsRoot args = Inl (sandbox_text env e)
    | Inr c \<Rightarrow> te_stat env c = Inr fi \<and> \<not> fi_dir fi \<and> te_open env c = None \<and> te_seek env c = None \<and> te_read env c = Inr body
          \<and> fi_size fi = int (length body) \<longrightarrow>
        (\<exists>data. data = take (read_limit args) (drop (nat offset) body) \<and> length data \<le> MaxFileReadBytes
          \<and> ReadFile env wsRoot args = Inr (if nat offset + length data < length body then data @ nl @ ''[truncated by TalkIntent]'' else data))"
proof (cases "ValidateSandboxPath (te_fs env) wsRoot relPath")
  case (Inl e)
  then show ?thesis using assms(1,2) by (simp add: ReadFile_def with_path_def Let_def)
next
  case (Inr c)
  define data where "data = take (read_limit args) (drop (nat offset) body)"
  have len: "length data \<le> MaxFileReadBytes"
    by (simp add: data_def read_limit_def Let_def min_le_iff_disj nat_le_iff)
  have w: "wrap64 (offset + int (length data)) = offset + int (length data)" by (rule wrap64_id) (use assms(4,5) len in linarith)+
  have iff: "offset + int (length data) < int (length body) \<longleftrightarrow> nat offset + length data < length body" using assms(4) by linarith
  have "ReadFile env wsRoot args = Inr (if nat offset + length data < length body then data @ nl @ ''[truncated by TalkIntent]'' else data)"
    if "te_stat env c = Inr fi" "\<not> fi_dir fi" "te_open env c = None" "te_seek env c = None" "te_read env c = Inr body" "fi_size fi = int (length body)"
  proof -
    have "ReadFile env wsRoot args = Inr (if fi_size fi > wrap64 (offset + int (length data)) then data @ nl @ ''[truncated by TalkIntent]'' else data)"
      using assms(1-3) Inr that(1-5) by (simp add: ReadFile_def with_path_def Let_def data_def)
    then show ?thesis unfolding w that(6) iff .
  qed
  then show ?thesis unfolding Inr sum.case using len data_def by blast
qed

section \<open>Listening ports\<close>

lemma shown_local: "\<exists>v4. shown_ip ip \<in> {''0.0.0.0'', ''::'', ''::1''} \<or> (shown_ip ip = dotted v4 \<and> hd v4 = 127)"
proof (cases ip)
  case (Some a)
  show ?thesis
  proof (cases "to4 a")
    case (Some v4)
    have "dotted [0, 0, 0, 0] = ''0.0.0.0''" by code_simp
    then show ?thesis using \<open>ip = Some a\<close> Some by (auto simp: shown_ip_def is_local_def)
  qed (use Some in \<open>auto simp: shown_ip_def\<close>)
qed (simp add: shown_ip_def)

lemma entries_ok:
  assumes "distinct res \<and> list_all P res" and "\<And>line e. proc_entry line = Some e \<Longrightarrow> P e"
  shows "distinct (foldl add_entry res ls) \<and> list_all P (foldl add_entry res ls)"
  using assms(1)
proof (induction ls arbitrary: res)
  case (Cons l ls)
  have "distinct (add_entry res l) \<and> list_all P (add_entry res l)"
    using Cons.prems assms(2) [of l] by (auto simp: add_entry_def split: option.splits)
  then show ?case using Cons.IH by simp
qed simp

text \<open>The list of listening ports shows no address of the machine: every entry is a loopback or unspecified address, or one of these in place of the
  real one, with its port, and no entry occurs twice.\<close>

theorem ports_masked:
  "distinct (readProcNetTCP body) \<and> list_all (\<lambda>e. \<exists>ip port v4. e = ip @ '':'' @ fmt_port port
     \<and> (ip \<in> {''0.0.0.0'', ''::'', ''::1''} \<or> (ip = dotted v4 \<and> hd v4 = 127))) (readProcNetTCP body)"
proof -
  have "\<exists>ip port v4. e = ip @ '':'' @ fmt_port port \<and> (ip \<in> {''0.0.0.0'', ''::'', ''::1''} \<or> (ip = dotted v4 \<and> hd v4 = 127))"
    if pe: "proc_entry line = Some e" for line e
  proof -
    obtain ip port where "e = shown_ip ip @ '':'' @ fmt_port port"
      using pe by (auto simp: proc_entry_def Let_def split: if_splits list.splits)
    then show ?thesis using shown_local [of ip] by blast
  qed
  then show ?thesis
    by (cases body) (simp_all add: readProcNetTCP_def entries_ok)
qed

section \<open>Concrete runs\<close>

definition demo_file :: "string \<Rightarrow> finfo" where
  "demo_file nm = \<lparr>fi_name = nm, fi_dir = False, fi_size = 7, fi_mtime = 0\<rparr>"

definition demo_dir :: "string \<Rightarrow> finfo" where
  "demo_dir nm = \<lparr>fi_name = nm, fi_dir = True, fi_size = 0, fi_mtime = 0\<rparr>"

text \<open>A workspace \<^verbatim>\<open>/w\<close> with a file, a denied file and a link that leads to a private key outside; a repository whose only change is in
  \<^verbatim>\<open>.env\<close>.\<close>

definition escaped :: "bool \<Rightarrow> string \<Rightarrow> string \<Rightarrow> string" where
  "escaped color code s = (if color then [CHR 0x1B] @ ''['' @ code @ ''m'' @ s @ [CHR 0x1B] @ ''[m'' else s)"

definition demo_diff :: "bool \<Rightarrow> string" where
  "demo_diff color = join_with nl [escaped color ''1'' ''diff --git a/.env b/.env'', escaped color ''1'' ''--- a/.env'',
     escaped color ''1'' ''+++ b/.env'', escaped color ''32'' ''+KEY=hunter2'']"

definition demo_env :: tool_env where
  "demo_env = \<lparr>te_fs = \<lparr>getwd = Some ''/'', lstat_ok = (\<lambda>p. p \<in> {''/'', ''/w'', ''/w/a'', ''/w/notes''}),
       eval_symlinks = (\<lambda>p. Some (if p = ''/w/notes'' then ''/home/u/.ssh/id_rsa'' else Clean p))\<rparr>,
     te_stat = (\<lambda>p. Inr (if p = ''/'' \<or> p = ''/w'' then demo_dir ''w'' else demo_file (Base p))),
     te_open = (\<lambda>p. None), te_seek = (\<lambda>p. None), te_read = (\<lambda>p. Inr (if p = ''/w/notes'' then ''PRIVATE'' else ''content'')),
     te_walk = (\<lambda>p. Folder (demo_dir ''w'') [Leaf (demo_file ''.env''), Leaf (demo_file ''a''), Leaf (demo_file ''notes'')]),
     te_done = (\<lambda>p. False),
     te_git = (\<lambda>dir above gargs. \<lparr>gr_ok = True, gr_out = demo_diff (''--color'' \<in> set gargs), gr_err = []\<rparr>),
     te_regex = (\<lambda>p. None), te_time = (\<lambda>t. []), te_abs_error = []\<rparr>"

definition str_args :: "(string \<times> string) list \<Rightarrow> args" where
  "str_args kvs = Some (map (\<lambda>(k, v). (k, ArgString v)) kvs)"

lemma trunc_short: "int (length s) \<le> 65536 \<Longrightarrow> TruncateOutput s MaxToolOutputBytes = s"
  by (simp add: TruncateOutput_def MaxToolOutputBytes_def)

lemma demo_path: "ValidateSandboxPath (te_fs demo_env) ''/w'' ''.'' = Inr ''/w''" "ValidateSandboxPath (te_fs demo_env) ''/w'' ''a'' = Inr ''/w/a''"
  "ValidateSandboxPath (te_fs demo_env) ''/w'' ''notes'' = Inl ErrSandboxViolation" "ValidateSandboxPath (te_fs demo_env) ''/'' ''.'' = Inr ''/''"
  by code_simp+


theorem read_file_slice_witness:
  "ReadFile demo_env ''/w'' (str_args [(''path'', ''a''), (''offset'', ''2''), (''limit'', ''3'')]) = Inr (''nte'' @ nl @ ''[truncated by TalkIntent]'')"
proof -
  let ?a = "str_args [(''path'', ''a''), (''offset'', ''2''), (''limit'', ''3'')]"
  have a: "''a'' = getStringArg ?a ''path'' []" "2 = getIntArg ?a ''offset'' 0" "Atoi (trim_space ''3'') = Some 3" by code_simp+
  have l: "read_limit ?a = 3"
    by (simp add: read_limit_def getIntArg_def arg_at_def str_args_def gm_get_def a(3) MaxFileReadBytes_def)
  have e: "te_stat demo_env ''/w/a'' = Inr (demo_file ''a'')" "te_open demo_env ''/w/a'' = None" "te_seek demo_env ''/w/a'' = None"
    "te_read demo_env ''/w/a'' = Inr ''content''" "fi_size (demo_file ''a'') = int (length ''content'')" "\<not> fi_dir (demo_file ''a'')" by code_simp+
  have m: "(2 :: int) + int MaxFileReadBytes < 2 ^ 63" by (simp add: MaxFileReadBytes_def)
  show ?thesis
    using read_file_slice [OF a(1) _ a(2) _ m, of demo_env "''/w''" "demo_file ''a''" "''content''"] e unfolding demo_path(2) l by simp
qed

text \<open>Searching leaves the workspace through links: the walk does not follow a link but opening the file does, and only the path of the link is
  checked.  The file that reading refuses is searched and its lines are shown.\<close>

theorem grep_follows_links:
  "ReadFile demo_env ''/w'' (str_args [(''path'', ''notes'')]) = Inl ''access denied: path escapes workspace root''
   \<and> GrepSearch demo_env ''/w'' (str_args [(''pattern'', ''PRIV'')]) = Inr ''notes:1: PRIVATE''"
proof
  have "getStringArg (str_args [(''path'', ''notes'')]) ''path'' [] = ''notes''" by code_simp
  then show "ReadFile demo_env ''/w'' (str_args [(''path'', ''notes'')]) = Inl ''access denied: path escapes workspace root''"
    by (simp add: ReadFile_def with_path_def demo_path sandbox_text_def)
  let ?a = "str_args [(''pattern'', ''PRIV'')]"
  have p: "getStringArg ?a ''pattern'' [] = ''PRIV''" "getStringArg ?a ''path'' ''.'' = ''.''" "clamp_arg 50 200 (getIntArg ?a ''max_matches'' 50) = 50"
    by code_simp+
  have "snd (walk (grep_cb demo_env ''/w'' (grep_matcher demo_env ''PRIV'') (nat 50)) ''/w'' (te_walk demo_env ''/w'') []) = [''notes:1: PRIVATE'']"
    by code_simp
  then show "GrepSearch demo_env ''/w'' ?a = Inr ''notes:1: PRIVATE''"
    unfolding GrepSearch_def with_path_def p demo_path Let_def sum.case by (simp add: trunc_short)
qed

text \<open>The redaction of diffs can be switched off: the commit argument may be an option, and with \<^verbatim>\<open>--color\<close> git puts an escape sequence before every
  line the filter looks for, so that the change of a file on the deny list is shown in full.\<close>

theorem diff_option_bypasses_redaction:
  "GitDiff demo_env ''/w'' (str_args []) = Inr (''diff --git a/.env b/.env'' @ nl @ redaction)
   \<and> GitDiff demo_env ''/w'' (str_args [(''commit'', ''--color'')]) = Inr (demo_diff True) \<and> contains (demo_diff True) ''+KEY=hunter2''"
proof (intro conjI)
  have plain: "trim_space (demo_diff False) = demo_diff False" "filterDiffOutput (demo_diff False) = ''diff --git a/.env b/.env'' @ nl @ redaction"
    "demo_diff False \<noteq> []" by code_simp+
  have col: "trim_space (demo_diff True) = demo_diff True" "filterDiffOutput (demo_diff True) = demo_diff True" "demo_diff True \<noteq> []"
    "int (length (demo_diff True)) \<le> 65536" by code_simp+
  have git: "runGitCommand demo_env ''/w'' ''/w'' gargs = \<lparr>gr_ok = True, gr_out = demo_diff (''--color'' \<in> set gargs), gr_err = []\<rparr>" for gargs
    by (simp add: runGitCommand_def demo_env_def)
  have a: "getBoolArg (str_args []) ''cached'' False = False" "getStringArg (str_args []) ''commit'' [] = []" "getStringArg (str_args []) ''path'' [] = []"
    by code_simp+
  show "GitDiff demo_env ''/w'' (str_args []) = Inr (''diff --git a/.env b/.env'' @ nl @ redaction)"
    unfolding GitDiff_def a Let_def git by (simp add: plain) (simp add: trunc_short redaction_def)
  have b: "getBoolArg (str_args [(''commit'', ''--color'')]) ''cached'' False = False" "getStringArg (str_args [(''commit'', ''--color'')]) ''commit'' [] = ''--color''"
    "getStringArg (str_args [(''commit'', ''--color'')]) ''path'' [] = []" "valid_commit ''--color''"
    by code_simp+
  show "GitDiff demo_env ''/w'' (str_args [(''commit'', ''--color'')]) = Inr (demo_diff True)"
    unfolding GitDiff_def b Let_def git by (simp add: col b(4) trunc_short [OF col(4)])
  show "contains (demo_diff True) ''+KEY=hunter2''" by code_simp
qed

text \<open>With the root of the file system as workspace a listing panics: the depth of its entries is computed as zero and the indentation as minus one.\<close>

lemma list_root_panics: "ListDir demo_env ''/'' (str_args []) = None"
proof -
  have a: "getStringArg (str_args []) ''path'' ''.'' = ''.''" "list_depth (str_args []) = 1" "te_stat demo_env ''/'' = Inr (demo_dir ''w'')" by code_simp+
  have w: "fst (walk (list_cb ''/'' ''/'' 1) ''/'' (te_walk demo_env ''/'') []) = Panicked" by code_simp
  then obtain out where "walk (list_cb ''/'' ''/'' 1) ''/'' (te_walk demo_env ''/'') [] = (Panicked, out)" by (metis prod.collapse)
  then show ?thesis unfolding ListDir_def Let_def a demo_path sum.case by (simp add: demo_dir_def)
qed

text \<open>A negative offset is ignored when reading but not when comparing with the size, so a file that was read whole is reported as truncated.\<close>

lemma read_negative_offset:
  "ReadFile demo_env ''/w'' (str_args [(''path'', ''a''), (''offset'', ''-1'')]) = Inr (''content'' @ nl @ ''[truncated by TalkIntent]'')"
proof -
  let ?a = "str_args [(''path'', ''a''), (''offset'', ''-1'')]"
  have a: "getStringArg ?a ''path'' [] = ''a''" "getIntArg ?a ''offset'' 0 = -1" by code_simp+
  have l: "read_limit ?a = 65536" by (simp add: read_limit_def getIntArg_def arg_at_def str_args_def gm_get_def MaxFileReadBytes_def)
  have e: "te_stat demo_env ''/w/a'' = Inr (demo_file ''a'')" "te_open demo_env ''/w/a'' = None" "te_read demo_env ''/w/a'' = Inr ''content''" by code_simp+
  show ?thesis unfolding ReadFile_def Let_def a with_path_def demo_path sum.case e l by (simp add: demo_file_def wrap64_def)
qed

end
