(* ===== verification/Provider.thy ===== *)
theory Provider
  imports Agent
begin

text \<open>
  \<^verbatim>\<open>internal/probe/llm/provider.go\<close>: the two language-model providers behind the interface \<^verbatim>\<open>Provider\<close>.  The text of JSON is the business of
  \<^verbatim>\<open>encoding/json\<close>, so requests and responses are the structures that are marshalled and unmarshalled, and the functions that do it are
  parameters with their errors; the network answers the \<open>n\<close>-th request; the certificates of a file are a predicate on its content.  A
  provider with these is a \<^typ>\<open>provider\<close> of the agent.
\<close>

section \<open>Choice of the provider and its HTTP client\<close>

definition DialectOpenAI :: string where "DialectOpenAI = ''openai''"
definition DialectAnthropic :: string where "DialectAnthropic = ''anthropic''"

text \<open>A pool of certificates: whether it has those of the system, and the files added to it.\<close>

record cert_pool =
  cp_system :: bool
  cp_added :: "string list"

record tls_env =
  tv_read :: "string \<Rightarrow> (string, string) result"
  tv_system_ok :: bool
  tv_pem :: "string \<Rightarrow> bool"

record http_client =
  hc_min_version :: nat
  hc_root_cas :: "cert_pool option"
  hc_server_name :: string
  hc_insecure :: bool
  hc_timeout :: int

definition AppendCertsFromPEM :: "tls_env \<Rightarrow> string \<Rightarrow> cert_pool \<Rightarrow> bool \<times> cert_pool" where
  "AppendCertsFromPEM tv pem pool = (if tv_pem tv pem then (True, pool\<lparr>cp_added := cp_added pool @ [pem]\<rparr>) else (False, pool))"

definition ca_pool :: "tls_env \<Rightarrow> string \<Rightarrow> (string, cert_pool) result" where
  "ca_pool tv file =
     (case tv_read tv file of
        Inl e \<Rightarrow> Inl (''failed to read ca_file '' @ Quote file @ '': '' @ e)
      | Inr pem \<Rightarrow>
          let none = \<lparr>cp_system = False, cp_added = []\<rparr>; pool = \<lparr>cp_system = tv_system_ok tv, cp_added = []\<rparr>;
              (ok, pool1) = AppendCertsFromPEM tv pem pool; (ok2, pool2) = AppendCertsFromPEM tv pem none
          in if ok then Inr pool1 else if ok2 then Inr pool2
             else Inl (''failed to parse valid PEM certificate from ca_file '' @ Quote file))"

definition BuildHTTPClient :: "tls_env \<Rightarrow> LLMConfig \<Rightarrow> (string, http_client) result" where
  "BuildHTTPClient tv cfg =
     (let client = (\<lambda>cas. \<lparr>hc_min_version = 0x0303, hc_root_cas = cas, hc_server_name = lc_tls_server_name cfg,
            hc_insecure = lc_insecure_skip_verify cfg, hc_timeout = Timeout cfg\<rparr>)
      in if lc_ca_file cfg \<noteq> [] then map_sum id (\<lambda>pool. client (Some pool)) (ca_pool tv (lc_ca_file cfg))
         else Inr (client None))"

record OpenAIProvider =
  op_cfg :: LLMConfig
  op_client :: http_client

record AnthropicProvider =
  ap_cfg :: LLMConfig
  ap_client :: http_client

definition NewOpenAIProvider :: "LLMConfig \<Rightarrow> http_client \<Rightarrow> OpenAIProvider" where
  "NewOpenAIProvider cfg client = \<lparr>op_cfg = cfg, op_client = client\<rparr>"

definition NewAnthropicProvider :: "LLMConfig \<Rightarrow> http_client \<Rightarrow> AnthropicProvider" where
  "NewAnthropicProvider cfg client = \<lparr>ap_cfg = cfg, ap_client = client\<rparr>"

datatype llm_provider = OpenAI OpenAIProvider | Anthropic AnthropicProvider

fun Dialect :: "llm_provider \<Rightarrow> string" where
  "Dialect (OpenAI p) = DialectOpenAI"
| "Dialect (Anthropic p) = DialectAnthropic"

definition NewProvider :: "tls_env \<Rightarrow> LLMConfig \<Rightarrow> (string, llm_provider) result" where
  "NewProvider tv cfg =
     (case BuildHTTPClient tv cfg of
        Inl e \<Rightarrow> Inl (''failed to build LLM HTTP client: '' @ e)
      | Inr client \<Rightarrow>
          let dialect = to_lower (trim_space (lc_provider cfg)) in
          if dialect = DialectAnthropic then Inr (Anthropic (NewAnthropicProvider cfg client))
          else if dialect = DialectOpenAI \<or> dialect = [] then Inr (OpenAI (NewOpenAIProvider cfg client))
          else Inl (''unsupported LLM dialect: '' @ Quote (lc_provider cfg) @ '' (expected '' @ Quote DialectOpenAI @ '' or ''
                 @ Quote DialectAnthropic @ '')''))"

section \<open>The exchange\<close>

record http_request =
  hq_endpoint :: string
  hq_headers :: "(string \<times> string) list"
  hq_body :: string

text \<open>Making a request from an address can fail; sending it can fail; reading the body of the response can fail.\<close>

record llm_net =
  ln_new_request :: "string \<Rightarrow> string option"
  ln_do :: "nat \<Rightarrow> http_client \<Rightarrow> http_request \<Rightarrow> (run_error, int \<times> (run_error, string) result) result"

definition plain_error :: "string \<Rightarrow> run_error" where
  "plain_error t = \<lparr>re_text = t, re_deadline = False\<rparr>"

definition wrap_error :: "string \<Rightarrow> run_error \<Rightarrow> run_error" where
  "wrap_error t e = e\<lparr>re_text := t @ re_text e\<rparr>"

definition fmt_status :: "int \<Rightarrow> string" where
  "fmt_status n = (if n < 0 then CHR ''-'' # fmt_nat (nat (- n)) else fmt_nat (nat n))"

text \<open>From the marshalled body to the body of a successful response; the two providers differ in the name and the headers.\<close>

definition exchange :: "llm_net \<Rightarrow> string \<Rightarrow> http_client \<Rightarrow> string \<Rightarrow> (string \<times> string) list \<Rightarrow> nat \<Rightarrow> (string, string) result \<Rightarrow> (run_error, string) result" where
  "exchange net nm client endpoint headers n body =
     (case body of
        Inl e \<Rightarrow> Inl (plain_error (''failed to marshal '' @ nm @ '' request: '' @ e))
      | Inr data \<Rightarrow>
          (case ln_new_request net endpoint of
             Some e \<Rightarrow> Inl (plain_error (''failed to create http request: '' @ e))
           | None \<Rightarrow>
               (case ln_do net n client \<lparr>hq_endpoint = endpoint, hq_headers = headers, hq_body = data\<rparr> of
                  Inl e \<Rightarrow> Inl (wrap_error (nm @ '' request failed: '') e)
                | Inr (status, Inl e) \<Rightarrow> Inl (wrap_error (''failed to read '' @ nm @ '' response body: '') e)
                | Inr (status, Inr respBody) \<Rightarrow>
                    if status < 200 \<or> status \<ge> 300
                    then Inl (plain_error (nm @ '' api returned status '' @ fmt_status status @ '': '' @ respBody))
                    else Inr respBody)))"

definition pick_model :: "ChatRequest \<Rightarrow> LLMConfig \<Rightarrow> string \<Rightarrow> string" where
  "pick_model req cfg d =
     (let m = (if cr_model req = [] then lc_model cfg else cr_model req) in if m = [] then d else m)"

definition pick_tokens :: "ChatRequest \<Rightarrow> LLMConfig \<Rightarrow> int" where
  "pick_tokens req cfg = (if cr_max_tokens req \<le> 0 then Tokens cfg else cr_max_tokens req)"

definition pick_temperature :: "ChatRequest \<Rightarrow> LLMConfig \<Rightarrow> rat" where
  "pick_temperature req cfg =
     (if cr_temperature req \<le> 0 \<and> lc_temperature cfg > 0 then lc_temperature cfg else cr_temperature req)"

definition base_of :: "LLMConfig \<Rightarrow> string" where
  "base_of cfg = trim_right_by (\<lambda>c. c = CHR ''/'') (trim_space (lc_base_url cfg))"

section \<open>OpenAI\<close>

record openAIFunctionCall =
  of_name :: string
  of_arguments :: string

record openAIToolCall =
  ot_id :: string
  ot_type :: string
  ot_function :: openAIFunctionCall

record openAIChatMessage =
  om_role :: string
  om_content :: "string option"
  om_tool_call_id :: string
  om_tool_calls :: "openAIToolCall list"

record openAITool =
  oa_type :: string
  oa_function :: ToolDefinition

record openAIChatCompletionRequest =
  or_model :: string
  or_messages :: "openAIChatMessage list"
  or_tools :: "openAITool list"
  or_temperature :: rat
  or_max_tokens :: int

record openAIChatCompletionChoice =
  oc_role :: string
  oc_content :: "string option"
  oc_tool_calls :: "openAIToolCall list"
  oc_finish_reason :: string

record openAIChatCompletionResponse =
  os_choices :: "openAIChatCompletionChoice list"
  os_usage :: TokenUsage
  os_error :: "string option"

record openai_json =
  oj_marshal :: "openAIChatCompletionRequest \<Rightarrow> (string, string) result"
  oj_unmarshal :: "string \<Rightarrow> (string, openAIChatCompletionResponse) result"

definition openai_call :: "ToolCall \<Rightarrow> openAIToolCall" where
  "openai_call tc = \<lparr>ot_id = tc_id tc, ot_type = ''function'', ot_function = \<lparr>of_name = tc_name tc, of_arguments = tc_arguments tc\<rparr>\<rparr>"

definition openai_message :: "ChatMessage \<Rightarrow> openAIChatMessage" where
  "openai_message m = \<lparr>om_role = cm_role m,
     om_content = (if cm_content m \<noteq> [] \<or> cm_tool_calls m = [] then Some (cm_content m) else None),
     om_tool_call_id = cm_tool_call_id m, om_tool_calls = map openai_call (cm_tool_calls m)\<rparr>"

definition openai_messages :: "ChatRequest \<Rightarrow> openAIChatMessage list" where
  "openai_messages req =
     (if cr_system_prompt req \<noteq> []
      then [\<lparr>om_role = ''system'', om_content = Some (cr_system_prompt req), om_tool_call_id = [], om_tool_calls = []\<rparr>] else [])
     @ map openai_message (cr_messages req)"

definition openai_request :: "LLMConfig \<Rightarrow> ChatRequest \<Rightarrow> openAIChatCompletionRequest" where
  "openai_request cfg req =
     \<lparr>or_model = pick_model req cfg ''gpt-4o'', or_messages = openai_messages req,
      or_tools = map (\<lambda>t. \<lparr>oa_type = ''function'', oa_function = t\<rparr>) (cr_tools req),
      or_temperature = pick_temperature req cfg, or_max_tokens = pick_tokens req cfg\<rparr>"

definition OpenAI_resolveEndpoint :: "LLMConfig \<Rightarrow> string" where
  "OpenAI_resolveEndpoint cfg =
     (let base = base_of cfg in
      if base = [] then ''https://api.openai.com/v1/chat/completions''
      else if has_suffix base ''/chat/completions'' then base
      else if has_suffix base ''/v1'' then base @ ''/chat/completions''
      else base @ ''/v1/chat/completions'')"

definition openai_headers :: "LLMConfig \<Rightarrow> (string \<times> string) list" where
  "openai_headers cfg = [(''Content-Type'', ''application/json'')]
     @ (if lc_api_key cfg \<noteq> [] then [(''Authorization'', ''Bearer '' @ lc_api_key cfg)] else [])"

definition parsed_call :: "openAIToolCall \<Rightarrow> ToolCall" where
  "parsed_call tc = \<lparr>tc_id = ot_id tc, tc_name = of_name (ot_function tc), tc_arguments = of_arguments (ot_function tc)\<rparr>"

definition openai_response :: "openAIChatCompletionResponse \<Rightarrow> (run_error, ChatResponse) result" where
  "openai_response r =
     (case os_error r of
        Some msg \<Rightarrow> Inl (plain_error (''openai error: '' @ msg))
      | None \<Rightarrow>
          (case os_choices r of
             [] \<Rightarrow> Inl (plain_error ''openai returned no choices'')
           | choice # _ \<Rightarrow>
               Inr \<lparr>ch_content = (case oc_content choice of None \<Rightarrow> [] | Some c \<Rightarrow> c),
                    ch_tool_calls = map parsed_call (oc_tool_calls choice), ch_usage = os_usage r\<rparr>))"

definition OpenAI_ChatWithTools :: "llm_net \<Rightarrow> openai_json \<Rightarrow> OpenAIProvider \<Rightarrow> provider" where
  "OpenAI_ChatWithTools net oj p n req =
     (let cfg = op_cfg p in
      case exchange net ''openai'' (op_client p) (OpenAI_resolveEndpoint cfg) (openai_headers cfg) n (oj_marshal oj (openai_request cfg req)) of
        Inl e \<Rightarrow> Inl e
      | Inr respBody \<Rightarrow>
          (case oj_unmarshal oj respBody of
             Inl e \<Rightarrow> Inl (plain_error (''failed to decode openai response: '' @ e))
           | Inr r \<Rightarrow> openai_response r))"

section \<open>Anthropic\<close>

text \<open>The values of JSON are a type of their own; \<open>js_null\<close> is nil, which \<^verbatim>\<open>omitempty\<close> leaves out.\<close>

record 'j json_ops =
  js_parse :: "string \<Rightarrow> 'j option"
  js_print :: "'j \<Rightarrow> string option"
  js_empty :: 'j
  js_null :: 'j

record 'j anthropicContentBlock =
  ab_type :: string
  ab_text :: string
  ab_thinking :: string
  ab_id :: string
  ab_name :: string
  ab_input :: 'j
  ab_tool_use_id :: string
  ab_content :: string

record 'j anthropicMessage =
  am_role :: string
  am_content :: "'j anthropicContentBlock list"

record 'j anthropicMessagesRequest =
  aq_model :: string
  aq_system :: string
  aq_messages :: "'j anthropicMessage list"
  aq_tools :: "ToolDefinition list"
  aq_max_tokens :: int
  aq_temperature :: rat

record 'j anthropicMessagesResponse =
  as_content :: "'j anthropicContentBlock list"
  as_input_tokens :: int
  as_output_tokens :: int
  as_error :: "string option"

record 'j anthropic_json =
  aj_ops :: "'j json_ops"
  aj_marshal :: "'j anthropicMessagesRequest \<Rightarrow> (string, string) result"
  aj_unmarshal :: "string \<Rightarrow> (string, 'j anthropicMessagesResponse) result"

definition empty_block :: "'j json_ops \<Rightarrow> string \<Rightarrow> 'j anthropicContentBlock" where
  "empty_block js ty = \<lparr>ab_type = ty, ab_text = [], ab_thinking = [], ab_id = [], ab_name = [], ab_input = js_null js,
     ab_tool_use_id = [], ab_content = []\<rparr>"

definition text_block :: "'j json_ops \<Rightarrow> string \<Rightarrow> 'j anthropicContentBlock" where
  "text_block js t = (empty_block js ''text'')\<lparr>ab_text := t\<rparr>"

definition tool_use_block :: "'j json_ops \<Rightarrow> ToolCall \<Rightarrow> 'j anthropicContentBlock" where
  "tool_use_block js tc = (empty_block js ''tool_use'')\<lparr>ab_id := tc_id tc, ab_name := tc_name tc,
     ab_input := (case js_parse js (tc_arguments tc) of None \<Rightarrow> js_empty js | Some v \<Rightarrow> v)\<rparr>"

definition tool_result_block :: "'j json_ops \<Rightarrow> ChatMessage \<Rightarrow> 'j anthropicContentBlock" where
  "tool_result_block js m = (empty_block js ''tool_result'')\<lparr>ab_tool_use_id := cm_tool_call_id m, ab_content := cm_content m\<rparr>"

definition assistant_blocks :: "'j json_ops \<Rightarrow> ChatMessage \<Rightarrow> 'j anthropicContentBlock list" where
  "assistant_blocks js m =
     (if cm_content m \<noteq> [] then [text_block js (cm_content m)] else []) @ map (tool_use_block js) (cm_tool_calls m)"

text \<open>One message of the conversation; a message with another role is left out.\<close>

definition add_message :: "'j json_ops \<Rightarrow> 'j anthropicMessage list \<Rightarrow> ChatMessage \<Rightarrow> 'j anthropicMessage list" where
  "add_message js acc m =
     (if cm_role m = ''user'' then acc @ [\<lparr>am_role = ''user'', am_content = [text_block js (cm_content m)]\<rparr>]
      else if cm_role m = ''assistant'' then acc @ [\<lparr>am_role = ''assistant'', am_content = assistant_blocks js m\<rparr>]
      else if cm_role m = ''tool'' then
        (if acc \<noteq> [] \<and> am_role (last acc) = ''user''
         then butlast acc @ [(last acc)\<lparr>am_content := am_content (last acc) @ [tool_result_block js m]\<rparr>]
         else acc @ [\<lparr>am_role = ''user'', am_content = [tool_result_block js m]\<rparr>])
      else acc)"

definition anthropic_messages :: "'j json_ops \<Rightarrow> ChatMessage list \<Rightarrow> 'j anthropicMessage list" where
  "anthropic_messages js ms = foldl (add_message js) [] ms"

definition anthropic_request :: "'j json_ops \<Rightarrow> LLMConfig \<Rightarrow> ChatRequest \<Rightarrow> 'j anthropicMessagesRequest" where
  "anthropic_request js cfg req =
     \<lparr>aq_model = pick_model req cfg ''claude-3-5-sonnet-20241022'', aq_system = cr_system_prompt req,
      aq_messages = anthropic_messages js (cr_messages req), aq_tools = cr_tools req,
      aq_max_tokens = pick_tokens req cfg, aq_temperature = pick_temperature req cfg\<rparr>"

definition Anthropic_resolveEndpoint :: "LLMConfig \<Rightarrow> string" where
  "Anthropic_resolveEndpoint cfg =
     (let base = base_of cfg in
      if base = [] then ''https://api.anthropic.com/v1/messages''
      else if has_suffix base ''/messages'' then base
      else if has_suffix base ''/v1'' then base @ ''/messages''
      else base @ ''/v1/messages'')"

definition anthropic_headers :: "LLMConfig \<Rightarrow> (string \<times> string) list" where
  "anthropic_headers cfg = [(''Content-Type'', ''application/json''), (''anthropic-version'', ''2023-06-01'')]
     @ (if lc_api_key cfg \<noteq> [] then [(''x-api-key'', lc_api_key cfg)] else [])"

definition use_call :: "'j json_ops \<Rightarrow> 'j anthropicContentBlock \<Rightarrow> ToolCall" where
  "use_call js b = \<lparr>tc_id = ab_id b, tc_name = ab_name b, tc_arguments = (case js_print js (ab_input b) of None \<Rightarrow> ''{}'' | Some t \<Rightarrow> t)\<rparr>"

definition read_block :: "'j json_ops \<Rightarrow> string \<times> ToolCall list \<Rightarrow> 'j anthropicContentBlock \<Rightarrow> string \<times> ToolCall list" where
  "read_block js acc b =
     (if ab_type b = ''thinking'' then acc
      else if ab_type b = ''text'' then (fst acc @ ab_text b, snd acc)
      else if ab_type b = ''tool_use'' then (fst acc, snd acc @ [use_call js b])
      else acc)"

definition anthropic_response :: "'j json_ops \<Rightarrow> 'j anthropicMessagesResponse \<Rightarrow> (run_error, ChatResponse) result" where
  "anthropic_response js r =
     (case as_error r of
        Some msg \<Rightarrow> Inl (plain_error (''anthropic error: '' @ msg))
      | None \<Rightarrow>
          let (answerText, toolCalls) = foldl (read_block js) ([], []) (as_content r) in
          Inr \<lparr>ch_content = answerText, ch_tool_calls = toolCalls,
               ch_usage = \<lparr>PromptTokens = as_input_tokens r, CompletionTokens = as_output_tokens r,
                 TotalTokens = wrap64 (as_input_tokens r + as_output_tokens r)\<rparr>\<rparr>)"

definition Anthropic_ChatWithTools :: "llm_net \<Rightarrow> 'j anthropic_json \<Rightarrow> AnthropicProvider \<Rightarrow> provider" where
  "Anthropic_ChatWithTools net aj p n req =
     (let cfg = ap_cfg p in
      case exchange net ''anthropic'' (ap_client p) (Anthropic_resolveEndpoint cfg) (anthropic_headers cfg) n
             (aj_marshal aj (anthropic_request (aj_ops aj) cfg req)) of
        Inl e \<Rightarrow> Inl e
      | Inr respBody \<Rightarrow>
          (case aj_unmarshal aj respBody of
             Inl e \<Rightarrow> Inl (plain_error (''failed to decode anthropic response: '' @ e))
           | Inr r \<Rightarrow> anthropic_response (aj_ops aj) r))"

fun ChatWithTools :: "llm_net \<Rightarrow> openai_json \<Rightarrow> 'j anthropic_json \<Rightarrow> llm_provider \<Rightarrow> provider" where
  "ChatWithTools net oj aj (OpenAI p) = OpenAI_ChatWithTools net oj p"
| "ChatWithTools net oj aj (Anthropic p) = Anthropic_ChatWithTools net aj p"

text \<open>The provider as the agent makes it from the configuration of a request.\<close>

definition agent_provider :: "tls_env \<Rightarrow> llm_net \<Rightarrow> openai_json \<Rightarrow> 'j anthropic_json \<Rightarrow> LLMConfig \<Rightarrow> (string, provider) result" where
  "agent_provider tv net oj aj cfg = map_sum id (ChatWithTools net oj aj) (NewProvider tv cfg)"

end
