(* ===== verification/Ask.thy ===== *)
theory Ask
  imports Provider
begin

text \<open>
  \<^verbatim>\<open>internal/cli/ask.go\<close> with the table of \<^verbatim>\<open>format.go\<close> and the HTTP client of \<^verbatim>\<open>internal/config/tls.go\<close>: the command that asks a teammate.
  A command has an exit code and two texts.  The hub answers the \<open>n\<close>-th request; JSON is decoded and printed by parameters; the clock is
  read once before the wait and once before every poll.
\<close>

section \<open>The HTTP client for the hub (tls.go)\<close>

definition NewHubTLSConfig :: "tls_env \<Rightarrow> string \<Rightarrow> (string, cert_pool option) result" where
  "NewHubTLSConfig tv caFile0 =
     (let caFile = trim_space caFile0 in
      if caFile = [] then Inr None
      else (case tv_read tv caFile of
         Inl e \<Rightarrow> Inl (''failed to read hub_ca_file '' @ Quote caFile @ '': '' @ e)
       | Inr pem \<Rightarrow>
           let none = \<lparr>cp_system = False, cp_added = []\<rparr>; pool = \<lparr>cp_system = tv_system_ok tv, cp_added = []\<rparr>;
               (ok, pool1) = AppendCertsFromPEM tv pem pool; (ok2, pool2) = AppendCertsFromPEM tv pem none
           in if ok then Inr (Some pool1) else if ok2 then Inr (Some pool2)
              else Inl (''failed to parse valid PEM certificate from hub_ca_file '' @ Quote caFile)))"

definition NewHubHTTPClient :: "tls_env \<Rightarrow> string \<Rightarrow> int \<Rightarrow> (string, http_client) result" where
  "NewHubHTTPClient tv caFile timeout =
     map_sum id (\<lambda>pool. \<lparr>hc_min_version = 0x0303, hc_root_cas = pool, hc_server_name = [], hc_insecure = False, hc_timeout = timeout\<rparr>)
       (NewHubTLSConfig tv caFile)"

section \<open>The target in the question\<close>

text \<open>\<^verbatim>\<open>utf8.RuneCountInString\<close> of valid UTF-8: the bytes that do not continue a character.\<close>

definition RuneCount :: "string \<Rightarrow> nat" where
  "RuneCount s = length (filter (\<lambda>c. char_code c div 64 \<noteq> 2) s)"

text \<open>The better of the best match so far and one more name; a blank name is no match.\<close>

definition better_match :: "string \<Rightarrow> nat \<times> string \<Rightarrow> string \<Rightarrow> nat \<times> string" where
  "better_match lowerQuery best name0 =
     (let name = trim_space name0 in
      if name \<noteq> [] \<and> contains lowerQuery (to_lower name) \<and> RuneCount name > fst best then (RuneCount name, name) else best)"

definition best_match :: "string \<Rightarrow> MemberInfo \<Rightarrow> nat \<times> string" where
  "best_match lowerQuery m = foldl (better_match lowerQuery) (0, []) (m_name m # m_aliases m)"

record memberMatch =
  mm_member :: MemberInfo
  mm_alias :: string
  mm_len :: nat

definition add_match :: "string \<Rightarrow> memberMatch gomap \<Rightarrow> MemberInfo \<Rightarrow> memberMatch gomap" where
  "add_match lowerQuery acc m =
     (let (bestLen, bestAlias) = best_match lowerQuery m in
      if bestLen > 0 then gm_put (m_id m) \<lparr>mm_member = m, mm_alias = bestAlias, mm_len = bestLen\<rparr> acc else acc)"

record extraction =
  ex_target :: string
  ex_alias :: string
  ex_ambiguous :: bool
  ex_candidates :: "CandidateMember list"

definition no_target :: extraction where
  "no_target = \<lparr>ex_target = [], ex_alias = [], ex_ambiguous = False, ex_candidates = []\<rparr>"

definition match_candidate :: "memberMatch \<Rightarrow> CandidateMember" where
  "match_candidate mm = \<lparr>c_id = m_id (mm_member mm), c_name = m_name (mm_member mm), c_matched_alias = mm_alias mm\<rparr>"

definition top_matches :: "memberMatch gomap \<Rightarrow> memberMatch list" where
  "top_matches matches =
     (let maxLen = foldl max 0 (map (mm_len \<circ> snd) matches) in
      sort_key (\<lambda>mm. m_id (mm_member mm)) (filter (\<lambda>mm. mm_len mm = maxLen) (map snd matches)))"

definition ExtractTarget :: "string \<Rightarrow> MemberInfo list \<Rightarrow> extraction" where
  "ExtractTarget queryText members =
     (if trim_space queryText = [] \<or> members = [] then no_target
      else
        let matches = foldl (add_match (to_lower queryText)) [] members in
        if matches = [] then no_target
        else (case top_matches matches of
           [mm] \<Rightarrow> \<lparr>ex_target = m_name (mm_member mm), ex_alias = mm_alias mm, ex_ambiguous = False, ex_candidates = []\<rparr>
         | tops \<Rightarrow> \<lparr>ex_target = [], ex_alias = [], ex_ambiguous = True, ex_candidates = map match_candidate tops\<rparr>))"

section \<open>The hub as the command line sees it\<close>

record cli_request =
  cq_method :: string
  cq_url :: string
  cq_headers :: "(string \<times> string) list"
  cq_body :: string

record cli_error =
  ce_text :: string
  ce_canceled :: bool

record QuerySubmitResponse =
  sr_query_id :: string
  sr_status :: string
  sr_target_member_id :: string
  sr_target_member_name :: string
  sr_queue_position :: int
  sr_ttl_expires_at :: int
  sr_created_at :: int

record ErrorBody =
  eb_code :: string
  eb_message :: string
  eb_candidates :: "CandidateMember list"

record ask_env =
  ae_tls :: tls_env
  ae_new_request :: "string \<Rightarrow> string option"
  ae_do :: "nat \<Rightarrow> http_client \<Rightarrow> cli_request \<Rightarrow> (cli_error, int \<times> (string, string) result) result"
  ae_clock :: "nat \<Rightarrow> int"
  ae_time :: "int \<Rightarrow> string"
  ae_encode :: "QuerySubmitRequest \<Rightarrow> (string, string) result"
  ae_members :: "string \<Rightarrow> (string, MemberInfo list) result"
  ae_error_message :: "string \<Rightarrow> string"
  ae_error :: "string \<Rightarrow> ErrorBody option"
  ae_resolve :: "string \<Rightarrow> (string \<times> CandidateMember list) option"
  ae_detail :: "string \<Rightarrow> QueryDetailResponse option"
  ae_poll :: "string \<Rightarrow> QueryDetailResponse option"
  ae_submit :: "string \<Rightarrow> (string, QuerySubmitResponse) result"
  ae_print_detail :: "QueryDetailResponse \<Rightarrow> string"
  ae_print_submit :: "QuerySubmitResponse \<Rightarrow> string"
  ae_print_timeout :: "string \<Rightarrow> string \<Rightarrow> string"

record exit =
  xt_code :: int
  xt_stdout :: string
  xt_stderr :: string

definition hub_base :: "string \<Rightarrow> string" where
  "hub_base url = trim_right_by (\<lambda>c. c = CHR ''/'') url"

text \<open>The body of a response as a decoder reads it; one that cannot be read is empty.\<close>

definition body_text :: "(string, string) result \<Rightarrow> string" where
  "body_text b = (case b of Inl _ \<Rightarrow> [] | Inr t \<Rightarrow> t)"

definition FetchMembers :: "ask_env \<Rightarrow> nat \<Rightarrow> string \<Rightarrow> string \<Rightarrow> string \<Rightarrow> (string, MemberInfo list) result" where
  "FetchMembers env n hubURL token caFile =
     (let url = hub_base hubURL @ ''/api/v1/members'' in
      case ae_new_request env url of
        Some e \<Rightarrow> Inl e
      | None \<Rightarrow>
          (case NewHubHTTPClient (ae_tls env) caFile (10 * secondNs) of
             Inl e \<Rightarrow> Inl (''failed to create http client: '' @ e)
           | Inr client \<Rightarrow>
               (case ae_do env n client \<lparr>cq_method = ''GET'', cq_url = url,
                       cq_headers = (if token \<noteq> [] then [(''Authorization'', ''Bearer '' @ token)] else []), cq_body = []\<rparr> of
                  Inl e \<Rightarrow> Inl (''failed to fetch members: '' @ ce_text e)
                | Inr (status, body) \<Rightarrow>
                    if status \<noteq> 200
                    then Inl (''failed to fetch members (HTTP '' @ fmt_status status @ ''): '' @ ae_error_message env (body_text body))
                    else (case ae_members env (body_text body) of
                       Inl e \<Rightarrow> Inl (''failed to decode members response: '' @ e) | Inr ms \<Rightarrow> Inr ms))))"

section \<open>Tables (format.go)\<close>

definition FormatTime :: "ask_env \<Rightarrow> int \<Rightarrow> string" where
  "FormatTime env ms = (if ms \<le> 0 then ''never'' else ae_time env ms)"

text \<open>\<^verbatim>\<open>%-18s\<close> and the like.\<close>

definition pad_right :: "nat \<Rightarrow> string \<Rightarrow> string" where
  "pad_right n s = s @ replicate (n - RuneCount s) (CHR '' '')"

definition rule_line :: string where
  "rule_line = replicate 80 (CHR ''-'') @ nl"

definition members_line :: "string \<Rightarrow> string \<Rightarrow> string \<Rightarrow> string \<Rightarrow> string \<Rightarrow> string \<Rightarrow> string" where
  "members_line a b c d e f = pad_right 18 a @ '' '' @ pad_right 10 b @ '' '' @ pad_right 18 c @ '' '' @ pad_right 8 d @ '' '' @ pad_right 19 e @ '' '' @ f @ nl"

definition member_row :: "ask_env \<Rightarrow> MemberInfo \<Rightarrow> string" where
  "member_row env m =
     (let joined = join_with '', '' (m_aliases m); al = (if joined = [] then ''-'' else joined);
          shown = (if length al > 18 then take 15 al @ ''...'' else al);
          ws = join_with '', '' (case m_workspaces m of None \<Rightarrow> [] | Some w \<Rightarrow> w)
      in members_line (m_id m) (m_name m) shown (if m_online m then ''ONLINE'' else ''OFFLINE'') (FormatTime env (m_last_seen_at m))
           (if ws = [] then ''-'' else ws))"

definition PrintMembersTable :: "ask_env \<Rightarrow> MemberInfo list \<Rightarrow> string" where
  "PrintMembersTable env members =
     (if members = [] then ''No registered team members found.'' @ nl
      else ''TEAM MEMBERS ('' @ fmt_nat (length members) @ '')'' @ nl @ rule_line
        @ members_line ''ID'' ''NAME'' ''ALIASES'' ''STATUS'' ''LAST SEEN'' ''WORKSPACES'' @ rule_line
        @ concat (map (member_row env) members) @ rule_line)"

section \<open>Showing the outcome\<close>

record RunAskOptions =
  ro_target :: string
  ro_query :: string
  ro_workspace :: string
  ro_timeout_sec :: int
  ro_ttl_sec :: int
  ro_wait :: bool
  ro_json :: bool

definition succeeded :: "string \<Rightarrow> bool" where
  "succeeded st \<longleftrightarrow> st = QueryStatusCompleted \<or> st = QueryStatusSuccess"

definition response_head :: "QueryDetailResponse \<Rightarrow> string" where
  "response_head d = nl @ ''=== Response from '' @ q_target_member_name d @ '' ==='' @ nl"

definition refusal_text :: "QueryDetailResponse \<Rightarrow> string" where
  "refusal_text d =
     (if q_answer d \<noteq> [] then q_answer d else if q_error_message d \<noteq> [] then q_error_message d
      else ''Query refused by teammate'' @ [CHR 0x27] @ ''s sovereign privacy guardrails'')"

definition renderQueryOutcome :: "ask_env \<Rightarrow> QueryDetailResponse \<Rightarrow> bool \<Rightarrow> exit" where
  "renderQueryOutcome env d jsonOutput =
     (if jsonOutput then \<lparr>xt_code = (if succeeded (q_status d) then 0 else 1), xt_stdout = ae_print_detail env d, xt_stderr = []\<rparr>
      else if succeeded (q_status d) then
        \<lparr>xt_code = 0, xt_stdout = response_head d @ trim_space (q_answer d) @ nl @ nl @ ''[Status: '' @ q_status d @ '' | Tools: ''
           @ join_with '', '' (case q_tools_used d of None \<Rightarrow> [] | Some ts \<Rightarrow> ts) @ '' | Duration: '' @ fmt_status (q_duration_ms d) @ ''ms]'' @ nl,
         xt_stderr = []\<rparr>
      else if q_status d = QueryStatusRefused then
        \<lparr>xt_code = 1, xt_stdout = response_head d @ ''Status: '' @ QueryStatusRefused @ nl @ ''Reason: '' @ refusal_text d @ nl, xt_stderr = []\<rparr>
      else if q_status d = QueryStatusTimeout then
        \<lparr>xt_code = 1, xt_stdout = [], xt_stderr = nl @ ''Query timed out waiting for response from '' @ q_target_member_name d
           @ '' (Status: '' @ q_status d @ '')'' @ nl\<rparr>
      else if q_status d = QueryStatusExpired then
        \<lparr>xt_code = 1, xt_stdout = [], xt_stderr = nl @ ''Query expired in offline queue before '' @ q_target_member_name d
           @ '' came online (Status: '' @ q_status d @ '')'' @ nl\<rparr>
      else \<lparr>xt_code = 1, xt_stdout = [], xt_stderr = nl @ ''Query failed (Status: '' @ q_status d @ ''): '' @ q_error_message d @ nl\<rparr>)"

section \<open>Asking\<close>

definition fails :: "string \<Rightarrow> exit" where
  "fails err = \<lparr>xt_code = 1, xt_stdout = [], xt_stderr = err\<rparr>"

definition after_out :: "string \<Rightarrow> exit \<Rightarrow> exit" where
  "after_out t x = x\<lparr>xt_stdout := t @ xt_stdout x\<rparr>"

definition after_err :: "string \<Rightarrow> exit \<Rightarrow> exit" where
  "after_err t x = x\<lparr>xt_stderr := t @ xt_stderr x\<rparr>"

definition candidate_line :: "CandidateMember \<Rightarrow> string" where
  "candidate_line c = ''  - '' @ c_name c @ '' [ID: '' @ c_id c @ '']''
     @ (if c_matched_alias c \<noteq> [] then '' (matched '' @ Quote (c_matched_alias c) @ '')'' else []) @ nl"

definition ambiguous_text :: "CandidateMember list \<Rightarrow> string" where
  "ambiguous_text cs = ''Error: question mentions multiple team members ambiguously:'' @ nl @ concat (map candidate_line cs)
     @ ''Please specify the exact target with --to <name>.'' @ nl"

text \<open>Steps 1 and 2: the target with the warnings printed on the way and the number of requests made, or the end of the command.\<close>

definition find_target :: "ask_env \<Rightarrow> ClientConfig \<Rightarrow> string \<Rightarrow> string \<Rightarrow> (exit, string \<times> string \<times> nat) result" where
  "find_target env cfg target queryText =
     (if target \<noteq> [] then Inr (target, [], 0)
      else
        let fetch = (\<lambda>n. FetchMembers env n (cc_hub_url cfg) (cc_token cfg) (cc_hub_ca_file cfg));
            give_up = (\<lambda>warn. Inl (fails (warn @ ''Error: unable to determine target teammate from query.'' @ nl
              @ (case fetch 1 of Inr members \<Rightarrow> if members \<noteq> [] then nl @ ''Available Team Members:'' @ nl @ PrintMembersTable env members else []
                 | Inl _ \<Rightarrow> [])
              @ nl @ ''Please specify target explicitly: talkintent ask --to <name> '' @ Quote queryText @ nl)))
        in (case fetch 0 of
              Inl e \<Rightarrow> give_up (''Warning: failed to fetch member directory for natural-language target resolution: '' @ e @ nl)
            | Inr members \<Rightarrow>
                let ex = ExtractTarget queryText members in
                if members \<noteq> [] \<and> ex_ambiguous ex then Inl (fails (ambiguous_text (ex_candidates ex)))
                else if members \<noteq> [] \<and> ex_target ex \<noteq> [] then Inr (ex_target ex, [], 1)
                else give_up []))"

text \<open>A response of status 300 or 400.\<close>

definition alias_line :: "CandidateMember \<Rightarrow> string" where
  "alias_line c = ''  - '' @ c_name c @ '' [ID: '' @ c_id c @ '']''
     @ (if c_matched_alias c \<noteq> [] then '' (matched alias: '' @ c_matched_alias c @ '')'' else []) @ nl"

definition rejected :: "ask_env \<Rightarrow> bool \<Rightarrow> string \<Rightarrow> int \<Rightarrow> string \<Rightarrow> exit" where
  "rejected env jsonOutput target status body =
     (let shown = \<lparr>xt_code = 1, xt_stdout = body @ nl, xt_stderr = []\<rparr>;
          plain = fails (''Error submitting query (HTTP '' @ fmt_status status @ ''): '' @ body @ nl);
          by_code = (case ae_error env body of
             None \<Rightarrow> plain
           | Some eb \<Rightarrow>
               if eb_code eb = [] then plain
               else if jsonOutput then shown
               else fails (''Error submitting query ('' @ eb_code eb @ ''): '' @ eb_message eb @ nl
                    @ (if eb_candidates eb \<noteq> [] then ''Candidate Members:'' @ nl
                         @ concat (map (\<lambda>c. ''  - '' @ c_name c @ '' ('' @ c_id c @ '')'' @ nl) (eb_candidates eb)) else [])))
      in case ae_resolve env body of
           None \<Rightarrow> by_code
         | Some (st, cs) \<Rightarrow>
             if st \<noteq> ''ambiguous'' then by_code
             else if jsonOutput then shown
             else fails (''Error: target '' @ Quote target @ '' matches multiple team members (Candidate Members):'' @ nl
                 @ concat (map alias_line cs) @ ''Please specify the exact name with --to <name>.'' @ nl))"

definition still_waiting :: "string \<Rightarrow> bool" where
  "still_waiting st \<longleftrightarrow> st = QueryStatusPending \<or> st = QueryStatusDispatched \<or> st = QueryStatusQueued"

text \<open>What one round of the wait needs: the query, whom it is for, and how many requests were made before.\<close>

record wait_args =
  wa_query_id :: string
  wa_target :: string
  wa_wait_sec :: int
  wa_deadline :: int
  wa_made :: nat

definition poll_url :: "ClientConfig \<Rightarrow> wait_args \<Rightarrow> string" where
  "poll_url cfg wa = hub_base (cc_hub_url cfg) @ ''/api/v1/queries/'' @ wa_query_id wa @ ''?wait='' @ fmt_status (wa_wait_sec wa) @ ''s''"

text \<open>One round; \<open>None\<close> goes on with the next.\<close>

definition poll_once :: "ask_env \<Rightarrow> ClientConfig \<Rightarrow> bool \<Rightarrow> wait_args \<Rightarrow> nat \<Rightarrow> exit option" where
  "poll_once env cfg jsonOutput wa k =
     (case ae_new_request env (poll_url cfg wa) of
        Some e \<Rightarrow> Some (fails (''Failed to build poll request: '' @ e @ nl))
      | None \<Rightarrow>
          (case NewHubHTTPClient (ae_tls env) (cc_hub_ca_file cfg) (wrap64 (wrap64 (wa_wait_sec wa + 5) * secondNs)) of
             Inl e \<Rightarrow> Some (fails (''Failed to build poll http client: '' @ e @ nl))
           | Inr client \<Rightarrow>
               (case ae_do env (wa_made wa + k) client \<lparr>cq_method = ''GET'', cq_url = poll_url cfg wa,
                       cq_headers = [(''Authorization'', ''Bearer '' @ cc_token cfg)], cq_body = []\<rparr> of
                  Inl e \<Rightarrow> if ce_canceled e then Some \<lparr>xt_code = 130, xt_stdout = [], xt_stderr = []\<rparr> else None
                | Inr (status, body) \<Rightarrow>
                    (case ae_poll env (body_text body) of
                       None \<Rightarrow> None
                     | Some d \<Rightarrow> if still_waiting (q_status d) then None else Some (renderQueryOutcome env d jsonOutput)))))"

definition timed_out :: "ask_env \<Rightarrow> bool \<Rightarrow> wait_args \<Rightarrow> exit" where
  "timed_out env jsonOutput wa =
     (if jsonOutput then \<lparr>xt_code = 1, xt_stdout = ae_print_timeout env (wa_query_id wa) (wa_target wa), xt_stderr = []\<rparr>
      else fails (''Query [ID: '' @ wa_query_id wa @ ''] timed out waiting for '' @ wa_target wa @ '' to respond.'' @ nl))"

text \<open>\<open>None\<close> is a wait that never ends.\<close>

partial_function (option) poll_loop :: "ask_env \<Rightarrow> ClientConfig \<Rightarrow> bool \<Rightarrow> wait_args \<Rightarrow> nat \<Rightarrow> exit option" where
  "poll_loop env cfg jsonOutput wa k =
     (if ae_clock env (Suc k) < wa_deadline wa
      then (case poll_once env cfg jsonOutput wa k of Some x \<Rightarrow> Some x | None \<Rightarrow> poll_loop env cfg jsonOutput wa (Suc k))
      else Some (timed_out env jsonOutput wa))"

declare poll_loop.simps [code]

definition submitted_text :: "string \<Rightarrow> string \<Rightarrow> string \<Rightarrow> string" where
  "submitted_text qid name st = ''Query submitted [ID: '' @ qid @ ''] -> '' @ name @ '' (Status: '' @ st @ '')'' @ nl"

definition await_answer :: "ask_env \<Rightarrow> ClientConfig \<Rightarrow> RunAskOptions \<Rightarrow> string \<Rightarrow> nat \<Rightarrow> QuerySubmitResponse \<Rightarrow> exit option" where
  "await_answer env cfg opts target made sr =
     (let name = (if sr_target_member_name sr = [] then target else sr_target_member_name sr);
          wa = \<lparr>wa_query_id = sr_query_id sr, wa_target = name,
                wa_wait_sec = (if 15 > ro_timeout_sec opts then ro_timeout_sec opts else 15),
                wa_deadline = ae_clock env 0 + wrap64 (ro_timeout_sec opts * secondNs), wa_made = made\<rparr>
      in map_option (after_out (if ro_json opts then []
             else submitted_text (sr_query_id sr) name (sr_status sr) @ ''Waiting for on-site probe response...'' @ nl))
           (poll_loop env cfg (ro_json opts) wa 0))"

text \<open>An answer that came with the submission.\<close>

definition answered_at_once :: "QueryDetailResponse \<Rightarrow> bool" where
  "answered_at_once d \<longleftrightarrow> q_query_id d \<noteq> [] \<and> q_status d \<in> {QueryStatusCompleted, QueryStatusSuccess, QueryStatusRefused, QueryStatusError}"

definition ask_accepted :: "ask_env \<Rightarrow> ClientConfig \<Rightarrow> RunAskOptions \<Rightarrow> string \<Rightarrow> nat \<Rightarrow> string \<Rightarrow> exit option" where
  "ask_accepted env cfg opts target made body =
     (let later = (case ae_submit env body of
            Inl e \<Rightarrow> Some (fails (''Error decoding submit response: '' @ e @ nl))
          | Inr sr \<Rightarrow>
              if \<not> ro_wait opts then
                Some \<lparr>xt_code = 0, xt_stdout = (if ro_json opts then ae_print_submit env sr
                   else submitted_text (sr_query_id sr) (sr_target_member_name sr) (sr_status sr)), xt_stderr = []\<rparr>
              else await_answer env cfg opts target made sr)
      in case ae_detail env body of
           Some d \<Rightarrow> if answered_at_once d then Some (renderQueryOutcome env d (ro_json opts)) else later
         | None \<Rightarrow> later)"

definition ask_defaults :: "RunAskOptions \<Rightarrow> RunAskOptions" where
  "ask_defaults opts = opts\<lparr>ro_timeout_sec := (if ro_timeout_sec opts \<le> 0 then 60 else ro_timeout_sec opts),
     ro_ttl_sec := (if ro_ttl_sec opts \<le> 0 then 86400 else ro_ttl_sec opts)\<rparr>"

definition ask_body :: "RunAskOptions \<Rightarrow> string \<Rightarrow> string \<Rightarrow> QuerySubmitRequest" where
  "ask_body opts target queryText =
     \<lparr>qs_target = target, qs_query = queryText, qs_target_workspace = ro_workspace opts, qs_timeout_seconds = ro_timeout_sec opts,
      qs_ttl_seconds = ro_ttl_sec opts, qs_idempotency_key = [], qs_wait = ro_wait opts\<rparr>"

definition submit_ask :: "ask_env \<Rightarrow> ClientConfig \<Rightarrow> RunAskOptions \<Rightarrow> string \<Rightarrow> string \<Rightarrow> nat \<Rightarrow> exit option" where
  "submit_ask env cfg opts target queryText n =
     (let url = hub_base (cc_hub_url cfg) @ ''/api/v1/queries'';
          httpTimeout = (if ro_wait opts then wrap64 (wrap64 (ro_timeout_sec opts + 15) * secondNs) else 15 * secondNs)
      in case ae_encode env (ask_body opts target queryText) of
           Inl e \<Rightarrow> Some (fails (''Failed to marshal query request: '' @ e @ nl))
         | Inr body \<Rightarrow>
             (case ae_new_request env url of
                Some e \<Rightarrow> Some (fails (''Error creating query request: '' @ e @ nl))
              | None \<Rightarrow>
                  (case NewHubHTTPClient (ae_tls env) (cc_hub_ca_file cfg) httpTimeout of
                     Inl e \<Rightarrow> Some (fails (''Error creating http client: '' @ e @ nl))
                   | Inr client \<Rightarrow>
                       (case ae_do env n client \<lparr>cq_method = ''POST'', cq_url = url, cq_headers =
                               [(''Authorization'', ''Bearer '' @ cc_token cfg), (''Content-Type'', ''application/json'')], cq_body = body\<rparr> of
                          Inl e \<Rightarrow> Some (fails (''Error submitting query: '' @ ce_text e @ nl))
                        | Inr (status, Inl e) \<Rightarrow> Some (fails (''Error reading response: '' @ e @ nl))
                        | Inr (status, Inr resp) \<Rightarrow>
                            if status = 400 \<or> status = 300 then Some (rejected env (ro_json opts) target status resp)
                            else if status \<noteq> 200 \<and> status \<noteq> 202
                            then Some (fails (''Query rejected (HTTP '' @ fmt_status status @ ''): '' @ resp @ nl))
                            else ask_accepted env cfg opts target (Suc n) resp))))"

definition ExecuteAsk :: "ask_env \<Rightarrow> ClientConfig option \<Rightarrow> RunAskOptions \<Rightarrow> exit option" where
  "ExecuteAsk env cfg0 opts =
     (case cfg0 of
        None \<Rightarrow> Some (fails (''Error: client configuration is missing. Run '' @ [CHR 0x27] @ ''talkintent pair'' @ [CHR 0x27] @ '' first.'' @ nl))
      | Some cfg \<Rightarrow>
          if trim_space (cc_hub_url cfg) = [] \<or> trim_space (cc_token cfg) = []
          then Some (fails (''Error: client node is not paired with a Hub. Run '' @ [CHR 0x27] @ ''talkintent pair --hub <url> --code <code>''
                 @ [CHR 0x27] @ '' first.'' @ nl))
          else
            let queryText = trim_space (ro_query opts) in
            if queryText = []
            then Some (fails (''Error: query text is required.'' @ nl @ ''Usage: talkintent ask [--to <teammate>] <question>'' @ nl))
            else (case find_target env cfg (trim_space (ro_target opts)) queryText of
               Inl x \<Rightarrow> Some x
             | Inr (target, warn, n) \<Rightarrow> map_option (after_err warn) (submit_ask env cfg (ask_defaults opts) target queryText n)))"

end
