(* ===== verification/Ports.thy ===== *)
theory Ports
  imports Tools Ask
begin

text \<open>
  The tool \<^verbatim>\<open>listening_ports\<close> of \<^verbatim>\<open>internal/probe/tools/builtin.go\<close>: \<^verbatim>\<open>/proc/net\<close> first, then the output of three programs with private
  addresses replaced, then a few ports that are tried; on Windows \<^verbatim>\<open>netstat\<close>.  Running a program gives its output or \<open>None\<close>; the two
  functions of package \<^verbatim>\<open>net\<close> that take an address apart are parameters.
\<close>

record ports_env =
  pt_windows :: bool
  pt_proc :: "string \<Rightarrow> string option"
  pt_run :: "string \<Rightarrow> string list \<Rightarrow> string option"
  pt_dial :: "nat \<Rightarrow> bool"
  pt_split_host_port :: "string \<Rightarrow> (string \<times> string) option"
  pt_parse_ip :: "string \<Rightarrow> nat list option"

section \<open>Replacing private addresses\<close>

text \<open>An alternative between word boundaries: at every place the first expression that matches is taken.\<close>

function replace_first :: "rx list list \<Rightarrow> string \<Rightarrow> char option \<Rightarrow> string \<Rightarrow> string" where
  "replace_first rs new p [] = []"
| "replace_first rs new p (c # s) =
     (case first_some (\<lambda>r. rx_first r p (c # s)) rs of
        Some (Suc n) \<Rightarrow> new @ replace_first rs new (prev_after p (c # s) (Suc n)) (drop n s)
      | _ \<Rightarrow> c # replace_first rs new (Some c) s)"
  by pat_completeness auto
termination
  by (relation "measure (\<lambda>(rs, new, p, s). length s)") auto

definition sanitizeListeningOutput :: "string \<Rightarrow> string" where
  "sanitizeListeningOutput txt = replace_first ip_patterns ''0.0.0.0'' None txt"

definition JoinHostPort :: "string \<Rightarrow> string \<Rightarrow> string" where
  "JoinHostPort host port = (if CHR '':'' \<in> set host \<or> CHR ''%'' \<in> set host then ''['' @ host @ '']:'' @ port else host @ '':'' @ port)"

definition sanitizeListeningAddress :: "ports_env \<Rightarrow> string \<Rightarrow> string" where
  "sanitizeListeningAddress pe hostPort =
     (case pt_split_host_port pe (trim_space hostPort) of
        None \<Rightarrow> sanitizeListeningOutput hostPort
      | Some (host, port) \<Rightarrow>
          (case pt_parse_ip pe host of
             None \<Rightarrow> sanitizeListeningOutput hostPort
           | Some ip \<Rightarrow> if is_local ip then JoinHostPort host port
                        else if to4 ip \<noteq> None then JoinHostPort ''0.0.0.0'' port else JoinHostPort ''::'' port))"

section \<open>Windows\<close>

definition windows_line :: "string \<Rightarrow> string \<Rightarrow> string \<Rightarrow> string \<Rightarrow> string" where
  "windows_line proto addr state pid = pad_right 6 proto @ '' '' @ pad_right 25 addr @ '' '' @ pad_right 12 state @ '' '' @ pid @ nl"

definition windows_row :: "ports_env \<Rightarrow> string \<Rightarrow> string option" where
  "windows_row pe line0 =
     (let line = trim_space line0; fields = Fields line in
      if contains line ''LISTENING'' \<and> length fields \<ge> 5 \<and> equal_fold (fields ! 0) ''TCP''
      then Some (windows_line (fields ! 0) (sanitizeListeningAddress pe (fields ! 1)) (fields ! 3) (fields ! 4)) else None)"

definition parseWindowsListeningPorts :: "ports_env \<Rightarrow> string" where
  "parseWindowsListeningPorts pe =
     (case (case pt_run pe ''netstat'' [''-ano'', ''-p'', ''tcp''] of None \<Rightarrow> pt_run pe ''netstat'' [''-ano''] | Some out \<Rightarrow> Some out) of
        None \<Rightarrow> ''(unable to inspect listening ports via netstat)''
      | Some out \<Rightarrow>
          let rows = List.map_filter (windows_row pe) (scan_lines 65536 out) in
          if rows = [] then ''No TCP listening ports found.''
          else ''Active TCP Listening Ports:'' @ nl @ windows_line ''Proto'' ''Local Address'' ''State'' ''PID'' @ concat rows)"

section \<open>Unix\<close>

definition unix_line :: "string \<Rightarrow> string \<Rightarrow> string \<Rightarrow> string" where
  "unix_line proto addr state = pad_right 6 proto @ '' '' @ pad_right 25 addr @ '' '' @ state @ nl"

text \<open>The output of a program, if there is any.\<close>

definition run_output :: "ports_env \<Rightarrow> string \<Rightarrow> string list \<Rightarrow> string option" where
  "run_output pe prog args = (case pt_run pe prog args of None \<Rightarrow> None | Some out \<Rightarrow> if out = [] then None else Some out)"

definition commonPorts :: "nat list" where
  "commonPorts = [3000, 3306, 5000, 5432, 6379, 8000, 8080, 8081, 9000, 9090]"

definition probed_ports :: "ports_env \<Rightarrow> string" where
  "probed_ports pe =
     (let opn = filter (pt_dial pe) commonPorts in
      if opn \<noteq> [] then ''Active Local Listening Ports (probed):'' @ nl @ concat (map (\<lambda>p. ''127.0.0.1:'' @ fmt_nat p @ '' (OPEN)'' @ nl) opn)
      else ''No active TCP listening ports discovered.'')"

definition parseUnixListeningPorts :: "ports_env \<Rightarrow> string" where
  "parseUnixListeningPorts pe =
     (let entries = readProcNetTCP (pt_proc pe ''/proc/net/tcp'') @ readProcNetTCP (pt_proc pe ''/proc/net/tcp6'') in
      if entries \<noteq> []
      then ''Active TCP Listening Ports:'' @ nl @ unix_line ''Proto'' ''Local Address'' ''State'' @ concat (map (\<lambda>e. unix_line ''TCP'' e ''LISTEN'') entries)
      else (case run_output pe ''ss'' [''-tlpn''] of
         Some out \<Rightarrow> ''Active TCP Listening Ports (via ss):'' @ nl @ sanitizeListeningOutput out
       | None \<Rightarrow>
           (case run_output pe ''lsof'' [''-iTCP'', ''-sTCP:LISTEN'', ''-P'', ''-n''] of
              Some out \<Rightarrow> ''Active TCP Listening Ports (via lsof):'' @ nl @ sanitizeListeningOutput out
            | None \<Rightarrow>
                (case run_output pe ''netstat'' [''-tlpn''] of
                   Some out \<Rightarrow> ''Active TCP Listening Ports (via netstat):'' @ nl @ sanitizeListeningOutput out
                 | None \<Rightarrow> probed_ports pe))))"

definition ListeningPorts :: "ports_env \<Rightarrow> string" where
  "ListeningPorts pe = (if pt_windows pe then parseWindowsListeningPorts pe else parseUnixListeningPorts pe)"

section \<open>What is shown of the machine\<close>

text \<open>A text without a private address is not changed.\<close>

lemma sanitize_nothing:
  assumes "\<forall>n p. n < length s \<longrightarrow> list_all (\<lambda>r. rx_first r p (drop n s) = None) rs"
  shows "replace_first rs new p s = s"
  using assms
proof (induction s arbitrary: p)
  case (Cons c s)
  have "first_some (\<lambda>r. rx_first r p (c # s)) rs = None" using Cons.prems [rule_format, of 0 p] by (auto simp: first_some_None list_all_iff)
  moreover have "\<forall>n p. n < length s \<longrightarrow> list_all (\<lambda>r. rx_first r p (drop n s) = None) rs"
    using Cons.prems by (metis Suc_less_eq drop_Suc_Cons length_Cons)
  ultimately show ?case using Cons.IH by simp
qed simp

text \<open>A program's output is shown with the private addresses replaced, but with public ones, which the reading of \<^verbatim>\<open>/proc\<close> hides as well.\<close>

definition demo_ports :: ports_env where
  "demo_ports = \<lparr>pt_windows = False, pt_proc = (\<lambda>_. None), pt_run = (\<lambda>prog _. if prog = ''ss'' then Some ''10.1.2.3:80 203.0.113.7:22'' else None),
     pt_dial = (\<lambda>_. False), pt_split_host_port = (\<lambda>_. None), pt_parse_ip = (\<lambda>_. None)\<rparr>"

theorem ss_shows_public_address:
  "ListeningPorts demo_ports = ''Active TCP Listening Ports (via ss):'' @ nl @ ''0.0.0.0:80 203.0.113.7:22''"
  by code_simp

end
