(* ===== verification/Provider_Properties.thy ===== *)
theory Provider_Properties
  imports Provider Agent_Properties
begin

text \<open>
  What the providers promise.  The locale \<open>dialect\<close> is the interface the agent relies on: a call is one exchange with the endpoint, and
  what it returns is read from the body of a successful response.  Both providers are interpretations.  The dialogue of the agent is
  followed onto the wire in both formats, and what the model said is shown to come back to it unchanged.
\<close>

section \<open>One call is one exchange\<close>

locale dialect =
  fixes chat :: "llm_net \<Rightarrow> provider" and nm :: string and client :: http_client and endpoint :: string
    and headers :: "(string \<times> string) list" and body :: "ChatRequest \<Rightarrow> (string, string) result"
    and decode :: "string \<Rightarrow> (run_error, ChatResponse) result"
  assumes chat_exchange: "chat net n req = (case exchange net nm client endpoint headers n (body req) of Inl e \<Rightarrow> Inl e | Inr b \<Rightarrow> decode b)"
    and decode_plain: "decode b = Inl e \<Longrightarrow> \<not> re_deadline e"
begin

definition request :: "string \<Rightarrow> http_request" where
  "request data = \<lparr>hq_endpoint = endpoint, hq_headers = headers, hq_body = data\<rparr>"

lemma success_iff:
  "chat net n req = Inr resp \<longleftrightarrow> (\<exists>data status b. body req = Inr data \<and> ln_new_request net endpoint = None
     \<and> ln_do net n client (request data) = Inr (status, Inr b) \<and> 200 \<le> status \<and> status < 300 \<and> decode b = Inr resp)"
  unfolding chat_exchange exchange_def request_def by (auto split: sum.splits option.splits prod.splits)

lemma deadline_from_network:
  assumes "chat net n req = Inl e" and "re_deadline e"
  shows "\<exists>data e'. body req = Inr data \<and> re_deadline e'
    \<and> (ln_do net n client (request data) = Inl e' \<or> (\<exists>status. ln_do net n client (request data) = Inr (status, Inl e')))"
  using assms decode_plain unfolding chat_exchange exchange_def request_def plain_error_def wrap_error_def
  by (auto split: sum.splits option.splits prod.splits if_splits)

lemma one_request:
  assumes "ln_new_request net endpoint = ln_new_request net' endpoint"
    and "\<And>data. body req = Inr data \<Longrightarrow> ln_do net n client (request data) = ln_do net' n client (request data)"
  shows "chat net n req = chat net' n req"
  using assms unfolding chat_exchange exchange_def request_def by (auto split: sum.splits option.splits prod.splits)

end

lemma plain_no_deadline [simp]: "\<not> re_deadline (plain_error t)"
  by (simp add: plain_error_def)

definition openai_decode :: "openai_json \<Rightarrow> string \<Rightarrow> (run_error, ChatResponse) result" where
  "openai_decode oj b = (case oj_unmarshal oj b of
     Inl e \<Rightarrow> Inl (plain_error (''failed to decode openai response: '' @ e)) | Inr r \<Rightarrow> openai_response r)"

definition anthropic_decode :: "'j anthropic_json \<Rightarrow> string \<Rightarrow> (run_error, ChatResponse) result" where
  "anthropic_decode aj b = (case aj_unmarshal aj b of
     Inl e \<Rightarrow> Inl (plain_error (''failed to decode anthropic response: '' @ e)) | Inr r \<Rightarrow> anthropic_response (aj_ops aj) r)"

interpretation openai: dialect "\<lambda>net. OpenAI_ChatWithTools net oj p" "''openai''" "op_client p" "OpenAI_resolveEndpoint (op_cfg p)"
  "openai_headers (op_cfg p)" "\<lambda>req. oj_marshal oj (openai_request (op_cfg p) req)" "openai_decode oj" for oj p
proof
  show "OpenAI_ChatWithTools net oj p n req = (case exchange net ''openai'' (op_client p) (OpenAI_resolveEndpoint (op_cfg p))
      (openai_headers (op_cfg p)) n (oj_marshal oj (openai_request (op_cfg p) req)) of Inl e \<Rightarrow> Inl e | Inr b \<Rightarrow> openai_decode oj b)" for net n req
    by (simp add: OpenAI_ChatWithTools_def openai_decode_def Let_def split: sum.split)
  show "openai_decode oj b = Inl e \<Longrightarrow> \<not> re_deadline e" for b e
    by (auto simp: openai_decode_def openai_response_def split: sum.splits option.splits list.splits)
qed

interpretation anthropic: dialect "\<lambda>net. Anthropic_ChatWithTools net aj p" "''anthropic''" "ap_client p" "Anthropic_resolveEndpoint (ap_cfg p)"
  "anthropic_headers (ap_cfg p)" "\<lambda>req. aj_marshal aj (anthropic_request (aj_ops aj) (ap_cfg p) req)" "anthropic_decode aj" for aj p
proof
  show "Anthropic_ChatWithTools net aj p n req = (case exchange net ''anthropic'' (ap_client p) (Anthropic_resolveEndpoint (ap_cfg p))
      (anthropic_headers (ap_cfg p)) n (aj_marshal aj (anthropic_request (aj_ops aj) (ap_cfg p) req)) of
        Inl e \<Rightarrow> Inl e | Inr b \<Rightarrow> anthropic_decode aj b)" for net n req
    by (simp add: Anthropic_ChatWithTools_def anthropic_decode_def Let_def split: sum.split)
  show "anthropic_decode aj b = Inl e \<Longrightarrow> \<not> re_deadline e" for b e
    by (auto simp: anthropic_decode_def anthropic_response_def split: sum.splits option.splits prod.splits)
qed

section \<open>The dialogue in Anthropic's format\<close>

definition tool_uses :: "'j anthropicMessage \<Rightarrow> 'j anthropicContentBlock list" where
  "tool_uses m = filter (\<lambda>b. ab_type b = ''tool_use'') (am_content m)"

text \<open>A message of results answers the calls of the message before it: one result for each call, with its identifier, in order, and free of
  keys.\<close>

definition answers :: "'j anthropicMessage \<Rightarrow> 'j anthropicMessage \<Rightarrow> bool" where
  "answers a u \<longleftrightarrow> tool_uses a \<noteq> [] \<and> map ab_tool_use_id (am_content u) = map ab_id (tool_uses a)
     \<and> list_all (\<lambda>b. ab_type b = ''tool_result'' \<and> key_free (ab_content b)) (am_content u)"

fun turns_on_wire :: "'j anthropicMessage list \<Rightarrow> bool" where
  "turns_on_wire [] = True"
| "turns_on_wire [m] = False"
| "turns_on_wire (a # u # rest) = (am_role a = ''assistant'' \<and> am_role u = ''user'' \<and> answers a u \<and> turns_on_wire rest)"

text \<open>The roles alternate, the first and the last message are the user's, and every call is answered in the next message.\<close>

definition wire_ok :: "'j json_ops \<Rightarrow> string \<Rightarrow> 'j anthropicMessage list \<Rightarrow> bool" where
  "wire_ok js q ms \<longleftrightarrow> (\<exists>rest. ms = \<lparr>am_role = ''user'', am_content = [text_block js q]\<rparr> # rest \<and> turns_on_wire rest)"

definition wire_turn :: "'j json_ops \<Rightarrow> ChatMessage \<times> ChatMessage list \<Rightarrow> 'j anthropicMessage list" where
  "wire_turn js = (\<lambda>(a, ts). [\<lparr>am_role = ''assistant'', am_content = assistant_blocks js a\<rparr>,
     \<lparr>am_role = ''user'', am_content = map (tool_result_block js) ts\<rparr>])"

lemma add_results:
  "list_all (\<lambda>m. cm_role m = ''tool'') ts \<Longrightarrow>
   foldl (add_message js) (acc @ [\<lparr>am_role = ''user'', am_content = bs\<rparr>]) ts = acc @ [\<lparr>am_role = ''user'', am_content = bs @ map (tool_result_block js) ts\<rparr>]"
  by (induction ts arbitrary: bs) (simp_all add: add_message_def)

lemma add_turn:
  assumes "turn_ok (a, ts)"
  shows "foldl (add_message js) acc (a # ts) = acc @ wire_turn js (a, ts)"
proof -
  have all: "list_all (\<lambda>m. cm_role m = ''tool'') ts"
    using assms by (auto simp: turn_ok_def tool_msg_ok_def list_all2_conv_all_nth list_all_length)
  obtain t ts' where ts: "ts = t # ts'" using assms by (cases ts) (auto simp: turn_ok_def)
  have "add_message js (add_message js acc a) t = (acc @ [\<lparr>am_role = ''assistant'', am_content = assistant_blocks js a\<rparr>])
      @ [\<lparr>am_role = ''user'', am_content = [tool_result_block js t]\<rparr>]"
    using assms all ts by (simp add: turn_ok_def add_message_def)
  then show ?thesis using all by (simp add: ts add_results [of ts' js "acc @ [_]" "[_]", simplified] wire_turn_def)
qed

lemma add_turns:
  "list_all turn_ok turns \<Longrightarrow>
   foldl (add_message js) acc (concat (map (\<lambda>(a, ts). a # ts) turns)) = acc @ concat (map (wire_turn js) turns)"
proof (induction turns arbitrary: acc)
  case (Cons t turns)
  obtain a ts where t: "t = (a, ts)" by force
  have "turn_ok (a, ts)" using Cons.prems t by simp
  from add_turn [OF this] have "foldl (add_message js) (add_message js acc a) ts = acc @ wire_turn js (a, ts)" by simp
  then show ?case using Cons by (simp add: t)
qed simp

lemma uses_of_assistant: "tool_uses \<lparr>am_role = r, am_content = assistant_blocks js a\<rparr> = map (tool_use_block js) (cm_tool_calls a)"
  by (simp add: tool_uses_def assistant_blocks_def text_block_def tool_use_block_def empty_block_def filter_map comp_def)

lemma turn_answers:
  assumes "turn_ok (a, ts)"
  shows "answers \<lparr>am_role = ''assistant'', am_content = assistant_blocks js a\<rparr> \<lparr>am_role = ''user'', am_content = map (tool_result_block js) ts\<rparr>"
proof -
  have l2: "list_all2 tool_msg_ok (cm_tool_calls a) ts" and ne: "cm_tool_calls a \<noteq> []" using assms by (auto simp: turn_ok_def)
  have "map cm_tool_call_id ts = map tc_id (cm_tool_calls a)" "list_all (\<lambda>m. key_free (cm_content m)) ts"
    using l2 by (induction rule: list_all2_induct) (auto simp: tool_msg_ok_def)
  then show ?thesis using ne
    by (simp add: answers_def uses_of_assistant tool_result_block_def tool_use_block_def empty_block_def comp_def list_all_iff)
qed

lemma turns_wire: "list_all turn_ok turns \<Longrightarrow> turns_on_wire (concat (map (wire_turn js) turns))"
  by (induction turns) (auto simp: wire_turn_def turn_answers)

lemma conversation_wire:
  assumes "conversation q msgs"
  shows "wire_ok js q (anthropic_messages js msgs)"
proof -
  obtain turns where m: "msgs = user_msg q # concat (map (\<lambda>(a, ts). a # ts) turns)" and ok: "list_all turn_ok turns"
    using assms by (auto simp: conversation_def)
  have "anthropic_messages js msgs = \<lparr>am_role = ''user'', am_content = [text_block js q]\<rparr> # concat (map (wire_turn js) turns)"
    using add_turns [OF ok, of js "[\<lparr>am_role = ''user'', am_content = [text_block js q]\<rparr>]"]
    by (simp add: m anthropic_messages_def add_message_def user_msg_def)
  then show ?thesis using turns_wire [OF ok] by (simp add: wire_ok_def)
qed

lemma turns_on_wire_last: "turns_on_wire ms \<Longrightarrow> ms \<noteq> [] \<Longrightarrow> am_role (last ms) = ''user''"
  by (induction ms rule: turns_on_wire.induct) auto

lemma wire_ok_last: "wire_ok js q ms \<Longrightarrow> ms \<noteq> [] \<and> am_role (last ms) = ''user''"
  by (auto simp: wire_ok_def turns_on_wire_last)

text \<open>C13. The dialogue of the agent on Anthropic's wire.  Every request of a run but possibly the last has alternating roles that begin and end
  with the user, and each message of tool calls is followed by one that has exactly one redacted result per call, with the
  identifiers of the calls in order.  The last request has this form too, or it is such a dialogue with the demand for a summary behind it.\<close>

theorem anthropic_dialogue:
  "list_all (\<lambda>r. wire_ok js (rr_query req) (aq_messages (anthropic_request js cfg r))) (butlast (snd (Run env req)))
   \<and> (snd (Run env req) = [] \<or> (\<exists>front. wire_ok js (rr_query req) front
        \<and> aq_messages (anthropic_request js cfg (last (snd (Run env req))))
            \<in> {front, front @ [\<lparr>am_role = ''user'', am_content = [text_block js summary_prompt]\<rparr>]}))"
proof -
  have app: "anthropic_messages js (msgs @ [user_msg s]) = anthropic_messages js msgs @ [\<lparr>am_role = ''user'', am_content = [text_block js s]\<rparr>]"
    for msgs s by (simp add: anthropic_messages_def add_message_def user_msg_def)
  have am: "aq_messages (anthropic_request js cfg r) = anthropic_messages js (cr_messages r)" for r
    by (simp add: anthropic_request_def)
  note d = run_dialogue [of env req]
  have "list_all (\<lambda>r. wire_ok js (rr_query req) (anthropic_messages js (cr_messages r))) (butlast (snd (Run env req)))"
    using conjunct1 [OF conjunct2 [OF d]] by (simp add: list_all_iff conversation_wire)
  moreover have "\<exists>front. wire_ok js (rr_query req) front \<and> anthropic_messages js (cr_messages (last (snd (Run env req))))
      \<in> {front, front @ [\<lparr>am_role = ''user'', am_content = [text_block js summary_prompt]\<rparr>]}"
    if ne: "snd (Run env req) \<noteq> []"
  proof -
    obtain msgs where "conversation (rr_query req) msgs"
      and l: "cr_messages (last (snd (Run env req))) \<in> {msgs, msgs @ [user_msg summary_prompt]}" using d ne by blast
    then have "wire_ok js (rr_query req) (anthropic_messages js msgs)" by (simp add: conversation_wire)
    with l show ?thesis by (intro exI [of _ "anthropic_messages js msgs"]) (auto simp: app)
  qed
  ultimately show ?thesis unfolding am by blast
qed

text \<open>The comment of the conversion promises alternating roles.  The request for a summary breaks it: it ends with two messages of the
  user.\<close>

theorem summary_not_alternating:
  assumes "conversation q msgs"
  shows "\<exists>front u v. anthropic_messages js (msgs @ [user_msg summary_prompt]) = front @ [u, v] \<and> am_role u = ''user'' \<and> am_role v = ''user''"
proof -
  let ?ms = "anthropic_messages js msgs" and ?v = "\<lparr>am_role = ''user'', am_content = [text_block js summary_prompt]\<rparr>"
  have "?ms \<noteq> []" and r: "am_role (last ?ms) = ''user''" using wire_ok_last [OF conversation_wire [OF assms]] by auto
  then have "?ms @ [?v] = butlast ?ms @ [last ?ms, ?v]" by simp
  moreover have "anthropic_messages js (msgs @ [user_msg summary_prompt]) = ?ms @ [?v]"
    by (simp add: anthropic_messages_def add_message_def user_msg_def)
  ultimately have "anthropic_messages js (msgs @ [user_msg summary_prompt]) = butlast ?ms @ [last ?ms, ?v]" by simp
  moreover have "am_role ?v = ''user''" by simp
  ultimately show ?thesis using r by blast
qed

text \<open>JSON text standing for itself.\<close>

definition text_json :: "string json_ops" where
  "text_json = \<lparr>js_parse = Some, js_print = Some, js_empty = ''{}'', js_null = ''null''\<rparr>"

theorem summary_not_alternating_witness:
  "\<exists>front u v. anthropic_messages text_json ([user_msg ''q''] @ [user_msg summary_prompt]) = front @ [u, v] \<and> am_role u = ''user'' \<and> am_role v = ''user''"
proof -
  have "conversation ''q'' [user_msg ''q'']" unfolding conversation_def by (rule exI [of _ "[]"]) simp
  then show ?thesis by (rule summary_not_alternating)
qed

section \<open>What the model said comes back to it\<close>

definition call_of :: "'j anthropicContentBlock \<Rightarrow> string \<times> string \<times> 'j" where
  "call_of b = (ab_id b, ab_name b, ab_input b)"

lemma read_blocks:
  "foldl (read_block js) (t, tcs) bs =
     (t @ concat (map ab_text (filter (\<lambda>b. ab_type b = ''text'') bs)), tcs @ map (use_call js) (filter (\<lambda>b. ab_type b = ''tool_use'') bs))"
  by (induction bs arbitrary: t tcs) (auto simp: read_block_def)

text \<open>C14. Reading a response of Anthropic and sending it back with the next request loses nothing the dialogue needs.  The text of the response is
  the text of its text blocks; thinking blocks and blocks of unknown types are skipped wherever they stand; the tool calls are its tool-use
  blocks in order, and the assistant message of the next request has the same calls with the same identifiers, names and inputs, provided
  that \<^verbatim>\<open>encoding/json\<close> reads back the inputs it writes.\<close>

theorem anthropic_echo:
  assumes "anthropic_response js r = Inr resp"
    and json: "\<forall>b \<in> set (as_content r). \<exists>t. js_print js (ab_input b) = Some t \<and> js_parse js t = Some (ab_input b)"
  shows "ch_content resp = concat (map ab_text (filter (\<lambda>b. ab_type b = ''text'') (as_content r)))
    \<and> map call_of (filter (\<lambda>b. ab_type b = ''tool_use'') (assistant_blocks js (assistant_msg resp)))
        = map call_of (filter (\<lambda>b. ab_type b = ''tool_use'') (as_content r))
    \<and> concat (map ab_text (assistant_blocks js (assistant_msg resp))) = ch_content resp
    \<and> length (assistant_blocks js (assistant_msg resp)) = length (ch_tool_calls resp) + (if ch_content resp = [] then 0 else 1)"
proof -
  let ?uses = "filter (\<lambda>b. ab_type b = ''tool_use'') (as_content r)"
  have resp: "ch_content resp = concat (map ab_text (filter (\<lambda>b. ab_type b = ''text'') (as_content r)))"
    "ch_tool_calls resp = map (use_call js) ?uses"
    using assms(1) by (auto simp: anthropic_response_def read_blocks split: option.splits)
  have "call_of (tool_use_block js (use_call js b)) = call_of b" if "b \<in> set (as_content r)" for b
    using bspec [OF json that] by (auto simp: call_of_def tool_use_block_def use_call_def empty_block_def)
  then have "map call_of (map (tool_use_block js) (ch_tool_calls resp)) = map call_of ?uses" by (simp add: resp)
  moreover have "filter (\<lambda>b. ab_type b = ''tool_use'') (assistant_blocks js (assistant_msg resp)) = map (tool_use_block js) (ch_tool_calls resp)"
    using uses_of_assistant [of "[]" js "assistant_msg resp"] by (simp add: tool_uses_def assistant_msg_def)
  moreover have "concat (map ab_text (assistant_blocks js (assistant_msg resp))) = ch_content resp"
    by (simp add: assistant_blocks_def assistant_msg_def text_block_def tool_use_block_def empty_block_def comp_def)
  ultimately show ?thesis by (simp add: resp(1) assistant_blocks_def assistant_msg_def)
qed

definition demo_reply :: "string anthropicMessagesResponse" where
  "demo_reply = \<lparr>as_content = [(empty_block text_json ''thinking'')\<lparr>ab_thinking := ''hm''\<rparr>, text_block text_json ''look'',
     (empty_block text_json ''tool_use'')\<lparr>ab_id := ''t1'', ab_name := ''git_status'', ab_input := ''{}''\<rparr>],
     as_input_tokens = 3, as_output_tokens = 4, as_error = None\<rparr>"

definition demo_resp :: ChatResponse where
  "demo_resp = \<lparr>ch_content = ''look'', ch_tool_calls = [\<lparr>tc_id = ''t1'', tc_name = ''git_status'', tc_arguments = ''{}''\<rparr>],
     ch_usage = \<lparr>PromptTokens = 3, CompletionTokens = 4, TotalTokens = 7\<rparr>\<rparr>"

theorem anthropic_echo_witness:
  "anthropic_response text_json demo_reply = Inr demo_resp
   \<and> map call_of (filter (\<lambda>b. ab_type b = ''tool_use'') (assistant_blocks text_json (assistant_msg demo_resp))) = [(''t1'', ''git_status'', ''{}'')]"
proof -
  have a: "anthropic_response text_json demo_reply = Inr demo_resp" by code_simp
  have j: "\<forall>b \<in> set (as_content demo_reply). \<exists>t. js_print text_json (ab_input b) = Some t \<and> js_parse text_json t = Some (ab_input b)"
    by (simp add: text_json_def)
  have "map call_of (filter (\<lambda>b. ab_type b = ''tool_use'') (as_content demo_reply)) = [(''t1'', ''git_status'', ''{}'')]" by code_simp
  then show ?thesis using a anthropic_echo [OF a j] by simp
qed

section \<open>The dialogue in OpenAI's format\<close>

definition restore_message :: "openAIChatMessage \<Rightarrow> ChatMessage" where
  "restore_message m = \<lparr>cm_role = om_role m, cm_content = (case om_content m of None \<Rightarrow> [] | Some c \<Rightarrow> c),
     cm_tool_call_id = om_tool_call_id m, cm_tool_calls = map parsed_call (om_tool_calls m)\<rparr>"

lemma restore_call [simp]: "parsed_call (openai_call tc) = tc"
  by (simp add: parsed_call_def openai_call_def)

lemma restore_openai [simp]: "restore_message (openai_message m) = m"
  by (simp add: restore_message_def openai_message_def comp_def)

text \<open>The conversion to OpenAI's format loses nothing: the messages of a request are the system prompt, if there is one, and then the
  conversation message by message, from which every message, call and identifier can be read back; and an assistant message made from a
  response is sent with the content and the calls the response had.\<close>

theorem openai_lossless:
  "(\<exists>sys conv. or_messages (openai_request cfg req) = sys @ conv \<and> map restore_message conv = cr_messages req
     \<and> map (\<lambda>m. (om_role m, om_content m)) sys = (if cr_system_prompt req = [] then [] else [(''system'', Some (cr_system_prompt req))]))
   \<and> restore_message (openai_message (assistant_msg resp)) = assistant_msg resp"
proof -
  let ?sys = "if cr_system_prompt req \<noteq> []
      then [\<lparr>om_role = ''system'', om_content = Some (cr_system_prompt req), om_tool_call_id = [], om_tool_calls = []\<rparr>] else []"
  let ?conv = "map openai_message (cr_messages req)"
  have "or_messages (openai_request cfg req) = ?sys @ ?conv" by (simp add: openai_request_def openai_messages_def)
  moreover have "map restore_message ?conv = cr_messages req" by (simp add: comp_def)
  moreover have "map (\<lambda>m. (om_role m, om_content m)) ?sys = (if cr_system_prompt req = [] then [] else [(''system'', Some (cr_system_prompt req))])"
    by simp
  ultimately show ?thesis by (intro conjI exI [of _ ?sys] exI [of _ ?conv]) simp_all
qed

section \<open>Endpoints\<close>

lemma trim_right_noop: "s = [] \<or> \<not> P (last s) \<Longrightarrow> trim_right_by P s = s"
  by (cases s rule: rev_cases) (auto simp: trim_right_by_def)

lemma trim_space_noop: "s = [] \<or> \<not> is_space (hd s) \<and> \<not> is_space (last s) \<Longrightarrow> trim_space s = s"
  by (cases s) (auto simp: trim_space_def trim_right_noop)

lemma trim_right_prefix: "\<exists>t. s = trim_right_by P s @ t"
  unfolding trim_right_by_def by (metis rev_append rev_rev_ident takeWhile_dropWhile_id)

lemma trimmed_head: "trim_space s \<noteq> [] \<Longrightarrow> \<not> is_space (hd (trim_space s))"
proof -
  assume ne: "trim_space s \<noteq> []"
  obtain t where t: "dropWhile is_space s = trim_space s @ t" using trim_right_prefix [of "dropWhile is_space s" is_space] by (auto simp: trim_space_def)
  with ne have "dropWhile is_space s \<noteq> []" by auto
  from hd_dropWhile [OF this] show ?thesis using t ne by simp
qed

lemma base_head: "base_of cfg \<noteq> [] \<Longrightarrow> \<not> is_space (hd (base_of cfg))"
proof -
  assume ne: "base_of cfg \<noteq> []"
  obtain t where t: "trim_space (lc_base_url cfg) = base_of cfg @ t" using trim_right_prefix by (auto simp: base_of_def)
  with ne have "trim_space (lc_base_url cfg) \<noteq> []" by auto
  from trimmed_head [OF this] show ?thesis using t ne by simp
qed

lemma suffix_last: "has_suffix s p \<Longrightarrow> p \<noteq> [] \<Longrightarrow> s \<noteq> [] \<and> last s = last p"
  by (auto simp: has_suffix_def) (metis drop_eq_Nil last_drop not_le)

lemma suffix_append: "has_suffix (a @ p) p"
  by (simp add: has_suffix_def)

lemma base_noop:
  "s \<noteq> [] \<Longrightarrow> \<not> is_space (hd s) \<Longrightarrow> last s = CHR ''s'' \<Longrightarrow> base_of (cfg\<lparr>lc_base_url := s\<rparr>) = s"
  by (simp add: base_of_def trim_space_noop trim_right_noop is_space_def)

lemma openai_endpoint: 
  "has_suffix (OpenAI_resolveEndpoint cfg) ''/chat/completions'' \<and> \<not> is_space (hd (OpenAI_resolveEndpoint cfg))"
  using base_head [of cfg] suffix_append [of "base_of cfg @ ''/v1''" "''/chat/completions''"] suffix_append [of "base_of cfg" "''/chat/completions''"]
  by (auto simp: OpenAI_resolveEndpoint_def Let_def has_suffix_def is_space_def)

lemma anthropic_endpoint: 
  "has_suffix (Anthropic_resolveEndpoint cfg) ''/messages'' \<and> \<not> is_space (hd (Anthropic_resolveEndpoint cfg))"
  using base_head [of cfg] suffix_append [of "base_of cfg @ ''/v1''" "''/messages''"] suffix_append [of "base_of cfg" "''/messages''"]
  by (auto simp: Anthropic_resolveEndpoint_def Let_def has_suffix_def is_space_def)

text \<open>Whatever base address is configured, the endpoint is one of the chat interface, and configuring the endpoint itself as the base address
  gives the same endpoint: a path is never appended twice.\<close>

theorem endpoint_stable:
  "has_suffix (OpenAI_resolveEndpoint cfg) ''/chat/completions'' \<and> has_suffix (Anthropic_resolveEndpoint cfg) ''/messages''
   \<and> OpenAI_resolveEndpoint (cfg\<lparr>lc_base_url := OpenAI_resolveEndpoint cfg\<rparr>) = OpenAI_resolveEndpoint cfg
   \<and> Anthropic_resolveEndpoint (cfg\<lparr>lc_base_url := Anthropic_resolveEndpoint cfg\<rparr>) = Anthropic_resolveEndpoint cfg"
proof -
  let ?o = "OpenAI_resolveEndpoint cfg" and ?a = "Anthropic_resolveEndpoint cfg"
  have "base_of (cfg\<lparr>lc_base_url := ?o\<rparr>) = ?o"
    using openai_endpoint [of cfg] suffix_last [of ?o "''/chat/completions''"] by (intro base_noop) auto
  moreover have "base_of (cfg\<lparr>lc_base_url := ?a\<rparr>) = ?a"
    using anthropic_endpoint [of cfg] suffix_last [of ?a "''/messages''"] by (intro base_noop) auto
  ultimately show ?thesis using openai_endpoint [of cfg] anthropic_endpoint [of cfg]
    suffix_last [of ?o "''/chat/completions''"] suffix_last [of ?a "''/messages''"]
    by (simp add: OpenAI_resolveEndpoint_def [of "cfg\<lparr>lc_base_url := ?o\<rparr>"] Anthropic_resolveEndpoint_def [of "cfg\<lparr>lc_base_url := ?a\<rparr>"])
qed

section \<open>The choice of the provider, and its calls\<close>

fun client_of :: "llm_provider \<Rightarrow> http_client" where
  "client_of (OpenAI p) = op_client p"
| "client_of (Anthropic p) = ap_client p"

fun endpoint_of :: "llm_provider \<Rightarrow> string" where
  "endpoint_of (OpenAI p) = OpenAI_resolveEndpoint (op_cfg p)"
| "endpoint_of (Anthropic p) = Anthropic_resolveEndpoint (ap_cfg p)"

definition ca_usable :: "tls_env \<Rightarrow> LLMConfig \<Rightarrow> bool" where
  "ca_usable tv cfg \<longleftrightarrow> lc_ca_file cfg = [] \<or> (case tv_read tv (lc_ca_file cfg) of Inl _ \<Rightarrow> False | Inr pem \<Rightarrow> tv_pem tv pem)"

lemma ca_pool_ok: "(\<exists>pool. ca_pool tv file = Inr pool) \<longleftrightarrow> (case tv_read tv file of Inl _ \<Rightarrow> False | Inr pem \<Rightarrow> tv_pem tv pem)"
  by (auto simp: ca_pool_def AppendCertsFromPEM_def Let_def split: sum.splits)

lemma ca_pool_trusts: "ca_pool tv file = Inr pool \<Longrightarrow> \<exists>pem. tv_read tv file = Inr pem \<and> cp_added pool = [pem]"
  by (auto simp: ca_pool_def AppendCertsFromPEM_def Let_def split: sum.splits if_splits)

lemma client_built:
  "(\<exists>c. BuildHTTPClient tv cfg = Inr c) \<longleftrightarrow> ca_usable tv cfg"
  using ca_pool_ok [of tv "lc_ca_file cfg"]
  by (cases "ca_pool tv (lc_ca_file cfg)") (auto simp: BuildHTTPClient_def ca_usable_def Let_def)

lemma client_fields:
  "BuildHTTPClient tv cfg = Inr c \<Longrightarrow> hc_insecure c = lc_insecure_skip_verify cfg \<and> hc_timeout c = Timeout cfg
     \<and> hc_server_name c = lc_tls_server_name cfg \<and> (hc_root_cas c = None) = (lc_ca_file cfg = [])"
  by (cases "ca_pool tv (lc_ca_file cfg)") (auto simp: BuildHTTPClient_def Let_def split: if_splits)

lemma trim_dialect: "s \<in> {[], ''openai'', ''anthropic''} \<Longrightarrow> to_lower (trim_space s) = s"
  by (auto simp: trim_space_noop is_space_def) code_simp+

text \<open>A configuration that validation accepts gets a provider of its dialect as soon as its certificate file, if it names one, has a
  certificate; the client verifies certificates unless the configuration says otherwise, and trusts the certificates of the file exactly
  when there is one.  Without a usable file there is no provider.\<close>

theorem provider_from_valid_config:
  assumes "LLM_Validate ck cfg = []"
  shows "(ca_usable tv cfg \<and> (\<exists>p. NewProvider tv cfg = Inr p \<and> Dialect p = (if lc_provider cfg = [] then DialectOpenAI else lc_provider cfg)
        \<and> hc_insecure (client_of p) = lc_insecure_skip_verify cfg \<and> hc_timeout (client_of p) = Timeout cfg
        \<and> (hc_root_cas (client_of p) = None) = (lc_ca_file cfg = [])))
    \<or> (\<not> ca_usable tv cfg \<and> (\<exists>e. NewProvider tv cfg = Inl (''failed to build LLM HTTP client: '' @ e)))"
proof (cases "BuildHTTPClient tv cfg")
  case (Inl e)
  then have "\<not> ca_usable tv cfg" using client_built [of tv cfg] by auto
  then show ?thesis using Inl by (auto simp: NewProvider_def)
next
  case (Inr c)
  have dial: "lc_provider cfg \<in> {[], ''openai'', ''anthropic''}"
    using assms by (auto simp: LLM_Validate_def issue_def split: if_splits)
  have "ca_usable tv cfg" using client_built [of tv cfg] Inr by auto
  moreover note client_fields [OF Inr]
  ultimately show ?thesis using dial trim_dialect [OF dial]
    by (auto simp: NewProvider_def Inr Let_def DialectOpenAI_def DialectAnthropic_def NewOpenAIProvider_def NewAnthropicProvider_def)
qed

definition demo_llm :: LLMConfig where
  "demo_llm = \<lparr>lc_provider = ''anthropic'', lc_base_url = [], lc_api_key = ''k'', lc_model = [], lc_max_tokens = 10, lc_temperature = 0,
     lc_ca_file = [], lc_tls_server_name = [], lc_insecure_skip_verify = False, lc_request_timeout_seconds = 5, lc_max_steps = 3\<rparr>"

definition demo_tls :: tls_env where
  "demo_tls = \<lparr>tv_read = (\<lambda>_. Inl ''no file''), tv_system_ok = True, tv_pem = (\<lambda>_. False)\<rparr>"

theorem provider_from_valid_config_witness:
  "\<exists>p. NewProvider demo_tls demo_llm = Inr p \<and> Dialect p = ''anthropic'' \<and> \<not> hc_insecure (client_of p)"
proof -
  have "LLM_Validate \<lparr>url_parse = (\<lambda>_. None), stat_ok = (\<lambda>_. False)\<rparr> demo_llm = []" by (simp add: LLM_Validate_def demo_llm_def issue_def)
  moreover have "ca_usable demo_tls demo_llm" by (simp add: ca_usable_def demo_llm_def)
  ultimately show ?thesis using provider_from_valid_config [of _ demo_llm demo_tls] by (auto simp: demo_llm_def)
qed

text \<open>A call of either provider is one HTTP exchange.  It returns a response only if its one request, to the endpoint of the configuration and
  with the marshalled conversation as body, was answered with a status of success; and it reports an exceeded deadline only if sending the
  request or reading the answer did.\<close>

theorem provider_exchange:
  assumes "ChatWithTools net oj aj p n req = out"
  shows "(\<exists>resp data headers status b. out = Inr resp \<and> 200 \<le> status \<and> status < 300
       \<and> ln_do net n (client_of p) \<lparr>hq_endpoint = endpoint_of p, hq_headers = headers, hq_body = data\<rparr> = Inr (status, Inr b))
    \<or> (\<exists>e. out = Inl e \<and> (re_deadline e = False \<or> (\<exists>data headers e'. re_deadline e'
       \<and> (ln_do net n (client_of p) \<lparr>hq_endpoint = endpoint_of p, hq_headers = headers, hq_body = data\<rparr> = Inl e'
          \<or> (\<exists>status. ln_do net n (client_of p) \<lparr>hq_endpoint = endpoint_of p, hq_headers = headers, hq_body = data\<rparr> = Inr (status, Inl e'))))))"
proof (cases p)
  case (OpenAI q)
  show ?thesis
  proof (cases out)
    case (Inl e)
    then show ?thesis using assms OpenAI openai.deadline_from_network [of net oj q n req e]
      by (auto simp: openai.request_def)
  next
    case (Inr resp)
    then show ?thesis using assms OpenAI openai.success_iff [of net oj q n req resp] by (auto simp: openai.request_def)
  qed
next
  case (Anthropic q)
  show ?thesis
  proof (cases out)
    case (Inl e)
    then show ?thesis using assms Anthropic anthropic.deadline_from_network [of net aj q n req e]
      by (auto simp: anthropic.request_def)
  next
    case (Inr resp)
    then show ?thesis using assms Anthropic anthropic.success_iff [of net aj q n req resp] by (auto simp: anthropic.request_def)
  qed
qed

end
