(* ===== verification/Ask_Properties.thy ===== *)
theory Ask_Properties
  imports Ask Store_Lookup
begin

text \<open>
  Asking from the command line.  The extraction of the target from the question is compared with its definition by mentions and lengths,
  and joined with the resolution of names in the hub; the wait for an answer is shown to end and to report success only on an answer.
\<close>

section \<open>Who is mentioned\<close>

definition mentions :: "string \<Rightarrow> MemberInfo \<Rightarrow> string set" where
  "mentions q m = {n \<in> trim_space ` set (m_name m # m_aliases m). n \<noteq> [] \<and> contains (to_lower q) (to_lower n)}"

definition mention_len :: "string \<Rightarrow> MemberInfo \<Rightarrow> nat" where
  "mention_len q m = Max (insert 0 (RuneCount ` mentions q m))"

lemma finite_mentions [simp]: "finite (mentions q m)"
  by (simp add: mentions_def)

definition named :: "string \<Rightarrow> string set \<Rightarrow> string set" where
  "named q ns = {n \<in> trim_space ` ns. n \<noteq> [] \<and> contains (to_lower q) (to_lower n)}"

lemma finite_named [simp]: "finite A \<Longrightarrow> finite (named q A)"
  by (simp add: named_def)

lemma named_insert:
  "named q (insert n A) = (if trim_space n \<noteq> [] \<and> contains (to_lower q) (to_lower (trim_space n))
     then insert (trim_space n) (named q A) else named q A)"
  by (auto simp: named_def)

lemma better_fold:
  "fst (foldl (better_match (to_lower q)) (k, a) ns) = Max (insert k (RuneCount ` named q (set ns)))
   \<and> (foldl (better_match (to_lower q)) (k, a) ns = (k, a)
      \<or> snd (foldl (better_match (to_lower q)) (k, a) ns) \<in> named q (set ns)
        \<and> RuneCount (snd (foldl (better_match (to_lower q)) (k, a) ns)) = Max (insert k (RuneCount ` named q (set ns))))"
proof (induction ns arbitrary: k a)
  case Nil
  then show ?case by (simp add: named_def)
next
  case (Cons n ns)
  let ?t = "trim_space n" and ?hit = "trim_space n \<noteq> [] \<and> contains (to_lower q) (to_lower (trim_space n))"
  let ?S = "RuneCount ` named q (set ns)"
  show ?case
  proof (cases "?hit \<and> RuneCount ?t > k")
    case True
    then have b: "better_match (to_lower q) (k, a) n = (RuneCount ?t, ?t)" by (simp add: better_match_def Let_def)
    have n: "named q (set (n # ns)) = insert ?t (named q (set ns))" using True by (simp add: named_insert)
    have "k \<le> Max (insert (RuneCount ?t) ?S)" using True by (auto intro: order.trans [OF less_imp_le Max_ge])
    then have mx: "Max (insert k (RuneCount ` named q (set (n # ns)))) = Max (insert (RuneCount ?t) ?S)"
      unfolding n image_insert by (subst Max_insert) (simp_all add: max_absorb2 del: Max_insert)
    show ?thesis
      using Cons.IH [of "RuneCount ?t" ?t] unfolding mx unfolding n by (auto simp: b simp del: Max_insert)
  next
    case False
    then have b: "better_match (to_lower q) (k, a) n = (k, a)" by (auto simp: better_match_def Let_def)
    have kS: "k \<le> Max (insert k ?S)" by (rule Max_ge) simp_all
    have mx: "Max (insert k (RuneCount ` named q (set (n # ns)))) = Max (insert k ?S)"
    proof (cases ?hit)
      case True
      then have "RuneCount ?t \<le> Max (insert k ?S)" using False kS by linarith
      moreover have "insert k (RuneCount ` named q (set (n # ns))) = insert (RuneCount ?t) (insert k ?S)" using True by (auto simp: named_insert)
      ultimately show ?thesis by (simp only:) (subst Max_insert, simp_all add: max_absorb2 del: Max_insert)
    next
      case no: False
      have "named q (set (n # ns)) = named q (set ns)" using no by (simp only: list.set named_insert if_False)
      then show ?thesis by simp
    qed
    have sub: "named q (set ns) \<subseteq> named q (set (n # ns))" by (auto simp: named_insert)
    show ?thesis using Cons.IH [of k a] sub unfolding mx by (auto simp: b simp del: Max_insert)
  qed
qed

lemma best_match_mention:
  "fst (best_match (to_lower q) m) = mention_len q m
   \<and> (0 < mention_len q m \<longrightarrow> snd (best_match (to_lower q) m) \<in> mentions q m \<and> RuneCount (snd (best_match (to_lower q) m)) = mention_len q m)"
  using better_fold [of q 0 "[]" "m_name m # m_aliases m"]
  by (auto simp: best_match_def mention_len_def mentions_def named_def Let_def)

section \<open>The matches\<close>

lemma put_new: "k \<notin> set (gm_keys m) \<Longrightarrow> gm_put k v m = m @ [(k, v)]"
  by (induction m) (auto simp: gm_put_def gm_keys_def)

definition match_of :: "string \<Rightarrow> MemberInfo \<Rightarrow> memberMatch" where
  "match_of q m = \<lparr>mm_member = m, mm_alias = snd (best_match (to_lower q) m), mm_len = mention_len q m\<rparr>"

lemma add_match_simp:
  "add_match (to_lower q) acc m = (if mention_len q m > 0 then gm_put (m_id m) (match_of q m) acc else acc)"
  using best_match_mention [of q m] by (auto simp: add_match_def match_of_def Let_def split: prod.splits)

lemma all_matches:
  assumes "distinct (map m_id members)" and "set (map m_id members) \<inter> set (gm_keys acc) = {}"
  shows "foldl (add_match (to_lower q)) acc members = acc @ map (\<lambda>m. (m_id m, match_of q m)) (filter (\<lambda>m. 0 < mention_len q m) members)"
  using assms
proof (induction members arbitrary: acc)
  case (Cons m members)
  show ?case
  proof (cases "0 < mention_len q m")
    case True
    have "foldl (add_match (to_lower q)) (acc @ [(m_id m, match_of q m)]) members
        = (acc @ [(m_id m, match_of q m)]) @ map (\<lambda>m. (m_id m, match_of q m)) (filter (\<lambda>m. 0 < mention_len q m) members)"
      using Cons.prems by (intro Cons.IH) (auto simp: gm_keys_def)
    then show ?thesis using Cons.prems True by (simp add: add_match_simp [of q acc m] put_new)
  next
    case False
    then show ?thesis using Cons by (simp add: add_match_simp [of q acc m])
  qed
qed simp

lemma foldl_max: "foldl max (k :: nat) xs = Max (insert k (set xs))"
proof (induction xs arbitrary: k)
  case (Cons x xs)
  have "Max (insert (max k x) (set xs)) = Max (insert k (insert x (set xs)))"
    by (cases "set xs = {}") (simp_all add: max.assoc)
  then show ?case using Cons by simp
qed simp

lemma max_positive:
  "Max (insert (0 :: nat) (f ` set (filter (\<lambda>m. 0 < f m) ms))) = Max (insert 0 (f ` set ms))"
proof (rule antisym)
  show "Max (insert 0 (f ` set (filter (\<lambda>m. 0 < f m) ms))) \<le> Max (insert 0 (f ` set ms))" by (rule Max_mono) auto
  show "Max (insert 0 (f ` set ms)) \<le> Max (insert 0 (f ` set (filter (\<lambda>m. 0 < f m) ms)))"
    by (auto intro!: Max_ge)
qed

text \<open>The members that are mentioned with the longest name of all, by identifier.\<close>

definition top_members :: "string \<Rightarrow> MemberInfo list \<Rightarrow> MemberInfo list" where
  "top_members q members = sort_key m_id (filter (\<lambda>m. mention_len q m = Max (insert 0 (mention_len q ` set members))) members)"

lemma sort_key_map: "sort_key g (map f xs) = map f (sort_key (\<lambda>x. g (f x)) xs)"
proof (induction xs)
  case (Cons x xs)
  have "insort_key g (f x) (map f ys) = map f (insort_key (\<lambda>x. g (f x)) x ys)" for ys by (induction ys) auto
  then show ?case using Cons by simp
qed simp

lemma top_matches_members:
  assumes "distinct (map m_id members)" and "0 < Max (insert 0 (mention_len q ` set members))"
  shows "top_matches (foldl (add_match (to_lower q)) [] members) = map (match_of q) (top_members q members)"
proof -
  let ?hits = "filter (\<lambda>m. 0 < mention_len q m) members" and ?L = "Max (insert 0 (mention_len q ` set members))"
  have f: "foldl (add_match (to_lower q)) [] members = map (\<lambda>m. (m_id m, match_of q m)) ?hits"
    using all_matches [OF assms(1), of "[]" q] by (simp add: gm_keys_def)
  have "foldl max 0 (map (mm_len \<circ> snd) (map (\<lambda>m. (m_id m, match_of q m)) ?hits)) = ?L"
    using max_positive [of "mention_len q" members] by (simp add: foldl_max match_of_def comp_def image_image)
  moreover have "filter (\<lambda>m. mention_len q m = ?L) ?hits = filter (\<lambda>m. mention_len q m = ?L) members"
    using assms(2) by (auto simp: filter_filter intro!: filter_cong)
  ultimately show ?thesis
    by (simp add: top_matches_def f top_members_def comp_def filter_map sort_key_map match_of_def Let_def)
qed

lemma top_members_ne:
  assumes "0 < Max (insert 0 (mention_len q ` set members))"
  shows "top_members q members \<noteq> []"
proof -
  have "Max (insert 0 (mention_len q ` set members)) \<in> insert 0 (mention_len q ` set members)" by (rule Max_in) auto
  with assms obtain m where "m \<in> set members" "mention_len q m = Max (insert 0 (mention_len q ` set members))" by auto
  then have "m \<in> set (top_members q members)" by (simp add: top_members_def)
  then show ?thesis by auto
qed

lemma extract_cases:
  assumes "distinct (map m_id members)" and "trim_space q \<noteq> []"
  shows "if \<forall>m \<in> set members. mention_len q m = 0 then ExtractTarget q members = no_target
    else \<exists>alias_of. (\<forall>m \<in> set (top_members q members). alias_of m \<in> mentions q m
           \<and> (\<forall>m' \<in> set members. \<forall>n \<in> mentions q m'. RuneCount n \<le> RuneCount (alias_of m)))
      \<and> ExtractTarget q members = (case top_members q members of
           [m] \<Rightarrow> \<lparr>ex_target = m_name m, ex_alias = alias_of m, ex_ambiguous = False, ex_candidates = []\<rparr>
         | tops \<Rightarrow> \<lparr>ex_target = [], ex_alias = [], ex_ambiguous = True,
             ex_candidates = map (\<lambda>m. \<lparr>c_id = m_id m, c_name = m_name m, c_matched_alias = alias_of m\<rparr>) tops\<rparr>)"
proof (cases "\<forall>m \<in> set members. mention_len q m = 0")
  case True
  then have "foldl (add_match (to_lower q)) [] members = []"
    using all_matches [OF assms(1), of "[]" q] by (simp add: gm_keys_def)
  then have "ExtractTarget q members = no_target" by (simp add: ExtractTarget_def)
  then show ?thesis using True by simp
next
  case False
  let ?L = "Max (insert 0 (mention_len q ` set members))" and ?al = "\<lambda>m. snd (best_match (to_lower q) m)"
  from False obtain m where m: "m \<in> set members" "mention_len q m \<noteq> 0" by blast
  then have pos: "0 < ?L" by (auto simp: Max_gr_iff)
  have "foldl (add_match (to_lower q)) [] members \<noteq> []"
    using all_matches [OF assms(1), of "[]" q] m by (auto simp: gm_keys_def filter_empty_conv)
  then have ex: "ExtractTarget q members = (case map (match_of q) (top_members q members) of
       [mm] \<Rightarrow> \<lparr>ex_target = m_name (mm_member mm), ex_alias = mm_alias mm, ex_ambiguous = False, ex_candidates = []\<rparr>
     | tops \<Rightarrow> \<lparr>ex_target = [], ex_alias = [], ex_ambiguous = True, ex_candidates = map match_candidate tops\<rparr>)"
    using assms(2) m(1) top_matches_members [OF assms(1) pos] by (auto simp: ExtractTarget_def Let_def)
  have "?al m \<in> mentions q m \<and> (\<forall>m' \<in> set members. \<forall>n \<in> mentions q m'. RuneCount n \<le> RuneCount (?al m))"
    if "m \<in> set (top_members q members)" for m
  proof -
    have len: "mention_len q m = ?L" using that by (simp add: top_members_def)
    have "RuneCount n \<le> ?L" if "m' \<in> set members" "n \<in> mentions q m'" for m' n
    proof -
      have "RuneCount n \<le> mention_len q m'" using that(2) by (simp add: mention_len_def)
      also have "mention_len q m' \<le> ?L" using that(1) by simp
      finally show ?thesis .
    qed
    then show ?thesis using best_match_mention [of q m] len pos by simp
  qed
  moreover have "ExtractTarget q members = (case top_members q members of
           [m] \<Rightarrow> \<lparr>ex_target = m_name m, ex_alias = ?al m, ex_ambiguous = False, ex_candidates = []\<rparr>
         | tops \<Rightarrow> \<lparr>ex_target = [], ex_alias = [], ex_ambiguous = True,
             ex_candidates = map (\<lambda>m. \<lparr>c_id = m_id m, c_name = m_name m, c_matched_alias = ?al m\<rparr>) tops\<rparr>)"
    unfolding ex by (cases "top_members q members" rule: remdups_adj.cases) (simp_all add: match_of_def match_candidate_def comp_def)
  ultimately have "\<exists>alias_of. (\<forall>m \<in> set (top_members q members). alias_of m \<in> mentions q m
           \<and> (\<forall>m' \<in> set members. \<forall>n \<in> mentions q m'. RuneCount n \<le> RuneCount (alias_of m)))
      \<and> ExtractTarget q members = (case top_members q members of
           [m] \<Rightarrow> \<lparr>ex_target = m_name m, ex_alias = alias_of m, ex_ambiguous = False, ex_candidates = []\<rparr>
         | tops \<Rightarrow> \<lparr>ex_target = [], ex_alias = [], ex_ambiguous = True,
             ex_candidates = map (\<lambda>m. \<lparr>c_id = m_id m, c_name = m_name m, c_matched_alias = alias_of m\<rparr>) tops\<rparr>)"
    by (intro exI [of _ ?al]) simp
  then show ?thesis by (subst if_not_P [OF False])
qed

text \<open>C23. The target of a question is the member who is mentioned, by name or alias and without regard to case, with the longest name of all
  that occur in it.  If several members are mentioned with names of that length the question is ambiguous and all of them are listed, by
  identifier, each with such a name; if nobody is mentioned there is no target.\<close>

theorem extract_target_exact:
  assumes "distinct (map m_id members)" and "trim_space q \<noteq> []"
  shows "if \<forall>m \<in> set members. mention_len q m = 0 then ExtractTarget q members = no_target
    else \<exists>alias_of. (\<forall>m \<in> set (top_members q members). alias_of m \<in> mentions q m
           \<and> (\<forall>m' \<in> set members. \<forall>n \<in> mentions q m'. RuneCount n \<le> RuneCount (alias_of m)))
      \<and> ExtractTarget q members = (case top_members q members of
           [m] \<Rightarrow> \<lparr>ex_target = m_name m, ex_alias = alias_of m, ex_ambiguous = False, ex_candidates = []\<rparr>
         | tops \<Rightarrow> \<lparr>ex_target = [], ex_alias = [], ex_ambiguous = True,
             ex_candidates = map (\<lambda>m. \<lparr>c_id = m_id m, c_name = m_name m, c_matched_alias = alias_of m\<rparr>) tops\<rparr>)"
  using assms by (rule extract_cases)

lemma mention_len_code: "mention_len q m = fst (best_match (to_lower q) m)"
  by (simp add: best_match_mention)

definition person :: "string \<Rightarrow> string \<Rightarrow> string list \<Rightarrow> MemberInfo" where
  "person i nm als = \<lparr>m_id = i, m_name = nm, m_aliases = als, m_online = False, m_last_seen_at = 0, m_machine_name = [],
     m_workspaces = None, m_has_feishu_bot = False\<rparr>"

definition demo_people :: "MemberInfo list" where
  "demo_people = [person ''1'' ''Li'' [''lee''], person ''2'' ''Lina'' []]"

theorem extract_target_exact_witness: "\<exists>al. ExtractTarget ''ask Lina'' demo_people
    = \<lparr>ex_target = ''Lina'', ex_alias = al, ex_ambiguous = False, ex_candidates = []\<rparr> \<and> al \<in> mentions ''ask Lina'' (person ''2'' ''Lina'' [])"
proof -
  have d: "distinct (map m_id demo_people)" "trim_space ''ask Lina'' \<noteq> []" by code_simp+
  have len: "mention_len ''ask Lina'' (person ''1'' ''Li'' [''lee'']) = 2" "mention_len ''ask Lina'' (person ''2'' ''Lina'' []) = 4"
    unfolding mention_len_code by code_simp+
  have top: "top_members ''ask Lina'' demo_people = [person ''2'' ''Lina'' []]" by (simp add: top_members_def demo_people_def len)
  have nz: "\<not> (\<forall>m \<in> set demo_people. mention_len ''ask Lina'' m = 0)" by (simp add: demo_people_def len)
  from extract_target_exact [OF d, unfolded if_not_P [OF nz] top] show ?thesis by (auto simp: person_def)
qed

section \<open>The target in the hub\<close>

text \<open>The name or an alias of the member is \<open>t\<close>, up to case.\<close>

definition answers_to :: "string \<Rightarrow> MemberInfo \<Rightarrow> bool" where
  "answers_to t m \<longleftrightarrow> equal_fold (m_name m) t \<or> (\<exists>al \<in> set (m_aliases m). equal_fold al t)"

lemma exact_ne: "exact_candidates t m \<noteq> [] \<longleftrightarrow> answers_to t m"
  by (auto simp: exact_candidates_def answers_to_def filter_empty_conv)

lemma filter_unique:
  assumes "distinct xs" and "x \<in> set xs" and "P x" and "\<And>y. y \<in> set xs \<Longrightarrow> P y \<Longrightarrow> y = x"
  shows "filter P xs = [x]"
proof -
  have "filter P xs = filter (\<lambda>y. y = x) xs" using assms(3,4) by (auto intro: filter_cong)
  also have "\<dots> = [x]" using assms(1,2) by (induction xs) (auto simp: filter_empty_conv)
  finally show ?thesis .
qed

text \<open>C24. The target found in the question is the member the hub resolves it to, when no other member answers to the name.\<close>

theorem extracted_target_resolves:
  assumes ok: "members_ok s" and ex: "ExtractTarget q (ListMembers s) = \<lparr>ex_target = t, ex_alias = al, ex_ambiguous = False, ex_candidates = []\<rparr>"
    and t: "t \<noteq> []" "trim_space t = t" "t \<notin> m_id ` set (ListMembers s)"
    and uniq: "\<forall>m \<in> set (ListMembers s). \<forall>m' \<in> set (ListMembers s). answers_to t m \<and> answers_to t m' \<longrightarrow> m = m'"
  shows "\<exists>m. ResolveTargetMember t s = Inr m \<and> m_name m = t \<and> al \<in> mentions q m"
proof -
  let ?ms = "ListMembers s"
  have q: "trim_space q \<noteq> []" using ex t by (auto simp: ExtractTarget_def no_target_def)
  have some: "\<not> (\<forall>m \<in> set ?ms. mention_len q m = 0)"
    using extract_cases [OF members_ok_ids [OF ok] q] ex t(1) by (auto simp: no_target_def split: if_splits)
  then obtain alias_of where al: "\<forall>m \<in> set (top_members q ?ms). alias_of m \<in> mentions q m"
    and e: "ExtractTarget q ?ms = (case top_members q ?ms of
           [m] \<Rightarrow> \<lparr>ex_target = m_name m, ex_alias = alias_of m, ex_ambiguous = False, ex_candidates = []\<rparr>
         | tops \<Rightarrow> \<lparr>ex_target = [], ex_alias = [], ex_ambiguous = True,
             ex_candidates = map (\<lambda>m. \<lparr>c_id = m_id m, c_name = m_name m, c_matched_alias = alias_of m\<rparr>) tops\<rparr>)"
    using extract_cases [OF members_ok_ids [OF ok] q] unfolding if_not_P [OF some] by blast
  obtain m where m: "top_members q ?ms = [m]" "m_name m = t" "alias_of m = al"
    using ex e by (cases "top_members q ?ms" rule: remdups_adj.cases) auto
  have "set (top_members q ?ms) \<subseteq> set ?ms" by (auto simp: top_members_def)
  then have mem: "m \<in> set ?ms" by (simp add: m(1))
  have "answers_to t m" using m(2) by (simp add: answers_to_def equal_fold_def)
  then have f: "filter (\<lambda>m. exact_candidates t m \<noteq> []) ?ms = [m]"
    unfolding exact_ne using uniq mem members_ok_ids [OF ok] by (intro filter_unique) (auto simp: distinct_map)
  have none: "filter (\<lambda>m. (if m_id m = t then [cand_name m] else []) \<noteq> []) ?ms = []"
    using t(3) by (auto simp: filter_empty_conv)
  have "ResolveTargetMember t s = Inr m"
    unfolding ResolveTargetMember_spec [OF ok] resolve_spec_def Let_def phase_spec_def t(2) none f using t(1) by simp
  then show ?thesis using m al by auto
qed

theorem extracted_target_resolves_witness:
  "\<exists>m. ResolveTargetMember ''Anna'' demo_team = Inr m \<and> m_name m = ''Anna'' \<and> ''Anna'' \<in> mentions ''is anna there'' m"
proof -
  have e: "ExtractTarget ''is anna there'' (ListMembers demo_team)
      = \<lparr>ex_target = ''Anna'', ex_alias = ''Anna'', ex_ambiguous = False, ex_candidates = []\<rparr>" by code_simp
  have t: "''Anna'' \<noteq> ([] :: string)" "trim_space ''Anna'' = ''Anna''" "''Anna'' \<notin> m_id ` set (ListMembers demo_team)" by code_simp+
  have "length (filter (answers_to ''Anna'') (ListMembers demo_team)) = 1" by code_simp
  then obtain m where f: "filter (answers_to ''Anna'') (ListMembers demo_team) = [m]" by (auto simp: length_Suc_conv)
  have "m' = m" if "m' \<in> set (ListMembers demo_team)" "answers_to ''Anna'' m'" for m'
  proof -
    have "m' \<in> set (filter (answers_to ''Anna'') (ListMembers demo_team))" using that by simp
    then show ?thesis by (simp add: f)
  qed
  then have "\<forall>m \<in> set (ListMembers demo_team). \<forall>m' \<in> set (ListMembers demo_team).
      answers_to ''Anna'' m \<and> answers_to ''Anna'' m' \<longrightarrow> m = m'" by blast
  from extracted_target_resolves [OF demo_team_ok e t this] show ?thesis .
qed

text \<open>The command line sends the name of the member it has found.  Of two members of the same name an alias tells who is meant, the
  question is not ambiguous, and the hub still cannot tell.\<close>

definition namesakes :: jsonlStore where
  "namesakes = (emptyStore [] [])\<lparr>membersByID := [(''1'', person ''1'' ''Wei'' [''backend'']), (''2'', person ''2'' ''Wei'' [''frontend''])]\<rparr>"

theorem alias_lost:
  "ex_target (ExtractTarget ''how far is backend'' (ListMembers namesakes)) = ''Wei''
   \<and> \<not> ex_ambiguous (ExtractTarget ''how far is backend'' (ListMembers namesakes))
   \<and> (case ResolveTargetMember ''Wei'' namesakes of Inl (e, cs) \<Rightarrow> e = ErrAmbiguousMatch | Inr m \<Rightarrow> False)"
  by code_simp

section \<open>The end of the command\<close>

lemma render_code: "xt_code (renderQueryOutcome env d j) = (if succeeded (q_status d) then 0 else 1)"
  by (simp add: renderQueryOutcome_def)

lemma render_shows:
  "succeeded (q_status d) \<Longrightarrow> if j then xt_stdout (renderQueryOutcome env d j) = ae_print_detail env d
     else contains (xt_stdout (renderQueryOutcome env d j)) (trim_space (q_answer d))"
  by (auto simp: renderQueryOutcome_def contains_iff intro: exI [of _ "response_head d"])

text \<open>What a successful wait has seen: an answer of the hub that decodes to a completed query, and the answer is in the output.\<close>

definition shown_answer :: "ask_env \<Rightarrow> bool \<Rightarrow> QueryDetailResponse \<Rightarrow> string" where
  "shown_answer env j d = (if j then ae_print_detail env d else trim_space (q_answer d))"

definition got_answer :: "ask_env \<Rightarrow> bool \<Rightarrow> exit \<Rightarrow> bool" where
  "got_answer env j x \<longleftrightarrow> (\<exists>d n client req status body. succeeded (q_status d) \<and> ae_do env n client req = Inr (status, body)
     \<and> (ae_detail env (body_text body) = Some d \<or> ae_poll env (body_text body) = Some d)
     \<and> contains (xt_stdout x) (shown_answer env j d))"

text \<open>The codes of the command, and what success means.\<close>

definition good_exit :: "ask_env \<Rightarrow> bool \<Rightarrow> exit \<Rightarrow> bool" where
  "good_exit env j x \<longleftrightarrow> xt_code x = 1 \<or> xt_code x = 130 \<or> xt_code x = 0 \<and> got_answer env j x"

lemma fails_good [simp]: "good_exit env j (fails e)"
  by (simp add: good_exit_def fails_def)

lemma contains_after: "contains s t \<Longrightarrow> contains (a @ s) t"
  by (metis contains_iff append.assoc)

lemma got_after:
  assumes "got_answer env j x" and "xt_stdout y = t @ xt_stdout x"
  shows "got_answer env j y"
proof -
  from assms(1) obtain d n client req status body where "succeeded (q_status d)" "ae_do env n client req = Inr (status, body)"
    "ae_detail env (body_text body) = Some d \<or> ae_poll env (body_text body) = Some d" "contains (xt_stdout x) (shown_answer env j d)"
    unfolding got_answer_def by blast
  moreover from this(4) have "contains (xt_stdout y) (shown_answer env j d)" unfolding assms(2) by (rule contains_after)
  ultimately show ?thesis unfolding got_answer_def by blast
qed

lemma after_good [simp]: "good_exit env j x \<Longrightarrow> good_exit env j (after_out t x)" "good_exit env j x \<Longrightarrow> good_exit env j (after_err t x)"
  using got_after [of env j x "after_out t x" t] got_after [of env j x "after_err t x" "[]"]
  by (auto simp: good_exit_def after_out_def after_err_def)

lemma contains_refl: "contains s s"
  by (metis contains_iff append_Nil append_Nil2)

lemma render_good:
  assumes "ae_do env n client req = Inr (status, body)" and "ae_detail env (body_text body) = Some d \<or> ae_poll env (body_text body) = Some d"
  shows "good_exit env j (renderQueryOutcome env d j)"
proof (cases "succeeded (q_status d)")
  case True
  have "contains (xt_stdout (renderQueryOutcome env d j)) (shown_answer env j d)"
    using render_shows [OF True, of j env] by (cases j) (simp_all add: contains_refl shown_answer_def)
  then have "got_answer env j (renderQueryOutcome env d j)" unfolding got_answer_def using assms True by blast
  then show ?thesis using True by (simp add: good_exit_def render_code)
next
  case False
  then show ?thesis by (simp add: good_exit_def render_code)
qed

lemma poll_once_good: "poll_once env cfg j wa k = Some x \<Longrightarrow> good_exit env j x"
  by (auto simp: poll_once_def good_exit_def [of _ _ "\<lparr>xt_code = 130, xt_stdout = [], xt_stderr = []\<rparr>"] render_good
      split: option.splits sum.splits if_splits prod.splits)

lemma timed_out_good [simp]: "good_exit env j (timed_out env j wa)"
  by (simp add: timed_out_def good_exit_def fails_def)

lemma poll_loop_good:
  assumes "poll_loop env cfg j wa k = Some x"
  shows "good_exit env j x"
proof (rule poll_loop.raw_induct [where P = "\<lambda>env cfg j wa k x. good_exit env j x", OF _ assms])
  fix loop env cfg j wa k x
  assume IH: "\<And>env cfg j wa k x. loop env cfg j wa k = Some x \<Longrightarrow> good_exit env j x"
    and r: "(if ae_clock env (Suc k) < wa_deadline wa
      then (case poll_once env cfg j wa k of None \<Rightarrow> loop env cfg j wa (Suc k) | Some x \<Rightarrow> Some x)
      else Some (timed_out env j wa)) = Some x"
  then show "good_exit env j x" by (auto split: if_splits option.splits dest: poll_once_good)
qed

text \<open>The wait ends as soon as the clock has passed the deadline.\<close>

lemma poll_loop_returns:
  assumes "wa_deadline wa \<le> ae_clock env (Suc k)" and "i \<le> k"
  shows "\<exists>x. poll_loop env cfg j wa i = Some x"
  using assms(2)
proof (induction rule: inc_induct)
  case base
  then show ?case using assms(1) by (subst poll_loop.simps) simp
next
  case (step i)
  then show ?case by (subst poll_loop.simps) (auto split: option.splits)
qed

lemma await_good:
  assumes "ae_clock env 0 + wrap64 (ro_timeout_sec opts * secondNs) \<le> ae_clock env (Suc k)"
  shows "\<exists>x. await_answer env cfg opts target made sr = Some x \<and> good_exit env (ro_json opts) x"
proof -
  define wa where "wa = \<lparr>wa_query_id = sr_query_id sr, wa_target = (if sr_target_member_name sr = [] then target else sr_target_member_name sr),
    wa_wait_sec = (if 15 > ro_timeout_sec opts then ro_timeout_sec opts else 15),
    wa_deadline = ae_clock env 0 + wrap64 (ro_timeout_sec opts * secondNs), wa_made = made\<rparr>"
  obtain x where x: "poll_loop env cfg (ro_json opts) wa 0 = Some x"
    using poll_loop_returns [of wa env k 0 cfg "ro_json opts"] assms by (auto simp: wa_def)
  show ?thesis unfolding await_answer_def Let_def wa_def [symmetric] x using poll_loop_good [OF x] by simp
qed

lemma submit_good:
  assumes "ro_wait opts" and "ae_clock env 0 + wrap64 (ro_timeout_sec opts * secondNs) \<le> ae_clock env (Suc k)"
  shows "\<exists>x. submit_ask env cfg opts target queryText n = Some x \<and> good_exit env (ro_json opts) x"
proof -
  have rej: "good_exit env (ro_json opts) (rejected env (ro_json opts) target status resp)" for status resp
    by (auto simp: rejected_def Let_def good_exit_def fails_def split: option.splits)
  have acc: "\<exists>x. ask_accepted env cfg opts target m resp = Some x \<and> good_exit env (ro_json opts) x"
    if "ae_do env i client req = Inr (status, Inr resp)" for i client req status resp m
    using that render_good [OF that] await_good [OF assms(2)] assms(1)
    by (auto simp: ask_accepted_def Let_def body_text_def split: option.splits sum.splits)
  show ?thesis
    unfolding submit_ask_def Let_def
    by (auto simp: rej acc split: sum.split option.split prod.split)
qed

lemma find_target_good: "find_target env cfg target q = Inl x \<Longrightarrow> good_exit env j x"
  by (auto simp: find_target_def Let_def split: if_splits sum.splits)

text \<open>C25. Asking and waiting always comes to an end once the clock passes the deadline: the command exits with 0, 1 or 130, and with 0 only if
  the hub has answered one of its requests with a completed query, whose answer is then in the output.\<close>

theorem ask_ends:
  assumes "ro_wait opts" and "ae_clock env 0 + wrap64 (ro_timeout_sec (ask_defaults opts) * secondNs) \<le> ae_clock env (Suc k)"
  shows "\<exists>x. ExecuteAsk env cfg opts = Some x \<and> (xt_code x = 1 \<or> xt_code x = 130 \<or> xt_code x = 0 \<and> got_answer env (ro_json opts) x)"
proof -
  have "\<exists>x. submit_ask env c (ask_defaults opts) t q n = Some x \<and> good_exit env (ro_json opts) x" for c t q n
    using submit_good [of "ask_defaults opts" env k c t q n] assms by (auto simp: ask_defaults_def)
  then have "\<exists>x. ExecuteAsk env cfg opts = Some x \<and> good_exit env (ro_json opts) x"
    unfolding ExecuteAsk_def Let_def
    by (auto split: option.split sum.split prod.split dest: find_target_good) (metis after_good(2))
  then show ?thesis unfolding good_exit_def .
qed

section \<open>Concrete runs\<close>

definition demo_detail :: "string \<Rightarrow> string \<Rightarrow> QueryDetailResponse" where
  "demo_detail st ans = \<lparr>q_query_id = ''q1'', q_status = st, q_asker_id = ''a'', q_asker_name = ''A'', q_target_member_id = ''b'',
     q_target_member_name = ''Bob'', q_target_workspace = [], q_query = ''q'', q_answer = ans, q_tools_used = None, q_duration_ms = 5,
     q_token_usage = zeroUsage, q_queue_position = 0, q_ttl_expires_at = 0, q_created_at = 0, q_completed_at = 0, q_error_message = [],
     q_feishu_context = None, q_origin = []\<rparr>"

definition blank_detail :: QueryDetailResponse where
  "blank_detail = (demo_detail [] [])\<lparr>q_query_id := [], q_target_member_name := []\<rparr>"

text \<open>A hub that accepts the query and answers the polls in turn; a body stands for what it decodes to.\<close>

definition demo_decode :: "string \<Rightarrow> QueryDetailResponse option" where
  "demo_decode b = (if b = ''waiting'' then Some (demo_detail QueryStatusDispatched []) else if b = ''done'' then Some (demo_detail QueryStatusCompleted ''42'')
     else if b = ''error'' then Some blank_detail else None)"

definition demo_ask :: "(int \<times> string) list \<Rightarrow> ask_env" where
  "demo_ask polls = \<lparr>ae_tls = \<lparr>tv_read = (\<lambda>_. Inl ''no file''), tv_system_ok = True, tv_pem = (\<lambda>_. False)\<rparr>, ae_new_request = (\<lambda>_. None),
     ae_do = (\<lambda>n client req. if n = 0 then Inr (202, Inr ''accepted'') else if n \<le> length polls
        then Inr (fst (polls ! (n - 1)), Inr (snd (polls ! (n - 1)))) else Inl \<lparr>ce_text = ''down'', ce_canceled = False\<rparr>),
     ae_clock = (\<lambda>k. 10000000000 * int k), ae_time = (\<lambda>_. []), ae_encode = (\<lambda>_. Inr ''q''), ae_members = (\<lambda>_. Inr []),
     ae_error_message = (\<lambda>_. []), ae_error = (\<lambda>_. None), ae_resolve = (\<lambda>_. None), ae_detail = demo_decode, ae_poll = demo_decode,
     ae_submit = (\<lambda>_. Inr \<lparr>sr_query_id = ''q1'', sr_status = QueryStatusDispatched, sr_target_member_id = ''b'', sr_target_member_name = ''Bob'',
        sr_queue_position = 0, sr_ttl_expires_at = 0, sr_created_at = 0\<rparr>),
     ae_print_detail = (\<lambda>_. ''{}''), ae_print_submit = (\<lambda>_. ''{}''), ae_print_timeout = (\<lambda>_ _. ''{}'')\<rparr>"

definition demo_opts :: RunAskOptions where
  "demo_opts = \<lparr>ro_target = ''Bob'', ro_query = ''how far'', ro_workspace = [], ro_timeout_sec = 60, ro_ttl_sec = 0, ro_wait = True, ro_json = False\<rparr>"

definition paired_cfg :: ClientConfig where
  "paired_cfg = NewDefaultClientConfig\<lparr>cc_hub_url := ''http://hub/'', cc_token := ''t''\<rparr>"

theorem ask_ends_witness:
  "map_option xt_code (ExecuteAsk (demo_ask [(200, ''waiting''), (200, ''done'')]) (Some paired_cfg) demo_opts) = Some 0
   \<and> (\<exists>x. got_answer (demo_ask [(200, ''waiting''), (200, ''done'')]) False x)"
proof -
  let ?env = "demo_ask [(200, ''waiting''), (200, ''done'')]"
  have w: "ro_wait demo_opts" "ro_json demo_opts = False" by (simp_all add: demo_opts_def)
  have c: "ae_clock ?env 0 + wrap64 (ro_timeout_sec (ask_defaults demo_opts) * secondNs) \<le> ae_clock ?env (Suc 5)" by code_simp
  have z: "map_option xt_code (ExecuteAsk ?env (Some paired_cfg) demo_opts) = Some 0" by code_simp
  from ask_ends [OF w(1) c, of "Some paired_cfg"] z w(2) show ?thesis by auto
qed

text \<open>A poll does not look at the status of the response.  A hub that turns one away, say with 429, has its error body decoded as a query
  without a status, and the command gives up with an empty message although the answer would have come with the next poll.\<close>

theorem poll_ignores_status:
  "ExecuteAsk (demo_ask [(429, ''error''), (200, ''done'')]) (Some paired_cfg) demo_opts
   = Some \<lparr>xt_code = 1, xt_stdout = ''Query submitted [ID: q1] -> Bob (Status: dispatched)'' @ nl @ ''Waiting for on-site probe response...'' @ nl,
       xt_stderr = nl @ ''Query failed (Status: ): '' @ nl\<rparr>"
  by code_simp

end
