(* ===== verification/Commands.thy ===== *)
theory Commands
  imports Ask
begin

text \<open>
  The commands of \<^verbatim>\<open>internal/cli\<close> that keep the local configuration or call the hub: \<^verbatim>\<open>pair.go\<close>, \<^verbatim>\<open>invite.go\<close>, \<^verbatim>\<open>llm.go\<close>, \<^verbatim>\<open>workspace.go\<close>,
  \<^verbatim>\<open>members.go\<close>, \<^verbatim>\<open>history.go\<close>, the settings of \<^verbatim>\<open>hub.go\<close>, and the rest of \<^verbatim>\<open>format.go\<close>.  A command that writes a file returns the files.  A value
  printed as JSON is a value of \<open>jv\<close>; how it is printed is a parameter.
\<close>

record AuditListResponse =
  ar_total :: int
  ar_entries :: "AuditLogEntry list"

datatype jv =
    JStr string
  | JInt int
  | JLLM LLMConfig
  | JWorkspaces "WorkspaceConfig list"
  | JMembers "MemberInfo list"
  | JInvite InviteCreateResponse
  | JAudit AuditListResponse
  | JObj "(string \<times> jv) list"

record cli_env =
  cv_env :: environ
  cv_home :: "string option"
  cv_fs :: fs_ops
  cv_is_dir :: "string \<Rightarrow> bool option"
  cv_decode :: "string \<Rightarrow> ClientConfig option"
  cv_encode :: "ClientConfig \<Rightarrow> string option"
  cv_io :: write_io
  cv_config_error :: "config_error \<Rightarrow> string"
  cv_workspace_error :: "workspace_error \<Rightarrow> string"
  cv_hostname :: string
  cv_net :: ask_env
  cv_pair_body :: "PairRequest \<Rightarrow> (string, string) result"
  cv_pair_resp :: "string \<Rightarrow> (string, PairResponse) result"
  cv_invite_body :: "InviteCreateRequest \<Rightarrow> (string, string) result"
  cv_invite_resp :: "string \<Rightarrow> (string, InviteCreateResponse) result"
  cv_audit_resp :: "string \<Rightarrow> (string, AuditListResponse) result"
  cv_json :: "jv \<Rightarrow> string"
  cv_float :: "rat \<Rightarrow> string"

abbreviation apos :: string where "apos \<equiv> [CHR 0x27]"

definition succeeds :: "string \<Rightarrow> exit" where
  "succeeds out = \<lparr>xt_code = 0, xt_stdout = out, xt_stderr = []\<rparr>"

definition load_config :: "cli_env \<Rightarrow> string \<Rightarrow> files \<Rightarrow> (config_error, ClientConfig) result" where
  "load_config cv path fs = LoadClientConfig (cv_decode cv) (cv_env cv) (cv_home cv) path fs"

definition save_config :: "cli_env \<Rightarrow> string \<Rightarrow> ClientConfig \<Rightarrow> files \<Rightarrow> config_error option \<times> files" where
  "save_config cv path cfg fs = SaveClientConfig (cv_encode cv) (cv_env cv) (cv_home cv) (cv_io cv) path (Some cfg) fs"

definition config_path :: "cli_env \<Rightarrow> string \<Rightarrow> string" where
  "config_path cv path = (if path = [] then DefaultClientConfigPath (cv_env cv) (cv_home cv) else path)"

text \<open>The configuration made up when none can be loaded.\<close>

definition zero_llm :: LLMConfig where
  "zero_llm = \<lparr>lc_provider = [], lc_base_url = [], lc_api_key = [], lc_model = [], lc_max_tokens = 0, lc_temperature = 0, lc_ca_file = [],
     lc_tls_server_name = [], lc_insecure_skip_verify = False, lc_request_timeout_seconds = 0, lc_max_steps = 0\<rparr>"

definition fresh_config :: ClientConfig where
  "fresh_config = \<lparr>cc_hub_url = [], cc_hub_ca_file = [], cc_member_id = [], cc_member_name = [], cc_token = [], cc_machine_name = [],
     cc_workspaces = [], cc_llm = zero_llm, cc_daemon = \<lparr>dc_max_concurrency = 0, dc_probe_timeout_seconds = 0\<rparr>,
     cc_max_concurrency = DefaultMaxConcurrency, cc_heartbeat_interval_sec = DefaultHeartbeatIntervalSec, cc_probe_timeout_seconds = 0,
     cc_global_privacy_prompt_path = []\<rparr>"

text \<open>The message of an error response, or its status.\<close>

definition error_or_status :: "cli_env \<Rightarrow> int \<Rightarrow> (string, string) result \<Rightarrow> string" where
  "error_or_status cv status body =
     (let msg = ae_error_message (cv_net cv) (body_text body) in if msg = [] then ''HTTP '' @ fmt_status status else msg)"

section \<open>Pairing (pair.go)\<close>

record PairOptions =
  po_hub_url :: string
  po_invite_code :: string
  po_machine_name :: string
  po_config_path :: string
  po_hub_ca_file :: string
  po_json :: bool

definition pair_ca_file :: "cli_env \<Rightarrow> PairOptions \<Rightarrow> files \<Rightarrow> string" where
  "pair_ca_file cv opts fs =
     (let f1 = trim_space (po_hub_ca_file opts);
          f2 = (if f1 = [] then trim_space (cv_env cv ''TALKINTENT_HUB_CA_FILE'') else f1);
          f3 = (if f2 = [] then (case load_config cv (po_config_path opts) fs of Inl _ \<Rightarrow> [] | Inr c \<Rightarrow> trim_space (cc_hub_ca_file c)) else f2)
      in if f3 = [] then [] else (case Abs (cv_fs cv) f3 of None \<Rightarrow> f3 | Some p \<Rightarrow> p))"

definition paired_config :: "ClientConfig \<Rightarrow> string \<Rightarrow> string \<Rightarrow> string \<Rightarrow> PairResponse \<Rightarrow> ClientConfig" where
  "paired_config c hubURL caFile machineName resp =
     c\<lparr>cc_hub_url := hubURL, cc_hub_ca_file := (if caFile \<noteq> [] then caFile else cc_hub_ca_file c), cc_member_id := pp_member_id resp,
       cc_member_name := pp_member_name resp, cc_token := pp_token resp, cc_machine_name := machineName\<rparr>"

definition pair_report :: "cli_env \<Rightarrow> PairOptions \<Rightarrow> ClientConfig \<Rightarrow> string" where
  "pair_report cv opts c =
     (let savedPath = config_path cv (po_config_path opts) in
      if po_json opts then cv_json cv (JObj [(''status'', JStr ''success''), (''member_id'', JStr (cc_member_id c)), (''member_name'', JStr (cc_member_name c)),
        (''hub_url'', JStr (cc_hub_url c)), (''hub_ca_file'', JStr (cc_hub_ca_file c)), (''machine'', JStr (cc_machine_name c)), (''config_path'', JStr savedPath)])
      else ''Successfully paired with TalkIntent Hub!'' @ nl @ ''  Member ID:   '' @ cc_member_id c @ nl @ ''  Member Name: '' @ cc_member_name c @ nl
        @ ''  Hub URL:     '' @ cc_hub_url c @ nl @ (if cc_hub_ca_file c \<noteq> [] then ''  Hub CA File: '' @ cc_hub_ca_file c @ nl else [])
        @ ''  Machine:     '' @ cc_machine_name c @ nl @ ''  Config saved: '' @ savedPath @ '' (0600)'' @ nl)"

text \<open>After the hub has answered.\<close>

definition store_pairing :: "cli_env \<Rightarrow> PairOptions \<Rightarrow> string \<Rightarrow> string \<Rightarrow> string \<Rightarrow> PairResponse \<Rightarrow> files \<Rightarrow> exit \<times> files" where
  "store_pairing cv opts hubURL caFile machineName resp fs =
     (let c0 = (case load_config cv (po_config_path opts) fs of Inl _ \<Rightarrow> fresh_config | Inr c \<Rightarrow> c);
          c = paired_config c0 hubURL caFile machineName resp
      in case save_config cv (po_config_path opts) c fs of
           (Some e, fs') \<Rightarrow> (fails (''Failed to save configuration: '' @ cv_config_error cv e @ nl), fs')
         | (None, fs') \<Rightarrow> (succeeds (pair_report cv opts c), fs'))"

definition ExecutePair :: "cli_env \<Rightarrow> PairOptions \<Rightarrow> files \<Rightarrow> exit \<times> files" where
  "ExecutePair cv opts fs =
     (let net = cv_net cv; hub0 = trim_space (po_hub_url opts);
          hubURL = (if hub0 = [] then trim_space (cv_env cv ''TALKINTENT_HUB_URL'') else hub0);
          inviteCode = trim_space (po_invite_code opts);
          caFile = pair_ca_file cv opts fs;
          machineName = (if po_machine_name opts = [] then cv_hostname cv else po_machine_name opts);
          url = hub_base hubURL @ ''/api/v1/auth/pair''
      in if hubURL = [] \<or> inviteCode = []
         then (fails (''Error: both --hub and --code are required (e.g. talkintent pair --hub http://hub:8080 --code INV-XXXX)'' @ nl), fs)
         else (case cv_pair_body cv \<lparr>pr_invite_code = inviteCode, pr_machine_name = machineName, pr_client_version = ''1.0.0''\<rparr> of
            Inl e \<Rightarrow> (fails (''Error encoding pair request: '' @ e @ nl), fs)
          | Inr body \<Rightarrow>
              (case ae_new_request net url of
                 Some e \<Rightarrow> (fails (''Error creating pair request: '' @ e @ nl), fs)
               | None \<Rightarrow>
                   (case NewHubHTTPClient (ae_tls net) caFile (15 * secondNs) of
                      Inl e \<Rightarrow> (fails (''Error initializing TLS configuration for Hub CA '' @ Quote caFile @ '': '' @ e @ nl), fs)
                    | Inr client \<Rightarrow>
                        (case ae_do net 0 client \<lparr>cq_method = ''POST'', cq_url = url, cq_headers = [(''Content-Type'', ''application/json'')], cq_body = body\<rparr> of
                           Inl e \<Rightarrow> (fails (''Pairing request failed: '' @ ce_text e @ nl), fs)
                         | Inr (status, rbody) \<Rightarrow>
                             if status \<noteq> 200 then (fails (''Pairing rejected: '' @ error_or_status cv status rbody @ nl), fs)
                             else (case cv_pair_resp cv (body_text rbody) of
                                Inl e \<Rightarrow> (fails (''Failed to decode pairing response: '' @ e @ nl), fs)
                              | Inr resp \<Rightarrow> store_pairing cv opts hubURL caFile machineName resp fs))))))"

section \<open>Invites (invite.go)\<close>

record InviteOptions =
  io_config_path :: string
  io_hub_url :: string
  io_admin_token :: string
  io_target_name :: string
  io_aliases :: "string list"
  io_expires_in_hours :: int
  io_hub_ca_file :: string
  io_json :: bool

definition invite_hub :: "cli_env \<Rightarrow> InviteOptions \<Rightarrow> ClientConfig option \<Rightarrow> string" where
  "invite_hub cv opts cfg =
     (let u = hub_base (io_hub_url opts); cu = (case cfg of None \<Rightarrow> [] | Some c \<Rightarrow> cc_hub_url c); eu = cv_env cv ''TALKINTENT_HUB_URL'' in
      if u \<noteq> [] then u else if cu \<noteq> [] then hub_base cu else if eu \<noteq> [] then hub_base eu else ''http://localhost:8080'')"

text \<open>Where the token is looked for when neither flag nor environment give it.\<close>

definition invite_token_path :: "environ \<Rightarrow> string" where
  "invite_token_path env = Join2 (if env ''TALKINTENT_DATA_DIR'' = [] then ''./data'' else env ''TALKINTENT_DATA_DIR'') ''admin.token''"

definition invite_token :: "cli_env \<Rightarrow> InviteOptions \<Rightarrow> files \<Rightarrow> string" where
  "invite_token cv opts fs =
     (let t1 = io_admin_token opts; t2 = (if t1 = [] then cv_env cv ''TALKINTENT_ADMIN_TOKEN'' else t1) in
      if t2 \<noteq> [] then t2 else (case fs (invite_token_path (cv_env cv)) of None \<Rightarrow> [] | Some data \<Rightarrow> trim_space data))"

definition invite_ca :: "cli_env \<Rightarrow> InviteOptions \<Rightarrow> ClientConfig option \<Rightarrow> string" where
  "invite_ca cv opts cfg =
     (let f1 = trim_space (io_hub_ca_file opts); f2 = (if f1 = [] then trim_space (cv_env cv ''TALKINTENT_HUB_CA_FILE'') else f1) in
      if f2 \<noteq> [] then f2 else (case cfg of None \<Rightarrow> [] | Some c \<Rightarrow> trim_space (cc_hub_ca_file c)))"

text \<open>The command line the new member is told to use.\<close>

definition join_command :: "string \<Rightarrow> string \<Rightarrow> string" where
  "join_command hubURL code = ''talkintent pair --hub '' @ hubURL @ '' --code '' @ code"

definition invite_report :: "cli_env \<Rightarrow> string \<Rightarrow> InviteCreateResponse \<Rightarrow> string" where
  "invite_report cv hubURL r =
     ''Created Invite Code for member: '' @ icr_target_name r @ nl @ ''  Invite Code: '' @ icr_code r @ nl
     @ ''  Expires At:  '' @ ae_time (cv_net cv) (icr_expires_at r) @ nl @ nl
     @ ''The member can join using:'' @ nl @ ''  '' @ join_command hubURL (icr_code r) @ nl"

definition ExecuteInvite :: "cli_env \<Rightarrow> InviteOptions \<Rightarrow> files \<Rightarrow> exit" where
  "ExecuteInvite cv opts fs =
     (let net = cv_net cv; cfg = (case load_config cv (io_config_path opts) fs of Inl _ \<Rightarrow> None | Inr c \<Rightarrow> Some c);
          hubURL = invite_hub cv opts cfg; adminToken = invite_token cv opts fs; name = trim_space (io_target_name opts);
          expires = (if io_expires_in_hours opts \<le> 0 then 72 else io_expires_in_hours opts); url = hubURL @ ''/api/v1/admin/invites''
      in if adminToken = [] then fails (''Error: admin token required to create invites. Use --admin-token or set $TALKINTENT_ADMIN_TOKEN.'' @ nl)
         else if name = [] then fails (''Error: --name is required to specify target member name.'' @ nl)
         else (case cv_invite_body cv \<lparr>ic_target_name = name, ic_aliases = io_aliases opts, ic_expires_in_hours = expires\<rparr> of
            Inl e \<Rightarrow> fails (''Failed to encode invite request: '' @ e @ nl)
          | Inr body \<Rightarrow>
              (case ae_new_request net url of
                 Some e \<Rightarrow> fails (''Failed to create HTTP request: '' @ e @ nl)
               | None \<Rightarrow>
                   (case NewHubHTTPClient (ae_tls net) (invite_ca cv opts cfg) (15 * secondNs) of
                      Inl e \<Rightarrow> fails (''Failed to create http client: '' @ e @ nl)
                    | Inr client \<Rightarrow>
                        (case ae_do net 0 client \<lparr>cq_method = ''POST'', cq_url = url,
                                cq_headers = [(''Authorization'', ''Bearer '' @ adminToken), (''Content-Type'', ''application/json'')], cq_body = body\<rparr> of
                           Inl e \<Rightarrow> fails (''Failed to connect to Hub at '' @ hubURL @ '': '' @ ce_text e @ nl)
                         | Inr (status, rbody) \<Rightarrow>
                             if status \<noteq> 201 \<and> status \<noteq> 200 then fails (''Failed to create invite: '' @ error_or_status cv status rbody @ nl)
                             else (case cv_invite_resp cv (body_text rbody) of
                                Inl e \<Rightarrow> fails (''Failed to decode invite response: '' @ e @ nl)
                              | Inr r \<Rightarrow> succeeds (if io_json opts then cv_json cv (JInvite r) else invite_report cv hubURL r)))))))"

section \<open>Model settings (llm.go)\<close>

record LLMOptions =
  lo_config_path :: string
  lo_subcommand :: string
  lo_provider :: string
  lo_base_url :: string
  lo_api_key :: string
  lo_model :: string
  lo_max_tokens :: int
  lo_temperature :: rat
  lo_ca_file :: string
  lo_tls_server_name :: string
  lo_insecure_skip_verify :: bool
  lo_request_timeout_sec :: int
  lo_max_steps :: int
  lo_json :: bool

definition executeLLMShow :: "cli_env \<Rightarrow> ClientConfig \<Rightarrow> LLMOptions \<Rightarrow> exit" where
  "executeLLMShow cv cfg opts =
     (let r = LLM_Redacted (cc_llm cfg) in
      if lo_json opts then succeeds (cv_json cv (JLLM r))
      else succeeds (''Current Local LLM Configuration:'' @ nl @ ''  Provider:             '' @ lc_provider r @ nl
        @ ''  Base URL:             '' @ lc_base_url r @ nl @ ''  Model:                '' @ lc_model r @ nl
        @ ''  API Key:              '' @ lc_api_key r @ nl @ ''  Max Tokens:           '' @ fmt_status (Tokens r) @ nl
        @ ''  Temperature:          '' @ cv_float cv (lc_temperature r) @ nl
        @ (if lc_ca_file r \<noteq> [] then ''  CA File:              '' @ lc_ca_file r @ nl else [])
        @ (if lc_tls_server_name r \<noteq> [] then ''  TLS Server Name:      '' @ lc_tls_server_name r @ nl else [])
        @ (if lc_insecure_skip_verify r then ''  Insecure Skip Verify: true (WARNING: TLS verification disabled)'' @ nl else [])
        @ ''  Request Timeout:      '' @ fmt_status (trunc_seconds (Timeout r)) @ ''s'' @ nl
        @ ''  Max Steps:            '' @ fmt_status (Steps r) @ nl))"

definition llm_updated :: "LLMOptions \<Rightarrow> bool" where
  "llm_updated opts \<longleftrightarrow> lo_provider opts \<noteq> [] \<or> lo_base_url opts \<noteq> [] \<or> lo_api_key opts \<noteq> [] \<or> lo_model opts \<noteq> [] \<or> lo_max_tokens opts > 0
     \<or> lo_temperature opts > 0 \<or> lo_ca_file opts \<noteq> [] \<or> lo_tls_server_name opts \<noteq> [] \<or> lo_insecure_skip_verify opts
     \<or> lo_request_timeout_sec opts > 0 \<or> lo_max_steps opts > 0"

definition given :: "string \<Rightarrow> string \<Rightarrow> string" where
  "given v old = (if v \<noteq> [] then trim_space v else old)"

definition set_llm :: "LLMOptions \<Rightarrow> LLMConfig \<Rightarrow> LLMConfig" where
  "set_llm opts l =
     l\<lparr>lc_provider := (if lo_provider opts \<noteq> [] then to_lower (trim_space (lo_provider opts)) else lc_provider l),
       lc_base_url := given (lo_base_url opts) (lc_base_url l), lc_api_key := given (lo_api_key opts) (lc_api_key l),
       lc_model := given (lo_model opts) (lc_model l),
       lc_max_tokens := (if lo_max_tokens opts > 0 then lo_max_tokens opts else lc_max_tokens l),
       lc_temperature := (if lo_temperature opts > 0 then lo_temperature opts else lc_temperature l),
       lc_ca_file := given (lo_ca_file opts) (lc_ca_file l), lc_tls_server_name := given (lo_tls_server_name opts) (lc_tls_server_name l),
       lc_insecure_skip_verify := (lo_insecure_skip_verify opts \<or> lc_insecure_skip_verify l),
       lc_request_timeout_seconds := (if lo_request_timeout_sec opts > 0 then lo_request_timeout_sec opts else lc_request_timeout_seconds l),
       lc_max_steps := (if lo_max_steps opts > 0 then lo_max_steps opts else lc_max_steps l)\<rparr>"

definition executeLLMSet :: "cli_env \<Rightarrow> ClientConfig \<Rightarrow> LLMOptions \<Rightarrow> files \<Rightarrow> exit \<times> files" where
  "executeLLMSet cv cfg0 opts fs =
     (if \<not> llm_updated opts
      then (fails (''No LLM configuration options specified. Use flags like --provider, --base-url, --api-key, --model.'' @ nl), fs)
      else
        let cfg = cfg0\<lparr>cc_llm := set_llm opts (cc_llm cfg0)\<rparr>; targetPath = config_path cv (lo_config_path opts) in
        (case save_config cv (lo_config_path opts) cfg fs of
           (Some e, fs') \<Rightarrow> (fails (''Failed to save configuration: '' @ cv_config_error cv e @ nl), fs')
         | (None, fs') \<Rightarrow>
             (succeeds (if lo_json opts then cv_json cv (JObj [(''status'', JStr ''success''), (''config_path'', JStr targetPath),
                  (''llm'', JLLM (LLM_Redacted (cc_llm cfg)))])
                else ''LLM configuration updated successfully in '' @ targetPath @ '' (0600).'' @ nl), fs')))"

text \<open>The test call; \<open>provider_of\<close> makes the provider.\<close>

definition executeLLMTest :: "cli_env \<Rightarrow> (LLMConfig \<Rightarrow> (string, provider) result) \<Rightarrow> ClientConfig \<Rightarrow> LLMOptions \<Rightarrow> exit" where
  "executeLLMTest cv provider_of cfg opts =
     (let l = cc_llm cfg in
      if lc_provider l = [] \<or> lc_model l = []
      then fails (''Error: LLM provider or model not configured. Run '' @ apos @ ''talkintent llm set'' @ apos @ '' first.'' @ nl)
      else (case provider_of l of
         Inl e \<Rightarrow> fails (''Failed to initialize LLM provider: '' @ e @ nl)
       | Inr prov \<Rightarrow>
           (case prov 0 \<lparr>cr_model = lc_model l, cr_system_prompt = [], cr_messages = [user_msg ''Hello, respond with pong''], cr_tools = [],
                   cr_temperature = 0, cr_max_tokens = 16\<rparr> of
              Inl e \<Rightarrow> fails (''LLM test call failed: '' @ re_text e @ nl)
            | Inr resp \<Rightarrow>
                let u = ch_usage resp in
                succeeds (if lo_json opts then cv_json cv (JObj [(''status'', JStr ''OK''), (''provider'', JStr (lc_provider l)), (''model'', JStr (lc_model l)),
                    (''prompt_tokens'', JInt (PromptTokens u)), (''completion_tokens'', JInt (CompletionTokens u)), (''total_tokens'', JInt (TotalTokens u))])
                  else ''LLM test call successful!'' @ nl @ ''  Status:            OK'' @ nl @ ''  Provider:          '' @ lc_provider l @ nl
                    @ ''  Model:             '' @ lc_model l @ nl @ ''  Prompt Tokens:     '' @ fmt_status (PromptTokens u) @ nl
                    @ ''  Completion Tokens: '' @ fmt_status (CompletionTokens u) @ nl @ ''  Total Tokens:      '' @ fmt_status (TotalTokens u) @ nl))))"

definition ExecuteLLM :: "cli_env \<Rightarrow> (LLMConfig \<Rightarrow> (string, provider) result) \<Rightarrow> LLMOptions \<Rightarrow> files \<Rightarrow> exit \<times> files" where
  "ExecuteLLM cv provider_of opts fs =
     (let cfg = (case load_config cv (lo_config_path opts) fs of Inl _ \<Rightarrow> fresh_config | Inr c \<Rightarrow> c); sub = lo_subcommand opts in
      if sub = ''set'' then executeLLMSet cv cfg opts fs
      else if sub = ''test'' then (executeLLMTest cv provider_of cfg opts, fs)
      else if sub = ''show'' \<or> sub = ''get'' \<or> sub = [] then (executeLLMShow cv cfg opts, fs)
      else (fails (''Unknown llm subcommand '' @ Quote sub @ ''. Use '' @ apos @ ''show'' @ apos @ '', '' @ apos @ ''set'' @ apos @ '', or ''
              @ apos @ ''test'' @ apos @ ''.'' @ nl), fs))"

section \<open>Workspaces (workspace.go)\<close>

record WorkspaceOptions =
  wo_config_path :: string
  wo_subcommand :: string
  wo_path :: string
  wo_name :: string
  wo_target :: string
  wo_json :: bool

definition workspace_row :: "nat \<Rightarrow> WorkspaceConfig \<Rightarrow> string" where
  "workspace_row i ws = ''  ['' @ fmt_nat (Suc i) @ ''] '' @ wc_name ws @ '' ('' @ wc_id ws @ '') -> '' @ wc_root_path ws
     @ (if wc_privacy_prompt_path ws \<noteq> [] then '' [prompt: '' @ wc_privacy_prompt_path ws @ '']'' else []) @ nl"

definition PrintWorkspacesTable :: "WorkspaceConfig list \<Rightarrow> string" where
  "PrintWorkspacesTable wss = ''Configured Workspaces ('' @ fmt_nat (length wss) @ ''):'' @ nl
     @ (if wss = [] then ''  (No workspaces configured yet. Use '' @ apos @ ''talkintent workspace add <path>'' @ apos @ '' to add one)'' @ nl
        else concat (map (\<lambda>(i, ws). workspace_row i ws) (enumerate 0 wss)))"

definition executeWorkspaceList :: "cli_env \<Rightarrow> ClientConfig \<Rightarrow> WorkspaceOptions \<Rightarrow> exit" where
  "executeWorkspaceList cv cfg opts =
     succeeds (if wo_json opts then cv_json cv (JObj [(''total'', JInt (int (length (cc_workspaces cfg)))), (''workspaces'', JWorkspaces (cc_workspaces cfg))])
       else PrintWorkspacesTable (cc_workspaces cfg))"

definition executeWorkspaceAdd :: "cli_env \<Rightarrow> ClientConfig \<Rightarrow> WorkspaceOptions \<Rightarrow> files \<Rightarrow> exit \<times> files" where
  "executeWorkspaceAdd cv cfg opts fs =
     (let dirPath = trim_space (wo_path opts) in
      if dirPath = [] then (fails (''Usage: talkintent workspace add <directory_path> [name]'' @ nl), fs)
      else (case NormalizeWorkspacePath (cv_fs cv) (cv_is_dir cv) dirPath of
         Inl e \<Rightarrow> (fails (''Invalid directory path '' @ Quote dirPath @ '': '' @ cv_workspace_error cv e @ nl), fs)
       | Inr normPath \<Rightarrow>
           let nm = trim_space (wo_name opts); name = (if nm = [] then Base normPath else nm) in
           (case AddWorkspace (cv_fs cv) (cv_is_dir cv) \<lparr>wc_id = [], wc_name = name, wc_root_path = normPath, wc_privacy_prompt_path = []\<rparr> cfg of
              (Some e, _) \<Rightarrow> (fails (''Failed to add workspace: '' @ cv_workspace_error cv e @ nl), fs)
            | (None, cfg') \<Rightarrow>
                (case save_config cv (wo_config_path opts) cfg' fs of
                   (Some e, fs') \<Rightarrow> (fails (''Failed to persist workspace configuration: '' @ cv_config_error cv e @ nl), fs')
                 | (None, fs') \<Rightarrow>
                     (succeeds (if wo_json opts then cv_json cv (JObj [(''status'', JStr ''added''), (''name'', JStr name), (''path'', JStr normPath)])
                        else ''Successfully added workspace: '' @ name @ '' ('' @ normPath @ '')'' @ nl), fs')))))"

definition executeWorkspaceRemove :: "cli_env \<Rightarrow> ClientConfig \<Rightarrow> WorkspaceOptions \<Rightarrow> files \<Rightarrow> exit \<times> files" where
  "executeWorkspaceRemove cv cfg opts fs =
     (let t1 = trim_space (wo_target opts); target = (if t1 = [] then trim_space (wo_path opts) else t1) in
      if target = [] then (fails (''Usage: talkintent workspace remove <name_or_id_or_path>'' @ nl), fs)
      else (case RemoveWorkspace target cfg of
         (False, _) \<Rightarrow> (fails (''Error: workspace '' @ Quote target @ '' not found'' @ nl), fs)
       | (True, cfg') \<Rightarrow>
           (case save_config cv (wo_config_path opts) cfg' fs of
              (Some e, fs') \<Rightarrow> (fails (''Failed to persist workspace configuration: '' @ cv_config_error cv e @ nl), fs')
            | (None, fs') \<Rightarrow>
                (succeeds (if wo_json opts then cv_json cv (JObj [(''status'', JStr ''removed''), (''target'', JStr target),
                     (''current'', JWorkspaces (cc_workspaces cfg'))])
                   else ''Successfully removed workspace: '' @ target @ nl), fs'))))"

definition no_config :: "cli_env \<Rightarrow> config_error \<Rightarrow> string" where
  "no_config cv e = ''ailed to load client config: '' @ cv_config_error cv e @ ''. Run '' @ apos @ ''talkintent pair'' @ apos @ '' first.'' @ nl"

definition ExecuteWorkspace :: "cli_env \<Rightarrow> WorkspaceOptions \<Rightarrow> files \<Rightarrow> exit \<times> files" where
  "ExecuteWorkspace cv opts fs =
     (case load_config cv (wo_config_path opts) fs of
        Inl e \<Rightarrow> (fails (''F'' @ no_config cv e), fs)
      | Inr cfg \<Rightarrow>
          let sub = wo_subcommand opts in
          if sub = ''list'' \<or> sub = ''ls'' \<or> sub = [] then (executeWorkspaceList cv cfg opts, fs)
          else if sub = ''add'' then executeWorkspaceAdd cv cfg opts fs
          else if sub = ''remove'' \<or> sub = ''rm'' then executeWorkspaceRemove cv cfg opts fs
          else (fails (''Unknown workspace action '' @ Quote sub @ ''. Use '' @ apos @ ''list'' @ apos @ '', '' @ apos @ ''add'' @ apos @ '', or ''
                  @ apos @ ''remove'' @ apos @ ''.'' @ nl), fs))"

section \<open>Members and history (members.go, history.go)\<close>

definition not_paired :: "ClientConfig \<Rightarrow> bool" where
  "not_paired cfg \<longleftrightarrow> trim_space (cc_hub_url cfg) = [] \<or> trim_space (cc_token cfg) = []"

definition pair_first :: exit where
  "pair_first = fails (''Error: client node is not paired. Run '' @ apos @ ''talkintent pair'' @ apos @ '' first.'' @ nl)"

definition ExecuteMembers :: "cli_env \<Rightarrow> string \<Rightarrow> bool \<Rightarrow> files \<Rightarrow> exit" where
  "ExecuteMembers cv path json fs =
     (case load_config cv path fs of
        Inl e \<Rightarrow> fails (''Error: f'' @ no_config cv e)
      | Inr cfg \<Rightarrow>
          if not_paired cfg then pair_first
          else (case FetchMembers (cv_net cv) 0 (cc_hub_url cfg) (cc_token cfg) (cc_hub_ca_file cfg) of
             Inl e \<Rightarrow> fails (''Error fetching member directory: '' @ e @ nl)
           | Inr members \<Rightarrow>
               succeeds (if json then cv_json cv (JObj [(''hub_url'', JStr (cc_hub_url cfg)), (''total'', JInt (int (length members))), (''members'', JMembers members)])
                 else ''Connected Hub: '' @ cc_hub_url cfg @ nl @ nl @ PrintMembersTable (cv_net cv) members)))"

record HistoryOptions =
  ho_config_path :: string
  ho_inbound :: bool
  ho_outbound :: bool
  ho_limit :: int
  ho_offset :: int
  ho_json :: bool

definition audit_row :: "ask_env \<Rightarrow> nat \<Rightarrow> AuditLogEntry \<Rightarrow> string" where
  "audit_row env i e =
     ''['' @ fmt_nat (Suc i) @ ''] '' @ FormatTime env (al_timestamp e) @ '' | '' @ al_asker_name e @ '' -> '' @ al_target_member_name e
     @ '' | Status: '' @ al_status e @ '' ('' @ fmt_status (al_duration_ms e) @ ''ms)'' @ nl @ ''    Query:  '' @ al_query e @ nl
     @ (if al_answer e \<noteq> [] then ''    Answer: '' @ (if length (al_answer e) > 200 then take 197 (al_answer e) @ ''...'' else al_answer e) @ nl else [])
     @ (case al_tools_used e of None \<Rightarrow> [] | Some ts \<Rightarrow> if ts = [] then [] else ''    Tools:  '' @ join_with '', '' ts @ nl) @ rule_line"

text \<open>The bytes of the dash in the heading.\<close>

definition PrintAuditTable :: "ask_env \<Rightarrow> AuditLogEntry list \<Rightarrow> string \<Rightarrow> string" where
  "PrintAuditTable env es title =
     (if es = [] then ''No audit entries found ('' @ title @ '').'' @ nl
      else ''AUDIT HISTORY '' @ [CHR 0xE2, CHR 0x80, CHR 0x94] @ '' '' @ to_upper title @ '' ('' @ fmt_nat (length es) @ '' entries)'' @ nl
        @ replicate 80 (CHR ''='') @ nl @ concat (map (\<lambda>(i, e). audit_row env i e) (enumerate 0 es)))"

definition history_url :: "ClientConfig \<Rightarrow> HistoryOptions \<Rightarrow> string" where
  "history_url cfg opts =
     hub_base (cc_hub_url cfg) @ ''/api/v1/audit/'' @ (if ho_inbound opts then ''inbound'' else ''outbound'')
     @ ''?limit='' @ fmt_status (if ho_limit opts \<le> 0 then 20 else ho_limit opts)
     @ ''&offset='' @ fmt_status (if ho_offset opts < 0 then 0 else ho_offset opts)"

definition ExecuteHistory :: "cli_env \<Rightarrow> HistoryOptions \<Rightarrow> files \<Rightarrow> exit" where
  "ExecuteHistory cv opts fs =
     (let net = cv_net cv in
      case load_config cv (ho_config_path opts) fs of
        Inl e \<Rightarrow> fails (''Error: f'' @ no_config cv e)
      | Inr cfg \<Rightarrow>
          if not_paired cfg then pair_first
          else (case ae_new_request net (history_url cfg opts) of
             Some e \<Rightarrow> fails (''Error creating audit request: '' @ e @ nl)
           | None \<Rightarrow>
               (case NewHubHTTPClient (ae_tls net) (cc_hub_ca_file cfg) (15 * secondNs) of
                  Inl e \<Rightarrow> fails (''Failed to create http client: '' @ e @ nl)
                | Inr client \<Rightarrow>
                    (case ae_do net 0 client \<lparr>cq_method = ''GET'', cq_url = history_url cfg opts,
                            cq_headers = [(''Authorization'', ''Bearer '' @ cc_token cfg)], cq_body = []\<rparr> of
                       Inl e \<Rightarrow> fails (''Failed to retrieve audit history: '' @ ce_text e @ nl)
                     | Inr (status, body) \<Rightarrow>
                         if status \<noteq> 200 then fails (''Failed to retrieve audit history: '' @ error_or_status cv status body @ nl)
                         else (case cv_audit_resp cv (body_text body) of
                            Inl e \<Rightarrow> fails (''Failed to decode audit response: '' @ e @ nl)
                          | Inr r \<Rightarrow>
                              succeeds (if ho_json opts then cv_json cv (JAudit r)
                                else PrintAuditTable net (ar_entries r) (if ho_inbound opts then ''Inbound Queries (who queried my workspace)'' else ''Outbound Queries'')))))))"

section \<open>Settings of the hub (hub.go)\<close>

record HubOptions =
  uo_addr :: string
  uo_data_dir :: string
  uo_admin_token :: string
  uo_public_url :: string
  uo_heartbeat_interval_sec :: int
  uo_default_query_ttl_sec :: int
  uo_max_query_ttl_sec :: int
  uo_max_probe_timeout_sec :: int
  uo_rate_limit_qpm :: int
  uo_rate_limit_burst :: int
  uo_json :: bool
  uo_explicit :: "string set option"

definition set_limits :: "bool \<Rightarrow> int \<Rightarrow> bool \<Rightarrow> int \<Rightarrow> RateLimitConfig \<Rightarrow> RateLimitConfig" where
  "set_limits q qpm b burst r = r\<lparr>rl_queries_per_minute := (if q then qpm else rl_queries_per_minute r), rl_burst := (if b then burst else rl_burst r)\<rparr>"

text \<open>Which flags are taken: those given, or without a record of them those that differ from their defaults.\<close>

definition flag_taken :: "HubOptions \<Rightarrow> string \<Rightarrow> bool" where
  "flag_taken opts f =
     (case uo_explicit opts of
        Some given_flags \<Rightarrow> f \<in> given_flags
      | None \<Rightarrow>
          if f = ''addr'' then uo_addr opts \<noteq> [] \<and> uo_addr opts \<noteq> DefaultHubAddr
          else if f = ''data-dir'' then uo_data_dir opts \<noteq> [] \<and> uo_data_dir opts \<noteq> ''./data''
          else if f = ''admin-token'' then uo_admin_token opts \<noteq> []
          else if f = ''public-url'' then uo_public_url opts \<noteq> []
          else if f = ''heartbeat'' then uo_heartbeat_interval_sec opts > 0 \<and> uo_heartbeat_interval_sec opts \<noteq> DefaultHeartbeatIntervalSec
          else if f = ''default-query-ttl'' then uo_default_query_ttl_sec opts > 0 \<and> uo_default_query_ttl_sec opts \<noteq> DefaultQueryTTL
          else if f = ''max-query-ttl'' then uo_max_query_ttl_sec opts > 0 \<and> uo_max_query_ttl_sec opts \<noteq> MaxQueryTTL
          else if f = ''max-probe-timeout'' then uo_max_probe_timeout_sec opts > 0 \<and> uo_max_probe_timeout_sec opts \<noteq> DefaultMaxProbeTimeoutSec
          else if f = ''rate-limit-qpm'' then uo_rate_limit_qpm opts > 0 \<and> uo_rate_limit_qpm opts \<noteq> DefaultRateLimitQPM
          else if f = ''rate-limit-burst'' then uo_rate_limit_burst opts > 0 \<and> uo_rate_limit_burst opts \<noteq> DefaultRateLimitBurst
          else False)"

definition apply_hub_flags :: "HubOptions \<Rightarrow> HubConfig \<Rightarrow> HubConfig" where
  "apply_hub_flags opts c =
     (let t = flag_taken opts;
          lim = set_limits (t ''rate-limit-qpm'') (uo_rate_limit_qpm opts) (t ''rate-limit-burst'') (uo_rate_limit_burst opts)
      in c\<lparr>hc_addr := (if t ''addr'' then uo_addr opts else hc_addr c),
           hc_data_dir := (if t ''data-dir'' then uo_data_dir opts else hc_data_dir c),
           hc_admin_token := (if t ''admin-token'' then uo_admin_token opts else hc_admin_token c),
           hc_public_url := (if t ''public-url'' then uo_public_url opts else hc_public_url c),
           hc_heartbeat_interval_sec := (if t ''heartbeat'' then uo_heartbeat_interval_sec opts else hc_heartbeat_interval_sec c),
           hc_default_query_ttl_sec := (if t ''default-query-ttl'' then uo_default_query_ttl_sec opts else hc_default_query_ttl_sec c),
           hc_max_query_ttl_sec := (if t ''max-query-ttl'' then uo_max_query_ttl_sec opts else hc_max_query_ttl_sec c),
           hc_max_probe_timeout_sec := (if t ''max-probe-timeout'' then uo_max_probe_timeout_sec opts else hc_max_probe_timeout_sec c),
           hc_rate_limits := lim (hc_rate_limits c), hc_rate_limit := lim (hc_rate_limit c)\<rparr>)"

datatype hub_config_error = InvalidEnvironment config_error | InvalidConfig "ValidationError list"

definition BuildHubConfig :: "environ \<Rightarrow> string option \<Rightarrow> checks \<Rightarrow> HubOptions \<Rightarrow> (hub_config_error, HubConfig) result" where
  "BuildHubConfig env uh ck opts =
     (case Hub_ApplyEnvOverrides env (NewDefaultHubConfig env uh) of
        Inl e \<Rightarrow> Inl (InvalidEnvironment e)
      | Inr c0 \<Rightarrow>
          let c = apply_hub_flags opts c0; errs = Hub_Validate ck (Some c) in
          if errs \<noteq> [] then Inl (InvalidConfig errs) else Inr c)"

text \<open>The administrator's token: given, kept in the data directory, or made up and written there.  \<open>rnd\<close> is the random part,
  \<open>wr\<close> the outcome of the write.\<close>

definition hub_token_path :: "HubConfig \<Rightarrow> string" where
  "hub_token_path cfg = Join2 (hc_data_dir cfg) ''admin.token''"

datatype token_error = NoRandom | NoTokenFile

definition hub_admin_token :: "string option \<Rightarrow> bool \<Rightarrow> HubConfig \<Rightarrow> files \<Rightarrow> (token_error, HubConfig) result \<times> files" where
  "hub_admin_token rnd wr cfg fs =
     (if hc_admin_token cfg \<noteq> [] then (Inr cfg, fs)
      else
        let kept = (case fs (hub_token_path cfg) of None \<Rightarrow> [] | Some data \<Rightarrow> trim_space data) in
        if kept \<noteq> [] then (Inr (cfg\<lparr>hc_admin_token := kept\<rparr>), fs)
        else (case rnd of
           None \<Rightarrow> (Inl NoRandom, fs)
         | Some r \<Rightarrow>
             let tok = ''ti_adm_'' @ r in
             if wr then (Inr (cfg\<lparr>hc_admin_token := tok\<rparr>), fs(hub_token_path cfg \<mapsto> tok @ nl)) else (Inl NoTokenFile, fs)))"

end
