(* ===== verification/Commands_Properties.thy ===== *)
theory Commands_Properties
  imports Commands Config_Properties
begin

text \<open>
  The commands and the configuration file.  Locale \<open>config_command\<close> is the contract of a command that saves the configuration: it writes the
  file at most once, as its last action, and succeeds exactly if nothing failed; its instances are pairing, the model settings and the
  workspace list.
\<close>

section \<open>Commands that save\<close>

text \<open>What saving does: nothing, or a configuration is stored at the path of the options.\<close>

definition saved :: "cli_env \<Rightarrow> string \<Rightarrow> exit \<Rightarrow> files \<Rightarrow> files \<Rightarrow> bool" where
  "saved cv path x fs fs' \<longleftrightarrow> (\<exists>c e. save_config cv path c fs = (e, fs') \<and> (e = None \<and> xt_code x = 0 \<or> e \<noteq> None \<and> xt_code x = 1))"

lemma savedI:
  "save_config cv path c fs = (None, fs') \<Longrightarrow> xt_code x = 0 \<Longrightarrow> saved cv path x fs fs'"
  "save_config cv path c fs = (Some e, fs') \<Longrightarrow> xt_code x = 1 \<Longrightarrow> saved cv path x fs fs'"
  unfolding saved_def by blast+

locale config_command =
  fixes run :: "cli_env \<Rightarrow> 'o \<Rightarrow> files \<Rightarrow> exit \<times> files" and path_of :: "'o \<Rightarrow> string"
  assumes writes_once: "run cv opts fs = (x, fs') \<Longrightarrow> fs' = fs \<and> xt_code x \<in> {0, 1} \<or> saved cv (path_of opts) x fs fs'"
begin

lemma exit_code: "run cv opts fs = (x, fs') \<Longrightarrow> xt_code x \<in> {0, 1}"
  using writes_once [of cv opts fs x fs'] by (auto simp: saved_def)

text \<open>Only the configuration file and the temporary file of the write change, and the configuration file only if the command succeeds,
  provided a rename does not fail.\<close>

lemma confined:
  assumes "run cv opts fs = (x, fs')" and "io_temp (cv_io cv) \<noteq> Some (config_path cv (path_of opts))" and "io_rename (cv_io cv)"
  shows "(xt_code x \<noteq> 0 \<longrightarrow> fs' (config_path cv (path_of opts)) = fs (config_path cv (path_of opts)))
    \<and> (\<forall>q. q \<noteq> config_path cv (path_of opts) \<and> io_temp (cv_io cv) \<noteq> Some q \<longrightarrow> fs' q = fs q)"
  using writes_once [OF assms(1)]
proof
  assume "saved cv (path_of opts) x fs fs'"
  then obtain c e where s: "save_config cv (path_of opts) c fs = (e, fs')" "e = None \<and> xt_code x = 0 \<or> e \<noteq> None \<and> xt_code x = 1" by (auto simp: saved_def)
  show ?thesis
  proof (cases "fs' = fs")
    case False
    with s(1) obtain data ok where "atomicWriteFile (cv_io cv) (config_path cv (path_of opts)) data fs = (ok, fs')" "ok = (e = None)"
      by (auto simp: save_config_def SaveClientConfig_def config_path_def Let_def split: option.splits prod.splits if_splits)
    then show ?thesis using atomic_write_spec [of "cv_io cv" "config_path cv (path_of opts)" data fs ok fs'] assms(2,3) s(2) by auto
  qed simp
qed simp

end

lemma fails_code [simp]: "xt_code (fails t) = 1"
  by (simp add: fails_def)

lemma succeeds_code [simp]: "xt_code (succeeds t) = 0"
  by (simp add: succeeds_def)

lemma store_pairing_saves: "store_pairing cv opts u ca mn resp fs = (x, fs') \<Longrightarrow> saved cv (po_config_path opts) x fs fs'"
  unfolding store_pairing_def Let_def by (auto split: prod.splits option.splits intro: savedI)

interpretation pair_command: config_command ExecutePair po_config_path
proof
  fix cv opts fs x fs'
  assume "ExecutePair cv opts fs = (x, fs')"
  then show "fs' = fs \<and> xt_code x \<in> {0, 1} \<or> saved cv (po_config_path opts) x fs fs'"
    unfolding ExecutePair_def Let_def by (auto split: if_splits sum.splits option.splits prod.splits dest: store_pairing_saves)
qed

lemma llm_code [simp]: "xt_code (executeLLMShow cv cfg opts) = 0" "xt_code (executeLLMTest cv p cfg opts) \<in> {0, 1}"
  by (auto simp: executeLLMShow_def executeLLMTest_def Let_def split: sum.splits)

interpretation llm_command: config_command "\<lambda>cv. ExecuteLLM cv provider_of" lo_config_path for provider_of
proof
  fix cv opts fs x fs'
  assume r: "ExecuteLLM cv provider_of opts fs = (x, fs')"
  have "executeLLMSet cv c opts fs = (x, fs') \<Longrightarrow> fs' = fs \<and> xt_code x \<in> {0, 1} \<or> saved cv (lo_config_path opts) x fs fs'" for c
    unfolding executeLLMSet_def Let_def by (auto split: if_splits prod.splits option.splits intro: savedI)
  with r llm_code(2) [of cv provider_of _ opts] show "fs' = fs \<and> xt_code x \<in> {0, 1} \<or> saved cv (lo_config_path opts) x fs fs'"
    unfolding ExecuteLLM_def Let_def by (auto split: if_splits)
qed

interpretation workspace_command: config_command ExecuteWorkspace wo_config_path
proof
  fix cv opts fs x fs'
  assume r: "ExecuteWorkspace cv opts fs = (x, fs')"
  have "executeWorkspaceAdd cv c opts fs = (x, fs') \<Longrightarrow> fs' = fs \<and> xt_code x \<in> {0, 1} \<or> saved cv (wo_config_path opts) x fs fs'" for c
    unfolding executeWorkspaceAdd_def Let_def by (auto split: if_splits prod.splits option.splits sum.splits intro: savedI)
  moreover have "executeWorkspaceRemove cv c opts fs = (x, fs') \<Longrightarrow> fs' = fs \<and> xt_code x \<in> {0, 1} \<or> saved cv (wo_config_path opts) x fs fs'" for c
    unfolding executeWorkspaceRemove_def Let_def by (auto split: if_splits prod.splits option.splits bool.splits intro: savedI)
  moreover have "xt_code (executeWorkspaceList cv c opts) = 0" for c by (simp add: executeWorkspaceList_def)
  ultimately show "fs' = fs \<and> xt_code x \<in> {0, 1} \<or> saved cv (wo_config_path opts) x fs fs'"
    using r unfolding ExecuteWorkspace_def Let_def by (auto split: if_splits sum.splits)
qed

text \<open>A command that keeps the configuration and fails leaves the file as it was, and none of them touches another file.\<close>

theorem failed_command_keeps_config:
  assumes "ExecutePair cv po fs = (x1, fs1)" and "ExecuteLLM cv prov lo fs = (x2, fs2)" and "ExecuteWorkspace cv wo fs = (x3, fs3)"
    and "po_config_path po = path" and "lo_config_path lo = path" and "wo_config_path wo = path"
    and "io_temp (cv_io cv) = Some tmp" and "tmp \<noteq> config_path cv path" and "io_rename (cv_io cv)"
  shows "\<forall>(x, fs') \<in> {(x1, fs1), (x2, fs2), (x3, fs3)}.
     (xt_code x = 0 \<or> xt_code x = 1 \<and> fs' (config_path cv path) = fs (config_path cv path))
     \<and> (\<forall>q. q = config_path cv path \<or> q = tmp \<or> fs' q = fs q)"
  using pair_command.confined [OF assms(1)] llm_command.confined [OF assms(2)] workspace_command.confined [OF assms(3)]
    pair_command.exit_code [OF assms(1)] llm_command.exit_code [OF assms(2)] workspace_command.exit_code [OF assms(3)] assms(4-9)
  by auto

section \<open>Pairing\<close>

lemma save_sync_keeps:
  "cc_token (save_sync c) = cc_token c" "cc_hub_url (save_sync c) = cc_hub_url c" "cc_member_id (save_sync c) = cc_member_id c"
  "cc_workspaces (save_sync c) = cc_workspaces c" "cc_llm (save_sync c) = cc_llm c"
  "cc_global_privacy_prompt_path (save_sync c) = cc_global_privacy_prompt_path c"
  by (simp_all add: save_sync_def Let_def)

lemma save_config_stores:
  assumes "save_config cv path c fs = (None, fs')" and "io_temp (cv_io cv) \<noteq> Some (config_path cv path)"
    and "\<forall>c d. cv_encode cv c = Some d \<longrightarrow> cv_decode cv (d @ nl) = Some c"
  shows "\<exists>data. fs' (config_path cv path) = Some data \<and> cv_decode cv data = Some (save_sync c)"
proof -
  obtain d where d: "cv_encode cv (save_sync c) = Some d" "atomicWriteFile (cv_io cv) (config_path cv path) (d @ nl) fs = (True, fs')"
    using assms(1) by (auto simp: save_config_def SaveClientConfig_def config_path_def Let_def split: option.splits prod.splits if_splits)
  then show ?thesis using atomic_write_spec [OF d(2) assms(2)] assms(3) by auto
qed

lemma pair_success:
  assumes "ExecutePair cv opts fs = (x, fs')" and "xt_code x = 0"
  shows "\<exists>resp u ca mn client req body. ae_do (cv_net cv) 0 client req = Inr (200, body) \<and> cv_pair_resp cv (body_text body) = Inr resp
    \<and> save_config cv (po_config_path opts)
        (paired_config (case load_config cv (po_config_path opts) fs of Inl _ \<Rightarrow> fresh_config | Inr c \<Rightarrow> c) u ca mn resp) fs = (None, fs')"
proof -
  have s: "save_config cv (po_config_path opts)
        (paired_config (case load_config cv (po_config_path opts) fs of Inl _ \<Rightarrow> fresh_config | Inr c \<Rightarrow> c) u ca mn resp) fs = (None, fs')"
    if "store_pairing cv opts u ca mn resp fs = (x, fs')" for u ca mn resp
    using that assms(2) unfolding store_pairing_def Let_def by (auto split: prod.splits option.splits)
  show ?thesis
    using assms unfolding ExecutePair_def Let_def
    by (auto split: if_splits sum.splits option.splits prod.splits dest!: s) blast+
qed


text \<open>When the configuration cannot be read, for instance because of a misplaced comma, pairing replaces it: workspaces and model settings are
  gone.\<close>

lemma pair_drops_unreadable:
  assumes "ExecutePair cv opts fs = (x, fs')" and "xt_code x = 0" and "load_config cv (po_config_path opts) fs = Inl e"
    and "io_temp (cv_io cv) \<noteq> Some (config_path cv (po_config_path opts))"
    and json: "\<forall>c d. cv_encode cv c = Some d \<longrightarrow> cv_decode cv (d @ nl) = Some c"
  shows "\<exists>data c. fs' (config_path cv (po_config_path opts)) = Some data \<and> cv_decode cv data = Some c \<and> cc_workspaces c = [] \<and> cc_llm c = zero_llm"
proof -
  obtain resp u ca mn where p: "save_config cv (po_config_path opts) (paired_config fresh_config u ca mn resp) fs = (None, fs')"
    using pair_success [OF assms(1,2)] unfolding assms(3) sum.case by blast
  obtain data where "fs' (config_path cv (po_config_path opts)) = Some data"
    "cv_decode cv data = Some (save_sync (paired_config fresh_config u ca mn resp))"
    using save_config_stores [OF p assms(4) json] by blast
  then show ?thesis by (intro exI conjI) (assumption | simp add: save_sync_keeps paired_config_def fresh_config_def)+
qed

text \<open>A secret that is set in the environment is in the configuration that is loaded, and pairing writes it to the file.\<close>

lemma pair_stores_environment:
  assumes "ExecutePair cv opts fs = (x, fs')" and "xt_code x = 0" and "load_config cv (po_config_path opts) fs = Inr c0"
    and "io_temp (cv_io cv) \<noteq> Some (config_path cv (po_config_path opts))"
    and "\<forall>c d. cv_encode cv c = Some d \<longrightarrow> cv_decode cv (d @ nl) = Some c" and "trim_space (cv_env cv ''TALKINTENT_LLM_API_KEY'') \<noteq> []"
  shows "\<exists>data c. fs' (config_path cv (po_config_path opts)) = Some data \<and> cv_decode cv data = Some c
    \<and> lc_api_key (cc_llm c) = trim_space (cv_env cv ''TALKINTENT_LLM_API_KEY'')"
proof -
  have "lc_api_key (cc_llm c0) = trim_space (cv_env cv ''TALKINTENT_LLM_API_KEY'')"
    using assms(3,6) by (auto simp: load_config_def LoadClientConfig_def Client_ApplyEnvOverrides_def env_str_def env_get_def Let_def split: option.splits)
  moreover obtain resp u ca mn where p: "save_config cv (po_config_path opts) (paired_config c0 u ca mn resp) fs = (None, fs')"
    using pair_success [OF assms(1,2)] unfolding assms(3) sum.case by blast
  moreover obtain data where "fs' (config_path cv (po_config_path opts)) = Some data" "cv_decode cv data = Some (save_sync (paired_config c0 u ca mn resp))"
    using save_config_stores [OF p assms(4,5)] by blast
  ultimately show ?thesis by (intro exI conjI) (assumption | simp add: save_sync_keeps paired_config_def)+
qed

section \<open>Settings of the hub\<close>

text \<open>A number from the environment, or the default.\<close>

definition from_env :: "(string \<Rightarrow> string \<Rightarrow> (config_error, int) result) \<Rightarrow> environ \<Rightarrow> string \<Rightarrow> int \<Rightarrow> int \<Rightarrow> bool" where
  "from_env parse env k d n \<longleftrightarrow> (if env_get env k = [] then n = d else parse (env_get env k) k = Inr n)"

lemma env_num_from:
  assumes "env_num parse env k upd c = Inr c'" and "upd (g c) c = c"
  shows "\<exists>v. c' = upd v c \<and> from_env parse env k (g c) v"
  using assms by (cases "parse (env_get env k) k") (auto simp: env_num_def from_env_def Let_def split: if_splits intro: exI [of _ "g c"])

lemma hub_env_values:
  assumes "Hub_ApplyEnvOverrides env c0 = Inr c" and lim: "hc_rate_limit c0 = hc_rate_limits c0"
  shows "hc_addr c = env_str env ''TALKINTENT_HUB_ADDR'' (hc_addr c0)" "hc_data_dir c = env_str env ''TALKINTENT_DATA_DIR'' (hc_data_dir c0)"
    "hc_admin_token c = env_str env ''TALKINTENT_ADMIN_TOKEN'' (hc_admin_token c0)" "hc_public_url c = env_str env ''TALKINTENT_PUBLIC_URL'' (hc_public_url c0)"
    "from_env parseDurationOrPositiveSeconds env ''TALKINTENT_HEARTBEAT_INTERVAL'' (hc_heartbeat_interval_sec c0) (hc_heartbeat_interval_sec c)"
    "from_env parseDurationOrPositiveSeconds env ''TALKINTENT_DEFAULT_QUERY_TTL'' (hc_default_query_ttl_sec c0) (hc_default_query_ttl_sec c)"
    "from_env parseDurationOrPositiveSeconds env ''TALKINTENT_MAX_QUERY_TTL'' (hc_max_query_ttl_sec c0) (hc_max_query_ttl_sec c)"
    "from_env parseDurationOrPositiveSeconds env ''TALKINTENT_MAX_PROBE_TIMEOUT'' (hc_max_probe_timeout_sec c0) (hc_max_probe_timeout_sec c)"
    "from_env parsePositiveInt env ''TALKINTENT_RATE_LIMIT_QPM'' (rl_queries_per_minute (hc_rate_limits c0)) (rl_queries_per_minute (hc_rate_limits c))"
    "from_env parsePositiveInt env ''TALKINTENT_RATE_LIMIT_BURST'' (rl_burst (hc_rate_limits c0)) (rl_burst (hc_rate_limits c))"
    "hc_rate_limit c = hc_rate_limits c"
proof -
  define c1 where "c1 = c0\<lparr>hc_addr := env_str env ''TALKINTENT_HUB_ADDR'' (hc_addr c0), hc_data_dir := env_str env ''TALKINTENT_DATA_DIR'' (hc_data_dir c0),
    hc_admin_token := env_str env ''TALKINTENT_ADMIN_TOKEN'' (hc_admin_token c0), hc_public_url := env_str env ''TALKINTENT_PUBLIC_URL'' (hc_public_url c0)\<rparr>"
  obtain c2 c3 c4 c5 c6 where
      s: "env_num parseDurationOrPositiveSeconds env ''TALKINTENT_HEARTBEAT_INTERVAL'' (\<lambda>n c. c\<lparr>hc_heartbeat_interval_sec := n\<rparr>) c1 = Inr c2"
      "env_num parseDurationOrPositiveSeconds env ''TALKINTENT_DEFAULT_QUERY_TTL'' (\<lambda>n c. c\<lparr>hc_default_query_ttl_sec := n\<rparr>) c2 = Inr c3"
      "env_num parseDurationOrPositiveSeconds env ''TALKINTENT_MAX_QUERY_TTL'' (\<lambda>n c. c\<lparr>hc_max_query_ttl_sec := n\<rparr>) c3 = Inr c4"
      "env_num parseDurationOrPositiveSeconds env ''TALKINTENT_MAX_PROBE_TIMEOUT'' (\<lambda>n c. c\<lparr>hc_max_probe_timeout_sec := n\<rparr>) c4 = Inr c5"
      "env_num parsePositiveInt env ''TALKINTENT_RATE_LIMIT_QPM'' (\<lambda>n c. c\<lparr>hc_rate_limits := (hc_rate_limits c)\<lparr>rl_queries_per_minute := n\<rparr>,
          hc_rate_limit := (hc_rate_limit c)\<lparr>rl_queries_per_minute := n\<rparr>\<rparr>) c5 = Inr c6"
      "env_num parsePositiveInt env ''TALKINTENT_RATE_LIMIT_BURST'' (\<lambda>n c. c\<lparr>hc_rate_limits := (hc_rate_limits c)\<lparr>rl_burst := n\<rparr>,
          hc_rate_limit := (hc_rate_limit c)\<lparr>rl_burst := n\<rparr>\<rparr>) c6 = Inr c"
    using assms(1) unfolding Hub_ApplyEnvOverrides_def Let_def c1_def [symmetric] by (blast dest: res_bind_Inr)
  obtain v2 where v2: "c2 = c1\<lparr>hc_heartbeat_interval_sec := v2\<rparr>"
    "from_env parseDurationOrPositiveSeconds env ''TALKINTENT_HEARTBEAT_INTERVAL'' (hc_heartbeat_interval_sec c1) v2"
    using env_num_from [OF s(1), of hc_heartbeat_interval_sec] by auto
  obtain v3 where v3: "c3 = c2\<lparr>hc_default_query_ttl_sec := v3\<rparr>"
    "from_env parseDurationOrPositiveSeconds env ''TALKINTENT_DEFAULT_QUERY_TTL'' (hc_default_query_ttl_sec c2) v3"
    using env_num_from [OF s(2), of hc_default_query_ttl_sec] by auto
  obtain v4 where v4: "c4 = c3\<lparr>hc_max_query_ttl_sec := v4\<rparr>"
    "from_env parseDurationOrPositiveSeconds env ''TALKINTENT_MAX_QUERY_TTL'' (hc_max_query_ttl_sec c3) v4"
    using env_num_from [OF s(3), of hc_max_query_ttl_sec] by auto
  obtain v5 where v5: "c5 = c4\<lparr>hc_max_probe_timeout_sec := v5\<rparr>"
    "from_env parseDurationOrPositiveSeconds env ''TALKINTENT_MAX_PROBE_TIMEOUT'' (hc_max_probe_timeout_sec c4) v5"
    using env_num_from [OF s(4), of hc_max_probe_timeout_sec] by auto
  have l5: "hc_rate_limit c5 = hc_rate_limits c5" using lim by (simp add: v5 v4 v3 v2 c1_def)
  obtain v6 where v6: "c6 = c5\<lparr>hc_rate_limits := (hc_rate_limits c5)\<lparr>rl_queries_per_minute := v6\<rparr>,
      hc_rate_limit := (hc_rate_limit c5)\<lparr>rl_queries_per_minute := v6\<rparr>\<rparr>"
    "from_env parsePositiveInt env ''TALKINTENT_RATE_LIMIT_QPM'' (rl_queries_per_minute (hc_rate_limits c5)) v6"
    using env_num_from [OF s(5), of "\<lambda>c. rl_queries_per_minute (hc_rate_limits c)"] l5 by auto
  have l6: "hc_rate_limit c6 = hc_rate_limits c6" using l5 by (simp add: v6)
  obtain v7 where v7: "c = c6\<lparr>hc_rate_limits := (hc_rate_limits c6)\<lparr>rl_burst := v7\<rparr>, hc_rate_limit := (hc_rate_limit c6)\<lparr>rl_burst := v7\<rparr>\<rparr>"
    "from_env parsePositiveInt env ''TALKINTENT_RATE_LIMIT_BURST'' (rl_burst (hc_rate_limits c6)) v7"
    using env_num_from [OF s(6), of "\<lambda>c. rl_burst (hc_rate_limits c)"] l6 by auto
  note eqs = v7(1) v6(1) v5(1) v4(1) v3(1) v2(1) c1_def
  show "hc_addr c = env_str env ''TALKINTENT_HUB_ADDR'' (hc_addr c0)" "hc_data_dir c = env_str env ''TALKINTENT_DATA_DIR'' (hc_data_dir c0)"
    "hc_admin_token c = env_str env ''TALKINTENT_ADMIN_TOKEN'' (hc_admin_token c0)" "hc_public_url c = env_str env ''TALKINTENT_PUBLIC_URL'' (hc_public_url c0)"
    by (simp_all add: eqs)
  show "from_env parseDurationOrPositiveSeconds env ''TALKINTENT_HEARTBEAT_INTERVAL'' (hc_heartbeat_interval_sec c0) (hc_heartbeat_interval_sec c)"
    "from_env parseDurationOrPositiveSeconds env ''TALKINTENT_DEFAULT_QUERY_TTL'' (hc_default_query_ttl_sec c0) (hc_default_query_ttl_sec c)"
    "from_env parseDurationOrPositiveSeconds env ''TALKINTENT_MAX_QUERY_TTL'' (hc_max_query_ttl_sec c0) (hc_max_query_ttl_sec c)"
    "from_env parseDurationOrPositiveSeconds env ''TALKINTENT_MAX_PROBE_TIMEOUT'' (hc_max_probe_timeout_sec c0) (hc_max_probe_timeout_sec c)"
    "from_env parsePositiveInt env ''TALKINTENT_RATE_LIMIT_QPM'' (rl_queries_per_minute (hc_rate_limits c0)) (rl_queries_per_minute (hc_rate_limits c))"
    "from_env parsePositiveInt env ''TALKINTENT_RATE_LIMIT_BURST'' (rl_burst (hc_rate_limits c0)) (rl_burst (hc_rate_limits c))"
    using v2(2) v3(2) v4(2) v5(2) v6(2) v7(2) by (simp_all add: eqs)
  show "hc_rate_limit c = hc_rate_limits c" using l6 by (simp add: v7(1))
qed


section \<open>Concrete runs\<close>

text \<open>A node with one workspace and a model key, a toy encoding of its configuration before and after pairing, and a hub that accepts the code.\<close>

definition own_cfg :: ClientConfig where
  "own_cfg = NewDefaultClientConfig\<lparr>cc_workspaces := [\<lparr>wc_id = ''w1'', wc_name = ''app'', wc_root_path = ''/app'', wc_privacy_prompt_path = []\<rparr>],
     cc_llm := (cc_llm NewDefaultClientConfig)\<lparr>lc_api_key := ''sk''\<rparr>\<rparr>"

definition pair_answer :: PairResponse where
  "pair_answer = \<lparr>pp_member_id = ''m1'', pp_member_name = ''Ann'', pp_token = ''tok'', pp_hub_url = []\<rparr>"

definition new_cfg :: ClientConfig where
  "new_cfg = paired_config own_cfg ''http://hub'' [] ''laptop'' pair_answer"

definition demo_net :: ask_env where
  "demo_net = \<lparr>ae_tls = \<lparr>tv_read = (\<lambda>_. Inl []), tv_system_ok = True, tv_pem = (\<lambda>_. False)\<rparr>, ae_new_request = (\<lambda>_. None),
     ae_do = (\<lambda>n client req. Inr (200, Inr ''paired'')), ae_clock = int, ae_time = (\<lambda>_. []), ae_encode = (\<lambda>_. Inl []), ae_members = (\<lambda>_. Inl []),
     ae_error_message = (\<lambda>_. []), ae_error = (\<lambda>_. None), ae_resolve = (\<lambda>_. None), ae_detail = (\<lambda>_. None), ae_poll = (\<lambda>_. None), ae_submit = (\<lambda>_. Inl []),
     ae_print_detail = (\<lambda>_. []), ae_print_submit = (\<lambda>_. []), ae_print_timeout = (\<lambda>_ _. [])\<rparr>"

definition demo_cli :: cli_env where
  "demo_cli = \<lparr>cv_env = (\<lambda>_. []), cv_home = Some ''/h'', cv_fs = \<lparr>getwd = None, lstat_ok = (\<lambda>_. True), eval_symlinks = Some\<rparr>,
     cv_is_dir = (\<lambda>_. Some True), cv_decode = (\<lambda>d. if d = ''old'' then Some own_cfg else if d = ''new'' @ nl then Some new_cfg else None),
     cv_encode = (\<lambda>c. if c = new_cfg then Some ''new'' else None), cv_io = calm_io, cv_config_error = (\<lambda>_. []), cv_workspace_error = (\<lambda>_. []),
     cv_hostname = ''laptop'', cv_net = demo_net, cv_pair_body = (\<lambda>_. Inr []), cv_pair_resp = (\<lambda>_. Inr pair_answer), cv_invite_body = (\<lambda>_. Inl []),
     cv_invite_resp = (\<lambda>_. Inl []), cv_audit_resp = (\<lambda>_. Inl []), cv_json = (\<lambda>_. []), cv_float = (\<lambda>_. [])\<rparr>"

definition demo_pair :: PairOptions where
  "demo_pair = \<lparr>po_hub_url = ''http://hub'', po_invite_code = ''INV-1'', po_machine_name = [], po_config_path = ''/c/a'', po_hub_ca_file = [], po_json = False\<rparr>"

abbreviation demo_files :: files where "demo_files \<equiv> [''/c/a'' \<mapsto> ''old'']"

lemma own_usable: "client_usable own_cfg" "client_usable new_cfg"
  using default_usable(1) by (simp_all add: own_cfg_def new_cfg_def paired_config_def client_usable_def)

lemma usable_sync: "client_usable c \<Longrightarrow> save_sync c = c"
  by (simp add: client_usable_def save_sync_def Let_def)

lemma demo_env: "env_get (\<lambda>_. []) k = []"
  by (simp add: env_get_def trim_space_def trim_right_by_def)

lemma demo_load: "load_config demo_cli ''/c/a'' demo_files = Inr own_cfg"
  using own_usable(1)
  by (simp add: load_config_def demo_cli_def LoadClientConfig_def Client_ApplyEnvOverrides_def env_str_def env_int_def env_pos_def demo_env Let_def
      client_usable_def Client_UnmarshalJSON_def client_defaults_def pos_or_def)

lemma demo_save: "\<exists>fs'. save_config demo_cli ''/c/a'' new_cfg demo_files = (None, fs')"
  by (simp add: save_config_def demo_cli_def SaveClientConfig_def usable_sync [OF own_usable(2)] atomicWriteFile_def calm_io_def Let_def)

lemma demo_values:
  "po_hub_url demo_pair = ''http://hub''" "po_invite_code demo_pair = ''INV-1''" "po_machine_name demo_pair = []" "po_config_path demo_pair = ''/c/a''"
  "po_hub_ca_file demo_pair = []" "cv_env demo_cli = (\<lambda>_. [])" "cv_hostname demo_cli = ''laptop''" "cv_pair_body demo_cli r = Inr []"
  "cv_pair_resp demo_cli b = Inr pair_answer" "ae_new_request (cv_net demo_cli) u = None" "ae_do (cv_net demo_cli) n client req = Inr (200, Inr ''paired'')"
  "trim_space [] = []" "NewHubHTTPClient (ae_tls (cv_net demo_cli)) [] d
    = Inr \<lparr>hc_min_version = 0x0303, hc_root_cas = None, hc_server_name = [], hc_insecure = False, hc_timeout = d\<rparr>"
  by (simp_all add: demo_pair_def demo_cli_def demo_net_def NewHubHTTPClient_def NewHubTLSConfig_def trim_space_def trim_right_by_def)

lemma demo_pairs: "\<exists>x fs'. ExecutePair demo_cli demo_pair demo_files = (x, fs') \<and> xt_code x = 0"
proof -
  have ca: "pair_ca_file demo_cli demo_pair demo_files = []"
    using demo_load by (simp add: pair_ca_file_def demo_values own_cfg_def NewDefaultClientConfig_def Let_def)
  have tr: "trim_space ''http://hub'' = ''http://hub''" "trim_space ''INV-1'' = ''INV-1''" by code_simp+
  obtain fs' where s: "save_config demo_cli ''/c/a'' new_cfg demo_files = (None, fs')" using demo_save by blast
  have "store_pairing demo_cli demo_pair ''http://hub'' [] ''laptop'' pair_answer demo_files = (succeeds (pair_report demo_cli demo_pair new_cfg), fs')"
    using demo_load s by (simp add: store_pairing_def demo_values new_cfg_def Let_def)
  then show ?thesis by (simp add: ExecutePair_def ca demo_values tr Let_def)
qed


text \<open>The same node on a full disk.\<close>

definition full_disk :: cli_env where
  "full_disk = demo_cli\<lparr>cv_encode := (\<lambda>_. Some ''x''), cv_io := calm_io\<lparr>io_write := False\<rparr>\<rparr>"

definition demo_remove :: WorkspaceOptions where
  "demo_remove = \<lparr>wo_config_path = ''/c/a'', wo_subcommand = ''rm'', wo_path = [], wo_name = [], wo_target = ''app'', wo_json = False\<rparr>"

definition demo_llm :: LLMOptions where
  "demo_llm = \<lparr>lo_config_path = ''/c/a'', lo_subcommand = ''set'', lo_provider = [], lo_base_url = [], lo_api_key = [], lo_model = ''m'', lo_max_tokens = 0,
     lo_temperature = 0, lo_ca_file = [], lo_tls_server_name = [], lo_insecure_skip_verify = False, lo_request_timeout_sec = 0, lo_max_steps = 0, lo_json = False\<rparr>"

lemma full_disk_save: "\<exists>e fs'. save_config full_disk ''/c/a'' c fs = (Some e, fs')"
  by (simp add: save_config_def full_disk_def SaveClientConfig_def atomicWriteFile_def calm_io_def Let_def)

lemma full_disk_remove: "xt_code (fst (ExecuteWorkspace full_disk demo_remove demo_files)) = 1"
proof -
  have l: "load_config full_disk ''/c/a'' demo_files = Inr own_cfg"
    using demo_load by (simp add: load_config_def full_disk_def)
  have r: "fst (RemoveWorkspace ''app'' own_cfg)" by code_simp
  have t: "trim_space ''app'' = ''app''" by code_simp
  obtain c where c: "RemoveWorkspace ''app'' own_cfg = (True, c)" using r by (cases "RemoveWorkspace ''app'' own_cfg") auto
  obtain e fs' where "save_config full_disk ''/c/a'' c demo_files = (Some e, fs')" using full_disk_save by blast
  then show ?thesis by (simp add: ExecuteWorkspace_def demo_remove_def l executeWorkspaceRemove_def t c Let_def)
qed

theorem failed_command_keeps_config_witness:
  "xt_code (fst (ExecuteWorkspace full_disk demo_remove demo_files)) = 1
   \<and> snd (ExecuteWorkspace full_disk demo_remove demo_files) ''/c/a'' = Some ''old''"
proof -
  let ?w = "ExecuteWorkspace full_disk demo_remove demo_files"
  have p: "po_config_path demo_pair = ''/c/a''" "lo_config_path demo_llm = ''/c/a''" "wo_config_path demo_remove = ''/c/a''"
    "io_temp (cv_io full_disk) = Some ''/c/.t''" "''/c/.t'' \<noteq> config_path full_disk ''/c/a''" "io_rename (cv_io full_disk)"
    by (simp_all add: demo_pair_def demo_llm_def demo_remove_def full_disk_def calm_io_def config_path_def)
  have "xt_code (fst ?w) = 0 \<or> xt_code (fst ?w) = 1 \<and> snd ?w (config_path full_disk ''/c/a'') = demo_files (config_path full_disk ''/c/a'')"
    using failed_command_keeps_config [of full_disk demo_pair demo_files _ _ "\<lambda>_. Inl []" demo_llm _ _ demo_remove, OF prod.collapse [symmetric] prod.collapse [symmetric] prod.collapse [symmetric] p]
    by (simp only: ball_simps insert_iff split_conv prod.case)
  then show ?thesis using full_disk_remove by (simp add: config_path_def)
qed

definition demo_hub_opts :: HubOptions where
  "demo_hub_opts = \<lparr>uo_addr = '':9000'', uo_data_dir = ''./data'', uo_admin_token = [], uo_public_url = [], uo_heartbeat_interval_sec = 30,
     uo_default_query_ttl_sec = 1, uo_max_query_ttl_sec = 2, uo_max_probe_timeout_sec = 3, uo_rate_limit_qpm = 4, uo_rate_limit_burst = 5,
     uo_json = False, uo_explicit = Some {''addr''}\<rparr>"

text \<open>Without flags, the hub keeps its token below the home directory, while the invite command looks for it below the working directory,
  which the usage text of the hub names as the default.\<close>

theorem invite_looks_elsewhere:
  "(\<exists>c. BuildHubConfig (\<lambda>_. []) (Some ''/h'') \<lparr>url_parse = (\<lambda>_. None), stat_ok = (\<lambda>_. True)\<rparr> (demo_hub_opts\<lparr>uo_explicit := Some {}\<rparr>) = Inr c
     \<and> hub_token_path c = ''/h/.talkintent/hub/admin.token'')
   \<and> invite_token_path (\<lambda>_. []) = ''data/admin.token''"
proof -
  have "(case BuildHubConfig (\<lambda>_. []) (Some ''/h'') \<lparr>url_parse = (\<lambda>_. None), stat_ok = (\<lambda>_. True)\<rparr> (demo_hub_opts\<lparr>uo_explicit := Some {}\<rparr>) of
     Inl _ \<Rightarrow> False | Inr c \<Rightarrow> hub_token_path c = ''/h/.talkintent/hub/admin.token'')" by code_simp
  moreover have "invite_token_path (\<lambda>_. []) = ''data/admin.token''" by code_simp
  ultimately show ?thesis by (auto split: sum.splits)
qed


end
