(* ===== verification/Node.thy ===== *)
theory Node
  imports Commands Daemon
begin

text \<open>
  The commands of \<^verbatim>\<open>internal/cli\<close> about the node itself: the background daemon (\<^verbatim>\<open>daemon.go\<close>, \<^verbatim>\<open>process_unix.go\<close>), \<^verbatim>\<open>status.go\<close>, \<^verbatim>\<open>privacy.go\<close>,
  \<^verbatim>\<open>skill.go\<close>, \<^verbatim>\<open>web.go\<close>, \<^verbatim>\<open>version.go\<close>, the rest of \<^verbatim>\<open>hub.go\<close>, and the files of \<^verbatim>\<open>internal/daemon/status.go\<close>.  The operating system is a
  record of outcomes: \<open>ps_signal0 ps n pid\<close> says whether the process is there at the \<open>n\<close>-th look, \<open>nv_start\<close> starts a program.
\<close>

section \<open>Processes (process\_unix.go)\<close>

record process_ops =
  ps_find :: "int \<Rightarrow> string option"
  ps_signal0 :: "nat \<Rightarrow> int \<Rightarrow> bool"
  ps_term :: "int \<Rightarrow> bool"
  ps_kill :: "int \<Rightarrow> string option"
  ps_interrupt :: "int \<Rightarrow> string option"

definition isProcessRunning :: "process_ops \<Rightarrow> nat \<Rightarrow> int \<Rightarrow> bool" where
  "isProcessRunning ps n pid \<longleftrightarrow> ps_find ps pid = None \<and> ps_signal0 ps n pid"

text \<open>Up to \<open>k\<close> looks from the \<open>n\<close>-th on, a pause before each.\<close>

fun wait_gone :: "process_ops \<Rightarrow> int \<Rightarrow> nat \<Rightarrow> nat \<Rightarrow> bool" where
  "wait_gone ps pid n 0 = False"
| "wait_gone ps pid n (Suc k) = (if \<not> isProcessRunning ps n pid then True else wait_gone ps pid (Suc n) k)"

definition terminateProcess :: "process_ops \<Rightarrow> nat \<Rightarrow> int \<Rightarrow> string option" where
  "terminateProcess ps n pid =
     (case ps_find ps pid of
        Some e \<Rightarrow> Some e
      | None \<Rightarrow> if \<not> ps_term ps pid then ps_kill ps pid else if wait_gone ps pid n 10 then None else ps_kill ps pid)"

section \<open>Status files of the daemon (internal/daemon/status.go)\<close>

record rename_io =
  rn_mkdir :: bool
  rn_tmp :: string
  rn_write :: bool
  rn_rename :: "nat \<Rightarrow> bool"
  rn_remove :: bool

definition StatusFilePath :: "environ \<Rightarrow> string option \<Rightarrow> string \<Rightarrow> string" where
  "StatusFilePath env uh homeDir = Join2 (if homeDir = [] then GetTalkIntentHome env uh else homeDir) ''daemon-status.json''"

definition PIDFilePath :: "environ \<Rightarrow> string option \<Rightarrow> string \<Rightarrow> string" where
  "PIDFilePath env uh homeDir = Join2 (if homeDir = [] then GetTalkIntentHome env uh else homeDir) ''daemon.pid''"

definition read_pid :: "string \<Rightarrow> files \<Rightarrow> int option" where
  "read_pid path fs = (case fs path of None \<Rightarrow> None | Some data \<Rightarrow> Atoi (trim_space data))"

text \<open>\<open>decode\<close> reads the JSON text of a status.\<close>

definition ReadDaemonStatus :: "(string \<Rightarrow> 'a option) \<Rightarrow> environ \<Rightarrow> string option \<Rightarrow> string \<Rightarrow> files \<Rightarrow> 'a option" where
  "ReadDaemonStatus decode env uh path fs = Option.bind (fs (if path = [] then StatusFilePath env uh [] else path)) decode"

text \<open>The attempts to rename.\<close>

fun rename_loop :: "rename_io \<Rightarrow> nat \<Rightarrow> nat \<Rightarrow> bool" where
  "rename_loop io attempt 0 = False"
| "rename_loop io attempt (Suc k) = (if rn_rename io attempt then True else rename_loop io (Suc attempt) k)"

text \<open>A write that fails may leave part of the data.\<close>

definition write_renamed :: "rename_io \<Rightarrow> string \<Rightarrow> string \<Rightarrow> files \<Rightarrow> bool \<times> files" where
  "write_renamed io targetPath content fs =
     (if \<not> rn_write io then (False, fs(rn_tmp io \<mapsto> []))
      else
        let fs1 = fs(rn_tmp io \<mapsto> content) in
        if rename_loop io 0 10 then (True, (fs1(targetPath \<mapsto> content))(rn_tmp io := None))
        else (False, if rn_remove io then fs1(rn_tmp io := None) else fs1))"

definition writeAtomicJSON :: "rename_io \<Rightarrow> string \<Rightarrow> string option \<Rightarrow> files \<Rightarrow> bool \<times> files" where
  "writeAtomicJSON io targetPath json fs =
     (if \<not> rn_mkdir io then (False, fs) else (case json of None \<Rightarrow> (False, fs) | Some raw \<Rightarrow> write_renamed io targetPath raw fs))"

definition writePIDFile :: "rename_io \<Rightarrow> string \<Rightarrow> int \<Rightarrow> files \<Rightarrow> bool \<times> files" where
  "writePIDFile io targetPath pid fs = (if \<not> rn_mkdir io then (False, fs) else write_renamed io targetPath (fmt_status pid @ nl) fs)"

definition StopDaemonByPID :: "process_ops \<Rightarrow> int \<Rightarrow> string option" where
  "StopDaemonByPID ps pid =
     (if pid \<le> 0 then Some ''invalid PID''
      else (case ps_find ps pid of
         Some e \<Rightarrow> Some (''failed to find process '' @ fmt_status pid @ '': '' @ e)
       | None \<Rightarrow> ps_interrupt ps pid))"

section \<open>The background daemon (daemon.go)\<close>

datatype daemon_end = Interrupted | Ended "string option" bool

record node_env =
  nv_cli :: cli_env
  nv_ps :: process_ops
  nv_exe :: "(string, string) result"
  nv_start :: "string \<Rightarrow> string list \<Rightarrow> (string, int) result"
  nv_mkdir :: "string \<Rightarrow> string option"
  nv_write :: "string \<Rightarrow> string option"
  nv_open_log :: "string \<Rightarrow> string option"
  nv_pid :: int
  nv_daemon :: "ClientConfig \<Rightarrow> daemon_end"
  nv_run :: "RunRequest \<Rightarrow> (run_error, QueryResponsePayload) result"
  nv_prompts :: prompt_fs
  nv_skill :: string
  nv_goos :: string
  nv_goarch :: string
  nv_gover :: string

definition nv_home :: "node_env \<Rightarrow> string" where
  "nv_home nv = GetTalkIntentHome (cv_env (nv_cli nv)) (cv_home (nv_cli nv))"

definition DaemonPIDFilePath :: "node_env \<Rightarrow> string" where
  "DaemonPIDFilePath nv = Join2 (nv_home nv) ''daemon.pid''"

definition DaemonLogFilePath :: "node_env \<Rightarrow> string" where
  "DaemonLogFilePath nv = Join2 (nv_home nv) ''daemon.log''"

definition ReadDaemonPID :: "node_env \<Rightarrow> files \<Rightarrow> int option" where
  "ReadDaemonPID nv fs = read_pid (DaemonPIDFilePath nv) fs"

text \<open>The error, or the written file.\<close>

definition WriteDaemonPID :: "node_env \<Rightarrow> int \<Rightarrow> files \<Rightarrow> string option \<times> files" where
  "WriteDaemonPID nv pid fs =
     (let pidPath = DaemonPIDFilePath nv in
      case nv_mkdir nv (Dir pidPath) of
        Some e \<Rightarrow> (Some e, fs)
      | None \<Rightarrow> (case nv_write nv pidPath of Some e \<Rightarrow> (Some e, fs) | None \<Rightarrow> (None, fs(pidPath \<mapsto> fmt_status pid @ nl))))"

definition RemoveDaemonPID :: "node_env \<Rightarrow> files \<Rightarrow> files" where
  "RemoveDaemonPID nv fs = fs(DaemonPIDFilePath nv := None)"

record DaemonOptions =
  do_config_path :: string
  do_workspace :: string
  do_detach :: bool
  do_action :: string
  do_json :: bool

definition executeDaemonStop :: "node_env \<Rightarrow> files \<Rightarrow> exit \<times> files" where
  "executeDaemonStop nv fs =
     (case ReadDaemonPID nv fs of
        None \<Rightarrow> (succeeds (''TalkIntent daemon is not running (no PID file found).'' @ nl), fs)
      | Some pid \<Rightarrow>
          if \<not> isProcessRunning (nv_ps nv) 0 pid
          then (succeeds (''TalkIntent daemon is not running (stale PID file removed).'' @ nl), RemoveDaemonPID nv fs)
          else (case terminateProcess (nv_ps nv) 1 pid of
             Some e \<Rightarrow> (fails (''Failed to terminate daemon process (PID '' @ fmt_status pid @ ''): '' @ e @ nl), fs)
           | None \<Rightarrow> (succeeds (''TalkIntent daemon (PID '' @ fmt_status pid @ '') stopped successfully.'' @ nl), RemoveDaemonPID nv fs)))"

definition executeDaemonStatus :: "node_env \<Rightarrow> files \<Rightarrow> exit \<times> files" where
  "executeDaemonStatus nv fs =
     (case ReadDaemonPID nv fs of
        None \<Rightarrow> (succeeds (''Daemon: NOT RUNNING'' @ nl), fs)
      | Some pid \<Rightarrow>
          if isProcessRunning (nv_ps nv) 0 pid
          then (succeeds (''Daemon: RUNNING (PID '' @ fmt_status pid @ '')'' @ nl @ ''PID file: '' @ DaemonPIDFilePath nv @ nl
                  @ ''Log file: '' @ DaemonLogFilePath nv @ nl), fs)
          else (succeeds (''Daemon: NOT RUNNING (stale PID '' @ fmt_status pid @ '' cleaned up)'' @ nl), RemoveDaemonPID nv fs))"

text \<open>The arguments of the child process.\<close>

definition detach_args :: "DaemonOptions \<Rightarrow> string list" where
  "detach_args opts = [''daemon''] @ (if do_config_path opts \<noteq> [] then [''--config'', do_config_path opts] else [])
     @ (if do_workspace opts \<noteq> [] then [''--workspace'', do_workspace opts] else [])"

definition pid_warning :: "string option \<Rightarrow> string" where
  "pid_warning e = (case e of None \<Rightarrow> [] | Some t \<Rightarrow> ''Warning: failed to write PID file: '' @ t @ nl)"

definition executeDaemonDetach :: "node_env \<Rightarrow> DaemonOptions \<Rightarrow> files \<Rightarrow> exit \<times> files" where
  "executeDaemonDetach nv opts fs =
     (let old = ReadDaemonPID nv fs; logPath = DaemonLogFilePath nv in
      if (case old of None \<Rightarrow> False | Some pid \<Rightarrow> isProcessRunning (nv_ps nv) 0 pid)
      then (succeeds (''TalkIntent daemon is already running (PID '' @ fmt_status (the old) @ '').'' @ nl), fs)
      else (case nv_exe nv of
         Inl e \<Rightarrow> (fails (''Failed to locate executable: '' @ e @ nl), fs)
       | Inr exe \<Rightarrow>
           (case nv_mkdir nv (Dir logPath) of
              Some e \<Rightarrow> (fails (''Failed to create log directory: '' @ e @ nl), fs)
            | None \<Rightarrow>
                (case nv_open_log nv logPath of
                   Some e \<Rightarrow> (fails (''Failed to open daemon log file: '' @ e @ nl), fs)
                 | None \<Rightarrow>
                     let fs1 = (if fs logPath = None then fs(logPath \<mapsto> []) else fs) in
                     (case nv_start nv exe (detach_args opts) of
                        Inl e \<Rightarrow> (fails (''Failed to start background daemon: '' @ e @ nl), fs1)
                      | Inr pid \<Rightarrow>
                          let (we, fs2) = WriteDaemonPID nv pid fs1 in
                          (\<lparr>xt_code = 0,
                             xt_stdout = ''TalkIntent daemon started in background (PID: '' @ fmt_status pid @ '').'' @ nl @ ''  Log file: '' @ logPath @ nl
                               @ ''  Run '' @ apos @ ''talkintent daemon stop'' @ apos @ '' to stop.'' @ nl,
                             xt_stderr = pid_warning we\<rparr>, fs2))))))"

text \<open>The foreground daemon up to the point where it runs: the error, or the configuration, the warnings and the files.\<close>

definition with_workspace :: "node_env \<Rightarrow> DaemonOptions \<Rightarrow> ClientConfig \<Rightarrow> files \<Rightarrow> (string, ClientConfig \<times> string \<times> files) result" where
  "with_workspace nv opts cfg fs =
     (let cv = nv_cli nv in
      if do_workspace opts = [] then Inr (cfg, [], fs)
      else (case NormalizeWorkspacePath (cv_fs cv) (cv_is_dir cv) (do_workspace opts) of
         Inl e \<Rightarrow> Inl (''Invalid workspace path '' @ Quote (do_workspace opts) @ '': '' @ cv_workspace_error cv e @ nl)
       | Inr normPath \<Rightarrow>
           let cfg1 = snd (AddWorkspace (cv_fs cv) (cv_is_dir cv) \<lparr>wc_id = [], wc_name = Base normPath, wc_root_path = normPath, wc_privacy_prompt_path = []\<rparr> cfg);
               (e, fs1) = save_config cv (do_config_path opts) cfg1 fs
           in Inr (cfg1, (case e of None \<Rightarrow> [] | Some x \<Rightarrow> ''Warning: failed to persist workspace to config: '' @ cv_config_error cv x @ nl), fs1)))"

definition daemon_started :: "node_env \<Rightarrow> DaemonOptions \<Rightarrow> files \<Rightarrow> (string, ClientConfig \<times> string \<times> files) result" where
  "daemon_started nv opts fs =
     (case load_config (nv_cli nv) (do_config_path opts) fs of
        Inl e \<Rightarrow> Inl (''F'' @ no_config (nv_cli nv) e)
      | Inr cfg \<Rightarrow>
          (case with_workspace nv opts cfg fs of
             Inl t \<Rightarrow> Inl t
           | Inr (cfg1, w, fs1) \<Rightarrow> let (e, fs2) = WriteDaemonPID nv (nv_pid nv) fs1 in Inr (cfg1, w @ pid_warning e, fs2)))"

definition daemon_banner :: "node_env \<Rightarrow> ClientConfig \<Rightarrow> string" where
  "daemon_banner nv cfg =
     ''Starting TalkIntent Daemon (PID '' @ fmt_status (nv_pid nv) @ '')...'' @ nl @ ''  Member:     '' @ cc_member_name cfg @ '' ('' @ cc_member_id cfg @ '')'' @ nl
     @ ''  Hub URL:    '' @ cc_hub_url cfg @ nl @ ''  Workspaces: '' @ fmt_nat (length (cc_workspaces cfg)) @ '' monitored'' @ nl
     @ concat (map (\<lambda>ws. ''    - '' @ wc_name ws @ '' -> '' @ wc_root_path ws @ nl) (cc_workspaces cfg)) @ ''Press Ctrl+C to stop.'' @ nl"

text \<open>When it ends, its PID file is removed; \<open>fs\<close> is what the files are by then.\<close>

definition daemon_ended :: "node_env \<Rightarrow> ClientConfig \<Rightarrow> string \<Rightarrow> files \<Rightarrow> exit \<times> files" where
  "daemon_ended nv cfg w fs =
     (case nv_daemon nv cfg of
        Interrupted \<Rightarrow> \<lparr>xt_code = 0, xt_stdout = daemon_banner nv cfg @ nl @ ''Shutting down TalkIntent daemon...'' @ nl, xt_stderr = w\<rparr>
      | Ended err cancelled \<Rightarrow>
          (case err of
             Some e \<Rightarrow> if \<not> cancelled then \<lparr>xt_code = 1, xt_stdout = daemon_banner nv cfg, xt_stderr = w @ ''Daemon exited with error: '' @ e @ nl\<rparr>
                       else \<lparr>xt_code = 0, xt_stdout = daemon_banner nv cfg, xt_stderr = w\<rparr>
           | None \<Rightarrow> \<lparr>xt_code = 0, xt_stdout = daemon_banner nv cfg, xt_stderr = w\<rparr>), RemoveDaemonPID nv fs)"

definition executeDaemonForeground :: "node_env \<Rightarrow> DaemonOptions \<Rightarrow> files \<Rightarrow> exit \<times> files" where
  "executeDaemonForeground nv opts fs =
     (case daemon_started nv opts fs of Inl t \<Rightarrow> (fails t, fs) | Inr (cfg, w, fs1) \<Rightarrow> daemon_ended nv cfg w fs1)"

definition ExecuteDaemon :: "node_env \<Rightarrow> DaemonOptions \<Rightarrow> files \<Rightarrow> exit \<times> files" where
  "ExecuteDaemon nv opts fs =
     (if do_action opts = ''stop'' then executeDaemonStop nv fs
      else if do_action opts = ''status'' then executeDaemonStatus nv fs
      else if do_detach opts then executeDaemonDetach nv opts fs
      else executeDaemonForeground nv opts fs)"

section \<open>Status (status.go)\<close>

record DaemonRuntimeInfo =
  ri_running :: bool
  ri_pid :: int
  ri_status :: string

record HubStatusInfo =
  hs_url :: string
  hs_reachable :: bool
  hs_latency_ms :: int
  hs_error :: string

record StatusReport =
  sp_home :: string
  sp_config_path :: string
  sp_paired :: bool
  sp_member_name :: string
  sp_member_id :: string
  sp_machine :: string
  sp_daemon :: DaemonRuntimeInfo
  sp_hub :: HubStatusInfo
  sp_workspaces :: "string list"
  sp_llm :: LLMConfig

definition daemon_info :: "node_env \<Rightarrow> files \<Rightarrow> DaemonRuntimeInfo" where
  "daemon_info nv fs =
     (case read_pid (Join2 (nv_home nv) ''daemon.pid'') fs of
        None \<Rightarrow> \<lparr>ri_running = False, ri_pid = 0, ri_status = ''stopped''\<rparr>
      | Some pid \<Rightarrow> if isProcessRunning (nv_ps nv) 0 pid then \<lparr>ri_running = True, ri_pid = pid, ri_status = ''running''\<rparr>
                    else \<lparr>ri_running = False, ri_pid = pid, ri_status = ''stale_pid_file''\<rparr>)"

definition no_hub :: HubStatusInfo where
  "no_hub = \<lparr>hs_url = [], hs_reachable = False, hs_latency_ms = 0, hs_error = []\<rparr>"

text \<open>One request with a timeout of three seconds; the clock is read before and after it.\<close>

definition hub_info :: "node_env \<Rightarrow> ClientConfig \<Rightarrow> HubStatusInfo" where
  "hub_info nv cfg =
     (let net = cv_net (nv_cli nv); h0 = no_hub\<lparr>hs_url := cc_hub_url cfg\<rparr>; url = hub_base (cc_hub_url cfg) @ ''/api/v1/members/me'' in
      if cc_hub_url cfg = [] then no_hub
      else if ae_new_request net url \<noteq> None then h0
      else (case NewHubHTTPClient (ae_tls net) (cc_hub_ca_file cfg) (3 * secondNs) of
         Inl e \<Rightarrow> h0\<lparr>hs_error := e\<rparr>
       | Inr client \<Rightarrow>
           (case ae_do net 0 client \<lparr>cq_method = ''GET'', cq_url = url,
                   cq_headers = (if cc_token cfg \<noteq> [] then [(''Authorization'', ''Bearer '' @ cc_token cfg)] else []), cq_body = []\<rparr> of
              Inl e \<Rightarrow> h0\<lparr>hs_error := ce_text e\<rparr>
            | Inr _ \<Rightarrow> h0\<lparr>hs_reachable := True, hs_latency_ms := (ae_clock net 1 - ae_clock net 0) div 1000000\<rparr>)))"

definition status_report :: "node_env \<Rightarrow> string \<Rightarrow> files \<Rightarrow> StatusReport" where
  "status_report nv path fs =
     (let base = \<lparr>sp_home = nv_home nv, sp_config_path = config_path (nv_cli nv) path, sp_paired = False, sp_member_name = [], sp_member_id = [],
            sp_machine = [], sp_daemon = daemon_info nv fs, sp_hub = no_hub, sp_workspaces = [], sp_llm = zero_llm\<rparr>
      in case load_config (nv_cli nv) path fs of
           Inl _ \<Rightarrow> base
         | Inr cfg \<Rightarrow> base\<lparr>sp_paired := True, sp_member_name := cc_member_name cfg, sp_member_id := cc_member_id cfg, sp_machine := cc_machine_name cfg,
             sp_hub := hub_info nv cfg, sp_workspaces := map (\<lambda>ws. wc_name ws @ '' ('' @ wc_root_path ws @ '')'') (cc_workspaces cfg),
             sp_llm := LLM_Redacted (cc_llm cfg)\<rparr>)"

definition printStatusText :: "StatusReport \<Rightarrow> string" where
  "printStatusText rep =
     ''=== TalkIntent Node Status ==='' @ nl @ ''  Home Directory: '' @ sp_home rep @ nl @ ''  Config Path:    '' @ sp_config_path rep @ nl
     @ (if \<not> sp_paired rep then ''  Pairing:        NOT PAIRED (run '' @ apos @ ''talkintent pair'' @ apos @ '' to join a Hub)'' @ nl
        else ''  Member:         '' @ sp_member_name rep @ '' (ID: '' @ sp_member_id rep @ '')'' @ nl @ ''  Machine:        '' @ sp_machine rep @ nl
          @ ''  Hub URL:        '' @ hs_url (sp_hub rep) @ nl
          @ (if hs_reachable (sp_hub rep) then ''  Hub Status:     Online ('' @ fmt_status (hs_latency_ms (sp_hub rep)) @ ''ms)'' @ nl
             else ''  Hub Status:     UNREACHABLE ('' @ hs_error (sp_hub rep) @ '')'' @ nl))
     @ (if ri_running (sp_daemon rep) then ''  Daemon:         RUNNING (PID: '' @ fmt_status (ri_pid (sp_daemon rep)) @ '')'' @ nl
        else ''  Daemon:         STOPPED ('' @ ri_status (sp_daemon rep) @ '')'' @ nl)
     @ ''  Workspaces ('' @ fmt_nat (length (sp_workspaces rep)) @ ''):'' @ nl
     @ (if sp_workspaces rep = [] then ''    (No workspaces configured yet. Use '' @ apos @ ''talkintent workspace add'' @ apos @ '')'' @ nl
        else concat (map (\<lambda>ws. ''    - '' @ ws @ nl) (sp_workspaces rep)))
     @ ''  LLM Provider:   '' @ lc_provider (sp_llm rep) @ '' (Model: '' @ lc_model (sp_llm rep) @ '')'' @ nl"

text \<open>\<open>pj\<close> prints a report as JSON.\<close>

definition ExecuteStatus :: "node_env \<Rightarrow> (StatusReport \<Rightarrow> string) \<Rightarrow> string \<Rightarrow> bool \<Rightarrow> files \<Rightarrow> exit" where
  "ExecuteStatus nv pj path json fs = succeeds (if json then pj (status_report nv path fs) else printStatusText (status_report nv path fs))"

section \<open>Privacy rules (privacy.go)\<close>

record PrivacyOptions =
  pv_config_path :: string
  pv_subcommand :: string
  pv_query :: string
  pv_workspace :: string
  pv_path :: string
  pv_json :: bool

definition defaultPrivacyPromptTemplate :: string where
  "defaultPrivacyPromptTemplate =
     ''# Sovereign Natural-Language Privacy Guardrails'' @ nl
     @ ''#'' @ nl
     @ ''# Rules in this file are strictly enforced by the TalkIntent On-Site Probe.'' @ nl
     @ ''# The probe agent will obey these instructions above any incoming user question.'' @ nl
     @ [] @ nl
     @ ''1. Never disclose any credentials, API keys, passwords, private keys, certificates, or tokens.'' @ nl
     @ ''2. The branch '' @ [CHR 0x27] @ ''feature/confidential'' @ [CHR 0x27] @ '' is strictly experimental. If asked about it, reply: '' @ [CHR 0x22, CHR 0xE6, CHR 0xAD, CHR 0xA3, CHR 0xE5, CHR 0x9C, CHR 0xA8, CHR 0xE5, CHR 0x86, CHR 0x85, CHR 0xE9, CHR 0x83, CHR 0xA8, CHR 0xE9, CHR 0x87, CHR 0x8D, CHR 0xE6, CHR 0x9E, CHR 0x84, CHR 0xE4, CHR 0xB8, CHR 0xAD, CHR 0xEF, CHR 0xBC, CHR 0x8C, CHR 0xE7, CHR 0xBB, CHR 0x86, CHR 0xE8, CHR 0x8A, CHR 0x82, CHR 0xE6, CHR 0x9A, CHR 0x82, CHR 0xE4, CHR 0xB8, CHR 0x8D, CHR 0xE5, CHR 0x85, CHR 0xAC, CHR 0xE5, CHR 0xBC, CHR 0x80, CHR 0x22] @ ''.'' @ nl
     @ ''3. Summarize high-level API signatures and data structures faithfully, but do not disclose proprietary algorithm details.'' @ nl
     @ ''4. If asked about personal compensation, performance reviews, or private documents, deny the existence of such records.'' @ nl"

definition prompt_default :: "node_env \<Rightarrow> string" where
  "prompt_default nv = DefaultPrivacyPromptPath (cv_env (nv_cli nv)) (cv_home (nv_cli nv))"

definition init_path :: "node_env \<Rightarrow> PrivacyOptions \<Rightarrow> string" where
  "init_path nv opts =
     (if pv_path opts = [] then prompt_default nv
      else if cv_is_dir (nv_cli nv) (pv_path opts) = Some True then Join2 (pv_path opts) ''privacy-prompt.md'' else pv_path opts)"

definition executePrivacyInit :: "node_env \<Rightarrow> PrivacyOptions \<Rightarrow> files \<Rightarrow> exit \<times> files" where
  "executePrivacyInit nv opts fs =
     (let targetPath = init_path nv opts in
      if cv_is_dir (nv_cli nv) targetPath \<noteq> None then (succeeds (''Privacy prompt file already exists at: '' @ targetPath @ nl), fs)
      else (case nv_mkdir nv (Dir targetPath) of
         Some e \<Rightarrow> (fails (''Failed to create directory: '' @ e @ nl), fs)
       | None \<Rightarrow>
           (case nv_write nv targetPath of
              Some e \<Rightarrow> (fails (''Failed to initialize privacy prompt file: '' @ e @ nl), fs)
            | None \<Rightarrow> (succeeds (''Created default privacy prompt file at: '' @ targetPath @ nl), fs(targetPath \<mapsto> defaultPrivacyPromptTemplate)))))"

definition workspace_prompt :: "node_env \<Rightarrow> WorkspaceConfig \<Rightarrow> string" where
  "workspace_prompt nv ws =
     (let cand1 = Join2 (Join2 (wc_root_path ws) ''.talkintent'') ''privacy-prompt.md''; cand2 = Join2 (wc_root_path ws) ''privacy-prompt.md'';
          there = (\<lambda>p. cv_is_dir (nv_cli nv) p \<noteq> None)
      in if wc_privacy_prompt_path ws \<noteq> [] then wc_privacy_prompt_path ws
         else if there cand1 then cand1 else if there cand2 then cand2 else [])"

definition show_workspace :: "node_env \<Rightarrow> files \<Rightarrow> WorkspaceConfig \<Rightarrow> string" where
  "show_workspace nv fs ws =
     (let p = workspace_prompt nv ws in
      if p = [] then []
      else ''-- Workspace '' @ wc_name ws @ '' ('' @ p @ '') --'' @ nl @ (case fs p of None \<Rightarrow> [] | Some data \<Rightarrow> trim_space data @ nl))"

definition executePrivacyShow :: "node_env \<Rightarrow> PrivacyOptions \<Rightarrow> files \<Rightarrow> exit" where
  "executePrivacyShow nv opts fs =
     (let globalPath = prompt_default nv;
          head = ''=== Global Privacy Rules ('' @ globalPath @ '') ==='' @ nl
            @ (case fs globalPath of Some data \<Rightarrow> if data \<noteq> [] then trim_space data @ nl
                 else ''  (File does not exist yet. Run '' @ apos @ ''talkintent privacy init'' @ apos @ '' to create it)'' @ nl
               | None \<Rightarrow> ''  (File does not exist yet. Run '' @ apos @ ''talkintent privacy init'' @ apos @ '' to create it)'' @ nl)
      in succeeds (head @ (case load_config (nv_cli nv) (pv_config_path opts) fs of
           Inl _ \<Rightarrow> []
         | Inr cfg \<Rightarrow> if cc_workspaces cfg = [] then []
                      else nl @ ''=== Workspace Privacy Rules ==='' @ nl @ concat (map (show_workspace nv fs) (cc_workspaces cfg)))))"

definition executePrivacyEditPath :: "node_env \<Rightarrow> PrivacyOptions \<Rightarrow> files \<Rightarrow> exit" where
  "executePrivacyEditPath nv opts fs =
     (let dflt = prompt_default nv;
          path = (if pv_workspace opts = [] then dflt
            else (case load_config (nv_cli nv) (pv_config_path opts) fs of
               Inl _ \<Rightarrow> dflt
             | Inr cfg \<Rightarrow>
                 (case FindWorkspace (pv_workspace opts) cfg of
                    None \<Rightarrow> dflt
                  | Some ws \<Rightarrow> if wc_privacy_prompt_path ws \<noteq> [] then wc_privacy_prompt_path ws
                               else Join2 (Join2 (wc_root_path ws) ''.talkintent'') ''privacy-prompt.md'')))
      in succeeds (path @ nl))"

definition zero_workspace :: WorkspaceConfig where
  "zero_workspace = \<lparr>wc_id = [], wc_name = [], wc_root_path = [], wc_privacy_prompt_path = []\<rparr>"

text \<open>The workspace of the dry run, and the warning when the named one is not configured.\<close>

definition test_workspace :: "node_env \<Rightarrow> PrivacyOptions \<Rightarrow> ClientConfig \<Rightarrow> WorkspaceConfig \<times> string" where
  "test_workspace nv opts cfg =
     (let (ws, w) = (if pv_workspace opts = [] then (zero_workspace, [])
            else (case FindWorkspace (pv_workspace opts) cfg of
               Some found \<Rightarrow> (found, [])
             | None \<Rightarrow> (zero_workspace, ''Warning: workspace '' @ Quote (pv_workspace opts) @ '' not found in config, using current directory'' @ nl)));
          cwd = (case getwd (cv_fs (nv_cli nv)) of None \<Rightarrow> [] | Some d \<Rightarrow> d)
      in (if wc_root_path ws \<noteq> [] then ws
          else (case cc_workspaces cfg of w1 # _ \<Rightarrow> w1 | [] \<Rightarrow> zero_workspace\<lparr>wc_name := Base cwd, wc_root_path := cwd\<rparr>), w))"

text \<open>\<^verbatim>\<open>probe.RunPrivacyTest\<close>.\<close>

definition privacy_request :: "int \<Rightarrow> WorkspaceConfig \<Rightarrow> string \<Rightarrow> LLMConfig \<Rightarrow> RunRequest" where
  "privacy_request now ws query llm =
     \<lparr>rr_query_id = ''priv_test_'' @ fmt_status now, rr_query = query, rr_workspace = ws, rr_workspaces = [],
      rr_global_privacy_prompt_path = [], rr_llm = llm, rr_timeout = Timeout llm\<rparr>"

definition RunPrivacyTest :: "node_env \<Rightarrow> WorkspaceConfig \<Rightarrow> string \<Rightarrow> LLMConfig \<Rightarrow> (run_error, QueryResponsePayload) result" where
  "RunPrivacyTest nv ws query llm = nv_run nv (privacy_request (ae_clock (cv_net (nv_cli nv)) 0) ws query llm)"

definition zero_config :: ClientConfig where
  "zero_config = fresh_config\<lparr>cc_max_concurrency := 0, cc_heartbeat_interval_sec := 0\<rparr>"

text \<open>\<open>pr\<close> prints the response as JSON.\<close>

definition executePrivacyTest :: "node_env \<Rightarrow> (QueryResponsePayload \<Rightarrow> string) \<Rightarrow> PrivacyOptions \<Rightarrow> files \<Rightarrow> exit" where
  "executePrivacyTest nv pr opts fs =
     (let queryText = trim_space (pv_query opts);
          cfg = (case load_config (nv_cli nv) (pv_config_path opts) fs of Inl _ \<Rightarrow> zero_config | Inr c \<Rightarrow> c);
          (ws, warn) = test_workspace nv opts cfg;
          rules = LoadPrivacyPrompts (nv_prompts nv) (prompt_default nv) [] (wc_privacy_prompt_path ws) (wc_root_path ws);
          intro = ''Running local privacy dry-run against workspace: '' @ wc_name ws @ '' ('' @ wc_root_path ws @ '')'' @ nl
            @ ''Query: '' @ Quote queryText @ nl @ nl
            @ (if rules \<noteq> [] then ''Loaded Privacy Guardrails:'' @ nl @ rules @ nl @ nl
               else ''Notice: No privacy rules loaded. Using baseline security guardrails only.'' @ nl @ nl)
      in if queryText = []
         then fails (''Error: query text required for privacy test. e.g. talkintent privacy test '' @ apos @ [CHR 0xE9, CHR 0x97, CHR 0xAE, CHR 0xE4, CHR 0xB8, CHR 0x80, CHR 0xE4, CHR 0xB8, CHR 0x8B] @ ''feature/confidential'' @ [CHR 0xE5, CHR 0x88, CHR 0x86, CHR 0xE6, CHR 0x94, CHR 0xAF] @ apos @ nl)
         else if pv_json opts
         then (case RunPrivacyTest nv ws queryText (cc_llm cfg) of
                 Inl e \<Rightarrow> \<lparr>xt_code = 1, xt_stdout = [], xt_stderr = warn @ cv_json (nv_cli nv) (JObj [(''error'', JStr (re_text e))])\<rparr>
               | Inr resp \<Rightarrow> \<lparr>xt_code = 0, xt_stdout = pr resp, xt_stderr = warn\<rparr>)
         else (case RunPrivacyTest nv ws queryText (cc_llm cfg) of
                 Inl e \<Rightarrow> \<lparr>xt_code = 1, xt_stdout = intro, xt_stderr = warn @ ''Dry-run execution failed: '' @ re_text e @ nl\<rparr>
               | Inr res \<Rightarrow> \<lparr>xt_code = 0, xt_stdout = intro @ ''=== Dry-Run Outcome ==='' @ nl @ ''  Status:     '' @ rp_status res @ nl
                     @ ''  Answer:     '' @ rp_answer res @ nl
                     @ ''  Tools Used: '' @ join_with '', '' (case rp_tools_used res of None \<Rightarrow> [] | Some ts \<Rightarrow> ts) @ nl
                     @ ''  Duration:   '' @ fmt_status (rp_duration_ms res) @ ''ms'' @ nl, xt_stderr = warn\<rparr>))"

definition ExecutePrivacy :: "node_env \<Rightarrow> (QueryResponsePayload \<Rightarrow> string) \<Rightarrow> PrivacyOptions \<Rightarrow> files \<Rightarrow> exit \<times> files" where
  "ExecutePrivacy nv pr opts fs =
     (let sub = pv_subcommand opts in
      if sub = ''init'' then executePrivacyInit nv opts fs
      else if sub = ''show'' then (executePrivacyShow nv opts fs, fs)
      else if sub = ''edit-path'' then (executePrivacyEditPath nv opts fs, fs)
      else if sub = ''test'' then (executePrivacyTest nv pr opts fs, fs)
      else (fails (''Unknown privacy action '' @ Quote sub @ ''. Use '' @ apos @ ''init'' @ apos @ '', '' @ apos @ ''show'' @ apos @ '', '' @ apos @ ''edit-path'' @ apos
              @ '', or '' @ apos @ ''test'' @ apos @ ''.'' @ nl), fs))"

section \<open>Skill, dashboard and version (skill.go, web.go, version.go)\<close>

record SkillOptions =
  so_subcommand :: string
  so_dir :: string
  so_json :: bool

definition skill_dir :: "string option \<Rightarrow> string \<Rightarrow> string option" where
  "skill_dir uh dir =
     (case (if dir = [] then map_option (\<lambda>home. Join2 (Join2 (Join2 home ''.claude'') ''skills'') ''talkintent'') uh
            else Some (if Base dir \<noteq> ''talkintent'' \<and> Base dir \<noteq> ''SKILL.md'' then Join2 dir ''talkintent'' else dir)) of
        None \<Rightarrow> None
      | Some d \<Rightarrow> Some (if Base d = ''SKILL.md'' then Dir d else d))"

definition executeSkillInstall :: "node_env \<Rightarrow> SkillOptions \<Rightarrow> files \<Rightarrow> exit \<times> files" where
  "executeSkillInstall nv opts fs =
     (case skill_dir (cv_home (nv_cli nv)) (so_dir opts) of
        None \<Rightarrow> (fails (''Failed to determine user home directory: $HOME is not defined'' @ nl), fs)
      | Some targetDir \<Rightarrow>
          (case nv_mkdir nv targetDir of
             Some e \<Rightarrow> (fails (''Failed to create destination directory '' @ Quote targetDir @ '': '' @ e @ nl), fs)
           | None \<Rightarrow>
               let destFile = Join2 targetDir ''SKILL.md''; content = trim_space (nv_skill nv) @ nl in
               (case nv_write nv destFile of
                  Some e \<Rightarrow> (fails (''Failed to write skill file to '' @ Quote destFile @ '': '' @ e @ nl), fs)
                | None \<Rightarrow>
                    (succeeds (if so_json opts then cv_json (nv_cli nv) (JObj [(''status'', JStr ''installed''), (''path'', JStr destFile),
                         (''bytes'', JInt (int (length content)))])
                       else ''Installed TalkIntent Claude Code skill into:'' @ nl @ ''  '' @ destFile @ nl @ nl
                         @ ''Claude Code will automatically discover this skill. You can now use:'' @ nl @ ''  /talkintent <teammate> <question>'' @ nl),
                     fs(destFile \<mapsto> content)))))"

definition executeSkillShow :: "node_env \<Rightarrow> SkillOptions \<Rightarrow> exit" where
  "executeSkillShow nv opts =
     succeeds (if so_json opts then cv_json (nv_cli nv) (JObj [(''skill'', JStr ''talkintent''), (''content'', JStr (nv_skill nv))]) else nv_skill nv)"

definition ExecuteSkill :: "node_env \<Rightarrow> SkillOptions \<Rightarrow> files \<Rightarrow> exit \<times> files" where
  "ExecuteSkill nv opts fs =
     (let sub = so_subcommand opts in
      if sub = ''install'' then executeSkillInstall nv opts fs
      else if sub = ''show'' \<or> sub = ''cat'' then (executeSkillShow nv opts, fs)
      else (fails (''Unknown skill action '' @ Quote sub @ ''. Use '' @ apos @ ''install'' @ apos @ '' or '' @ apos @ ''show'' @ apos @ ''.'' @ nl), fs))"

definition openBrowser :: "node_env \<Rightarrow> string \<Rightarrow> string option" where
  "openBrowser nv url =
     (case (if nv_goos nv = ''windows'' then nv_start nv ''rundll32'' [''url.dll,FileProtocolHandler'', url]
            else if nv_goos nv = ''darwin'' then nv_start nv ''open'' [url] else nv_start nv ''xdg-open'' [url]) of
        Inl e \<Rightarrow> Some e | Inr _ \<Rightarrow> None)"

definition dashboard_url :: "(config_error, ClientConfig) result \<Rightarrow> string" where
  "dashboard_url cfg =
     (case cfg of Inr c \<Rightarrow> if trim_space (cc_hub_url c) \<noteq> [] then hub_base (cc_hub_url c) else ''http://localhost:8080''
      | Inl _ \<Rightarrow> ''http://localhost:8080'') @ ''/web''"

definition ExecuteWeb :: "node_env \<Rightarrow> string \<Rightarrow> bool \<Rightarrow> bool \<Rightarrow> files \<Rightarrow> exit" where
  "ExecuteWeb nv path opn json fs =
     (let url = dashboard_url (load_config (nv_cli nv) path fs);
          out = (if json then cv_json (nv_cli nv) (JObj [(''url'', JStr url), (''status'', JStr ''ready'')])
            else ''TalkIntent Web Dashboard URL:'' @ nl @ nl @ ''  '' @ url @ nl @ nl
              @ ''(Note: Dashboard URL contains no credentials. Authenticate via Web UI prompt)'' @ nl)
      in if opn then (case openBrowser nv url of
             Some e \<Rightarrow> \<lparr>xt_code = 1, xt_stdout = out, xt_stderr = ''Failed to open browser automatically: '' @ e @ nl\<rparr>
           | None \<Rightarrow> succeeds out)
         else succeeds out)"

definition Version :: string where "Version = ''1.0.0''"

definition BuildTime :: string where "BuildTime = ''2026-09-20''"

definition ExecuteVersion :: "node_env \<Rightarrow> bool \<Rightarrow> exit" where
  "ExecuteVersion nv json =
     succeeds (if json then cv_json (nv_cli nv) (JObj [(''version'', JStr Version), (''build_time'', JStr BuildTime), (''os'', JStr (nv_goos nv)),
         (''arch'', JStr (nv_goarch nv)), (''go_version'', JStr (nv_gover nv))])
       else ''talkintent version '' @ Version @ '' ('' @ BuildTime @ '') '' @ nv_goos nv @ ''/'' @ nv_goarch nv @ '' ['' @ nv_gover nv @ '']'' @ nl)"

section \<open>Starting the hub (hub.go)\<close>

record hub_run =
  hr_config_error :: "hub_config_error \<Rightarrow> string"
  hr_random :: "string option"
  hr_random_error :: string
  hr_token_write :: "string option"
  hr_fingerprint :: "string \<Rightarrow> string"
  hr_store :: "string option"
  hr_server :: "string option"
  hr_serve :: "string option"

text \<open>What is shown of the settings; the token appears by fingerprint and length.\<close>

definition hub_banner :: "cli_env \<Rightarrow> hub_run \<Rightarrow> bool \<Rightarrow> HubConfig \<Rightarrow> string" where
  "hub_banner cv hr json cfg =
     (let fp = take 16 (hr_fingerprint hr (hc_admin_token cfg)); len = length (hc_admin_token cfg); tokenPath = hub_token_path cfg in
      if json then cv_json cv (JObj [(''status'', JStr ''starting''), (''addr'', JStr (hc_addr cfg)), (''data_dir'', JStr (hc_data_dir cfg)),
        (''public_url'', JStr (hc_public_url cfg)), (''admin_token_fp'', JStr fp), (''admin_token_len'', JInt (int len)), (''admin_token_store'', JStr tokenPath)])
      else ''TalkIntent Hub Server starting...'' @ nl @ ''  Listen Address:        '' @ hc_addr cfg @ nl @ ''  Data Directory:        '' @ hc_data_dir cfg @ nl
        @ ''  Public URL:            '' @ (if hc_public_url cfg \<noteq> [] then hc_public_url cfg else ''(none)'') @ nl
        @ ''  Admin Token File:      '' @ tokenPath @ '' (mode 0600)'' @ nl
        @ ''  Admin Token Fingerprint: sha256:'' @ fp @ ''... (length: '' @ fmt_nat len @ '' chars)'' @ nl
        @ ''  (Rule 5: full credentials are never logged or echoed to console)'' @ nl @ nl)"

definition ExecuteHub :: "node_env \<Rightarrow> checks \<Rightarrow> hub_run \<Rightarrow> HubOptions \<Rightarrow> files \<Rightarrow> exit \<times> files" where
  "ExecuteHub nv ck hr opts fs =
     (let cv = nv_cli nv in
      case BuildHubConfig (cv_env cv) (cv_home cv) ck opts of
        Inl e \<Rightarrow> (fails (''Failed to configure Hub server: '' @ hr_config_error hr e @ nl), fs)
      | Inr cfg0 \<Rightarrow>
          (case nv_mkdir nv (hc_data_dir cfg0) of
             Some e \<Rightarrow> (fails (''Failed to create data directory '' @ Quote (hc_data_dir cfg0) @ '': '' @ e @ nl), fs)
           | None \<Rightarrow>
               (case hub_admin_token (hr_random hr) (hr_token_write hr = None) cfg0 fs of
                  (Inl NoRandom, fs1) \<Rightarrow> (fails (''Failed to generate random admin token: '' @ hr_random_error hr @ nl), fs1)
                | (Inl NoTokenFile, fs1) \<Rightarrow> (fails (''Failed to write admin token file: '' @ the (hr_token_write hr) @ nl), fs1)
                | (Inr cfg, fs1) \<Rightarrow>
                    let out = hub_banner cv hr (uo_json opts) cfg; bad = (\<lambda>t. (\<lparr>xt_code = 1, xt_stdout = out, xt_stderr = t @ nl\<rparr>, fs1)) in
                    (case hr_store hr of
                       Some e \<Rightarrow> bad (''Failed to initialize JSONL storage in '' @ hc_data_dir cfg @ '': '' @ e)
                     | None \<Rightarrow>
                         (case hr_server hr of
                            Some e \<Rightarrow> bad (''Failed to create Hub server: '' @ e)
                          | None \<Rightarrow> (case hr_serve hr of Some e \<Rightarrow> bad (''Hub server error: '' @ e) | None \<Rightarrow> (succeeds out, fs1)))))))"

end
