(* ===== verification/Node_Properties.thy ===== *)
theory Node_Properties
  imports Node Commands_Properties
begin

text \<open>
  The daemon's PID file and what the commands that read it do, what the privacy commands write, and what the node shows of its state.
\<close>

section \<open>Numbers and files\<close>

lemma parse_digits_append: "parse_digits acc (s @ t) = Option.bind (parse_digits acc s) (\<lambda>n. parse_digits n t)"
  by (induction acc s rule: parse_digits.induct) (auto split: option.split)

lemma digit_val_digit: "d < 10 \<Longrightarrow> digit_val (char_of (48 + d)) = Some d"
  by (simp add: digit_val_def char_code_def)

lemma parse_fmt_nat: "parse_digits 0 (fmt_nat n) = Some n"
proof (induction n rule: fmt_nat.induct)
  case (1 n)
  then show ?case by (subst fmt_nat.simps) (auto simp: parse_digits_append digit_val_digit)
qed

lemma digit_char: "d < (10 :: nat) \<Longrightarrow> char_of (48 + d) \<noteq> CHR ''-'' \<and> char_of (48 + d) \<noteq> CHR ''+'' \<and> \<not> is_space (char_of (48 + d))"
  by (auto simp: is_space_def char_code_def dest!: arg_cong [where f = "of_char :: char \<Rightarrow> nat"])

lemma fmt_nat_chars: "fmt_nat n \<noteq> []" "c \<in> set (fmt_nat n) \<Longrightarrow> c \<noteq> CHR ''-'' \<and> c \<noteq> CHR ''+'' \<and> \<not> is_space c"
proof -
  show "fmt_nat n \<noteq> []" by (subst fmt_nat.simps) simp
  show "c \<in> set (fmt_nat n) \<Longrightarrow> c \<noteq> CHR ''-'' \<and> c \<noteq> CHR ''+'' \<and> \<not> is_space c"
  proof (induction n rule: fmt_nat.induct)
    case (1 n)
    show ?case
    proof (cases "n < 10")
      case True
      then show ?thesis using 1(2) digit_char [of n] by (subst (asm) fmt_nat.simps) simp
    next
      case False
      then have "c \<in> set (fmt_nat (n div 10)) \<or> c = char_of (48 + n mod 10)" using 1(2) by (subst (asm) fmt_nat.simps) auto
      then show ?thesis using 1(1) [OF False] digit_char [of "n mod 10"] by auto
    qed
  qed
qed

lemma Atoi_fmt:
  assumes "- (2 ^ 63) \<le> n" and "n < 2 ^ 63"
  shows "Atoi (fmt_status n) = Some n"
proof (cases "n < 0")
  case True
  then show ?thesis using assms by (simp add: Atoi_def fmt_status_def parse_fmt_nat fmt_nat_chars(1) Let_def)
next
  case False
  have "hd (fmt_nat (nat n)) \<noteq> CHR ''-''" "hd (fmt_nat (nat n)) \<noteq> CHR ''+''" using fmt_nat_chars(2) [OF hd_in_set [OF fmt_nat_chars(1)]] by blast+
  then show ?thesis using False assms by (simp add: Atoi_def fmt_status_def parse_fmt_nat fmt_nat_chars(1) Let_def)
qed

lemma fmt_status_solid: "list_all (\<lambda>c. \<not> is_space c) (fmt_status n)"
  by (auto simp: fmt_status_def list_all_iff dest: fmt_nat_chars(2)) (simp add: is_space_def)

lemma read_written_pid: "- (2 ^ 63) \<le> pid \<Longrightarrow> pid < 2 ^ 63 \<Longrightarrow> fs path = Some (fmt_status pid @ nl) \<Longrightarrow> read_pid path fs = Some pid"
  by (simp add: read_pid_def dropWhile_space_id [OF fmt_status_solid] Atoi_fmt)

lemma wait_gone_iff: "wait_gone ps pid n k \<longleftrightarrow> (\<exists>i < k. \<not> isProcessRunning ps (n + i) pid)"
proof (induction k arbitrary: n)
  case (Suc k)
  then show ?case by (auto simp: less_Suc_eq_0_disj)
qed simp

lemma rename_loop_iff: "rename_loop io a k \<longleftrightarrow> (\<exists>i < k. rn_rename io (a + i))"
proof (induction k arbitrary: a)
  case (Suc k)
  then show ?case by (auto simp: less_Suc_eq_0_disj)
qed simp

text \<open>The file is replaced whole or left as it was; of the others only the temporary one changes, and it is gone if the rename succeeded.\<close>

lemma write_renamed_atomic:
  assumes "write_renamed io path content fs = (ok, fs')" and "rn_tmp io \<noteq> path"
  shows "fs' path = (if ok then Some content else fs path) \<and> (ok \<longleftrightarrow> rn_write io \<and> (\<exists>i < 10. rn_rename io i))
    \<and> (\<forall>q. q \<noteq> path \<and> q \<noteq> rn_tmp io \<longrightarrow> fs' q = fs q) \<and> (ok \<longrightarrow> fs' (rn_tmp io) = None)"
  using assms by (auto simp: write_renamed_def Let_def rename_loop_iff split: if_splits)

lemma pid_path: "PIDFilePath (cv_env (nv_cli nv)) (cv_home (nv_cli nv)) [] = DaemonPIDFilePath nv"
  by (simp add: PIDFilePath_def DaemonPIDFilePath_def nv_home_def)

section \<open>The PID file\<close>

lemma WriteDaemonPID_ok:
  assumes "WriteDaemonPID nv pid fs = (None, fs')"
  shows "fs' = fs(DaemonPIDFilePath nv \<mapsto> fmt_status pid @ nl)"
  using assms by (auto simp: WriteDaemonPID_def Let_def split: option.splits)

lemma written_pid_read:
  "WriteDaemonPID nv pid fs = (None, fs') \<Longrightarrow> - (2 ^ 63) \<le> pid \<Longrightarrow> pid < 2 ^ 63 \<Longrightarrow> ReadDaemonPID nv fs' = Some pid"
  using WriteDaemonPID_ok [of nv pid fs fs'] read_written_pid [of pid fs' "DaemonPIDFilePath nv"] by (simp add: ReadDaemonPID_def)

lemma removed_pid [simp]: "ReadDaemonPID nv (RemoveDaemonPID nv fs) = None"
  by (simp add: ReadDaemonPID_def RemoveDaemonPID_def read_pid_def)


text \<open>While the recorded daemon runs, starting in the background starts nothing.\<close>

theorem detach_starts_once:
  assumes "executeDaemonDetach nv opts fs = (x, fs1)" and "xt_code x = 0" and "xt_stderr x = []" 
    and "case ReadDaemonPID nv fs of None \<Rightarrow> True | Some old \<Rightarrow> \<not> isProcessRunning (nv_ps nv) 0 old"
    and "nv_exe nv = Inr exe" and "nv_start nv exe (detach_args opts) = Inr pid" and "- (2 ^ 63) \<le> pid" and "pid < 2 ^ 63"
    and later: "nv_cli nv2 = nv_cli nv" "isProcessRunning (nv_ps nv2) 0 pid"
  shows "executeDaemonDetach nv2 opts2 fs1 = (succeeds (''TalkIntent daemon is already running (PID '' @ fmt_status pid @ '').'' @ nl), fs1)"
proof -
  have same: "ReadDaemonPID nv2 = ReadDaemonPID nv"
    using later(1) by (simp add: fun_eq_iff ReadDaemonPID_def DaemonPIDFilePath_def nv_home_def)
  obtain we fs0 where w: "WriteDaemonPID nv pid fs0 = (we, fs1)" "xt_stderr x = pid_warning we"
    using assms(1-6) by (auto simp: executeDaemonDetach_def Let_def fails_def split: option.splits prod.splits if_splits)
  have "we = None" using w(2) assms(3) by (cases we) (auto simp: pid_warning_def)
  then have "ReadDaemonPID nv fs1 = Some pid" using written_pid_read w(1) assms(7,8) by blast
  then show ?thesis using later(2) by (simp add: executeDaemonDetach_def same Let_def)
qed

text \<open>The foreground daemon does not look whether another one runs.  It writes its own number over the recorded one and removes the record when
  it ends, so that the first daemon, still running, can no longer be stopped: the command says that no daemon runs.\<close>

theorem second_daemon_hides_first:
  assumes "daemon_started nv opts fs = Inr (cfg, w, fs1)"
  shows "executeDaemonStop nv (snd (executeDaemonForeground nv opts fs)) =
    (succeeds (''TalkIntent daemon is not running (no PID file found).'' @ nl), snd (executeDaemonForeground nv opts fs))"
  using assms by (simp add: executeDaemonForeground_def daemon_ended_def executeDaemonStop_def)

section \<open>Privacy rules\<close>

text \<open>Creating the rules never overwrites a file: everything that was there stays, and on success the target exists or holds the template.\<close>

theorem privacy_init_keeps_files:
  assumes "executePrivacyInit nv opts fs = (x, fs')" and "\<forall>p. fs p \<noteq> None \<longrightarrow> cv_is_dir (nv_cli nv) p \<noteq> None"
  shows "fs \<subseteq>\<^sub>m fs' \<and> (\<forall>q. q \<noteq> init_path nv opts \<longrightarrow> fs' q = fs q)
    \<and> (xt_code x = 0 \<longrightarrow> cv_is_dir (nv_cli nv) (init_path nv opts) \<noteq> None \<or> fs' (init_path nv opts) = Some defaultPrivacyPromptTemplate)"
proof -
  have "fs (init_path nv opts) = None" if "cv_is_dir (nv_cli nv) (init_path nv opts) = None" using that assms(2) by blast
  then show ?thesis using assms(1) by (auto simp: executePrivacyInit_def Let_def map_le_def split: if_splits option.splits)
qed

section \<open>What the node shows\<close>

lemma hub_flags_token:
  assumes "uo_explicit opts = Some E" and "''admin-token'' \<in> E"
  shows "apply_hub_flags (opts\<lparr>uo_admin_token := t\<rparr>) c = (apply_hub_flags opts c)\<lparr>hc_admin_token := t\<rparr>"
  using assms by (simp add: apply_hub_flags_def flag_taken_def Let_def)

lemma hub_config_token:
  assumes "uo_explicit opts = Some E" and "''admin-token'' \<in> E"
  shows "BuildHubConfig env uh ck (opts\<lparr>uo_admin_token := t\<rparr>) = map_sum id (\<lambda>c. c\<lparr>hc_admin_token := t\<rparr>) (BuildHubConfig env uh ck opts)"
  by (auto simp: BuildHubConfig_def hub_flags_token [OF assms] Hub_Validate_def Let_def split: sum.split)

text \<open>Starting the hub shows the administrator's token only by its fingerprint and length: two tokens that agree in these cannot be told apart
  by anything that is printed, whether the start succeeds or not.\<close>

theorem hub_hides_token:
  assumes "uo_explicit opts = Some E" and "''admin-token'' \<in> E" and "t1 \<noteq> []" and "length t1 = length t2"
    and "take 16 (hr_fingerprint hr t1) = take 16 (hr_fingerprint hr t2)"
  shows "fst (ExecuteHub nv ck hr (opts\<lparr>uo_admin_token := t1\<rparr>) fs) = fst (ExecuteHub nv ck hr (opts\<lparr>uo_admin_token := t2\<rparr>) fs)"
proof -
  have ne: "t2 \<noteq> []" using assms(3,4) by auto
  have banner: "hub_banner cv hr j (c\<lparr>hc_admin_token := t1\<rparr>) = hub_banner cv hr j (c\<lparr>hc_admin_token := t2\<rparr>)" for cv j c
    using assms(4,5) by (simp add: hub_banner_def hub_token_path_def Let_def)
  show ?thesis
    unfolding ExecuteHub_def Let_def hub_config_token [OF assms(1,2)]
    by (cases "BuildHubConfig (cv_env (nv_cli nv)) (cv_home (nv_cli nv)) ck opts")
      (auto simp: hub_admin_token_def assms(3) ne banner split: option.split)
qed

text \<open>Setting up the model on a machine without configuration creates one.  From then on the status says that the node is paired, while every
  command that needs the hub says that it is not.\<close>

theorem status_claims_paired:
  assumes "fs (config_path cv path) = None" and "ExecuteLLM cv prov opts fs = (x, fs')" and "lo_config_path opts = path"
    and "lo_subcommand opts = ''set''" and "xt_code x = 0" and "io_temp (cv_io cv) \<noteq> Some (config_path cv path)"
    and "\<forall>c d. cv_encode cv c = Some d \<longrightarrow> cv_decode cv (d @ nl) = Some c" and "\<forall>k. trim_space (cv_env cv k) = []" and "nv_cli nv = cv"
  shows "sp_paired (status_report nv path fs') \<and> ExecuteMembers cv path json fs' = pair_first"
proof -
  have load: "load_config cv path fs = Inl ReadFailed"
    using assms(1) by (simp add: load_config_def LoadClientConfig_def config_path_def Let_def)
  have "save_config cv path (fresh_config\<lparr>cc_llm := set_llm opts (cc_llm fresh_config)\<rparr>) fs = (None, fs')"
    using assms(2-5) by (auto simp: ExecuteLLM_def load executeLLMSet_def Let_def split: if_splits prod.splits option.splits)
  then obtain data where d: "fs' (config_path cv path) = Some data"
      "cv_decode cv data = Some (save_sync (fresh_config\<lparr>cc_llm := set_llm opts (cc_llm fresh_config)\<rparr>))"
    using save_config_stores [OF _ assms(6,7)] by blast
  define c where "c = Client_ApplyEnvOverrides (cv_env cv) (client_defaults (Client_UnmarshalJSON
    (save_sync (fresh_config\<lparr>cc_llm := set_llm opts (cc_llm fresh_config)\<rparr>))))"
  have l: "load_config cv path fs' = Inr c"
    using d by (simp add: load_config_def LoadClientConfig_def config_path_def c_def Let_def)
  have env: "env_str (cv_env cv) k y = y" for k y using assms(8) by (simp add: env_str_def env_get_def)
  have "cc_hub_url c = []"
    by (simp add: c_def Client_ApplyEnvOverrides_def env client_defaults_def Client_UnmarshalJSON_def save_sync_keeps fresh_config_def Let_def)
  then show ?thesis using assms(9) l by (simp add: status_report_def ExecuteMembers_def not_paired_def trim_space_def trim_right_by_def Let_def)
qed

text \<open>The dry run of the privacy rules takes the global rules from their default place only, the daemon from where the configuration says: rules
  kept elsewhere are not in the dry run.\<close>

definition rules_of :: "prompt_fs \<Rightarrow> string \<Rightarrow> RunRequest \<Rightarrow> string" where
  "rules_of pf dflt req = LoadPrivacyPrompts pf dflt (rr_global_privacy_prompt_path req) (wc_privacy_prompt_path (rr_workspace req)) (wc_root_path (rr_workspace req))"

theorem dry_run_rules:
  "rules_of pf dflt (privacy_request now ws q (cc_llm cfg)) = rules_of pf dflt (run_request (cfg\<lparr>cc_global_privacy_prompt_path := []\<rparr>) req ws)"
  "rules_of \<lparr>pf_read = [''/etc/rules'' \<mapsto> ''Say nothing''], pf_stat = (\<lambda>_. False)\<rparr> ''/h/p''
     (privacy_request 0 zero_workspace q (cc_llm c)) = []"
  "rules_of \<lparr>pf_read = [''/etc/rules'' \<mapsto> ''Say nothing''], pf_stat = (\<lambda>_. False)\<rparr> ''/h/p''
     (run_request (c\<lparr>cc_global_privacy_prompt_path := ''/etc/rules''\<rparr>) req zero_workspace) = ''### Global Privacy Rules:'' @ nl @ ''Say nothing''"
proof -
  show "rules_of pf dflt (privacy_request now ws q (cc_llm cfg)) = rules_of pf dflt (run_request (cfg\<lparr>cc_global_privacy_prompt_path := []\<rparr>) req ws)"
    by (simp add: rules_of_def privacy_request_def run_request_def)
  have "LoadPrivacyPrompts \<lparr>pf_read = [''/etc/rules'' \<mapsto> ''Say nothing''], pf_stat = (\<lambda>_. False)\<rparr> ''/h/p'' [] [] [] = []" by code_simp
  then show "rules_of \<lparr>pf_read = [''/etc/rules'' \<mapsto> ''Say nothing''], pf_stat = (\<lambda>_. False)\<rparr> ''/h/p'' (privacy_request 0 zero_workspace q (cc_llm c)) = []"
    by (simp add: rules_of_def privacy_request_def zero_workspace_def)
  have "LoadPrivacyPrompts \<lparr>pf_read = [''/etc/rules'' \<mapsto> ''Say nothing''], pf_stat = (\<lambda>_. False)\<rparr> ''/h/p'' ''/etc/rules'' [] []
    = ''### Global Privacy Rules:'' @ nl @ ''Say nothing''" by code_simp
  then show "rules_of \<lparr>pf_read = [''/etc/rules'' \<mapsto> ''Say nothing''], pf_stat = (\<lambda>_. False)\<rparr> ''/h/p''
     (run_request (c\<lparr>cc_global_privacy_prompt_path := ''/etc/rules''\<rparr>) req zero_workspace) = ''### Global Privacy Rules:'' @ nl @ ''Say nothing''"
    by (simp add: rules_of_def run_request_def zero_workspace_def)
qed

section \<open>Concrete runs\<close>

text \<open>A machine on which process 7 obeys the request to end after three looks.\<close>

definition demo_ps :: process_ops where
  "demo_ps = \<lparr>ps_find = (\<lambda>_. None), ps_signal0 = (\<lambda>n pid. pid = 7 \<and> n < 3), ps_term = (\<lambda>_. True), ps_kill = (\<lambda>_. Some ''no''), ps_interrupt = (\<lambda>_. None)\<rparr>"

definition demo_node :: node_env where
  "demo_node = \<lparr>nv_cli = demo_cli, nv_ps = demo_ps, nv_exe = Inr ''/bin/ti'', nv_start = (\<lambda>_ _. Inr 7), nv_mkdir = (\<lambda>_. None), nv_write = (\<lambda>_. None),
     nv_open_log = (\<lambda>_. None), nv_pid = 9, nv_daemon = (\<lambda>_. Interrupted), nv_run = (\<lambda>_. Inl \<lparr>re_text = [], re_deadline = False\<rparr>),
     nv_prompts = \<lparr>pf_read = (\<lambda>_. None), pf_stat = (\<lambda>_. False)\<rparr>, nv_skill = [], nv_goos = ''linux'', nv_goarch = [], nv_gover = []\<rparr>"

definition demo_detach :: DaemonOptions where
  "demo_detach = \<lparr>do_config_path = [], do_workspace = [], do_detach = True, do_action = [], do_json = False\<rparr>"

lemma demo_pid_path: "DaemonPIDFilePath demo_node = ''/h/.talkintent/daemon.pid''"
  by code_simp


theorem detach_starts_once_witness:
  "\<exists>fs1. snd (executeDaemonDetach demo_node demo_detach (\<lambda>_. None)) = fs1
    \<and> xt_stdout (fst (executeDaemonDetach (demo_node\<lparr>nv_start := (\<lambda>_ _. Inr 8)\<rparr>) demo_detach fs1)) = ''TalkIntent daemon is already running (PID 7).'' @ nl"
proof -
  let ?r = "executeDaemonDetach demo_node demo_detach (\<lambda>_. None)"
  have z: "xt_code (fst ?r) = 0" "xt_stderr (fst ?r) = []"
    "case ReadDaemonPID demo_node (\<lambda>_. None) of None \<Rightarrow> True | Some old \<Rightarrow> \<not> isProcessRunning (nv_ps demo_node) 0 old" by code_simp+
  have p: "nv_exe demo_node = Inr ''/bin/ti''" "nv_start demo_node ''/bin/ti'' (detach_args demo_detach) = Inr 7" "- (2 ^ 63) \<le> (7 :: int)" "(7 :: int) < 2 ^ 63"
    "nv_cli (demo_node\<lparr>nv_start := (\<lambda>_ _. Inr 8)\<rparr>) = nv_cli demo_node" "isProcessRunning (nv_ps (demo_node\<lparr>nv_start := (\<lambda>_ _. Inr 8)\<rparr>)) 0 7"
    by (simp_all add: demo_node_def demo_ps_def isProcessRunning_def)
  have f: "fmt_status 7 = ''7''" by code_simp
  show ?thesis
    using detach_starts_once [of demo_node demo_detach "\<lambda>_. None", OF prod.collapse [symmetric] z p, of demo_detach] by (simp add: f succeeds_def)
qed

definition demo_hub_run :: hub_run where
  "demo_hub_run = \<lparr>hr_config_error = (\<lambda>_. []), hr_random = None, hr_random_error = [], hr_token_write = None, hr_fingerprint = (\<lambda>_. ''abc''), hr_store = None,
     hr_server = None, hr_serve = None\<rparr>"

theorem hub_hides_token_witness:
  "fst (ExecuteHub demo_node \<lparr>url_parse = (\<lambda>_. None), stat_ok = (\<lambda>_. True)\<rparr> demo_hub_run (demo_hub_opts\<lparr>uo_explicit := Some {''admin-token''}, uo_admin_token := ''one''\<rparr>) (\<lambda>_. None))
   = fst (ExecuteHub demo_node \<lparr>url_parse = (\<lambda>_. None), stat_ok = (\<lambda>_. True)\<rparr> demo_hub_run (demo_hub_opts\<lparr>uo_explicit := Some {''admin-token''}, uo_admin_token := ''two''\<rparr>) (\<lambda>_. None))"
  using hub_hides_token [of "demo_hub_opts\<lparr>uo_explicit := Some {''admin-token''}\<rparr>" "{''admin-token''}" "''one''" "''two''" demo_hub_run demo_node
      "\<lparr>url_parse = (\<lambda>_. None), stat_ok = (\<lambda>_. True)\<rparr>" "\<lambda>_. None"]
  by (simp add: demo_hub_run_def demo_hub_opts_def)

end
