(* ===== verification/Command_Line.thy ===== *)
theory Command_Line
  imports Node
begin

text \<open>
  The command line of \<^verbatim>\<open>internal/cli/runner.go\<close>: the flags of every command as the \<^verbatim>\<open>flag\<close> package of Go reads them, the loops that sort the
  arguments into flags and words, and the dispatch to the commands.  The usage text that \<^verbatim>\<open>flag\<close> prints and the parsing of floating-point
  numbers are parameters.
\<close>

section \<open>Numbers (strconv)\<close>

datatype num_error = ErrSyntax | ErrRange

definition digit_of :: "char \<Rightarrow> nat option" where
  "digit_of c =
     (let n = char_code c; l = char_code (lower_char c) in
      if 48 \<le> n \<and> n \<le> 57 then Some (n - 48) else if 97 \<le> l \<and> l \<le> 122 then Some (l - 97 + 10) else None)"

text \<open>The digits of a number in a base, underscores skipped.\<close>

fun parse_base :: "nat \<Rightarrow> nat \<Rightarrow> string \<Rightarrow> (num_error, nat) result" where
  "parse_base b n [] = Inr n"
| "parse_base b n (c # s) =
     (if c = CHR ''_'' then parse_base b n s
      else (case digit_of c of
         None \<Rightarrow> Inl ErrSyntax
       | Some d \<Rightarrow> if d \<ge> b then Inl ErrSyntax else if n * b + d \<ge> 2 ^ 64 then Inl ErrRange else parse_base b (n * b + d) s))"

definition base_letter :: "string \<Rightarrow> char \<Rightarrow> bool" where
  "base_letter s l \<longleftrightarrow> length s \<ge> 2 \<and> hd s = CHR ''0'' \<and> lower_char (s ! 1) = l"

definition base_of_number :: "string \<Rightarrow> nat \<times> string" where
  "base_of_number s =
     (if hd s \<noteq> CHR ''0'' then (10, s)
      else if length s \<ge> 3 \<and> base_letter s (CHR ''b'') then (2, drop 2 s)
      else if length s \<ge> 3 \<and> base_letter s (CHR ''o'') then (8, drop 2 s)
      else if length s \<ge> 3 \<and> base_letter s (CHR ''x'') then (16, drop 2 s) else (8, tl s))"

text \<open>Underscores only between digits: what was seen last is \<open>0\<close> (a digit), \<open>_\<close>, or something else.\<close>

fun underscores :: "bool \<Rightarrow> char \<Rightarrow> string \<Rightarrow> bool" where
  "underscores hex i [] = (i \<noteq> CHR ''_'')"
| "underscores hex i (c # s) =
     (let n = char_code c; l = char_code (lower_char c) in
      if 48 \<le> n \<and> n \<le> 57 \<or> hex \<and> 97 \<le> l \<and> l \<le> 102 then underscores hex (CHR ''0'') s
      else if c = CHR ''_'' then (if i \<noteq> CHR ''0'' then False else underscores hex (CHR ''_'') s)
      else if i = CHR ''_'' then False else underscores hex (CHR ''!'') s)"

definition underscoreOK :: "string \<Rightarrow> bool" where
  "underscoreOK s =
     (if base_letter s (CHR ''b'') \<or> base_letter s (CHR ''o'') \<or> base_letter s (CHR ''x'')
      then underscores (base_letter s (CHR ''x'')) (CHR ''0'') (drop 2 s) else underscores False (CHR ''^'') s)"

definition ParseUint :: "string \<Rightarrow> (num_error, nat) result" where
  "ParseUint s =
     (if s = [] then Inl ErrSyntax
      else
        let (b, body) = base_of_number s in
        (case parse_base b 0 body of
           Inl e \<Rightarrow> Inl e
         | Inr n \<Rightarrow> if CHR ''_'' \<in> set body \<and> \<not> underscoreOK s then Inl ErrSyntax else Inr n))"

definition ParseInt :: "string \<Rightarrow> (num_error, int) result" where
  "ParseInt s =
     (if s = [] then Inl ErrSyntax
      else
        let neg = (hd s = CHR ''-''); t = (if hd s = CHR ''+'' \<or> hd s = CHR ''-'' then tl s else s) in
        (case ParseUint t of
           Inl e \<Rightarrow> Inl e
         | Inr n \<Rightarrow> if \<not> neg \<and> n \<ge> 2 ^ 63 \<or> neg \<and> n > 2 ^ 63 then Inl ErrRange else Inr (if neg then - int n else int n)))"

definition ParseBool :: "string \<Rightarrow> bool option" where
  "ParseBool s =
     (if s \<in> {''1'', ''t'', ''T'', ''TRUE'', ''true'', ''True''} then Some True
      else if s \<in> {''0'', ''f'', ''F'', ''FALSE'', ''false'', ''False''} then Some False else None)"

section \<open>Flags (package flag)\<close>

datatype flag_value = SV string | IV int | BV bool | FV rat

datatype flag_error = ErrHelp | BadFlag string

type_synonym flags = "(string \<times> flag_value) list"

definition num_error_text :: "num_error \<Rightarrow> string" where
  "num_error_text e = (case e of ErrSyntax \<Rightarrow> ''parse error'' | ErrRange \<Rightarrow> ''value out of range'')"

definition set_value :: "(string \<Rightarrow> (num_error, rat) result) \<Rightarrow> flag_value \<Rightarrow> string \<Rightarrow> (num_error, flag_value) result" where
  "set_value pf d v =
     (case d of
        SV _ \<Rightarrow> Inr (SV v)
      | IV _ \<Rightarrow> map_sum id IV (ParseInt v)
      | BV _ \<Rightarrow> (case ParseBool v of None \<Rightarrow> Inl ErrSyntax | Some b \<Rightarrow> Inr (BV b))
      | FV _ \<Rightarrow> map_sum id FV (pf v))"

definition flag_name :: "string \<Rightarrow> string \<times> string option" where
  "flag_name s = (takeWhile (\<lambda>c. c \<noteq> CHR ''='') s, case dropWhile (\<lambda>c. c \<noteq> CHR ''='') s of [] \<Rightarrow> None | _ # v \<Rightarrow> Some v)"

text \<open>\<open>parse_flags pf formal acc args\<close>: the flags that were set, the latest first, and the arguments that are left.\<close>

fun parse_flags :: "(string \<Rightarrow> (num_error, rat) result) \<Rightarrow> flags \<Rightarrow> flags \<Rightarrow> string list \<Rightarrow> (flag_error, flags \<times> string list) result" where
  "parse_flags pf formal acc [] = Inr (acc, [])"
| "parse_flags pf formal acc (s # rest) =
     (if length s < 2 \<or> hd s \<noteq> CHR ''-'' then Inr (acc, s # rest)
      else if s = ''--'' then Inr (acc, rest)
      else
        let nm = (if s ! 1 = CHR ''-'' then drop 2 s else drop 1 s); (name, val) = flag_name nm in
        if nm = [] \<or> hd nm = CHR ''-'' \<or> hd nm = CHR ''='' then Inl (BadFlag (''bad flag syntax: '' @ s))
        else (case map_of formal name of
           None \<Rightarrow> if name = ''help'' \<or> name = ''h'' then Inl ErrHelp else Inl (BadFlag (''flag provided but not defined: -'' @ name))
         | Some d \<Rightarrow>
             (case d of
                BV _ \<Rightarrow>
                  let v = (case val of None \<Rightarrow> ''true'' | Some w \<Rightarrow> w) in
                  (case ParseBool v of
                     None \<Rightarrow> Inl (BadFlag (''invalid boolean value '' @ Quote v @ '' for -'' @ name @ '': parse error''))
                   | Some b \<Rightarrow> parse_flags pf formal ((name, BV b) # acc) rest)
              | _ \<Rightarrow>
                  (case val of
                     Some v \<Rightarrow>
                       (case set_value pf d v of
                          Inl e \<Rightarrow> Inl (BadFlag (''invalid value '' @ Quote v @ '' for flag -'' @ name @ '': '' @ num_error_text e))
                        | Inr x \<Rightarrow> parse_flags pf formal ((name, x) # acc) rest)
                   | None \<Rightarrow>
                       (case rest of
                          [] \<Rightarrow> Inl (BadFlag (''flag needs an argument: -'' @ name))
                        | v # rest' \<Rightarrow>
                            (case set_value pf d v of
                               Inl e \<Rightarrow> Inl (BadFlag (''invalid value '' @ Quote v @ '' for flag -'' @ name @ '': '' @ num_error_text e))
                             | Inr x \<Rightarrow> parse_flags pf formal ((name, x) # acc) rest'))))))"

declare parse_flags.simps(2) [simp del]

text \<open>The value of a flag: the last one given, or the default.\<close>

definition flag_of :: "flags \<Rightarrow> flags \<Rightarrow> string \<Rightarrow> flag_value option" where
  "flag_of formal acc name = (case map_of acc name of Some v \<Rightarrow> Some v | None \<Rightarrow> map_of formal name)"

definition str_of :: "flag_value option \<Rightarrow> string" where
  "str_of v = (case v of Some (SV s) \<Rightarrow> s | _ \<Rightarrow> [])"

definition int_of :: "flag_value option \<Rightarrow> int" where
  "int_of v = (case v of Some (IV n) \<Rightarrow> n | _ \<Rightarrow> 0)"

definition bool_of :: "flag_value option \<Rightarrow> bool" where
  "bool_of v = (case v of Some (BV b) \<Rightarrow> b | _ \<Rightarrow> False)"

definition rat_of :: "flag_value option \<Rightarrow> rat" where
  "rat_of v = (case v of Some (FV r) \<Rightarrow> r | _ \<Rightarrow> 0)"

section \<open>Sorting the arguments\<close>

text \<open>The loops at the start of the commands that accept flags after words: flags with the values that follow them, and words.  \<open>dash\<close> says
  whether a value may begin with a dash.\<close>

definition value_flag :: "string list \<Rightarrow> string \<Rightarrow> bool" where
  "value_flag names a \<longleftrightarrow> a \<in> set (map (\<lambda>n. ''-'' @ n) names) \<or> a \<in> set (map (\<lambda>n. ''--'' @ n) names)"

fun split_args :: "string list \<Rightarrow> bool \<Rightarrow> string list \<Rightarrow> string list \<times> string list" where
  "split_args names dash [] = ([], [])"
| "split_args names dash (a # rest) =
     (if \<not> has_prefix a ''-'' then (let (fl, ws) = split_args names dash rest in (fl, a # ws))
      else if value_flag names a
      then (case rest of
              [] \<Rightarrow> ([a], [])
            | v # rest' \<Rightarrow>
                if dash \<or> \<not> has_prefix v ''-'' then (let (fl, ws) = split_args names dash rest' in (a # v # fl, ws))
                else (let (fl, ws) = split_args names dash rest in (a # fl, ws)))
      else (let (fl, ws) = split_args names dash rest in (a # fl, ws)))"

declare split_args.simps(2) [simp del]

text \<open>The first word that is an action, and the other words.\<close>

definition take_word :: "string \<Rightarrow> string list \<Rightarrow> string \<times> string list \<Rightarrow> string \<Rightarrow> string \<times> string list" where
  "take_word dflt actions s w = (if fst s = dflt \<and> w \<in> set actions then (w, snd s) else (fst s, snd s @ [w]))"

definition find_action :: "string \<Rightarrow> string list \<Rightarrow> string list \<Rightarrow> string \<times> string list" where
  "find_action dflt actions ws = foldl (take_word dflt actions) (dflt, []) ws"

section \<open>The commands\<close>

record line_env =
  le_node :: node_env
  le_checks :: checks
  le_hub :: hub_run
  le_provider :: "LLMConfig \<Rightarrow> (string, provider) result"
  le_float :: "string \<Rightarrow> (num_error, rat) result"
  le_usage :: "string \<Rightarrow> string"
  le_status_json :: "StatusReport \<Rightarrow> string"
  le_payload_json :: "QueryResponsePayload \<Rightarrow> string"

abbreviation le_cli :: "line_env \<Rightarrow> cli_env" where
  "le_cli le \<equiv> nv_cli (le_node le)"

definition flag_failure :: "line_env \<Rightarrow> string \<Rightarrow> flag_error \<Rightarrow> exit" where
  "flag_failure le cmd e = \<lparr>xt_code = 2, xt_stdout = [], xt_stderr = (case e of ErrHelp \<Rightarrow> [] | BadFlag t \<Rightarrow> t @ nl) @ le_usage le cmd\<rparr>"

definition hub_flags :: flags where
  "hub_flags = [(''addr'', SV DefaultHubAddr), (''data-dir'', SV ''./data''), (''admin-token'', SV []), (''public-url'', SV []),
     (''heartbeat'', IV DefaultHeartbeatIntervalSec), (''default-query-ttl'', IV DefaultQueryTTL), (''max-query-ttl'', IV MaxQueryTTL),
     (''max-probe-timeout'', IV DefaultMaxProbeTimeoutSec), (''rate-limit-qpm'', IV DefaultRateLimitQPM), (''rate-limit-burst'', IV DefaultRateLimitBurst),
     (''json'', BV False)]"

definition hub_options :: "flags \<Rightarrow> HubOptions" where
  "hub_options acc =
     (let v = flag_of hub_flags acc in
      \<lparr>uo_addr = str_of (v ''addr''), uo_data_dir = str_of (v ''data-dir''), uo_admin_token = str_of (v ''admin-token''),
       uo_public_url = str_of (v ''public-url''), uo_heartbeat_interval_sec = int_of (v ''heartbeat''),
       uo_default_query_ttl_sec = int_of (v ''default-query-ttl''), uo_max_query_ttl_sec = int_of (v ''max-query-ttl''),
       uo_max_probe_timeout_sec = int_of (v ''max-probe-timeout''), uo_rate_limit_qpm = int_of (v ''rate-limit-qpm''),
       uo_rate_limit_burst = int_of (v ''rate-limit-burst''), uo_json = bool_of (v ''json''), uo_explicit = Some (set (map fst acc))\<rparr>)"

definition runHubCmd :: "line_env \<Rightarrow> string list \<Rightarrow> files \<Rightarrow> exit \<times> files" where
  "runHubCmd le args fs =
     (case parse_flags (le_float le) hub_flags [] args of
        Inl ErrHelp \<Rightarrow> ((flag_failure le ''hub'' ErrHelp)\<lparr>xt_code := 0\<rparr>, fs)
      | Inl e \<Rightarrow> (flag_failure le ''hub'' e, fs)
      | Inr (acc, _) \<Rightarrow> ExecuteHub (le_node le) (le_checks le) (le_hub le) (hub_options acc) fs)"

definition pair_flags :: flags where
  "pair_flags = [(''hub'', SV []), (''code'', SV []), (''name'', SV []), (''config'', SV []), (''hub-ca-file'', SV []), (''json'', BV False)]"

definition pair_options :: "environ \<Rightarrow> flags \<Rightarrow> string list \<Rightarrow> PairOptions" where
  "pair_options env acc posArgs =
     (let v = flag_of pair_flags acc; hub = str_of (v ''hub''); code = str_of (v ''code'');
          hub0 = (if hub = [] \<and> env ''TALKINTENT_HUB_URL'' \<noteq> [] then env ''TALKINTENT_HUB_URL'' else hub);
          (hubVal, codeVal) =
            (if code = []
             then (if hub = [] \<and> length posArgs \<ge> 2 then (posArgs ! 0, posArgs ! 1) else if length posArgs \<ge> 1 then (hub0, posArgs ! 0) else (hub0, code))
             else if hub = [] \<and> length posArgs \<ge> 1 then (posArgs ! 0, code) else (hub0, code))
      in \<lparr>po_hub_url = hubVal, po_invite_code = codeVal, po_machine_name = str_of (v ''name''), po_config_path = str_of (v ''config''),
          po_hub_ca_file = str_of (v ''hub-ca-file''), po_json = bool_of (v ''json'')\<rparr>)"

definition runPairCmd :: "line_env \<Rightarrow> string list \<Rightarrow> files \<Rightarrow> exit \<times> files" where
  "runPairCmd le args fs =
     (let (flagArgs, posArgs) = split_args [''hub'', ''code'', ''name'', ''config'', ''hub-ca-file''] True args in
      case parse_flags (le_float le) pair_flags [] flagArgs of
        Inl e \<Rightarrow> (flag_failure le ''pair'' e, fs)
      | Inr (acc, _) \<Rightarrow> ExecutePair (le_cli le) (pair_options (cv_env (le_cli le)) acc posArgs) fs)"

definition daemon_flags :: flags where
  "daemon_flags = [(''config'', SV []), (''workspace'', SV []), (''detach'', BV False), (''json'', BV False)]"

definition daemon_options :: "flags \<Rightarrow> string \<Rightarrow> DaemonOptions" where
  "daemon_options acc action =
     (let v = flag_of daemon_flags acc in
      \<lparr>do_config_path = str_of (v ''config''), do_workspace = str_of (v ''workspace''), do_detach = bool_of (v ''detach''), do_action = action,
       do_json = bool_of (v ''json'')\<rparr>)"

definition runDaemonCmd :: "line_env \<Rightarrow> string list \<Rightarrow> files \<Rightarrow> exit \<times> files" where
  "runDaemonCmd le args fs =
     (let (flagArgs, ws) = split_args [''config'', ''workspace''] False args; action = fst (find_action [] [''stop'', ''status'', ''start''] ws) in
      case parse_flags (le_float le) daemon_flags [] flagArgs of
        Inl e \<Rightarrow> (flag_failure le ''daemon'' e, fs)
      | Inr (acc, _) \<Rightarrow> ExecuteDaemon (le_node le) (daemon_options acc action) fs)"

definition ask_flags :: flags where
  "ask_flags = [(''target'', SV []), (''to'', SV []), (''query'', SV []), (''q'', SV []), (''wait'', BV True), (''timeout'', IV 60), (''ttl'', IV 86400),
     (''workspace'', SV []), (''config'', SV []), (''json'', BV False)]"

definition ask_options :: "flags \<Rightarrow> string list \<Rightarrow> RunAskOptions" where
  "ask_options acc args =
     (let v = flag_of ask_flags acc; s = (\<lambda>n. str_of (v n));
          queryVal = (if s ''query'' = [] then s ''q'' else s ''query'')
      in \<lparr>ro_target = (if s ''target'' = [] then s ''to'' else s ''target''),
          ro_query = (if queryVal = [] \<and> args \<noteq> [] then join_with '' '' args else queryVal), ro_workspace = s ''workspace'',
          ro_timeout_sec = int_of (v ''timeout''), ro_ttl_sec = int_of (v ''ttl''), ro_wait = bool_of (v ''wait''), ro_json = bool_of (v ''json'')\<rparr>)"

text \<open>Asking may wait forever.\<close>

definition runAskCmd :: "line_env \<Rightarrow> string list \<Rightarrow> files \<Rightarrow> exit option" where
  "runAskCmd le args fs =
     (case parse_flags (le_float le) ask_flags [] args of
        Inl e \<Rightarrow> Some (flag_failure le ''ask'' e)
      | Inr (acc, rest) \<Rightarrow>
          (case load_config (le_cli le) (str_of (flag_of ask_flags acc ''config'')) fs of
             Inl e \<Rightarrow> Some (fails (''Error: failed to load client config: '' @ cv_config_error (le_cli le) e @ ''. Have you run '' @ apos @ ''talkintent pair'' @ apos @ ''?'' @ nl))
           | Inr cfg \<Rightarrow> ExecuteAsk (cv_net (le_cli le)) (Some cfg) (ask_options acc rest)))"

definition members_flags :: flags where
  "members_flags = [(''config'', SV []), (''json'', BV False)]"

definition runMembersCmd :: "line_env \<Rightarrow> string list \<Rightarrow> files \<Rightarrow> exit" where
  "runMembersCmd le args fs =
     (case parse_flags (le_float le) members_flags [] args of
        Inl e \<Rightarrow> flag_failure le ''members'' e
      | Inr (acc, _) \<Rightarrow> let v = flag_of members_flags acc in ExecuteMembers (le_cli le) (str_of (v ''config'')) (bool_of (v ''json'')) fs)"

definition history_flags :: flags where
  "history_flags = [(''inbound'', BV False), (''outbound'', BV False), (''limit'', IV 20), (''offset'', IV 0), (''config'', SV []), (''json'', BV False)]"

definition runHistoryCmd :: "line_env \<Rightarrow> string list \<Rightarrow> files \<Rightarrow> exit" where
  "runHistoryCmd le args fs =
     (case parse_flags (le_float le) history_flags [] args of
        Inl e \<Rightarrow> flag_failure le ''history'' e
      | Inr (acc, _) \<Rightarrow>
          let v = flag_of history_flags acc in
          ExecuteHistory (le_cli le) \<lparr>ho_config_path = str_of (v ''config''), ho_inbound = bool_of (v ''inbound''), ho_outbound = bool_of (v ''outbound''),
            ho_limit = int_of (v ''limit''), ho_offset = int_of (v ''offset''), ho_json = bool_of (v ''json'')\<rparr> fs)"

definition llm_flags :: flags where
  "llm_flags = [(''provider'', SV []), (''base-url'', SV []), (''api-key'', SV []), (''model'', SV []), (''max-tokens'', IV 0), (''temperature'', FV 0),
     (''ca-file'', SV []), (''tls-server-name'', SV []), (''insecure-skip-verify'', BV False), (''request-timeout'', IV 0), (''max-steps'', IV 0),
     (''config'', SV []), (''json'', BV False)]"

definition llm_options :: "flags \<Rightarrow> string \<Rightarrow> LLMOptions" where
  "llm_options acc action =
     (let v = flag_of llm_flags acc in
      \<lparr>lo_config_path = str_of (v ''config''), lo_subcommand = action, lo_provider = str_of (v ''provider''), lo_base_url = str_of (v ''base-url''),
       lo_api_key = str_of (v ''api-key''), lo_model = str_of (v ''model''), lo_max_tokens = int_of (v ''max-tokens''),
       lo_temperature = rat_of (v ''temperature''), lo_ca_file = str_of (v ''ca-file''), lo_tls_server_name = str_of (v ''tls-server-name''),
       lo_insecure_skip_verify = bool_of (v ''insecure-skip-verify''), lo_request_timeout_sec = int_of (v ''request-timeout''),
       lo_max_steps = int_of (v ''max-steps''), lo_json = bool_of (v ''json'')\<rparr>)"

definition runLLMCmd :: "line_env \<Rightarrow> string list \<Rightarrow> files \<Rightarrow> exit \<times> files" where
  "runLLMCmd le args fs =
     (let (flagArgs, ws) = split_args [''provider'', ''base-url'', ''api-key'', ''model'', ''max-tokens'', ''temperature'', ''ca-file'', ''tls-server-name'',
            ''request-timeout'', ''max-steps'', ''config''] False args;
          action = fst (find_action ''show'' [''set'', ''show'', ''get'', ''test''] ws)
      in case parse_flags (le_float le) llm_flags [] flagArgs of
           Inl e \<Rightarrow> (flag_failure le ''llm'' e, fs)
         | Inr (acc, _) \<Rightarrow> ExecuteLLM (le_cli le) (le_provider le) (llm_options acc action) fs)"

definition workspace_flags :: flags where
  "workspace_flags = [(''config'', SV []), (''name'', SV []), (''json'', BV False)]"

definition workspace_options :: "flags \<Rightarrow> string \<times> string list \<Rightarrow> WorkspaceOptions" where
  "workspace_options acc ap =
     (let v = flag_of workspace_flags acc; posArgs = snd ap; target = (if posArgs \<noteq> [] then posArgs ! 0 else []); nm = str_of (v ''name'') in
      \<lparr>wo_config_path = str_of (v ''config''), wo_subcommand = fst ap, wo_path = target,
       wo_name = (if nm = [] \<and> length posArgs > 1 then posArgs ! 1 else nm), wo_target = target, wo_json = bool_of (v ''json'')\<rparr>)"

definition runWorkspaceCmd :: "line_env \<Rightarrow> string list \<Rightarrow> files \<Rightarrow> exit \<times> files" where
  "runWorkspaceCmd le args fs =
     (let (flagArgs, ws) = split_args [''config'', ''name''] False args in
      case parse_flags (le_float le) workspace_flags [] flagArgs of
        Inl e \<Rightarrow> (flag_failure le ''workspace'' e, fs)
      | Inr (acc, _) \<Rightarrow>
          ExecuteWorkspace (le_cli le) (workspace_options acc (find_action ''list'' [''list'', ''ls'', ''add'', ''remove'', ''rm''] ws)) fs)"

definition privacy_flags :: flags where
  "privacy_flags = [(''config'', SV []), (''workspace'', SV []), (''path'', SV []), (''json'', BV False)]"

definition runPrivacyCmd :: "line_env \<Rightarrow> string list \<Rightarrow> files \<Rightarrow> exit \<times> files" where
  "runPrivacyCmd le args fs =
     (let (flagArgs, ws) = split_args [''config'', ''workspace'', ''path''] False args;
          (action, posArgs) = find_action ''show'' [''init'', ''show'', ''edit-path'', ''test''] ws
      in case parse_flags (le_float le) privacy_flags [] flagArgs of
           Inl e \<Rightarrow> (flag_failure le ''privacy'' e, fs)
         | Inr (acc, _) \<Rightarrow>
             let v = flag_of privacy_flags acc in
             ExecutePrivacy (le_node le) (le_payload_json le) \<lparr>pv_config_path = str_of (v ''config''), pv_subcommand = action,
               pv_query = join_with '' '' posArgs, pv_workspace = str_of (v ''workspace''), pv_path = str_of (v ''path''), pv_json = bool_of (v ''json'')\<rparr> fs)"

definition web_flags :: flags where
  "web_flags = [(''config'', SV []), (''open'', BV False), (''json'', BV False)]"

definition runWebCmd :: "line_env \<Rightarrow> string list \<Rightarrow> files \<Rightarrow> exit" where
  "runWebCmd le args fs =
     (case parse_flags (le_float le) web_flags [] args of
        Inl e \<Rightarrow> flag_failure le ''web'' e
      | Inr (acc, _) \<Rightarrow>
          let v = flag_of web_flags acc in ExecuteWeb (le_node le) (str_of (v ''config'')) (bool_of (v ''open'')) (bool_of (v ''json'')) fs)"

definition skill_flags :: flags where
  "skill_flags = [(''dir'', SV []), (''json'', BV False)]"

definition runSkillCmd :: "line_env \<Rightarrow> string list \<Rightarrow> files \<Rightarrow> exit \<times> files" where
  "runSkillCmd le args fs =
     (let (flagArgs, ws) = split_args [''dir''] False args; action = fst (find_action ''install'' [''install'', ''show'', ''cat''] ws) in
      case parse_flags (le_float le) skill_flags [] flagArgs of
        Inl e \<Rightarrow> (flag_failure le ''skill'' e, fs)
      | Inr (acc, _) \<Rightarrow>
          let v = flag_of skill_flags acc in
          ExecuteSkill (le_node le) \<lparr>so_subcommand = action, so_dir = str_of (v ''dir''), so_json = bool_of (v ''json'')\<rparr> fs)"

definition invite_flags :: flags where
  "invite_flags = [(''hub'', SV []), (''admin-token'', SV []), (''name'', SV []), (''alias'', SV []), (''expires-hours'', IV 72), (''config'', SV []),
     (''hub-ca-file'', SV []), (''json'', BV False)]"

definition split_aliases :: "string \<Rightarrow> string list" where
  "split_aliases s = (if s = [] then [] else filter (\<lambda>a. a \<noteq> []) (map trim_space (split_char (CHR '','') s)))"

definition invite_options :: "flags \<Rightarrow> string list \<Rightarrow> InviteOptions" where
  "invite_options acc args =
     (let v = flag_of invite_flags acc; s = (\<lambda>n. str_of (v n)) in
      \<lparr>io_config_path = s ''config'', io_hub_url = s ''hub'', io_admin_token = s ''admin-token'',
       io_target_name = (if s ''name'' = [] \<and> args \<noteq> [] then args ! 0 else s ''name''), io_aliases = split_aliases (s ''alias''),
       io_expires_in_hours = int_of (v ''expires-hours''), io_hub_ca_file = s ''hub-ca-file'', io_json = bool_of (v ''json'')\<rparr>)"

definition runInviteCmd :: "line_env \<Rightarrow> string list \<Rightarrow> files \<Rightarrow> exit" where
  "runInviteCmd le args fs =
     (case parse_flags (le_float le) invite_flags [] args of
        Inl e \<Rightarrow> flag_failure le ''invite'' e
      | Inr (acc, rest) \<Rightarrow> ExecuteInvite (le_cli le) (invite_options acc rest) fs)"

definition runStatusCmd :: "line_env \<Rightarrow> string list \<Rightarrow> files \<Rightarrow> exit" where
  "runStatusCmd le args fs =
     (case parse_flags (le_float le) members_flags [] args of
        Inl e \<Rightarrow> flag_failure le ''status'' e
      | Inr (acc, _) \<Rightarrow>
          let v = flag_of members_flags acc in ExecuteStatus (le_node le) (le_status_json le) (str_of (v ''config'')) (bool_of (v ''json'')) fs)"

definition version_flags :: flags where
  "version_flags = [(''json'', BV False)]"

definition runVersionCmd :: "line_env \<Rightarrow> string list \<Rightarrow> exit" where
  "runVersionCmd le args =
     (case parse_flags (le_float le) version_flags [] args of
        Inl e \<Rightarrow> flag_failure le ''version'' e
      | Inr (acc, _) \<Rightarrow> ExecuteVersion (le_node le) (bool_of (flag_of version_flags acc ''json'')))"

section \<open>Dispatch\<close>

definition PrintUsage :: string where
  "PrintUsage = concat (map (\<lambda>l. l @ nl) [
     ''TalkIntent '' @ [CHR 0xE2, CHR 0x80, CHR 0x94] @ '' '' @ [CHR 0xE7, CHR 0xA0, CHR 0x94, CHR 0xE5, CHR 0x8F, CHR 0x91, CHR 0xE5, CHR 0x8D, CHR 0x8F, CHR 0xE5, CHR 0x90, CHR 0x8C, CHR 0xE6, CHR 0x84, CHR 0x9F, CHR 0xE7, CHR 0x9F, CHR 0xA5, CHR 0xE7, CHR 0xB3, CHR 0xBB, CHR 0xE7, CHR 0xBB, CHR 0x9F] @ '' (Distributed on-site agent probe + central Hub)'',
     [],
     ''Usage:'',
     ''  talkintent <subcommand> [flags]'',
     [],
     ''Subcommands:'',
     ''  hub        Start the central coordination Hub server'',
     ''  pair       Pair client node with the Hub using an invite code'',
     ''  daemon     Run the on-site client daemon to answer queries [start|stop|status]'',
     ''  ask        Submit a natural-language query to a teammate'' @ [CHR 0x27] @ ''s dev workspace'',
     ''  workspace  Manage locally monitored workspace repositories [add|list|remove]'',
     ''  members    List registered team members and online status'',
     ''  history    Display inbound or outbound query audit history'',
     ''  llm        Configure or test local LLM provider credentials [show|set|test]'',
     ''  privacy    Inspect or dry-run sovereign privacy guardrails [init|show|edit-path|test]'',
     ''  web        Print or launch the Web UI dashboard'',
     ''  skill      Manage Claude Code skill integration [install|show]'',
     ''  invite     Generate onboarding invite codes (admin only)'',
     ''  status     Show local node configuration and workspace status'',
     ''  version    Display version and runtime information''])"

text \<open>\<^verbatim>\<open>Run\<close> of \<^verbatim>\<open>runner.go\<close>; \<open>None\<close> if the command does not return.\<close>

definition run_line :: "line_env \<Rightarrow> string list \<Rightarrow> files \<Rightarrow> (exit \<times> files) option" where
  "run_line le args fs =
     (case args of
        [] \<Rightarrow> Some (succeeds PrintUsage, fs)
      | cmd # sub \<Rightarrow>
          if cmd = ''hub'' then Some (runHubCmd le sub fs)
          else if cmd = ''pair'' then Some (runPairCmd le sub fs)
          else if cmd = ''daemon'' then Some (runDaemonCmd le sub fs)
          else if cmd = ''ask'' then map_option (\<lambda>x. (x, fs)) (runAskCmd le sub fs)
          else if cmd = ''members'' then Some (runMembersCmd le sub fs, fs)
          else if cmd = ''history'' then Some (runHistoryCmd le sub fs, fs)
          else if cmd = ''llm'' then Some (runLLMCmd le sub fs)
          else if cmd = ''workspace'' then Some (runWorkspaceCmd le sub fs)
          else if cmd = ''privacy'' then Some (runPrivacyCmd le sub fs)
          else if cmd = ''web'' then Some (runWebCmd le sub fs, fs)
          else if cmd = ''skill'' then Some (runSkillCmd le sub fs)
          else if cmd = ''invite'' then Some (runInviteCmd le sub fs, fs)
          else if cmd = ''status'' then Some (runStatusCmd le sub fs, fs)
          else if cmd \<in> {''version'', ''-v'', ''--version''} then Some (runVersionCmd le sub, fs)
          else if cmd \<in> {''help'', ''-h'', ''--help''} then Some (succeeds PrintUsage, fs)
          else Some (fails (''Unknown subcommand '' @ Quote cmd @ nl @ nl @ PrintUsage), fs))"

section \<open>Wrappers (cli.go)\<close>

text \<open>The error of a command kept for callers inside the program.\<close>

definition code_error :: "string \<Rightarrow> exit \<Rightarrow> string option" where
  "code_error t x = (if xt_code x \<noteq> 0 then Some (t @ '' failed with exit code '' @ fmt_status (xt_code x)) else None)"

definition RunPair :: "cli_env \<Rightarrow> string \<Rightarrow> string \<Rightarrow> string \<Rightarrow> files \<Rightarrow> string option \<times> files" where
  "RunPair cv hubURL code machineName fs =
     (let (x, fs') = ExecutePair cv \<lparr>po_hub_url = hubURL, po_invite_code = code, po_machine_name = machineName, po_config_path = [], po_hub_ca_file = [],
            po_json = False\<rparr> fs
      in (code_error ''pairing'' x, fs'))"

definition RunAsk :: "cli_env \<Rightarrow> string \<Rightarrow> string \<Rightarrow> bool \<Rightarrow> files \<Rightarrow> string option option" where
  "RunAsk cv target queryText wait fs =
     (case load_config cv [] fs of
        Inl e \<Rightarrow> Some (Some (''failed to load config: '' @ cv_config_error cv e @ ''. Have you run '' @ apos @ ''talkintent pair'' @ apos @ ''?''))
      | Inr cfg \<Rightarrow> map_option (code_error ''ask'') (ExecuteAsk (cv_net cv) (Some cfg) \<lparr>ro_target = target, ro_query = queryText, ro_workspace = [],
          ro_timeout_sec = 0, ro_ttl_sec = 0, ro_wait = wait, ro_json = False\<rparr>))"

definition RunPrivacyTest_cli :: "node_env \<Rightarrow> (QueryResponsePayload \<Rightarrow> string) \<Rightarrow> string \<Rightarrow> files \<Rightarrow> string option" where
  "RunPrivacyTest_cli nv pr queryText fs =
     code_error ''privacy test'' (fst (ExecutePrivacy nv pr \<lparr>pv_config_path = [], pv_subcommand = ''test'', pv_query = queryText, pv_workspace = [], pv_path = [],
       pv_json = False\<rparr> fs))"

end
