(* ===== verification/Command_Line_Properties.thy ===== *)
theory Command_Line_Properties
  imports Command_Line Node_Properties Ask_Properties
begin

text \<open>
  The command line: what is printed as a flag is read back, the commands the program prints or starts itself are understood by it, and a
  command line that is not understood changes nothing.
\<close>

section \<open>Numbers\<close>

lemma fmt_nat_not_zero: "n \<noteq> 0 \<Longrightarrow> hd (fmt_nat n) \<noteq> CHR ''0''"
proof (induction n rule: fmt_nat.induct)
  case (1 n)
  have "hd (fmt_nat n) = (if n < 10 then char_of (48 + n) else hd (fmt_nat (n div 10)))"
    using fmt_nat_chars(1) [of "n div 10"] by (subst fmt_nat.simps) simp
  moreover have "char_of (48 + n) \<noteq> CHR ''0''" if "n < 10" using that 1(2) by (auto dest!: arg_cong [where f = "of_char :: char \<Rightarrow> nat"])
  ultimately show ?case using 1 by auto
qed

lemma digit_of_digit: "d < (10 :: nat) \<Longrightarrow> digit_of (char_of (48 + d)) = Some d \<and> char_of (48 + d) \<noteq> CHR ''_''"
  by (auto simp: digit_of_def char_code_def dest!: arg_cong [where f = "of_char :: char \<Rightarrow> nat"])

lemma parse_base_append:
  "parse_base b n (s @ t) = (case parse_base b n s of Inl e \<Rightarrow> Inl e | Inr m \<Rightarrow> parse_base b m t)"
  by (induction b n s rule: parse_base.induct) (auto split: option.split)

lemma parse_base_fmt: "n < 2 ^ 64 \<Longrightarrow> parse_base 10 0 (fmt_nat n) = Inr n"
proof (induction n rule: fmt_nat.induct)
  case (1 n)
  show ?case
  proof (cases "n < 10")
    case True
    then show ?thesis using digit_of_digit [of n] by (subst fmt_nat.simps) simp
  next
    case False
    have "n div 10 < 2 ^ 64" using 1(2) by simp
    then have "parse_base 10 0 (fmt_nat (n div 10)) = Inr (n div 10)" using 1(1) [OF False] by blast
    then show ?thesis using False 1(2) digit_of_digit [of "n mod 10"] by (subst fmt_nat.simps) (simp add: parse_base_append)
  qed
qed

lemma underscore_free: "CHR ''_'' \<notin> set (fmt_nat n)"
proof (induction n rule: fmt_nat.induct)
  case (1 n)
  show ?case using 1 digit_of_digit [of n] digit_of_digit [of "n mod 10"] by (subst fmt_nat.simps) auto
qed

lemma ParseUint_fmt: "n < 2 ^ 64 \<Longrightarrow> ParseUint (fmt_nat n) = Inr n"
proof (cases "n = 0")
  case True
  moreover have "ParseUint (fmt_nat 0) = Inr 0" by code_simp
  ultimately show ?thesis by simp
next
  case False
  moreover assume "n < 2 ^ 64"
  ultimately show ?thesis
    using fmt_nat_chars(1) [of n] by (simp add: ParseUint_def base_of_number_def fmt_nat_not_zero parse_base_fmt underscore_free)
qed

lemma ParseInt_fmt:
  assumes "- (2 ^ 63) \<le> n" and "n < 2 ^ 63"
  shows "ParseInt (fmt_status n) = Inr n"
proof (cases "n < 0")
  case True
  then have "ParseUint (fmt_nat (nat (- n))) = Inr (nat (- n))" "nat (- n) \<le> 2 ^ 63" using ParseUint_fmt [of "nat (- n)"] assms by auto
  then show ?thesis using True by (simp add: ParseInt_def fmt_status_def Let_def)
next
  case False
  have "hd (fmt_nat (nat n)) \<noteq> CHR ''-''" "hd (fmt_nat (nat n)) \<noteq> CHR ''+''" using fmt_nat_chars(2) [OF hd_in_set [OF fmt_nat_chars(1)]] by blast+
  moreover have "ParseUint (fmt_nat (nat n)) = Inr (nat n)" "nat n < 2 ^ 63" using ParseUint_fmt [of "nat n"] assms False by auto
  ultimately show ?thesis using False fmt_nat_chars(1) [of "nat n"] by (simp add: ParseInt_def fmt_status_def Let_def)
qed

section \<open>Flags\<close>

definition print_value :: "flag_value \<Rightarrow> string" where
  "print_value x = (case x of SV s \<Rightarrow> s | IV n \<Rightarrow> fmt_status n | BV b \<Rightarrow> if b then ''true'' else ''false'' | FV _ \<Rightarrow> [])"

definition print_flag :: "string \<times> flag_value \<Rightarrow> string" where
  "print_flag f = ''--'' @ fst f @ ''='' @ print_value (snd f)"

text \<open>A name that can be given on the command line, and a value of the kind of its default.\<close>

definition good_name :: "string \<Rightarrow> bool" where
  "good_name n \<longleftrightarrow> n \<noteq> [] \<and> hd n \<noteq> CHR ''-'' \<and> CHR ''='' \<notin> set n"

definition fits :: "flags \<Rightarrow> string \<times> flag_value \<Rightarrow> bool" where
  "fits formal f \<longleftrightarrow> good_name (fst f) \<and>
     (case (map_of formal (fst f), snd f) of
        (Some (SV _), SV _) \<Rightarrow> True
      | (Some (BV _), BV _) \<Rightarrow> True
      | (Some (IV _), IV n) \<Rightarrow> - (2 ^ 63) \<le> n \<and> n < 2 ^ 63
      | _ \<Rightarrow> False)"

definition word_first :: "string list \<Rightarrow> bool" where
  "word_first args \<longleftrightarrow> args = [] \<or> length (hd args) < 2 \<or> hd (hd args) \<noteq> CHR ''-''"

lemma good_hd: "good_name n \<Longrightarrow> hd n \<noteq> CHR ''=''"
  by (auto simp: good_name_def dest: hd_in_set)

lemma flag_name_plain: "CHR ''='' \<notin> set n \<Longrightarrow> flag_name n = (n, None)"
proof -
  assume "CHR ''='' \<notin> set n"
  then have "takeWhile (\<lambda>c. c \<noteq> CHR ''='') n = n" "dropWhile (\<lambda>c. c \<noteq> CHR ''='') n = []"
    by (auto simp: takeWhile_eq_all_conv dropWhile_eq_Nil_conv)
  then show ?thesis unfolding flag_name_def by (simp only: list.case)
qed

lemma flag_name_value: "CHR ''='' \<notin> set n \<Longrightarrow> flag_name (n @ ''='' @ v) = (n, Some v)"
  by (auto simp: flag_name_def takeWhile_append dropWhile_append takeWhile_eq_all_conv)

lemma parse_word: "word_first args \<Longrightarrow> parse_flags pf formal acc args = Inr (acc, args)"
  by (cases args) (auto simp: word_first_def parse_flags.simps(2))

text \<open>One flag with two dashes; the value is the next argument, or follows an equals sign.\<close>

lemma parse_next:
  assumes "good_name n" and "map_of formal n = Some (SV d)"
  shows "parse_flags pf formal acc ((''--'' @ n) # v # rest) = parse_flags pf formal ((n, SV v) # acc) rest"
  using assms good_hd [OF assms(1)] by (simp add: good_name_def flag_name_plain set_value_def parse_flags.simps(2))

lemma parse_printed:
  assumes "fits formal f"
  shows "parse_flags pf formal acc (print_flag f # rest) = parse_flags pf formal (f # acc) rest"
proof -
  have n: "good_name (fst f)" "CHR ''='' \<notin> set (fst f)" using assms by (auto simp: fits_def good_name_def)
  have b: "ParseBool (if b then ''true'' else ''false'') = Some b" for b by (simp add: ParseBool_def)
  obtain d where d: "map_of formal (fst f) = Some d" using assms by (cases "map_of formal (fst f)") (auto simp: fits_def)
  show ?thesis
    using assms n(1) good_hd [OF n(1)] flag_name_value [OF n(2)] d
    by (cases f; cases d; cases "snd f") (auto simp: fits_def print_flag_def print_value_def good_name_def set_value_def ParseInt_fmt b parse_flags.simps(2))
qed

lemma parse_printed_flags:
  assumes "list_all (fits formal) given_flags" and "word_first rest"
  shows "parse_flags pf formal acc (map print_flag given_flags @ rest) = Inr (rev given_flags @ acc, rest)"
  using assms(1)
proof (induction given_flags arbitrary: acc)
  case Nil
  then show ?case by (simp add: parse_word [OF assms(2)])
qed (simp add: parse_printed)

text \<open>Flags printed with their values are read back as given, up to the first word.\<close>

theorem flags_roundtrip:
  assumes "list_all (fits formal) given_flags" and "word_first rest"
  shows "parse_flags pf formal [] (map print_flag given_flags @ rest) = Inr (rev given_flags, rest)"
  using parse_printed_flags [OF assms] by simp


section \<open>Command lines the program makes itself\<close>

lemma join_words:
  assumes "CHR '' '' \<notin> set hub" and "CHR '' '' \<notin> set code"
  shows "split_char (CHR '' '') (join_command hub code) = [''talkintent'', ''pair'', ''--hub'', hub, ''--code'', code]"
proof -
  have "join_command hub code = join_with [CHR '' ''] [''talkintent'', ''pair'', ''--hub'', hub, ''--code'', code]"
    by (simp add: join_command_def)
  then show ?thesis using split_join [of "[''talkintent'', ''pair'', ''--hub'', hub, ''--code'', code]" "CHR '' ''"] assms by simp
qed

text \<open>C30. The line printed with an invite: typed as it is, it pairs with that hub and that code.\<close>

theorem invite_line_pairs:
  assumes "CHR '' '' \<notin> set hub" and "CHR '' '' \<notin> set code" and "hub \<noteq> []" and "code \<noteq> []"
  shows "run_line le (tl (split_char (CHR '' '') (join_command hub code))) fs =
    Some (ExecutePair (le_cli le) \<lparr>po_hub_url = hub, po_invite_code = code, po_machine_name = [], po_config_path = [], po_hub_ca_file = [], po_json = False\<rparr> fs)"
proof -
  have s: "split_args [''hub'', ''code'', ''name'', ''config'', ''hub-ca-file''] True [''--hub'', hub, ''--code'', code] = ([''--hub'', hub, ''--code'', code], [])"
    by (simp add: has_prefix_def value_flag_def split_args.simps(2))
  have p: "parse_flags pf pair_flags [] [''--hub'', hub, ''--code'', code] = Inr ([(''code'', SV code), (''hub'', SV hub)], [])" for pf
    using parse_next [of "''hub''" pair_flags "[]" pf "[]" hub "[''--code'', code]"] parse_next [of "''code''" pair_flags "[]" pf "[(''hub'', SV hub)]" code "[]"]
    by (simp add: good_name_def pair_flags_def)
  have "pair_options env [(''code'', SV code), (''hub'', SV hub)] [] =
      \<lparr>po_hub_url = hub, po_invite_code = code, po_machine_name = [], po_config_path = [], po_hub_ca_file = [], po_json = False\<rparr>" for env
    using assms(3,4) by (simp add: pair_options_def flag_of_def pair_flags_def str_of_def bool_of_def)
  then show ?thesis unfolding join_words [OF assms(1,2)] by (simp add: run_line_def runPairCmd_def s p)
qed

lemma daemon_words:
  "split_args [''config'', ''workspace''] False (tl (detach_args opts)) = (tl (detach_args opts), [])"
proof -
  have w: "split_args [''config'', ''workspace''] False [''--workspace'', v] = ([''--workspace'', v], [])" for v
    by (auto simp: has_prefix_def value_flag_def split_args.simps(2))
  have c: "split_args [''config'', ''workspace''] False (''--config'' # v # rest) = (''--config'' # v # rest, [])"
    if "split_args [''config'', ''workspace''] False rest = (rest, [])" "rest = [] \<or> hd rest = ''--workspace''" for v rest
    using that by (cases rest) (auto simp: has_prefix_def value_flag_def split_args.simps(2))
  show ?thesis by (auto simp: detach_args_def w c)
qed

text \<open>C29. The background process: whatever the paths are, it runs the daemon in the foreground with the same configuration and workspace, and
  does not start another process.\<close>

theorem detached_child_runs_daemon:
  "run_line le (detach_args opts) fs =
     Some (executeDaemonForeground (le_node le) (opts\<lparr>do_detach := False, do_action := [], do_json := False\<rparr>) fs)"
proof -
  have n: "good_name ''config''" "good_name ''workspace''" "map_of daemon_flags ''config'' = Some (SV [])" "map_of daemon_flags ''workspace'' = Some (SV [])"
    by (simp_all add: good_name_def daemon_flags_def)
  have a: "detach_args opts = ''daemon'' # tl (detach_args opts)" by (simp add: detach_args_def)
  have "parse_flags pf daemon_flags [] (tl (detach_args opts)) =
      Inr ((if do_workspace opts \<noteq> [] then [(''workspace'', SV (do_workspace opts))] else [])
        @ (if do_config_path opts \<noteq> [] then [(''config'', SV (do_config_path opts))] else []), [])" for pf
    using parse_next [OF n(1,3), of pf "[]" "do_config_path opts"] parse_next [OF n(2,4), of pf _ "do_workspace opts"]
    by (auto simp: detach_args_def)
  moreover have "daemon_options ((if do_workspace opts \<noteq> [] then [(''workspace'', SV (do_workspace opts))] else [])
      @ (if do_config_path opts \<noteq> [] then [(''config'', SV (do_config_path opts))] else [])) [] = opts\<lparr>do_detach := False, do_action := [], do_json := False\<rparr>"
    by (simp add: daemon_options_def flag_of_def daemon_flags_def str_of_def bool_of_def)
  ultimately show ?thesis
    by (subst a) (simp add: run_line_def runDaemonCmd_def daemon_words find_action_def ExecuteDaemon_def)
qed

text \<open>The command that creates an invite reads no flag after the name, so that the example of the read-me file, which has the name first, asks for
  a token although it gives one.\<close>

theorem invite_flags_after_name_ignored:
  assumes "word_first (name # rest)"
  shows "runInviteCmd le (name # rest) fs = runInviteCmd le [name] fs"
  using parse_word [OF assms] parse_word [of "[name]"] assms
  by (simp add: runInviteCmd_def word_first_def invite_options_def Let_def)

section \<open>Exit codes\<close>

lemma plain_codes:
  "xt_code (ExecuteInvite cv io fs) \<in> {0, 1}" "xt_code (ExecuteMembers cv path j fs) \<in> {0, 1}" "xt_code (ExecuteHistory cv ho fs) \<in> {0, 1}"
  "xt_code (ExecuteStatus nv pj path j fs) \<in> {0, 1}" "xt_code (ExecuteWeb nv path opn j fs) \<in> {0, 1}" "xt_code (ExecuteVersion nv j) \<in> {0, 1}"
  by (auto simp: ExecuteInvite_def ExecuteMembers_def pair_first_def ExecuteHistory_def ExecuteStatus_def ExecuteWeb_def ExecuteVersion_def Let_def
      split: sum.split option.split)

lemma daemon_codes:
  "xt_code (fst (executeDaemonStop nv fs)) \<in> {0, 1}" "xt_code (fst (executeDaemonStatus nv fs)) \<in> {0, 1}"
  "xt_code (fst (executeDaemonDetach nv opts fs)) \<in> {0, 1}" "xt_code (fst (daemon_ended nv cfg w fs)) \<in> {0, 1}"
  subgoal by (simp add: executeDaemonStop_def split: option.split)
  subgoal by (simp add: executeDaemonStatus_def split: option.split)
  subgoal by (simp add: executeDaemonDetach_def Let_def case_prod_unfold split: option.split sum.split)
  subgoal by (simp add: daemon_ended_def split: option.split daemon_end.split)
  done

lemma daemon_code: "xt_code (fst (ExecuteDaemon nv opts fs)) \<in> {0, 1}"
proof -
  have "xt_code (fst (executeDaemonForeground nv opts fs)) \<in> {0, 1}"
    using daemon_codes(4) [of nv] by (simp add: executeDaemonForeground_def case_prod_unfold split: sum.split)
  then show ?thesis unfolding ExecuteDaemon_def using daemon_codes(1-3) [of nv] by (simp split: if_split)
qed

lemma hub_code: "xt_code (fst (ExecuteHub nv ck hr uo fs)) \<in> {0, 1}"
  by (simp add: ExecuteHub_def Let_def split: sum.split option.split token_error.split prod.split)

lemma privacy_code: "xt_code (fst (ExecutePrivacy nv pr pv fs)) \<in> {0, 1}"
proof -
  have "xt_code (fst (executePrivacyInit nv pv fs)) \<in> {0, 1}" by (simp add: executePrivacyInit_def Let_def split: option.split)
  moreover have "xt_code (executePrivacyShow nv pv fs) = 0" "xt_code (executePrivacyEditPath nv pv fs) = 0"
    by (simp_all add: executePrivacyShow_def executePrivacyEditPath_def Let_def)
  moreover have "xt_code (executePrivacyTest nv pr pv fs) \<in> {0, 1}"
    by (simp add: executePrivacyTest_def Let_def case_prod_unfold split: sum.split)
  ultimately show ?thesis unfolding ExecutePrivacy_def Let_def by (simp split: if_split)
qed

lemma skill_code: "xt_code (fst (ExecuteSkill nv so fs)) \<in> {0, 1}"
proof -
  have "xt_code (fst (executeSkillInstall nv so fs)) \<in> {0, 1}" by (simp add: executeSkillInstall_def Let_def split: option.split)
  then show ?thesis unfolding ExecuteSkill_def Let_def by (simp add: executeSkillShow_def split: if_split)
qed

lemma config_codes:
  "xt_code (fst (ExecutePair cv po fs)) \<in> {0, 1}" "xt_code (fst (ExecuteLLM cv prov lo fs)) \<in> {0, 1}" "xt_code (fst (ExecuteWorkspace cv wo fs)) \<in> {0, 1}"
  using pair_command.exit_code [OF prod.collapse [symmetric]] llm_command.exit_code [OF prod.collapse [symmetric]]
    workspace_command.exit_code [OF prod.collapse [symmetric]] by blast+

definition ask_code :: "exit \<Rightarrow> bool" where
  "ask_code x \<longleftrightarrow> xt_code x \<in> {0, 1, 130}"

lemma good_code: "good_exit env j x \<Longrightarrow> ask_code x"
  by (auto simp: good_exit_def ask_code_def)

lemma ask_code_simps [simp]: "ask_code (fails t)" "ask_code (after_out t x) = ask_code x" "ask_code (after_err t x) = ask_code x"
  "ask_code (renderQueryOutcome env d j)"
  by (auto simp: ask_code_def fails_def after_out_def after_err_def render_code)

lemma ask_codes:
  assumes "ExecuteAsk env cfg opts = Some x"
  shows "ask_code x"
proof -
  have rej: "ask_code (rejected env j target status resp)" for j target status resp
    by (auto simp: rejected_def Let_def ask_code_def fails_def split: option.splits)
  have await: "ask_code x" if "await_answer env c o' target made sr = Some x" for c o' target made sr x
    using that by (auto simp: await_answer_def Let_def dest!: poll_loop_good good_code)
  have acc: "ask_code x" if "ask_accepted env c o' target m resp = Some x" for c o' target m resp x
    using that await by (auto simp: ask_accepted_def Let_def ask_code_def [of "\<lparr>xt_code = 0, xt_stdout = _, xt_stderr = _\<rparr>"] split: option.splits sum.splits if_splits)
  have sub: "ask_code x" if "submit_ask env c o' target q n = Some x" for c o' target q n x
    using that unfolding submit_ask_def Let_def by (auto simp: rej dest!: acc split: sum.splits option.splits prod.splits if_splits)
  have find: "ask_code x" if "find_target env c target q = Inl x" for c target q x
    using find_target_good [OF that, of False] by (rule good_code)
  show ?thesis
    using assms unfolding ExecuteAsk_def Let_def
    by (auto dest!: sub find split: option.splits sum.splits prod.splits if_splits)
qed

lemma flag_failure_code [simp]: "xt_code (flag_failure le cmd e) = 2"
  by (simp add: flag_failure_def)


section \<open>Concrete runs\<close>

definition demo_line :: line_env where
  "demo_line = \<lparr>le_node = demo_node, le_checks = \<lparr>url_parse = (\<lambda>_. None), stat_ok = (\<lambda>_. True)\<rparr>, le_hub = demo_hub_run, le_provider = (\<lambda>_. Inl []),
     le_float = (\<lambda>_. Inl ErrSyntax), le_usage = (\<lambda>_. ''usage'' @ nl), le_status_json = (\<lambda>_. []), le_payload_json = (\<lambda>_. [])\<rparr>"

theorem flags_roundtrip_witness:
  "parse_flags (\<lambda>_. Inl ErrSyntax) ask_flags [] (map print_flag [(''to'', SV ''Bob''), (''wait'', BV False), (''timeout'', IV (-5))] @ [''how far''])
   = Inr (rev [(''to'', SV ''Bob''), (''wait'', BV False), (''timeout'', IV (-5))], [''how far''])"
  by (rule flags_roundtrip) (simp_all add: fits_def good_name_def ask_flags_def word_first_def)


theorem invite_line_pairs_witness:
  "run_line demo_line (tl (split_char (CHR '' '') ''talkintent pair --hub http://hub:8080 --code INV-1'')) (\<lambda>_. None) =
    Some (ExecutePair demo_cli \<lparr>po_hub_url = ''http://hub:8080'', po_invite_code = ''INV-1'', po_machine_name = [], po_config_path = [], po_hub_ca_file = [], po_json = False\<rparr> (\<lambda>_. None))"
  using invite_line_pairs [of "''http://hub:8080''" "''INV-1''" demo_line "\<lambda>_. None"]
  by (simp only: join_command_def append.simps) (simp add: demo_line_def demo_node_def)

text \<open>The example of the read-me file, with the token on the command line.\<close>

theorem invite_flags_after_name_ignored_witness:
  "runInviteCmd demo_line [''Bob'', ''--alias'', ''bobby'', ''--admin-token'', ''secret''] (\<lambda>_. None) = runInviteCmd demo_line [''Bob''] (\<lambda>_. None)
   \<and> xt_stderr (runInviteCmd demo_line [''Bob''] (\<lambda>_. None)) = ''Error: admin token required to create invites. Use --admin-token or set $TALKINTENT_ADMIN_TOKEN.'' @ nl"
proof
  show "runInviteCmd demo_line [''Bob'', ''--alias'', ''bobby'', ''--admin-token'', ''secret''] (\<lambda>_. None) = runInviteCmd demo_line [''Bob''] (\<lambda>_. None)"
    by (rule invite_flags_after_name_ignored) (simp add: word_first_def)
  show "xt_stderr (runInviteCmd demo_line [''Bob''] (\<lambda>_. None)) = ''Error: admin token required to create invites. Use --admin-token or set $TALKINTENT_ADMIN_TOKEN.'' @ nl"
    by code_simp
qed


end
