(* ===== verification/Feishu.thy ===== *)
theory Feishu
  imports Hub Dedupe Redactor
begin

text \<open>
  The chat side of the hub, \<^verbatim>\<open>internal/feishu\<close>: \<^verbatim>\<open>feishu.go\<close> (the client of the Feishu API with its cached access token),
  \<^verbatim>\<open>events.go\<close> (events and the text of a message) and \<^verbatim>\<open>handler.go\<close> (from an event to a query, from a finished query to a reply).

  The Feishu platform is the record \<open>fs_world\<close>: what it replies to the n-th request of a client, the clock before that request,
  and the functions of the libraries the sources call (JSON text of a string map, \<^verbatim>\<open>http.NewRequest\<close>, the hexadecimal prefix of SHA-256).
  The requests a client has made are recorded in order in \<open>cl_sent\<close>.  A goroutine that an event starts is a value (\<open>feishu_job\<close>);
  what it does once the hub has routed the query is \<open>finish_job\<close>.
\<close>

section \<open>The API client\<close>

record fs_request =
  rq_url :: string
  rq_auth :: "string option"
  rq_body :: string

text \<open>A reply: whether the body could be read and is JSON, what decoding leaves in the fields, and the text.\<close>

record fs_reply =
  re_status :: int
  re_read :: bool
  re_json :: bool
  re_code :: int
  re_msg :: string
  re_token :: string
  re_expire :: int
  re_text :: string

record fs_world =
  fw_reply :: "nat \<Rightarrow> fs_request \<Rightarrow> fs_reply option"
  fw_clock :: "nat \<Rightarrow> int"
  fw_json :: "(string \<times> string) list \<Rightarrow> string"
  fw_request_ok :: "string \<Rightarrow> bool"
  fw_hash :: "string \<Rightarrow> string"

datatype fs_error = BadRequest | HTTPFailed | ReadFailed | BadTokenJSON | TokenAPI int string | EmptyToken
  | TokenFailed fs_error | APIStatus int string | APICode int string | RetryFailed
  | LookupMissing | LookupFailed | BadEvent

record Client =
  cl_appID :: string
  cl_appSecret :: string
  cl_baseURL :: string
  cl_token :: string
  cl_expiresAt :: int
  cl_sent :: "fs_request list"

definition zero_time :: int where "zero_time = - 62135596800000000000"

definition default_base :: string where "default_base = ''https://open.feishu.cn''"

definition trim_slashes :: "string \<Rightarrow> string" where
  "trim_slashes = trim_right_by (\<lambda>c. c = CHR ''/'')"

definition NewClient :: "string \<Rightarrow> string \<Rightarrow> string \<Rightarrow> Client" where
  "NewClient appID appSecret baseURL = \<lparr>cl_appID = appID, cl_appSecret = appSecret,
     cl_baseURL = trim_slashes (if baseURL = [] then default_base else baseURL), cl_token = [], cl_expiresAt = zero_time, cl_sent = []\<rparr>"

definition EvictToken :: "Client \<Rightarrow> Client" where
  "EvictToken c = c\<lparr>cl_token := [], cl_expiresAt := zero_time\<rparr>"

definition token_fresh :: "int \<Rightarrow> Client \<Rightarrow> bool" where
  "token_fresh now c \<longleftrightarrow> cl_token c \<noteq> [] \<and> now < cl_expiresAt c - 5 * minuteNs"

definition token_request :: "fs_world \<Rightarrow> Client \<Rightarrow> fs_request" where
  "token_request w c = \<lparr>rq_url = cl_baseURL c @ ''/open-apis/auth/v3/tenant_access_token/internal'', rq_auth = None,
     rq_body = fw_json w [(''app_id'', cl_appID c), (''app_secret'', cl_appSecret c)]\<rparr>"

definition log_request :: "fs_request \<Rightarrow> Client \<Rightarrow> Client" where
  "log_request rq c = c\<lparr>cl_sent := cl_sent c @ [rq]\<rparr>"

text \<open>The check under the read lock is repeated under the write lock; with nothing in between it has the same outcome.\<close>

definition GetTenantAccessToken :: "fs_world \<Rightarrow> Client \<Rightarrow> (fs_error, string) result \<times> Client" where
  "GetTenantAccessToken w c =
     (let n = length (cl_sent c); rq = token_request w c in
      if token_fresh (fw_clock w n) c then (Inr (cl_token c), c)
      else if \<not> fw_request_ok w (rq_url rq) then (Inl BadRequest, c)
      else let c1 = log_request rq c in
        (case fw_reply w n rq of
           None \<Rightarrow> (Inl HTTPFailed, c1)
         | Some re \<Rightarrow>
             if \<not> re_json re then (Inl BadTokenJSON, c1)
             else if re_code re \<noteq> 0 then (Inl (TokenAPI (re_code re) (re_msg re)), c1)
             else if re_token re = [] then (Inl EmptyToken, c1)
             else (Inr (re_token re), c1\<lparr>cl_token := re_token re,
                     cl_expiresAt := fw_clock w (Suc n) + wrap64 (re_expire re * secondNs)\<rparr>)))"

definition isTokenError :: "int \<Rightarrow> int \<Rightarrow> string \<Rightarrow> bool" where
  "isTokenError statusCode code msg \<longleftrightarrow>
     statusCode = 401 \<or> code \<in> {99991663, 99991664, 99991661, 99991668}
     \<or> (let lower = to_lower msg in contains lower ''access_token'' \<and> (contains lower ''invalid'' \<or> contains lower ''expired''))"

definition post_request :: "string \<Rightarrow> string \<Rightarrow> string \<Rightarrow> fs_request" where
  "post_request url body token = \<lparr>rq_url = url, rq_auth = Some (''Bearer '' @ token), rq_body = body\<rparr>"

text \<open>The loop of \<^verbatim>\<open>doPostWithTokenRetry\<close> with the number of attempts left; on the first of two a token error is tried again.\<close>

fun post_loop :: "fs_world \<Rightarrow> string \<Rightarrow> string \<Rightarrow> nat \<Rightarrow> Client \<Rightarrow> fs_error option \<times> Client" where
  "post_loop w url body 0 c = (Some RetryFailed, c)"
| "post_loop w url body (Suc left) c =
     (case GetTenantAccessToken w c of
        (Inl e, c1) \<Rightarrow> (Some (TokenFailed e), c1)
      | (Inr token, c1) \<Rightarrow>
          if \<not> fw_request_ok w url then (Some BadRequest, c1)
          else let n = length (cl_sent c1); rq = post_request url body token; c2 = log_request rq c1 in
            (case fw_reply w n rq of
               None \<Rightarrow> (Some HTTPFailed, c2)
             | Some re \<Rightarrow>
                 if \<not> re_read re then (Some ReadFailed, c2)
                 else let tokenErr = isTokenError (re_status re) (re_code re) (re_msg re);
                          c3 = (if tokenErr then EvictToken c2 else c2) in
                   if tokenErr \<and> left \<noteq> 0 then post_loop w url body left c3
                   else if re_status re \<ge> 400 then (Some (APIStatus (re_status re) (re_text re)), c3)
                   else if re_code re \<noteq> 0 then (Some (APICode (re_code re) (re_msg re)), c3)
                   else (None, c3)))"

definition doPostWithTokenRetry :: "fs_world \<Rightarrow> string \<Rightarrow> (string \<times> string) list \<Rightarrow> Client \<Rightarrow> fs_error option \<times> Client" where
  "doPostWithTokenRetry w url payload c = post_loop w url (fw_json w payload) 2 c"

definition reply_url :: "Client \<Rightarrow> string \<Rightarrow> string" where
  "reply_url c messageID = cl_baseURL c @ ''/open-apis/im/v1/messages/'' @ messageID @ ''/reply''"

definition reply_payload :: "fs_world \<Rightarrow> string \<Rightarrow> (string \<times> string) list" where
  "reply_payload w replyContent = [(''content'', fw_json w [(''text'', replyContent)]), (''msg_type'', ''text'')]"

definition ReplyMessage :: "fs_world \<Rightarrow> string \<Rightarrow> string \<Rightarrow> Client \<Rightarrow> fs_error option \<times> Client" where
  "ReplyMessage w messageID replyContent c = doPostWithTokenRetry w (reply_url c messageID) (reply_payload w replyContent) c"

definition SendMessage :: "fs_world \<Rightarrow> string \<Rightarrow> string \<Rightarrow> string \<Rightarrow> string \<Rightarrow> Client \<Rightarrow> fs_error option \<times> Client" where
  "SendMessage w receiveIDType receiveID msgType txt c =
     doPostWithTokenRetry w
       (cl_baseURL c @ ''/open-apis/im/v1/messages?receive_id_type='' @ (if receiveIDType = [] then ''open_id'' else receiveIDType))
       [(''content'', txt), (''msg_type'', msgType), (''receive_id'', receiveID)] c"

definition SendTextMessage :: "fs_world \<Rightarrow> string \<Rightarrow> string \<Rightarrow> string \<Rightarrow> Client \<Rightarrow> fs_error option \<times> Client" where
  "SendTextMessage w receiveIDType receiveID txt c =
     SendMessage w receiveIDType receiveID ''text'' (fw_json w [(''text'', txt)]) c"

definition SendChatMessage :: "fs_world \<Rightarrow> string \<Rightarrow> string \<Rightarrow> Client \<Rightarrow> fs_error option \<times> Client" where
  "SendChatMessage w chatID txt c = SendTextMessage w ''chat_id'' chatID txt c"

definition SendUserMessage :: "fs_world \<Rightarrow> string \<Rightarrow> string \<Rightarrow> Client \<Rightarrow> fs_error option \<times> Client" where
  "SendUserMessage w openID txt c = SendTextMessage w ''open_id'' openID txt c"

section \<open>Events\<close>

record SenderID =
  si_open_id :: string
  si_user_id :: string
  si_union_id :: string

record Mention =
  mn_key :: string
  mn_id :: "SenderID option"
  mn_name :: string
  mn_tenant_key :: string

record EventMessage =
  em_message_id :: string
  em_root_id :: string
  em_parent_id :: string
  em_create_time :: string
  em_chat_id :: string
  em_chat_type :: string
  em_message_type :: string
  em_content :: string
  em_mentions :: "Mention list"

record EventSender =
  es_sender_id :: "SenderID option"
  es_sender_type :: string
  es_tenant_key :: string

record EventBody =
  eb_sender :: "EventSender option"
  eb_message :: "EventMessage option"

record EventHeader =
  eh_event_id :: string
  eh_event_type :: string
  eh_create_time :: string
  eh_token :: string
  eh_app_id :: string
  eh_tenant_key :: string

record EventEnvelope =
  ee_schema :: string
  ee_header :: "EventHeader option"
  ee_event :: "EventBody option"
  ee_challenge :: string
  ee_token :: string
  ee_type :: string
  ee_encrypt :: string
  ee_uuid :: string
  ee_ts :: string

text \<open>The decoder of \<^verbatim>\<open>{"text": ...}\<close> is a parameter; \<open>None\<close> is a JSON error.\<close>

definition ParseTextContent :: "(string \<Rightarrow> string option) \<Rightarrow> string \<Rightarrow> string option" where
  "ParseTextContent decode contentJSON =
     (let trimmed = trim_space contentJSON in
      if \<not> has_prefix trimmed ''{'' then Some trimmed else decode trimmed)"

definition userMentionRegex :: "rx list" where
  "userMentionRegex = lit ''@_user_'' @ [Rep rx_digit 1 None]"

definition strip_mention :: "string \<Rightarrow> Mention \<Rightarrow> string" where
  "strip_mention txt m =
     (let txt1 = (if mn_key m \<noteq> [] then replace_all txt (mn_key m) [] else txt) in
      if mn_name m \<noteq> [] then replace_all (replace_all txt1 (CHR ''@'' # mn_name m) []) (mn_name m) [] else txt1)"

definition StripMentions :: "(string \<Rightarrow> string option) \<Rightarrow> string \<Rightarrow> Mention list \<Rightarrow> string option" where
  "StripMentions decode contentJSON mentions =
     map_option (\<lambda>txt. trim_space (replace_rx userMentionRegex [] None (foldl strip_mention txt mentions)))
       (ParseTextContent decode contentJSON)"

section \<open>The handler\<close>

text \<open>\<open>fg_lookup\<close> is \<^verbatim>\<open>BindingLookup\<close> (\<open>None\<close> when it is not set; a failed lookup gives \<open>None\<close>), \<open>fg_dispatch\<close> says whether
  \<^verbatim>\<open>Dispatch\<close> is set.\<close>

record HandlerConfig =
  fg_lookup :: "(string \<Rightarrow> FeishuBindingRequest option) option"
  fg_dispatch :: bool
  fg_base_url :: string
  fg_dedupe :: "Deduplicator option"
  fg_factory :: "(string \<Rightarrow> string \<Rightarrow> string \<Rightarrow> Client) option"

record Handler =
  fh_cfg :: HandlerConfig
  fh_dedupe :: Deduplicator
  fh_clients :: "Client gomap"

definition NewHandler :: "HandlerConfig \<Rightarrow> Handler" where
  "NewHandler cfg = \<lparr>fh_cfg = (if fg_base_url cfg = [] then cfg\<lparr>fg_base_url := default_base\<rparr> else cfg),
     fh_dedupe = (case fg_dedupe cfg of None \<Rightarrow> NewDeduplicator (30 * minuteNs) 10000 | Some d \<Rightarrow> d), fh_clients = []\<rparr>"

definition EvictClient :: "string \<Rightarrow> Handler \<Rightarrow> Handler" where
  "EvictClient appID h =
     (if appID = [] then h
      else h\<lparr>fh_clients := filter (\<lambda>(k, c). \<not> (k = appID \<or> has_prefix k (appID @ '':''))) (fh_clients h)\<rparr>)"

definition client_base :: "FeishuBindingRequest \<Rightarrow> Handler \<Rightarrow> string" where
  "client_base b h = (if fb_base_url b \<noteq> [] then fb_base_url b else fg_base_url (fh_cfg h))"

definition client_key :: "fs_world \<Rightarrow> string \<Rightarrow> string \<Rightarrow> string \<Rightarrow> string" where
  "client_key w appID appSecret baseURL = appID @ '':'' @ fw_hash w appSecret @ '':'' @ baseURL"

text \<open>The client is shared through the map: the result names its key.\<close>

definition GetClient :: "fs_world \<Rightarrow> FeishuBindingRequest \<Rightarrow> Handler \<Rightarrow> (string \<times> Client) \<times> Handler" where
  "GetClient w b h =
     (let base = client_base b h; key = client_key w (fb_app_id b) (fb_app_secret b) base in
      case gm_get (fh_clients h) key of
        Some client \<Rightarrow> ((key, client), h)
      | None \<Rightarrow>
          let client = (case fg_factory (fh_cfg h) of None \<Rightarrow> NewClient | Some mk \<Rightarrow> mk) (fb_app_id b) (fb_app_secret b) base
          in ((key, client), h\<lparr>fh_clients := gm_put key client (fh_clients h)\<rparr>))"

definition reply_through :: "fs_world \<Rightarrow> FeishuBindingRequest \<Rightarrow> string \<Rightarrow> string \<Rightarrow> Handler \<Rightarrow> fs_error option \<times> Handler" where
  "reply_through w b messageID txt h =
     (let ((key, client), h1) = GetClient w b h; (e, client') = ReplyMessage w messageID txt client
      in (e, h1\<lparr>fh_clients := gm_put key client' (fh_clients h1)\<rparr>))"

record feishu_job =
  fj_member :: string
  fj_asker :: AskerInfo
  fj_text :: string
  fj_ctx :: FeishuContext
  fj_binding :: "FeishuBindingRequest option"

definition check_ids :: "int \<Rightarrow> string \<Rightarrow> string \<Rightarrow> Deduplicator \<Rightarrow> bool \<times> Deduplicator" where
  "check_ids now eventID msgID d =
     (let (dup, d1) = (if eventID \<noteq> [] then CheckAndRecord now eventID d else (False, d))
      in if dup then (True, d1) else if msgID \<noteq> [] then CheckAndRecord now msgID d1 else (False, d1))"

definition asker_of :: "EventBody \<Rightarrow> EventMessage \<Rightarrow> AskerInfo" where
  "asker_of ev msg =
     (let base = \<lparr>ai_open_id = [], ai_user_id = [], ai_union_id = [], ai_chat_id = em_chat_id msg, ai_chat_type = em_chat_type msg\<rparr>
      in case eb_sender ev of
           None \<Rightarrow> base
         | Some s \<Rightarrow> (case es_sender_id s of
             None \<Rightarrow> base
           | Some i \<Rightarrow> base\<lparr>ai_open_id := si_open_id i, ai_user_id := si_user_id i, ai_union_id := si_union_id i\<rparr>))"

definition from_app :: "EventBody \<Rightarrow> bool" where
  "from_app ev \<longleftrightarrow> (case eb_sender ev of None \<Rightarrow> False | Some s \<Rightarrow> es_sender_type s \<noteq> [] \<and> es_sender_type s \<noteq> ''user'')"

definition binding_of :: "Handler \<Rightarrow> string \<Rightarrow> FeishuBindingRequest option" where
  "binding_of h member = (case fg_lookup (fh_cfg h) of None \<Rightarrow> None | Some look \<Rightarrow> look member)"

definition job_of :: "Handler \<Rightarrow> string \<Rightarrow> EventBody \<Rightarrow> EventMessage \<Rightarrow> string \<Rightarrow> feishu_job" where
  "job_of h member ev msg queryText =
     \<lparr>fj_member = member, fj_asker = asker_of ev msg, fj_text = queryText,
      fj_ctx = \<lparr>fc_message_id = em_message_id msg, fc_chat_id = em_chat_id msg,
                fc_app_id = (case binding_of h member of None \<Rightarrow> [] | Some b \<Rightarrow> fb_app_id b)\<rparr>,
      fj_binding = binding_of h member\<rparr>"

text \<open>The event is given decoded, \<open>None\<close> for a body that is not JSON; the clock is in milliseconds.\<close>

definition ProcessEvent ::
  "(string \<Rightarrow> string option) \<Rightarrow> int \<Rightarrow> string \<Rightarrow> EventEnvelope option \<Rightarrow> Handler
     \<Rightarrow> fs_error option \<times> Handler \<times> feishu_job option" where
  "ProcessEvent decode now member raw h =
     (case raw of
        None \<Rightarrow> (Some BadEvent, h, None)
      | Some env \<Rightarrow>
     (case (ee_header env, ee_event env) of
        (Some header, Some ev) \<Rightarrow>
          if eh_event_type header \<noteq> ''im.message.receive_v1'' then (None, h, None)
          else if from_app ev then (None, h, None)
          else (case eb_message ev of
             None \<Rightarrow> (None, h, None)
           | Some msg \<Rightarrow>
               let (dup, d) = check_ids now (eh_event_id header) (em_message_id msg) (fh_dedupe h); h1 = h\<lparr>fh_dedupe := d\<rparr> in
               if dup then (None, h1, None)
               else if em_message_type msg \<noteq> ''text'' then (None, h1, None)
               else (case StripMentions decode (em_content msg) (em_mentions msg) of
                  None \<Rightarrow> (None, h1, None)
                | Some queryText \<Rightarrow>
                    if queryText = [] then (None, h1, None)
                    else (None, h1, if fg_dispatch (fh_cfg h1) then Some (job_of h1 member ev msg queryText) else None)))
      | _ \<Rightarrow> (None, h, None)))"

section \<open>Replies\<close>

definition utf8 :: "nat list \<Rightarrow> string" where
  "utf8 bs = map char_of bs"

definition answer_tag :: string where
  "answer_tag = ''[TalkIntent '' @ utf8 [0xE8, 0x87, 0xAA, 0xE5, 0x8A, 0xA8, 0xE5, 0x9B, 0x9E, 0xE7, 0xAD, 0x94] @ '']'' @ utf8 [0x0A]"

definition notice_tag :: string where
  "notice_tag = ''[TalkIntent '' @ utf8 [0xE6, 0x8F, 0x90, 0xE7, 0xA4, 0xBA] @ '']'' @ utf8 [0x0A]"

definition offline_notice :: "string \<Rightarrow> string" where
  "offline_notice target = notice_tag @ target @ '' '' @ utf8
     [0xE7, 0x9B, 0xAE, 0xE5, 0x89, 0x8D, 0xE7, 0xA6, 0xBB, 0xE7, 0xBA, 0xBF, 0xEF, 0xBC, 0x8C, 0xE6, 0x82, 0xA8, 0xE7, 0x9A, 0x84, 0xE6,
      0x8F, 0x90, 0xE9, 0x97, 0xAE, 0xE5, 0xB7, 0xB2, 0xE5, 0x8A, 0xA0, 0xE5, 0x85, 0xA5, 0xE6, 0x8E, 0x92, 0xE9, 0x98, 0x9F, 0xE9, 0x98,
      0x9F, 0xE5, 0x88, 0x97, 0xEF, 0xBC, 0x8C, 0xE5, 0xB0, 0x86, 0xE5, 0x9C, 0xA8, 0xE5, 0x85, 0xB6, 0xE4, 0xB8, 0x8A, 0xE7, 0xBA, 0xBF,
      0xE5, 0x90, 0x8E, 0xE8, 0x87, 0xAA, 0xE5, 0x8A, 0xA8, 0xE5, 0xA4, 0x84, 0xE7, 0x90, 0x86, 0xE3, 0x80, 0x82]"

definition expired_notice :: "string \<Rightarrow> string" where
  "expired_notice target = notice_tag @ utf8
     [0xE6, 0x8F, 0x90, 0xE9, 0x97, 0xAE, 0xE5, 0xB7, 0xB2, 0xE8, 0xBF, 0x87, 0xE6, 0x9C, 0x9F, 0xEF, 0xBC, 0x9A, 0xE6, 0x9C, 0xAA, 0xE8,
      0x83, 0xBD, 0xE7, 0xAD, 0x89, 0xE5, 0x88, 0xB0] @ '' '' @ target @ '' '' @ utf8
     [0xE4, 0xB8, 0x8A, 0xE7, 0xBA, 0xBF, 0xE5, 0xA4, 0x84, 0xE7, 0x90, 0x86, 0xE3, 0x80, 0x82]"

definition refused_notice :: "string \<Rightarrow> string" where
  "refused_notice target = notice_tag @ utf8
     [0xE6, 0x9F, 0xA5, 0xE8, 0xAF, 0xA2, 0xE8, 0xA2, 0xAB, 0xE6, 0x8B, 0x92, 0xE7, 0xBB, 0x9D, 0xEF, 0xBC, 0x9A] @ target @ '' '' @ utf8
     [0xE7, 0x9A, 0x84, 0xE9, 0x9A, 0x90, 0xE7, 0xA7, 0x81, 0xE8, 0xA7, 0x84, 0xE5, 0x88, 0x99, 0xE9, 0x99, 0x90, 0xE5, 0x88, 0xB6, 0xE4,
      0xBA, 0x86, 0xE6, 0xAD, 0xA4, 0xE6, 0x8F, 0x90, 0xE9, 0x97, 0xAE, 0xE3, 0x80, 0x82]"

definition timeout_notice :: "string \<Rightarrow> string" where
  "timeout_notice target = notice_tag @ utf8
     [0xE6, 0x9F, 0xA5, 0xE8, 0xAF, 0xA2, 0xE8, 0xB6, 0x85, 0xE6, 0x97, 0xB6, 0xEF, 0xBC, 0x9A] @ target @ '' '' @ utf8
     [0xE6, 0x9C, 0xAA, 0xE8, 0x83, 0xBD, 0xE5, 0x9C, 0xA8, 0xE6, 0x97, 0xB6, 0xE9, 0x99, 0x90, 0xE5, 0x86, 0x85, 0xE5, 0x93, 0x8D, 0xE5,
      0xBA, 0x94, 0xE3, 0x80, 0x82]"

definition error_notice :: "string \<Rightarrow> string" where
  "error_notice errMsg = notice_tag @ utf8
     [0xE6, 0x9F, 0xA5, 0xE8, 0xAF, 0xA2, 0xE5, 0xA4, 0xB1, 0xE8, 0xB4, 0xA5, 0xEF, 0xBC, 0x9A] @
     (if errMsg = [] then utf8 [0xE6, 0x89, 0xA7, 0xE8, 0xA1, 0x8C, 0xE5, 0x87, 0xBA, 0xE7, 0x8E, 0xB0, 0xE9, 0x94, 0x99, 0xE8, 0xAF, 0xAF]
      else errMsg)"

text \<open>What the goroutine does after \<^verbatim>\<open>Dispatch\<close>: acknowledge a query that had to be queued.\<close>

definition finish_job :: "fs_world \<Rightarrow> feishu_job \<Rightarrow> ('e, DispatchResult) result \<Rightarrow> Handler \<Rightarrow> Handler" where
  "finish_job w job res h =
     (case (res, fj_binding job) of
        (Inr r, Some b) \<Rightarrow>
          if dr_status r = QueryStatusQueued
          then snd (reply_through w b (fc_message_id (fj_ctx job))
                 (offline_notice (if dr_target_member_name r = [] then fj_member job else dr_target_member_name r)) h)
          else h
      | _ \<Rightarrow> h)"

definition completion_text :: "QueryDetailResponse \<Rightarrow> string option" where
  "completion_text q =
     (let target = (if q_target_member_name q = [] then q_target_member_id q else q_target_member_name q); st = q_status q in
      if st = QueryStatusCompleted \<or> st = ''success'' then Some (answer_tag @ q_answer q)
      else if st = QueryStatusExpired then Some (expired_notice target)
      else if st = QueryStatusRefused then
        Some (refused_notice target @ (if trim_space (q_answer q) \<noteq> [] then CHR 0x0A # q_answer q else []))
      else if st = QueryStatusTimeout then Some (timeout_notice target)
      else if st = QueryStatusError then Some (error_notice (q_error_message q))
      else if q_answer q \<noteq> [] then Some (answer_tag @ q_answer q) else None)"

definition OnQueryComplete :: "fs_world \<Rightarrow> QueryDetailResponse option \<Rightarrow> Handler \<Rightarrow> fs_error option \<times> Handler" where
  "OnQueryComplete w qo h =
     (case qo of
        None \<Rightarrow> (None, h)
      | Some q \<Rightarrow>
     (case q_feishu_context q of
        None \<Rightarrow> (None, h)
      | Some ctx \<Rightarrow>
          if fc_message_id ctx = [] then (None, h)
          else (case fg_lookup (fh_cfg h) of
             None \<Rightarrow> (Some LookupMissing, h)
           | Some look \<Rightarrow> (case look (q_target_member_id q) of
               None \<Rightarrow> (Some LookupFailed, h)
             | Some b \<Rightarrow>
                 (case completion_text q of
                    None \<Rightarrow> (None, snd (GetClient w b h))
                  | Some txt \<Rightarrow> reply_through w b (fc_message_id ctx) txt h)))))"

end
