(* ===== verification/Feishu_Properties.thy ===== *)
theory Feishu_Properties
  imports Feishu
begin

text \<open>
  Properties of the chat side: the exchange that sends a reply, the cache of clients, duplicates of events, and what the sender of a
  message is told.
\<close>

section \<open>The exchange of a reply\<close>

definition accepted :: "fs_world \<Rightarrow> nat \<Rightarrow> fs_request \<Rightarrow> bool" where
  "accepted w n rq \<longleftrightarrow> (case fw_reply w n rq of None \<Rightarrow> False | Some re \<Rightarrow> re_read re \<and> re_status re < 400 \<and> re_code re = 0)"

definition token_rejected :: "fs_world \<Rightarrow> nat \<Rightarrow> fs_request \<Rightarrow> bool" where
  "token_rejected w n rq \<longleftrightarrow>
     (case fw_reply w n rq of None \<Rightarrow> False | Some re \<Rightarrow> re_read re \<and> isTokenError (re_status re) (re_code re) (re_msg re))"

definition same_app :: "Client \<Rightarrow> Client \<Rightarrow> bool" where
  "same_app c d \<longleftrightarrow> cl_appID d = cl_appID c \<and> cl_appSecret d = cl_appSecret c \<and> cl_baseURL d = cl_baseURL c"

lemma same_app_simps [simp]:
  "same_app c c" "same_app c (EvictToken d) = same_app c d" "same_app c (log_request rq d) = same_app c d"
  "cl_sent (EvictToken c) = cl_sent c" "cl_sent (log_request rq c) = cl_sent c @ [rq]" "cl_token (EvictToken c) = []"
  by (simp_all add: same_app_def EvictToken_def log_request_def)

lemma same_app_trans: "same_app c d \<Longrightarrow> same_app d e \<Longrightarrow> same_app c e"
  by (simp add: same_app_def)

lemma same_app_request: "same_app c d \<Longrightarrow> token_request w d = token_request w c"
  by (simp add: same_app_def token_request_def)

text \<open>Getting a token makes at most one request, and exactly one that succeeds when nothing is cached.\<close>

lemma token_step:
  assumes "GetTenantAccessToken w c = (r, c1)"
  shows "same_app c c1" and "cl_sent c1 = cl_sent c \<or> cl_sent c1 = cl_sent c @ [token_request w c]"
    and "cl_token c = [] \<Longrightarrow> r = Inr tok \<Longrightarrow> cl_sent c1 = cl_sent c @ [token_request w c]
      \<and> (\<exists>re. fw_reply w (length (cl_sent c)) (token_request w c) = Some re \<and> tok = re_token re)"
  using assms
  by (auto simp: GetTenantAccessToken_def token_fresh_def log_request_def same_app_def Let_def split: if_splits option.splits)

text \<open>One attempt: a token, then one post, whose reply decides.\<close>

lemma post_step:
  assumes "post_loop w url body (Suc left) c = (e, c')"
  obtains (token) x where "GetTenantAccessToken w c = (Inl x, c')" "e \<noteq> None"
  | (bad) tok where "GetTenantAccessToken w c = (Inr tok, c')" "e \<noteq> None"
  | (again) tok c1 where "GetTenantAccessToken w c = (Inr tok, c1)" "left \<noteq> 0"
      "token_rejected w (length (cl_sent c1)) (post_request url body tok)"
      "post_loop w url body left (EvictToken (log_request (post_request url body tok) c1)) = (e, c')"
  | (last) tok c1 where "GetTenantAccessToken w c = (Inr tok, c1)"
      "cl_sent c' = cl_sent c1 @ [post_request url body tok]" "same_app c1 c'"
      "e = None \<longleftrightarrow> accepted w (length (cl_sent c1)) (post_request url body tok)"
proof -
  obtain r c1 where g: "GetTenantAccessToken w c = (r, c1)" by fastforce
  show thesis
  proof (cases r)
    case (Inl x)
    then show thesis using assms g by (intro token) auto
  next
    case (Inr tok)
    let ?rq = "post_request url body tok"
    consider "\<not> fw_request_ok w url" | "fw_request_ok w url" "left \<noteq> 0" "token_rejected w (length (cl_sent c1)) ?rq"
      | "fw_request_ok w url" "left = 0 \<or> \<not> token_rejected w (length (cl_sent c1)) ?rq" by metis
    then show thesis
    proof cases
      case 1
      then show thesis using assms g Inr by (intro bad) auto
    next
      case 2
      then obtain re where re: "fw_reply w (length (cl_sent c1)) ?rq = Some re" "re_read re"
          "isTokenError (re_status re) (re_code re) (re_msg re)"
        by (auto simp: token_rejected_def split: option.splits)
      show thesis by (rule again [OF _ 2(2,3)]) (use assms g Inr 2(1,2) re in \<open>simp_all add: Let_def\<close>)
    next
      case 3
      show thesis
      proof (cases "fw_reply w (length (cl_sent c1)) ?rq")
        case None
        show thesis by (rule last [of tok c1]) (use assms g Inr 3(1) None in \<open>auto simp: Let_def accepted_def\<close>)
      next
        case (Some re)
        with 3(2) have "left = 0 \<or> \<not> re_read re \<or> \<not> isTokenError (re_status re) (re_code re) (re_msg re)"
          by (simp add: token_rejected_def)
        then show thesis
          by (intro last [of tok c1]) (use assms g Inr 3(1) Some in \<open>auto simp: Let_def accepted_def split: if_splits\<close>)
      qed
    qed
  qed
qed

text \<open>A reply is sent carefully.  The client fetches a token if it has none that is good for five more minutes, then posts the text to
  the message; only when that post is rejected because of its token does it fetch a new token and post once more, with the new token.
  It never posts more than twice, and it reports success exactly when the last post was accepted.\<close>

theorem reply_exchange:
  assumes "ReplyMessage w mid txt c = (e, c')"
  shows "let n = length (cl_sent c); T = token_request w c; P = post_request (reply_url c mid) (fw_json w (reply_payload w txt)) in
    \<exists>t rest. cl_sent c' = cl_sent c @ t @ rest \<and> t \<in> {[], [T]}
      \<and> (rest = [] \<and> e \<noteq> None
       \<or> (\<exists>tok. rest = [P tok] \<and> (e = None \<longleftrightarrow> accepted w (n + length t) (P tok)))
       \<or> (\<exists>tok. rest \<in> {[P tok], [P tok, T]} \<and> token_rejected w (n + length t) (P tok) \<and> e \<noteq> None)
       \<or> (\<exists>tok re. rest = [P tok, T, P (re_token re)] \<and> token_rejected w (n + length t) (P tok)
            \<and> fw_reply w (n + length t + 1) T = Some re \<and> (e = None \<longleftrightarrow> accepted w (n + length t + 2) (P (re_token re)))))"
proof -
  define T where "T = token_request w c"
  define url where "url = reply_url c mid"
  define body where "body = fw_json w (reply_payload w txt)"
  define P where "P = post_request url body"
  have run: "post_loop w url body (Suc 1) c = (e, c')"
    using assms by (simp add: ReplyMessage_def doPostWithTokenRetry_def url_def body_def numeral_2_eq_2)
  define N where "N t = length (cl_sent c) + length t" for t :: "fs_request list"
  define Q where "Q t rest \<longleftrightarrow> rest = [] \<and> e \<noteq> None
       \<or> (\<exists>tok. rest = [P tok] \<and> (e = None \<longleftrightarrow> accepted w (N t) (P tok)))
       \<or> (\<exists>tok. rest \<in> {[P tok], [P tok, T]} \<and> token_rejected w (N t) (P tok) \<and> e \<noteq> None)
       \<or> (\<exists>tok re. rest = [P tok, T, P (re_token re)] \<and> token_rejected w (N t) (P tok)
            \<and> fw_reply w (N t + 1) T = Some re \<and> (e = None \<longleftrightarrow> accepted w (N t + 2) (P (re_token re))))"
    for t rest :: "fs_request list"
  have Q: "e \<noteq> None \<Longrightarrow> Q t []" "(e = None \<longleftrightarrow> accepted w (N t) (P tok)) \<Longrightarrow> Q t [P tok]"
    "token_rejected w (N t) (P tok) \<Longrightarrow> e \<noteq> None \<Longrightarrow> rest \<in> {[P tok], [P tok, T]} \<Longrightarrow> Q t rest"
    "token_rejected w (N t) (P tok) \<Longrightarrow> fw_reply w (N t + 1) T = Some re \<Longrightarrow> (e = None \<longleftrightarrow> accepted w (N t + 2) (P (re_token re)))
      \<Longrightarrow> Q t [P tok, T, P (re_token re)]" for t rest tok re
    unfolding Q_def by blast+
  have first: "\<exists>t. t \<in> {[], [T]} \<and> cl_sent c1 = cl_sent c @ t" if "GetTenantAccessToken w c = (r, c1)" for r c1
    using token_step(2) [OF that] unfolding T_def by auto
  have "\<exists>t rest. cl_sent c' = cl_sent c @ t @ rest \<and> t \<in> {[], [T]} \<and> Q t rest"
  proof (cases rule: post_step [OF run])
    case (1 x)
    then obtain t where "t \<in> {[], [T]}" "cl_sent c' = cl_sent c @ t @ []" using first by fastforce
    then show ?thesis using Q(1) [OF 1(2)] by blast
  next
    case (2 tok)
    then obtain t where "t \<in> {[], [T]}" "cl_sent c' = cl_sent c @ t @ []" using first by fastforce
    then show ?thesis using Q(1) [OF 2(2)] by blast
  next
    case (4 tok c1)
    obtain t where t: "t \<in> {[], [T]}" "cl_sent c1 = cl_sent c @ t" using first [OF 4(1)] by blast
    have "Q t [P tok]" by (rule Q(2)) (use 4(4) t(2) in \<open>simp add: N_def P_def\<close>)
    moreover have "cl_sent c' = cl_sent c @ t @ [P tok]" using t(2) 4(2) by (simp add: P_def)
    ultimately show ?thesis using t(1) by blast
  next
    case (3 tok c1)
    obtain t where t: "t \<in> {[], [T]}" "cl_sent c1 = cl_sent c @ t" using first [OF 3(1)] by blast
    define c2 where "c2 = EvictToken (log_request (P tok) c1)"
    have sa: "same_app c c2" using token_step(1) [OF 3(1)] by (simp add: c2_def)
    have s2: "cl_sent c2 = cl_sent c @ t @ [P tok]" "cl_token c2 = []" using t(2) by (simp_all add: c2_def)
    have T2: "token_request w c2 = T" using same_app_request [OF sa] by (simp add: T_def)
    have run2: "post_loop w url body (Suc 0) c2 = (e, c')" using 3(4) by (simp add: c2_def P_def)
    have rj: "token_rejected w (N t) (P tok)" using 3(3) t(2) by (simp add: P_def N_def)
    have short: ?thesis if s: "GetTenantAccessToken w c2 = (r, c')" "e \<noteq> None" for r
    proof -
      obtain rest where "rest \<in> {[P tok], [P tok, T]}" "cl_sent c' = cl_sent c @ t @ rest"
        using token_step(2) [OF s(1)] s2(1) T2 by auto
      then show ?thesis using Q(3) [OF rj s(2)] t(1) by blast
    qed
    show ?thesis
    proof (cases rule: post_step [OF run2])
      case (1 x)
      then show ?thesis by (rule short)
    next
      case (2 tok2)
      then show ?thesis by (rule short)
    next
      case (4 tok2 c3)
      then obtain re where re: "cl_sent c3 = cl_sent c2 @ [T]" "fw_reply w (length (cl_sent c2)) T = Some re" "tok2 = re_token re"
        using token_step(3) [OF 4(1) s2(2) refl] T2 by auto
      have "Q t [P tok, T, P (re_token re)]"
        by (rule Q(4) [OF rj]) (use re 4(4) s2(1) in \<open>simp_all add: N_def P_def\<close>)
      moreover have "cl_sent c' = cl_sent c @ t @ [P tok, T, P (re_token re)]" using 4(2) re s2(1) by (simp add: P_def)
      ultimately show ?thesis using t(1) by blast
    qed simp
  qed
  then show ?thesis unfolding Q_def N_def T_def P_def url_def body_def Let_def .
qed

section \<open>The cache of clients\<close>

text \<open>Every operation that touches the cache, for bindings whose application identifier contains no colon.\<close>

definition plain_app :: "FeishuBindingRequest \<Rightarrow> bool" where
  "plain_app b \<longleftrightarrow> CHR '':'' \<notin> set (fb_app_id b)"

inductive feishu_step :: "fs_world \<Rightarrow> Handler \<Rightarrow> Handler \<Rightarrow> bool" for w where
  get: "plain_app b \<Longrightarrow> feishu_step w h (snd (GetClient w b h))"
| reply: "plain_app b \<Longrightarrow> feishu_step w h (snd (reply_through w b mid txt h))"
| evict: "feishu_step w h (EvictClient app h)"
| event: "feishu_step w h (fst (snd (ProcessEvent decode now member raw h)))"

text \<open>An entry belongs to its key.\<close>

definition entry_for :: "fs_world \<Rightarrow> string \<Rightarrow> Client \<Rightarrow> bool" where
  "entry_for w k c \<longleftrightarrow> CHR '':'' \<notin> set (cl_appID c)
     \<and> (\<exists>base. base \<noteq> [] \<and> k = client_key w (cl_appID c) (cl_appSecret c) base \<and> cl_baseURL c = trim_slashes base)"

definition cache_ok :: "fs_world \<Rightarrow> Handler \<Rightarrow> bool" where
  "cache_ok w h \<longleftrightarrow> fg_factory (fh_cfg h) = None \<and> fg_base_url (fh_cfg h) \<noteq> [] \<and> gm_wf (fh_clients h)
     \<and> (\<forall>k c. gm_get (fh_clients h) k = Some c \<longrightarrow> entry_for w k c)"

lemma reply_same_app: "ReplyMessage w mid txt c = (e, c') \<Longrightarrow> same_app c c'"
proof -
  have "post_loop w url body n c = (e, c') \<Longrightarrow> same_app c c'" for url body n c
  proof (induction n arbitrary: c)
    case (Suc n)
    from Suc.prems show ?case
    proof (cases rule: post_step)
      case (again tok c1)
      with Suc.IH [OF again(4)] token_step(1) [OF again(1)] show ?thesis
        by (simp add: same_app_def EvictToken_def log_request_def)
    qed (auto dest: token_step(1) intro: same_app_trans)
  qed simp
  then show "ReplyMessage w mid txt c = (e, c') \<Longrightarrow> same_app c c'" by (simp add: ReplyMessage_def doPostWithTokenRetry_def)
qed

lemma entry_same_app: "same_app c d \<Longrightarrow> entry_for w k c \<Longrightarrow> entry_for w k d"
  by (simp add: same_app_def entry_for_def)

lemma new_entry:
  "plain_app b \<Longrightarrow> base \<noteq> [] \<Longrightarrow>
   entry_for w (client_key w (fb_app_id b) (fb_app_secret b) base) (NewClient (fb_app_id b) (fb_app_secret b) base)"
  by (auto simp: entry_for_def NewClient_def plain_app_def)

lemma get_client_ok:
  assumes "cache_ok w h" and "plain_app b" and "GetClient w b h = ((k, c), h')"
  shows "cache_ok w h'" and "gm_get (fh_clients h') k = Some c" and "entry_for w k c"
    and "k = client_key w (fb_app_id b) (fb_app_secret b) (client_base b h)" and "fh_cfg h' = fh_cfg h"
  using assms new_entry [OF assms(2), of "client_base b h"]
  by (auto simp: GetClient_def cache_ok_def Let_def client_base_def split: option.splits if_splits)

lemma process_cases:
  assumes "ProcessEvent decode t member raw h = (e, h', job)"
  obtains (skip) "h' = h" "job = None"
  | (checked) env header ev msg b d where "raw = Some env" "ee_header env = Some header" "ee_event env = Some ev" "eb_message ev = Some msg"
      "check_ids t (eh_event_id header) (em_message_id msg) (fh_dedupe h) = (b, d)" "h' = h\<lparr>fh_dedupe := d\<rparr>" "job \<noteq> None \<longrightarrow> \<not> b"
proof (cases "\<exists>env header ev msg. raw = Some env \<and> ee_header env = Some header \<and> ee_event env = Some ev \<and> eb_message ev = Some msg
    \<and> eh_event_type header = ''im.message.receive_v1'' \<and> \<not> from_app ev")
  case True
  then obtain env header ev msg where v: "raw = Some env" "ee_header env = Some header" "ee_event env = Some ev" "eb_message ev = Some msg"
    "eh_event_type header = ''im.message.receive_v1''" "\<not> from_app ev" by blast
  obtain b d where c: "check_ids t (eh_event_id header) (em_message_id msg) (fh_dedupe h) = (b, d)" by fastforce
  have "h' = h\<lparr>fh_dedupe := d\<rparr>" "job \<noteq> None \<longrightarrow> \<not> b"
    using assms unfolding ProcessEvent_def by (auto simp: v c Let_def split: if_splits option.splits)
  then show thesis by (rule checked [OF v(1-4) c])
next
  case False
  then have "h' = h \<and> job = None"
    using assms unfolding ProcessEvent_def by (simp split: option.splits if_splits)
  then show thesis using skip by blast
qed

interpretation feishu_cache: inv_system "feishu_step w" "cache_ok w" for w
proof
  fix h h'
  assume ok: "cache_ok w h" and "feishu_step w h h'"
  from this(2) show "cache_ok w h'"
  proof cases
    case (get b)
    then show ?thesis using get_client_ok(1) [OF ok] by (metis prod.collapse)
  next
    case (reply b mid tx)
    obtain k c h1 where g: "GetClient w b h = ((k, c), h1)" by (metis prod.exhaust)
    obtain e c' where r: "ReplyMessage w mid tx c = (e, c')" by fastforce
    note k = get_client_ok [OF ok reply(2) g]
    have "entry_for w k c'" by (rule entry_same_app [OF reply_same_app [OF r] k(3)])
    then show ?thesis using k(1) by (simp add: reply(1) reply_through_def g r cache_ok_def)
  next
    case (evict app)
    then show ?thesis using ok
      by (auto simp: EvictClient_def cache_ok_def gm_get_filter split: option.splits if_splits)
  next
    case (event decode now member raw)
    obtain e job where p: "ProcessEvent decode now member raw h = (e, h', job)" using event by (metis prod.collapse)
    then show ?thesis by (cases rule: process_cases) (use ok in \<open>simp_all add: cache_ok_def\<close>)
  qed
qed

lemma before_colon: "a @ CHR '':'' # x = b @ CHR '':'' # y \<Longrightarrow> CHR '':'' \<notin> set a \<Longrightarrow> CHR '':'' \<notin> set b \<Longrightarrow> a = b \<and> x = y"
proof (induction a arbitrary: b)
  case (Cons z a)
  then show ?case by (cases b) auto
qed (auto simp: Cons_eq_append_conv)

lemma client_key_inj:
  assumes "client_key w a s base = client_key w a' s' base'" and "\<forall>x. CHR '':'' \<notin> set (fw_hash w x)"
    and "CHR '':'' \<notin> set a" and "CHR '':'' \<notin> set a'"
  shows "a = a' \<and> fw_hash w s = fw_hash w s' \<and> base = base'"
  using assms before_colon [of a "fw_hash w s @ CHR '':'' # base" a' "fw_hash w s' @ CHR '':'' # base'"]
    before_colon [of "fw_hash w s" base "fw_hash w s'" base'] by (simp add: client_key_def)

lemma key_of_app:
  assumes "CHR '':'' \<notin> set app" and "CHR '':'' \<notin> set a"
  shows "client_key w a s base = app \<or> has_prefix (client_key w a s base) (app @ '':'') \<longleftrightarrow> a = app"
proof
  assume "client_key w a s base = app \<or> has_prefix (client_key w a s base) (app @ '':'')"
  then show "a = app"
  proof
    assume "client_key w a s base = app"
    then have "CHR '':'' \<in> set app" by (auto simp: client_key_def)
    with assms(1) show ?thesis ..
  next
    assume "has_prefix (client_key w a s base) (app @ '':'')"
    then obtain r where "client_key w a s base = (app @ '':'') @ r"
      unfolding has_prefix_def by (metis append_take_drop_id)
    then show ?thesis using before_colon [of a "fw_hash w s @ CHR '':'' # base" app r] assms by (simp add: client_key_def)
  qed
qed (simp add: client_key_def has_prefix_def)

text \<open>The cache hands out the right client.  After any history of events, replies and evictions, the client for a binding has the
  binding's application identifier and address and, up to a collision of the hash, its secret, so that a changed secret is never
  answered with the old client; and eviction removes exactly the clients of the application.\<close>

theorem client_cache_ok:
  assumes "(feishu_step w)\<^sup>*\<^sup>* (NewHandler cfg) h" and "fg_factory cfg = None" and "\<forall>x. CHR '':'' \<notin> set (fw_hash w x)"
    and "plain_app b" and "GetClient w b h = ((k, c), h')" and "app \<noteq> []" and "CHR '':'' \<notin> set app"
  shows "cl_appID c = fb_app_id b \<and> fw_hash w (cl_appSecret c) = fw_hash w (fb_app_secret b)
    \<and> cl_baseURL c = trim_slashes (client_base b h)
    \<and> (\<forall>k' d. gm_get (fh_clients (EvictClient app h)) k' = Some d \<longleftrightarrow> gm_get (fh_clients h) k' = Some d \<and> cl_appID d \<noteq> app)"
proof -
  have "cache_ok w (NewHandler cfg)" using assms(2) by (auto simp: cache_ok_def NewHandler_def default_base_def)
  with assms(1) have ok: "cache_ok w h" by (rule feishu_cache.reach_good)
  note g = get_client_ok [OF ok assms(4,5)]
  obtain base where base: "k = client_key w (cl_appID c) (cl_appSecret c) base" "cl_baseURL c = trim_slashes base" "CHR '':'' \<notin> set (cl_appID c)"
    using g(3) by (auto simp: entry_for_def)
  have inj: "cl_appID c = fb_app_id b \<and> fw_hash w (cl_appSecret c) = fw_hash w (fb_app_secret b) \<and> base = client_base b h"
    by (rule client_key_inj [OF _ assms(3) base(3)]) (use base(1) g(4) assms(4) in \<open>auto simp: plain_app_def\<close>)
  have e: "entry_for w k' d \<Longrightarrow> (k' = app \<or> has_prefix k' (app @ '':'')) \<longleftrightarrow> cl_appID d = app" for k' d
    using key_of_app [OF assms(7), of "cl_appID d" w "cl_appSecret d"] unfolding entry_for_def by metis
  have "gm_get (fh_clients (EvictClient app h)) k' = Some d \<longleftrightarrow> gm_get (fh_clients h) k' = Some d \<and> cl_appID d \<noteq> app" for k' d
    using ok assms(6) e [of k'] by (auto simp: EvictClient_def gm_get_filter cache_ok_def split: option.splits)
  then show ?thesis using inj base(2) by simp
qed

section \<open>Duplicates\<close>

lemma record_new:
  assumes "gm_wf (seen d)" and "k \<noteq> []" and "CheckAndRecord t k d = (False, d')" and "int (length (seen d)) < maxSize d"
  shows "gm_get (seen d') k = Some (t + ttl_millis d)" and "gm_wf (seen d')" and "length (seen d') \<le> Suc (length (seen d))"
    and "maxSize d' = maxSize d" and "ttl_millis d' = ttl_millis d"
proof -
  have "make_room t (d\<lparr>seen := gm_del k (seen d)\<rparr>) = d\<lparr>seen := gm_del k (seen d)\<rparr>"
    using assms(4) gm_del_length_le [of k "seen d"] by (simp add: make_room_def)
  then have d': "d' = d\<lparr>seen := gm_put k (t + ttl_millis d) (gm_del k (seen d))\<rparr>"
    using assms(2,3) by (auto simp: CheckAndRecord_def Let_def ttl_millis_def split: if_splits)
  then show "gm_get (seen d') k = Some (t + ttl_millis d)" "gm_wf (seen d')" "length (seen d') \<le> Suc (length (seen d))"
    "maxSize d' = maxSize d" "ttl_millis d' = ttl_millis d"
    using assms(1) gm_del_length_le [of k "seen d"] by (auto simp: gm_put_length ttl_millis_def)
qed

definition event_ids :: "EventEnvelope \<Rightarrow> string list" where
  "event_ids env = filter (\<lambda>k. k \<noteq> [])
     ((case ee_header env of None \<Rightarrow> [] | Some header \<Rightarrow> [eh_event_id header])
      @ (case ee_event env of None \<Rightarrow> [] | Some ev \<Rightarrow> (case eb_message ev of None \<Rightarrow> [] | Some m \<Rightarrow> [em_message_id m])))"

lemma in_event_ids:
  "k \<in> set (event_ids env) \<longleftrightarrow> k \<noteq> [] \<and> ((\<exists>header. ee_header env = Some header \<and> k = eh_event_id header)
     \<or> (\<exists>ev m. ee_event env = Some ev \<and> eb_message ev = Some m \<and> k = em_message_id m))"
  by (cases "ee_header env"; cases "ee_event env"; cases "eb_message (the (ee_event env))") (auto simp: event_ids_def simp del: filter.simps)

text \<open>An identifier the deduplicator knows until \<open>ex\<close>, with room for \<open>n\<close> more.\<close>

definition known_id :: "string \<Rightarrow> int \<Rightarrow> nat \<Rightarrow> Deduplicator \<Rightarrow> bool" where
  "known_id k ex n d \<longleftrightarrow> gm_wf (seen d) \<and> gm_get (seen d) k = Some ex \<and> int (length (seen d) + n) \<le> maxSize d"

lemma known_check:
  assumes "known_id k ex (Suc n) d" and "t < ex" and "CheckAndRecord t k' d = (b, d')"
  shows "known_id k ex n d'" and "k' = k \<Longrightarrow> k \<noteq> [] \<Longrightarrow> b"
  using assms remembered_step [of d k ex t k' b d'] by (auto simp: known_id_def)

lemma known_less: "known_id k ex n d \<Longrightarrow> m \<le> n \<Longrightarrow> known_id k ex m d"
  by (simp add: known_id_def)

lemma known_ids:
  assumes "known_id k ex (n + 2) d" and "t < ex" and "check_ids t e m d = (b, d')"
  shows "known_id k ex n d'" and "k \<noteq> [] \<Longrightarrow> k = e \<or> k = m \<Longrightarrow> b"
proof -
  obtain b1 d1 where s: "(if e \<noteq> [] then CheckAndRecord t e d else (False, d)) = (b1, d1)" by fastforce
  have k1: "known_id k ex (Suc n) d1" "e \<noteq> [] \<Longrightarrow> k = e \<Longrightarrow> b1"
  proof -
    have d: "known_id k ex (Suc (Suc n)) d" using assms(1) by simp
    show "known_id k ex (Suc n) d1"
    proof (cases "e = []")
      case True
      then have "d1 = d" using s by simp
      then show ?thesis using known_less [OF d, of "Suc n"] by simp
    next
      case False
      then have "CheckAndRecord t e d = (b1, d1)" using s by simp
      then show ?thesis by (rule known_check(1) [OF d assms(2)])
    qed
    assume "e \<noteq> []" "k = e"
    then have "CheckAndRecord t e d = (b1, d1)" using s by simp
    then show b1 by (rule known_check(2) [OF d assms(2)]) (use \<open>e \<noteq> []\<close> \<open>k = e\<close> in auto)
  qed
  have eq: "(if b1 then (True, d1) else if m \<noteq> [] then CheckAndRecord t m d1 else (False, d1)) = (b, d')"
    using assms(3) unfolding check_ids_def s by simp
  have "known_id k ex n d' \<and> (k \<noteq> [] \<longrightarrow> k = e \<or> k = m \<longrightarrow> b)"
  proof (cases "b1 \<or> m = []")
    case True
    with eq have "d' = d1" "b = b1" by (auto split: if_splits)
    then show ?thesis using k1 known_less [OF k1(1), of n] True by auto
  next
    case False
    with eq have "CheckAndRecord t m d1 = (b, d')" by simp
    from known_check [OF k1(1) assms(2) this] show ?thesis using k1(2) False by auto
  qed
  then show "known_id k ex n d'" "k \<noteq> [] \<Longrightarrow> k = e \<or> k = m \<Longrightarrow> b" by auto
qed

lemma known_event:
  assumes "known_id k ex (n + 2) (fh_dedupe h)" and "t < ex" and "ProcessEvent decode t member raw h = (e, h', job)"
  shows "known_id k ex n (fh_dedupe h')" and "raw = Some env \<Longrightarrow> k \<in> set (event_ids env) \<Longrightarrow> job = None"
proof -
  have "known_id k ex n (fh_dedupe h') \<and> (raw = Some env \<longrightarrow> k \<in> set (event_ids env) \<longrightarrow> job = None)"
    using assms(3)
  proof (cases rule: process_cases)
    case skip
    then show ?thesis using known_less [OF assms(1), of n] by simp
  next
    case (checked env' header ev msg b d)
    then show ?thesis using known_ids [OF assms(1,2) checked(5)] by (auto simp: in_event_ids)
  qed
  then show "known_id k ex n (fh_dedupe h')" "raw = Some env \<Longrightarrow> k \<in> set (event_ids env) \<Longrightarrow> job = None" by auto
qed

lemma first_event:
  assumes "gm_wf (seen (fh_dedupe h))" and "int (length (seen (fh_dedupe h)) + (n + 2)) \<le> maxSize (fh_dedupe h)"
    and "ProcessEvent decode t member (Some env) h = (e, h', Some job)" and "k \<in> set (event_ids env)"
    and "0 < ttl_millis (fh_dedupe h)"
  shows "known_id k (t + ttl_millis (fh_dedupe h)) n (fh_dedupe h')"
proof -
  obtain header ev msg d where v: "ee_header env = Some header" "ee_event env = Some ev" "eb_message ev = Some msg"
    and c: "check_ids t (eh_event_id header) (em_message_id msg) (fh_dedupe h) = (False, d)" and h': "fh_dedupe h' = d"
    using assms(3) by (cases rule: process_cases) auto
  let ?e = "eh_event_id header" and ?m = "em_message_id msg" and ?d = "fh_dedupe h"
  have k: "k \<noteq> []" "k = ?e \<or> k = ?m" using assms(4) v by (auto simp: in_event_ids)
  obtain d1 where s: "(if ?e \<noteq> [] then CheckAndRecord t ?e ?d else (False, ?d)) = (False, d1)"
    and s2: "(if ?m \<noteq> [] then CheckAndRecord t ?m d1 else (False, d1)) = (False, d)"
    using c unfolding check_ids_def Let_def by (auto split: prod.splits if_splits)
  have d1: "gm_wf (seen d1)" "length (seen d1) \<le> Suc (length (seen ?d))" "maxSize d1 = maxSize ?d" "ttl_millis d1 = ttl_millis ?d"
    "?e \<noteq> [] \<Longrightarrow> gm_get (seen d1) ?e = Some (t + ttl_millis ?d)"
    using s assms(1,2) record_new [of ?d ?e t d1] by (auto split: if_splits)
  show ?thesis
  proof (cases "?m = []")
    case True
    then show ?thesis using s2 d1 k assms(2) by (auto simp: known_id_def h')
  next
    case False
    then have r: "CheckAndRecord t ?m d1 = (False, d)" using s2 by simp
    note rec = record_new [OF d1(1) False r]
    have room: "int (length (seen d1)) < maxSize d1" using d1(2,3) assms(2) by simp
    show ?thesis
    proof (cases "k = ?m")
      case True
      then show ?thesis using rec [OF room] d1(2-4) assms(2) by (auto simp: known_id_def h')
    next
      case F: False
      then have "known_id k (t + ttl_millis ?d) (Suc n) d1" using k d1 assms(2) by (auto simp: known_id_def)
      then show ?thesis unfolding h' by (rule known_check(1) [OF _ _ r]) (use assms(5) in simp)
    qed
  qed
qed

text \<open>A sequence of events, in the order the handler admits them.\<close>

fun run_events :: "(string \<Rightarrow> string option) \<Rightarrow> (int \<times> string \<times> EventEnvelope option) list \<Rightarrow> Handler \<Rightarrow> feishu_job option list \<times> Handler" where
  "run_events decode [] h = ([], h)"
| "run_events decode ((t, member, raw) # evs) h =
     (let (e, h1, job) = ProcessEvent decode t member raw h; (jobs, h2) = run_events decode evs h1 in (job # jobs, h2))"

lemma known_run:
  assumes "known_id k ex (2 * length evs) (fh_dedupe h)" and "\<forall>(t, _) \<in> set evs. t < ex" and "run_events decode evs h = (jobs, h')"
    and "i < length evs" and "evs ! i = (t, member, Some env)" and "k \<in> set (event_ids env)"
  shows "jobs ! i = None"
  using assms
proof (induction evs arbitrary: h jobs i)
  case (Cons v evs)
  obtain t0 m0 raw where v: "v = (t0, m0, raw)" by (cases v)
  obtain e h1 job where p: "ProcessEvent decode t0 m0 raw h = (e, h1, job)" by (metis prod.exhaust)
  obtain jobs1 where r: "run_events decode evs h1 = (jobs1, h')" and jobs: "jobs = job # jobs1"
    using Cons.prems(3) by (auto simp: v p Let_def split: prod.splits)
  have t0: "t0 < ex" using Cons.prems(2) by (auto simp: v)
  have kn: "known_id k ex (2 * length evs + 2) (fh_dedupe h)" using Cons.prems(1) by simp
  note st = known_event [OF kn t0 p]
  show ?case
  proof (cases i)
    case 0
    then show ?thesis using st(2) [of env] Cons.prems(5,6) by (simp add: v jobs)
  next
    case (Suc j)
    then have "jobs1 ! j = None" using Cons.IH [OF st(1) _ r, of j] Cons.prems(2,4-6) by auto
    then show ?thesis by (simp add: jobs Suc)
  qed
qed simp

text \<open>A message is asked once.  After an event has started a query, no event that carries its event identifier or its message identifier
  starts another one while the identifiers are remembered, for whichever member it arrives and whatever comes in between, as long as
  the cache does not overflow.  This holds across members: a message that addresses the bots of two members, which the platform
  delivers to each of them with the same message identifier, is asked only of the first.\<close>

theorem event_asked_once:
  assumes "ProcessEvent decode t0 member (Some env) h = (e, h1, Some job)" and "run_events decode evs h1 = (jobs, h')"
    and "gm_wf (seen (fh_dedupe h))" and "0 < ttl_millis (fh_dedupe h)" and "\<forall>(t, _) \<in> set evs. t < t0 + ttl_millis (fh_dedupe h)"
    and "int (length (seen (fh_dedupe h)) + 2 * Suc (length evs)) \<le> maxSize (fh_dedupe h)"
    and "i < length evs" and "evs ! i = (t, member', Some env')" and "k \<in> set (event_ids env)" and "k \<in> set (event_ids env')"
  shows "jobs ! i = None"
proof -
  have "known_id k (t0 + ttl_millis (fh_dedupe h)) (2 * length evs) (fh_dedupe h1)"
    by (rule first_event [OF assms(3) _ assms(1,9,4)]) (use assms(6) in simp)
  then show ?thesis by (rule known_run [OF _ assms(5,2,7,8,10)])
qed

section \<open>What the sender is told\<close>

text \<open>What a reply has to mention: the answer, the error, or whose daemon did not answer.\<close>

definition told :: "QueryDetailResponse \<Rightarrow> string" where
  "told q = (if q_status q = QueryStatusCompleted then q_answer q
     else if q_status q = QueryStatusError then q_error_message q
     else if q_target_member_name q = [] then q_target_member_id q else q_target_member_name q)"

lemma contains_self [simp]: "contains s s" "contains (a @ s) s" "contains (s @ b) s" "contains s []"
  by (auto simp: contains_iff intro: exI [of _ "[]"])

lemma contains_append: "contains s x \<Longrightarrow> contains (a @ s) x" "contains s x \<Longrightarrow> contains (s @ b) x"
  unfolding contains_iff by (metis append_assoc)+

lemma notice_tells:
  "contains (expired_notice x) x" "contains (refused_notice x @ y) x" "contains (timeout_notice x) x" "contains (error_notice x) x"
  unfolding expired_notice_def refused_notice_def timeout_notice_def error_notice_def append_assoc
  by (intro contains_append(1) contains_self(3))+ simp

lemma completion_text_tells:
  assumes "is_terminal (q_status q)"
  shows "\<exists>r. completion_text q = Some r \<and> contains r (told q)"
  using assms unfolding is_terminal_def
  by (elim disjE) (simp_all add: completion_text_def told_def Let_def status_defs notice_tells)

text \<open>C21. A finished query is answered where it was asked.  When the completion hook reports success for a query that came from a
  chat, the last request of the client of the target's bot is a post to exactly that message, the platform has accepted it, and its
  text contains the answer, the error message or, for a timeout, an expiry or a refusal, the name of the member.\<close>

theorem completion_replied:
  assumes "OnQueryComplete w (Some q) h = (None, h')" and "q_feishu_context q = Some ctx" and "fc_message_id ctx \<noteq> []"
    and "is_terminal (q_status q)"
  shows "\<exists>b k c tok r. fg_lookup (fh_cfg h) \<noteq> None \<and> the (fg_lookup (fh_cfg h)) (q_target_member_id q) = Some b
    \<and> k = client_key w (fb_app_id b) (fb_app_secret b) (client_base b h)
    \<and> gm_get (fh_clients h') k = Some c \<and> cl_sent c \<noteq> []
    \<and> last (cl_sent c) = post_request (reply_url c (fc_message_id ctx)) (fw_json w (reply_payload w r)) tok
    \<and> accepted w (length (cl_sent c) - 1) (last (cl_sent c)) \<and> contains r (told q)"
proof -
  obtain r where r: "completion_text q = Some r" "contains r (told q)" using completion_text_tells [OF assms(4)] by blast
  obtain look b where b: "fg_lookup (fh_cfg h) = Some look" "look (q_target_member_id q) = Some b"
    and t: "reply_through w b (fc_message_id ctx) r h = (None, h')"
    using assms(1-3) r(1) by (auto simp: OnQueryComplete_def split: option.splits)
  obtain k c h1 where g: "GetClient w b h = ((k, c), h1)" by (metis prod.exhaust)
  obtain e c' where m: "ReplyMessage w (fc_message_id ctx) r c = (e, c')" by fastforce
  have e: "e = None" "gm_get (fh_clients h') k = Some c'" using t by (auto simp: reply_through_def g m)
  have k: "k = client_key w (fb_app_id b) (fb_app_secret b) (client_base b h)"
    using g by (auto simp: GetClient_def Let_def split: option.splits)
  let ?P = "post_request (reply_url c (fc_message_id ctx)) (fw_json w (reply_payload w r))"
  have "\<exists>s tok. cl_sent c' = s @ [?P tok] \<and> accepted w (length s) (?P tok)"
    using reply_exchange [OF m] e(1) by (auto simp: Let_def)
  then obtain s tok where s: "cl_sent c' = s @ [?P tok]" "accepted w (length s) (?P tok)" by blast
  have u: "reply_url c' (fc_message_id ctx) = reply_url c (fc_message_id ctx)"
    using reply_same_app [OF m] by (simp add: reply_url_def same_app_def)
  show ?thesis
    by (rule exI [of _ b], rule exI [of _ k], rule exI [of _ c'], rule exI [of _ tok], rule exI [of _ r])
       (use b e(2) k s u r(2) in simp)
qed

section \<open>Concrete runs\<close>

text \<open>A platform that rejects the token of the second request and accepts everything else.\<close>

definition demo_world :: fs_world where
  "demo_world = \<lparr>fw_reply = (\<lambda>n rq. Some \<lparr>re_status = (if n = 1 then 401 else 200), re_read = True, re_json = True, re_code = 0,
       re_msg = [], re_token = ''t'', re_expire = 7200, re_text = []\<rparr>),
     fw_clock = (\<lambda>n. 0), fw_json = (\<lambda>kvs. concat (map snd kvs)), fw_request_ok = (\<lambda>url. True), fw_hash = (\<lambda>s. ''00'')\<rparr>"

definition demo_binding :: FeishuBindingRequest where
  "demo_binding = \<lparr>fb_app_id = ''cli_a'', fb_app_secret = ''s'', fb_base_url = []\<rparr>"

definition demo_handler :: Handler where
  "demo_handler = NewHandler \<lparr>fg_lookup = Some (\<lambda>m. Some demo_binding), fg_dispatch = True, fg_base_url = [],
     fg_dedupe = None, fg_factory = None\<rparr>"

definition demo_event :: "string \<Rightarrow> EventEnvelope" where
  "demo_event eid = \<lparr>ee_schema = ''2.0'',
     ee_header = Some \<lparr>eh_event_id = eid, eh_event_type = ''im.message.receive_v1'', eh_create_time = [], eh_token = [], eh_app_id = [], eh_tenant_key = []\<rparr>,
     ee_event = Some \<lparr>eb_sender = None, eb_message = Some \<lparr>em_message_id = ''om_1'', em_root_id = [], em_parent_id = [], em_create_time = [],
       em_chat_id = ''oc'', em_chat_type = ''group'', em_message_type = ''text'', em_content = ''@_user_1 why?'', em_mentions = []\<rparr>\<rparr>,
     ee_challenge = [], ee_token = [], ee_type = [], ee_encrypt = [], ee_uuid = [], ee_ts = []\<rparr>"

theorem reply_exchange_witness:
  "fst (ReplyMessage demo_world ''om_1'' ''hi'' (NewClient ''a'' ''s'' [])) = None
   \<and> length (cl_sent (snd (ReplyMessage demo_world ''om_1'' ''hi'' (NewClient ''a'' ''s'' [])))) \<le> 4"
proof
  show "fst (ReplyMessage demo_world ''om_1'' ''hi'' (NewClient ''a'' ''s'' [])) = None" by code_simp
  show "length (cl_sent (snd (ReplyMessage demo_world ''om_1'' ''hi'' (NewClient ''a'' ''s'' [])))) \<le> 4"
    using reply_exchange [of demo_world "''om_1''" "''hi''" "NewClient ''a'' ''s'' []", OF prod.collapse [symmetric]]
    by (auto simp: Let_def NewClient_def)
qed

theorem client_cache_ok_witness:
  "cl_appID (snd (fst (GetClient demo_world demo_binding demo_handler))) = ''cli_a''"
proof -
  have h: "(feishu_step demo_world)\<^sup>*\<^sup>* demo_handler demo_handler" by simp
  obtain k c h' where g: "GetClient demo_world demo_binding demo_handler = ((k, c), h')" by (metis prod.exhaust)
  show ?thesis
    using client_cache_ok [OF h [unfolded demo_handler_def] _ _ _ g [unfolded demo_handler_def], of "''x''"]
    by (simp add: g) (simp add: demo_world_def demo_binding_def plain_app_def)
qed

theorem event_asked_once_witness:
  "snd (snd (ProcessEvent (\<lambda>_. None) 0 ''A'' (Some (demo_event ''e1'')) demo_handler)) \<noteq> None
   \<and> fst (run_events (\<lambda>_. None) [(5, ''B'', Some (demo_event ''e2''))]
       (fst (snd (ProcessEvent (\<lambda>_. None) 0 ''A'' (Some (demo_event ''e1'')) demo_handler)))) ! 0 = None"
proof -
  let ?h1 = "fst (snd (ProcessEvent (\<lambda>_. None) 0 ''A'' (Some (demo_event ''e1'')) demo_handler))"
  have "\<not> Option.is_none (snd (snd (ProcessEvent (\<lambda>_. None) 0 ''A'' (Some (demo_event ''e1'')) demo_handler)))" by code_simp
  then obtain e job where p: "ProcessEvent (\<lambda>_. None) 0 ''A'' (Some (demo_event ''e1'')) demo_handler = (e, ?h1, Some job)"
    by (cases "ProcessEvent (\<lambda>_. None) 0 ''A'' (Some (demo_event ''e1'')) demo_handler") (auto simp: Option.is_none_def)
  have ids: "''om_1'' \<in> set (event_ids (demo_event x))" for x by (simp add: event_ids_def demo_event_def)
  have d: "fh_dedupe demo_handler = NewDeduplicator (30 * minuteNs) 10000" by (simp add: demo_handler_def NewHandler_def)
  have "fst (run_events (\<lambda>_. None) [(5, ''B'', Some (demo_event ''e2''))] ?h1) ! 0 = None"
    by (rule event_asked_once [OF p prod.collapse [symmetric] _ _ _ _ _ _ ids ids [of "''e2''"], where t = 5 and member' = "''B''"])
       (simp_all add: d NewDeduplicator_def ttl_millis_def minuteNs_def)
  then show ?thesis using p by (metis option.discI snd_conv)
qed

definition demo_done :: QueryDetailResponse where
  "demo_done = \<lparr>q_query_id = ''q'', q_status = QueryStatusCompleted, q_asker_id = [], q_asker_name = [], q_target_member_id = ''A'',
     q_target_member_name = [], q_target_workspace = [], q_query = ''why?'', q_answer = ''so'', q_tools_used = None, q_duration_ms = 0,
     q_token_usage = zeroUsage, q_queue_position = 0, q_ttl_expires_at = 0, q_created_at = 0, q_completed_at = 0, q_error_message = [],
     q_feishu_context = Some \<lparr>fc_message_id = ''om_1'', fc_chat_id = [], fc_app_id = []\<rparr>, q_origin = ''feishu''\<rparr>"

theorem completion_replied_witness:
  "\<exists>k c. gm_get (fh_clients (snd (OnQueryComplete demo_world (Some demo_done) demo_handler))) k = Some c
     \<and> accepted demo_world (length (cl_sent c) - 1) (last (cl_sent c))"
proof -
  have "fst (OnQueryComplete demo_world (Some demo_done) demo_handler) = None" by code_simp
  then have "OnQueryComplete demo_world (Some demo_done) demo_handler = (None, snd (OnQueryComplete demo_world (Some demo_done) demo_handler))"
    by (metis prod.collapse)
  from completion_replied [OF this] show ?thesis by (force simp: demo_done_def)
qed

text \<open>A mention key that is the beginning of another one spoils it: with ten people mentioned, the key of the first is removed from
  within the key of the tenth before that one is looked for, and a stray digit stays in the question.\<close>

theorem mention_key_prefix_stays:
  "StripMentions (\<lambda>_. None) ''@_user_1 and @_user_10: why?''
     [\<lparr>mn_key = ''@_user_1'', mn_id = None, mn_name = [], mn_tenant_key = []\<rparr>, \<lparr>mn_key = ''@_user_10'', mn_id = None, mn_name = [], mn_tenant_key = []\<rparr>]
   = Some ''and 0: why?''"
  by code_simp

end
