(* ===== verification/Feishu_Flow.thy ===== *)
theory Feishu_Flow
  imports Hub_Dispatch Feishu_Properties
begin

text \<open>
  From a chat message to a query: the event handler of \<^verbatim>\<open>internal/feishu\<close> and the dispatch of \<^verbatim>\<open>internal/hub\<close> together.
\<close>

lemma process_job:
  assumes "ProcessEvent decode t member raw h = (e, h', Some job)"
  obtains env ev msg where "raw = Some env" "ee_event env = Some ev" "eb_message ev = Some msg" "\<not> from_app ev"
    "StripMentions decode (em_content msg) (em_mentions msg) = Some (fj_text job)" "fj_text job \<noteq> []"
    "job = job_of h' member ev msg (fj_text job)" "fj_member job = member"
  using assms unfolding ProcessEvent_def Let_def
  by (simp split: option.splits prod.splits if_splits) (auto simp: job_of_def binding_of_def)

lemma chat_context_kept [simp]:
  "q_feishu_context (live_update p q) = q_feishu_context q" "q_feishu_context (complete_new_query now q s) = q_feishu_context q"
  by (simp_all add: live_update_def complete_new_query_def Let_def)

text \<open>What the hub makes of a chat query: stored, and sent to the selected session or queued.\<close>

lemma chat_dispatch_effect:
  assumes "GetMember tid (hstore h) = Inr target" and "writable (hstore h)" and "reg_ok h"
  obtains q q' r h' where "dispatchFeishuQuery now rnd tid asker qt fctx h = (Inr r, h')" "dr_query_id r = query_id_of rnd"
    "gm_get (queriesByID (hstore h')) (query_id_of rnd) = Some q'" "q_query q' = qt" "q_target_member_id q' = m_id target"
    "q_feishu_context q' = Some fctx" "dr_status r = q_status q'" "q_query_id q = query_id_of rnd" "q_query q = qt"
    "case selectSessionForQuery (m_id target) [] h of
       None \<Rightarrow> outbox h' = outbox h \<and> q_status q' = QueryStatusQueued
     | Some s \<Rightarrow> outbox h' = outbox h @ [(ds_sessionID s, QueryRequest ((submit_request q 60)\<lparr>qr_asker_type := ''feishu''\<rparr>))]
         \<and> q_status q' = QueryStatusDispatched"
proof -
  define q0 where "q0 = feishu_query now (query_id_of rnd) asker target qt fctx
     (ttl_deadline now (if DefaultQueryTTLSec (hcfg h) \<le> 0 then 86400 else DefaultQueryTTLSec (hcfg h)))"
  define q where "q = complete_new_query now q0 (hstore h)"
  obtain s2 where c: "CreateQuery now q0 (hstore h) = (Inr q, s2)" "writable s2" "queriesByID s2 = gm_put (q_query_id q0) q (queriesByID (hstore h))"
    unfolding q_def by (rule CreateQuery_writable [OF assms(2), of now q0])
  have q: "q_query_id q = query_id_of rnd" "q_status q = QueryStatusQueued" "q_target_member_id q = m_id target" "q_query q = qt"
      "q_feishu_context q = Some fctx" "q_query_id q0 = query_id_of rnd"
    by (simp_all add: q_def q0_def feishu_query_def)
  define h2 where "h2 = setQueryTimeout (q_query_id q) 60 (h\<lparr>hstore := s2\<rparr>)"
  have h2: "writable (hstore h2)" "gm_get (queriesByID (hstore h2)) (query_id_of rnd) = Some q" "reg h2 = reg h" "outbox h2 = outbox h"
    using c q by (simp_all add: h2_def setQueryTimeout_def reg_def)
  have reg2: "reg_ok h2" using assms(3) reg_ok_cong [OF h2(3)] by blast
  have sel: "selectSessionForQuery (m_id target) [] h2 = selectSessionForQuery (m_id target) [] h" by (rule select_reg [OF h2(3)])
  let ?pos = "\<lambda>h3. case GetQueuePosition now (q_query_id q) (hstore h3) of Inl _ \<Rightarrow> 0 | Inr p \<Rightarrow> p"
  note D = dispatchFeishuQuery_def [of now rnd tid asker qt fctx h, unfolded assms(1) sum.case Let_def with_store_eq q0_def [symmetric] c fst_conv snd_conv
      prod.case h2_def [symmetric] sel]
  show ?thesis
  proof (cases "selectSessionForQuery (m_id target) [] h")
    case None
    show ?thesis
      by (rule that [of "\<lparr>dr_query_id = q_query_id q, dr_status = q_status q, dr_target_member_name = m_name target, dr_queue_position = ?pos h2\<rparr>" h2 q q])
         (use D None q h2 in simp_all)
  next
    case (Some s)
    let ?fr = "QueryRequest ((submit_request q 60)\<lparr>qr_asker_type := ''feishu''\<rparr>)"
    have s: "gm_get (sess_heap h2) (ds_sessionID s) = Some s" "\<not> ds_closed s"
      using selected_facts [OF reg2, of "m_id target" "[]" s] Some sel by simp_all
    define h3 where "h3 = sendEnvelope (ds_sessionID s) ?fr h2"
    have h3: "h3 = h2\<lparr>outbox := outbox h @ [(ds_sessionID s, ?fr)]\<rparr>" unfolding h3_def send_to_open [OF s] h2(4) ..
    obtain h4 q' where m: "mark_dispatched now (query_id_of rnd) h3 = h4" and h4: "outbox h4 = outbox h3"
      "gm_get (queriesByID (hstore h4)) (query_id_of rnd) = Some q'" "q_status q' = QueryStatusDispatched" "q_query q' = qt"
      "q_target_member_id q' = m_id target" "q_feishu_context q' = Some fctx"
      by (rule mark_dispatched_effect [of h3 "query_id_of rnd" q now]) (use h2 h3 q in simp_all)
    show ?thesis
      by (rule that [of "\<lparr>dr_query_id = q_query_id q, dr_status = QueryStatusDispatched, dr_target_member_name = m_name target,
            dr_queue_position = ?pos h4\<rparr>" h4 q' q])
         (use D Some q h3 h4 m in \<open>simp_all add: h3_def [symmetric]\<close>)
  qed
qed



end
