(* ===== verification/Feishu_WS.thy ===== *)
theory Feishu_WS
  imports Fragment Config
begin

text \<open>
  \<^verbatim>\<open>internal/feishu/ws_client.go\<close>: the long connection of a bot.  The record \<open>WSClient\<close> is the state of the client; \<open>ws_pc\<close> is where
  its run loop stands, and each stage of the loop between two blocking calls is one definition, given the outcome of the call it waited
  for.  The two critical sections of \<^verbatim>\<open>Stop\<close> are two definitions, since other goroutines run between them.  Frames written to a
  connection and payloads handed to the event handler are recorded in order in \<open>ws_sent\<close> and \<open>ws_events\<close>.  The relation \<open>wstep\<close> has every
  interleaving of the loop, the readers and \<^verbatim>\<open>Stop\<close>.
\<close>

section \<open>Data\<close>

text \<open>\<^verbatim>\<open>ClientConfig\<close>, the intervals the server prescribes, in seconds.\<close>

record ReconnectConfig =
  rc_count :: int
  rc_interval :: int
  rc_nonce :: int
  rc_ping :: int

record WSClientConfig =
  wg_member :: string
  wg_appID :: string
  wg_secret :: string
  wg_base :: string

datatype stage = AtTop | InFetch | InDial | InServe nat | ServeEnded "string option" | InSleep int | Finished | Crashed

record WSClient =
  ws_cfg :: WSClientConfig
  ws_reassembler :: FragmentReassembler
  ws_state :: string
  ws_lastError :: string
  ws_connectedAt :: string
  ws_reconnects :: int
  ws_conf :: ReconnectConfig
  ws_pingReset :: "int option"
  ws_active :: "nat option"
  ws_serviceID :: int
  ws_marked :: bool
  ws_stopped :: bool
  ws_attempt :: int
  ws_attemptCount :: int
  ws_pc :: stage
  ws_hung :: bool
  ws_conns :: nat
  ws_sent :: "(nat \<times> bytes) list"
  ws_events :: "bytes list"

definition NewWSClient :: "WSClientConfig \<Rightarrow> WSClient" where
  "NewWSClient cfg = \<lparr>ws_cfg = cfg\<lparr>wg_base := trim_right_by (\<lambda>c. c = CHR ''/'') (if wg_base cfg = [] then ''https://open.feishu.cn'' else wg_base cfg)\<rparr>,
     ws_reassembler = NewFragmentReassembler 5000000000, ws_state = ''disconnected'', ws_lastError = [], ws_connectedAt = [],
     ws_reconnects = 0, ws_conf = \<lparr>rc_count = -1, rc_interval = 120, rc_nonce = 30, rc_ping = 120\<rparr>, ws_pingReset = None,
     ws_active = None, ws_serviceID = 0, ws_marked = False, ws_stopped = False, ws_attempt = 0, ws_attemptCount = 0, ws_pc = AtTop,
     ws_hung = False, ws_conns = 0, ws_sent = [], ws_events = []\<rparr>"

section \<open>Status\<close>

definition redact_secret :: "WSClient \<Rightarrow> string \<Rightarrow> string" where
  "redact_secret c s = (if wg_secret (ws_cfg c) \<noteq> [] \<and> s \<noteq> [] then replace_all s (wg_secret (ws_cfg c)) ''[REDACTED]'' else s)"

definition setState :: "string \<Rightarrow> string \<Rightarrow> WSClient \<Rightarrow> WSClient" where
  "setState st errMsg c =
     (if ws_state c = ''stopped'' then c
      else c\<lparr>ws_state := st, ws_lastError := redact_secret c errMsg,
             ws_connectedAt := (if st \<noteq> ''connected'' then [] else ws_connectedAt c)\<rparr>)"

definition LiveStatus :: "WSClient \<Rightarrow> string \<times> string \<times> string \<times> int" where
  "LiveStatus c = (ws_state c, ws_lastError c, ws_connectedAt c, ws_reconnects c)"

text \<open>\<^verbatim>\<open>Stop\<close>: the status under its lock, then the channel and the connection.\<close>

definition stop_mark :: "WSClient \<Rightarrow> WSClient" where
  "stop_mark c =
     (if ws_marked c then c
      else if ws_state c \<noteq> ''error'' then c\<lparr>ws_marked := True, ws_state := ''stopped'', ws_lastError := [], ws_connectedAt := []\<rparr>
      else c\<lparr>ws_marked := True\<rparr>)"

definition stop_close :: "WSClient \<Rightarrow> WSClient" where
  "stop_close c = c\<lparr>ws_stopped := True\<rparr>"

section \<open>Intervals\<close>

definition secs :: "int \<Rightarrow> int" where
  "secs n = wrap64 (n * 1000000000)"

definition updateConfig :: "ReconnectConfig \<Rightarrow> WSClient \<Rightarrow> WSClient" where
  "updateConfig cfg c =
     (let old = ws_conf c;
          new = \<lparr>rc_count = (if rc_count cfg \<noteq> 0 then rc_count cfg else rc_count old),
                 rc_interval = (if rc_interval cfg > 0 then rc_interval cfg else rc_interval old),
                 rc_nonce = (if rc_nonce cfg > 0 then rc_nonce cfg else rc_nonce old),
                 rc_ping = (if rc_ping cfg > 0 then rc_ping cfg else rc_ping old)\<rparr>
      in c\<lparr>ws_conf := new,
           ws_pingReset := (if rc_ping new > 0 \<and> rc_ping new \<noteq> rc_ping old then Some (secs (rc_ping new)) else ws_pingReset c)\<rparr>)"

definition ping_interval :: "WSClient \<Rightarrow> int" where
  "ping_interval c = (let i = secs (rc_ping (ws_conf c)) in if i \<le> 0 then 120000000000 else i)"

definition read_timeout :: "WSClient \<Rightarrow> int" where
  "read_timeout c = wrap64 (2 * ping_interval c + 5000000000)"

text \<open>The pause of \<^verbatim>\<open>sleepBackoff\<close> for the random number \<open>r\<close>; \<open>None\<close> is the panic of \<^verbatim>\<open>rand.Int\<close> for a bound that is not positive.\<close>

definition backoff_pause :: "int \<Rightarrow> int \<Rightarrow> ReconnectConfig \<Rightarrow> int option" where
  "backoff_pause r attempt conf =
     map_option (\<lambda>d. if d < 100000000 then 100000000 else d)
       (if attempt = 0 then
          (let nonceSec = (if rc_nonce conf \<le> 0 then 30 else rc_nonce conf); bound = wrap64 (nonceSec * 1000) in
           if bound \<le> 0 then None else Some (wrap64 ((r mod bound) * 1000000)))
        else Some (secs (if rc_interval conf \<le> 0 then 120 else rc_interval conf)))"

section \<open>The endpoint\<close>

datatype endpoint_error = ClientError int string | ServerError int string | OtherError string

definition fmt_int :: "int \<Rightarrow> string" where
  "fmt_int n = (if n < 0 then CHR ''-'' # fmt_nat (nat (- n)) else fmt_nat (nat n))"

definition error_text :: "endpoint_error \<Rightarrow> string" where
  "error_text e = (case e of
     ClientError code msg \<Rightarrow> ''feishu client error (code '' @ fmt_int code @ ''): '' @ msg
   | ServerError code msg \<Rightarrow> ''feishu server error (code '' @ fmt_int code @ ''): '' @ msg
   | OtherError msg \<Rightarrow> msg)"

text \<open>What came of the request: the text of an I/O error, or status, the error of decoding the body if there is one, and its fields.\<close>

record EndpointResp =
  ep_status :: int
  ep_json_error :: "string option"
  ep_code :: int
  ep_msg :: string
  ep_data :: "(string \<times> ReconnectConfig option) option"

definition FetchEndpoint ::
  "(int \<Rightarrow> string) \<Rightarrow> (string, EndpointResp) result \<Rightarrow> (endpoint_error, string \<times> ReconnectConfig option) result" where
  "FetchEndpoint statusText reply = (case reply of
     Inl msg \<Rightarrow> Inl (OtherError msg)
   | Inr re \<Rightarrow>
       if ep_status re \<noteq> 200 then Inl (ServerError (ep_status re) (if ep_msg re = [] then statusText (ep_status re) else ep_msg re))
       else if ep_json_error re \<noteq> None then Inl (OtherError (''failed to parse endpoint response: '' @ the (ep_json_error re)))
       else if ep_code re = 1 then Inl (ServerError 1 ''system busy'')
       else if ep_code re = 1000040343 then Inl (ServerError 1000040343 (ep_msg re))
       else if ep_code re \<noteq> 0 then Inl (ClientError (ep_code re) (ep_msg re))
       else (case ep_data re of
          None \<Rightarrow> Inl (ServerError 500 ''empty endpoint url received'')
        | Some (url, conf) \<Rightarrow> if url = [] then Inl (ServerError 500 ''empty endpoint url received'') else Inr (url, conf)))"

section \<open>The run loop\<close>

definition loop_top :: "WSClient \<Rightarrow> WSClient" where
  "loop_top c = (if ws_stopped c then c\<lparr>ws_pc := Finished\<rparr> else (setState ''connecting'' [] c)\<lparr>ws_pc := InFetch\<rparr>)"

definition enter_sleep :: "int \<Rightarrow> WSClient \<Rightarrow> WSClient" where
  "enter_sleep r c = c\<lparr>ws_pc := (case backoff_pause r (ws_attempt c) (ws_conf c) of None \<Rightarrow> Crashed | Some d \<Rightarrow> InSleep d)\<rparr>"

definition limit_reached :: "WSClient \<Rightarrow> bool" where
  "limit_reached c \<longleftrightarrow> rc_count (ws_conf c) \<ge> 0 \<and> ws_attempt c \<ge> rc_count (ws_conf c)"

definition fail_limit :: "WSClient \<Rightarrow> WSClient" where
  "fail_limit c = (setState ''error'' ''reconnect limit reached'' c)\<lparr>ws_pc := Finished\<rparr>"

definition retry_later :: "int \<Rightarrow> string \<Rightarrow> WSClient \<Rightarrow> WSClient" where
  "retry_later r msg c =
     (if ws_stopped c then c\<lparr>ws_pc := Finished\<rparr>
      else if limit_reached c then fail_limit c
      else enter_sleep r (setState ''disconnected'' msg c))"

definition ParseInt32 :: "string \<Rightarrow> int option" where
  "ParseInt32 s = (case Atoi s of None \<Rightarrow> None | Some n \<Rightarrow> if - (2 ^ 31) \<le> n \<and> n < 2 ^ 31 then Some n else None)"

text \<open>\<open>sid\<close> is the query parameter \<^verbatim>\<open>service_id\<close> of the URL, empty when there is none or the URL cannot be parsed.\<close>

definition set_service :: "string \<Rightarrow> WSClient \<Rightarrow> WSClient" where
  "set_service sid c = (case ParseInt32 sid of None \<Rightarrow> c | Some n \<Rightarrow> if sid = [] then c else c\<lparr>ws_serviceID := n\<rparr>)"

definition after_fetch :: "(string \<Rightarrow> string) \<Rightarrow> int \<Rightarrow> (endpoint_error, string \<times> ReconnectConfig option) result \<Rightarrow> WSClient \<Rightarrow> WSClient" where
  "after_fetch sidOf r res c = (case res of
     Inl err \<Rightarrow>
       if ws_stopped c then c\<lparr>ws_pc := Finished\<rparr>
       else (case err of
          ClientError code msg \<Rightarrow> (setState ''error'' (error_text err) c)\<lparr>ws_pc := Finished\<rparr>
        | _ \<Rightarrow> retry_later r (error_text err) c)
   | Inr (url, conf) \<Rightarrow>
       (set_service (sidOf url) (case conf of None \<Rightarrow> c | Some cf \<Rightarrow> updateConfig cf c))\<lparr>ws_pc := InDial\<rparr>)"

text \<open>\<open>now\<close> is the formatted time.\<close>

definition after_dial :: "string \<Rightarrow> int \<Rightarrow> string option \<Rightarrow> WSClient \<Rightarrow> WSClient" where
  "after_dial now r err c = (case err of
     Some msg \<Rightarrow> retry_later r msg c
   | None \<Rightarrow>
       let c1 = c\<lparr>ws_attempt := 0, ws_active := Some (ws_conns c), ws_conns := Suc (ws_conns c), ws_pc := InServe (ws_conns c)\<rparr> in
       if ws_state c1 \<noteq> ''stopped''
       then c1\<lparr>ws_state := ''connected'', ws_lastError := [], ws_connectedAt := now,
               ws_reconnects := (if ws_attemptCount c1 > 0 then ws_reconnects c1 + 1 else ws_reconnects c1),
               ws_attemptCount := ws_attemptCount c1 + 1\<rparr>
       else c1)"

text \<open>\<^verbatim>\<open>serveConnection\<close> returns nil when the client is stopped and otherwise the error that ended the read loop.\<close>

definition serve_end :: "string option \<Rightarrow> WSClient \<Rightarrow> WSClient" where
  "serve_end connErr c = c\<lparr>ws_active := None, ws_pc := ServeEnded connErr\<rparr>"

definition after_serve :: "int \<Rightarrow> string option \<Rightarrow> WSClient \<Rightarrow> WSClient" where
  "after_serve r connErr c =
     (if ws_stopped c then c\<lparr>ws_pc := Finished\<rparr>
      else let c1 = setState ''disconnected'' (case connErr of None \<Rightarrow> [] | Some msg \<Rightarrow> msg) c in
        if limit_reached c1 then fail_limit c1 else enter_sleep r c1)"

definition wake :: "WSClient \<Rightarrow> WSClient" where
  "wake c = c\<lparr>ws_attempt := ws_attempt c + 1, ws_pc := AtTop\<rparr>"

definition sleep_stopped :: "WSClient \<Rightarrow> WSClient" where
  "sleep_stopped c = c\<lparr>ws_pc := Finished\<rparr>"

section \<open>Frames\<close>

definition text_of :: "bytes \<Rightarrow> string" where
  "text_of bs = map (\<lambda>b. char_of (unat b)) bs"

definition header_text :: "Frame \<Rightarrow> string \<Rightarrow> string" where
  "header_text f k = text_of (HeaderValue f (bytes_of k))"

definition header_int :: "Frame \<Rightarrow> string \<Rightarrow> int \<Rightarrow> int" where
  "header_int f k d = (let s = header_text f k in if s = [] then d else (case Atoi s of None \<Rightarrow> d | Some n \<Rightarrow> n))"

text \<open>A write on the connection, dropped when it is no longer the active one; a failed write is only logged.\<close>

definition write_frame :: "nat \<Rightarrow> bytes \<Rightarrow> WSClient \<Rightarrow> WSClient" where
  "write_frame conn wire c = (if ws_active c = Some conn then c\<lparr>ws_sent := ws_sent c @ [(conn, wire)]\<rparr> else c)"

definition sendPing :: "nat \<Rightarrow> WSClient \<Rightarrow> WSClient" where
  "sendPing conn c = write_frame conn (Marshal (NewPingFrame (word_of_int (ws_serviceID c)))) c"

definition response_payload :: "bool \<Rightarrow> bytes" where
  "response_payload ok = bytes_of (''{\"code\":'' @ (if ok then ''200'' else ''500'') @ '',\"data\":null,\"headers\":null}'')"

definition response_frame :: "bool \<Rightarrow> nat \<Rightarrow> Frame \<Rightarrow> Frame" where
  "response_frame ok elapsedMs req =
     (SetHeader (bytes_of ''biz_rt'') (bytes_of (fmt_nat elapsedMs))
       \<lparr>SeqID = SeqID req, LogID = LogID req, Service = Service req, Method = Method req, Headers = Headers req,
        PayloadEncoding = PayloadEncoding req, PayloadType = PayloadType req, Payload = None, LogIDNew = LogIDNew req\<rparr>)
     \<lparr>Payload := Some (response_payload ok)\<rparr>"

text \<open>The event handler is a parameter: \<open>None\<close> when none is set, else whether it accepts the payload.\<close>

definition processDataFrame :: "(bytes \<Rightarrow> bool) option \<Rightarrow> int \<Rightarrow> nat \<Rightarrow> nat \<Rightarrow> Frame \<Rightarrow> WSClient \<Rightarrow> WSClient" where
  "processDataFrame handler now elapsedMs conn req c =
     (let sm = header_int req ''sum'' 1; seq = header_int req ''seq'' 0; msgID = header_text req ''message_id'';
          (payload, c1) = (if sm > 1
             then (let (p, re) = AddFragment now msgID sm seq (Payload req) (ws_reassembler c) in (p, c\<lparr>ws_reassembler := re\<rparr>))
             else (Payload req, c))
      in if sm > 1 \<and> payload = None then c1
         else
           let body = content payload;
               (ok, c2) = (case handler of
                  None \<Rightarrow> (True, c1)
                | Some f \<Rightarrow> if body \<noteq> [] then (f body, c1\<lparr>ws_events := ws_events c1 @ [body]\<rparr>) else (True, c1))
           in write_frame conn (Marshal (response_frame ok elapsedMs req)) c2)"

datatype incoming = Nothing | Configure bytes | Process Frame

text \<open>What a binary message asks for; \<open>None\<close> when decoding never ends, which blocks the read loop.\<close>

definition classify_frame :: "bytes \<Rightarrow> incoming option" where
  "classify_frame raw = (case Unmarshal raw of
     None \<Rightarrow> None
   | Some (Inl e) \<Rightarrow> Some Nothing
   | Some (Inr f) \<Rightarrow> Some
       (if Method f = 0 then
          (if header_text f ''type'' = ''pong'' \<and> content (Payload f) \<noteq> [] then Configure (content (Payload f)) else Nothing)
        else if Method f = 1 then (if header_text f ''type'' \<noteq> ''event'' then Nothing else Process f)
        else Nothing))"

text \<open>The read loop handles a pong itself; a data frame is handed to a goroutine, which runs \<open>processDataFrame\<close> later.  \<open>decode\<close>
  reads the JSON of a configuration.\<close>

definition handleIncomingFrame :: "(bytes \<Rightarrow> ReconnectConfig option) \<Rightarrow> bytes \<Rightarrow> WSClient \<Rightarrow> (WSClient \<times> Frame option) option" where
  "handleIncomingFrame decode raw c = (case classify_frame raw of
     None \<Rightarrow> None
   | Some Nothing \<Rightarrow> Some (c, None)
   | Some (Configure payload) \<Rightarrow> Some ((case decode payload of None \<Rightarrow> c | Some conf \<Rightarrow> updateConfig conf c), None)
   | Some (Process f) \<Rightarrow> Some (c, Some f))"

section \<open>Interleavings\<close>

text \<open>The steps of the run loop, which never overlap.  \<^verbatim>\<open>serveConnection\<close> waits for its read loop in every case, so it returns
  only while that loop is not stuck in a frame (\<open>ws_hung\<close>); a cancelled context, which comes with the first part of \<^verbatim>\<open>Stop\<close>, can end it
  without an error.\<close>

inductive loop_step :: "WSClient \<Rightarrow> WSClient \<Rightarrow> bool" where
  top: "ws_pc c = AtTop \<Longrightarrow> loop_step c (loop_top c)"
| fetched: "ws_pc c = InFetch \<Longrightarrow> loop_step c (after_fetch sidOf r (FetchEndpoint statusText reply) c)"
| dialled: "ws_pc c = InDial \<Longrightarrow> loop_step c (after_dial now r err c)"
| serve_stopped: "ws_pc c = InServe i \<Longrightarrow> \<not> ws_hung c \<Longrightarrow> ws_marked c \<Longrightarrow> loop_step c (serve_end None c)"
| serve_failed: "ws_pc c = InServe i \<Longrightarrow> \<not> ws_hung c \<Longrightarrow> loop_step c (serve_end (Some msg) c)"
| served: "ws_pc c = ServeEnded e \<Longrightarrow> loop_step c (after_serve r e c)"
| woken: "ws_pc c = InSleep d \<Longrightarrow> loop_step c (wake c)"
| sleep_end: "ws_pc c = InSleep d \<Longrightarrow> ws_stopped c \<Longrightarrow> loop_step c (sleep_stopped c)"

text \<open>The whole client: the loop, \<^verbatim>\<open>Stop\<close>, the ping loop and the reader of the connection, and the goroutines of data frames, which
  may still run when their connection is gone.\<close>

inductive wstep :: "WSClient \<Rightarrow> WSClient \<Rightarrow> bool" where
  loop: "loop_step c c' \<Longrightarrow> wstep c c'"
| mark: "wstep c (stop_mark c)"
| close: "ws_marked c \<Longrightarrow> wstep c (stop_close c)"
| ping: "wstep c (sendPing conn c)"
| reset: "wstep c (c\<lparr>ws_pingReset := None\<rparr>)"
| hang: "ws_pc c = InServe conn \<Longrightarrow> handleIncomingFrame decode raw c = None \<Longrightarrow> wstep c (c\<lparr>ws_hung := True\<rparr>)"
| incoming: "ws_pc c = InServe conn \<Longrightarrow> \<not> ws_hung c \<Longrightarrow> handleIncomingFrame decode raw c = Some (c', fr) \<Longrightarrow> wstep c c'"
| data: "wstep c (processDataFrame handler now elapsedMs conn req c)"

end
