(* ===== verification/Feishu_WS_Properties.thy ===== *)
theory Feishu_WS_Properties
  imports Feishu_WS Codec_Properties
begin

text \<open>
  Properties of the long connection: the status it reports under every interleaving, stopping, what leaks into the status, the
  acknowledgement of events, and the pauses between connections.
\<close>

section \<open>The invariant\<close>

definition ws_states :: "string set" where
  "ws_states = {''connecting'', ''connected'', ''disconnected'', ''error'', ''stopped''}"

definition conf_ok :: "ReconnectConfig \<Rightarrow> bool" where
  "conf_ok cf \<longleftrightarrow> rc_count cf \<noteq> 0 \<and> 0 < rc_interval cf \<and> 0 < rc_nonce cf \<and> 0 < rc_ping cf"

text \<open>The status and where the loop stands.\<close>

definition status_ok :: "WSClient \<Rightarrow> bool" where
  "status_ok c \<longleftrightarrow> ws_state c \<in> ws_states \<and> (ws_connectedAt c \<noteq> [] \<longrightarrow> ws_state c = ''connected'')
     \<and> (ws_state c = ''error'' \<longrightarrow> ws_pc c = Finished)
     \<and> (ws_state c = ''connected'' \<longrightarrow> (\<exists>i. ws_pc c = InServe i) \<or> (\<exists>e. ws_pc c = ServeEnded e))
     \<and> (ws_state c = ''stopped'' \<longrightarrow> ws_marked c) \<and> (ws_marked c \<longrightarrow> ws_state c = ''stopped'' \<or> ws_state c = ''error'')
     \<and> (ws_stopped c \<longrightarrow> ws_marked c)"

definition conn_ok :: "WSClient \<Rightarrow> bool" where
  "conn_ok c \<longleftrightarrow> (\<forall>i. ws_active c = Some i \<longleftrightarrow> ws_pc c = InServe i)
     \<and> 0 \<le> ws_attemptCount c \<and> ws_reconnects c = max 0 (ws_attemptCount c - 1) \<and> 0 \<le> ws_attempt c
     \<and> conf_ok (ws_conf c) \<and> (\<forall>p. ws_pingReset c = Some p \<longrightarrow> p = secs (rc_ping (ws_conf c)))"

lemmas stage_defs = loop_top_def after_fetch_def after_dial_def serve_end_def after_serve_def wake_def sleep_stopped_def
  retry_later_def fail_limit_def enter_sleep_def stop_mark_def stop_close_def

lemma write_frame_simps [simp]:
  "ws_state (write_frame i b c) = ws_state c" "ws_lastError (write_frame i b c) = ws_lastError c"
  "ws_connectedAt (write_frame i b c) = ws_connectedAt c" "ws_reconnects (write_frame i b c) = ws_reconnects c"
  "ws_conf (write_frame i b c) = ws_conf c" "ws_pingReset (write_frame i b c) = ws_pingReset c"
  "ws_active (write_frame i b c) = ws_active c" "ws_marked (write_frame i b c) = ws_marked c" "ws_stopped (write_frame i b c) = ws_stopped c"
  "ws_attempt (write_frame i b c) = ws_attempt c" "ws_attemptCount (write_frame i b c) = ws_attemptCount c"
  "ws_pc (write_frame i b c) = ws_pc c" "ws_cfg (write_frame i b c) = ws_cfg c" "ws_hung (write_frame i b c) = ws_hung c"
  by (simp_all add: write_frame_def)

lemma update_simps [simp]:
  "ws_state (updateConfig cf c) = ws_state c" "ws_lastError (updateConfig cf c) = ws_lastError c"
  "ws_connectedAt (updateConfig cf c) = ws_connectedAt c" "ws_reconnects (updateConfig cf c) = ws_reconnects c"
  "ws_active (updateConfig cf c) = ws_active c" "ws_marked (updateConfig cf c) = ws_marked c" "ws_stopped (updateConfig cf c) = ws_stopped c"
  "ws_attempt (updateConfig cf c) = ws_attempt c" "ws_attemptCount (updateConfig cf c) = ws_attemptCount c"
  "ws_pc (updateConfig cf c) = ws_pc c" "ws_cfg (updateConfig cf c) = ws_cfg c" "ws_hung (updateConfig cf c) = ws_hung c"
  by (simp_all add: updateConfig_def Let_def)

lemma service_simps [simp]:
  "ws_state (set_service s c) = ws_state c" "ws_lastError (set_service s c) = ws_lastError c"
  "ws_connectedAt (set_service s c) = ws_connectedAt c" "ws_reconnects (set_service s c) = ws_reconnects c"
  "ws_conf (set_service s c) = ws_conf c" "ws_pingReset (set_service s c) = ws_pingReset c"
  "ws_active (set_service s c) = ws_active c" "ws_marked (set_service s c) = ws_marked c" "ws_stopped (set_service s c) = ws_stopped c"
  "ws_attempt (set_service s c) = ws_attempt c" "ws_attemptCount (set_service s c) = ws_attemptCount c"
  "ws_cfg (set_service s c) = ws_cfg c" "ws_hung (set_service s c) = ws_hung c"
  by (simp_all add: set_service_def split: option.splits)

lemma set_state_simps [simp]:
  "ws_reconnects (setState s e c) = ws_reconnects c" "ws_conf (setState s e c) = ws_conf c" "ws_pingReset (setState s e c) = ws_pingReset c"
  "ws_active (setState s e c) = ws_active c" "ws_marked (setState s e c) = ws_marked c" "ws_stopped (setState s e c) = ws_stopped c"
  "ws_attempt (setState s e c) = ws_attempt c" "ws_attemptCount (setState s e c) = ws_attemptCount c"
  "ws_pc (setState s e c) = ws_pc c" "ws_cfg (setState s e c) = ws_cfg c" "ws_hung (setState s e c) = ws_hung c"
  "ws_state (setState s e c) = (if ws_state c = ''stopped'' then ''stopped'' else s)"
  "limit_reached (setState s e c) = limit_reached c"
  by (simp_all add: setState_def limit_reached_def)

text \<open>A step that does not belong to the loop leaves everything but frames, configuration and the stop flags alone.\<close>

definition same_status :: "WSClient \<Rightarrow> WSClient \<Rightarrow> bool" where
  "same_status c d \<longleftrightarrow> LiveStatus d = LiveStatus c \<and> ws_active d = ws_active c \<and> ws_marked d = ws_marked c \<and> ws_stopped d = ws_stopped c
     \<and> ws_attempt d = ws_attempt c \<and> ws_attemptCount d = ws_attemptCount c \<and> ws_pc d = ws_pc c \<and> ws_cfg d = ws_cfg c"

text \<open>The payload a data frame completes, and the reassembler after it.\<close>

definition completed :: "int \<Rightarrow> Frame \<Rightarrow> WSClient \<Rightarrow> bytes option option \<times> FragmentReassembler" where
  "completed now req c =
     (if header_int req ''sum'' 1 > 1
      then (let (p, re) = AddFragment now (header_text req ''message_id'') (header_int req ''sum'' 1) (header_int req ''seq'' 0)
                 (Payload req) (ws_reassembler c) in (if p = None then None else Some p, re))
      else (Some (Payload req), ws_reassembler c))"

definition handler_ok :: "(bytes \<Rightarrow> bool) option \<Rightarrow> bytes \<Rightarrow> bool" where
  "handler_ok handler body = (case handler of None \<Rightarrow> True | Some f \<Rightarrow> body = [] \<or> f body)"

definition delivered :: "(bytes \<Rightarrow> bool) option \<Rightarrow> bytes \<Rightarrow> bytes list" where
  "delivered handler body = (if handler = None \<or> body = [] then [] else [body])"

lemma data_form:
  "processDataFrame handler now ms conn req c = (case completed now req c of
     (None, re) \<Rightarrow> c\<lparr>ws_reassembler := re\<rparr>
   | (Some p, re) \<Rightarrow> write_frame conn (Marshal (response_frame (handler_ok handler (content p)) ms req))
        (c\<lparr>ws_reassembler := re, ws_events := ws_events c @ delivered handler (content p)\<rparr>))"
proof -
  obtain p re where a: "AddFragment now (header_text req ''message_id'') (header_int req ''sum'' 1) (header_int req ''seq'' 0)
      (Payload req) (ws_reassembler c) = (p, re)" by fastforce
  show ?thesis
  proof (cases "header_int req ''sum'' 1 > 1")
    case True
    then show ?thesis
      by (cases handler; cases p) (simp_all add: processDataFrame_def completed_def handler_ok_def delivered_def a Let_def)
  next
    case False
    have "c\<lparr>ws_reassembler := ws_reassembler c, ws_events := e\<rparr> = c\<lparr>ws_events := e\<rparr>" for e by simp
    then show ?thesis using False
      by (cases handler) (simp_all add: processDataFrame_def completed_def handler_ok_def delivered_def Let_def)
  qed
qed

lemma data_same: "same_status c (processDataFrame handler now ms conn req c)"
  and data_conf: "ws_conf (processDataFrame handler now ms conn req c) = ws_conf c"
    "ws_pingReset (processDataFrame handler now ms conn req c) = ws_pingReset c"
    "ws_hung (processDataFrame handler now ms conn req c) = ws_hung c"
  by (simp_all add: data_form same_status_def LiveStatus_def split: prod.splits option.splits)

lemma update_conf_ok:
  "conf_ok (ws_conf c) \<Longrightarrow> (\<forall>p. ws_pingReset c = Some p \<longrightarrow> p = secs (rc_ping (ws_conf c))) \<Longrightarrow>
   conf_ok (ws_conf (updateConfig cf c)) \<and> (\<forall>p. ws_pingReset (updateConfig cf c) = Some p \<longrightarrow> p = secs (rc_ping (ws_conf (updateConfig cf c))))"
  by (auto simp: updateConfig_def conf_ok_def Let_def)

lemma incoming_cases:
  assumes "handleIncomingFrame decode raw c = Some (c', fr)"
  obtains "c' = c" | cf where "c' = updateConfig cf c"
  using assms by (auto simp: handleIncomingFrame_def split: option.splits incoming.splits)

lemma same_status_ok: "same_status c d \<Longrightarrow> status_ok c \<Longrightarrow> status_ok d"
  by (simp add: same_status_def status_ok_def LiveStatus_def)

lemma loop_status: "loop_step c c' \<Longrightarrow> status_ok c \<Longrightarrow> status_ok c'"
  by (induction rule: loop_step.induct)
    (auto simp: stage_defs status_ok_def ws_states_def Let_def setState_def
      split: sum.splits endpoint_error.splits option.splits prod.splits)

lemma loop_conn: "loop_step c c' \<Longrightarrow> conn_ok c \<Longrightarrow> conn_ok c'"
proof (induction rule: loop_step.induct)
  case (fetched c sidOf r statusText reply)
  have u: "conf_ok (ws_conf (updateConfig cf c)) \<and> (\<forall>p. ws_pingReset (updateConfig cf c) = Some p \<longrightarrow> p = secs (rc_ping (ws_conf (updateConfig cf c))))"
    for cf using update_conf_ok [of c cf] fetched(2) by (simp add: conn_ok_def)
  show ?case using fetched u
    by (auto simp: stage_defs conn_ok_def split: sum.splits endpoint_error.splits option.splits)
qed (auto simp: stage_defs conn_ok_def Let_def split: option.splits)

lemma wstep_status: "wstep c c' \<Longrightarrow> status_ok c \<Longrightarrow> status_ok c'"
proof (induction rule: wstep.induct)
  case (loop c c')
  then show ?case by (rule loop_status)
next
  case (incoming c conn decode raw c' fr)
  then show ?case by (elim incoming_cases) (auto simp: status_ok_def)
next
  case (data c handler now ms conn req)
  then show ?case by (rule same_status_ok [OF data_same])
qed (auto simp: status_ok_def stop_mark_def stop_close_def sendPing_def ws_states_def)

lemma wstep_conn: "wstep c c' \<Longrightarrow> conn_ok c \<Longrightarrow> conn_ok c'"
proof (induction rule: wstep.induct)
  case (loop c c')
  then show ?case by (rule loop_conn)
next
  case (incoming c conn decode raw c' fr)
  from incoming(3) show ?case
  proof (rule incoming_cases)
    fix cf assume "c' = updateConfig cf c"
    then show ?thesis using update_conf_ok [of c cf] incoming(4) by (simp add: conn_ok_def)
  qed (use incoming(4) in simp)
next
  case (data c handler now ms conn req)
  then show ?case using data_same [of c handler now ms conn req] by (simp add: conn_ok_def same_status_def LiveStatus_def data_conf)
qed (auto simp: conn_ok_def stop_mark_def stop_close_def sendPing_def)

definition ws_good :: "WSClient \<Rightarrow> bool" where
  "ws_good c \<longleftrightarrow> status_ok c \<and> conn_ok c"

interpretation ws_run: inv_system wstep ws_good
  by unfold_locales (auto simp: ws_good_def intro: wstep_status wstep_conn)

lemma ws_good_new: "ws_good (NewWSClient cfg)"
  by (simp add: ws_good_def NewWSClient_def status_ok_def conn_ok_def conf_ok_def ws_states_def)

text \<open>The reported status is true under every interleaving.  It is one of the five words; a client that says it is connected has its
  active connection being served or just ended; only such a client shows a connection time; after an error the loop has ended for good; a
  connection counts as a reconnect except the first; and a pending change of the ping interval is the current interval.\<close>

theorem ws_status_truthful:
  assumes "wstep\<^sup>*\<^sup>* (NewWSClient cfg) c"
  shows "ws_state c \<in> {''connecting'', ''connected'', ''disconnected'', ''error'', ''stopped''}
    \<and> (ws_state c = ''connected'' \<longrightarrow> (\<exists>i. ws_pc c = InServe i \<and> ws_active c = Some i) \<or> (\<exists>e. ws_pc c = ServeEnded e))
    \<and> (ws_connectedAt c \<noteq> [] \<longrightarrow> ws_state c = ''connected'') \<and> (ws_state c = ''error'' \<longrightarrow> ws_pc c = Finished)
    \<and> ws_reconnects c = max 0 (ws_attemptCount c - 1)
    \<and> (\<forall>p. ws_pingReset c = Some p \<longrightarrow> p = secs (rc_ping (ws_conf c)))"
proof -
  have "ws_good c" by (rule ws_run.reach_good [OF assms ws_good_new])
  then show ?thesis by (auto simp: ws_good_def status_ok_def conn_ok_def ws_states_def)
qed

section \<open>Stopping\<close>

lemma marked_status:
  assumes "wstep c c'" and "status_ok c" and "ws_marked c"
  shows "LiveStatus c' = LiveStatus c \<and> ws_marked c'"
  using assms(1)
proof cases
  case loop
  then have st: "ws_state c = ''stopped''"
    by (cases rule: loop_step.cases) (use assms(2,3) in \<open>auto simp: status_ok_def\<close>)
  from loop st assms(3) show ?thesis
    by (cases rule: loop_step.cases)
      (auto simp: stage_defs LiveStatus_def setState_def Let_def split: sum.splits endpoint_error.splits option.splits)
next
  case (incoming conn decode raw fr)
  from incoming(3) show ?thesis by (rule incoming_cases) (use assms(3) in \<open>auto simp: LiveStatus_def\<close>)
next
  case (data handler now ms conn req)
  then show ?thesis using data_same [of c handler now ms conn req] assms(3) by (simp add: same_status_def)
qed (use assms(3) in \<open>auto simp: LiveStatus_def stop_mark_def stop_close_def sendPing_def\<close>)

text \<open>Stopping is final: once \<^verbatim>\<open>Stop\<close> has marked the client, its status is stopped, or the error it had before, without a
  connection time, and no interleaving of the rest changes it again.\<close>

theorem stop_is_final:
  assumes "wstep\<^sup>*\<^sup>* (NewWSClient cfg) c" and "ws_marked c" and "wstep\<^sup>*\<^sup>* c c'"
  shows "LiveStatus c' = LiveStatus c \<and> (ws_state c' = ''stopped'' \<or> ws_state c' = ''error'') \<and> ws_connectedAt c' = []"
proof -
  have good: "ws_good c" by (rule ws_run.reach_good [OF assms(1) ws_good_new])
  from assms(3) have "LiveStatus c' = LiveStatus c \<and> ws_marked c' \<and> ws_good c'"
  proof (induction rule: rtranclp_induct)
    case (step d d')
    then show ?case using marked_status [of d d'] ws_run.step_good [of d d'] by (auto simp: ws_good_def)
  qed (use good assms(2) in simp)
  then show ?thesis by (auto simp: ws_good_def status_ok_def)
qed

fun rank :: "stage \<Rightarrow> nat" where
  "rank Finished = 0"
| "rank Crashed = 0"
| "rank AtTop = 1"
| "rank (ServeEnded e) = 1"
| "rank (InSleep d) = 2"
| "rank (InServe i) = 2"
| "rank InDial = 3"
| "rank InFetch = 4"

lemma stopped_rank: "loop_step c c' \<Longrightarrow> ws_stopped c \<Longrightarrow> rank (ws_pc c') < rank (ws_pc c) \<and> ws_stopped c' \<and> ws_hung c' = ws_hung c"
  by (induction rule: loop_step.induct)
    (auto simp: stage_defs Let_def split: sum.splits endpoint_error.splits option.splits)

text \<open>Stopping ends the loop: after the stop channel is closed the loop takes at most four more steps, whatever the calls it waits for
  return, and unless a frame has it stuck it is never left without a step before it has ended.\<close>

theorem stop_ends_loop:
  assumes "ws_stopped c" and "ws_marked c" and "\<not> ws_hung c" and "(loop_step ^^ n) c c'"
  shows "n \<le> 4 \<and> ((\<exists>c''. loop_step c' c'') \<or> ws_pc c' = Finished \<or> ws_pc c' = Crashed)"
proof -
  have "rank (ws_pc c') + n \<le> rank (ws_pc c) \<and> ws_stopped c' \<and> \<not> ws_hung c' \<and> ws_marked c'"
    using assms(4)
  proof (induction n arbitrary: c')
    case (Suc n)
    then obtain d where d: "(loop_step ^^ n) c d" "loop_step d c'" by auto
    have "ws_marked c' = ws_marked d" using d(2)
      by (cases rule: loop_step.cases) (auto simp: stage_defs Let_def split: sum.splits endpoint_error.splits option.splits)
    then show ?case using Suc.IH [OF d(1)] stopped_rank [OF d(2)] by auto
  qed (use assms(1-3) in auto)
  moreover have "rank p \<le> 4" for p by (cases p) auto
  moreover have "\<exists>c''. loop_step c' c''" if "ws_pc c' \<noteq> Finished" "ws_pc c' \<noteq> Crashed" "\<not> ws_hung c'"
    using that by (cases "ws_pc c'") (auto intro: loop_step.intros)
  ultimately show ?thesis by (meson add_leD2 le_trans)
qed

lemma hung_stays:
  assumes "wstep c c'" and "ws_hung c" and "ws_pc c = InServe i"
  shows "ws_hung c' \<and> ws_pc c' = InServe i"
  using assms(1)
proof cases
  case loop
  then show ?thesis by (cases rule: loop_step.cases) (use assms(2,3) in auto)
next
  case (data handler now ms conn req)
  then show ?thesis using data_same [of c handler now ms conn req] assms(2,3) by (simp add: same_status_def data_conf)
qed (use assms(2,3) in \<open>auto simp: stop_mark_def stop_close_def sendPing_def\<close>)

text \<open>One frame can block a client for good.  A client that is served the 11 bytes on which decoding never ends stays in its connection:
  no later step, \<^verbatim>\<open>Stop\<close> included, makes the loop leave it, so \<^verbatim>\<open>Stop\<close> waits forever.\<close>

theorem frame_blocks_stop:
  assumes "ws_pc c = InServe i"
  shows "handleIncomingFrame decode hang_bytes c = None \<and> wstep c (c\<lparr>ws_hung := True\<rparr>)
    \<and> (\<forall>c'. wstep\<^sup>*\<^sup>* (c\<lparr>ws_hung := True\<rparr>) c' \<longrightarrow> ws_pc c' = InServe i \<and> \<not> (\<exists>c''. loop_step c' c''))"
proof (intro conjI allI impI)
  show h: "handleIncomingFrame decode hang_bytes c = None" for decode
    by (simp add: handleIncomingFrame_def classify_frame_def Unmarshal_def hang_loop)
  show "wstep c (c\<lparr>ws_hung := True\<rparr>)" by (rule wstep.hang [OF assms h])
  fix c'
  assume "wstep\<^sup>*\<^sup>* (c\<lparr>ws_hung := True\<rparr>) c'"
  then have *: "ws_hung c' \<and> ws_pc c' = InServe i"
    by (induction rule: rtranclp_induct) (use assms hung_stays in auto)
  then show "ws_pc c' = InServe i" ..
  show "\<not> (\<exists>c''. loop_step c' c'')" using * by (auto elim: loop_step.cases)
qed

section \<open>The secret\<close>

lemma contains_around:
  assumes "contains (x @ d # y) u" and "d \<notin> set u"
  shows "contains x u \<or> contains y u"
proof -
  obtain a b where ab: "x @ d # y = a @ u @ b" using assms(1) by (auto simp: contains_iff)
  show ?thesis
  proof (cases "length a + length u \<le> length x")
    case True
    have "x = take (length x) (a @ u @ b)" by (simp flip: ab)
    also have "\<dots> = a @ u @ take (length x - length a - length u) b" using True by simp
    finally show ?thesis unfolding contains_iff by blast
  next
    case F: False
    show ?thesis
    proof (cases "length a \<le> length x")
      case True
      have "d = (a @ u @ b) ! length x" by (simp flip: ab)
      also have "\<dots> = u ! (length x - length a)" using True F by (simp add: nth_append less_diff_conv2)
      finally have "d \<in> set u" using True F by (simp add: less_diff_conv2)
      with assms(2) show ?thesis ..
    next
      case False
      have "y = drop (Suc (length x)) (a @ u @ b)" by (simp flip: ab)
      also have "\<dots> = drop (Suc (length x)) a @ u @ b" using False by simp
      finally show ?thesis unfolding contains_iff by blast
    qed
  qed
qed

lemma replace_step:
  "old \<noteq> [] \<Longrightarrow> has_prefix (c # s) old \<Longrightarrow> replace_all (c # s) old n = n @ replace_all (drop (length old) (c # s)) old n"
  "old \<noteq> [] \<Longrightarrow> \<not> has_prefix (c # s) old \<Longrightarrow> replace_all (c # s) old n = c # replace_all s old n"
  "replace_all s [] n = s" "replace_all [] old n = []"
  by (simp_all add: replace_all.simps)

lemma replace_prefix_kept:
  "replace_all s old (CHR ''['' # m) = u @ b \<Longrightarrow> CHR ''['' \<notin> set u \<Longrightarrow> has_prefix s u"
proof (induction s arbitrary: u b)
  case Nil
  then show ?case by (simp add: replace_all.simps has_prefix_def)
next
  case (Cons c s)
  show ?case
  proof (cases u)
    case Nil
    then show ?thesis by (simp add: has_prefix_def)
  next
    case (Cons x v)
    consider "old = []" | "old \<noteq> []" "has_prefix (c # s) old" | "old \<noteq> []" "\<not> has_prefix (c # s) old" by blast
    then show ?thesis
    proof cases
      case 1
      then show ?thesis using Cons.prems(1) by (simp add: replace_step has_prefix_def)
    next
      case 2
      then show ?thesis using Cons.prems Cons by (simp add: replace_step)
    next
      case 3
      then have "x = c" "replace_all s old (CHR ''['' # m) = v @ b" using Cons.prems(1) Cons by (simp_all add: replace_step)
      then show ?thesis using Cons.IH [of v b] Cons.prems(2) Cons by (simp add: has_prefix_def)
    qed
  qed
qed

lemma redacted_free:
  assumes "old \<noteq> []" and "CHR ''['' \<notin> set old" and "CHR '']'' \<notin> set old" and "\<not> contains ''REDACTED'' old"
  shows "\<not> contains (replace_all s old ''[REDACTED]'') old"
proof (induction "length s" arbitrary: s rule: less_induct)
  case less
  show ?case
  proof (cases s)
    case Nil
    then show ?thesis using assms(1) by (simp add: replace_step)
  next
    case (Cons c s')
    show ?thesis
    proof (cases "has_prefix s old")
      case True
      let ?r = "replace_all (drop (length old) s) old ''[REDACTED]''"
      have r: "replace_all s old ''[REDACTED]'' = [] @ CHR ''['' # (''REDACTED'' @ CHR '']'' # ?r)"
        using True assms(1) Cons by (simp add: replace_step)
      have "\<not> contains ?r old" using less [of "drop (length old) s"] assms(1) Cons by simp
      then show ?thesis unfolding r using contains_around assms by (metis contains.simps(1))
    next
      case False
      let ?r = "replace_all s' old ''[REDACTED]''"
      have r: "replace_all s old ''[REDACTED]'' = c # ?r" using False assms(1) Cons by (simp add: replace_step)
      have "\<not> contains ?r old" using less [of s'] Cons by simp
      moreover have "\<not> has_prefix (c # ?r) old"
      proof
        assume "has_prefix (c # ?r) old"
        then have "replace_all s old (CHR ''['' # ''REDACTED]'') = old @ drop (length old) (c # ?r)"
          unfolding has_prefix_def r by (metis append_take_drop_id)
        from replace_prefix_kept [OF this assms(2)] False show False by blast
      qed
      ultimately show ?thesis unfolding r by simp
    qed
  qed
qed

definition odd_secret :: "string \<Rightarrow> bool" where
  "odd_secret s \<longleftrightarrow> s = [] \<or> CHR ''['' \<in> set s \<or> CHR '']'' \<in> set s \<or> contains ''REDACTED'' s"

lemma redact_free:
  "\<not> odd_secret (wg_secret (ws_cfg c)) \<Longrightarrow> \<not> contains (redact_secret c msg) (wg_secret (ws_cfg c))"
  using redacted_free [of "wg_secret (ws_cfg c)" msg] by (cases "msg = []") (simp_all add: redact_secret_def odd_secret_def)

definition secret_kept :: "WSClient \<Rightarrow> bool" where
  "secret_kept c \<longleftrightarrow> \<not> odd_secret (wg_secret (ws_cfg c)) \<and> \<not> contains (ws_lastError c) (wg_secret (ws_cfg c))"

lemma set_state_secret [simp]: "secret_kept c \<Longrightarrow> secret_kept (setState st msg c)"
  using redact_free [of c msg] by (simp add: secret_kept_def setState_def)

lemma secret_kept_cong: "secret_kept c \<Longrightarrow> ws_lastError d = ws_lastError c \<Longrightarrow> ws_cfg d = ws_cfg c \<Longrightarrow> secret_kept d"
  by (simp add: secret_kept_def)

lemma secret_clear: "secret_kept c \<Longrightarrow> ws_lastError d = [] \<Longrightarrow> ws_cfg d = ws_cfg c \<Longrightarrow> secret_kept d"
  by (auto simp: secret_kept_def odd_secret_def)

lemma loop_secret:
  assumes "loop_step c c'" and "secret_kept c"
  shows "secret_kept c'"
proof -
  have pc: "secret_kept (d\<lparr>ws_pc := p\<rparr>) = secret_kept d" for d p by (simp add: secret_kept_def)
  have up: "secret_kept (d\<lparr>ws_attempt := a, ws_active := i, ws_conns := n, ws_pc := p\<rparr>) = secret_kept d" for d a i n p
    by (simp add: secret_kept_def)
  have conn: "secret_kept (d\<lparr>ws_attempt := a, ws_active := i, ws_conns := n, ws_pc := p, ws_state := s, ws_lastError := [], ws_connectedAt := t,
      ws_reconnects := m, ws_attemptCount := k\<rparr>)" if "secret_kept d" for d a i n p s t m k
    by (rule secret_clear [OF that]) simp_all
  have sv: "secret_kept (set_service x d) = secret_kept d" "secret_kept (updateConfig cf d) = secret_kept d" for x d cf
    by (simp_all add: secret_kept_def)
  have sl: "secret_kept (enter_sleep r d) = secret_kept d" "secret_kept d \<Longrightarrow> secret_kept (fail_limit d)" for r d
    by (simp_all add: enter_sleep_def fail_limit_def pc)
  have rl: "secret_kept d \<Longrightarrow> secret_kept (retry_later r msg d)" for r msg d
    by (simp add: retry_later_def pc sl)
  from assms(1) show ?thesis
  proof cases
    case (fetched sidOf r statusText reply)
    then show ?thesis using assms(2)
      by (auto simp: after_fetch_def pc sv rl split: sum.splits endpoint_error.splits option.splits)
  next
    case (dialled now r err)
    then show ?thesis using assms(2) conn by (auto simp: after_dial_def up rl Let_def split: option.splits)
  next
    case (served e r)
    then show ?thesis using assms(2) by (auto simp: after_serve_def pc sl Let_def)
  qed (use assms(2) in \<open>auto simp: loop_top_def serve_end_def wake_def sleep_stopped_def pc intro: secret_kept_cong\<close>)
qed

lemma wstep_secret:
  assumes "wstep c c'" and "secret_kept c"
  shows "secret_kept c'"
  using assms(1)
proof cases
  case loop
  then show ?thesis using assms(2) by (rule loop_secret)
next
  case mark
  then show ?thesis using assms(2) by (auto simp: stop_mark_def intro: secret_clear secret_kept_cong)
next
  case (incoming conn decode raw fr)
  from incoming(3) show ?thesis by (rule incoming_cases) (use assms(2) in \<open>auto simp: secret_kept_def\<close>)
next
  case (data handler now ms conn req)
  then show ?thesis using data_same [of c handler now ms conn req] assms(2) by (simp add: same_status_def secret_kept_def LiveStatus_def)
qed (use assms(2) in \<open>auto simp: secret_kept_def stop_close_def sendPing_def\<close>)

interpretation ws_secret: inv_system wstep secret_kept
  by unfold_locales (rule wstep_secret)

lemma wstep_cfg: "wstep\<^sup>*\<^sup>* c c' \<Longrightarrow> ws_cfg c' = ws_cfg c"
proof (induction rule: rtranclp_induct)
  case (step d d')
  from step.hyps(2) have "ws_cfg d' = ws_cfg d"
  proof cases
    case loop
    then show ?thesis
      by (cases rule: loop_step.cases) (auto simp: stage_defs Let_def split: sum.splits endpoint_error.splits option.splits)
  next
    case (incoming conn decode raw fr)
    from incoming(3) show ?thesis by (rule incoming_cases) auto
  next
    case (data handler now ms conn req)
    then show ?thesis using data_same [of d handler now ms conn req] by (simp add: same_status_def)
  qed (auto simp: stop_mark_def stop_close_def sendPing_def)
  with step.IH show ?case by simp
qed simp

text \<open>The status never shows the secret of the application, whatever the errors of the platform, the dialler and the connection quote:
  in every reachable state the reported error does not contain it.  The secret is one that does not overlap with the replacement text.\<close>

theorem status_hides_secret:
  assumes "wstep\<^sup>*\<^sup>* (NewWSClient cfg) c" and "\<not> odd_secret (wg_secret cfg)"
  shows "\<not> contains (fst (snd (LiveStatus c))) (wg_secret cfg)"
proof -
  have "secret_kept (NewWSClient cfg)" using assms(2) by (auto simp: secret_kept_def NewWSClient_def odd_secret_def)
  with assms(1) have "secret_kept c" by (rule ws_secret.reach_good)
  moreover have "wg_secret (ws_cfg c) = wg_secret cfg" using wstep_cfg [OF assms(1)] by (simp add: NewWSClient_def)
  ultimately show ?thesis by (simp add: secret_kept_def LiveStatus_def)
qed

section \<open>Acknowledgements\<close>

lemma response_kept:
  "SeqID (response_frame ok ms req) = SeqID req" "LogID (response_frame ok ms req) = LogID req" "Service (response_frame ok ms req) = Service req"
  "Method (response_frame ok ms req) = Method req" "Payload (response_frame ok ms req) = Some (response_payload ok)"
  "GetHeader (response_frame ok ms req) k = (if k = bytes_of ''biz_rt'' then Some (bytes_of (fmt_nat ms)) else GetHeader req k)"
  by (simp_all add: response_frame_def SetHeader_def GetHeader_def find_set_header)

text \<open>C22. Every complete event is handled and acknowledged once.  A fragment that does not complete its message is only stored.  Otherwise the payload,
  reassembled if it came in parts, goes to the event handler once if there is one and it is not empty, and exactly one frame is written to the
  connection, which a receiver decodes to the identifiers, service, method and headers of the request with the duration added and code 200 or,
  when the handler failed, 500.\<close>

theorem event_acknowledged:
  assumes "ws_active c = Some conn" and "\<forall>ok. slice_ok (Marshal (response_frame ok ms req))"
    and "completed now req c = (p, re)" and "processDataFrame handler now ms conn req c = c'"
  shows "case p of
      None \<Rightarrow> c' = c\<lparr>ws_reassembler := re\<rparr>
    | Some payload \<Rightarrow> ws_events c' = ws_events c @ delivered handler (content payload) \<and> ws_reassembler c' = re
        \<and> (\<exists>wire f. ws_sent c' = ws_sent c @ [(conn, wire)] \<and> Unmarshal wire = Some (Inr f)
            \<and> SeqID f = SeqID req \<and> LogID f = LogID req \<and> Service f = Service req \<and> Method f = Method req
            \<and> Payload f = Some (response_payload (handler_ok handler (content payload)))
            \<and> (\<forall>k. GetHeader f k = (if k = bytes_of ''biz_rt'' then Some (bytes_of (fmt_nat ms)) else GetHeader req k)))"
proof (cases p)
  case None
  then show ?thesis using assms(3,4) by (simp add: data_form)
next
  case (Some payload)
  let ?f = "response_frame (handler_ok handler (content payload)) ms req"
  have "Unmarshal (Marshal ?f) = Some (Inr ?f)"
    using reads_loop [OF marshal_reads [OF assms(2) [rule_format]], of "[]"] assms(2) by (simp add: Unmarshal_def)
  moreover have "c' = write_frame conn (Marshal ?f) (c\<lparr>ws_reassembler := re, ws_events := ws_events c @ delivered handler (content payload)\<rparr>)"
    using assms(3,4) Some by (simp add: data_form)
  ultimately show ?thesis using assms(1) Some by (auto simp: write_frame_def response_kept intro!: exI [of _ "Marshal ?f"] exI [of _ ?f])
qed

section \<open>Pauses\<close>

text \<open>The pause before a reconnect is at least a tenth of a second; the first one is below the prescribed jitter and every later one is the
  prescribed interval, as long as the prescribed seconds fit the arithmetic.\<close>

theorem reconnect_pause:
  assumes "0 < rc_nonce conf" and "rc_nonce conf * 1000000000 < 2 ^ 63" and "0 < rc_interval conf" and "rc_interval conf * 1000000000 < 2 ^ 63"
  shows "(\<exists>d. backoff_pause r 0 conf = Some d \<and> 100000000 \<le> d \<and> d \<le> max 100000000 (rc_nonce conf * 1000000000))
    \<and> (a \<noteq> 0 \<longrightarrow> backoff_pause r a conf = Some (rc_interval conf * 1000000000))"
proof
  let ?n = "rc_nonce conf"
  have b: "wrap64 (?n * 1000) = ?n * 1000" by (rule wrap64_id) (use assms in linarith)+
  have r: "0 \<le> r mod (?n * 1000)" "r mod (?n * 1000) < ?n * 1000" using assms(1) by simp_all
  have "wrap64 (r mod (?n * 1000) * 1000000) = r mod (?n * 1000) * 1000000" by (rule wrap64_id) (use assms r in linarith)+
  then have "backoff_pause r 0 conf = Some (max 100000000 (r mod (?n * 1000) * 1000000))"
    using assms(1) b by (simp add: backoff_pause_def Let_def)
  moreover have "r mod (?n * 1000) * 1000000 \<le> ?n * 1000000000" using r by linarith
  then have "max 100000000 (r mod (?n * 1000) * 1000000) \<le> max 100000000 (?n * 1000000000)" by (rule max.mono [OF order.refl])
  ultimately show "\<exists>d. backoff_pause r 0 conf = Some d \<and> 100000000 \<le> d \<and> d \<le> max 100000000 (?n * 1000000000)"
    using max.cobounded1 by blast
  have "wrap64 (rc_interval conf * 1000000000) = rc_interval conf * 1000000000" by (rule wrap64_id) (use assms in linarith)+
  then show "a \<noteq> 0 \<longrightarrow> backoff_pause r a conf = Some (rc_interval conf * 1000000000)"
    using assms(3) by (simp add: backoff_pause_def secs_def)
qed

section \<open>Concrete runs\<close>

definition demo_cfg :: WSClientConfig where
  "demo_cfg = \<lparr>wg_member = ''A'', wg_appID = ''cli_a'', wg_secret = ''s3cret'', wg_base = []\<rparr>"

definition demo_reply :: "int \<Rightarrow> EndpointResp" where
  "demo_reply nonce = \<lparr>ep_status = 200, ep_json_error = None, ep_code = 0, ep_msg = [],
     ep_data = Some (''wss://x'', Some \<lparr>rc_count = 0, rc_interval = 0, rc_nonce = nonce, rc_ping = 0\<rparr>)\<rparr>"

definition demo_fetching :: WSClient where
  "demo_fetching = loop_top (NewWSClient demo_cfg)"

definition demo_serving :: "int \<Rightarrow> WSClient" where
  "demo_serving nonce = after_dial ''now'' 0 None (after_fetch (\<lambda>_. []) 0 (FetchEndpoint (\<lambda>_. []) (Inr (demo_reply nonce))) demo_fetching)"

lemma demo_fetching_simps: "ws_pc demo_fetching = InFetch" "ws_stopped demo_fetching = False" "ws_state demo_fetching = ''connecting''"
  by code_simp+

lemma demo_fetching_reach: "wstep\<^sup>*\<^sup>* (NewWSClient demo_cfg) demo_fetching"
  unfolding demo_fetching_def by (intro r_into_rtranclp wstep.loop loop_step.top) (simp add: NewWSClient_def)

lemma demo_dialing_pc: "ws_pc (after_fetch (\<lambda>_. []) 0 (FetchEndpoint (\<lambda>_. []) (Inr (demo_reply nonce))) demo_fetching) = InDial"
  by (simp add: after_fetch_def FetchEndpoint_def demo_reply_def)

lemma demo_serving_simps:
  "ws_pc (demo_serving nonce) = InServe 0" "ws_stopped (demo_serving nonce) = False" "ws_marked (demo_serving nonce) = False"
  "ws_hung (demo_serving nonce) = False" "ws_state (demo_serving nonce) = ''connected''" "ws_active (demo_serving nonce) = Some 0"
  by (simp_all add: demo_serving_def after_dial_def after_fetch_def FetchEndpoint_def demo_reply_def demo_fetching_def loop_top_def
      setState_def NewWSClient_def updateConfig_def set_service_def ParseInt32_def Atoi_def Let_def)

lemma demo_serving_reach: "wstep\<^sup>*\<^sup>* (NewWSClient demo_cfg) (demo_serving nonce)"
proof -
  let ?d = "after_fetch (\<lambda>_. []) 0 (FetchEndpoint (\<lambda>_. []) (Inr (demo_reply nonce))) demo_fetching"
  have "wstep demo_fetching ?d" by (intro wstep.loop loop_step.fetched demo_fetching_simps)
  moreover have "wstep ?d (demo_serving nonce)" unfolding demo_serving_def by (intro wstep.loop loop_step.dialled demo_dialing_pc)
  ultimately show ?thesis using demo_fetching_reach by (meson rtranclp.rtrancl_into_rtrancl)
qed

theorem ws_status_truthful_witness: "\<exists>i. ws_pc (demo_serving 30) = InServe i \<and> ws_active (demo_serving 30) = Some i"
  using ws_status_truthful [OF demo_serving_reach, of 30] by (simp add: demo_serving_simps)

theorem stop_is_final_witness:
  "LiveStatus (stop_close (stop_mark (demo_serving 30))) = LiveStatus (stop_mark (demo_serving 30))"
proof -
  let ?c = "stop_mark (demo_serving 30)"
  have "wstep\<^sup>*\<^sup>* (NewWSClient demo_cfg) ?c" using demo_serving_reach wstep.mark by (rule rtranclp.rtrancl_into_rtrancl)
  moreover have m: "ws_marked ?c" by (simp add: stop_mark_def demo_serving_simps)
  moreover have "wstep\<^sup>*\<^sup>* ?c (stop_close ?c)" by (intro r_into_rtranclp wstep.close m)
  ultimately show ?thesis using stop_is_final by blast
qed

theorem stop_ends_loop_witness:
  "\<exists>c''. loop_step (serve_end None (stop_close (stop_mark (demo_serving 30)))) c''"
proof -
  let ?c = "stop_close (stop_mark (demo_serving 30))"
  have c: "ws_stopped ?c" "ws_marked ?c" "\<not> ws_hung ?c" "ws_pc ?c = InServe 0"
    by (simp_all add: stop_close_def stop_mark_def demo_serving_simps)
  have "(loop_step ^^ 1) ?c (serve_end None ?c)" using loop_step.serve_stopped [OF c(4,3,2)] by auto
  from stop_ends_loop [OF c(1-3) this] show ?thesis by (simp add: serve_end_def)
qed

theorem frame_blocks_stop_witness:
  "\<not> (\<exists>c. loop_step (stop_close (stop_mark ((demo_serving 30)\<lparr>ws_hung := True\<rparr>))) c)"
proof -
  let ?d = "(demo_serving 30)\<lparr>ws_hung := True\<rparr>"
  have "wstep ?d (stop_mark ?d)" by (rule wstep.mark)
  moreover have "wstep (stop_mark ?d) (stop_close (stop_mark ?d))"
    by (rule wstep.close) (simp add: stop_mark_def demo_serving_simps)
  ultimately have "wstep\<^sup>*\<^sup>* ?d (stop_close (stop_mark ?d))" by (meson rtranclp.rtrancl_into_rtrancl rtranclp.rtrancl_refl)
  with frame_blocks_stop [OF demo_serving_simps(1), of "\<lambda>_. None" 30] show ?thesis by blast
qed

theorem status_hides_secret_witness:
  "\<not> contains (fst (snd (LiveStatus (after_fetch (\<lambda>_. []) 0 (FetchEndpoint (\<lambda>_. []) (Inl ''bad key s3cret'')) demo_fetching)))) ''s3cret''"
proof -
  have "wstep demo_fetching (after_fetch (\<lambda>_. []) 0 (FetchEndpoint (\<lambda>_. []) (Inl ''bad key s3cret'')) demo_fetching)"
    by (intro wstep.loop loop_step.fetched demo_fetching_simps)
  with demo_fetching_reach
  have "wstep\<^sup>*\<^sup>* (NewWSClient demo_cfg) (after_fetch (\<lambda>_. []) 0 (FetchEndpoint (\<lambda>_. []) (Inl ''bad key s3cret'')) demo_fetching)"
    by (rule rtranclp.rtrancl_into_rtrancl)
  moreover have "\<not> odd_secret (wg_secret demo_cfg)" by code_simp
  ultimately show ?thesis using status_hides_secret [of demo_cfg] by (simp add: demo_cfg_def)
qed

definition demo_frame :: Frame where
  "demo_frame = zeroFrame\<lparr>SeqID := 7, Method := 1, Payload := Some [1, 2], Headers := [\<lparr>hKey = bytes_of ''type'', hValue = bytes_of ''event''\<rparr>]\<rparr>"

theorem event_acknowledged_witness:
  "ws_events (processDataFrame (Some (\<lambda>_. True)) 0 5 0 demo_frame (demo_serving 30)) = ws_events (demo_serving 30) @ [[1, 2]]"
proof -
  have "length (Marshal (response_frame True 5 demo_frame)) < 200" "length (Marshal (response_frame False 5 demo_frame)) < 200" by code_simp+
  then have "length (Marshal (response_frame ok 5 demo_frame)) < 200" for ok by (cases ok) simp_all
  moreover have "(200 :: nat) < 2 ^ 63" by simp
  ultimately have s: "\<forall>ok. slice_ok (Marshal (response_frame ok 5 demo_frame))" unfolding slice_ok_def by (blast intro: less_trans)
  have "header_int demo_frame ''sum'' 1 = 1" "Payload demo_frame = Some [1, 2]" by code_simp+
  then have c: "completed 0 demo_frame (demo_serving 30) = (Some (Some [1, 2]), ws_reassembler (demo_serving 30))" by (simp add: completed_def)
  show ?thesis
    using event_acknowledged [OF demo_serving_simps(6) s c refl, of "Some (\<lambda>_. True)"] by (simp add: delivered_def content_def)
qed

theorem reconnect_pause_witness:
  "backoff_pause 7 3 (ws_conf (NewWSClient demo_cfg)) = Some 120000000000"
  using reconnect_pause [of "ws_conf (NewWSClient demo_cfg)" 7 3] by (simp add: NewWSClient_def)

text \<open>The server can crash the hub: a prescribed jitter of \<open>9223372036854776\<close> seconds becomes negative when it is turned into milliseconds, and
  the random number below it panics as soon as the connection is lost.\<close>

theorem reconnect_nonce_panics: "\<exists>c. wstep\<^sup>*\<^sup>* (NewWSClient demo_cfg) c \<and> ws_pc c = Crashed"
proof -
  let ?c = "demo_serving 9223372036854776" and ?e = "Some ''reset''"
  have "wstep ?c (serve_end ?e ?c)" by (intro wstep.loop loop_step.serve_failed) (simp_all add: demo_serving_simps)
  moreover have "wstep (serve_end ?e ?c) (after_serve 0 ?e (serve_end ?e ?c))" by (intro wstep.loop loop_step.served) (simp add: serve_end_def)
  moreover have "ws_pc (after_serve 0 ?e (serve_end ?e ?c)) = Crashed"
    by (simp add: after_serve_def limit_reached_def enter_sleep_def serve_end_def demo_serving_def after_dial_def after_fetch_def FetchEndpoint_def
        demo_reply_def demo_fetching_def loop_top_def setState_def NewWSClient_def updateConfig_def backoff_pause_def wrap64_def
        set_service_def ParseInt32_def Atoi_def Let_def)
  ultimately show ?thesis using demo_serving_reach by (meson rtranclp.rtrancl_into_rtrancl)
qed

end
