(* ===== verification/Spec2Isabelle.thy ===== *)
theory Spec2Isabelle
  imports Prelude Protocol Store Event_Sourcing Store_Coherence Store_Restart Store_Properties Store_Lookup Store_Compact
    Replay Codec Codec_Properties Fragment Dedupe RateLimit Hub Hub_Sessions Hub_Properties Hub_Dispatch
    Paths Sandbox Diff_Filter Redactor Config Config_Properties Agent Agent_Properties Daemon Daemon_Properties
    Tools Tools_Properties Ports Provider Provider_Properties Ask Ask_Properties Commands Commands_Properties Node Node_Properties
    Command_Line Command_Line_Properties
    Feishu Feishu_Properties Feishu_Flow Feishu_WS Feishu_WS_Properties
begin

text \<open>
  Verification of TalkIntent, a service through which members of a team ask each other's machines
  questions.  A \<^emph>\<open>hub\<close> (\<^verbatim>\<open>internal/hub\<close>) keeps members, invites, queries and audit trails in a
  \<^emph>\<open>store\<close> (\<^verbatim>\<open>internal/store\<close>), an append-only event log with indexes in memory.  A \<^emph>\<open>daemon\<close>
  (\<^verbatim>\<open>internal/daemon\<close>) on each member's machine connects to the hub by websocket; the hub routes a query to
  a session of the target member or keeps it in the offline queue.  Queries come from the command line
  through the REST handlers or from a Feishu chat (\<^verbatim>\<open>internal/feishu\<close>), whose long connection carries
  frames in a protobuf-like format.

  \<^bold>\<open>Theories and what they model.\<close>

  \<^item> \<open>Prelude\<close>: Go's maps as association lists with insertion order (\<open>gm_get\<close>, \<open>gm_put\<close>, ...), the string functions of
    package \<^verbatim>\<open>strings\<close> on ASCII, 64-bit wrap-around (\<open>wrap64\<close>), results as sums, the locale \<open>inv_system\<close> (a step
    relation and an invariant every step keeps).
  \<^item> \<open>Protocol\<close>: \<^verbatim>\<open>internal/protocol\<close>, the payloads and constants.
  \<^item> \<open>Store\<close>: \<^verbatim>\<open>internal/store/store.go\<close>, one definition per method on the record \<open>jsonlStore\<close>.  Write failures are a
    schedule in the state, so every error branch is reachable.  \<open>Event_Sourcing\<close> states what it means for the log to
    determine the indexes (locale \<open>event_log\<close>, interpreted on \<open>applyEvent\<close>); \<open>Store_Coherence\<close> proves it for every
    operation, \<open>Store_Restart\<close> draws the conclusion for a restart, \<open>Store_Compact\<close> for compaction, and \<open>Replay\<close> goes down to
    the bytes of \<^verbatim>\<open>events.jsonl\<close>, torn writes included.  \<open>Store_Properties\<close> has pairing, the offline queue and expiry;
    \<open>Store_Lookup\<close> the resolution of targets and the audit pages.
  \<^item> \<open>Codec\<close>, \<open>Codec_Properties\<close>: \<^verbatim>\<open>internal/feishu/codec.go\<close> on bytes (\<^typ>\<open>8 word\<close>) and 64-bit varints.  The decoding
    loops are partial functions into \<open>option\<close>, \<open>None\<close> meaning that the loop never ends; both that it ends and that it
    can fail to are theorems.  Locale \<open>prefix_codec\<close> is the contract of a self-delimiting encoding, interpreted
    for varints and length-prefixed fields; locale \<open>offset_loop\<close> the termination argument of the two loops.
  \<^item> \<open>Fragment\<close>, \<open>Dedupe\<close>: \<^verbatim>\<open>fragment.go\<close> and \<^verbatim>\<open>dedupe.go\<close>.  \<open>RateLimit\<close>: \<^verbatim>\<open>internal/hub/ratelimit.go\<close> with exact
    rationals in place of \<^verbatim>\<open>float64\<close>.
  \<^item> \<open>Hub\<close>: \<^verbatim>\<open>internal/hub/hub.go\<close>, one definition per handler on the record \<open>HubServer\<close>; frames written to daemons,
    channels of waiting requests and queries handed to Feishu are recorded in order in the state.  Sessions are shared
    objects and live in a heap.  \<open>Hub_Sessions\<close> proves the registry invariant for every interleaving of handlers
    (\<open>hub_step\<close>, an interpretation of \<open>inv_system\<close>) and the correctness of routing; \<open>Hub_Properties\<close> privacy, delivery of
    answers and one race; \<open>Hub_Dispatch\<close> the way of a query from submission to requeueing.
  \<^item> \<open>Paths\<close>: Go's \<^verbatim>\<open>path/filepath\<close> on Unix.  \<open>Sandbox\<close>: \<^verbatim>\<open>internal/probe/tools/tool.go\<close>, the deny list and the check that a
    path stays in the workspace, and the registry of tools, over a file system given by its link resolution.  \<open>Diff_Filter\<close>: the
    redaction of diffs in \<^verbatim>\<open>internal/probe/tools/builtin.go\<close>, equal to a reference that cuts the diff into chunks.
  \<^item> \<open>Redactor\<close>: the redaction of keys and addresses of \<^verbatim>\<open>internal/probe/probe.go\<close>, its patterns as a datatype of regular
    expressions with Go's leftmost-first matching.  \<open>Agent\<close>, \<open>Agent_Properties\<close>: the rest of that file, the dialogue of the
    probe agent with a language model (\<^verbatim>\<open>Run\<close>), with the provider, the tools and the clock as parameters.
  \<^item> \<open>Tools\<close>, \<open>Tools_Properties\<close>: the tools of \<^verbatim>\<open>internal/probe/tools/builtin.go\<close> over a record of what the operating system answers;
    \<^verbatim>\<open>filepath.Walk\<close> with its callbacks is the function \<open>walk\<close>, and locale \<open>file_search\<close> what the searching tools share.  \<open>Ports\<close>: the tool that lists
    listening ports, with the programs it falls back to and the addresses it replaces.
  \<^item> \<open>Provider\<close>, \<open>Provider_Properties\<close>: \<^verbatim>\<open>internal/probe/llm/provider.go\<close>, the two dialects of language models.  Locale \<open>dialect\<close> is the
    contract of a call (one exchange with one endpoint), interpreted for both; the dialogue of the agent is followed onto the wire.
  \<^item> \<open>Config\<close>, \<open>Config_Properties\<close>: \<^verbatim>\<open>internal/config\<close>, the configuration files of daemon and hub, their defaults,
    environment overrides, validation, redacted display, atomic replacement and the list of workspaces.
  \<^item> \<open>Daemon\<close>, \<open>Daemon_Properties\<close>: \<^verbatim>\<open>internal/daemon/daemon.go\<close>, one definition per event of a connection and per stage of a
    query's goroutine on the record \<open>daemon\<close>; the interleavings of the goroutines are the relation \<open>dstep\<close>, an
    interpretation of \<open>inv_system\<close>.  The probe agent is plugged in as the function that runs a query.
  \<^item> \<open>Feishu\<close>, \<open>Feishu_Properties\<close>: \<^verbatim>\<open>internal/feishu/feishu.go\<close>, \<^verbatim>\<open>events.go\<close> and \<^verbatim>\<open>handler.go\<close>, the client of the Feishu API, the events of
    a chat and their handler, over a platform that answers the n-th request of a client.  \<open>Feishu_Flow\<close> joins the handler with the
    dispatch of the hub.  \<open>Feishu_WS\<close>, \<open>Feishu_WS_Properties\<close>: \<^verbatim>\<open>ws_client.go\<close>, the long connection, with its run loop cut into the stages between
    two blocking calls and every interleaving with \<^verbatim>\<open>Stop\<close> and the readers as the relation \<open>wstep\<close>.

  \<^item> \<open>Ask\<close>, \<open>Ask_Properties\<close>: \<^verbatim>\<open>internal/cli/ask.go\<close> with \<^verbatim>\<open>internal/config/tls.go\<close>, the command that asks a teammate: the target in the question
    (equal to a reference, and joined with the resolution of the hub), submission, and the polling loop, a partial function that is
    proved to end once the clock has passed the deadline.
  \<^item> \<open>Commands\<close>, \<open>Commands_Properties\<close>: \<^verbatim>\<open>pair.go\<close>, \<^verbatim>\<open>invite.go\<close>, \<^verbatim>\<open>llm.go\<close>, \<^verbatim>\<open>workspace.go\<close>, \<^verbatim>\<open>members.go\<close>, \<^verbatim>\<open>history.go\<close>, the settings of \<^verbatim>\<open>hub.go\<close> and the tables
    of \<^verbatim>\<open>format.go\<close>, over a map of files.  Locale \<open>config_command\<close> is the contract of a command that saves the configuration, interpreted for
    pairing, the model settings and the workspaces.
  \<^item> \<open>Node\<close>, \<open>Node_Properties\<close>: \<^verbatim>\<open>daemon.go\<close>, \<^verbatim>\<open>process_unix.go\<close>, \<^verbatim>\<open>status.go\<close>, \<^verbatim>\<open>privacy.go\<close>, \<^verbatim>\<open>skill.go\<close>, \<^verbatim>\<open>web.go\<close>, \<^verbatim>\<open>version.go\<close>, the start of the hub, and
    \<^verbatim>\<open>internal/daemon/status.go\<close>: the background daemon with its PID file, and what the node shows of itself.
  \<^item> \<open>Command_Line\<close>, \<open>Command_Line_Properties\<close>: \<^verbatim>\<open>runner.go\<close> and \<^verbatim>\<open>cli.go\<close>, with package \<^verbatim>\<open>flag\<close> and the number formats of \<^verbatim>\<open>strconv\<close> as the program
    uses them; the command lines the program prints or starts itself are read back by it.

  \<^bold>\<open>Conventions.\<close>  A clock reading is an argument in nanoseconds and is taken once per operation (\<^verbatim>\<open>ConsumeInvite\<close> takes two).
  Random bytes are arguments, \<open>None\<close> for a failing \<^verbatim>\<open>rand.Read\<close>.  Cryptographic functions are the fields of the record
  \<open>crypto\<close>; theorems that need them assume \<open>crypto_ok\<close> (what was sealed can be opened, what was encoded decoded), and
  \<open>plain_crypto\<close> shows that it can hold.  Go integers are \<^typ>\<open>int\<close> with \<open>wrap64\<close> where a sum or product can leave 64
  bits.  A panic is a value (\<open>ErrPanic\<close>, \<open>PanicResponse\<close>, \<open>None\<close> of \<open>audit_page\<close>).  Iteration over a Go map follows the
  insertion order of its association list; where the code's result could depend on the order, a theorem says that it does not.
  No definition uses fuel: loops are structural, have a termination proof, or are partial functions.

  \<^bold>\<open>Not modelled.\<close>  The HTTP and websocket libraries, JSON text (bodies and events are taken decoded; for the log, the
  encoder is a parameter with a read-back law), logging, TLS, the file system beyond the outcomes an operation checks.
  Not modelled are also the test double \<^verbatim>\<open>internal/feishu/fake_server.go\<close>, the process functions for Windows, the signal handling of \<^verbatim>\<open>main.go\<close>, the usage texts package \<^verbatim>\<open>flag\<close> makes of the flag
  descriptions, and the parsing and printing of floating-point numbers, which is a parameter.
\<close>

end
